(* ===== verification/Mcpd_Prelude.thy ===== *)
theory Mcpd_Prelude
  imports Complex_Main "HOL-Library.AList"
begin

text \<open>
  What every component shares: Python exceptions as values, fallible results as sums,
  and Python dictionaries as insertion-ordered association lists.

  A Python \<open>dict\<close> keeps its keys in insertion order, an assignment to a known key keeps
  the key's place and an assignment to a new key appends it.  \<open>AList.update\<close> does
  exactly that, so a dictionary with keys \<open>'k\<close> is a list of pairs with distinct keys; the
  order is visible to the program (\<open>json.dumps\<close>, \<open>describe\<close>, the order of submitted jobs).
\<close>

named_theorems dict_simps \<open>lookup, key and distinctness facts of dictionaries\<close>
named_theorems res_simps \<open>facts about fallible results\<close>

section \<open>Exceptions and results\<close>

text \<open>
  The exceptions that the sources raise, catch or let pass.  \<open>OtherExc\<close> stands for any
  other class.  \<open>UsageError\<close> and \<open>ClickException\<close> are click's, \<open>McpdErr\<close> is the
  bindings' \<open>mcpd.McpdError\<close>.
\<close>

datatype exc =
    McpdErr string
  | ValueError string
  | KeyError string
  | TypeError string
  | IndexError
  | AttributeError string
  | OSErr string
  | RuntimeErr string
  | UsageError string
  | ClickException string
  | KeyboardInterrupt
  | OtherExc string

type_synonym 'a res = "exc + 'a"

definition bind_res :: "'a res \<Rightarrow> ('a \<Rightarrow> 'b res) \<Rightarrow> 'b res" where
  "bind_res r f = (case r of Inl e \<Rightarrow> Inl e | Inr a \<Rightarrow> f a)"

definition is_ok :: "'a res \<Rightarrow> bool" where
  "is_ok r = (case r of Inl _ \<Rightarrow> False | Inr _ \<Rightarrow> True)"

text \<open>A comprehension whose element expression may raise: the first exception wins.\<close>

fun traverse :: "('a \<Rightarrow> 'b res) \<Rightarrow> 'a list \<Rightarrow> 'b list res" where
  "traverse f [] = Inr []"
| "traverse f (x # xs) =
     (case f x of Inl e \<Rightarrow> Inl e
      | Inr y \<Rightarrow> (case traverse f xs of Inl e \<Rightarrow> Inl e | Inr ys \<Rightarrow> Inr (y # ys)))"

lemma bind_res_simps [simp, res_simps]:
  "bind_res (Inl e) f = Inl e"
  "bind_res (Inr a) f = f a"
  by (simp_all add: bind_res_def)

lemma is_ok_simps [simp, res_simps]:
  "is_ok (Inl e) = False"
  "is_ok (Inr a) = True"
  by (simp_all add: is_ok_def)

lemma is_ok_iff: "is_ok r \<longleftrightarrow> (\<exists>a. r = Inr a)"
  by (cases r) auto

lemma traverse_Inr_iff [res_simps]:
  "traverse f xs = Inr ys \<longleftrightarrow> list_all2 (\<lambda>x y. f x = Inr y) xs ys"
proof (induction xs arbitrary: ys)
  case Nil
  then show ?case by auto
next
  case (Cons x xs)
  show ?case
    by (cases "f x"; cases "traverse f xs"; cases ys) (auto simp: Cons.IH [symmetric])
qed

lemma traverse_map [res_simps]: "traverse f (map g xs) = traverse (f \<circ> g) xs"
  by (induction xs) (auto split: sum.splits)

lemma traverse_all_ok:
  "(\<And>x. x \<in> set xs \<Longrightarrow> f x = Inr (g x)) \<Longrightarrow> traverse f xs = Inr (map g xs)"
  by (induction xs) auto

lemma traverse_cong [fundef_cong]:
  "xs = ys \<Longrightarrow> (\<And>x. x \<in> set ys \<Longrightarrow> f x = g x) \<Longrightarrow> traverse f xs = traverse g ys"
  by (induction ys arbitrary: xs) (auto split: sum.splits)

section \<open>Statements that may raise\<close>

text \<open>
  A statement that changes a state: the state afterwards and the exception it ended with,
  if any.  What was assigned before the exception stays assigned.
\<close>

type_synonym 's outcome = "'s \<times> exc option"

definition and_then :: "'s outcome \<Rightarrow> ('s \<Rightarrow> 's outcome) \<Rightarrow> 's outcome" where
  "and_then r f = (case r of (s, Some e) \<Rightarrow> (s, Some e) | (s, None) \<Rightarrow> f s)"

text \<open>A \<open>for\<close> loop: an exception ends it.\<close>

fun for_each :: "('a \<Rightarrow> 's \<Rightarrow> 's outcome) \<Rightarrow> 'a list \<Rightarrow> 's \<Rightarrow> 's outcome" where
  "for_each f [] s = (s, None)"
| "for_each f (x # xs) s = and_then (f x s) (for_each f xs)"

text \<open>An expression that may raise, used in a statement.\<close>

definition with_res :: "'a res \<Rightarrow> 's \<Rightarrow> ('a \<Rightarrow> 's outcome) \<Rightarrow> 's outcome" where
  "with_res r s f = (case r of Inl e \<Rightarrow> (s, Some e) | Inr a \<Rightarrow> f a)"

definition opt_res :: "exc \<Rightarrow> 'a option \<Rightarrow> 'a res" where
  "opt_res e x = (case x of None \<Rightarrow> Inl e | Some a \<Rightarrow> Inr a)"

lemma outcome_simps [simp, res_simps]:
  "and_then (s, Some e) f = (s, Some e)"
  "and_then (s, None) f = f s"
  "with_res (Inl e) s g = (s, Some e)"
  "with_res (Inr a) s g = g a"
  "opt_res e None = Inl e"
  "opt_res e (Some b) = Inr b"
  by (simp_all add: and_then_def with_res_def opt_res_def)

lemma opt_res_iff [res_simps]: "opt_res e x = Inr a \<longleftrightarrow> x = Some a"
  by (cases x) simp_all

lemma and_then_ok_iff:
  "and_then r f = (s', None) \<longleftrightarrow> (\<exists>s. r = (s, None) \<and> f s = (s', None))"
  by (cases r; cases "snd r") auto

text \<open>A property that every statement keeps, whether it raises or not.\<close>

lemma and_then_keeps:
  "P (fst r) \<Longrightarrow> (\<And>s. r = (s, None) \<Longrightarrow> P s \<Longrightarrow> P (fst (f s))) \<Longrightarrow> P (fst (and_then r f))"
  by (cases r; cases "snd r") auto

lemma for_each_keeps:
  "P s \<Longrightarrow> (\<And>x s. x \<in> set xs \<Longrightarrow> P s \<Longrightarrow> P (fst (f x s))) \<Longrightarrow> P (fst (for_each f xs s))"
  by (induction xs arbitrary: s) (auto intro: and_then_keeps)

lemma for_each_ok:
  "(\<And>x s. x \<in> set xs \<Longrightarrow> f x s = (g x s, None)) \<Longrightarrow> for_each f xs s = (fold g xs s, None)"
  by (induction xs arbitrary: s) auto

section \<open>Dictionaries\<close>

type_synonym ('k, 'v) dict = "('k \<times> 'v) list"

abbreviation dict_get :: "('k, 'v) dict \<Rightarrow> 'k \<Rightarrow> 'v option" where
  "dict_get d k \<equiv> map_of d k"

abbreviation dict_set :: "'k \<Rightarrow> 'v \<Rightarrow> ('k, 'v) dict \<Rightarrow> ('k, 'v) dict" where
  "dict_set k v d \<equiv> AList.update k v d"

abbreviation dict_keys :: "('k, 'v) dict \<Rightarrow> 'k list" where
  "dict_keys d \<equiv> map fst d"

definition dict_ok :: "('k, 'v) dict \<Rightarrow> bool" where
  "dict_ok d = distinct (map fst d)"

text \<open>\<open>d.get(k, v)\<close>\<close>

definition dict_get_or :: "('k, 'v) dict \<Rightarrow> 'k \<Rightarrow> 'v \<Rightarrow> 'v" where
  "dict_get_or d k v = (case map_of d k of None \<Rightarrow> v | Some x \<Rightarrow> x)"

text \<open>\<open>d.setdefault(k, v)\<close>: the dictionary afterwards (the value read is \<open>dict_get_or\<close>).\<close>

definition dict_setdefault :: "'k \<Rightarrow> 'v \<Rightarrow> ('k, 'v) dict \<Rightarrow> ('k, 'v) dict" where
  "dict_setdefault k v d = (case map_of d k of None \<Rightarrow> d @ [(k, v)] | Some _ \<Rightarrow> d)"

text \<open>\<open>d.pop(k, None)\<close> or \<open>del d[k]\<close>: the dictionary afterwards.\<close>

definition dict_remove :: "'k \<Rightarrow> ('k, 'v) dict \<Rightarrow> ('k, 'v) dict" where
  "dict_remove k d = filter (\<lambda>p. fst p \<noteq> k) d"

text \<open>\<open>d.update(e)\<close> and \<open>{**d, **e}\<close>\<close>

definition dict_update :: "('k, 'v) dict \<Rightarrow> ('k, 'v) dict \<Rightarrow> ('k, 'v) dict" where
  "dict_update d e = fold (\<lambda>(k, v). AList.update k v) e d"

lemma dict_ok_simps [simp, dict_simps]:
  "dict_ok []"
  "dict_ok (p # d) \<longleftrightarrow> fst p \<notin> set (map fst d) \<and> dict_ok d"
  by (auto simp: dict_ok_def)

lemma dict_get_set [simp, dict_simps]:
  "dict_get (dict_set k v d) k' = (if k = k' then Some v else dict_get d k')"
  by (simp add: update_conv')

lemma dict_ok_set [simp, dict_simps]: "dict_ok (dict_set k v d) = dict_ok d"
  by (induction d) (auto simp: update_keys dict_ok_def)

lemma dict_keys_set_present [dict_simps]:
  "k \<in> set (dict_keys d) \<Longrightarrow> dict_keys (dict_set k v d) = dict_keys d"
  by (induction d) auto

lemma dict_keys_set_absent [dict_simps]:
  "k \<notin> set (dict_keys d) \<Longrightarrow> dict_set k v d = d @ [(k, v)]"
  by (induction d) auto

lemma set_dict_keys_set [simp, dict_simps]:
  "fst ` set (dict_set k v d) = insert k (fst ` set d)"
  by (induction d) auto

lemma dict_get_remove [simp, dict_simps]:
  "dict_get (dict_remove k d) k' = (if k = k' then None else dict_get d k')"
  by (induction d) (auto simp: dict_remove_def)

lemma dict_ok_remove [simp, dict_simps]: "dict_ok d \<Longrightarrow> dict_ok (dict_remove k d)"
  by (induction d) (auto simp: dict_remove_def)

lemma dict_get_update [dict_simps]:
  "dict_get (dict_update d e) k = (case dict_get (rev e) k of None \<Rightarrow> dict_get d k | Some v \<Rightarrow> Some v)"
proof (induction e arbitrary: d)
  case Nil
  then show ?case by (simp add: dict_update_def)
next
  case (Cons p e)
  then show ?case
    by (cases p) (auto simp: dict_update_def map_add_def split: option.splits)
qed

lemma dict_get_rev: "dict_ok e \<Longrightarrow> dict_get (rev e) k = dict_get e k"
proof -
  assume "dict_ok e"
  then have "distinct (map fst e)" and "distinct (map fst (rev e))"
    by (simp_all add: dict_ok_def rev_map [symmetric])
  then have "map_of (rev e) = map_of e"
    by (simp add: map_of_inject_set)
  then show ?thesis by simp
qed

lemma dict_ok_update [simp, dict_simps]: "dict_ok (dict_update d e) = dict_ok d"
  unfolding dict_update_def by (induction e arbitrary: d) (simp_all add: case_prod_beta')

lemma dict_keys_update_subset [dict_simps]:
  "set (dict_keys e) \<subseteq> set (dict_keys d) \<Longrightarrow> dict_keys (dict_update d e) = dict_keys d"
proof (induction e arbitrary: d)
  case Nil
  then show ?case by (simp add: dict_update_def)
next
  case (Cons p e)
  obtain k v where p: "p = (k, v)" by (cases p)
  from Cons.prems p have k: "k \<in> set (dict_keys d)" by simp
  have sub: "set (dict_keys e) \<subseteq> set (dict_keys (dict_set k v d))"
    using Cons.prems by auto
  have "dict_keys (dict_update (dict_set k v d) e) = dict_keys (dict_set k v d)"
    using sub by (rule Cons.IH)
  with k p show ?case by (simp add: dict_update_def dict_keys_set_present)
qed

lemma dict_eqI:
  "dict_keys d = dict_keys e \<Longrightarrow> dict_ok d \<Longrightarrow>
   (\<And>k. k \<in> set (dict_keys d) \<Longrightarrow> dict_get d k = dict_get e k) \<Longrightarrow> d = e"
proof (induction d arbitrary: e)
  case Nil
  then show ?case by simp
next
  case (Cons p d)
  obtain q e' where e: "e = q # e'" using Cons.prems(1) by (cases e) auto
  have "fst p = fst q" using Cons.prems(1) e by simp
  moreover have "snd p = snd q"
    using Cons.prems(3) [of "fst p"] e \<open>fst p = fst q\<close> by (cases p; cases q) simp
  moreover have "d = e'"
  proof (rule Cons.IH)
    show "dict_keys d = dict_keys e'" using Cons.prems(1) e by simp
    show "dict_ok d" using Cons.prems(2) by simp
    fix k assume k: "k \<in> set (dict_keys d)"
    then have "k \<noteq> fst p" using Cons.prems(2) by (metis dict_ok_simps(2))
    with k Cons.prems(3) [of k] e \<open>fst p = fst q\<close>
    show "dict_get d k = dict_get e' k" by (cases p; cases q) auto
  qed
  ultimately show ?case using e by (simp add: prod_eq_iff)
qed

lemma map_of_map_Pair: "map_of (map (\<lambda>x. (f x, g x)) xs) k = map_option g (find (\<lambda>x. f x = k) xs)"
  by (induction xs) auto

lemma dict_get_in: "dict_get d k = Some v \<Longrightarrow> (k, v) \<in> set d"
  by (rule map_of_SomeD)

lemma dict_get_key: "dict_get d k = Some v \<Longrightarrow> k \<in> fst ` set d"
  by (force dest: map_of_SomeD)

lemma dict_keys_set_some [dict_simps]:
  "dict_get d k = Some v \<Longrightarrow> dict_keys (dict_set k w d) = dict_keys d"
  by (rule dict_keys_set_present) (simp add: dict_get_key)

text \<open>\<open>list.index\<close> with \<open>None\<close> for an element that is not there.\<close>

fun index_of :: "'a \<Rightarrow> 'a list \<Rightarrow> nat option" where
  "index_of x [] = None"
| "index_of x (y # ys) = (if y = x then Some 0 else map_option Suc (index_of x ys))"

lemma index_of_in: "x \<in> set xs \<Longrightarrow> \<exists>i. index_of x xs = Some i \<and> i < length xs \<and> xs ! i = x"
  by (induction xs) auto

subsection \<open>The mapping interface\<close>

text \<open>
  What the components rely on when they keep state in a dictionary keyed by device or by
  command: a lookup after a store gives the stored value and leaves other keys alone.
\<close>

locale mapping_store =
  fixes lookup :: "'m \<Rightarrow> 'k \<Rightarrow> 'v option"
    and store :: "'k \<Rightarrow> 'v \<Rightarrow> 'm \<Rightarrow> 'm"
    and remove :: "'k \<Rightarrow> 'm \<Rightarrow> 'm"
  assumes lookup_store: "lookup (store k v m) k' = (if k = k' then Some v else lookup m k')"
    and lookup_remove: "lookup (remove k m) k' = (if k = k' then None else lookup m k')"
begin

text \<open>Read, change, write back: the client pattern \<open>m[k].op()\<close>.\<close>

definition modify :: "'k \<Rightarrow> ('v \<Rightarrow> 'v) \<Rightarrow> 'm \<Rightarrow> 'm" where
  "modify k f m = (case lookup m k of None \<Rightarrow> m | Some v \<Rightarrow> store k (f v) m)"

lemma lookup_modify:
  "lookup (modify k f m) k' = (if k = k' then map_option f (lookup m k) else lookup m k')"
  by (auto simp: modify_def lookup_store split: option.splits)

lemma lookup_modify_other: "k \<noteq> k' \<Longrightarrow> lookup (modify k f m) k' = lookup m k'"
  by (simp add: lookup_modify)

lemma lookup_store_remove: "lookup (store k v (remove k m)) k' = lookup (store k v m) k'"
  by (simp add: lookup_store lookup_remove)

end

interpretation dict: mapping_store map_of AList.update dict_remove
  by unfold_locales simp_all

end
