(* ===== verification/Py_Text.thy ===== *)
theory Py_Text
  imports Mcpd_Prelude
begin

text \<open>
  The parts of Python's number formatting and parsing that the sources use: \<open>str(n)\<close>,
  \<open>f"{n:#x}"\<close>, \<open>f"{n:04X}"\<close> and its relatives, and \<open>int(s, base)\<close> as used by the
  \<open>hex\<close> arguments of the GUI (\<open>gui/commands.py\<close>) and by \<open>BASED_INT\<close> of the command
  line tool (\<open>cli/util.py\<close>).  Strings are the ASCII range of Python's strings.
\<close>

section \<open>Digits\<close>

function nat_digits :: "nat \<Rightarrow> nat \<Rightarrow> nat list" where
  "nat_digits b n = (if n < b \<or> b < 2 then [n] else nat_digits b (n div b) @ [n mod b])"
  by pat_completeness auto
termination
  by (relation "measure snd") (auto intro: div_less_dividend)

declare nat_digits.simps [simp del]

definition digit_char :: "bool \<Rightarrow> nat \<Rightarrow> char" where
  "digit_char upper d = char_of (if d < 10 then 48 + d else (if upper then 55 else 87) + d)"

definition digit_val :: "char \<Rightarrow> nat option" where
  "digit_val c = (let n = of_char c :: nat in
     if 48 \<le> n \<and> n \<le> 57 then Some (n - 48)
     else if 97 \<le> n \<and> n \<le> 122 then Some (n - 87)
     else if 65 \<le> n \<and> n \<le> 90 then Some (n - 55)
     else None)"

definition show_nat_base :: "bool \<Rightarrow> nat \<Rightarrow> nat \<Rightarrow> string" where
  "show_nat_base upper b n = map (digit_char upper) (nat_digits b n)"

definition show_nat :: "nat \<Rightarrow> string" where
  "show_nat n = show_nat_base False 10 n"

text \<open>\<open>str(n)\<close>\<close>

definition show_int :: "int \<Rightarrow> string" where
  "show_int n = (if n < 0 then ''-'' else '''') @ show_nat (nat \<bar>n\<bar>)"

text \<open>Zero padding to a width, the sign counted, as the format specifiers do it.\<close>

definition zero_pad :: "nat \<Rightarrow> string \<Rightarrow> string" where
  "zero_pad w s = replicate (w - length s) (CHR ''0'') @ s"

text \<open>\<open>f"{n:0wX}"\<close> (\<open>upper\<close>) and \<open>f"{n:0wx}"\<close>\<close>

definition fmt_hex :: "bool \<Rightarrow> nat \<Rightarrow> int \<Rightarrow> string" where
  "fmt_hex upper w n =
     (if n < 0 then ''-'' @ zero_pad (w - 1) (show_nat_base upper 16 (nat (- n)))
      else zero_pad w (show_nat_base upper 16 (nat n)))"

text \<open>\<open>f"{n:#0wx}"\<close> and, with \<open>b = 2\<close>, \<open>f"{n:#0wb}"\<close>: the prefix counts in the width.\<close>

definition fmt_alt :: "nat \<Rightarrow> string \<Rightarrow> nat \<Rightarrow> int \<Rightarrow> string" where
  "fmt_alt b prefix w n =
     (if n < 0 then ''-'' @ prefix @ zero_pad (w - 1 - length prefix) (show_nat_base False b (nat (- n)))
      else prefix @ zero_pad (w - length prefix) (show_nat_base False b (nat n)))"

abbreviation fmt_alt_hex :: "nat \<Rightarrow> int \<Rightarrow> string" where
  "fmt_alt_hex \<equiv> fmt_alt 16 ''0x''"

section \<open>Parsing: int(s, base)\<close>

text \<open>
  The digit loop: single underscores may separate digits; \<open>prev\<close> says that the last
  character was a digit.
\<close>

fun parse_digits :: "nat \<Rightarrow> bool \<Rightarrow> nat \<Rightarrow> string \<Rightarrow> nat option" where
  "parse_digits b prev acc [] = (if prev then Some acc else None)"
| "parse_digits b prev acc (c # cs) =
     (if c = CHR ''_'' then (if prev then parse_digits b False acc cs else None)
      else case digit_val c of
             None \<Rightarrow> None
           | Some d \<Rightarrow> if d < b then parse_digits b True (acc * b + d) cs else None)"

text \<open>After a base prefix one underscore is allowed before the first digit.\<close>

fun parse_after_prefix :: "nat \<Rightarrow> string \<Rightarrow> nat option" where
  "parse_after_prefix b [] = None"
| "parse_after_prefix b (c # cs) =
     (if c = CHR ''_'' then parse_digits b False 0 cs else parse_digits b False 0 (c # cs))"

text \<open>
  The magnitude for base 0: a \<open>0x\<close>, \<open>0o\<close> or \<open>0b\<close> prefix selects the base; without
  one the digits are decimal, and then a leading zero is accepted only if the value is zero.
\<close>

definition prefix_base :: "char \<Rightarrow> nat option" where
  "prefix_base c =
     (if c = CHR ''x'' \<or> c = CHR ''X'' then Some 16
      else if c = CHR ''o'' \<or> c = CHR ''O'' then Some 8
      else if c = CHR ''b'' \<or> c = CHR ''B'' then Some 2
      else None)"

fun parse_base0 :: "string \<Rightarrow> nat option" where
  "parse_base0 [] = None"
| "parse_base0 (c # cs) =
     (if c \<noteq> CHR ''0'' then parse_digits 10 False 0 (c # cs)
      else case cs of
             [] \<Rightarrow> Some 0
           | c2 # rest \<Rightarrow>
               (case prefix_base c2 of
                  Some b \<Rightarrow> parse_after_prefix b rest
                | None \<Rightarrow>
                    (case parse_digits 10 False 0 (c # cs) of
                       Some 0 \<Rightarrow> Some 0
                     | _ \<Rightarrow> None)))"

definition is_space :: "char \<Rightarrow> bool" where
  "is_space c = (let n = of_char c :: nat in n = 32 \<or> (9 \<le> n \<and> n \<le> 13) \<or> (28 \<le> n \<and> n \<le> 31))"

definition strip :: "string \<Rightarrow> string" where
  "strip s = rev (dropWhile is_space (rev (dropWhile is_space s)))"

text \<open>\<open>s.lower()\<close> of ASCII text\<close>

definition lower_char :: "char \<Rightarrow> char" where
  "lower_char c = (if (65 :: nat) \<le> of_char c \<and> of_char c \<le> (90 :: nat) then char_of (of_char c + 32 :: nat) else c)"

definition lower :: "string \<Rightarrow> string" where
  "lower s = map lower_char s"

text \<open>\<open>text in s\<close>\<close>

fun contains :: "string \<Rightarrow> string \<Rightarrow> bool" where
  "contains t [] = (t = [])"
| "contains t (c # s) = (take (length t) (c # s) = t \<or> contains t s)"

fun parse_signed :: "(string \<Rightarrow> nat option) \<Rightarrow> string \<Rightarrow> int option" where
  "parse_signed p [] = None"
| "parse_signed p (c # cs) =
     (if c = CHR ''-'' then map_option (\<lambda>n. - int n) (p cs)
      else if c = CHR ''+'' then map_option int (p cs)
      else map_option int (p (c # cs)))"

text \<open>\<open>int(s, 0)\<close> and \<open>int(s)\<close>; \<open>None\<close> is ValueError.\<close>

definition py_int0 :: "string \<Rightarrow> int option" where
  "py_int0 s = parse_signed parse_base0 (strip s)"

definition py_int10 :: "string \<Rightarrow> int option" where
  "py_int10 s = parse_signed (parse_digits 10 False 0) (strip s)"

section \<open>Facts\<close>

lemma nat_digits_bound: "2 \<le> b \<Longrightarrow> d \<in> set (nat_digits b n) \<Longrightarrow> d < b"
proof (induction b n rule: nat_digits.induct)
  case (1 b n)
  then show ?case
    by (cases "n < b") (auto simp: nat_digits.simps [of b n])
qed

lemma nat_digits_nonempty [simp]: "nat_digits b n \<noteq> []"
  by (subst nat_digits.simps) simp

lemma nat_digits_value:
  "2 \<le> b \<Longrightarrow> foldl (\<lambda>a d. a * b + d) 0 (nat_digits b n) = n"
proof (induction b n rule: nat_digits.induct)
  case (1 b n)
  show ?case
  proof (cases "n < b")
    case True
    then show ?thesis by (simp add: nat_digits.simps [of b n])
  next
    case False
    with 1 show ?thesis
      by (simp add: nat_digits.simps [of b n])
  qed
qed

lemma hd_nat_digits: "2 \<le> b \<Longrightarrow> 0 < n \<Longrightarrow> hd (nat_digits b n) \<noteq> 0"
proof (induction b n rule: nat_digits.induct)
  case (1 b n)
  show ?case
  proof (cases "n < b")
    case True
    with 1 show ?thesis by (simp add: nat_digits.simps [of b n])
  next
    case False
    with 1 show ?thesis
      by (simp add: nat_digits.simps [of b n] div_greater_zero_iff)
  qed
qed

lemma nat_digits_zero [simp]: "2 \<le> b \<Longrightarrow> nat_digits b 0 = [0]"
  by (subst nat_digits.simps) simp

lemma digit_val_digit_char [simp]: "d < 36 \<Longrightarrow> digit_val (digit_char u d) = Some d"
  by (auto simp: digit_val_def digit_char_def Let_def)

lemma digit_char_zero [simp]: "digit_char u 0 = CHR ''0''"
  by (simp add: digit_char_def, code_simp)

lemma of_char_digit_char: "d < 36 \<Longrightarrow>
  (of_char (digit_char u d) :: nat) = (if d < 10 then 48 + d else (if u then 55 else 87) + d)"
  by (simp add: digit_char_def)

lemma digit_char_neq:
  assumes "d < 36"
  shows "digit_char u d \<noteq> CHR ''_''" and "digit_char u d \<noteq> CHR ''-''"
    and "digit_char u d \<noteq> CHR ''+''" and "\<not> is_space (digit_char u d)"
    and "digit_char u d = CHR ''0'' \<longleftrightarrow> d = 0"
proof -
  let ?n = "of_char (digit_char u d) :: nat"
  have n: "?n = (if d < 10 then 48 + d else (if u then 55 else 87) + d)"
    using assms by (rule of_char_digit_char)
  have "?n \<noteq> 95" "?n \<noteq> 45" "?n \<noteq> 43" and z: "?n = 48 \<longleftrightarrow> d = 0"
    using assms by (auto simp: n)
  moreover have "(of_char (CHR ''_'') :: nat) = 95" "(of_char (CHR ''-'') :: nat) = 45"
    "(of_char (CHR ''+'') :: nat) = 43" "(of_char (CHR ''0'') :: nat) = 48"
    by simp_all
  ultimately show "digit_char u d \<noteq> CHR ''_''" "digit_char u d \<noteq> CHR ''-''"
    "digit_char u d \<noteq> CHR ''+''" and "digit_char u d = CHR ''0'' \<longleftrightarrow> d = 0"
    by (metis of_char_eq_iff)+
  show "\<not> is_space (digit_char u d)"
    using assms by (auto simp: is_space_def n)
qed

lemma parse_digits_show:
  "2 \<le> b \<Longrightarrow> b \<le> 36 \<Longrightarrow> \<forall>d \<in> set ds. d < b \<Longrightarrow> prev \<or> ds \<noteq> [] \<Longrightarrow>
   parse_digits b prev acc (map (digit_char u) ds) = Some (foldl (\<lambda>a d. a * b + d) acc ds)"
proof (induction ds arbitrary: prev acc)
  case Nil
  then show ?case by simp
next
  case (Cons d ds)
  then have "d < 36" by simp
  with Cons show ?case by (simp add: digit_char_neq)
qed

lemma parse_digits_show_nat:
  "2 \<le> b \<Longrightarrow> b \<le> 36 \<Longrightarrow> parse_digits b False 0 (show_nat_base u b n) = Some n"
  unfolding show_nat_base_def
  by (subst parse_digits_show) (auto simp: nat_digits_value dest: nat_digits_bound)

lemma show_nat_base_nonempty [simp]: "show_nat_base u b n \<noteq> []"
  by (simp add: show_nat_base_def)

lemma show_nat_base_chars:
  assumes "2 \<le> b" "b \<le> 36" "c \<in> set (show_nat_base u b n)"
  shows "c \<noteq> CHR ''_'' \<and> c \<noteq> CHR ''-'' \<and> c \<noteq> CHR ''+'' \<and> \<not> is_space c"
proof -
  from assms(3) obtain d where "d \<in> set (nat_digits b n)" and c: "c = digit_char u d"
    by (auto simp: show_nat_base_def)
  with assms have "d < 36" using nat_digits_bound [of b d n] by simp
  then show ?thesis by (simp add: c digit_char_neq)
qed

lemma strip_id:
  assumes "s \<noteq> []" "\<not> is_space (hd s)" "\<not> is_space (last s)"
  shows "strip s = s"
proof -
  have "dropWhile is_space s = s" "dropWhile is_space (rev s) = rev s"
    using assms by (simp_all add: dropWhile_eq_self_iff hd_rev)
  then show ?thesis by (simp add: strip_def)
qed

lemma strip_no_space: "\<forall>c \<in> set s. \<not> is_space c \<Longrightarrow> strip s = s"
  by (cases "s = []") (simp add: strip_def, simp add: strip_id)

lemma parse_signed_show:
  assumes "2 \<le> b" "b \<le> 36" "p (show_nat_base u b n) = Some n"
  shows "parse_signed p (show_nat_base u b n) = Some (int n)"
proof -
  obtain c cs where s: "show_nat_base u b n = c # cs"
    by (cases "show_nat_base u b n") auto
  then have "c \<in> set (show_nat_base u b n)" by simp
  with assms(1,2) have "c \<noteq> CHR ''-''" "c \<noteq> CHR ''+''"
    using show_nat_base_chars by blast+
  with assms(3) s show ?thesis by simp
qed

lemma parse_base0_show_nat: "parse_base0 (show_nat n) = Some n"
proof (cases "n = 0")
  case True
  then show ?thesis
    by (simp add: show_nat_def show_nat_base_def digit_char_zero)
next
  case False
  obtain c cs where s: "show_nat n = c # cs"
    by (cases "show_nat n") (auto simp: show_nat_def)
  have "c = digit_char False (hd (nat_digits 10 n))"
    using s by (cases "nat_digits 10 n") (auto simp: show_nat_def show_nat_base_def)
  moreover have "hd (nat_digits 10 n) < 10"
    by (rule nat_digits_bound [of 10 _ n]) simp_all
  ultimately have "c \<noteq> CHR ''0''"
    using False hd_nat_digits [of 10 n] by (simp add: digit_char_neq)
  then have "parse_base0 (show_nat n) = parse_digits 10 False 0 (show_nat n)"
    by (simp add: s)
  then show ?thesis by (simp add: show_nat_def parse_digits_show_nat)
qed

lemma show_int_no_space: "c \<in> set (show_int n) \<Longrightarrow> \<not> is_space c"
  using show_nat_base_chars [of 10 c False]
  by (auto simp: show_int_def show_nat_def is_space_def split: if_splits)

lemma parse_signed_show_int:
  assumes "\<And>n. p (show_nat n) = Some n"
  shows "parse_signed p (strip (show_int n)) = Some n"
proof -
  have "strip (show_int n) = show_int n"
    by (rule strip_no_space) (blast dest: show_int_no_space)
  moreover have "parse_signed p (show_nat (nat n)) = Some (int (nat n))"
    unfolding show_nat_def
    by (rule parse_signed_show) (simp_all add: assms [unfolded show_nat_def])
  ultimately show ?thesis by (simp add: show_int_def assms)
qed

text \<open>\<open>int(str(n), 0) = int(str(n)) = n\<close>\<close>

lemma py_int0_show_int: "py_int0 (show_int n) = Some n"
  unfolding py_int0_def by (rule parse_signed_show_int) (rule parse_base0_show_nat)

lemma py_int10_show_int: "py_int10 (show_int n) = Some n"
  unfolding py_int10_def
  by (rule parse_signed_show_int) (simp add: show_nat_def parse_digits_show_nat)

lemma inj_show_int: "show_int m = show_int n \<longleftrightarrow> m = n"
  using py_int10_show_int by (metis option.inject)

text \<open>Zero padding does not change the parsed value of the digits after a prefix.\<close>

lemma parse_digits_zeros:
  "2 \<le> b \<Longrightarrow> prev \<or> 0 < k \<or> s \<noteq> [] \<Longrightarrow>
   parse_digits b prev 0 (replicate k (CHR ''0'') @ s) = parse_digits b (prev \<or> 0 < k) 0 s"
proof (induction k arbitrary: prev)
  case 0
  then show ?case by simp
next
  case (Suc k)
  have "digit_val (CHR ''0'') = Some 0" by (simp add: digit_val_def Let_def)
  with Suc show ?case by simp
qed

lemma parse_digits_prev:
  assumes "2 \<le> b" "b \<le> 36"
  shows "parse_digits b True 0 (show_nat_base u b n) = Some n"
proof -
  have "parse_digits b True 0 (map (digit_char u) (nat_digits b n)) =
      Some (foldl (\<lambda>a d. a * b + d) 0 (nat_digits b n))"
    using assms nat_digits_bound by (intro parse_digits_show) auto
  with assms show ?thesis by (simp add: show_nat_base_def nat_digits_value)
qed

lemma parse_padded:
  assumes "2 \<le> b" "b \<le> 36"
  shows "parse_after_prefix b (zero_pad w (show_nat_base u b n)) = Some n"
proof -
  let ?s = "zero_pad w (show_nat_base u b n)"
  obtain c cs where s: "?s = c # cs"
    by (cases ?s) (auto simp: zero_pad_def)
  have "c \<in> set ?s" by (simp add: s)
  then have "c = CHR ''0'' \<or> c \<in> set (show_nat_base u b n)"
    by (auto simp: zero_pad_def)
  then have "c \<noteq> CHR ''_''" using assms show_nat_base_chars by blast
  then have "parse_after_prefix b ?s = parse_digits b False 0 ?s" by (simp add: s)
  also have "\<dots> = parse_digits b (0 < w - length (show_nat_base u b n)) 0 (show_nat_base u b n)"
    using assms by (simp add: zero_pad_def parse_digits_zeros)
  also have "\<dots> = Some n"
    using assms by (cases "0 < w - length (show_nat_base u b n)")
      (simp_all add: parse_digits_prev parse_digits_show_nat)
  finally show ?thesis .
qed

text \<open>\<open>int(f"{n:#0wx}", 0) = n\<close>\<close>

lemma py_int0_fmt_alt_hex: "py_int0 (fmt_alt_hex w n) = Some n"
proof -
  have ns: "\<not> is_space c" if "c \<in> set (fmt_alt_hex w n)" for c
    using that show_nat_base_chars [of 16 c False]
    by (auto simp: fmt_alt_def zero_pad_def is_space_def split: if_splits)
  have "strip (fmt_alt_hex w n) = fmt_alt_hex w n"
    by (rule strip_no_space) (blast dest: ns)
  then show ?thesis
    by (simp add: py_int0_def fmt_alt_def prefix_base_def parse_padded)
qed

text \<open>
  A leading zero followed by another digit is not octal notation for \<open>int(s, 0)\<close>: unless
  the value is zero the string is rejected.
\<close>

lemma py_int0_leading_zero:
  assumes "0 < n"
  shows "py_int0 (CHR ''0'' # show_nat n) = None"
proof -
  let ?s = "CHR ''0'' # show_nat n"
  obtain d ds where d: "nat_digits 10 n = d # ds"
    by (cases "nat_digits 10 n") auto
  then have "d \<in> set (nat_digits 10 n)" by simp
  then have "d < 10" by (rule nat_digits_bound [rotated]) simp
  have sn: "show_nat n = digit_char False d # map (digit_char False) ds"
    by (simp add: show_nat_def show_nat_base_def d)
  have "(of_char (digit_char False d) :: nat) = 48 + d"
    using \<open>d < 10\<close> by (simp add: digit_char_def)
  then have pb: "prefix_base (digit_char False d) = None"
    using \<open>d < 10\<close> by (auto simp: prefix_base_def)
  have "\<forall>c \<in> set ?s. \<not> is_space c"
    using show_nat_base_chars [of 10 _ False n] by (auto simp: show_nat_def is_space_def)
  then have st: "strip ?s = ?s" by (rule strip_no_space)
  have "parse_digits 10 False 0 ?s = Some n"
    using parse_digits_zeros [of 10 False 1 "show_nat n"]
    by (simp add: show_nat_def parse_digits_prev)
  then have "parse_base0 ?s = None"
    using assms pb by (simp add: sn del: parse_digits.simps split: nat.split)
  then show ?thesis by (simp add: py_int0_def st)
qed

end
