(* ===== verification/Bindings.thy ===== *)
theory Bindings
  imports Py_Text
begin

text \<open>
  The \<open>mesytec_mcpd\<close> python bindings as the GUI and the command line tool see them
  (\<open>src/mesytec-mcpd/mesytec_mcpd_py.cc\<close>): Python values, the bound enums with their member
  names, the signatures of the \<open>McpdConnection\<close> methods and the replies they return.
  A connection is used through the three operations of the record \<open>api\<close>, which every definition
  that talks to a device takes as an argument; theory \<open>Connection\<close> has the instance that is the
  library's own code.
\<close>

section \<open>Values\<close>

datatype enum_type =
    TimingRole | BusTermination | CellName | TriggerSource | DataSource
  | ChannelPosition | PulserState | MpsdMode | MdllChannelPosition | MdllTxDataSet

text \<open>The member names in declaration order (\<open>__members__\<close>), with their values.\<close>

fun members :: "enum_type \<Rightarrow> (string \<times> int) list" where
  "members TimingRole = [(''Slave'', 0), (''Master'', 1)]"
| "members BusTermination = [(''Off'', 0), (''On'', 1)]"
| "members CellName =
     [(''Monitor0'', 0), (''Monitor1'', 1), (''Monitor2'', 2), (''Monitor3'', 3),
      (''DigitalIn1'', 4), (''DigitalIn2'', 5), (''ADC1'', 6), (''ADC2'', 7)]"
| "members TriggerSource =
     [(''NoTrigger'', 0), (''AuxTimer0'', 1), (''AuxTimer1'', 2), (''AuxTimer2'', 3),
      (''AuxTimer3'', 4), (''RisingEdgeRearInput1'', 5), (''RisingEdgeRearInput2'', 6),
      (''CompareRegister'', 7)]"
| "members DataSource =
     [(''Monitor0'', 0), (''Monitor1'', 1), (''Monitor2'', 2), (''Monitor3'', 3),
      (''DigitalIn1'', 4), (''DigitalIn2'', 5), (''AllDigitalAndAdcInputs'', 6),
      (''EventCounter'', 7), (''MasterClock'', 8)]"
| "members ChannelPosition = [(''Left'', 0), (''Right'', 1), (''Center'', 2)]"
| "members PulserState = [(''Off'', 0), (''On'', 1)]"
| "members MpsdMode = [(''Position'', 0), (''Amplitude'', 1)]"
| "members MdllChannelPosition = [(''LowerLeft'', 0), (''Middle'', 1), (''UpperRight'', 2)]"
| "members MdllTxDataSet = [(''Default'', 0), (''Timings'', 1)]"

fun class_name :: "enum_type \<Rightarrow> string" where
  "class_name TimingRole = ''TimingRole''"
| "class_name BusTermination = ''BusTermination''"
| "class_name CellName = ''CellName''"
| "class_name TriggerSource = ''TriggerSource''"
| "class_name DataSource = ''DataSource''"
| "class_name ChannelPosition = ''ChannelPosition''"
| "class_name PulserState = ''PulserState''"
| "class_name MpsdMode = ''MpsdMode''"
| "class_name MdllChannelPosition = ''MdllChannelPosition''"
| "class_name MdllTxDataSet = ''MdllTxDataSet''"

text \<open>
  Python values that reach a setting, a command argument or a setup file.  JSON values are
  the values without \<open>PEnum\<close>; floating point numbers do not occur in a setup.
\<close>

datatype pyval =
    PNone
  | PBool bool
  | PInt int
  | PStr string
  | PEnum enum_type string
  | PList "pyval list"
  | PDict "(string \<times> pyval) list"

text \<open>\<open>bool(v)\<close>\<close>

fun truthy :: "pyval \<Rightarrow> bool" where
  "truthy PNone = False"
| "truthy (PBool b) = b"
| "truthy (PInt n) = (n \<noteq> 0)"
| "truthy (PStr s) = (s \<noteq> [])"
| "truthy (PEnum t m) = True"
| "truthy (PList xs) = (xs \<noteq> [])"
| "truthy (PDict d) = (d \<noteq> [])"

text \<open>\<open>int(v)\<close>\<close>

fun py_int :: "pyval \<Rightarrow> int res" where
  "py_int (PInt n) = Inr n"
| "py_int (PBool b) = Inr (if b then 1 else 0)"
| "py_int (PStr s) =
     (case py_int10 s of None \<Rightarrow> Inl (ValueError s) | Some n \<Rightarrow> Inr n)"
| "py_int _ = Inl (TypeError ''int() argument'')"

text \<open>\<open>E[v]\<close>: members are found by name only.\<close>

fun enum_lookup :: "enum_type option \<Rightarrow> pyval \<Rightarrow> pyval res" where
  "enum_lookup None v = Inl (TypeError ''object is not subscriptable'')"
| "enum_lookup (Some t) (PStr s) =
     (if s \<in> set (map fst (members t)) then Inr (PEnum t s) else Inl (KeyError s))"
| "enum_lookup (Some t) (PList _) = Inl (TypeError ''unhashable type'')"
| "enum_lookup (Some t) (PDict _) = Inl (TypeError ''unhashable type'')"
| "enum_lookup (Some t) _ = Inl (KeyError ''not a member name'')"

text \<open>\<open>str(v)\<close> and \<open>repr(v)\<close>.\<close>

definition repr_char :: "char \<Rightarrow> char \<Rightarrow> string" where
  "repr_char q c =
     (if c = q \<or> c = CHR 92 then [CHR 92, c]
      else if c = CHR 10 then [CHR 92, CHR ''n'']
      else if c = CHR 13 then [CHR 92, CHR ''r'']
      else if c = CHR 9 then [CHR 92, CHR ''t'']
      else if (of_char c :: nat) < 32 \<or> (of_char c :: nat) = 127
        then [CHR 92, CHR ''x''] @ fmt_hex False 2 (of_char c)
      else [c])"

definition repr_str :: "string \<Rightarrow> string" where
  "repr_str s =
     (let q = (if CHR 39 \<in> set s \<and> CHR 34 \<notin> set s then CHR 34 else CHR 39)
      in [q] @ concat (map (repr_char q) s) @ [q])"

fun join :: "string \<Rightarrow> string list \<Rightarrow> string" where
  "join sep [] = []"
| "join sep [x] = x"
| "join sep (x # y # ys) = x @ sep @ join sep (y # ys)"

fun py_repr :: "pyval \<Rightarrow> string" where
  "py_repr PNone = ''None''"
| "py_repr (PBool b) = (if b then ''True'' else ''False'')"
| "py_repr (PInt n) = show_int n"
| "py_repr (PStr s) = repr_str s"
| "py_repr (PEnum t m) =
     ''<'' @ class_name t @ ''.'' @ m @ '': '' @ show_int (the (map_of (members t) m)) @ ''>''"
| "py_repr (PList xs) = ''['' @ join '', '' (map py_repr xs) @ '']''"
| "py_repr (PDict d) =
     ''{'' @ join '', '' (map (\<lambda>(k, v). repr_str k @ '': '' @ py_repr v) d) @ ''}''"

fun py_str :: "pyval \<Rightarrow> string" where
  "py_str (PStr s) = s"
| "py_str (PEnum t m) = class_name t @ ''.'' @ m"
| "py_str v = py_repr v"

section \<open>Connections\<close>

text \<open>A connection's target: address, id and port of \<open>McpdConnection(address, mcpd_id, port)\<close>.\<close>

type_synonym target = "string \<times> int \<times> int"

text \<open>A method call: name, positional and keyword arguments.\<close>

datatype call = Call (call_method: string) (call_args: "pyval list") (call_kwargs: "(string \<times> pyval) list")

text \<open>What the methods return.\<close>

datatype reply =
    RNone
  | RVersion "int \<times> int" "int \<times> int"            \<comment> \<open>\<open>McpdVersionInfo\<close>: cpu, fpga\<close>
  | RParams "int \<times> int" "int \<times> int" int int "int list" "int list"
      \<comment> \<open>\<open>McpdParams\<close>: adc, dac, ttl_out, ttl_in, event_counters, params\<close>
  | RCaps int int                                  \<comment> \<open>\<open>BusCapabilities\<close>: available, selected\<close>
  | RMpsd int int int int
      \<comment> \<open>\<open>MpsdParameters\<close>: mpsd_id, bus_tx_caps, tx_format, firmware_revision\<close>
  | RInt int
  | RInts "int list"

text \<open>
  The operations on a connection, over a state \<open>'w\<close> of the network and the devices and a
  type \<open>'c\<close> of open connections: opening may raise, a method call may raise, closing does
  not.  Every definition that uses connections has such a record as its argument.
\<close>

record ('w, 'c) api =
  api_open :: "'w \<Rightarrow> target \<Rightarrow> 'w \<times> 'c res"
  api_close :: "'w \<Rightarrow> 'c \<Rightarrow> 'w"
  api_call :: "'w \<Rightarrow> 'c \<Rightarrow> call \<Rightarrow> 'w \<times> reply res"

text \<open>
  A device network that records what happens on it; used to state which calls the code
  issues, and in the witnesses.  Calls for which \<open>fails\<close> holds raise \<open>McpdError\<close>.
\<close>

datatype net_event = EvOpen target | EvClose target | EvCall target call

definition recording_api ::
  "(target \<Rightarrow> call \<Rightarrow> bool) \<Rightarrow> (call \<Rightarrow> reply) \<Rightarrow> (net_event list, target) api" where
  "recording_api fails answer =
     \<lparr>api_open = (\<lambda>w t. (w @ [EvOpen t], Inr t)),
      api_close = (\<lambda>w t. w @ [EvClose t]),
      api_call = (\<lambda>w t c. (w @ [EvCall t c],
         if fails t c then Inl (McpdErr (call_method c)) else Inr (answer c)))\<rparr>"

section \<open>Method signatures\<close>

text \<open>
  The parameters of the bound methods that the GUI's command tables name: the C++ parameter
  type decides which Python values the binding accepts (an \<open>int\<close> in the type's range, a
  \<open>bool\<close>, a \<open>str\<close>, a member of the enum), and a parameter with a default may be left out.
\<close>

datatype ctype = CU8 | CU16 | CU32 | CU64 | CBool | CStr | CEnum enum_type

type_synonym param = "string \<times> ctype \<times> bool"

definition req :: "string \<Rightarrow> ctype \<Rightarrow> param" where
  "req n t = (n, t, False)"

definition binding_signatures :: "(string \<times> param list) list" where
  "binding_signatures =
   [(''get_version'', []),
    (''set_id'', [req ''new_id'' CU8]),
    (''set_ip_address'', [req ''address'' CStr]),
    (''set_data_dest_port'', [req ''port'' CU16]),
    (''set_ip_address_and_data_dest'',
       [req ''address'' CStr, req ''data_dest_address'' CStr, req ''data_dest_port'' CU16]),
    (''set_run_id'', [req ''run_id'' CU16]),
    (''reset_daq'', []), (''start_daq'', []), (''stop_daq'', []), (''continue_daq'', []),
    (''get_all_parameters'', []),
    (''get_bus_capabilities'', []),
    (''set_bus_capabilities'', [req ''cap_bits'' CU8]),
    (''set_timing_options'',
       [req ''role'' (CEnum TimingRole), req ''term'' (CEnum BusTermination),
        (''ext_sync'', CBool, True)]),
    (''set_master_clock_value'', [req ''clock'' CU64]),
    (''setup_cell'',
       [req ''cell'' (CEnum CellName), req ''trigger_source'' (CEnum TriggerSource),
        req ''compare_register_bit_value'' CU16]),
    (''setup_auxtimer'', [req ''timer_id'' CU16, req ''compare_register_value'' CU16]),
    (''set_param_source'', [req ''param'' CU16, req ''source'' (CEnum DataSource)]),
    (''set_dac_output_values'', [req ''dac0_value'' CU16, req ''dac1_value'' CU16]),
    (''scan_busses'', []),
    (''write_register'', [req ''address'' CU16, req ''value'' CU32]),
    (''read_register'', [req ''address'' CU16]),
    (''read_peripheral_register'', [req ''mpsd_id'' CU8, req ''register_number'' CU16]),
    (''write_peripheral_register'',
       [req ''mpsd_id'' CU8, req ''register_number'' CU16, req ''register_value'' CU16]),
    (''mpsd_set_gain'', [req ''mpsd_id'' CU8, req ''channel'' CU8, req ''gain'' CU8]),
    (''mpsd_set_threshold'', [req ''mpsd_id'' CU8, req ''threshold'' CU8]),
    (''mpsd_set_pulser'',
       [req ''mpsd_id'' CU8, req ''channel'' CU8, req ''position'' (CEnum ChannelPosition),
        req ''amplitude'' CU8, req ''state'' (CEnum PulserState)]),
    (''mpsd_set_mode'', [req ''mpsd_id'' CU8, req ''mode'' (CEnum MpsdMode)]),
    (''mpsd_set_tx_format'', [req ''mpsd_id'' CU8, req ''tx_format'' CU16]),
    (''mpsd_get_params'', [req ''mpsd_id'' CU8]),
    (''mstd_set_gain'', [req ''mstd_id'' CU8, req ''channel'' CU8, req ''gain'' CU8]),
    (''mdll_set_thresholds'',
       [req ''threshold_x'' CU8, req ''threshold_y'' CU8, req ''threshold_anode'' CU8]),
    (''mdll_set_spectrum'',
       [req ''shift_x'' CU16, req ''shift_y'' CU16, req ''scale_x'' CU16, req ''scale_y'' CU16]),
    (''mdll_set_pulser'',
       [req ''enable'' CBool, req ''amplitude'' CU16,
        req ''position'' (CEnum MdllChannelPosition)]),
    (''mdll_set_tx_data_set'', [req ''data_set'' (CEnum MdllTxDataSet)]),
    (''mdll_set_timing_window'',
       [req ''t_sum_limit_x_low'' CU32, req ''t_sum_limit_x_high'' CU32,
        req ''t_sum_limit_y_low'' CU32, req ''t_sum_limit_y_high'' CU32]),
    (''mdll_set_energy_window'', [req ''lower_threshold'' CU8, req ''upper_threshold'' CU8])]"

fun ctype_accepts :: "ctype \<Rightarrow> pyval \<Rightarrow> bool" where
  "ctype_accepts CU8 (PInt n) = (0 \<le> n \<and> n < 2 ^ 8)"
| "ctype_accepts CU16 (PInt n) = (0 \<le> n \<and> n < 2 ^ 16)"
| "ctype_accepts CU32 (PInt n) = (0 \<le> n \<and> n < 2 ^ 32)"
| "ctype_accepts CU64 (PInt n) = (0 \<le> n \<and> n < 2 ^ 64)"
| "ctype_accepts CBool (PBool b) = True"
| "ctype_accepts CStr (PStr s) = True"
| "ctype_accepts (CEnum t) (PEnum t' m) = (t = t' \<and> m \<in> set (map fst (members t)))"
| "ctype_accepts _ _ = False"

text \<open>
  A call with keyword arguments matches a signature: every keyword is a parameter whose type
  accepts the value, no keyword is given twice and no required parameter is missing.
\<close>

definition kwargs_match :: "param list \<Rightarrow> (string \<times> pyval) list \<Rightarrow> bool" where
  "kwargs_match ps kw \<longleftrightarrow>
     distinct (map fst kw) \<and>
     list_all (\<lambda>(k, v). case map_of ps k of None \<Rightarrow> False | Some (t, _) \<Rightarrow> ctype_accepts t v) kw \<and>
     list_all (\<lambda>(n, t, dflt). dflt \<or> n \<in> set (map fst kw)) ps"

definition binding_accepts :: "call \<Rightarrow> bool" where
  "binding_accepts c \<longleftrightarrow>
     (case map_of binding_signatures (call_method c) of
        None \<Rightarrow> False
      | Some ps \<Rightarrow> call_args c = [] \<and> kwargs_match ps (call_kwargs c))"

lemma members_distinct: "distinct (map fst (members t))"
  by (cases t) simp_all

lemma recording_api_simps [simp]:
  "api_open (recording_api f a) w t = (w @ [EvOpen t], Inr t)"
  "api_close (recording_api f a) w t = w @ [EvClose t]"
  "api_call (recording_api f a) w t c =
     (w @ [EvCall t c], if f t c then Inl (McpdErr (call_method c)) else Inr (a c))"
  by (simp_all add: recording_api_def)

end
