(* ===== verification/Commands.thy ===== *)
theory Commands
  imports Bindings
begin

text \<open>
  \<open>src/gui/commands.py\<close>: the declarative description of the commands the GUI offers.
  \<open>arg\<close> and \<open>command\<close> are the two dataclasses, \<open>convert\<close>, \<open>defaults\<close>,
  \<open>command_call\<close> and \<open>describe\<close> their methods.  The callables stored in a command
  (\<open>caller\<close>, \<open>on_success\<close>) are named by the datatypes \<open>caller_fn\<close> and
  \<open>on_success_fn\<close>; \<open>run_caller\<close> says what the first kind does, the second kind needs
  device configurations and is modelled in theory \<open>Config\<close>.
\<close>

section \<open>Arg and Command\<close>

datatype arg_kind = KInt | KBool | KEnum | KStr | KHex

record arg =
  arg_name :: string
  arg_kind :: arg_kind
  arg_default :: pyval
  arg_limits :: "(int \<times> int) option"
  arg_enum :: "enum_type option"
  arg_title :: "string option"

definition convert :: "arg \<Rightarrow> pyval \<Rightarrow> pyval res" where
  "convert a v =
     (case arg_kind a of
        KEnum \<Rightarrow> enum_lookup (arg_enum a) v
      | KHex \<Rightarrow>
          (case v of
             PStr s \<Rightarrow> (case py_int0 s of None \<Rightarrow> Inl (ValueError s) | Some n \<Rightarrow> Inr (PInt n))
           | _ \<Rightarrow> bind_res (py_int v) (\<lambda>n. Inr (PInt n)))
      | KInt \<Rightarrow> bind_res (py_int v) (\<lambda>n. Inr (PInt n))
      | KBool \<Rightarrow> Inr (PBool (truthy v))
      | KStr \<Rightarrow> Inr v)"

datatype caller_fn = SetDataDest | SetGains

datatype on_success_fn = UpdateId | UpdateAddress | UpdatePresentMpsds

record command =
  cmd_key :: string
  cmd_title :: string
  cmd_method :: string
  cmd_args :: "arg list"
  cmd_on_success :: "on_success_fn option"
  cmd_caller :: "caller_fn option"
  cmd_apply_all :: bool

definition defaults :: "command \<Rightarrow> (string, pyval) dict" where
  "defaults c = dict_update [] (map (\<lambda>a. (arg_name a, arg_default a)) (cmd_args c))"

text \<open>The value a call uses for an argument: \<open>values.get(a.name, a.default)\<close>.\<close>

definition arg_value :: "(string, pyval) dict \<Rightarrow> arg \<Rightarrow> pyval" where
  "arg_value vals a = dict_get_or vals (arg_name a) (arg_default a)"

definition call_kwargs_of ::
  "command \<Rightarrow> (string, pyval) dict \<Rightarrow> (string, pyval) dict \<Rightarrow> (string, pyval) dict res" where
  "call_kwargs_of cmd vals fixed =
     bind_res
       (traverse (\<lambda>a. bind_res (convert a (arg_value vals a)) (\<lambda>x. Inr (arg_name a, x))) (cmd_args cmd))
       (\<lambda>kw. Inr (dict_update fixed (dict_update [] kw)))"

definition describe :: "command \<Rightarrow> (string, pyval) dict \<Rightarrow> (string, pyval) dict \<Rightarrow> string" where
  "describe cmd vals fixed =
     (let parts = map (\<lambda>(k, v). k @ ''='' @ py_str v) fixed
                @ map (\<lambda>a. arg_name a @ ''='' @ py_str (arg_value vals a)) (cmd_args cmd)
      in cmd_method cmd @ ''('' @ join '', '' parts @ '')'')"

section \<open>Constants and argument helpers\<close>

definition u8 :: "string \<Rightarrow> int \<Rightarrow> string option \<Rightarrow> arg" where
  "u8 n d t = \<lparr>arg_name = n, arg_kind = KInt, arg_default = PInt d, arg_limits = Some (0, 255),
               arg_enum = None, arg_title = t\<rparr>"

definition u16 :: "string \<Rightarrow> int \<Rightarrow> arg" where
  "u16 n d = \<lparr>arg_name = n, arg_kind = KInt, arg_default = PInt d, arg_limits = Some (0, 65535),
              arg_enum = None, arg_title = None\<rparr>"

definition enum_arg :: "string \<Rightarrow> enum_type \<Rightarrow> string \<Rightarrow> arg" where
  "enum_arg n t d = \<lparr>arg_name = n, arg_kind = KEnum, arg_default = PStr d, arg_limits = None,
                     arg_enum = Some t, arg_title = None\<rparr>"

text \<open>Plain \<open>Arg(name, kind, default, limits=..., title=...)\<close> calls.\<close>

definition int_arg :: "string \<Rightarrow> int \<Rightarrow> int \<times> int \<Rightarrow> arg" where
  "int_arg n d l = \<lparr>arg_name = n, arg_kind = KInt, arg_default = PInt d, arg_limits = Some l,
                    arg_enum = None, arg_title = None\<rparr>"

definition bool_arg :: "string \<Rightarrow> bool \<Rightarrow> arg" where
  "bool_arg n d = \<lparr>arg_name = n, arg_kind = KBool, arg_default = PBool d, arg_limits = None,
                   arg_enum = None, arg_title = None\<rparr>"

definition str_arg :: "string \<Rightarrow> string \<Rightarrow> string \<Rightarrow> arg" where
  "str_arg n d t = \<lparr>arg_name = n, arg_kind = KStr, arg_default = PStr d, arg_limits = None,
                    arg_enum = None, arg_title = Some t\<rparr>"

definition hex_arg :: "string \<Rightarrow> arg" where
  "hex_arg n = \<lparr>arg_name = n, arg_kind = KHex, arg_default = PStr ''0x0000'', arg_limits = None,
                arg_enum = None, arg_title = None\<rparr>"

definition DeviceTypes :: "string list" where
  "DeviceTypes = [''mcpd'', ''mdll'']"

definition McpdBusCount :: nat where
  "McpdBusCount = 8"

definition MpsdChannelCount :: nat where
  "MpsdChannelCount = 8"

definition NoChangeAddress :: string where
  "NoChangeAddress = ''0.0.0.0''"

definition SenderAddress :: string where
  "SenderAddress = ''0.0.0.0''"

text \<open>A command with neither handlers nor \<open>apply_all=False\<close>.\<close>

definition plain_command :: "string \<Rightarrow> string \<Rightarrow> string \<Rightarrow> arg list \<Rightarrow> command" where
  "plain_command k t m as = \<lparr>cmd_key = k, cmd_title = t, cmd_method = m, cmd_args = as,
     cmd_on_success = None, cmd_caller = None, cmd_apply_all = True\<rparr>"

section \<open>Calling\<close>

text \<open>Statements that call methods one after the other: an exception ends the sequence.\<close>

fun call_seq :: "('w, 'c) api \<Rightarrow> 'w \<Rightarrow> 'c \<Rightarrow> call list \<Rightarrow> 'w \<times> reply res" where
  "call_seq api w c [] = (w, Inr RNone)"
| "call_seq api w c (m # ms) =
     (case api_call api w c m of
        (w', Inl e) \<Rightarrow> (w', Inl e)
      | (w', Inr _) \<Rightarrow> call_seq api w' c ms)"

text \<open>\<open>_set_data_dest(conn, address, port)\<close>\<close>

definition set_data_dest_calls :: "(string, pyval) dict \<Rightarrow> call list res" where
  "set_data_dest_calls kw =
     (case (dict_get kw ''address'', dict_get kw ''port'') of
        (Some a, Some p) \<Rightarrow>
          if set (dict_keys kw) \<subseteq> {''address'', ''port''} then
            Inr [Call ''set_ip_address_and_data_dest'' []
                  [(''address'', PStr NoChangeAddress), (''data_dest_address'', a),
                   (''data_dest_port'', p)]]
          else Inl (TypeError ''unexpected keyword argument'')
      | _ \<Rightarrow> Inl (TypeError ''missing argument''))"

text \<open>\<open>_set_gains(conn, mpsd_id, **gains)\<close>\<close>

definition gain_key :: "nat \<Rightarrow> string" where
  "gain_key ch = ''gain'' @ show_nat ch"

definition gain_call :: "pyval \<Rightarrow> nat \<Rightarrow> pyval \<Rightarrow> call" where
  "gain_call mpsd_id ch g =
     Call ''mpsd_set_gain'' [] [(''mpsd_id'', mpsd_id), (''channel'', PInt (int ch)), (''gain'', g)]"

definition set_gains_calls :: "(string, pyval) dict \<Rightarrow> call list res" where
  "set_gains_calls kw =
     (case dict_get kw ''mpsd_id'' of
        None \<Rightarrow> Inl (TypeError ''missing argument'')
      | Some mpsd_id \<Rightarrow>
          bind_res
            (traverse (\<lambda>ch. case dict_get (dict_remove ''mpsd_id'' kw) (gain_key ch) of
                             None \<Rightarrow> Inl (KeyError (gain_key ch)) | Some v \<Rightarrow> Inr v)
               [0..<MpsdChannelCount])
            (\<lambda>vals. Inr (if card (set vals) = 1
               then [gain_call mpsd_id MpsdChannelCount (hd vals)]
               else map (\<lambda>(ch, g). gain_call mpsd_id ch g) (enumerate 0 vals))))"

fun caller_calls :: "caller_fn \<Rightarrow> (string, pyval) dict \<Rightarrow> call list res" where
  "caller_calls SetDataDest kw = set_data_dest_calls kw"
| "caller_calls SetGains kw = set_gains_calls kw"

definition run_caller ::
  "('w, 'c) api \<Rightarrow> 'w \<Rightarrow> 'c \<Rightarrow> caller_fn \<Rightarrow> (string, pyval) dict \<Rightarrow> 'w \<times> reply res" where
  "run_caller api w c f kw =
     (case caller_calls f kw of Inl e \<Rightarrow> (w, Inl e) | Inr ms \<Rightarrow> call_seq api w c ms)"

text \<open>\<open>Command.call(conn, values, fixed)\<close>\<close>

definition command_call ::
  "('w, 'c) api \<Rightarrow> 'w \<Rightarrow> 'c \<Rightarrow> command \<Rightarrow> (string, pyval) dict \<Rightarrow> (string, pyval) dict
   \<Rightarrow> 'w \<times> reply res" where
  "command_call api w c cmd vals fixed =
     (case call_kwargs_of cmd vals fixed of
        Inl e \<Rightarrow> (w, Inl e)
      | Inr kw \<Rightarrow>
          (case cmd_caller cmd of
             Some f \<Rightarrow> run_caller api w c f kw
           | None \<Rightarrow> api_call api w c (Call (cmd_method cmd) [] kw)))"

section \<open>The tables\<close>

definition DataDest :: command where
  "DataDest =
     \<lparr>cmd_key = ''data_dest'', cmd_title = ''Data Destination (own Apply only)'',
      cmd_method = ''set_ip_address_and_data_dest'',
      cmd_args = [str_arg ''address'' SenderAddress ''address (0.0.0.0 = this pc)'', u16 ''port'' 54321],
      cmd_on_success = None, cmd_caller = Some SetDataDest, cmd_apply_all = False\<rparr>"

definition COMMON_SETTINGS :: "command list" where
  "COMMON_SETTINGS =
   [DataDest,
    plain_command ''timing'' ''Timing Options'' ''set_timing_options''
      [enum_arg ''role'' TimingRole ''Master'', enum_arg ''term'' BusTermination ''On'',
       bool_arg ''ext_sync'' False]]"

definition MDLL_SETTINGS :: "command list" where
  "MDLL_SETTINGS =
   [plain_command ''thresholds'' ''Thresholds'' ''mdll_set_thresholds''
      [u8 ''threshold_x'' 0 None, u8 ''threshold_y'' 0 None, u8 ''threshold_anode'' 0 None],
    plain_command ''spectrum'' ''Spectrum'' ''mdll_set_spectrum''
      [u16 ''shift_x'' 0, u16 ''shift_y'' 0, int_arg ''scale_x'' 0 (0, 1023), u16 ''scale_y'' 0],
    plain_command ''energy_window'' ''Energy Window'' ''mdll_set_energy_window''
      [u8 ''lower_threshold'' 0 None, u8 ''upper_threshold'' 255 None],
    plain_command ''timing_window'' ''Timing Window'' ''mdll_set_timing_window''
      [u16 ''t_sum_limit_x_low'' 0, u16 ''t_sum_limit_x_high'' 1024,
       u16 ''t_sum_limit_y_low'' 0, u16 ''t_sum_limit_y_high'' 1024],
    plain_command ''pulser'' ''Pulser'' ''mdll_set_pulser''
      [bool_arg ''enable'' False, int_arg ''amplitude'' 0 (0, 3),
       enum_arg ''position'' MdllChannelPosition ''Middle'']]"

definition MCPD_SETTINGS :: "command list" where
  "MCPD_SETTINGS = []"

definition GainSetting :: command where
  "GainSetting =
     \<lparr>cmd_key = ''gain'', cmd_title = ''Gain'', cmd_method = ''mpsd_set_gain'',
      cmd_args = map (\<lambda>ch. u8 (gain_key ch) 0 (Some (''channel '' @ show_nat ch))) [0..<MpsdChannelCount],
      cmd_on_success = None, cmd_caller = Some SetGains, cmd_apply_all = True\<rparr>"

definition MPSD_SETTINGS :: "command list" where
  "MPSD_SETTINGS =
   [GainSetting,
    plain_command ''threshold'' ''Threshold'' ''mpsd_set_threshold'' [u8 ''threshold'' 0 None],
    plain_command ''mode'' ''Mode'' ''mpsd_set_mode'' [enum_arg ''mode'' MpsdMode ''Position''],
    plain_command ''tx_format'' ''TX Format'' ''mpsd_set_tx_format'' [hex_arg ''tx_format'']]"

definition SETTINGS :: "command list" where
  "SETTINGS = COMMON_SETTINGS @ MDLL_SETTINGS @ MCPD_SETTINGS"

definition SETTINGS_BY_KEY :: "(string, command) dict" where
  "SETTINGS_BY_KEY = dict_update [] (map (\<lambda>c. (cmd_key c, c)) SETTINGS)"

definition settings_for :: "string \<Rightarrow> command list" where
  "settings_for device_type =
     COMMON_SETTINGS @ (if device_type = ''mdll'' then MDLL_SETTINGS else MCPD_SETTINGS)"

definition success_command ::
  "string \<Rightarrow> string \<Rightarrow> string \<Rightarrow> arg list \<Rightarrow> on_success_fn \<Rightarrow> command" where
  "success_command k t m as f = (plain_command k t m as)\<lparr>cmd_on_success := Some f\<rparr>"

definition COMMON_COMMANDS :: "command list" where
  "COMMON_COMMANDS =
   [plain_command ''get_version'' ''Get Version'' ''get_version'' [],
    plain_command ''get_all_parameters'' ''Get Parameters'' ''get_all_parameters'' [],
    plain_command ''read_register'' ''Read Register'' ''read_register'' [hex_arg ''address''],
    plain_command ''write_register'' ''Write Register'' ''write_register''
      [hex_arg ''address'', hex_arg ''value''],
    plain_command ''set_run_id'' ''Set Run Id'' ''set_run_id'' [u16 ''run_id'' 0],
    plain_command ''set_master_clock'' ''Set Master Clock'' ''set_master_clock_value''
      [int_arg ''clock'' 0 (0, 2 ^ 48 - 1)],
    plain_command ''setup_cell'' ''Setup Cell'' ''setup_cell''
      [enum_arg ''cell'' CellName ''Monitor0'', enum_arg ''trigger_source'' TriggerSource ''NoTrigger'',
       u16 ''compare_register_bit_value'' 0],
    plain_command ''setup_auxtimer'' ''Setup Aux Timer'' ''setup_auxtimer''
      [int_arg ''timer_id'' 0 (0, 3), u16 ''compare_register_value'' 0],
    plain_command ''set_param_source'' ''Set Param Source'' ''set_param_source''
      [int_arg ''param'' 0 (0, 3), enum_arg ''source'' DataSource ''Monitor0''],
    plain_command ''set_dac_output'' ''Set DAC Output'' ''set_dac_output_values''
      [u16 ''dac0_value'' 0, u16 ''dac1_value'' 0],
    success_command ''set_id'' ''Set Id'' ''set_id'' [u8 ''new_id'' 0 None] UpdateId,
    success_command ''set_ip_address'' ''Set IP Address (MCPD/MDLL v0/v1 only)'' ''set_ip_address''
      [str_arg ''address'' NoChangeAddress ''address (0.0.0.0 = no change)''] UpdateAddress,
    success_command ''set_ip_and_data_dest'' ''Set IP And Data Destination (MCPD/MDLL v0/v1 only)''
      ''set_ip_address_and_data_dest''
      [str_arg ''address'' NoChangeAddress ''address (0.0.0.0 = no change)'',
       str_arg ''data_dest_address'' SenderAddress ''data_dest_address (0.0.0.0 = this pc)'',
       u16 ''data_dest_port'' 54321] UpdateAddress,
    plain_command ''reset_daq'' ''Reset DAQ'' ''reset_daq'' [],
    plain_command ''start_daq'' ''Start DAQ'' ''start_daq'' [],
    plain_command ''stop_daq'' ''Stop DAQ'' ''stop_daq'' [],
    plain_command ''continue_daq'' ''Continue DAQ'' ''continue_daq'' []]"

definition MDLL_COMMANDS :: "command list" where
  "MDLL_COMMANDS =
   [plain_command ''set_tx_data_set'' ''Set TX Data Set'' ''mdll_set_tx_data_set''
      [enum_arg ''data_set'' MdllTxDataSet ''Default'']]"

definition ScanBusses :: command where
  "ScanBusses = success_command ''scan_busses'' ''Scan Busses'' ''scan_busses'' [] UpdatePresentMpsds"

definition MCPD_COMMANDS :: "command list" where
  "MCPD_COMMANDS = [ScanBusses]"

definition MPSD_COMMANDS :: "command list" where
  "MPSD_COMMANDS =
   [plain_command ''pulser'' ''Pulser'' ''mpsd_set_pulser''
      [int_arg ''channel'' 0 (0, int MpsdChannelCount - 1),
       enum_arg ''position'' ChannelPosition ''Center'', u8 ''amplitude'' 0 None,
       enum_arg ''state'' PulserState ''Off''],
    plain_command ''get_params'' ''Get Parameters'' ''mpsd_get_params'' [],
    plain_command ''read_register'' ''Read Register'' ''read_peripheral_register''
      [u16 ''register_number'' 0],
    plain_command ''write_register'' ''Write Register'' ''write_peripheral_register''
      [u16 ''register_number'' 0, hex_arg ''register_value'']]"

definition COMMANDS :: "command list" where
  "COMMANDS = COMMON_COMMANDS @ MDLL_COMMANDS @ MCPD_COMMANDS"

definition commands_for :: "string \<Rightarrow> command list" where
  "commands_for device_type =
     COMMON_COMMANDS @ (if device_type = ''mdll'' then MDLL_COMMANDS else MCPD_COMMANDS)"

section \<open>Results\<close>

definition show_pair :: "int \<times> int \<Rightarrow> string" where
  "show_pair p = ''('' @ show_int (fst p) @ '', '' @ show_int (snd p) @ '')''"

definition show_seq :: "string \<Rightarrow> string \<Rightarrow> int list \<Rightarrow> string" where
  "show_seq l r xs = l @ join '', '' (map show_int xs) @ r"

text \<open>
  \<open>format_result\<close>; the last case, \<open>str(result)\<close> of a bound object, is the argument
  \<open>obj_str\<close> (the repr that pybind11 gives an object of a class without \<open>__repr__\<close>).
\<close>

fun format_result :: "(reply \<Rightarrow> string) \<Rightarrow> reply \<Rightarrow> string" where
  "format_result obj_str RNone = ''ok''"
| "format_result obj_str (RVersion cpu fpga) =
     ''cpu='' @ show_int (fst cpu) @ ''.'' @ show_int (snd cpu) @ '', fpga='' @
     show_int (fst fpga) @ ''.'' @ show_int (snd fpga)"
| "format_result obj_str (RParams adc dac ttl_out ttl_in counters params) =
     ''adc='' @ show_pair adc @ '', dac='' @ show_pair dac @ '', ttl_out='' @ fmt_alt_hex 0 ttl_out @
     '', ttl_in='' @ fmt_alt_hex 0 ttl_in @ '', event_counters='' @ show_seq ''('' '')'' counters @
     '', params='' @ show_seq ''['' '']'' params"
| "format_result obj_str (RMpsd mpsd_id caps tx fw) =
     ''mpsd_id='' @ show_int mpsd_id @ '', bus_tx_caps='' @ fmt_alt_hex 0 caps @
     '', tx_format='' @ fmt_alt_hex 0 tx @ '', firmware_revision='' @ fmt_alt_hex 0 fw"
| "format_result obj_str (RInts xs) = ''['' @ join '', '' (map (fmt_alt_hex 0) xs) @ '']''"
| "format_result obj_str (RInt n) = show_int n @ '' ('' @ fmt_alt_hex 0 n @ '')''"
| "format_result obj_str (RCaps a s) = obj_str (RCaps a s)"

section \<open>Conversion\<close>

text \<open>
  What the parameter tree lets the user enter for an argument: a number within the limits,
  a check mark, a member name, a text, and for a \<open>hex\<close> argument a text that denotes a 16 bit
  number.
\<close>

definition arg_value_ok :: "arg \<Rightarrow> pyval \<Rightarrow> bool" where
  "arg_value_ok a v =
     (case arg_kind a of
        KInt \<Rightarrow> (case v of
            PInt n \<Rightarrow> (case arg_limits a of None \<Rightarrow> True | Some (lo, hi) \<Rightarrow> lo \<le> n \<and> n \<le> hi)
          | _ \<Rightarrow> False)
      | KBool \<Rightarrow> (case v of PBool _ \<Rightarrow> True | _ \<Rightarrow> False)
      | KEnum \<Rightarrow> (case (arg_enum a, v) of
            (Some t, PStr s) \<Rightarrow> s \<in> set (map fst (members t))
          | _ \<Rightarrow> False)
      | KStr \<Rightarrow> (case v of PStr _ \<Rightarrow> True | _ \<Rightarrow> False)
      | KHex \<Rightarrow> (case v of
            PStr s \<Rightarrow> (case py_int0 s of Some n \<Rightarrow> 0 \<le> n \<and> n < 2 ^ 16 | None \<Rightarrow> False)
          | _ \<Rightarrow> False))"

text \<open>An argument whose allowed values all convert to values of a C++ parameter type.\<close>

fun ctype_bound :: "ctype \<Rightarrow> int option" where
  "ctype_bound CU8 = Some (2 ^ 8)"
| "ctype_bound CU16 = Some (2 ^ 16)"
| "ctype_bound CU32 = Some (2 ^ 32)"
| "ctype_bound CU64 = Some (2 ^ 64)"
| "ctype_bound _ = None"

definition arg_fits :: "arg \<Rightarrow> ctype \<Rightarrow> bool" where
  "arg_fits a t =
     (case arg_kind a of
        KInt \<Rightarrow> (case (arg_limits a, ctype_bound t) of
            (Some (lo, hi), Some b) \<Rightarrow> 0 \<le> lo \<and> hi < b
          | _ \<Rightarrow> False)
      | KBool \<Rightarrow> t = CBool
      | KEnum \<Rightarrow> (case arg_enum a of Some e \<Rightarrow> t = CEnum e | None \<Rightarrow> False)
      | KStr \<Rightarrow> t = CStr
      | KHex \<Rightarrow> (case ctype_bound t of Some b \<Rightarrow> 2 ^ 16 \<le> b | None \<Rightarrow> False))"

lemma ctype_accepts_bound:
  "ctype_bound t = Some b \<Longrightarrow> ctype_accepts t (PInt n) \<longleftrightarrow> 0 \<le> n \<and> n < b"
  by (cases t) auto

lemma convert_fits:
  assumes "arg_fits a t" and "arg_value_ok a v"
  shows "\<exists>x. convert a v = Inr x \<and> ctype_accepts t x"
  using assms
  by (cases "arg_kind a"; cases v)
    (auto simp: arg_fits_def arg_value_ok_def convert_def ctype_accepts_bound
       split: option.splits prod.splits)

lemma convert_hex_roundtrip:
  "arg_kind a = KHex \<Longrightarrow> convert a (PStr (fmt_alt_hex w n)) = Inr (PInt n)"
  by (simp add: convert_def py_int0_fmt_alt_hex)

section \<open>Keyword arguments\<close>

lemma dict_update_map_new:
  "distinct (map fst kw) \<Longrightarrow> set (map fst kw) \<inter> set (map fst d) = {} \<Longrightarrow> dict_update d kw = d @ kw"
proof (induction kw arbitrary: d)
  case Nil
  then show ?case by (simp add: dict_update_def)
next
  case (Cons p kw)
  obtain k v where p: "p = (k, v)" by (cases p)
  have "dict_update d (p # kw) = dict_update (dict_set k v d) kw"
    by (simp add: dict_update_def p)
  also have "dict_set k v d = d @ [(k, v)]"
    using Cons.prems p by (intro dict_keys_set_absent) auto
  also have "dict_update (d @ [(k, v)]) kw = (d @ [(k, v)]) @ kw"
    using Cons.prems p by (intro Cons.IH) auto
  finally show ?case using p by simp
qed

definition args_distinct :: "command \<Rightarrow> (string, pyval) dict \<Rightarrow> bool" where
  "args_distinct cmd fixed \<longleftrightarrow> distinct (map fst fixed @ map arg_name (cmd_args cmd))"

text \<open>
  When every argument converts, the keyword arguments are the fixed ones followed by the
  converted ones in table order; when one does not, nothing is sent.
\<close>

lemma call_kwargs_of_ok:
  assumes "args_distinct cmd fixed"
    and "\<And>a. a \<in> set (cmd_args cmd) \<Longrightarrow> convert a (arg_value vals a) = Inr (f a)"
  shows "call_kwargs_of cmd vals fixed = Inr (fixed @ map (\<lambda>a. (arg_name a, f a)) (cmd_args cmd))"
proof -
  let ?kw = "map (\<lambda>a. (arg_name a, f a)) (cmd_args cmd)"
  have "traverse (\<lambda>a. bind_res (convert a (arg_value vals a)) (\<lambda>x. Inr (arg_name a, x))) (cmd_args cmd)
      = Inr ?kw"
    using assms(2) by (intro traverse_all_ok) simp
  moreover have "dict_update [] ?kw = ?kw"
    using assms(1) by (subst dict_update_map_new) (auto simp: args_distinct_def comp_def)
  moreover have "dict_update fixed ?kw = fixed @ ?kw"
    using assms(1) by (intro dict_update_map_new) (auto simp: args_distinct_def comp_def)
  ultimately show ?thesis by (simp add: call_kwargs_of_def)
qed

lemma traverse_Inl: "x \<in> set xs \<Longrightarrow> f x = Inl e \<Longrightarrow> \<exists>e'. traverse f xs = Inl e'"
  by (induction xs) (auto split: sum.splits)

lemma command_call_bad_value:
  assumes "a \<in> set (cmd_args cmd)" and "convert a (arg_value vals a) = Inl e"
  shows "\<exists>e'. command_call api w c cmd vals fixed = (w, Inl e')"
proof -
  let ?f = "\<lambda>a. bind_res (convert a (arg_value vals a)) (\<lambda>x. Inr (arg_name a, x))"
  from assms have "\<exists>e'. traverse ?f (cmd_args cmd) = Inl e'"
    by (intro traverse_Inl [of a]) auto
  then show ?thesis by (auto simp: command_call_def call_kwargs_of_def)
qed

section \<open>The calls of a command\<close>

definition command_calls ::
  "command \<Rightarrow> (string, pyval) dict \<Rightarrow> (string, pyval) dict \<Rightarrow> call list res" where
  "command_calls cmd vals fixed =
     bind_res (call_kwargs_of cmd vals fixed)
       (\<lambda>kw. case cmd_caller cmd of
               Some f \<Rightarrow> caller_calls f kw
             | None \<Rightarrow> Inr [Call (cmd_method cmd) [] kw])"

lemma call_seq_recording:
  "call_seq (recording_api (\<lambda>_ _. False) ans) w t ms = (w @ map (EvCall t) ms, Inr RNone)"
  by (induction ms arbitrary: w) simp_all

lemma command_call_recording:
  "fst (command_call (recording_api (\<lambda>_ _. False) ans) w t cmd vals fixed) =
     (case command_calls cmd vals fixed of Inl _ \<Rightarrow> w | Inr ms \<Rightarrow> w @ map (EvCall t) ms)"
  by (auto simp: command_call_def command_calls_def run_caller_def bind_res_def call_seq_recording
      split: sum.splits option.splits)

text \<open>The static check of a command against the signature of its method.\<close>

definition command_fits :: "string list \<Rightarrow> command \<Rightarrow> bool" where
  "command_fits fixed cmd =
     (case map_of binding_signatures (cmd_method cmd) of
        None \<Rightarrow> False
      | Some ps \<Rightarrow>
          distinct (fixed @ map arg_name (cmd_args cmd)) \<and>
          list_all (\<lambda>a. case map_of ps (arg_name a) of
                          None \<Rightarrow> False | Some (t, _) \<Rightarrow> arg_fits a t) (cmd_args cmd) \<and>
          list_all (\<lambda>n. case map_of ps n of None \<Rightarrow> False | Some (t, _) \<Rightarrow> t = CU8) fixed \<and>
          list_all (\<lambda>(n, t, dflt). dflt \<or> n \<in> set (fixed @ map arg_name (cmd_args cmd))) ps)"

lemma command_fits_accepts:
  assumes fits: "command_fits (map fst fixed) cmd"
    and vals: "\<forall>a \<in> set (cmd_args cmd). arg_value_ok a (arg_value vals a)"
    and fixed: "\<forall>(k, v) \<in> set fixed. ctype_accepts CU8 v"
  shows "\<exists>kw. call_kwargs_of cmd vals fixed = Inr kw \<and> binding_accepts (Call (cmd_method cmd) [] kw)"
proof -
  from fits obtain ps where ps: "map_of binding_signatures (cmd_method cmd) = Some ps"
    by (auto simp: command_fits_def split: option.splits)
  let ?ty = "\<lambda>a. fst (the (map_of ps (arg_name a)))"
  have A: "\<forall>a \<in> set (cmd_args cmd). case map_of ps (arg_name a) of
        None \<Rightarrow> False | Some (t, _) \<Rightarrow> arg_fits a t"
    and F: "\<forall>n \<in> set (map fst fixed). case map_of ps n of
        None \<Rightarrow> False | Some (t, _) \<Rightarrow> t = CU8"
    and R: "\<forall>p \<in> set ps. snd (snd p) \<or> fst p \<in> set (map fst fixed @ map arg_name (cmd_args cmd))"
    and dist: "args_distinct cmd fixed"
    using fits ps by (simp_all add: command_fits_def list_all_iff args_distinct_def split_def)
  have args: "\<exists>d. map_of ps (arg_name a) = Some (?ty a, d) \<and> arg_fits a (?ty a)"
    if "a \<in> set (cmd_args cmd)" for a
    using bspec [OF A that] by (auto split: option.splits)
  have "\<forall>a. \<exists>x. a \<in> set (cmd_args cmd) \<longrightarrow>
      convert a (arg_value vals a) = Inr x \<and> ctype_accepts (?ty a) x"
    using args vals convert_fits by blast
  then obtain f where f: "\<And>a. a \<in> set (cmd_args cmd) \<Longrightarrow> convert a (arg_value vals a) = Inr (f a)"
    and acc: "\<And>a. a \<in> set (cmd_args cmd) \<Longrightarrow> ctype_accepts (?ty a) (f a)"
    by metis
  let ?kw = "fixed @ map (\<lambda>a. (arg_name a, f a)) (cmd_args cmd)"
  have "kwargs_match ps ?kw"
    unfolding kwargs_match_def
  proof (intro conjI)
    show "distinct (map fst ?kw)"
      using dist by (simp add: args_distinct_def comp_def)
    have fx: "case map_of ps k of None \<Rightarrow> False | Some (t, _) \<Rightarrow> ctype_accepts t v"
      if "(k, v) \<in> set fixed" for k v
    proof -
      from that have "k \<in> set (map fst fixed)" by force
      from bspec [OF F this] obtain d where "map_of ps k = Some (CU8, d)"
        by (auto split: option.splits)
      then show ?thesis using fixed that by auto
    qed
    have ar: "case map_of ps (arg_name a) of None \<Rightarrow> False | Some (t, _) \<Rightarrow> ctype_accepts t (f a)"
      if a: "a \<in> set (cmd_args cmd)" for a
    proof -
      obtain d where "map_of ps (arg_name a) = Some (?ty a, d)"
        using args [OF a] by blast
      then show ?thesis
        using acc [OF a] by (cases "map_of ps (arg_name a)") auto
    qed
    show "list_all (\<lambda>(k, v). case map_of ps k of None \<Rightarrow> False | Some (t, _) \<Rightarrow> ctype_accepts t v) ?kw"
      using fx ar by (auto simp: list_all_iff)
    show "list_all (\<lambda>(n, t, dflt). dflt \<or> n \<in> set (map fst ?kw)) ps"
      using R by (auto simp: list_all_iff split_def image_image)
  qed
  then show ?thesis
    using call_kwargs_of_ok [OF dist f] ps by (simp add: binding_accepts_def)
qed

end
