(* ===== verification/Commands_Facts.thy ===== *)
theory Commands_Facts
  imports Commands
begin

text \<open>
  Facts about the command tables of \<open>src/gui/commands.py\<close>: every table entry fits the
  signature of the method it names, the defaults are allowed values, and the calls of the
  gain setting leave the device with the requested gains.
\<close>

section \<open>The tables fit the bindings\<close>

definition MPSD_TABLES :: "command list" where
  "MPSD_TABLES = MPSD_SETTINGS @ MPSD_COMMANDS"

definition DEVICE_TABLES :: "command list" where
  "DEVICE_TABLES = SETTINGS @ COMMANDS"

lemma device_tables_fit:
  "list_all (\<lambda>c. cmd_caller c = None \<longrightarrow> command_fits [] c) DEVICE_TABLES"
  by code_simp

lemma mpsd_tables_fit:
  "list_all (\<lambda>c. cmd_caller c = None \<longrightarrow> command_fits [''mpsd_id''] c) MPSD_TABLES"
  by code_simp

lemma device_tables_callers:
  "list_all (\<lambda>c. cmd_caller c \<noteq> None \<longrightarrow> c = DataDest) DEVICE_TABLES"
  by code_simp

lemma mpsd_tables_callers:
  "list_all (\<lambda>c. cmd_caller c \<noteq> None \<longrightarrow> c = GainSetting) MPSD_TABLES"
  by code_simp

lemma tables_defaults_ok:
  "list_all (\<lambda>c. list_all (\<lambda>a. arg_value_ok a (arg_default a)) (cmd_args c))
     (DEVICE_TABLES @ MPSD_TABLES)"
  by code_simp

lemma tables_arg_names:
  "list_all (\<lambda>c. distinct (map arg_name (cmd_args c))) (DEVICE_TABLES @ MPSD_TABLES)"
  by code_simp

text \<open>Where a command is offered: per device, or per MPSD with the bus as fixed argument.\<close>

definition bus_args :: "(string, pyval) dict list" where
  "bus_args = map (\<lambda>bus. [(''mpsd_id'', PInt (int bus))]) [0..<McpdBusCount]"

definition offered :: "command \<Rightarrow> (string, pyval) dict \<Rightarrow> bool" where
  "offered cmd fixed \<longleftrightarrow>
     cmd \<in> set DEVICE_TABLES \<and> fixed = [] \<or> cmd \<in> set MPSD_TABLES \<and> fixed \<in> set bus_args"

lemma bus_args_cases:
  assumes "fixed \<in> set bus_args"
  obtains bus where "fixed = [(''mpsd_id'', PInt (int bus))]" "bus < 8"
  using assms by (auto simp: bus_args_def McpdBusCount_def)

section \<open>The gain setting\<close>

lemma inj_show_nat: "show_nat m = show_nat n \<longleftrightarrow> m = n"
  using inj_show_int [of "int m" "int n"] by (simp add: show_int_def)

lemma gain_key_simps [simp]:
  "gain_key m = gain_key n \<longleftrightarrow> m = n"
  "gain_key m \<noteq> ''mpsd_id''" "''mpsd_id'' \<noteq> gain_key m"
  by (auto simp: gain_key_def inj_show_nat)

lemma map_of_map_key:
  "(\<And>x y. f x = f y \<longleftrightarrow> x = y) \<Longrightarrow>
   map_of (map (\<lambda>x. (f x, g x)) xs) (f x) = (if x \<in> set xs then Some (g x) else None)"
  by (induction xs) auto

lemma gain_args: "cmd_args GainSetting = map (\<lambda>ch. u8 (gain_key ch) 0 (Some (''channel '' @ show_nat ch))) [0..<8]"
  by (simp add: GainSetting_def MpsdChannelCount_def)

lemma card_image_one:
  "card (set (map g [0..<8])) = 1 \<longleftrightarrow> (\<exists>x. \<forall>ch < 8. g (ch :: nat) = x)"
proof
  assume "card (set (map g [0..<8])) = 1"
  then obtain x where x: "g ` {0..<8} = {x}"
    by (metis card_1_singletonE set_map atLeastLessThan_upt)
  have "g ch = x" if "ch < 8" for ch
    using that x by (metis atLeastLessThan_iff image_eqI singletonD zero_le)
  then show "\<exists>x. \<forall>ch < 8. g ch = x" by blast
next
  assume "\<exists>x. \<forall>ch < 8. g ch = x"
  then obtain x where x: "\<And>ch. ch < 8 \<Longrightarrow> g ch = x" by blast
  then have "g ` {0..<8 :: nat} = (\<lambda>_. x) ` {0..<8 :: nat}" by (intro image_cong) auto
  then have "g ` {0..<8 :: nat} = {x}" by (simp add: image_constant_conv)
  then show "card (set (map g [0..<8])) = 1" by simp
qed

lemma gain_caller: "cmd_caller GainSetting = Some SetGains"
  by (simp add: GainSetting_def)

lemma arg_value_ok_u8:
  "arg_value_ok (u8 n d t) v \<longleftrightarrow> (\<exists>k. v = PInt k \<and> 0 \<le> k \<and> k \<le> 255)"
  by (cases v) (auto simp: arg_value_ok_def u8_def)

text \<open>The requested gain of a channel.\<close>

definition gain_value :: "(string, pyval) dict \<Rightarrow> nat \<Rightarrow> int" where
  "gain_value vals ch = (case dict_get_or vals (gain_key ch) (PInt 0) of PInt n \<Rightarrow> n | _ \<Rightarrow> 0)"

lemma set_gains_calls_eq:
  assumes "kw = (''mpsd_id'', m) # map (\<lambda>ch. (gain_key ch, g ch)) [0..<8]"
  shows "set_gains_calls kw =
     Inr (if card (set (map g [0..<8])) = 1 then [gain_call m 8 (g 0)]
          else map (\<lambda>ch. gain_call m ch (g ch)) [0..<8])"
proof -
  have rm: "dict_remove ''mpsd_id'' kw = map (\<lambda>ch. (gain_key ch, g ch)) [0..<8]"
    by (simp add: assms dict_remove_def filter_map comp_def)
  have "traverse (\<lambda>ch. case dict_get (dict_remove ''mpsd_id'' kw) (gain_key ch) of
          None \<Rightarrow> Inl (KeyError (gain_key ch)) | Some v \<Rightarrow> Inr v) [0..<MpsdChannelCount]
      = Inr (map g [0..<8])"
    unfolding MpsdChannelCount_def rm
    by (rule traverse_all_ok) (simp add: map_of_map_key)
  moreover have "map (\<lambda>(ch, v). gain_call m ch v) (enumerate 0 (map g [0..<8])) =
      map (\<lambda>ch. gain_call m ch (g ch)) [0..<8]"
    by (simp add: enumerate_eq_zip upt_rec)
  moreover have "hd (map g [0..<8]) = g 0" by (simp add: upt_rec)
  ultimately show ?thesis
    by (simp add: set_gains_calls_def assms MpsdChannelCount_def del: upt.simps)
qed

lemma gain_calls_eq:
  assumes "\<forall>a \<in> set (cmd_args GainSetting). arg_value_ok a (arg_value vals a)"
  shows "command_calls GainSetting vals [(''mpsd_id'', m)] =
     Inr (if card (set (map (gain_value vals) [0..<8])) = 1
          then [gain_call m 8 (PInt (gain_value vals 0))]
          else map (\<lambda>ch. gain_call m ch (PInt (gain_value vals ch))) [0..<8])"
    and "ch < 8 \<Longrightarrow> 0 \<le> gain_value vals ch \<and> gain_value vals ch \<le> 255"
proof -
  let ?g = "\<lambda>ch. PInt (gain_value vals ch)"
  let ?u = "\<lambda>ch. u8 (gain_key ch) 0 (Some (''channel '' @ show_nat ch))"
  have ok: "\<exists>k. dict_get_or vals (gain_key ch) (PInt 0) = PInt k \<and> 0 \<le> k \<and> k \<le> 255"
    if "ch < 8" for ch
  proof -
    have "arg_value_ok (?u ch) (arg_value vals (?u ch))"
      using assms that by (simp add: gain_args)
    moreover have "arg_value vals (?u ch) = dict_get_or vals (gain_key ch) (PInt 0)"
      by (simp add: arg_value_def u8_def)
    ultimately show ?thesis by (simp add: arg_value_ok_u8)
  qed
  then show "ch < 8 \<Longrightarrow> 0 \<le> gain_value vals ch \<and> gain_value vals ch \<le> 255"
    by (fastforce simp: gain_value_def)
  have conv: "convert a (arg_value vals a) = Inr (dict_get_or vals (arg_name a) (PInt 0))"
    if "a \<in> set (cmd_args GainSetting)" for a
    using that ok by (fastforce simp: gain_args convert_def u8_def arg_value_def)
  have gk: "dict_get_or vals (gain_key ch) (PInt 0) = ?g ch" if "ch < 8" for ch
    using ok [OF that] by (auto simp: gain_value_def)
  have "args_distinct GainSetting [(''mpsd_id'', m)]"
    by (auto simp: args_distinct_def gain_args u8_def comp_def distinct_map inj_on_def)
  from call_kwargs_of_ok [OF this conv]
  have "call_kwargs_of GainSetting vals [(''mpsd_id'', m)] =
      Inr ((''mpsd_id'', m) # map (\<lambda>a. (arg_name a, dict_get_or vals (arg_name a) (PInt 0))) (cmd_args GainSetting))"
    by simp
  also have "map (\<lambda>a. (arg_name a, dict_get_or vals (arg_name a) (PInt 0))) (cmd_args GainSetting) =
      map (\<lambda>ch. (gain_key ch, ?g ch)) [0..<8]"
    using gk by (simp add: gain_args u8_def)
  finally have kw: "call_kwargs_of GainSetting vals [(''mpsd_id'', m)] =
      Inr ((''mpsd_id'', m) # map (\<lambda>ch. (gain_key ch, ?g ch)) [0..<8])" .
  have "card (set (map ?g [0..<8])) = card (set (map (gain_value vals) [0..<8]))"
    using card_image [of PInt "gain_value vals ` {0..<8}"] by (simp add: image_image inj_on_def)
  then show "command_calls GainSetting vals [(''mpsd_id'', m)] =
     Inr (if card (set (map (gain_value vals) [0..<8])) = 1
          then [gain_call m 8 (PInt (gain_value vals 0))]
          else map (\<lambda>ch. gain_call m ch (PInt (gain_value vals ch))) [0..<8])"
    using set_gains_calls_eq [OF refl, of m ?g]
    by (simp add: command_calls_def kw gain_caller del: upt.simps)
qed

text \<open>
  What \<open>mpsd_set_gain\<close> does to the eight gains of an MPSD: channel 8 addresses all channels
  (the comment above \<open>_set_gains\<close>), another channel its own gain.
\<close>

definition gain_effect :: "int list \<Rightarrow> call \<Rightarrow> int list" where
  "gain_effect gs c =
     (case (dict_get (call_kwargs c) ''channel'', dict_get (call_kwargs c) ''gain'') of
        (Some (PInt ch), Some (PInt g)) \<Rightarrow>
          if ch = int MpsdChannelCount then replicate (length gs) g
          else if 0 \<le> ch \<and> ch < int (length gs) then gs[nat ch := g] else gs
      | _ \<Rightarrow> gs)"

lemma gain_effect_call [simp]:
  "gain_effect gs (gain_call m ch (PInt g)) =
     (if ch = 8 then replicate (length gs) g else if ch < length gs then gs[ch := g] else gs)"
  by (simp add: gain_effect_def gain_call_def MpsdChannelCount_def)

lemma gain_call_sel [simp]:
  "call_method (gain_call m ch g) = ''mpsd_set_gain''"
  "dict_get (call_kwargs (gain_call m ch g)) ''mpsd_id'' = Some m"
  by (simp_all add: gain_call_def)

lemma foldl_gain_effect:
  "length gs = 8 \<Longrightarrow> k \<le> 8 \<Longrightarrow>
   foldl gain_effect gs (map (\<lambda>ch. gain_call m ch (PInt (g ch))) [0..<k]) = map g [0..<k] @ drop k gs"
proof (induction k)
  case 0
  then show ?case by simp
next
  case (Suc k)
  then show ?case
    by (simp add: list_update_append Cons_nth_drop_Suc [symmetric])
qed

section \<open>The properties\<close>

lemma gain_call_accepted:
  "binding_accepts (gain_call (PInt b) ch (PInt g)) \<longleftrightarrow>
     0 \<le> b \<and> b < 256 \<and> ch < 256 \<and> 0 \<le> g \<and> g < 256"
  by (auto simp: binding_accepts_def gain_call_def binding_signatures_def kwargs_match_def req_def)

lemma gain_calls_accepted:
  assumes "\<forall>a \<in> set (cmd_args GainSetting). arg_value_ok a (arg_value vals a)"
    and "0 \<le> b" "b < 256"
  shows "\<exists>ms. command_calls GainSetting vals [(''mpsd_id'', PInt b)] = Inr ms \<and> ms \<noteq> [] \<and>
     list_all binding_accepts ms"
proof -
  have "0 \<le> gain_value vals ch \<and> gain_value vals ch < 256" if "ch < 8" for ch
    using gain_calls_eq(2) [OF assms(1) that] by simp
  with assms(2,3) show ?thesis
    by (subst gain_calls_eq(1) [OF assms(1)])
      (auto simp: gain_call_accepted list_all_iff simp del: upt.simps)
qed

lemma data_dest_calls:
  assumes "\<forall>a \<in> set (cmd_args DataDest). arg_value_ok a (arg_value vals a)"
  shows "\<exists>a p. dict_get_or vals ''address'' (PStr SenderAddress) = PStr a \<and>
     dict_get_or vals ''port'' (PInt 54321) = PInt p \<and> 0 \<le> p \<and> p \<le> 65535 \<and>
     command_calls DataDest vals [] =
       Inr [Call ''set_ip_address_and_data_dest'' []
              [(''address'', PStr NoChangeAddress), (''data_dest_address'', PStr a),
               (''data_dest_port'', PInt p)]]"
proof -
  have "\<exists>a. dict_get_or vals ''address'' (PStr SenderAddress) = PStr a"
    using assms by (auto simp: DataDest_def str_arg_def arg_value_ok_def arg_value_def split: pyval.splits)
  moreover have "\<exists>p. dict_get_or vals ''port'' (PInt 54321) = PInt p \<and> 0 \<le> p \<and> p \<le> 65535"
    using assms by (auto simp: DataDest_def u16_def arg_value_ok_def arg_value_def split: pyval.splits)
  ultimately show ?thesis
    by (auto simp: command_calls_def call_kwargs_of_def DataDest_def str_arg_def u16_def convert_def
        arg_value_def dict_update_def set_data_dest_calls_def)
qed

lemma data_dest_accepted:
  assumes "\<forall>a \<in> set (cmd_args DataDest). arg_value_ok a (arg_value vals a)"
  shows "\<exists>ms. command_calls DataDest vals [] = Inr ms \<and> ms \<noteq> [] \<and> list_all binding_accepts ms"
  using data_dest_calls [OF assms]
  by (auto simp: binding_accepts_def binding_signatures_def kwargs_match_def req_def)

lemma plain_calls_accepted:
  assumes "cmd_caller cmd = None" "command_fits (map fst fixed) cmd"
    and "\<forall>a \<in> set (cmd_args cmd). arg_value_ok a (arg_value vals a)"
    and "\<forall>(k, v) \<in> set fixed. ctype_accepts CU8 v"
  shows "\<exists>ms. command_calls cmd vals fixed = Inr ms \<and> ms \<noteq> [] \<and> list_all binding_accepts ms"
  using command_fits_accepts [OF assms(2-4)] assms(1) by (auto simp: command_calls_def)

lemma offered_calls_accepted:
  assumes off: "offered cmd fixed"
    and vals: "\<forall>a \<in> set (cmd_args cmd). arg_value_ok a (arg_value vals a)"
  shows "\<exists>ms. command_calls cmd vals fixed = Inr ms \<and> ms \<noteq> [] \<and> list_all binding_accepts ms"
proof (cases "cmd_caller cmd = None")
  case True
  have "command_fits (map fst fixed) cmd \<and> (\<forall>(k, v) \<in> set fixed. ctype_accepts CU8 v)"
    using off True device_tables_fit mpsd_tables_fit
    by (auto simp: offered_def list_all_iff elim!: bus_args_cases)
  with True vals show ?thesis by (intro plain_calls_accepted) auto
next
  case False
  with off device_tables_callers mpsd_tables_callers
  consider "cmd = DataDest" "fixed = []"
    | bus where "cmd = GainSetting" "fixed = [(''mpsd_id'', PInt (int bus))]" "bus < 8"
    by (auto simp: offered_def list_all_iff elim!: bus_args_cases)
  then show ?thesis
    using vals by cases (auto intro!: data_dest_accepted gain_calls_accepted)
qed

text \<open>
  C1. Every command the GUI offers, for a device or for a bus, when its values are ones the
  parameter tree allows, issues at least one method call, and every call it issues names a
  method of the bindings with exactly the keyword arguments that method takes, each value
  in the range of the C++ parameter type: no command of the tables can fail with a
  \<open>TypeError\<close> or an unknown method.
\<close>

theorem commands_match_bindings:
  assumes "offered cmd fixed"
    and "\<forall>a \<in> set (cmd_args cmd). arg_value_ok a (arg_value vals a)"
  shows "\<exists>ms. fst (command_call (recording_api (\<lambda>_ _. False) ans) w t cmd vals fixed) = w @ map (EvCall t) ms
     \<and> ms \<noteq> [] \<and> list_all binding_accepts ms"
  using offered_calls_accepted [OF assms] by (auto simp: command_call_recording)

theorem commands_match_bindings_witness:
  "\<exists>ms. fst (command_call (recording_api (\<lambda>_ _. False) (\<lambda>_. RNone)) [] (''10.0.0.1'', 0, 54321)
       GainSetting [(''gain3'', PInt 7)] [(''mpsd_id'', PInt 5)]) = [] @ map (EvCall (''10.0.0.1'', 0, 54321)) ms
     \<and> ms \<noteq> [] \<and> list_all binding_accepts ms"
proof (rule commands_match_bindings)
  show "offered GainSetting [(''mpsd_id'', PInt 5)]" by code_simp
  show "\<forall>a \<in> set (cmd_args GainSetting). arg_value_ok a (arg_value [(''gain3'', PInt 7)] a)"
    by code_simp
qed

lemma gains_refinement_length:
  assumes "\<forall>a \<in> set (cmd_args GainSetting). arg_value_ok a (arg_value vals a)"
    and "length gs = MpsdChannelCount"
  shows "\<exists>ms. command_calls GainSetting vals [(''mpsd_id'', m)] = Inr ms
     \<and> foldl gain_effect gs ms = map (gain_value vals) [0..<MpsdChannelCount]
     \<and> list_all (\<lambda>c. call_method c = ''mpsd_set_gain'' \<and> dict_get (call_kwargs c) ''mpsd_id'' = Some m) ms
     \<and> length ms = (if \<exists>g. \<forall>ch < MpsdChannelCount. gain_value vals ch = g then 1 else MpsdChannelCount)"
proof -
  let ?g = "gain_value vals"
  note eq = card_image_one [of ?g]
  show ?thesis
  proof (cases "\<exists>x. \<forall>ch < 8. ?g ch = x")
    case True
    then obtain x where x: "\<And>ch. ch < 8 \<Longrightarrow> ?g ch = x" by blast
    from True have "command_calls GainSetting vals [(''mpsd_id'', m)] = Inr [gain_call m 8 (PInt (?g 0))]"
      using gain_calls_eq(1) [OF assms(1), of m] by (simp only: eq if_True)
    moreover have "replicate 8 (?g 0) = map ?g [0..<8]"
      using x by (intro nth_equalityI) auto
    then have "foldl gain_effect gs [gain_call m 8 (PInt (?g 0))] = map ?g [0..<8]"
      using assms(2) by (simp add: MpsdChannelCount_def del: upt.simps)
    ultimately show ?thesis
      using True by (simp add: MpsdChannelCount_def del: upt.simps)
  next
    case False
    let ?ms = "map (\<lambda>ch. gain_call m ch (PInt (?g ch))) [0..<8]"
    from False have "command_calls GainSetting vals [(''mpsd_id'', m)] = Inr ?ms"
      using gain_calls_eq(1) [OF assms(1), of m] by (simp only: eq if_False)
    moreover have "foldl gain_effect gs ?ms = map ?g [0..<8]"
      using foldl_gain_effect [of gs 8 m ?g] assms(2) by (simp add: MpsdChannelCount_def)
    moreover have "length ?ms = 8" by simp
    ultimately show ?thesis
      using False by (auto simp: MpsdChannelCount_def list_all_iff simp del: upt.simps)
  qed
qed

lemma gains_refinement:
  assumes "\<forall>a \<in> set (cmd_args GainSetting). arg_value_ok a (arg_value vals a)"
  shows "\<exists>ms. command_calls GainSetting vals [(''mpsd_id'', m)] = Inr ms
     \<and> (\<forall>gs. length gs = MpsdChannelCount \<longrightarrow> foldl gain_effect gs ms = map (gain_value vals) [0..<MpsdChannelCount])
     \<and> list_all (\<lambda>c. call_method c = ''mpsd_set_gain'' \<and> dict_get (call_kwargs c) ''mpsd_id'' = Some m) ms"
proof -
  obtain ms where ms: "command_calls GainSetting vals [(''mpsd_id'', m)] = Inr ms"
    "list_all (\<lambda>c. call_method c = ''mpsd_set_gain'' \<and> dict_get (call_kwargs c) ''mpsd_id'' = Some m) ms"
    using gains_refinement_length [OF assms, of "replicate MpsdChannelCount 0" m] by auto
  have "foldl gain_effect gs ms = map (gain_value vals) [0..<MpsdChannelCount]"
    if len: "length gs = MpsdChannelCount" for gs
  proof -
    obtain ms' where "command_calls GainSetting vals [(''mpsd_id'', m)] = Inr ms'"
      "foldl gain_effect gs ms' = map (gain_value vals) [0..<MpsdChannelCount]"
      using gains_refinement_length [OF assms len, of m] by blast
    with ms(1) show ?thesis by simp
  qed
  with ms show ?thesis by blast
qed

text \<open>
  C2. The gain setting refines "set the eight gains": whatever the gains of the MPSD were,
  the calls it issues leave them at the eight requested values, all calls go to the given
  bus, and a single call (to channel 8) is used exactly when the requested gains are equal.
\<close>

theorem gain_setting_sets_gains:
  assumes "\<forall>a \<in> set (cmd_args GainSetting). arg_value_ok a (arg_value vals a)"
    and "length gs = MpsdChannelCount"
  shows "\<exists>ms. command_calls GainSetting vals [(''mpsd_id'', m)] = Inr ms
     \<and> foldl gain_effect gs ms = map (gain_value vals) [0..<MpsdChannelCount]
     \<and> list_all (\<lambda>c. call_method c = ''mpsd_set_gain'' \<and> dict_get (call_kwargs c) ''mpsd_id'' = Some m) ms
     \<and> length ms = (if \<exists>g. \<forall>ch < MpsdChannelCount. gain_value vals ch = g then 1 else MpsdChannelCount)"
  using assms by (rule gains_refinement_length)

theorem gain_setting_sets_gains_witness:
  "\<exists>ms. command_calls GainSetting [(''gain5'', PInt 17)] [(''mpsd_id'', PInt 2)] = Inr ms
     \<and> foldl gain_effect [1, 2, 3, 4, 5, 6, 7, 8] ms = map (gain_value [(''gain5'', PInt 17)]) [0..<MpsdChannelCount]
     \<and> length ms = 8"
proof -
  have ok: "\<forall>a \<in> set (cmd_args GainSetting). arg_value_ok a (arg_value [(''gain5'', PInt 17)] a)"
    by code_simp
  have len: "length [1, 2, 3, 4, 5, 6, 7, 8 :: int] = MpsdChannelCount" by code_simp
  have "gain_value [(''gain5'', PInt 17)] 0 \<noteq> gain_value [(''gain5'', PInt 17)] 5"
    by code_simp
  then have "\<not> (\<exists>g. \<forall>ch < MpsdChannelCount. gain_value [(''gain5'', PInt 17)] ch = g)"
    by (metis MpsdChannelCount_def numeral_less_iff semiring_norm(76) semiring_norm(78) zero_less_numeral semiring_norm(81))
  with gain_setting_sets_gains [OF ok len, of "PInt 2"] show ?thesis
    by (auto simp: MpsdChannelCount_def)
qed

text \<open>
  If one of the values of a command does not convert, the command raises and nothing at
  all is sent to the device: the conversion of all arguments precedes the first call.
\<close>

theorem bad_value_sends_nothing:
  assumes "a \<in> set (cmd_args cmd)" and "convert a (arg_value vals a) = Inl e"
  shows "\<exists>e'. command_call api w c cmd vals fixed = (w, Inl e')"
  using assms by (rule command_call_bad_value)

theorem bad_value_sends_nothing_witness:
  "\<exists>e'. command_call (recording_api (\<lambda>_ _. False) (\<lambda>_. RNone)) [] (''10.0.0.1'', 0, 54321)
     (hd MPSD_SETTINGS) [(''gain0'', PInt 1), (''gain7'', PStr ''x'')] [(''mpsd_id'', PInt 0)] = ([], Inl e')"
  by (rule bad_value_sends_nothing [of "u8 (gain_key 7) 0 (Some ''channel 7'')" _ _ "ValueError ''x''"]) code_simp+

end
