(* ===== verification/Config.thy ===== *)
theory Config
  imports Commands_Facts
begin

text \<open>
  \<open>src/gui/config.py\<close>: the setup of the GUI (devices, their settings and the settings of
  the MPSDs on their busses) and its JSON form, and from \<open>src/gui/commands.py\<close> the handlers
  that change a device configuration after a command succeeded.

  A \<open>settings\<close> dictionary maps command keys to dictionaries of argument values.  The JSON
  form is a \<open>pyval\<close> without enum members (\<open>asdict\<close> on the one side, the result of
  \<open>json.loads\<close> on the other).  A setup file whose name, address, type or listfile directory
  is not a string is outside the model (\<open>as_str\<close>).
\<close>

section \<open>Settings\<close>

type_synonym settings = "(string, (string, pyval) dict) dict"

definition DefaultPort :: int where
  "DefaultPort = 54321"

text \<open>\<open>v.items()\<close> raises unless \<open>v\<close> is a dictionary.\<close>

fun items :: "pyval \<Rightarrow> (string \<times> pyval) list res" where
  "items (PDict d) = Inr d"
| "items _ = Inl (AttributeError ''items'')"

fun as_str :: "pyval \<Rightarrow> string res" where
  "as_str (PStr s) = Inr s"
| "as_str _ = Inl (OtherExc ''not a string'')"

definition known_only :: "(string, pyval) dict \<Rightarrow> (string \<times> pyval) list \<Rightarrow> (string \<times> pyval) list" where
  "known_only d v = filter (\<lambda>(k, x). k \<in> set (dict_keys d)) v"

fun merge_entries :: "settings \<Rightarrow> (string \<times> pyval) list \<Rightarrow> settings res" where
  "merge_entries r [] = Inr r"
| "merge_entries r ((key, v) # rest) =
     (case dict_get r key of
        None \<Rightarrow> merge_entries r rest
      | Some d \<Rightarrow>
          bind_res (items v)
            (\<lambda>kv. merge_entries (dict_set key (dict_update d (known_only d kv)) r) rest))"

definition default_settings :: "command list \<Rightarrow> settings" where
  "default_settings commands = dict_update [] (map (\<lambda>c. (cmd_key c, defaults c)) commands)"

definition merge_settings :: "command list \<Rightarrow> pyval \<Rightarrow> settings res" where
  "merge_settings commands vals =
     bind_res (items vals) (merge_entries (default_settings commands))"

text \<open>A settings dictionary as the Python value it is.\<close>

definition settings_val :: "settings \<Rightarrow> pyval" where
  "settings_val s = PDict (map (\<lambda>(k, d). (k, PDict d)) s)"

section \<open>Configurations\<close>

record mpsd_config =
  present :: bool
  mpsd_settings :: settings

definition default_mpsd :: "mpsd_config res" where
  "default_mpsd =
     bind_res (merge_settings MPSD_SETTINGS (PDict []))
       (\<lambda>s. Inr \<lparr>present = False, mpsd_settings = s\<rparr>)"

definition mpsd_from_dict :: "pyval \<Rightarrow> mpsd_config res" where
  "mpsd_from_dict v =
     bind_res (items v) (\<lambda>d.
     bind_res (merge_settings MPSD_SETTINGS (dict_get_or d ''settings'' (PDict []))) (\<lambda>s.
     Inr \<lparr>present = truthy (dict_get_or d ''present'' (PBool False)), mpsd_settings = s\<rparr>))"

record device_config =
  dev_name :: string
  address :: string
  mcpd_id :: int
  port :: int
  enabled :: bool
  device_type :: string
  settings :: settings
  mpsds :: "mpsd_config list"

text \<open>
  \<open>normalize\<close>, with the settings still as the value passed to the constructor:
  \<open>__post_init__\<close> is the same code on a fresh object.
\<close>

definition normalize_with :: "pyval \<Rightarrow> device_config \<Rightarrow> device_config res" where
  "normalize_with raw cfg =
     bind_res (merge_settings (settings_for (device_type cfg)) raw) (\<lambda>s.
     if device_type cfg = ''mcpd'' then
       bind_res default_mpsd (\<lambda>m.
       Inr (cfg\<lparr>settings := s,
                mpsds := take McpdBusCount (mpsds cfg @ replicate McpdBusCount m)\<rparr>))
     else Inr (cfg\<lparr>settings := s, mpsds := []\<rparr>))"

definition normalize :: "device_config \<Rightarrow> device_config res" where
  "normalize cfg = normalize_with (settings_val (settings cfg)) cfg"

definition new_device ::
  "string \<Rightarrow> string \<Rightarrow> int \<Rightarrow> int \<Rightarrow> bool \<Rightarrow> string \<Rightarrow> pyval \<Rightarrow> mpsd_config list \<Rightarrow> device_config res" where
  "new_device n a i p e t s ms =
     normalize_with s
       \<lparr>dev_name = n, address = a, mcpd_id = i, port = p, enabled = e, device_type = t,
        settings = [], mpsds = ms\<rparr>"

text \<open>\<open>cfg.settings["timing"]["role"]\<close>\<close>

definition timing_role :: "device_config \<Rightarrow> pyval res" where
  "timing_role cfg =
     (case dict_get (settings cfg) ''timing'' of
        None \<Rightarrow> Inl (KeyError ''timing'')
      | Some d \<Rightarrow> (case dict_get d ''role'' of None \<Rightarrow> Inl (KeyError ''role'') | Some v \<Rightarrow> Inr v))"

definition target_of :: "device_config \<Rightarrow> target" where
  "target_of cfg = (address cfg, mcpd_id cfg, port cfg)"

definition dict_index :: "(string \<times> pyval) list \<Rightarrow> string \<Rightarrow> pyval res" where
  "dict_index d k = (case dict_get d k of None \<Rightarrow> Inl (KeyError k) | Some v \<Rightarrow> Inr v)"

fun as_list :: "pyval \<Rightarrow> pyval list res" where
  "as_list (PList xs) = Inr xs"
| "as_list (PDict d) = Inr (map (\<lambda>p. PStr (fst p)) d)"
| "as_list (PStr s) = Inr (map (\<lambda>c. PStr [c]) s)"
| "as_list _ = Inl (TypeError ''not iterable'')"

definition device_from_dict :: "pyval \<Rightarrow> device_config res" where
  "device_from_dict v =
     bind_res (items v) (\<lambda>d.
     bind_res (bind_res (dict_index d ''name'') as_str) (\<lambda>n.
     bind_res (bind_res (dict_index d ''address'') as_str) (\<lambda>a.
     bind_res (py_int (dict_get_or d ''mcpd_id'' (PInt 0))) (\<lambda>i.
     bind_res (py_int (dict_get_or d ''port'' (PInt DefaultPort))) (\<lambda>p.
     bind_res (as_str (dict_get_or d ''device_type'' (PStr ''mcpd''))) (\<lambda>t.
     bind_res (bind_res (as_list (dict_get_or d ''mpsds'' (PList []))) (traverse mpsd_from_dict)) (\<lambda>ms.
     new_device n a i p (truthy (dict_get_or d ''enabled'' (PBool True))) t
       (dict_get_or d ''settings'' (PDict [])) ms)))))))"

record gui_setup =
  data_port :: int
  write_listfile :: bool
  listfile_dir :: string
  devices :: "device_config list"

definition new_setup :: gui_setup where
  "new_setup = \<lparr>data_port = DefaultPort, write_listfile = True, listfile_dir = [], devices = []\<rparr>"

section \<open>The JSON form\<close>

text \<open>\<open>asdict\<close>: the fields in declaration order, nested dataclasses included.\<close>

definition mpsd_asdict :: "mpsd_config \<Rightarrow> pyval" where
  "mpsd_asdict m =
     PDict [(''present'', PBool (present m)), (''settings'', settings_val (mpsd_settings m))]"

definition device_asdict :: "device_config \<Rightarrow> pyval" where
  "device_asdict c =
     PDict [(''name'', PStr (dev_name c)), (''address'', PStr (address c)), (''mcpd_id'', PInt (mcpd_id c)),
            (''port'', PInt (port c)), (''enabled'', PBool (enabled c)),
            (''device_type'', PStr (device_type c)), (''settings'', settings_val (settings c)),
            (''mpsds'', PList (map mpsd_asdict (mpsds c)))]"

definition setup_asdict :: "gui_setup \<Rightarrow> pyval" where
  "setup_asdict s =
     PDict [(''data_port'', PInt (data_port s)), (''write_listfile'', PBool (write_listfile s)),
            (''listfile_dir'', PStr (listfile_dir s)),
            (''devices'', PList (map device_asdict (devices s)))]"

definition setup_from_dict :: "pyval \<Rightarrow> gui_setup res" where
  "setup_from_dict v =
     bind_res (items v) (\<lambda>d.
     bind_res (py_int (dict_get_or d ''data_port'' (PInt DefaultPort))) (\<lambda>p.
     bind_res (as_str (dict_get_or d ''listfile_dir'' (PStr []))) (\<lambda>dir.
     bind_res (bind_res (as_list (dict_get_or d ''devices'' (PList []))) (traverse device_from_dict)) (\<lambda>ds.
     Inr \<lparr>data_port = p, write_listfile = truthy (dict_get_or d ''write_listfile'' (PBool True)),
          listfile_dir = dir, devices = ds\<rparr>))))"

section \<open>Handlers run after a command succeeded\<close>

text \<open>
  \<open>commands.py\<close>: each changes the configuration and may raise; what was assigned before
  the exception stays assigned.
\<close>

definition update_id :: "device_config \<Rightarrow> (string, pyval) dict \<Rightarrow> reply \<Rightarrow> device_config \<times> exc option" where
  "update_id cfg vals result =
     (case bind_res (dict_index vals ''new_id'') py_int of
        Inl e \<Rightarrow> (cfg, Some e)
      | Inr n \<Rightarrow> (cfg\<lparr>mcpd_id := n\<rparr>, None))"

definition update_address :: "device_config \<Rightarrow> (string, pyval) dict \<Rightarrow> reply \<Rightarrow> device_config \<times> exc option" where
  "update_address cfg vals result =
     (case bind_res (dict_index vals ''address'') as_str of
        Inl e \<Rightarrow> (cfg, Some e)
      | Inr a \<Rightarrow> (if a \<noteq> NoChangeAddress then cfg\<lparr>address := a\<rparr> else cfg, None))"

text \<open>\<open>zip(..., strict=True)\<close>: the common prefix is processed, then a length mismatch raises.\<close>

fun set_present :: "mpsd_config list \<Rightarrow> int list \<Rightarrow> mpsd_config list" where
  "set_present (m # ms) (b # bs) = m\<lparr>present := (b \<noteq> 0)\<rparr> # set_present ms bs"
| "set_present ms bs = ms"

definition update_present_mpsds ::
  "device_config \<Rightarrow> (string, pyval) dict \<Rightarrow> reply \<Rightarrow> device_config \<times> exc option" where
  "update_present_mpsds cfg vals result =
     (case result of
        RInts bs \<Rightarrow>
          (cfg\<lparr>mpsds := set_present (mpsds cfg) bs\<rparr>,
           if length (mpsds cfg) = length bs then None else Some (ValueError ''zip()''))
      | _ \<Rightarrow> (cfg, Some (TypeError ''not iterable'')))"

fun run_on_success ::
  "on_success_fn \<Rightarrow> device_config \<Rightarrow> (string, pyval) dict \<Rightarrow> reply \<Rightarrow> device_config \<times> exc option" where
  "run_on_success UpdateId cfg vals result = update_id cfg vals result"
| "run_on_success UpdateAddress cfg vals result = update_address cfg vals result"
| "run_on_success UpdatePresentMpsds cfg vals result = update_present_mpsds cfg vals result"

end
