(* ===== verification/Config_Facts.thy ===== *)
theory Config_Facts
  imports Config
begin

text \<open>
  Facts about \<open>src/gui/config.py\<close>: the shape every settings dictionary has after a merge,
  what a merge keeps and drops, the well-formedness of every device configuration the code
  can build, and the JSON round trip of a setup.
\<close>

section \<open>Command tables as settings tables\<close>

definition table_ok :: "command list \<Rightarrow> bool" where
  "table_ok cs \<longleftrightarrow> distinct (map cmd_key cs) \<and> list_all (\<lambda>c. distinct (map arg_name (cmd_args c))) cs"

lemma table_ok_mdll: "table_ok (COMMON_SETTINGS @ MDLL_SETTINGS)"
  by code_simp

lemma table_ok_mcpd: "table_ok (COMMON_SETTINGS @ MCPD_SETTINGS)"
  by code_simp

lemma table_ok_settings_for [simp]: "table_ok (settings_for t)"
  by (simp add: settings_for_def table_ok_mdll table_ok_mcpd)

lemma table_ok_mpsd [simp]: "table_ok MPSD_SETTINGS"
  by code_simp

definition settings_shape :: "command list \<Rightarrow> settings \<Rightarrow> bool" where
  "settings_shape cs s \<longleftrightarrow>
     dict_keys s = map cmd_key cs \<and>
     list_all (\<lambda>c. map_option dict_keys (dict_get s (cmd_key c)) = Some (map arg_name (cmd_args c))) cs"

lemma defaults_eq:
  "distinct (map arg_name (cmd_args c)) \<Longrightarrow>
   defaults c = map (\<lambda>a. (arg_name a, arg_default a)) (cmd_args c)"
  by (simp add: defaults_def dict_update_map_new comp_def)

lemma default_settings_eq:
  "table_ok cs \<Longrightarrow> default_settings cs = map (\<lambda>c. (cmd_key c, defaults c)) cs"
  by (simp add: default_settings_def dict_update_map_new comp_def table_ok_def)

lemma map_of_map_in:
  "distinct (map f xs) \<Longrightarrow> x \<in> set xs \<Longrightarrow> map_of (map (\<lambda>x. (f x, g x)) xs) (f x) = Some (g x)"
  by (induction xs) (auto simp: rev_image_eqI)

lemma default_settings_shape: "table_ok cs \<Longrightarrow> settings_shape cs (default_settings cs)"
  by (auto simp: default_settings_eq settings_shape_def comp_def list_all_iff table_ok_def
      map_of_map_in defaults_eq)

lemma settings_shape_ok: "table_ok cs \<Longrightarrow> settings_shape cs s \<Longrightarrow> dict_ok s"
  by (simp add: settings_shape_def table_ok_def dict_ok_def)

lemma settings_shape_inner:
  assumes "table_ok cs" "settings_shape cs s" "dict_get s k = Some d"
  shows "dict_ok d" and "\<exists>c \<in> set cs. cmd_key c = k \<and> dict_keys d = map arg_name (cmd_args c)"
proof -
  have "k \<in> set (dict_keys s)" using assms(3) dict_get_in by force
  with assms(2) obtain c where c: "c \<in> set cs" "cmd_key c = k"
    by (auto simp: settings_shape_def)
  with assms(2,3) have "dict_keys d = map arg_name (cmd_args c)"
    by (auto simp: settings_shape_def list_all_iff)
  with c assms(1) show "dict_ok d" "\<exists>c \<in> set cs. cmd_key c = k \<and> dict_keys d = map arg_name (cmd_args c)"
    by (auto simp: table_ok_def dict_ok_def list_all_iff)
qed

section \<open>Merging\<close>

lemma dict_get_filter_key:
  "dict_get (filter (\<lambda>(k, x). P k) kv) n = (if P n then dict_get kv n else None)"
  by (induction kv) auto

lemma known_only_keys: "set (dict_keys (known_only d kv)) \<subseteq> set (dict_keys d)"
  by (force simp: known_only_def)

lemma dict_keys_known_update [simp]: "dict_keys (dict_update d (known_only d kv)) = dict_keys d"
  by (rule dict_keys_update_subset) (rule known_only_keys)

lemma dict_get_known_update:
  assumes "dict_ok kv"
  shows "dict_get (dict_update d (known_only d kv)) n =
     (if n \<in> set (dict_keys d) then (case dict_get kv n of None \<Rightarrow> dict_get d n | Some x \<Rightarrow> Some x)
      else None)"
proof -
  have ok: "dict_ok (known_only d kv)"
    using assms by (simp add: dict_ok_def known_only_def distinct_map_filter)
  have "dict_get (known_only d kv) n = (if n \<in> set (dict_keys d) then dict_get kv n else None)"
    unfolding known_only_def by (rule dict_get_filter_key)
  then show ?thesis
    using ok map_of_eq_None_iff [of d n]
    by (auto simp: dict_get_update dict_get_rev split: option.splits)
qed

lemma merge_entries_keys: "merge_entries r es = Inr r' \<Longrightarrow> dict_keys r' = dict_keys r"
proof (induction r es rule: merge_entries.induct)
  case (2 r key v rest)
  then show ?case
    by (cases v)
      (auto split: option.splits simp: dict_keys_set_some)
qed simp

lemma merge_entries_absent:
  "merge_entries r es = Inr r' \<Longrightarrow> dict_get es k = None \<Longrightarrow> dict_get r' k = dict_get r k"
proof (induction r es rule: merge_entries.induct)
  case (2 r key v rest)
  then show ?case
    by (cases v) (auto split: option.splits if_splits)
qed simp

lemma merge_entries_present:
  "merge_entries r es = Inr r' \<Longrightarrow> dict_ok es \<Longrightarrow> dict_get r k = Some d \<Longrightarrow> dict_get es k = Some v \<Longrightarrow>
   \<exists>kv. v = PDict kv \<and> dict_get r' k = Some (dict_update d (known_only d kv))"
proof (induction r es rule: merge_entries.induct)
  case (2 r key w rest)
  show ?case
  proof (cases "key = k")
    case True
    with "2.prems" have w: "w = v" and rest: "dict_get rest k = None"
      by (auto simp: map_of_eq_None_iff)
    obtain kv where kv: "v = PDict kv"
      using "2.prems" w True by (cases v) auto
    then have "merge_entries (dict_set k (dict_update d (known_only d kv)) r) rest = Inr r'"
      using "2.prems" w True by simp
    from merge_entries_absent [OF this rest] kv show ?thesis by simp
  next
    case False
    then show ?thesis
      using "2.prems" "2.IH" by (cases w) (auto split: option.splits)
  qed
qed simp

lemma merge_entries_total:
  "(\<And>k v. (k, v) \<in> set es \<Longrightarrow> \<exists>kv. v = PDict kv) \<Longrightarrow> \<exists>r'. merge_entries r es = Inr r'"
proof (induction es arbitrary: r)
  case Nil
  then show ?case by simp
next
  case (Cons e es)
  obtain k v where e: "e = (k, v)" by (cases e)
  then obtain kv where "v = PDict kv" using Cons.prems by auto
  moreover have "\<exists>r'. merge_entries r es = Inr r'" for r
    using Cons.prems by (intro Cons.IH) auto
  ultimately show ?case using e by (auto split: option.splits)
qed

lemma merge_entries_shape:
  assumes "settings_shape cs r" "merge_entries r es = Inr r'"
  shows "settings_shape cs r'"
  using assms(2,1)
proof (induction r es rule: merge_entries.induct)
  case (2 r key v rest)
  show ?case
  proof (cases "dict_get r key")
    case None
    with 2 show ?thesis by simp
  next
    case (Some d)
    then obtain kv where v: "v = PDict kv" using "2.prems" by (cases v) auto
    have "settings_shape cs (dict_set key (dict_update d (known_only d kv)) r)"
      using "2.prems"(2) Some
      by (auto simp: settings_shape_def list_all_iff dict_keys_set_some)
    with 2 Some v show ?thesis by simp
  qed
qed simp

lemma merge_settings_shape:
  "table_ok cs \<Longrightarrow> merge_settings cs vals = Inr s \<Longrightarrow> settings_shape cs s"
  unfolding merge_settings_def
  by (cases vals) (auto intro: merge_entries_shape default_settings_shape)

lemma dict_get_settings_entries:
  "dict_get (map (\<lambda>(k, d). (k, PDict d)) s) k = map_option PDict (dict_get s k)"
  by (induction s) auto

lemma merge_settings_total: "\<exists>s'. merge_settings cs (settings_val s) = Inr s'"
  unfolding merge_settings_def settings_val_def
  by (simp, rule merge_entries_total) auto

text \<open>The merge of a typed settings dictionary, entry by entry.\<close>

lemma merge_settings_get:
  assumes "table_ok cs" "merge_settings cs (settings_val s) = Inr s'" "dict_ok s" "c \<in> set cs"
  shows "dict_get s' (cmd_key c) =
     Some (case dict_get s (cmd_key c) of
             None \<Rightarrow> defaults c
           | Some d \<Rightarrow> dict_update (defaults c) (known_only (defaults c) d))"
proof -
  let ?es = "map (\<lambda>(k, d). (k, PDict d)) s"
  have m: "merge_entries (default_settings cs) ?es = Inr s'"
    using assms(2) by (simp add: merge_settings_def settings_val_def)
  have ok: "dict_ok ?es"
    using assms(3) by (simp add: dict_ok_def comp_def split_def)
  have d: "dict_get (default_settings cs) (cmd_key c) = Some (defaults c)"
    using assms(1,4) by (simp add: default_settings_eq table_ok_def map_of_map_in)
  show ?thesis
  proof (cases "dict_get s (cmd_key c)")
    case None
    then show ?thesis
      using merge_entries_absent [OF m] d by (simp add: dict_get_settings_entries)
  next
    case (Some e)
    then show ?thesis
      using merge_entries_present [OF m ok d] by (simp add: dict_get_settings_entries)
  qed
qed

lemma known_update_same:
  assumes "dict_keys e = dict_keys d" "dict_ok e"
  shows "dict_update d (known_only d e) = e"
proof (rule dict_eqI)
  show "dict_keys (dict_update d (known_only d e)) = dict_keys e" using assms(1) by simp
  show "dict_ok (dict_update d (known_only d e))"
    using assms by (simp add: dict_ok_def)
  fix k assume "k \<in> set (dict_keys (dict_update d (known_only d e)))"
  then have k: "k \<in> set (dict_keys d)" by simp
  then have "dict_get e k \<noteq> None" using assms(1) by (simp add: map_of_eq_None_iff) (metis list.set_map)
  with k assms(2) show "dict_get (dict_update d (known_only d e)) k = dict_get e k"
    by (auto simp: dict_get_known_update)
qed

text \<open>Merging a settings dictionary that already has the shape of the table changes nothing.\<close>

lemma merge_settings_id:
  assumes "table_ok cs" "settings_shape cs s"
  shows "merge_settings cs (settings_val s) = Inr s"
proof -
  obtain s' where s': "merge_settings cs (settings_val s) = Inr s'"
    using merge_settings_total by blast
  have sh: "settings_shape cs s'" using merge_settings_shape [OF assms(1) s'] .
  have ok: "dict_ok s" using settings_shape_ok [OF assms] .
  have "s' = s"
  proof (rule dict_eqI)
    show "dict_keys s' = dict_keys s" using sh assms(2) by (simp add: settings_shape_def)
    show "dict_ok s'" using settings_shape_ok [OF assms(1) sh] .
    fix k assume "k \<in> set (dict_keys s')"
    with sh obtain c where c: "c \<in> set cs" "cmd_key c = k"
      by (auto simp: settings_shape_def)
    with assms(2) obtain d where d: "dict_get s k = Some d" "dict_keys d = map arg_name (cmd_args c)"
      by (auto simp: settings_shape_def list_all_iff)
    have "dict_keys (defaults c) = map arg_name (cmd_args c)"
      using assms(1) c(1) by (simp add: table_ok_def list_all_iff defaults_eq comp_def)
    then have "dict_update (defaults c) (known_only (defaults c) d) = d"
      using d settings_shape_inner(1) [OF assms d(1)] by (simp add: known_update_same)
    then show "dict_get s' k = dict_get s k"
      using merge_settings_get [OF assms(1) s' ok c(1)] c d by simp
  qed
  with s' show ?thesis by simp
qed

section \<open>Well-formed configurations\<close>

definition mpsd_ok :: "mpsd_config \<Rightarrow> bool" where
  "mpsd_ok m = settings_shape MPSD_SETTINGS (mpsd_settings m)"

definition device_ok :: "device_config \<Rightarrow> bool" where
  "device_ok c \<longleftrightarrow>
     settings_shape (settings_for (device_type c)) (settings c) \<and>
     (if device_type c = ''mcpd'' then length (mpsds c) = McpdBusCount else mpsds c = []) \<and>
     list_all mpsd_ok (mpsds c)"

lemma bind_res_Inr_iff: "bind_res r f = Inr y \<longleftrightarrow> (\<exists>x. r = Inr x \<and> f x = Inr y)"
  by (cases r) auto

lemma default_mpsd_ok: "default_mpsd = Inr m \<Longrightarrow> mpsd_ok m"
  by (auto simp: default_mpsd_def bind_res_Inr_iff mpsd_ok_def dest: merge_settings_shape [rotated])

lemma default_mpsd_total: "\<exists>m. default_mpsd = Inr m"
  by (simp add: default_mpsd_def merge_settings_def)

lemma mpsd_from_dict_ok: "mpsd_from_dict v = Inr m \<Longrightarrow> mpsd_ok m"
  by (auto simp: mpsd_from_dict_def bind_res_Inr_iff mpsd_ok_def dest: merge_settings_shape [rotated])

lemma normalize_with_iff:
  "normalize_with raw cfg = Inr cfg' \<longleftrightarrow>
     (\<exists>s m. merge_settings (settings_for (device_type cfg)) raw = Inr s \<and> default_mpsd = Inr m \<and>
        cfg' = cfg\<lparr>settings := s,
                  mpsds := if device_type cfg = ''mcpd''
                           then take McpdBusCount (mpsds cfg @ replicate McpdBusCount m) else []\<rparr>)"
  using default_mpsd_total by (auto simp: normalize_with_def bind_res_Inr_iff)

lemma normalize_with_ok:
  assumes "normalize_with raw cfg = Inr cfg'" "list_all mpsd_ok (mpsds cfg)"
  shows "device_ok cfg'"
proof -
  from assms(1) obtain s m where
    s: "merge_settings (settings_for (device_type cfg)) raw = Inr s" and m: "default_mpsd = Inr m" and
    cfg': "cfg' = cfg\<lparr>settings := s,
                  mpsds := if device_type cfg = ''mcpd''
                           then take McpdBusCount (mpsds cfg @ replicate McpdBusCount m) else []\<rparr>"
    by (auto simp: normalize_with_iff)
  have "list_all mpsd_ok (take McpdBusCount (mpsds cfg @ replicate McpdBusCount m))"
    using assms(2) default_mpsd_ok [OF m]
    by (auto simp: list_all_iff simp del: take_append dest!: in_set_takeD)
  moreover have "settings_shape (settings_for (device_type cfg)) s"
    using table_ok_settings_for s by (rule merge_settings_shape)
  ultimately show ?thesis by (simp add: cfg' device_ok_def min_def)
qed

lemma device_from_dict_ok: "device_from_dict v = Inr cfg \<Longrightarrow> device_ok cfg"
proof -
  assume "device_from_dict v = Inr cfg"
  then obtain n a i p t e s vs ms where
    n: "new_device n a i p e t s ms = Inr cfg" and ms: "traverse mpsd_from_dict vs = Inr ms"
    by (auto simp: device_from_dict_def bind_res_Inr_iff)
  have "list_all mpsd_ok ms"
    using ms by (auto simp: traverse_Inr_iff list_all_length list_all2_conv_all_nth intro: mpsd_from_dict_ok)
  then show "device_ok cfg"
    using n by (auto simp: new_device_def intro: normalize_with_ok)
qed

text \<open>
  C3. Whatever a setup file contains, when it loads without an exception every device has
  exactly the settings of its type (every command, every argument, in table order), an
  \<open>mcpd\<close> device has eight MPSD entries with exactly the MPSD settings and any other device
  has none.
\<close>

theorem loaded_setup_well_formed:
  assumes "setup_from_dict v = Inr s"
  shows "list_all device_ok (devices s)"
proof -
  from assms obtain vs ds where "traverse device_from_dict vs = Inr ds" "devices s = ds"
    by (auto simp: setup_from_dict_def bind_res_Inr_iff)
  then show ?thesis
    by (auto simp: traverse_Inr_iff list_all_length list_all2_conv_all_nth intro: device_from_dict_ok)
qed

text \<open>A file with an unknown key, a missing one and a device without settings.\<close>

definition sample_setup_value :: pyval where
  "sample_setup_value =
     PDict [(''data_port'', PInt 4000),
            (''devices'', PList
               [PDict [(''name'', PStr ''a''), (''address'', PStr ''10.0.0.1''),
                       (''settings'', PDict [(''timing'', PDict [(''role'', PStr ''Slave''), (''x'', PNone)]),
                                             (''old'', PInt 1)]),
                       (''mpsds'', PList [PDict [(''present'', PBool True)]])],
                PDict [(''name'', PStr ''b''), (''address'', PStr ''10.0.0.2''), (''mcpd_id'', PStr ''7''),
                       (''device_type'', PStr ''mdll'')]])]"

theorem loaded_setup_well_formed_witness:
  "\<exists>s. setup_from_dict sample_setup_value = Inr s \<and> length (devices s) = 2
     \<and> list_all device_ok (devices s)"
proof -
  have ok: "(case setup_from_dict sample_setup_value of Inl _ \<Rightarrow> False | Inr s \<Rightarrow> length (devices s) = 2)"
    by code_simp
  then obtain s where s: "setup_from_dict sample_setup_value = Inr s" "length (devices s) = 2"
    by (auto split: sum.splits)
  with loaded_setup_well_formed [OF s(1)] show ?thesis by blast
qed

section \<open>The JSON round trip\<close>

lemma mpsd_roundtrip: "mpsd_ok m \<Longrightarrow> mpsd_from_dict (mpsd_asdict m) = Inr m"
  by (simp add: mpsd_from_dict_def mpsd_asdict_def mpsd_ok_def dict_get_or_def merge_settings_id)

lemma normalize_with_id:
  "device_ok cfg \<Longrightarrow> normalize_with (settings_val (settings cfg)) (cfg\<lparr>settings := s0\<rparr>) = Inr cfg"
  using default_mpsd_total
  by (auto simp: normalize_with_iff device_ok_def merge_settings_id)

lemma device_roundtrip:
  assumes "device_ok c"
  shows "device_from_dict (device_asdict c) = Inr c"
proof -
  have ms: "traverse mpsd_from_dict (map mpsd_asdict (mpsds c)) = Inr (mpsds c)"
    using assms by (auto simp: traverse_map device_ok_def list_all_iff comp_def mpsd_roundtrip
        intro!: traverse_all_ok [where g = "\<lambda>m. m", simplified])
  have "normalize_with (settings_val (settings c)) (c\<lparr>settings := []\<rparr>) = Inr c"
    using assms by (rule normalize_with_id)
  moreover have "c\<lparr>settings := []\<rparr> =
      \<lparr>dev_name = dev_name c, address = address c, mcpd_id = mcpd_id c, port = port c,
       enabled = enabled c, device_type = device_type c, settings = [], mpsds = mpsds c\<rparr>"
    by simp
  ultimately show ?thesis
    by (simp add: device_from_dict_def device_asdict_def dict_get_or_def dict_index_def ms new_device_def)
qed

text \<open>
  C4. Saving a setup and loading it again gives the same setup, for every setup whose devices
  are well-formed (C4: all that the program builds): names, addresses, ids, ports, enabled
  flags, types, every setting of every device and of every MPSD, and the presence flags.
\<close>

theorem setup_roundtrip:
  assumes "list_all device_ok (devices s)"
  shows "setup_from_dict (setup_asdict s) = Inr s"
proof -
  have "traverse device_from_dict (map device_asdict (devices s)) = Inr (devices s)"
    using assms by (auto simp: traverse_map list_all_iff comp_def device_roundtrip
        intro!: traverse_all_ok [where g = "\<lambda>c. c", simplified])
  then show ?thesis
    by (simp add: setup_from_dict_def setup_asdict_def dict_get_or_def)
qed

theorem setup_roundtrip_witness:
  "\<exists>s. setup_from_dict sample_setup_value = Inr s \<and> setup_from_dict (setup_asdict s) = Inr s"
proof -
  have "(case setup_from_dict sample_setup_value of
           Inl _ \<Rightarrow> False | Inr s \<Rightarrow> list_all device_ok (devices s))"
    by code_simp
  then obtain s where s: "setup_from_dict sample_setup_value = Inr s" "list_all device_ok (devices s)"
    by (auto split: sum.splits)
  from setup_roundtrip [OF s(2)] s(1) show ?thesis by blast
qed

section \<open>Changing the device type\<close>

lemma common_in_settings_for: "c \<in> set COMMON_SETTINGS \<Longrightarrow> c \<in> set (settings_for t)"
  by (simp add: settings_for_def)

lemma normalize_keeps_common:
  assumes "device_ok cfg"
  shows "\<exists>cfg'. normalize (cfg\<lparr>device_type := t\<rparr>) = Inr cfg' \<and> device_ok cfg' \<and> device_type cfg' = t
     \<and> list_all (\<lambda>c. dict_get (settings cfg') (cmd_key c) = dict_get (settings cfg) (cmd_key c)) COMMON_SETTINGS
     \<and> (t = device_type cfg \<longrightarrow> cfg' = cfg)"
proof -
  let ?c = "cfg\<lparr>device_type := t\<rparr>"
  obtain s' where s': "merge_settings (settings_for t) (settings_val (settings cfg)) = Inr s'"
    using merge_settings_total by blast
  obtain m where m: "default_mpsd = Inr m" using default_mpsd_total by blast
  have sh: "settings_shape (settings_for (device_type cfg)) (settings cfg)"
    using assms by (simp add: device_ok_def)
  have "normalize ?c = Inr (?c\<lparr>settings := s',
      mpsds := if t = ''mcpd'' then take McpdBusCount (mpsds ?c @ replicate McpdBusCount m) else []\<rparr>)"
    unfolding normalize_def normalize_with_iff using s' m by (auto intro: exI [of _ m])
  then obtain cfg' where cfg': "normalize ?c = Inr cfg'" "settings cfg' = s'" "device_type cfg' = t"
    by simp
  have "device_ok cfg'"
    using assms by (intro normalize_with_ok [OF cfg'(1) [unfolded normalize_def]]) (simp add: device_ok_def)
  moreover have "dict_get s' (cmd_key c) = dict_get (settings cfg) (cmd_key c)"
    if c: "c \<in> set COMMON_SETTINGS" for c
  proof -
    obtain d where d: "dict_get (settings cfg) (cmd_key c) = Some d"
      "dict_keys d = map arg_name (cmd_args c)"
      using sh common_in_settings_for [OF c] by (auto simp: settings_shape_def list_all_iff)
    have "dict_keys (defaults c) = map arg_name (cmd_args c)"
      using common_in_settings_for [OF c] table_ok_settings_for [of t]
      by (auto simp: table_ok_def list_all_iff defaults_eq comp_def)
    then have "dict_update (defaults c) (known_only (defaults c) d) = d"
      using d settings_shape_inner(1) [OF table_ok_settings_for sh d(1)] by (simp add: known_update_same)
    then show ?thesis
      using merge_settings_get [OF table_ok_settings_for s' settings_shape_ok [OF table_ok_settings_for sh]
          common_in_settings_for [OF c]] d(1)
      by simp
  qed
  moreover have "cfg' = cfg" if "t = device_type cfg"
    using cfg'(1) normalize_with_id [OF assms, of "settings cfg"] that by (simp add: normalize_def)
  ultimately show ?thesis using cfg' by (auto simp: list_all_iff)
qed

text \<open>
  Changing the type of a device and normalizing never fails, gives a well-formed device
  of the new type, keeps every common setting (the data destination and the timing role,
  termination and sync) and, when the type does not change, changes nothing.
\<close>

theorem type_change_keeps_common_settings:
  assumes "device_ok cfg"
  shows "\<exists>cfg'. normalize (cfg\<lparr>device_type := t\<rparr>) = Inr cfg' \<and> device_ok cfg' \<and> device_type cfg' = t
     \<and> list_all (\<lambda>c. dict_get (settings cfg') (cmd_key c) = dict_get (settings cfg) (cmd_key c)) COMMON_SETTINGS
     \<and> (t = device_type cfg \<longrightarrow> cfg' = cfg)"
  using assms by (rule normalize_keeps_common)

definition sample_device :: device_config where
  "sample_device = (case new_device ''x'' ''10.0.0.1'' 0 DefaultPort True ''mdll''
     (PDict [(''timing'', PDict [(''role'', PStr ''Slave'')])]) [] of Inr c \<Rightarrow> c)"

theorem type_change_keeps_common_settings_witness:
  "\<exists>cfg'. normalize (sample_device\<lparr>device_type := ''mcpd''\<rparr>) = Inr cfg' \<and> device_ok cfg'
     \<and> length (mpsds cfg') = 8
     \<and> dict_get (settings cfg') ''timing'' = dict_get (settings sample_device) ''timing''"
proof -
  have "device_ok sample_device" by code_simp
  from type_change_keeps_common_settings [OF this, of "''mcpd''"] show ?thesis
    by (auto simp: device_ok_def McpdBusCount_def COMMON_SETTINGS_def plain_command_def)
qed

section \<open>Handlers\<close>

lemma set_present_eq:
  "length ms = length bs \<Longrightarrow>
   set_present ms bs = map (\<lambda>(m, b). m\<lparr>present := (b \<noteq> 0)\<rparr>) (zip ms bs)"
  by (induction ms bs rule: set_present.induct) auto

text \<open>
  After a bus scan that returned one id per bus, bus \<open>i\<close> is marked present exactly when
  its id is not zero, the handler does not raise, and nothing else of the configuration
  changes, so the device stays well-formed.
\<close>

theorem scan_marks_present_busses:
  assumes "device_ok cfg" and "device_type cfg = ''mcpd''" and "length ids = McpdBusCount"
  shows "\<exists>cfg'. run_on_success UpdatePresentMpsds cfg vals (RInts ids) = (cfg', None)
     \<and> map present (mpsds cfg') = map (\<lambda>b. b \<noteq> 0) ids
     \<and> map mpsd_settings (mpsds cfg') = map mpsd_settings (mpsds cfg)
     \<and> cfg'\<lparr>mpsds := mpsds cfg\<rparr> = cfg \<and> device_ok cfg'"
proof -
  have len: "length (mpsds cfg) = length ids" using assms by (simp add: device_ok_def)
  let ?ms = "set_present (mpsds cfg) ids"
  have p: "map present ?ms = map (\<lambda>b. b \<noteq> 0) ids"
    and s: "map mpsd_settings ?ms = map mpsd_settings (mpsds cfg)"
    using len by (auto simp: set_present_eq intro!: nth_equalityI)
  have "list_all mpsd_ok ?ms"
  proof -
    have "list_all (settings_shape MPSD_SETTINGS) (map mpsd_settings ?ms)"
      unfolding s using assms(1) by (simp add: device_ok_def list_all_iff mpsd_ok_def)
    then show ?thesis by (simp add: list_all_iff mpsd_ok_def)
  qed
  moreover have "length ?ms = McpdBusCount"
    using len assms(3) by (simp add: set_present_eq)
  ultimately show ?thesis
    using assms len p s by (simp add: update_present_mpsds_def device_ok_def)
qed

definition sample_mcpd :: device_config where
  "sample_mcpd = (case new_device ''y'' ''10.0.0.2'' 3 DefaultPort True ''mcpd'' (PDict []) [] of Inr c \<Rightarrow> c)"

theorem scan_marks_present_busses_witness:
  "\<exists>cfg'. run_on_success UpdatePresentMpsds sample_mcpd [] (RInts [0, 17, 0, 0, 34, 0, 0, 0]) = (cfg', None)
     \<and> map present (mpsds cfg') = [False, True, False, False, True, False, False, False]"
proof -
  have "device_ok sample_mcpd" "device_type sample_mcpd = ''mcpd''"
    "length [0, 17, 0, 0, 34, 0, 0, 0 :: int] = McpdBusCount"
    by code_simp+
  from scan_marks_present_busses [OF this, of "[]"] show ?thesis by auto
qed

end
