(* ===== verification/Stats.thy ===== *)
theory Stats
  imports Config_Facts "HOL-Library.Product_Lexorder"
begin

text \<open>
  \<open>src/gui/stats.py\<close>: rates, sanity checks and notes computed from successive snapshots of
  the per-source statistics.

  A source is a pair of an IPv4 address (as a 32 bit number, 0 in a replay) and a device id.
  Times and rates are rational numbers: the rounding of floating point arithmetic is not
  modelled.  \<open>gethostbyname\<close> is an argument, the four bytes of the address found or
  \<open>None\<close> for an \<open>OSError\<close>.  \<open>format_ipv4\<close> is the function of the C++ library that the
  bindings export.
\<close>

section \<open>Addresses\<close>

text \<open>\<open>src/mesytec-mcpd/util/udp_sockets.h\<close>\<close>

definition format_ipv4 :: "int \<Rightarrow> string" where
  "format_ipv4 a =
     show_int (a div 2 ^ 24 mod 256) @ ''.'' @ show_int (a div 2 ^ 16 mod 256) @ ''.''
     @ show_int (a div 2 ^ 8 mod 256) @ ''.'' @ show_int (a mod 256)"

type_synonym resolver = "string \<Rightarrow> (int \<times> int \<times> int \<times> int) option"

text \<open>\<open>struct.unpack("!I", ...)\<close>: four bytes, most significant first.\<close>

definition unpack_ipv4 :: "int \<times> int \<times> int \<times> int \<Rightarrow> int" where
  "unpack_ipv4 q = (case q of (a, b, c, d) \<Rightarrow> ((a * 256 + b) * 256 + c) * 256 + d)"

definition resolve_ipv4 :: "resolver \<Rightarrow> string \<Rightarrow> int option" where
  "resolve_ipv4 gethostbyname addr = map_option unpack_ipv4 (gethostbyname addr)"

section \<open>Rows\<close>

type_synonym device_key = "int \<times> int"

record source_stats =
  buffer_type :: int
  packets :: int
  bytes :: int
  events :: int
  neutron_events :: int
  trigger_events :: int
  packets_lost :: int
  buffer_number_jumps :: int
  last_buffer_number :: int
  last_device_status :: int
  last_run_id :: int

definition McpdDataBufferType :: int where
  "McpdDataBufferType = 1"

definition MdllDataBufferType :: int where
  "MdllDataBufferType = 2"

definition BUFFER_TYPE_NAMES :: "(int, string) dict" where
  "BUFFER_TYPE_NAMES = [(McpdDataBufferType, ''MCPD''), (MdllDataBufferType, ''MDLL'')]"

record device_row =
  key :: device_key
  row_stats :: source_stats
  config :: "device_config option"
  packet_rate :: rat
  event_rate :: rat
  byte_rate :: rat
  loss_rate :: rat
  note_list :: "string list"

definition new_row :: "device_key \<Rightarrow> source_stats \<Rightarrow> device_row" where
  "new_row k st = \<lparr>key = k, row_stats = st, config = None, packet_rate = 0, event_rate = 0, byte_rate = 0,
                   loss_rate = 0, note_list = []\<rparr>"

definition row_ip :: "device_row \<Rightarrow> string" where
  "row_ip r = (if fst (key r) \<noteq> 0 then format_ipv4 (fst (key r)) else ''replay'')"

definition type_name :: "device_row \<Rightarrow> string" where
  "type_name r = dict_get_or BUFFER_TYPE_NAMES (buffer_type (row_stats r)) (fmt_alt_hex 6 (buffer_type (row_stats r)))"

definition is_mdll :: "device_row \<Rightarrow> bool" where
  "is_mdll r = (buffer_type (row_stats r) = MdllDataBufferType)"

definition is_mcpd :: "device_row \<Rightarrow> bool" where
  "is_mcpd r = (buffer_type (row_stats r) = McpdDataBufferType)"

definition device_id :: "device_row \<Rightarrow> int" where
  "device_id r = snd (key r)"

definition row_label :: "device_row \<Rightarrow> string" where
  "row_label r =
     (case config r of Some c \<Rightarrow> dev_name c | None \<Rightarrow> ''?'')
     @ '' ('' @ row_ip r @ '', id='' @ show_int (device_id r) @ '')''"

section \<open>The tracker\<close>

record tracker =
  prev :: "(device_key, source_stats) dict"
  prev_time :: "rat option"
  reported :: "(device_key \<times> string) list"
  resolved :: "(string, int option) dict"

definition new_tracker :: tracker where
  "new_tracker = \<lparr>prev = [], prev_time = None, reported = [], resolved = []\<rparr>"

definition tracker_reset :: "tracker \<Rightarrow> tracker" where
  "tracker_reset t = t\<lparr>prev := [], prev_time := None, reported := []\<rparr>"

text \<open>\<open>_addr(cfg)\<close>: an address is looked up once.\<close>

definition addr_of ::
  "resolver \<Rightarrow> device_config \<Rightarrow> (string, int option) dict \<Rightarrow> (string, int option) dict \<times> int option" where
  "addr_of ghn cfg cache =
     (case dict_get cache (address cfg) of
        Some a \<Rightarrow> (cache, a)
      | None \<Rightarrow> (let a = resolve_ipv4 ghn (address cfg) in (dict_set (address cfg) a cache, a)))"

text \<open>\<open>[d for d in devices if self._addr(d) == addr]\<close>\<close>

fun same_addr ::
  "resolver \<Rightarrow> int \<Rightarrow> device_config list \<Rightarrow> (string, int option) dict
   \<Rightarrow> (string, int option) dict \<times> device_config list" where
  "same_addr ghn addr [] cache = (cache, [])"
| "same_addr ghn addr (d # ds) cache =
     (case addr_of ghn d cache of
        (cache1, a) \<Rightarrow>
          (case same_addr ghn addr ds cache1 of
             (cache2, rest) \<Rightarrow> (cache2, if a = Some addr then d # rest else rest)))"

text \<open>\<open>by_id\<close>: the addresses that send each device id (sets as lists without duplicates).\<close>

definition by_id :: "device_key list \<Rightarrow> (int, int list) dict" where
  "by_id keys =
     fold (\<lambda>(addr, dev_id) d. if addr \<noteq> 0 then dict_set dev_id (List.insert addr (dict_get_or d dev_id [])) d else d)
       keys []"

definition row_rates :: "tracker \<Rightarrow> rat \<Rightarrow> device_row \<Rightarrow> device_row" where
  "row_rates t dt r =
     (let st = row_stats r in
      case dict_get (prev t) (key r) of
        None \<Rightarrow> r
      | Some p \<Rightarrow>
          if 0 < dt \<and> packets p \<le> packets st then
            r\<lparr>packet_rate := of_int (packets st - packets p) / dt,
              event_rate := of_int (neutron_events st - neutron_events p) / dt,
              byte_rate := of_int (bytes st - bytes p) / dt,
              loss_rate := of_int (packets_lost st - packets_lost p) / dt\<rparr>
          else r)"

definition match_replay :: "device_config list \<Rightarrow> device_row \<Rightarrow> device_row" where
  "match_replay devs r =
     (case filter (\<lambda>d. mcpd_id d = device_id r) devs of
        [d] \<Rightarrow> r\<lparr>config := Some d\<rparr>
      | _ \<Rightarrow> r)"

definition wrong_id_note :: "device_config list \<Rightarrow> int \<Rightarrow> string" where
  "wrong_id_note ds dev_id =
     ''configured with id '' @ join '', '' (map (\<lambda>d. show_int (mcpd_id d)) ds) @ '' but sends id '' @ show_int dev_id"

definition match_live :: "device_config list \<Rightarrow> device_row \<Rightarrow> device_row" where
  "match_live same r =
     (case filter (\<lambda>d. mcpd_id d = device_id r) same of
        d # _ \<Rightarrow> r\<lparr>config := Some d\<rparr>
      | [] \<Rightarrow>
          if same \<noteq> [] then r\<lparr>note_list := note_list r @ [wrong_id_note same (device_id r)]\<rparr>
          else r\<lparr>note_list := note_list r @ [''unknown source'']\<rparr>)"

definition ambiguous_note :: "int list \<Rightarrow> int \<Rightarrow> string" where
  "ambiguous_note others dev_id =
     ''id '' @ show_int dev_id @ '' also sent by '' @ join '', '' (map format_ipv4 (sort others))
     @ '': ambiguous in listfile''"

definition note_ambiguous :: "(int, int list) dict \<Rightarrow> device_row \<Rightarrow> device_row" where
  "note_ambiguous ids r =
     (let others = removeAll (fst (key r)) (dict_get_or ids (device_id r) []) in
      if others \<noteq> [] then r\<lparr>note_list := note_list r @ [ambiguous_note others (device_id r)]\<rparr> else r)"

text \<open>The body of the loop over the sources.\<close>

definition make_row ::
  "resolver \<Rightarrow> device_config list \<Rightarrow> (int, int list) dict \<Rightarrow> tracker \<Rightarrow> rat \<Rightarrow> device_key \<Rightarrow> source_stats
   \<Rightarrow> (string, int option) dict \<Rightarrow> (string, int option) dict \<times> device_row" where
  "make_row ghn devs ids t dt k st cache =
     (let r = row_rates t dt (new_row k st) in
      if fst k = 0 then (cache, match_replay devs r)
      else
        (case same_addr ghn (fst k) devs cache of
           (cache1, same) \<Rightarrow> (cache1, note_ambiguous ids (match_live same r))))"

fun make_rows ::
  "resolver \<Rightarrow> device_config list \<Rightarrow> (int, int list) dict \<Rightarrow> tracker \<Rightarrow> rat
   \<Rightarrow> (device_key \<times> source_stats) list \<Rightarrow> (string, int option) dict
   \<Rightarrow> (string, int option) dict \<times> device_row list" where
  "make_rows ghn devs ids t dt [] cache = (cache, [])"
| "make_rows ghn devs ids t dt ((k, st) # rest) cache =
     (case make_row ghn devs ids t dt k st cache of
        (cache1, r) \<Rightarrow> (case make_rows ghn devs ids t dt rest cache1 of (cache2, rs) \<Rightarrow> (cache2, r # rs)))"

text \<open>The notes not reported before, as pairs of source and note, and the lines returned.\<close>

definition row_notes :: "device_row list \<Rightarrow> (device_row \<times> string) list" where
  "row_notes rows = concat (map (\<lambda>r. map (\<lambda>n. (r, n)) (note_list r)) rows)"

definition note_line :: "device_row \<Rightarrow> string \<Rightarrow> string" where
  "note_line r n = row_ip r @ '' id='' @ show_int (device_id r) @ '': '' @ n"

fun report :: "(device_row \<times> string) list \<Rightarrow> (device_key \<times> string) list \<Rightarrow> (device_key \<times> string) list \<times> string list" where
  "report [] rep = (rep, [])"
| "report ((r, n) # rest) rep =
     (if (key r, n) \<in> set rep then report rest rep
      else (case report rest (rep @ [(key r, n)]) of (rep', lines) \<Rightarrow> (rep', note_line r n # lines)))"

definition sorted_stats :: "(device_key, source_stats) dict \<Rightarrow> (device_key \<times> source_stats) list" where
  "sorted_stats stats = map (\<lambda>k. (k, the (dict_get stats k))) (sort (dict_keys stats))"

definition tracker_update ::
  "resolver \<Rightarrow> (device_key, source_stats) dict \<Rightarrow> device_config list \<Rightarrow> rat \<Rightarrow> tracker
   \<Rightarrow> tracker \<times> device_row list \<times> string list" where
  "tracker_update ghn stats devs now t =
     (let dt = (case prev_time t of Some p \<Rightarrow> now - p | None \<Rightarrow> 0) in
      case make_rows ghn devs (by_id (dict_keys stats)) t dt (sorted_stats stats) (resolved t) of
        (cache, rows) \<Rightarrow>
          (case report (row_notes rows) (reported t) of
             (rep, lines) \<Rightarrow>
               (t\<lparr>prev := stats, prev_time := Some now, reported := rep, resolved := cache\<rparr>, rows, lines)))"

end
