(* ===== verification/Stats_Facts.thy ===== *)
theory Stats_Facts
  imports Stats
begin

text \<open>
  Facts about \<open>src/gui/stats.py\<close>: the rows of an update, which configuration a source is
  matched to, the rates, and that a note is reported once.
\<close>

section \<open>Addresses\<close>

lemma format_unpack:
  assumes "0 \<le> a" "a < 256" "0 \<le> b" "b < 256" "0 \<le> c" "c < 256" "0 \<le> d" "d < 256"
  shows "format_ipv4 (unpack_ipv4 (a, b, c, d)) =
     show_int a @ ''.'' @ show_int b @ ''.'' @ show_int c @ ''.'' @ show_int d"
proof -
  have split: "(x * 256 + y) div 256 = x \<and> (x * 256 + y) mod 256 = y" if "0 \<le> y" "y < 256" for x y :: int
    using that by simp
  have pow: "n div 2 ^ 16 = n div 256 div 256" "n div 2 ^ 24 = n div 256 div 256 div 256" "n div 2 ^ 8 = n div 256"
    for n :: int by (simp_all add: zdiv_zmult2_eq [symmetric])
  define m where "m = (a * 256 + b) * 256 + c"
  have "(m * 256 + d) div 256 = m" "(m * 256 + d) mod 256 = d" using split [of d m] assms by auto
  moreover have "m div 256 = a * 256 + b" "m mod 256 = c" using split [of c "a * 256 + b"] assms by (auto simp: m_def)
  moreover have "(a * 256 + b) div 256 = a" "(a * 256 + b) mod 256 = b" using split [of b a] assms by auto
  moreover have "a mod 256 = a" using assms by simp
  moreover have "unpack_ipv4 (a, b, c, d) = m * 256 + d" by (simp add: unpack_ipv4_def m_def)
  ultimately show ?thesis
    by (simp only: format_ipv4_def pow)
qed

text \<open>What an address resolves to, given the cache.\<close>

definition addr_view :: "resolver \<Rightarrow> (string, int option) dict \<Rightarrow> string \<Rightarrow> int option" where
  "addr_view ghn cache a = (case dict_get cache a of Some x \<Rightarrow> x | None \<Rightarrow> resolve_ipv4 ghn a)"

lemma addr_of_view:
  assumes "addr_of ghn d cache = (cache', x)"
  shows "x = addr_view ghn cache (address d)" and "addr_view ghn cache' = addr_view ghn cache"
    and "dict_get cache' (address d) = Some x" and "dict_get cache a = Some y \<Longrightarrow> dict_get cache' a = Some y"
  using assms by (auto simp: addr_of_def addr_view_def Let_def fun_eq_iff split: option.splits if_splits)

lemma same_addr_view:
  assumes "same_addr ghn addr ds cache = (cache', same)"
  shows "same = filter (\<lambda>d. addr_view ghn cache (address d) = Some addr) ds"
    and "addr_view ghn cache' = addr_view ghn cache"
    and "\<forall>d \<in> set ds. dict_get cache' (address d) = Some (addr_view ghn cache (address d))"
    and "\<forall>a y. dict_get cache a = Some y \<longrightarrow> dict_get cache' a = Some y"
proof -
  have "same = filter (\<lambda>d. addr_view ghn cache (address d) = Some addr) ds
     \<and> addr_view ghn cache' = addr_view ghn cache
     \<and> (\<forall>d \<in> set ds. dict_get cache' (address d) = Some (addr_view ghn cache (address d)))
     \<and> (\<forall>a y. dict_get cache a = Some y \<longrightarrow> dict_get cache' a = Some y)"
    using assms
  proof (induction ds arbitrary: cache cache' same)
    case Nil
    then show ?case by simp
  next
    case (Cons d ds)
    obtain c1 x where a: "addr_of ghn d cache = (c1, x)" by fastforce
    obtain c2 rest where s: "same_addr ghn addr ds c1 = (c2, rest)" by fastforce
    note A = addr_of_view [OF a]
    note IH = Cons.IH [OF s]
    have c2: "c2 = cache'" "same = (if x = Some addr then d # rest else rest)"
      using Cons.prems a s by auto
    have "dict_get cache' (address d) = Some (addr_view ghn cache (address d))"
      using IH A(1,3) c2(1) by blast
    then show ?case using IH A c2 by auto
  qed
  then show "same = filter (\<lambda>d. addr_view ghn cache (address d) = Some addr) ds"
    and "addr_view ghn cache' = addr_view ghn cache"
    and "\<forall>d \<in> set ds. dict_get cache' (address d) = Some (addr_view ghn cache (address d))"
    and "\<forall>a y. dict_get cache a = Some y \<longrightarrow> dict_get cache' a = Some y"
    by blast+
qed

section \<open>Rows without the cache\<close>

definition pure_row ::
  "(string \<Rightarrow> int option) \<Rightarrow> device_config list \<Rightarrow> (int, int list) dict \<Rightarrow> tracker \<Rightarrow> rat
   \<Rightarrow> device_key \<Rightarrow> source_stats \<Rightarrow> device_row" where
  "pure_row V devs ids t dt k st =
     (let r = row_rates t dt (new_row k st) in
      if fst k = 0 then match_replay devs r
      else note_ambiguous ids (match_live (filter (\<lambda>d. V (address d) = Some (fst k)) devs) r))"

lemma make_rows_pure:
  assumes "make_rows ghn devs ids t dt sts cache = (cache', rows)"
  shows "rows = map (\<lambda>(k, st). pure_row (addr_view ghn cache) devs ids t dt k st) sts"
    and "addr_view ghn cache' = addr_view ghn cache"
    and "\<forall>a y. dict_get cache a = Some y \<longrightarrow> dict_get cache' a = Some y"
    and "(\<exists>p \<in> set sts. fst (fst p) \<noteq> 0) \<Longrightarrow>
         \<forall>d \<in> set devs. dict_get cache' (address d) = Some (addr_view ghn cache (address d))"
proof -
  have "rows = map (\<lambda>(k, st). pure_row (addr_view ghn cache) devs ids t dt k st) sts
     \<and> addr_view ghn cache' = addr_view ghn cache
     \<and> (\<forall>a y. dict_get cache a = Some y \<longrightarrow> dict_get cache' a = Some y)
     \<and> ((\<exists>p \<in> set sts. fst (fst p) \<noteq> 0) \<longrightarrow>
         (\<forall>d \<in> set devs. dict_get cache' (address d) = Some (addr_view ghn cache (address d))))"
    using assms
  proof (induction sts arbitrary: cache cache' rows)
    case Nil
    then show ?case by simp
  next
    case (Cons p sts)
    obtain k st where p: "p = (k, st)" by (cases p)
    obtain c1 r where m: "make_row ghn devs ids t dt k st cache = (c1, r)" by fastforce
    obtain c2 rs where ms: "make_rows ghn devs ids t dt sts c1 = (c2, rs)" by fastforce
    have eq: "c2 = cache'" "rows = r # rs" using Cons.prems p m ms by auto
    note IH = Cons.IH [OF ms]
    show ?case
    proof (cases "fst k = 0")
      case True
      then have "c1 = cache" "r = pure_row (addr_view ghn cache) devs ids t dt k st"
        using m by (simp_all add: make_row_def pure_row_def Let_def)
      with IH eq p True show ?thesis by auto
    next
      case False
      obtain same where s: "same_addr ghn (fst k) devs cache = (c1, same)"
        using m False by (auto simp: make_row_def Let_def split: prod.splits)
      note S = same_addr_view [OF s]
      have "r = pure_row (addr_view ghn cache) devs ids t dt k st"
        using m False s S(1) by (simp add: make_row_def pure_row_def Let_def)
      with IH eq p S(2-4) show ?thesis by auto
    qed
  qed
  then show "rows = map (\<lambda>(k, st). pure_row (addr_view ghn cache) devs ids t dt k st) sts"
    and "addr_view ghn cache' = addr_view ghn cache"
    and "\<forall>a y. dict_get cache a = Some y \<longrightarrow> dict_get cache' a = Some y"
    and "(\<exists>p \<in> set sts. fst (fst p) \<noteq> 0) \<Longrightarrow>
         \<forall>d \<in> set devs. dict_get cache' (address d) = Some (addr_view ghn cache (address d))"
    by blast+
qed

lemma row_rates_keeps [simp]:
  "key (row_rates t dt r) = key r" "row_stats (row_rates t dt r) = row_stats r"
  "config (row_rates t dt r) = config r" "note_list (row_rates t dt r) = note_list r"
  by (simp_all add: row_rates_def Let_def split: option.split)

lemma match_replay_keeps [simp]:
  "key (match_replay ds r) = key r" "row_stats (match_replay ds r) = row_stats r"
  "note_list (match_replay ds r) = note_list r"
  by (simp_all add: match_replay_def split: list.split)

lemma match_live_keeps [simp]:
  "key (match_live ds r) = key r" "row_stats (match_live ds r) = row_stats r"
  by (simp_all add: match_live_def split: list.split)

lemma note_ambiguous_keeps [simp]:
  "key (note_ambiguous ids r) = key r" "row_stats (note_ambiguous ids r) = row_stats r"
  "config (note_ambiguous ids r) = config r"
  by (simp_all add: note_ambiguous_def Let_def)

lemma new_row_simps [simp]:
  "key (new_row k st) = k" "row_stats (new_row k st) = st" "config (new_row k st) = None" "note_list (new_row k st) = []"
  by (simp_all add: new_row_def)

lemma pure_row_rates:
  "packet_rate (pure_row V ds ids t dt k st) = packet_rate (row_rates t dt (new_row k st))"
  "event_rate (pure_row V ds ids t dt k st) = event_rate (row_rates t dt (new_row k st))"
  "byte_rate (pure_row V ds ids t dt k st) = byte_rate (row_rates t dt (new_row k st))"
  "loss_rate (pure_row V ds ids t dt k st) = loss_rate (row_rates t dt (new_row k st))"
  by (simp_all add: pure_row_def Let_def match_replay_def match_live_def note_ambiguous_def split: list.split)

lemma pure_row_key [simp]:
  "key (pure_row V ds ids t dt k st) = k" "row_stats (pure_row V ds ids t dt k st) = st"
  by (simp_all add: pure_row_def Let_def)

section \<open>Matching\<close>

text \<open>The devices a source can be: by id in a replay, by address and id otherwise.\<close>

definition candidates :: "(string \<Rightarrow> int option) \<Rightarrow> device_config list \<Rightarrow> device_key \<Rightarrow> device_config list" where
  "candidates V devs k =
     filter (\<lambda>d. mcpd_id d = snd k \<and> (fst k = 0 \<or> V (address d) = Some (fst k))) devs"

lemma pure_row_config:
  "config (pure_row V devs ids t dt k st) =
     (case candidates V devs k of
        [] \<Rightarrow> None
      | d # ds \<Rightarrow> if fst k = 0 \<and> ds \<noteq> [] then None else Some d)"
proof (cases "fst k = 0")
  case True
  then have c: "candidates V devs k = filter (\<lambda>d. mcpd_id d = snd k) devs" by (simp add: candidates_def)
  show ?thesis
    unfolding c by (simp add: pure_row_def Let_def True match_replay_def device_id_def split: list.split)
next
  case False
  then have c: "candidates V devs k = filter (\<lambda>d. mcpd_id d = snd k) (filter (\<lambda>d. V (address d) = Some (fst k)) devs)"
    by (simp add: candidates_def conj_commute)
  show ?thesis
    unfolding c by (simp add: pure_row_def Let_def False match_live_def device_id_def split: list.split)
qed

section \<open>Ambiguous ids\<close>

lemma by_id_sources:
  "set (dict_get_or (by_id keys) i []) = {a. (a, i) \<in> set keys \<and> a \<noteq> 0}"
proof -
  let ?f = "\<lambda>(addr, dev_id) d. if addr \<noteq> 0 then dict_set dev_id (List.insert addr (dict_get_or d dev_id [])) d else d"
  have "set (dict_get_or (fold ?f ks d) i []) = set (dict_get_or d i []) \<union> {a. (a, i) \<in> set ks \<and> a \<noteq> 0}"
    for ks :: "device_key list" and d
  proof (induction ks arbitrary: d)
    case Nil
    then show ?case by simp
  next
    case (Cons k ks)
    obtain a j where k: "k = (a, j)" by (cases k)
    have "set (dict_get_or (?f k d) i []) = set (dict_get_or d i []) \<union> (if j = i \<and> a \<noteq> 0 then {a} else {})"
      by (auto simp: k dict_get_or_def)
    with Cons [of "?f k d"] k show ?case by auto
  qed
  from this [of keys "[]"] show ?thesis by (simp add: by_id_def dict_get_or_def)
qed

lemma by_id_distinct: "distinct (dict_get_or (by_id keys) i [])"
proof -
  let ?f = "\<lambda>(addr, dev_id) d. if addr \<noteq> 0 then dict_set dev_id (List.insert addr (dict_get_or d dev_id [])) d else d"
  have "\<forall>j. distinct (dict_get_or d j []) \<Longrightarrow> \<forall>j. distinct (dict_get_or (fold ?f ks d) j [])"
    for ks :: "device_key list" and d
    by (induction ks arbitrary: d) (auto simp: dict_get_or_def)
  from this [of "[]" keys] show ?thesis by (simp add: by_id_def dict_get_or_def)
qed

lemma sort_distinct_set: "distinct xs \<Longrightarrow> set xs = A \<Longrightarrow> sort xs = sorted_list_of_set A"
  for xs :: "int list"
  by (metis sorted_list_of_set_sort_remdups distinct_remdups_id)

lemma pure_row_notes:
  "note_list (pure_row V devs (by_id keys) t dt k st) =
     (let same = filter (\<lambda>d. V (address d) = Some (fst k)) devs;
          others = {a. (a, snd k) \<in> set keys \<and> a \<noteq> 0 \<and> a \<noteq> fst k} in
      if fst k = 0 then []
      else (if \<exists>d \<in> set same. mcpd_id d = snd k then []
            else if same = [] then [''unknown source''] else [wrong_id_note same (snd k)])
           @ (if others = {} then [] else [ambiguous_note (sorted_list_of_set others) (snd k)]))"
proof (cases "fst k = 0")
  case True
  then show ?thesis by (simp add: pure_row_def Let_def)
next
  case False
  define same where "same = filter (\<lambda>d. V (address d) = Some (fst k)) devs"
  define os where "os = removeAll (fst k) (dict_get_or (by_id keys) (snd k) [])"
  define others where "others = {a. (a, snd k) \<in> set keys \<and> a \<noteq> 0 \<and> a \<noteq> fst k}"
  have os: "set os = others" "distinct os"
    by (auto simp: os_def others_def by_id_sources by_id_distinct distinct_removeAll)
  then have sorted: "sort os = sorted_list_of_set others" by (simp add: sort_distinct_set)
  have amb: "ambiguous_note os i = ambiguous_note (sorted_list_of_set others) i" for i
    using sorted by (simp add: ambiguous_note_def sorted_sort_id)
  have emp: "os = [] \<longleftrightarrow> others = {}" using os(1) by auto
  have live: "note_list (match_live same r) = note_list r @
      (if \<exists>d \<in> set same. mcpd_id d = device_id r then []
       else if same = [] then [''unknown source''] else [wrong_id_note same (device_id r)])" for r
  proof (cases "filter (\<lambda>d. mcpd_id d = device_id r) same")
    case Nil
    then have "\<not> (\<exists>d \<in> set same. mcpd_id d = device_id r)" by (simp add: filter_empty_conv)
    with Nil show ?thesis by (simp add: match_live_def)
  next
    case (Cons d ds)
    then have "d \<in> set (filter (\<lambda>d. mcpd_id d = device_id r) same)" by simp
    then have "\<exists>d \<in> set same. mcpd_id d = device_id r" by auto
    with Cons show ?thesis by (simp add: match_live_def)
  qed
  have "note_list (pure_row V devs (by_id keys) t dt k st) =
      note_list (match_live same (row_rates t dt (new_row k st))) @
      (if os \<noteq> [] then [ambiguous_note os (snd k)] else [])"
    using False by (simp add: pure_row_def Let_def note_ambiguous_def same_def os_def device_id_def)
  then show ?thesis
    using False by (simp add: live amb emp Let_def same_def [symmetric] others_def [symmetric] device_id_def)
qed

section \<open>Runs of a tracker\<close>

datatype tracker_op =
    Reset_Stats
  | Update_Stats "(device_key, source_stats) dict" "device_config list" rat

fun run_op :: "resolver \<Rightarrow> tracker_op \<Rightarrow> tracker \<Rightarrow> tracker" where
  "run_op ghn Reset_Stats t = tracker_reset t"
| "run_op ghn (Update_Stats stats devs now) t = fst (tracker_update ghn stats devs now t)"

definition tracker_after :: "resolver \<Rightarrow> tracker_op list \<Rightarrow> tracker" where
  "tracker_after ghn ops = fold (run_op ghn) ops new_tracker"

definition tracker_ok :: "resolver \<Rightarrow> tracker \<Rightarrow> bool" where
  "tracker_ok ghn t \<longleftrightarrow>
     (\<forall>a x. dict_get (resolved t) a = Some x \<longrightarrow> x = resolve_ipv4 ghn a) \<and> distinct (reported t)"

lemma view_ok: "tracker_ok ghn t \<Longrightarrow> addr_view ghn (resolved t) = resolve_ipv4 ghn"
  by (auto simp: tracker_ok_def addr_view_def fun_eq_iff split: option.split)

lemma view_okI: "addr_view ghn cache = resolve_ipv4 ghn \<Longrightarrow> dict_get cache a = Some x \<Longrightarrow> x = resolve_ipv4 ghn a"
  by (drule fun_cong [of _ _ a]) (simp add: addr_view_def)

text \<open>The line of a note depends on the source and the note only.\<close>

definition source_line :: "device_key \<times> string \<Rightarrow> string" where
  "source_line p =
     (if fst (fst p) \<noteq> 0 then format_ipv4 (fst (fst p)) else ''replay'') @ '' id='' @ show_int (snd (fst p))
     @ '': '' @ snd p"

lemma report_spec:
  assumes "report rns rep = (rep', lines)"
  shows "\<exists>news. rep' = rep @ news \<and> lines = map source_line news \<and> (distinct rep \<longrightarrow> distinct rep')
     \<and> set news = (\<lambda>(r, n). (key r, n)) ` set rns - set rep"
  using assms
proof (induction rns arbitrary: rep rep' lines)
  case Nil
  then show ?case by simp
next
  case (Cons p rns)
  obtain r n where p: "p = (r, n)" by (cases p)
  show ?case
  proof (cases "(key r, n) \<in> set rep")
    case True
    then have "report rns rep = (rep', lines)" using Cons.prems p by simp
    from Cons.IH [OF this] True p show ?thesis by auto
  next
    case False
    then obtain ls where r: "report rns (rep @ [(key r, n)]) = (rep', ls)" and l: "lines = note_line r n # ls"
      using Cons.prems p by (auto split: prod.splits)
    obtain news where N: "rep' = (rep @ [(key r, n)]) @ news" "ls = map source_line news"
        "distinct (rep @ [(key r, n)]) \<longrightarrow> distinct rep'"
        "set news = (\<lambda>(r, n). (key r, n)) ` set rns - set (rep @ [(key r, n)])"
      using Cons.IH [OF r] by blast
    have "note_line r n = source_line (key r, n)"
      by (simp add: note_line_def source_line_def row_ip_def device_id_def)
    then have "rep' = rep @ ((key r, n) # news)" "lines = map source_line ((key r, n) # news)"
        "distinct rep \<longrightarrow> distinct rep'"
        "set ((key r, n) # news) = (\<lambda>(r, n). (key r, n)) ` set (p # rns) - set rep"
      using N l False p by auto
    then show ?thesis by blast
  qed
qed

text \<open>An update, without the cache and the loops.\<close>

lemma tracker_update_spec:
  assumes ok: "tracker_ok ghn t" and u: "tracker_update ghn stats devs now t = (t', rows, lines)"
  shows "rows = map (\<lambda>(k, st). pure_row (resolve_ipv4 ghn) devs (by_id (dict_keys stats)) t
                      (case prev_time t of Some p \<Rightarrow> now - p | None \<Rightarrow> 0) k st) (sorted_stats stats)"
    and "tracker_ok ghn t'" and "prev t' = stats" and "prev_time t' = Some now"
    and "\<exists>news. reported t' = reported t @ news \<and> lines = map source_line news
           \<and> set news = (\<lambda>(r, n). (key r, n)) ` set (row_notes rows) - set (reported t)"
proof -
  define dt where "dt = (case prev_time t of Some p \<Rightarrow> now - p | None \<Rightarrow> 0)"
  obtain cache rs where m: "make_rows ghn devs (by_id (dict_keys stats)) t dt (sorted_stats stats) (resolved t) = (cache, rs)"
    by fastforce
  obtain rep ls where r: "report (row_notes rs) (reported t) = (rep, ls)" by fastforce
  have eq: "rows = rs" "lines = ls"
      "t' = t\<lparr>prev := stats, prev_time := Some now, reported := rep, resolved := cache\<rparr>"
    using u m r unfolding tracker_update_def dt_def Let_def by simp_all
  note M = make_rows_pure(1,2) [OF m]
  obtain news where N: "rep = reported t @ news" "ls = map source_line news" "distinct (reported t) \<longrightarrow> distinct rep"
      "set news = (\<lambda>(r, n). (key r, n)) ` set (row_notes rs) - set (reported t)"
    using report_spec [OF r] by blast
  show "rows = map (\<lambda>(k, st). pure_row (resolve_ipv4 ghn) devs (by_id (dict_keys stats)) t
                      (case prev_time t of Some p \<Rightarrow> now - p | None \<Rightarrow> 0) k st) (sorted_stats stats)"
    using M(1) eq(1) unfolding dt_def [symmetric] by (simp add: view_ok [OF ok])
  have "addr_view ghn cache = resolve_ipv4 ghn" using M(2) view_ok [OF ok] by simp
  then show "tracker_ok ghn t'"
    using ok N(3) eq(3) view_okI unfolding tracker_ok_def by auto
  show "prev t' = stats" "prev_time t' = Some now" using eq(3) by simp_all
  show "\<exists>news. reported t' = reported t @ news \<and> lines = map source_line news
           \<and> set news = (\<lambda>(r, n). (key r, n)) ` set (row_notes rows) - set (reported t)"
    using N eq by auto
qed

lemma run_op_ok: "tracker_ok ghn t \<Longrightarrow> tracker_ok ghn (run_op ghn op t)"
proof (cases op)
  case Reset_Stats
  assume "tracker_ok ghn t"
  then show ?thesis by (simp add: Reset_Stats tracker_ok_def tracker_reset_def)
next
  case (Update_Stats stats devs now)
  assume "tracker_ok ghn t"
  moreover obtain t' rows lines where "tracker_update ghn stats devs now t = (t', rows, lines)"
    by (metis prod_cases3)
  ultimately show ?thesis using tracker_update_spec(2) Update_Stats by fastforce
qed

lemma tracker_after_ok [simp]: "tracker_ok ghn (tracker_after ghn ops)"
proof -
  have "tracker_ok ghn t \<Longrightarrow> tracker_ok ghn (fold (run_op ghn) ops t)" for t
    by (induction ops arbitrary: t) (auto simp: run_op_ok)
  moreover have "tracker_ok ghn new_tracker" by (simp add: tracker_ok_def new_tracker_def)
  ultimately show ?thesis by (simp add: tracker_after_def)
qed

lemma in_sorted_stats: "(k, st) \<in> set (sorted_stats stats) \<longleftrightarrow> dict_get stats k = Some st"
proof -
  have "k \<in> set (dict_keys stats) \<longleftrightarrow> dict_get stats k \<noteq> None" by (simp add: map_of_eq_None_iff)
  then show ?thesis by (auto simp: sorted_stats_def)
qed

text \<open>Two sources with one id, of which the setup knows one, for the witnesses.\<close>

definition sample_counts :: "int \<Rightarrow> source_stats" where
  "sample_counts n = \<lparr>buffer_type = 1, packets = n, bytes = 100 * n, events = 2 * n, neutron_events = 2 * n, trigger_events = 0,
     packets_lost = 0, buffer_number_jumps = 0, last_buffer_number = 0, last_device_status = 0, last_run_id = 0\<rparr>"

definition sample_stats :: "int \<Rightarrow> (device_key, source_stats) dict" where
  "sample_stats n = [((167772162, 3), sample_counts n), ((167772161, 3), sample_counts n)]"

definition sample_resolver :: resolver where
  "sample_resolver h = (if h = ''mcpd'' then Some (10, 0, 0, 1) else None)"

definition sample_source :: device_config where
  "sample_source = \<lparr>dev_name = ''left'', address = ''mcpd'', mcpd_id = 3, port = 54321, enabled = True,
     device_type = ''mcpd'', settings = [], mpsds = []\<rparr>"

definition sample_update :: "int \<Rightarrow> tracker_op list \<Rightarrow> tracker \<times> device_row list \<times> string list" where
  "sample_update n ops = tracker_update sample_resolver (sample_stats n) [sample_source] (of_int n) (tracker_after sample_resolver ops)"

lemma sample_update_eq:
  "tracker_update sample_resolver (sample_stats n) [sample_source] (of_int n) (tracker_after sample_resolver ops)
     = (fst (sample_update n ops), fst (snd (sample_update n ops)), snd (snd (sample_update n ops)))"
  by (simp add: sample_update_def)

lemma sample_sorted:
  "sorted_stats (sample_stats n) = [((167772161, 3), sample_counts n), ((167772162, 3), sample_counts n)]"
  by (simp add: sorted_stats_def sample_stats_def)

section \<open>Properties\<close>

text \<open>
  C15. Whatever updates and resets the tracker has seen, an update gives one row per source, in
  the order of address and id, with the statistics of that source; a row's configuration is a
  device of the setup with the id the source sends and, for a live source, an address that
  resolves to the source's address; in a replay it is the only device with that id.  A row
  without a configuration has no such device (in a replay: none or several).
\<close>

theorem sources_matched_to_setup:
  assumes "tracker_update ghn stats devs now (tracker_after ghn ops) = (t', rows, lines)"
  shows "map (\<lambda>r. (key r, row_stats r)) rows = sorted_stats stats
    \<and> (\<forall>r \<in> set rows.
         (let matching = filter (\<lambda>d. mcpd_id d = device_id r
                \<and> (fst (key r) = 0 \<or> resolve_ipv4 ghn (address d) = Some (fst (key r)))) devs in
          case config r of
            Some d \<Rightarrow> d \<in> set matching \<and> (fst (key r) = 0 \<longrightarrow> matching = [d])
          | None \<Rightarrow> if fst (key r) = 0 then length matching \<noteq> 1 else matching = []))"
proof -
  note U = tracker_update_spec [OF tracker_after_ok assms]
  show ?thesis
    unfolding U(1)
    by (auto simp: split_beta device_id_def candidates_def [symmetric] pure_row_config Let_def o_def
        split: list.split option.split if_splits)
qed

theorem sources_matched_to_setup_witness:
  "map key (fst (snd (sample_update 5 []))) = [(167772161, 3), (167772162, 3)]
   \<and> map (\<lambda>r. map_option dev_name (config r)) (fst (snd (sample_update 5 []))) = [Some ''left'', None]"
proof
  have "map (\<lambda>r. (key r, row_stats r)) (fst (snd (sample_update 5 [])))
      = [((167772161, 3), sample_counts 5), ((167772162, 3), sample_counts 5)]"
    using sources_matched_to_setup [OF sample_update_eq, THEN conjunct1, of 5 "[]"] by (simp add: sample_sorted)
  then have "map fst (map (\<lambda>r. (key r, row_stats r)) (fst (snd (sample_update 5 [])))) = [(167772161, 3), (167772162, 3)]"
    by simp
  then show "map key (fst (snd (sample_update 5 []))) = [(167772161, 3), (167772162, 3)]" by (simp add: o_def)
  show "map (\<lambda>r. map_option dev_name (config r)) (fst (snd (sample_update 5 []))) = [Some ''left'', None]"
    by code_simp
qed

text \<open>
  The rates of an update are the changes of the counters since the update before it divided
  by the time between the two, for a source that was there and whose packet counter did not go
  back; for every other source they are zero.
\<close>

theorem rates_between_updates:
  assumes "tracker_update ghn stats1 devs1 t1 (tracker_after ghn ops) = (t', rows1, lines1)"
    and "tracker_update ghn stats2 devs2 t2 t' = (t'', rows2, lines2)"
    and "t1 < t2" and "r \<in> set rows2"
  shows "case dict_get stats1 (key r) of
      Some p \<Rightarrow>
        if packets p \<le> packets (row_stats r) then
          packet_rate r * (t2 - t1) = of_int (packets (row_stats r) - packets p)
          \<and> event_rate r * (t2 - t1) = of_int (neutron_events (row_stats r) - neutron_events p)
          \<and> byte_rate r * (t2 - t1) = of_int (bytes (row_stats r) - bytes p)
          \<and> loss_rate r * (t2 - t1) = of_int (packets_lost (row_stats r) - packets_lost p)
        else packet_rate r = 0 \<and> event_rate r = 0 \<and> byte_rate r = 0 \<and> loss_rate r = 0
    | None \<Rightarrow> packet_rate r = 0 \<and> event_rate r = 0 \<and> byte_rate r = 0 \<and> loss_rate r = 0"
proof -
  note U1 = tracker_update_spec [OF tracker_after_ok assms(1)]
  note U2 = tracker_update_spec [OF U1(2) assms(2)]
  obtain k st where k: "r = pure_row (resolve_ipv4 ghn) devs2 (by_id (dict_keys stats2)) t' (t2 - t1) k st"
    using assms(4) unfolding U2(1) by (auto simp: U1(4))
  show ?thesis
    using assms(3) by (auto simp: k pure_row_rates row_rates_def U1(3) new_row_def Let_def split: option.split)
qed

theorem rates_between_updates_witness:
  "list_all (\<lambda>r. packet_rate r * 5 = 5 \<and> byte_rate r * 5 = 500)
     (fst (snd (sample_update 9 [Update_Stats (sample_stats 4) [sample_source] 4])))"
proof -
  have "packet_rate r * 5 = 5 \<and> byte_rate r * 5 = 500"
    if r: "r \<in> set (fst (snd (sample_update 9 [Update_Stats (sample_stats 4) [sample_source] 4])))" for r
  proof -
    let ?t = "fst (sample_update 4 [])"
    have t: "tracker_after sample_resolver [Update_Stats (sample_stats 4) [sample_source] 4] = ?t"
      by (simp add: tracker_after_def sample_update_def)
    note U = sample_update_eq [of 9 "[Update_Stats (sample_stats 4) [sample_source] 4]", unfolded t]
    have "(key r, row_stats r) \<in> set (sorted_stats (sample_stats 9))"
      using r tracker_update_spec(1) [OF tracker_after_ok sample_update_eq] by auto
    then have "row_stats r = sample_counts 9 \<and> key r \<in> {(167772161, 3), (167772162, 3)}"
      unfolding sample_sorted by auto
    then have st: "row_stats r = sample_counts 9" "dict_get (sample_stats 4) (key r) = Some (sample_counts 4)"
      by (auto simp: sample_stats_def)
    have lt: "rat_of_int 4 < rat_of_int 9" by simp
    from rates_between_updates [OF sample_update_eq U lt r] st
    show ?thesis by (simp add: sample_counts_def)
  qed
  then show ?thesis by (simp add: list_all_iff)
qed

text \<open>
  A note is reported once: every update appends to the list of reported notes those of its
  rows that are not in it yet, each once, and returns exactly the lines of those.
\<close>

theorem notes_reported_once:
  assumes "tracker_update ghn stats devs now (tracker_after ghn ops) = (t', rows, lines)"
  shows "\<exists>news. reported t' = reported (tracker_after ghn ops) @ news \<and> distinct (reported t')
    \<and> lines = map source_line news
    \<and> set news = (\<lambda>(r, n). (key r, n)) ` set (row_notes rows) - set (reported (tracker_after ghn ops))"
  using tracker_update_spec(2,5) [OF tracker_after_ok assms] unfolding tracker_ok_def by blast

theorem notes_reported_once_witness:
  "snd (snd (sample_update 9 [Update_Stats (sample_stats 4) [sample_source] 4])) = []
   \<and> length (snd (snd (sample_update 4 []))) = 3"
proof
  have "list_all (\<lambda>(r, n). (key r, n) \<in> set (reported (tracker_after sample_resolver [Update_Stats (sample_stats 4) [sample_source] 4])))
      (row_notes (fst (snd (sample_update 9 [Update_Stats (sample_stats 4) [sample_source] 4]))))"
    by code_simp
  then have "(\<lambda>(r, n). (key r, n)) ` set (row_notes (fst (snd (sample_update 9 [Update_Stats (sample_stats 4) [sample_source] 4]))))
      - set (reported (tracker_after sample_resolver [Update_Stats (sample_stats 4) [sample_source] 4])) = {}"
    by (auto simp: list_all_iff)
  with notes_reported_once [OF sample_update_eq, of 9 "[Update_Stats (sample_stats 4) [sample_source] 4]"]
  show "snd (snd (sample_update 9 [Update_Stats (sample_stats 4) [sample_source] 4])) = []" by auto
  show "length (snd (snd (sample_update 4 []))) = 3" by code_simp
qed

text \<open>
  A live source that no device of the setup matches is noted, as unknown or with the ids that
  are configured for its address, and so is one whose id another address sends too, with these
  addresses in ascending order; nothing else is noted, and in a replay nothing is.
\<close>

theorem notes_of_a_row:
  assumes "tracker_update ghn stats devs now (tracker_after ghn ops) = (t', rows, lines)"
    and "r \<in> set rows"
  shows "note_list r =
    (let same = filter (\<lambda>d. resolve_ipv4 ghn (address d) = Some (fst (key r))) devs;
         others = {a. (a, device_id r) \<in> set (dict_keys stats) \<and> a \<noteq> 0 \<and> a \<noteq> fst (key r)} in
     if fst (key r) = 0 then []
     else (if config r \<noteq> None then []
           else if same = [] then [''unknown source''] else [wrong_id_note same (device_id r)])
          @ (if others = {} then [] else [ambiguous_note (sorted_list_of_set others) (device_id r)]))"
proof -
  note U = tracker_update_spec [OF tracker_after_ok assms(1)]
  obtain k st dt where k: "r = pure_row (resolve_ipv4 ghn) devs (by_id (dict_keys stats)) (tracker_after ghn ops) dt k st"
    using assms(2) unfolding U(1) by auto
  have c: "fst k \<noteq> 0 \<Longrightarrow> config r \<noteq> None \<longleftrightarrow>
      (\<exists>d \<in> set (filter (\<lambda>d. resolve_ipv4 ghn (address d) = Some (fst k)) devs). mcpd_id d = snd k)"
  proof -
    assume "fst k \<noteq> 0"
    then have "config r \<noteq> None \<longleftrightarrow> candidates (resolve_ipv4 ghn) devs k \<noteq> []"
      by (auto simp: k pure_row_config split: list.split)
    with \<open>fst k \<noteq> 0\<close> show ?thesis by (auto simp: candidates_def filter_empty_conv)
  qed
  have "key r = k" "device_id r = snd k" by (simp_all add: k device_id_def)
  then show ?thesis
    using c unfolding k pure_row_notes Let_def by auto
qed

theorem notes_of_a_row_witness:
  "note_list (last (fst (snd (sample_update 5 [])))) =
     [''unknown source'', ambiguous_note (sorted_list_of_set {167772161}) 3]"
proof -
  let ?r = "last (fst (snd (sample_update 5 [])))"
  have r: "?r \<in> set (fst (snd (sample_update 5 [])))" by code_simp
  have facts: "key ?r = (167772162, 3)" "device_id ?r = 3" "config ?r = None"
      "resolve_ipv4 sample_resolver (address sample_source) = Some 167772161" by code_simp+
  have o: "{a. (a, 3) \<in> set (dict_keys (sample_stats 5)) \<and> a \<noteq> 0 \<and> a \<noteq> 167772162} = {167772161}"
    by (auto simp: sample_stats_def)
  from notes_of_a_row [OF sample_update_eq r] show ?thesis unfolding facts fst_conv snd_conv o Let_def by (simp add: facts)
qed

text \<open>
  The address a matched live source is shown with is the dotted form of the address the
  configured host name resolves to.
\<close>

lemma matched_row_shows_address:
  assumes "tracker_update ghn stats devs now (tracker_after ghn ops) = (t', rows, lines)"
    and "r \<in> set rows" and "config r = Some d" and "fst (key r) \<noteq> 0"
    and "ghn (address d) = Some (q1, q2, q3, q4)" and "\<forall>q \<in> {q1, q2, q3, q4}. 0 \<le> q \<and> q < 256"
  shows "row_label r = dev_name d @ '' ('' @ show_int q1 @ ''.'' @ show_int q2 @ ''.'' @ show_int q3 @ ''.''
    @ show_int q4 @ '', id='' @ show_int (mcpd_id d) @ '')''"
proof -
  note U = tracker_update_spec [OF tracker_after_ok assms(1)]
  obtain k st dt where k: "r = pure_row (resolve_ipv4 ghn) devs (by_id (dict_keys stats)) (tracker_after ghn ops) dt k st"
    using assms(2) unfolding U(1) by auto
  have kr: "key r = k" by (simp add: k)
  have "d \<in> set (candidates (resolve_ipv4 ghn) devs k)"
    using assms(3) by (auto simp: k pure_row_config split: list.splits if_splits)
  then have "mcpd_id d = snd k" "resolve_ipv4 ghn (address d) = Some (fst k)"
    using assms(4) kr by (auto simp: candidates_def)
  then have "fst k = unpack_ipv4 (q1, q2, q3, q4)" "mcpd_id d = snd k"
    using assms(5) by (simp_all add: resolve_ipv4_def)
  then show ?thesis
    using assms(3,4,6) kr format_unpack [of q1 q2 q3 q4] by (simp add: row_label_def row_ip_def device_id_def)
qed

lemma matched_row_shows_address_witness:
  "row_label (hd (fst (snd (sample_update 5 [])))) = ''left (10.0.0.1, id=3)''"
proof -
  let ?r = "hd (fst (snd (sample_update 5 [])))"
  have r: "?r \<in> set (fst (snd (sample_update 5 [])))" by code_simp
  have facts: "config ?r = Some sample_source" "fst (key ?r) \<noteq> 0" by code_simp+
  have ghn: "sample_resolver (address sample_source) = Some (10, 0, 0, 1)" by code_simp
  have s: "show_int 10 = ''10''" "show_int 0 = ''0''" "show_int 1 = ''1''" "show_int (mcpd_id sample_source) = ''3''"
      "dev_name sample_source = ''left''" by code_simp+
  from matched_row_shows_address [OF sample_update_eq r facts ghn] show ?thesis by (simp add: s)
qed

end
