(* ===== verification/Daq.thy ===== *)
theory Daq
  imports Stats
begin

text \<open>
  The readout control of the C++ library as its Python class \<open>Daq\<close> shows it
  (\<open>src/mesytec-mcpd/daq.cc\<close>, \<open>daq.h\<close>, \<open>readout_worker.cc\<close>): starting and stopping the
  readout thread, its exception, its counters, and the statistics and histograms that outlive
  a run.

  What the operating system answers is the argument \<open>os_env\<close>; what the readout thread does
  between two operations is a list of \<open>daq_event\<close>s, which \<open>daq_events\<close> applies.  Histograms
  are what the bindings return: dictionaries of arrays.
\<close>

section \<open>State\<close>

datatype ndarray = Scalars "int list" | Arrays "ndarray list"

fun zero_array :: "ndarray \<Rightarrow> ndarray" where
  "zero_array (Scalars xs) = Scalars (map (\<lambda>_. 0) xs)"
| "zero_array (Arrays as) = Arrays (map zero_array as)"

type_synonym histograms = "(string, ndarray) dict"

record worker_counters =
  rc_packets :: int
  rc_bytes :: int
  rc_timeouts :: int
  rc_invalid_packets :: int
  rc_listfile_bytes :: int

definition no_counters :: worker_counters where
  "no_counters = \<lparr>rc_packets = 0, rc_bytes = 0, rc_timeouts = 0, rc_invalid_packets = 0, rc_listfile_bytes = 0\<rparr>"

text \<open>\<open>ReadoutWorker\<close>: its thread runs from \<open>start\<close> until it leaves its loop.\<close>

record readout_worker =
  rw_running :: bool
  rw_exception :: "exc option"
  rw_counters :: worker_counters
  rw_listfile :: string

definition started_worker :: "string \<Rightarrow> readout_worker" where
  "started_worker listfile =
     \<lparr>rw_running = True, rw_exception = None, rw_counters = no_counters, rw_listfile = listfile\<rparr>"

record daq =
  listen_port :: int
  local_port :: int
  daq_worker :: "readout_worker option"
  daq_stats :: "(device_key, source_stats) dict"
  mdll_histos :: "(device_key, histograms) dict"
  mcpd_histos :: "(device_key, histograms) dict"

definition new_daq :: "int \<Rightarrow> daq" where
  "new_daq p = \<lparr>listen_port = p, local_port = 0, daq_worker = None, daq_stats = [], mdll_histos = [], mcpd_histos = []\<rparr>"

section \<open>Operations\<close>

text \<open>
  \<open>os_bind\<close>: the local port of a UDP socket bound to a port; \<open>os_create\<close>: creating a listfile,
  with the flag \<open>overwrite\<close>; \<open>os_open\<close>: opening one for replay.
\<close>

record os_env =
  os_bind :: "int \<Rightarrow> int res"
  os_create :: "string \<Rightarrow> bool \<Rightarrow> exc option"
  os_open :: "string \<Rightarrow> exc option"

definition is_running :: "daq \<Rightarrow> bool" where
  "is_running d = (case daq_worker d of None \<Rightarrow> False | Some w \<Rightarrow> rw_running w)"

definition has_exception :: "daq \<Rightarrow> bool" where
  "has_exception d = (case daq_worker d of None \<Rightarrow> False | Some w \<Rightarrow> rw_exception w \<noteq> None)"

definition start_worker :: "string \<Rightarrow> daq \<Rightarrow> daq" where
  "start_worker listfile d = d\<lparr>daq_worker := Some (started_worker listfile)\<rparr>"

definition daq_start_readout :: "os_env \<Rightarrow> string \<Rightarrow> bool \<Rightarrow> daq \<Rightarrow> daq outcome" where
  "daq_start_readout env listfile overwrite d =
     (if is_running d then (d, Some (RuntimeErr ''Daq: already running''))
      else
        with_res (os_bind env (listen_port d)) d (\<lambda>p.
        case (if listfile \<noteq> [] then os_create env listfile overwrite else None) of
          Some e \<Rightarrow> (d, Some e)
        | None \<Rightarrow> ((start_worker listfile d)\<lparr>local_port := p\<rparr>, None)))"

definition daq_start_replay :: "os_env \<Rightarrow> string \<Rightarrow> daq \<Rightarrow> daq outcome" where
  "daq_start_replay env listfile d =
     (if is_running d then (d, Some (RuntimeErr ''Daq: already running''))
      else
        (case os_open env listfile of
           Some e \<Rightarrow> (d, Some e)
         | None \<Rightarrow> (start_worker [] d, None)))"

text \<open>\<open>stop\<close> joins the thread: its loop has ended, its exception and counters stay.\<close>

definition daq_stop :: "daq \<Rightarrow> daq" where
  "daq_stop d = d\<lparr>daq_worker := map_option (\<lambda>w. w\<lparr>rw_running := False\<rparr>) (daq_worker d), local_port := 0\<rparr>"

text \<open>\<open>rethrow_exception\<close>: the exception is cleared.\<close>

definition rethrow_exception :: "daq \<Rightarrow> daq outcome" where
  "rethrow_exception d =
     (case daq_worker d of
        None \<Rightarrow> (d, None)
      | Some w \<Rightarrow> (d\<lparr>daq_worker := Some (w\<lparr>rw_exception := None\<rparr>)\<rparr>, rw_exception w))"

definition get_counters :: "daq \<Rightarrow> worker_counters" where
  "get_counters d = (case daq_worker d of None \<Rightarrow> no_counters | Some w \<Rightarrow> rw_counters w)"

definition zero_stats :: source_stats where
  "zero_stats = \<lparr>buffer_type = 0, packets = 0, bytes = 0, events = 0, neutron_events = 0, trigger_events = 0,
     packets_lost = 0, buffer_number_jumps = 0, last_buffer_number = 0, last_device_status = 0, last_run_id = 0\<rparr>"

definition reset_stats :: "daq \<Rightarrow> daq" where
  "reset_stats d = d\<lparr>daq_stats := map (\<lambda>(k, _). (k, zero_stats)) (daq_stats d)\<rparr>"

definition zero_histos :: "(device_key, histograms) dict \<Rightarrow> (device_key, histograms) dict" where
  "zero_histos h = map (\<lambda>(k, d). (k, map (\<lambda>(n, a). (n, zero_array a)) d)) h"

definition clear_histograms :: "daq \<Rightarrow> daq" where
  "clear_histograms d = d\<lparr>mdll_histos := zero_histos (mdll_histos d), mcpd_histos := zero_histos (mcpd_histos d)\<rparr>"

definition clear_sources :: "daq \<Rightarrow> daq" where
  "clear_sources d = d\<lparr>daq_stats := [], mdll_histos := [], mcpd_histos := []\<rparr>"

section \<open>The readout thread\<close>

text \<open>
  What the thread of a running readout does: it has received packets (the counters, statistics
  and histograms are new ones), the data of a replay ends, or its loop ends with an exception.
\<close>

datatype daq_event =
    Received worker_counters "(device_key, source_stats) dict" "(device_key, histograms) dict" "(device_key, histograms) dict"
  | EndOfData
  | Failed exc

fun daq_event_step :: "daq_event \<Rightarrow> daq \<Rightarrow> daq" where
  "daq_event_step ev d =
     (case daq_worker d of
        None \<Rightarrow> d
      | Some w \<Rightarrow>
          if \<not> rw_running w then d
          else
            (case ev of
               Received c st ml mc \<Rightarrow>
                 d\<lparr>daq_worker := Some (w\<lparr>rw_counters := c\<rparr>), daq_stats := st, mdll_histos := ml, mcpd_histos := mc\<rparr>
             | EndOfData \<Rightarrow> d\<lparr>daq_worker := Some (w\<lparr>rw_running := False\<rparr>)\<rparr>
             | Failed e \<Rightarrow> d\<lparr>daq_worker := Some (w\<lparr>rw_running := False, rw_exception := Some e\<rparr>)\<rparr>))"

definition daq_events :: "daq_event list \<Rightarrow> daq \<Rightarrow> daq" where
  "daq_events evs d = fold daq_event_step evs d"

section \<open>What the clients rely on\<close>

named_theorems daq_simps \<open>the operations of the readout control\<close>

locale readout_control =
  fixes running :: "'d \<Rightarrow> bool"
    and start :: "'e \<Rightarrow> 'd \<Rightarrow> 'd outcome"
    and halt :: "'d \<Rightarrow> 'd"
    and work :: "'v list \<Rightarrow> 'd \<Rightarrow> 'd"
  assumes halt_stops: "\<not> running (halt d)"
    and start_ok: "start e d = (d', None) \<Longrightarrow> running d' \<and> \<not> running d"
    and start_failed: "start e d = (d', Some x) \<Longrightarrow> d' = d"
    and work_idle: "\<not> running d \<Longrightarrow> work evs d = d"
begin

lemma running_start: "running d \<Longrightarrow> \<exists>x. start e d = (d, Some x)"
  using start_ok [of e d] start_failed [of e d] by (cases "start e d"; cases "snd (start e d)") auto

lemma halted_stays: "work evs (halt d) = halt d"
  by (simp add: work_idle halt_stops)

lemma start_running_iff: "start e d = (d', r) \<Longrightarrow> running d' \<longleftrightarrow> running d \<or> r = None"
  by (cases r) (auto dest: start_ok start_failed)

end

lemma is_running_simps [simp, daq_simps]:
  "\<not> is_running (new_daq p)" "\<not> is_running (daq_stop d)" "is_running (start_worker l d)"
  "is_running (reset_stats d) = is_running d" "is_running (clear_histograms d) = is_running d"
  "is_running (clear_sources d) = is_running d" "is_running (d\<lparr>local_port := p\<rparr>) = is_running d"
  by (simp_all add: is_running_def new_daq_def daq_stop_def start_worker_def started_worker_def reset_stats_def
      clear_histograms_def clear_sources_def split: option.split)

lemma local_port_simps [simp, daq_simps]:
  "local_port (new_daq p) = 0" "local_port (daq_stop d) = 0" "listen_port (daq_stop d) = listen_port d"
  "listen_port (start_worker l d) = listen_port d" "listen_port (new_daq p) = p"
  by (simp_all add: new_daq_def daq_stop_def start_worker_def)

lemma daq_event_idle: "\<not> is_running d \<Longrightarrow> daq_event_step ev d = d"
  by (auto simp: is_running_def split: option.splits)

lemma daq_events_idle: "\<not> is_running d \<Longrightarrow> daq_events evs d = d"
  unfolding daq_events_def by (induction evs) (simp_all add: daq_event_idle del: daq_event_step.simps)

lemma daq_start_readout_cases:
  assumes "daq_start_readout env l ov d = (d', r)"
  shows "(r = None \<and> \<not> is_running d \<and> (\<exists>p. os_bind env (listen_port d) = Inr p \<and> d' = (start_worker l d)\<lparr>local_port := p\<rparr>)
            \<and> (l \<noteq> [] \<longrightarrow> os_create env l ov = None))
       \<or> (r \<noteq> None \<and> d' = d)"
  using assms by (cases "os_bind env (listen_port d)") (auto simp: daq_start_readout_def split: if_splits option.splits)

lemma daq_start_replay_cases:
  assumes "daq_start_replay env l d = (d', r)"
  shows "(r = None \<and> \<not> is_running d \<and> d' = start_worker [] d) \<or> (r \<noteq> None \<and> d' = d)"
  using assms by (auto simp: daq_start_replay_def split: if_splits option.splits)

interpretation readout: readout_control is_running "\<lambda>(env, l, ov). daq_start_readout env l ov" daq_stop daq_events
  by unfold_locales (auto dest: daq_start_readout_cases simp: daq_events_idle)

interpretation replay: readout_control is_running "\<lambda>(env, l). daq_start_replay env l" daq_stop daq_events
  by unfold_locales (auto dest: daq_start_replay_cases simp: daq_events_idle)

end
