(* ===== verification/Cli.thy ===== *)
theory Cli
  imports Daq
begin

text \<open>
  The command line tool \<open>mcpd-cli-py\<close>: context, parameter types and error handling
  (\<open>src/cli/context.py\<close>, \<open>util.py\<close>, \<open>main.py\<close>).

  An action changes the state of one invocation and returns a value or raises.  The library
  click is an argument: record \<open>click\<close> holds the conversions it makes for the sources, and a
  command receives its parameters as click delivers them, absent, as a token or as a flag.
  The functions of the bindings are in \<open>cli_lib\<close>.
\<close>

section \<open>Actions\<close>

record ('w, 'c) cli =
  cli_world :: 'w
  ctx_address :: string
  ctx_mcpd_id :: int
  ctx_port :: int
  ctx_connection :: "'c option"
  cli_out :: "string list"
  cli_err :: "string list"
  cli_level :: "string option"

type_synonym ('w, 'c, 'a) action = "('w, 'c) cli \<Rightarrow> ('w, 'c) cli \<times> 'a res"

definition ret :: "'a \<Rightarrow> ('w, 'c, 'a) action" where
  "ret a s = (s, Inr a)"

definition raising :: "exc \<Rightarrow> ('w, 'c, 'a) action" where
  "raising e s = (s, Inl e)"

definition bind_act :: "('w, 'c, 'a) action \<Rightarrow> ('a \<Rightarrow> ('w, 'c, 'b) action) \<Rightarrow> ('w, 'c, 'b) action" where
  "bind_act m f s = (case m s of (s', Inl e) \<Rightarrow> (s', Inl e) | (s', Inr a) \<Rightarrow> f a s')"

definition seq_act :: "('w, 'c, 'a) action \<Rightarrow> ('w, 'c, 'b) action \<Rightarrow> ('w, 'c, 'b) action" where
  "seq_act m k = bind_act m (\<lambda>_. k)"

definition lift_res :: "'a res \<Rightarrow> ('w, 'c, 'a) action" where
  "lift_res r s = (s, r)"

definition echo :: "string \<Rightarrow> ('w, 'c, unit) action" where
  "echo line s = (s\<lparr>cli_out := cli_out s @ [line]\<rparr>, Inr ())"

definition echo_err :: "string \<Rightarrow> ('w, 'c, unit) action" where
  "echo_err line s = (s\<lparr>cli_err := cli_err s @ [line]\<rparr>, Inr ())"

fun each_act :: "('a \<Rightarrow> ('w, 'c, unit) action) \<Rightarrow> 'a list \<Rightarrow> ('w, 'c, unit) action" where
  "each_act f [] = ret ()"
| "each_act f (x # xs) = seq_act (f x) (each_act f xs)"

section \<open>The context\<close>

definition McpdDefaultAddress :: string where
  "McpdDefaultAddress = ''192.168.168.121''"

definition McpdDefaultPort :: int where
  "McpdDefaultPort = 54321"

definition new_context :: "string \<Rightarrow> int \<Rightarrow> int \<Rightarrow> 'w \<Rightarrow> ('w, 'c) cli" where
  "new_context a i p w =
     \<lparr>cli_world = w, ctx_address = a, ctx_mcpd_id = i, ctx_port = p, ctx_connection = None, cli_out = [],
      cli_err = [], cli_level = None\<rparr>"

text \<open>\<open>ctx.connection\<close>: opened by its first use.\<close>

definition connection :: "('w, 'c) api \<Rightarrow> ('w, 'c, 'c) action" where
  "connection api s =
     (case ctx_connection s of
        Some c \<Rightarrow> (s, Inr c)
      | None \<Rightarrow>
          (case api_open api (cli_world s) (ctx_address s, ctx_mcpd_id s, ctx_port s) of
             (w, Inl e) \<Rightarrow> (s\<lparr>cli_world := w\<rparr>, Inl e)
           | (w, Inr c) \<Rightarrow> (s\<lparr>cli_world := w, ctx_connection := Some c\<rparr>, Inr c)))"

definition ctx_close :: "('w, 'c) api \<Rightarrow> ('w, 'c) cli \<Rightarrow> ('w, 'c) cli" where
  "ctx_close api s =
     (case ctx_connection s of
        None \<Rightarrow> s
      | Some c \<Rightarrow> s\<lparr>cli_world := api_close api (cli_world s) c, ctx_connection := None\<rparr>)"

text \<open>
  \<open>ctx.connection.method(args)\<close>: the connection is opened, the arguments are evaluated, the
  method is called.  The assignment \<open>ctx.connection.mcpd_id = n\<close> calls the setter of the
  binding's property, here the method \<open>mcpd_id=\<close>.
\<close>

definition conn_call :: "('w, 'c) api \<Rightarrow> string \<Rightarrow> pyval res list \<Rightarrow> ('w, 'c, reply) action" where
  "conn_call api m args =
     bind_act (connection api) (\<lambda>c.
     bind_act (lift_res (traverse (\<lambda>a. a) args)) (\<lambda>vs s.
       case api_call api (cli_world s) c (Call m vs []) of (w, r) \<Rightarrow> (s\<lparr>cli_world := w\<rparr>, r)))"

definition conn_do :: "('w, 'c) api \<Rightarrow> string \<Rightarrow> pyval res list \<Rightarrow> ('w, 'c, unit) action" where
  "conn_do api m args = seq_act (conn_call api m args) (ret ())"

definition set_conn_mcpd_id :: "('w, 'c) api \<Rightarrow> int \<Rightarrow> ('w, 'c, unit) action" where
  "set_conn_mcpd_id api n = conn_do api ''mcpd_id='' [Inr (PInt n)]"

section \<open>Parameter types and errors\<close>

text \<open>\<open>BasedIntParamType.convert\<close>; \<open>self.fail\<close> raises a usage error.\<close>

fun based_int :: "pyval \<Rightarrow> pyval res" where
  "based_int (PInt n) = Inr (PInt n)"
| "based_int (PBool b) = Inr (PBool b)"
| "based_int (PStr s) =
     (case py_int0 s of
        Some n \<Rightarrow> Inr (PInt n)
      | None \<Rightarrow> Inl (UsageError (repr_str s @ '' is not a valid integer'')))"
| "based_int v = Inl (TypeError ''int() cannot convert non-string with explicit base'')"

definition enum_param :: "enum_type \<Rightarrow> string list" where
  "enum_param t = map fst (members t)"

text \<open>\<open>E[name]\<close> for the enum \<open>t\<close>\<close>

definition enum_member :: "enum_type \<Rightarrow> string \<Rightarrow> pyval res" where
  "enum_member t m = enum_lookup (Some t) (PStr m)"

definition handle_mcpd_errors :: "('w, 'c, 'a) action \<Rightarrow> ('w, 'c, 'a) action" where
  "handle_mcpd_errors func s =
     (case func s of
        (s', Inl (McpdErr m)) \<Rightarrow> (s', Inl (ClickException m))
      | r \<Rightarrow> r)"

text \<open>
  What click does for the sources: the types \<open>int\<close>, \<open>bool\<close> and \<open>Choice\<close>.
\<close>

record click =
  ck_int :: "string \<Rightarrow> int option"
  ck_bool :: "string \<Rightarrow> bool option"
  ck_choice :: "string list \<Rightarrow> string \<Rightarrow> string option"

datatype ptype = PtInt | PtBased | PtChoice enum_type | PtStr | PtBool

datatype given = Absent | Token string | Flag bool

record cli_param =
  cp_name :: string
  cp_type :: ptype
  cp_default :: "pyval option"

definition argument :: "string \<Rightarrow> ptype \<Rightarrow> cli_param" where
  "argument n t = \<lparr>cp_name = n, cp_type = t, cp_default = None\<rparr>"

definition optional :: "string \<Rightarrow> ptype \<Rightarrow> pyval \<Rightarrow> cli_param" where
  "optional n t d = \<lparr>cp_name = n, cp_type = t, cp_default = Some d\<rparr>"

fun convert_token :: "click \<Rightarrow> ptype \<Rightarrow> string \<Rightarrow> pyval res" where
  "convert_token ck PtInt s =
     (case ck_int ck s of Some n \<Rightarrow> Inr (PInt n) | None \<Rightarrow> Inl (UsageError (repr_str s @ '' is not a valid integer'')))"
| "convert_token ck PtBased s = based_int (PStr s)"
| "convert_token ck (PtChoice t) s =
     (case ck_choice ck (enum_param t) s of
        Some m \<Rightarrow> Inr (PStr m) | None \<Rightarrow> Inl (UsageError (repr_str s @ '' is not one of the choices'')))"
| "convert_token ck PtStr s = Inr (PStr s)"
| "convert_token ck PtBool s =
     (case ck_bool ck s of Some b \<Rightarrow> Inr (PBool b) | None \<Rightarrow> Inl (UsageError (repr_str s @ '' is not a valid boolean'')))"

fun convert_given :: "click \<Rightarrow> cli_param \<times> given \<Rightarrow> pyval res" where
  "convert_given ck (p, Token s) = convert_token ck (cp_type p) s"
| "convert_given ck (p, Flag b) =
     (if cp_type p = PtBool then Inr (PBool b) else Inl (UsageError (cp_name p)))"
| "convert_given ck (p, Absent) =
     (case cp_default p of Some v \<Rightarrow> Inr v | None \<Rightarrow> Inl (UsageError (''Missing argument '' @ cp_name p)))"

definition convert_params :: "click \<Rightarrow> cli_param list \<Rightarrow> given list \<Rightarrow> pyval list res" where
  "convert_params ck ps gs =
     (if length gs \<noteq> length ps then Inl (UsageError ''Got unexpected extra arguments'')
      else traverse (convert_given ck) (zip ps gs))"

section \<open>Commands\<close>

text \<open>
  A command: its name, its help text, its parameters, whether it is wrapped by
  \<open>handle_mcpd_errors\<close>, and its body as a function of the converted parameters.
\<close>

record ('w, 'c) cli_command =
  cc_name :: string
  cc_help :: string
  cc_params :: "cli_param list"
  cc_handled :: bool
  cc_run :: "pyval list \<Rightarrow> ('w, 'c, unit) action"

text \<open>Taking the parameters of a body one by one, by type.\<close>

type_synonym ('w, 'c) body = "pyval list \<Rightarrow> ('w, 'c, unit) action"

definition bad_params :: "('w, 'c, unit) action" where
  "bad_params = raising (TypeError ''unexpected parameters'')"

fun no_more :: "('w, 'c, unit) action \<Rightarrow> ('w, 'c) body" where
  "no_more act [] = act"
| "no_more act (v # vs) = bad_params"

fun with_int :: "(int \<Rightarrow> ('w, 'c) body) \<Rightarrow> ('w, 'c) body" where
  "with_int f (PInt n # vs) = f n vs"
| "with_int f vs = bad_params"

fun with_str :: "(string \<Rightarrow> ('w, 'c) body) \<Rightarrow> ('w, 'c) body" where
  "with_str f (PStr s # vs) = f s vs"
| "with_str f vs = bad_params"

fun with_bool :: "(bool \<Rightarrow> ('w, 'c) body) \<Rightarrow> ('w, 'c) body" where
  "with_bool f (PBool b # vs) = f b vs"
| "with_bool f vs = bad_params"

definition cli_cmd :: "string \<Rightarrow> string \<Rightarrow> cli_param list \<Rightarrow> ('w, 'c) body \<Rightarrow> ('w, 'c) cli_command" where
  "cli_cmd n h ps b = \<lparr>cc_name = n, cc_help = h, cc_params = ps, cc_handled = True, cc_run = b\<rparr>"

section \<open>The tool\<close>

text \<open>The options of the group \<open>cli\<close>, as click delivers them.\<close>

record cli_options =
  opt_address :: string
  opt_mcpd_id :: int
  opt_port :: int
  opt_debug :: bool
  opt_trace :: bool

text \<open>
  Their declarations: defaults, and the environment variables click falls back to (\<open>getenv\<close>).
\<close>

definition cli_option_params :: "(cli_param \<times> string option) list" where
  "cli_option_params =
     [(optional ''address'' PtStr (PStr McpdDefaultAddress), Some ''MCPD_ADDRESS''),
      (optional ''mcpd_id'' PtInt (PInt 0), Some ''MCPD_ID''),
      (optional ''port'' PtInt (PInt McpdDefaultPort), None)]"

fun given_or_env :: "(string \<Rightarrow> string option) \<Rightarrow> string option \<Rightarrow> given \<Rightarrow> given" where
  "given_or_env getenv (Some v) Absent = (case getenv v of Some s \<Rightarrow> Token s | None \<Rightarrow> Absent)"
| "given_or_env getenv e g = g"

definition cli_options_of ::
  "click \<Rightarrow> (string \<Rightarrow> string option) \<Rightarrow> given \<Rightarrow> given \<Rightarrow> given \<Rightarrow> bool \<Rightarrow> bool \<Rightarrow> cli_options res" where
  "cli_options_of ck getenv a i p dbg trc =
     bind_res
       (convert_params ck (map fst cli_option_params)
         (map (\<lambda>(e, g). given_or_env getenv e g) (zip (map snd cli_option_params) [a, i, p])))
       (\<lambda>vs. case vs of
          [PStr a', PInt i', PInt p'] \<Rightarrow>
            Inr \<lparr>opt_address = a', opt_mcpd_id = i', opt_port = p', opt_debug = dbg, opt_trace = trc\<rparr>
        | _ \<Rightarrow> Inl (TypeError ''unexpected parameters''))"

definition set_log_level :: "string \<Rightarrow> ('w, 'c) cli \<Rightarrow> ('w, 'c) cli" where
  "set_log_level l s = s\<lparr>cli_level := Some l\<rparr>"

text \<open>\<open>cli\<close> sets up the context; its connection is closed when the invocation ends.\<close>

definition cli_start :: "cli_options \<Rightarrow> 'w \<Rightarrow> ('w, 'c) cli" where
  "cli_start opts w =
     (let s = new_context (opt_address opts) (opt_mcpd_id opts) (opt_port opts) w in
      if opt_trace opts then set_log_level ''trace'' s
      else if opt_debug opts then set_log_level ''debug'' s
      else s)"

definition invoke :: "('w, 'c) api \<Rightarrow> cli_options \<Rightarrow> ('w, 'c, 'a) action \<Rightarrow> 'w \<Rightarrow> ('w, 'c) cli \<times> 'a res" where
  "invoke api opts act w = (case act (cli_start opts w) of (s, r) \<Rightarrow> (ctx_close api s, r))"

definition run_command_line ::
  "click \<Rightarrow> ('w, 'c) cli_command \<Rightarrow> given list \<Rightarrow> ('w, 'c, unit) action" where
  "run_command_line ck c gs =
     bind_act (lift_res (convert_params ck (cc_params c) gs))
       (\<lambda>vs. if cc_handled c then handle_mcpd_errors (cc_run c vs) else cc_run c vs)"

lemma action_simps [simp]:
  "ret a s = (s, Inr a)"
  "raising e s = (s, Inl e)"
  "lift_res r s = (s, r)"
  "bind_act (lift_res (Inr a)) f = f a"
  "bind_act (ret a) f = f a"
  by (simp_all add: ret_def raising_def lift_res_def bind_act_def fun_eq_iff)

end
