(* ===== verification/Cli_Readout.thy ===== *)
theory Cli_Readout
  imports Cli
begin

text \<open>
  The commands \<open>readout\<close> and \<open>replay\<close> (\<open>src/cli/readout_cmd.py\<close>, \<open>replay_cmd.py\<close>) over the
  readout control of theory \<open>Daq\<close>.

  One turn of the loops is a \<open>tick\<close>: what the readout thread did since the last look, whether
  ctrl-c came during the sleep, and the clock after it.  A loop is a function of the ticks that
  come; its result is \<open>None\<close> when it has not been left after the last of them.
\<close>

section \<open>Exceptions as text\<close>

fun exc_str :: "exc \<Rightarrow> string" where
  "exc_str (McpdErr m) = m"
| "exc_str (ValueError m) = m"
| "exc_str (KeyError m) = repr_str m"
| "exc_str (TypeError m) = m"
| "exc_str IndexError = ''list index out of range''"
| "exc_str (AttributeError m) = m"
| "exc_str (OSErr m) = m"
| "exc_str (RuntimeErr m) = m"
| "exc_str (UsageError m) = m"
| "exc_str (ClickException m) = m"
| "exc_str KeyboardInterrupt = ''''"
| "exc_str (OtherExc m) = m"

section \<open>State\<close>

text \<open>The invocation together with the local variable \<open>daq\<close>.\<close>

type_synonym ('w, 'c) readout_state = "('w, 'c) cli \<times> daq"

type_synonym ('w, 'c) readout_result = "('w, 'c) readout_state \<times> unit res"

record tick =
  tk_events :: "daq_event list"
  tk_interrupt :: bool
  tk_now :: rat

definition echo_line :: "string \<Rightarrow> ('w, 'c) cli \<Rightarrow> ('w, 'c) cli" where
  "echo_line l s = s\<lparr>cli_out := cli_out s @ [l]\<rparr>"

definition sum_stats :: "(source_stats \<Rightarrow> int) \<Rightarrow> daq \<Rightarrow> int" where
  "sum_stats f d = sum_list (map (\<lambda>p. f (snd p)) (daq_stats d))"

definition readout_counters_line :: "daq \<Rightarrow> string \<Rightarrow> string" where
  "readout_counters_line d title =
     (let c = get_counters d in
      title @ '': packets='' @ show_int (rc_packets c) @ '', packetsLost='' @ show_int (sum_stats packets_lost d)
      @ '', events='' @ show_int (sum_stats events d) @ '', bytes='' @ show_int (rc_bytes c)
      @ '', timeouts='' @ show_int (rc_timeouts c) @ '', invalid='' @ show_int (rc_invalid_packets c)
      @ '', sources='' @ show_nat (length (daq_stats d)))"

definition replay_counters_line :: "daq \<Rightarrow> string \<Rightarrow> string" where
  "replay_counters_line d title =
     (let c = get_counters d in
      title @ '': packets='' @ show_int (rc_packets c) @ '', packetsLost='' @ show_int (sum_stats packets_lost d)
      @ '', events='' @ show_int (sum_stats events d) @ '', bytes='' @ show_int (rc_bytes c)
      @ '', sources='' @ show_nat (length (daq_stats d)))"

text \<open>\<open>mcpd.Daq(listen_port=p)\<close>: the binding takes a 16 bit number.\<close>

definition make_daq :: "int \<Rightarrow> daq res" where
  "make_daq p = (if 0 \<le> p \<and> p < 2 ^ 16 then Inr (new_daq p) else Inl (TypeError ''incompatible constructor arguments''))"

section \<open>The loops\<close>

text \<open>The report of one turn: what is printed and the time of the last report afterwards.\<close>

definition report_if_due ::
  "(daq \<Rightarrow> string \<Rightarrow> string) \<Rightarrow> string \<Rightarrow> rat \<Rightarrow> rat \<Rightarrow> rat \<Rightarrow> ('w, 'c) readout_state
   \<Rightarrow> ('w, 'c) readout_state \<times> rat" where
  "report_if_due line title interval now t_report sd =
     (case sd of (s, d) \<Rightarrow>
        if 0 < interval \<and> interval \<le> now - t_report then ((echo_line (line d title) s, d), now)
        else ((s, d), t_report))"

fun readout_loop ::
  "rat \<Rightarrow> rat \<Rightarrow> rat \<Rightarrow> tick list \<Rightarrow> rat \<Rightarrow> ('w, 'c) readout_state \<Rightarrow> ('w, 'c) readout_result option" where
  "readout_loop duration interval t_start [] t_report (s, d) =
     (if is_running d then None else Some ((s, d), Inr ()))"
| "readout_loop duration interval t_start (tk # tks) t_report (s, d) =
     (let d1 = daq_events (tk_events tk) d in
      if \<not> is_running d1 then Some ((s, d1), Inr ())
      else if tk_interrupt tk then Some ((s, d1), Inl KeyboardInterrupt)
      else if 0 < duration \<and> duration \<le> tk_now tk - t_start then
        Some ((echo_line ''readout: run duration reached, leaving readout loop'' s, d1), Inr ())
      else
        (case report_if_due readout_counters_line ''readout'' interval (tk_now tk) t_report (s, d1) of
           (sd, t) \<Rightarrow> readout_loop duration interval t_start tks t sd))"

fun replay_loop ::
  "rat \<Rightarrow> tick list \<Rightarrow> rat \<Rightarrow> ('w, 'c) readout_state \<Rightarrow> ('w, 'c) readout_result option" where
  "replay_loop interval [] t_report (s, d) = (if is_running d then None else Some ((s, d), Inr ()))"
| "replay_loop interval (tk # tks) t_report (s, d) =
     (let d1 = daq_events (tk_events tk) d in
      if \<not> is_running d1 then Some ((s, d1), Inr ())
      else if tk_interrupt tk then Some ((s, d1), Inl KeyboardInterrupt)
      else
        (case report_if_due replay_counters_line ''replay'' interval (tk_now tk) t_report (s, d1) of
           (sd, t) \<Rightarrow> replay_loop interval tks t sd))"

text \<open>\<open>except KeyboardInterrupt: pass\<close> and \<open>finally: daq.stop()\<close>\<close>

definition stop_finally :: "('w, 'c) readout_result \<Rightarrow> ('w, 'c) readout_result" where
  "stop_finally r =
     (case r of ((s, d), e) \<Rightarrow> ((s, daq_stop d), if e = Inl KeyboardInterrupt then Inr () else e))"

section \<open>readout\<close>

record readout_options =
  ro_listfile :: "string option"
  ro_overwrite :: bool
  ro_no_listfile :: bool
  ro_duration :: rat
  ro_dataport :: int
  ro_interval :: rat
  ro_no_start_daq :: bool

definition default_readout_options :: readout_options where
  "default_readout_options =
     \<lparr>ro_listfile = None, ro_overwrite = False, ro_no_listfile = False, ro_duration = 0, ro_dataport = 54321,
      ro_interval = 1, ro_no_start_daq = False\<rparr>"

text \<open>The name of the listfile, with the checks before the readout.\<close>

definition readout_listfile :: "(string \<Rightarrow> bool) \<Rightarrow> readout_options \<Rightarrow> string res" where
  "readout_listfile exists_file ro =
     (case ro_listfile ro of
        None \<Rightarrow>
          if \<not> ro_no_listfile ro then Inl (UsageError ''no listfile name given (use --no-listfile to ignore)'')
          else Inr []
      | Some l \<Rightarrow>
          if ro_no_listfile ro then Inr []
          else if exists_file l \<and> \<not> ro_overwrite ro then
            Inl (UsageError (''output listfile '' @ [CHR 39] @ l @ [CHR 39] @ '' already exists''))
          else Inr l)"

text \<open>The body of the \<open>try\<close>: start the devices, then the loop.  \<open>t_start\<close> is the clock.\<close>

definition readout_body ::
  "('w, 'c) api \<Rightarrow> readout_options \<Rightarrow> rat \<Rightarrow> tick list \<Rightarrow> ('w, 'c) readout_state \<Rightarrow> ('w, 'c) readout_result option" where
  "readout_body api ro t_start tks sd =
     (case sd of (s, d) \<Rightarrow>
        (case (if ro_no_start_daq ro then ret () else conn_do api ''start_daq'' []) s of
           (s1, Inl e) \<Rightarrow> Some ((s1, d), Inl e)
         | (s1, Inr _) \<Rightarrow>
             readout_loop (ro_duration ro) (ro_interval ro) t_start tks t_start
               (echo_line ''readout: entering readout loop, press ctrl-c to quit'' s1, d)))"

text \<open>\<open>if daq.has_exception(): ...\<close> and the final line.\<close>

definition readout_end :: "('w, 'c) readout_state \<Rightarrow> ('w, 'c) readout_result" where
  "readout_end sd =
     (case sd of (s, d) \<Rightarrow>
        (case (if has_exception d then rethrow_exception d else (d, None)) of
           (d1, Some e) \<Rightarrow> ((s, d1), Inl (ClickException (''readout error: '' @ exc_str e)))
         | (d1, None) \<Rightarrow> ((echo_line (readout_counters_line d1 ''readout (full run)'') s, d1), Inr ())))"

text \<open>\<open>except (RuntimeError, OSError)\<close>, then \<open>handle_mcpd_errors\<close>\<close>

fun start_error :: "exc \<Rightarrow> exc" where
  "start_error (RuntimeErr m) = ClickException m"
| "start_error (OSErr m) = ClickException m"
| "start_error (McpdErr m) = ClickException m"
| "start_error e = e"

text \<open>
  \<open>readout\<close> within \<open>handle_mcpd_errors\<close>.  The \<open>Daq\<close> object is \<open>None\<close> before it is created.
\<close>

definition readout ::
  "os_env \<Rightarrow> (string \<Rightarrow> bool) \<Rightarrow> ('w, 'c) api \<Rightarrow> readout_options \<Rightarrow> rat \<Rightarrow> tick list \<Rightarrow> ('w, 'c) cli
   \<Rightarrow> (('w, 'c) cli \<times> daq option \<times> unit res) option" where
  "readout env exists_file api ro t_start tks s =
     (case readout_listfile exists_file ro of
        Inl e \<Rightarrow> Some (s, None, Inl e)
      | Inr l \<Rightarrow>
          (case make_daq (ro_dataport ro) of
             Inl e \<Rightarrow> Some (s, None, Inl e)
           | Inr d \<Rightarrow>
               (case daq_start_readout env l (ro_overwrite ro) d of
                  (d1, Some e) \<Rightarrow> Some (s, Some d1, Inl (start_error e))
                | (d1, None) \<Rightarrow>
                    (case readout_body api ro t_start tks (s, d1) of
                       None \<Rightarrow> None
                     | Some r \<Rightarrow>
                         (case stop_finally r of
                            ((s2, d2), Inl e) \<Rightarrow>
                              Some (s2, Some d2, Inl (case e of McpdErr m \<Rightarrow> ClickException m | _ \<Rightarrow> e))
                          | (sd2, Inr _) \<Rightarrow>
                              (case readout_end sd2 of ((s3, d3), res) \<Rightarrow> Some (s3, Some d3, res)))))))"

section \<open>replay\<close>

text \<open>click has checked that the listfile exists and is a file.\<close>

fun replay_error :: "exc \<Rightarrow> exc" where
  "replay_error (RuntimeErr m) = ClickException m"
| "replay_error (McpdErr m) = ClickException m"
| "replay_error e = e"

definition replay ::
  "os_env \<Rightarrow> string \<Rightarrow> rat \<Rightarrow> rat \<Rightarrow> tick list \<Rightarrow> ('w, 'c) cli \<Rightarrow> (('w, 'c) cli \<times> daq \<times> unit res) option" where
  "replay env listfile interval t_report tks s =
     (case daq_start_replay env listfile (new_daq McpdDefaultPort) of
        (d, Some e) \<Rightarrow> Some (s, d, Inl (replay_error e))
      | (d, None) \<Rightarrow>
          (case replay_loop interval tks t_report (echo_line (''Replaying from '' @ listfile) s, d) of
             None \<Rightarrow> None
           | Some r \<Rightarrow>
               (case stop_finally r of
                  ((s2, d2), Inl e) \<Rightarrow> Some (s2, d2, Inl e)
                | ((s2, d2), Inr _) \<Rightarrow>
                    Some (echo_line (replay_counters_line d2 ''replay (full run)'') s2, d2, Inr ()))))"

end
