(* ===== verification/Cli_Commands.thy ===== *)
theory Cli_Commands
  imports Cli
begin

text \<open>
  The commands of the tool (\<open>src/cli/mcpd_cmds.py\<close>, \<open>mpsd_cmds.py\<close>, \<open>mstd_cmds.py\<close>,
  \<open>mdll_cmds.py\<close>, \<open>daq_cmds.py\<close>): one definition per command with its name, help,
  parameters and body, and the table of the groups (\<open>main.py\<close>).  \<open>find_id\<close> is the function
  \<open>find_mcpd_id\<close> of the bindings.
\<close>

unbundle bit_operations_syntax

section \<open>Printing replies\<close>

definition pair_text :: "int \<times> int \<Rightarrow> string" where
  "pair_text p = show_int (fst p) @ ''.'' @ show_int (snd p)"

fun print_version :: "reply \<Rightarrow> ('w, 'c, unit) action" where
  "print_version (RVersion cpu fpga) = echo (''MCPD/MDLL cpu='' @ pair_text cpu @ '', fpga='' @ pair_text fpga)"
| "print_version r = raising (AttributeError ''cpu'')"

definition print_param :: "nat \<times> int \<Rightarrow> ('w, 'c, unit) action" where
  "print_param p = echo (''Parameter'' @ show_nat (fst p) @ '': '' @ show_int (snd p))"

fun print_parameters :: "reply \<Rightarrow> ('w, 'c, unit) action" where
  "print_parameters (RParams adc dac ttl_out ttl_in event_counters params) =
     seq_act (echo (''ADC1='' @ show_int (fst adc) @ '', ADC2='' @ show_int (snd adc)))
    (seq_act (echo (''DAC1='' @ show_int (fst dac) @ '', DAC2='' @ show_int (snd dac)))
    (seq_act (echo (''TTL out='' @ show_int ttl_out @ '', TTL in='' @ show_int ttl_in))
    (each_act print_param (enumerate 0 params))))"
| "print_parameters r = raising (AttributeError ''adc'')"

definition print_bus :: "nat \<times> int \<Rightarrow> ('w, 'c, unit) action" where
  "print_bus p = echo (''['' @ show_nat (fst p) @ '']: '' @ show_int (snd p))"

fun print_busses :: "reply \<Rightarrow> ('w, 'c, unit) action" where
  "print_busses (RInts result) = each_act print_bus (enumerate 0 result)"
| "print_busses r = raising (TypeError ''object is not iterable'')"

fun print_capabilities :: "reply \<Rightarrow> ('w, 'c, unit) action" where
  "print_capabilities (RCaps available selected) =
     echo (''available=0x'' @ fmt_hex True 2 available @ '', current=0x'' @ fmt_hex True 2 selected)"
| "print_capabilities r = raising (AttributeError ''available'')"

fun print_mpsd_parameters :: "reply \<Rightarrow> ('w, 'c, unit) action" where
  "print_mpsd_parameters (RMpsd mpsd_id caps tx_format firmware) =
     seq_act (echo (''MPSD'' @ show_int mpsd_id @ '' parameters:''))
    (seq_act (echo (''  busTxCapabilities='' @ show_int caps))
    (seq_act (echo (''  txFormat='' @ show_int tx_format))
    (echo (''  firmwareRevision=0x'' @ fmt_hex False 4 firmware))))"
| "print_mpsd_parameters r = raising (AttributeError ''mpsd_id'')"

fun with_reply_int :: "reply \<Rightarrow> (int \<Rightarrow> ('w, 'c, unit) action) \<Rightarrow> ('w, 'c, unit) action" where
  "with_reply_int (RInt n) f = f n"
| "with_reply_int r f = raising (TypeError ''unsupported format string'')"

definition register_line :: "int \<Rightarrow> int \<Rightarrow> string" where
  "register_line addr val =
     ''0x'' @ fmt_hex True 4 addr @ '' = 0x'' @ fmt_hex True 8 val @ '' ('' @ show_int val @ '' decimal)''"

section \<open>mcpd_cmds.py\<close>

definition mcpd_version :: "('w, 'c) api \<Rightarrow> ('w, 'c) cli_command" where
  "mcpd_version api =
     cli_cmd ''version'' ''Read cpu and fpga version info.''
       []
       (no_more (bind_act (conn_call api ''get_version'' []) print_version))"

definition mcpd_find_id :: "('w \<Rightarrow> string \<Rightarrow> int \<Rightarrow> 'w \<times> int res) \<Rightarrow> ('w, 'c) api \<Rightarrow> ('w, 'c) cli_command" where
  "mcpd_find_id find_id api =
     cli_cmd ''find-id'' (''Find the '' @ [CHR 39] @ ''id'' @ [CHR 39] @ '' value of MCPD-8_v1 (older) modules. Does not work for MCPD-8_v2 and MDLL_v2.'')
       []
       (no_more (\<lambda>s. case find_id (cli_world s) (ctx_address s) (ctx_port s) of
          (w, Inl e) \<Rightarrow> (s\<lparr>cli_world := w\<rparr>, Inl e)
        | (w, Inr i) \<Rightarrow> echo (''Found mcpd_id='' @ show_int i) (s\<lparr>cli_world := w\<rparr>)))"

definition mcpd_setup :: "('w, 'c) api \<Rightarrow> ('w, 'c) cli_command" where
  "mcpd_setup api =
     cli_cmd ''setup'' ''MCPD base setup (MCPD-8_v1 only, for v2 only the data dest port can be changed).''
       [argument ''new_address'' PtStr, argument ''new_id'' PtInt, optional ''data_dest_address'' PtStr (PStr ''0.0.0.0''), optional ''data_port'' PtInt (PInt 54321)]
       (with_str (\<lambda>new_address. with_int (\<lambda>new_id. with_str (\<lambda>data_dest_address. with_int (\<lambda>data_port. no_more (seq_act (conn_do api ''set_id'' [Inr (PInt new_id)])
       (seq_act (set_conn_mcpd_id api new_id)
       (conn_do api ''set_ip_address_and_data_dest''
          [Inr (PStr new_address), Inr (PStr data_dest_address), Inr (PInt data_port)]))))))))"

definition mcpd_setid :: "('w, 'c) api \<Rightarrow> ('w, 'c) cli_command" where
  "mcpd_setid api =
     cli_cmd ''setid'' ''Set MCPD id (MCPD-8_v1 only, v2 mirrors the id given in command packets).''
       [argument ''new_id'' PtInt]
       (with_int (\<lambda>new_id. no_more (seq_act (conn_do api ''set_id'' [Inr (PInt new_id)]) (set_conn_mcpd_id api new_id))))"

definition mcpd_set_data_port :: "('w, 'c) api \<Rightarrow> ('w, 'c) cli_command" where
  "mcpd_set_data_port api =
     cli_cmd ''set-data-port'' ''Set the MCPD data destination port.''
       [argument ''data_port'' PtInt]
       (with_int (\<lambda>data_port. no_more (conn_do api ''set_data_dest_port'' [Inr (PInt data_port)])))"

definition mcpd_timing :: "('w, 'c) api \<Rightarrow> ('w, 'c) cli_command" where
  "mcpd_timing api =
     cli_cmd ''timing'' ''Bus master/slave setup.''
       [argument ''role'' (PtChoice TimingRole), argument ''termination'' (PtChoice BusTermination), optional ''ext_sync'' PtBool (PBool False)]
       (with_str (\<lambda>role. with_str (\<lambda>termination. with_bool (\<lambda>ext_sync. no_more (conn_do api ''set_timing_options'' [enum_member TimingRole role, enum_member BusTermination termination, Inr (PBool ext_sync)])))))"

definition mcpd_runid :: "('w, 'c) api \<Rightarrow> ('w, 'c) cli_command" where
  "mcpd_runid api =
     cli_cmd ''runid'' ''Set the mcpd runId for the next DAQ run.''
       [argument ''run_id'' PtInt]
       (with_int (\<lambda>run_id. no_more (conn_do api ''set_run_id'' [Inr (PInt run_id)])))"

definition mcpd_cell :: "('w, 'c) api \<Rightarrow> ('w, 'c) cli_command" where
  "mcpd_cell api =
     cli_cmd ''cell'' ''Counter cell setup.''
       [argument ''cell_id'' (PtChoice CellName), argument ''trigger'' (PtChoice TriggerSource), optional ''compare_register'' PtInt (PInt 0)]
       (with_str (\<lambda>cell_id. with_str (\<lambda>trigger. with_int (\<lambda>compare_register. no_more (conn_do api ''setup_cell'' [enum_member CellName cell_id, enum_member TriggerSource trigger, Inr (PInt compare_register)])))))"

definition mcpd_timer :: "('w, 'c) api \<Rightarrow> ('w, 'c) cli_command" where
  "mcpd_timer api =
     cli_cmd ''timer'' ''Timer setup.''
       [argument ''timer_id'' PtInt, argument ''capture_value'' PtInt]
       (with_int (\<lambda>timer_id. with_int (\<lambda>capture_value. no_more (conn_do api ''setup_auxtimer'' [Inr (PInt timer_id), Inr (PInt capture_value)]))))"

definition mcpd_set_master_clock :: "('w, 'c) api \<Rightarrow> ('w, 'c) cli_command" where
  "mcpd_set_master_clock api =
     cli_cmd ''set-master-clock'' ''Set master clock value (48 bit unsigned).''
       [argument ''clock_value'' PtInt]
       (with_int (\<lambda>clock_value. no_more (conn_do api ''set_master_clock_value'' [Inr (PInt clock_value)])))"

definition mcpd_param_source :: "('w, 'c) api \<Rightarrow> ('w, 'c) cli_command" where
  "mcpd_param_source api =
     cli_cmd ''param-source'' ''Set parameter source.''
       [argument ''param'' PtInt, argument ''source'' (PtChoice DataSource)]
       (with_int (\<lambda>param. with_str (\<lambda>source. no_more (conn_do api ''set_param_source'' [Inr (PInt param), enum_member DataSource source]))))"

definition mcpd_get_parameters :: "('w, 'c) api \<Rightarrow> ('w, 'c) cli_command" where
  "mcpd_get_parameters api =
     cli_cmd ''get-parameters'' ''Read and print the current parameter values.''
       []
       (no_more (bind_act (conn_call api ''get_all_parameters'' []) print_parameters))"

definition mcpd_dac_setup :: "('w, 'c) api \<Rightarrow> ('w, 'c) cli_command" where
  "mcpd_dac_setup api =
     cli_cmd ''dac-setup'' ''MCPD DAC unit setup (12 bit values).''
       [argument ''dac0'' PtInt, argument ''dac1'' PtInt]
       (with_int (\<lambda>dac0. with_int (\<lambda>dac1. no_more (conn_do api ''set_dac_output_values'' [Inr (PInt dac0), Inr (PInt dac1)]))))"

definition mcpd_scan_busses :: "('w, 'c) api \<Rightarrow> ('w, 'c) cli_command" where
  "mcpd_scan_busses api =
     cli_cmd ''scan-busses'' ''Scan MCPD busses for connected MPSD modules.''
       []
       (no_more (bind_act (conn_call api ''scan_busses'' []) print_busses))"

definition mcpd_get_bus_capabilities :: "('w, 'c) api \<Rightarrow> ('w, 'c) cli_command" where
  "mcpd_get_bus_capabilities api =
     cli_cmd ''get-bus-capabilities'' ''Get MCPD bus transmit capabilities.''
       []
       (no_more (bind_act (conn_call api ''get_bus_capabilities'' []) print_capabilities))"

definition mcpd_set_bus_capabilities :: "('w, 'c) api \<Rightarrow> ('w, 'c) cli_command" where
  "mcpd_set_bus_capabilities api =
     cli_cmd ''set-bus-capabilities'' ''Set MCPD bus transmit capabilities.''
       [argument ''value'' PtBased]
       (with_int (\<lambda>wanted. no_more (bind_act (conn_call api ''set_bus_capabilities'' [Inr (PInt wanted)]) (\<lambda>r.
       with_reply_int r (\<lambda>got. echo (''wanted=0x'' @ fmt_hex True 2 wanted @ '', got=0x'' @ fmt_hex True 2 got))))))"

definition mcpd_write_register :: "('w, 'c) api \<Rightarrow> ('w, 'c) cli_command" where
  "mcpd_write_register api =
     cli_cmd ''write-register'' ''Write MCPD/MDLL internal register (modern versions only).''
       [argument ''address'' PtBased, argument ''value'' PtBased]
       (with_int (\<lambda>addr. with_int (\<lambda>val. no_more (conn_do api ''write_register'' [Inr (PInt addr), Inr (PInt val)]))))"

definition mcpd_read_register :: "('w, 'c) api \<Rightarrow> ('w, 'c) cli_command" where
  "mcpd_read_register api =
     cli_cmd ''read-register'' ''Read MCPD/MDLL internal register (modern versions only).''
       [argument ''address'' PtBased]
       (with_int (\<lambda>addr. no_more (bind_act (conn_call api ''read_register'' [Inr (PInt addr)]) (\<lambda>r.
       with_reply_int r (\<lambda>val. echo (register_line addr val))))))"

definition mcpd_read_peripheral_register :: "('w, 'c) api \<Rightarrow> ('w, 'c) cli_command" where
  "mcpd_read_peripheral_register api =
     cli_cmd ''read-peripheral-register'' ''Read peripheral module (MPSD/MSTD) register.''
       [argument ''mpsd_id'' PtInt, argument ''register_number'' PtInt]
       (with_int (\<lambda>mpsd_id. with_int (\<lambda>register_number. no_more (bind_act (conn_call api ''read_peripheral_register'' [Inr (PInt mpsd_id), Inr (PInt register_number)]) (\<lambda>r.
       with_reply_int r (\<lambda>val. echo (''mpsdId='' @ show_int mpsd_id @ '', register='' @ show_int register_number
         @ '', value=0x'' @ fmt_hex True 4 val @ '' ('' @ show_int val @ '' decimal)'')))))))"

definition mcpd_write_peripheral_register :: "('w, 'c) api \<Rightarrow> ('w, 'c) cli_command" where
  "mcpd_write_peripheral_register api =
     cli_cmd ''write-peripheral-register'' ''Write peripheral module (MPSD/MSTD) register.''
       [argument ''mpsd_id'' PtInt, argument ''register_number'' PtInt, argument ''register_value'' PtInt]
       (with_int (\<lambda>mpsd_id. with_int (\<lambda>register_number. with_int (\<lambda>register_value. no_more (conn_do api ''write_peripheral_register'' [Inr (PInt mpsd_id), Inr (PInt register_number), Inr (PInt register_value)])))))"

text \<open>The words of a 48 bit parameter value and the lines printed for it.\<close>

definition param_lo :: "int \<Rightarrow> int" where
  "param_lo v = v AND 0xFFFF"

definition param_mid :: "int \<Rightarrow> int" where
  "param_mid v = drop_bit 16 v AND 0xFFFF"

definition param_hi :: "int \<Rightarrow> int" where
  "param_hi v = drop_bit 32 v AND 0xFFFF"

definition lo_match_mask :: int where
  "lo_match_mask = 0b110000"

definition lo_extract_mask :: int where
  "lo_extract_mask = 0b1111"

definition inputs_status :: "int \<Rightarrow> int" where
  "inputs_status v = param_lo v AND lo_extract_mask"

definition decode_inputs :: "int \<Rightarrow> ('w, 'c, unit) action" where
  "decode_inputs v =
     seq_act
       (if param_lo v AND lo_match_mask \<noteq> lo_match_mask
        then echo_err ''warning: lo does not match expected bitmask'' else ret ())
       (seq_act
         (echo (''param=0x'' @ fmt_hex False 12 v @ '', lo=0x'' @ fmt_hex False 4 (param_lo v)
           @ '', mid=0x'' @ fmt_hex False 4 (param_mid v) @ '', hi=0x'' @ fmt_hex False 4 (param_hi v)))
         (echo (''inputsStatus='' @ fmt_alt_hex 4 (inputs_status v) @ '' -> ''
           @ fmt_alt 2 ''0b'' 6 (inputs_status v))))"

definition mcpd_decode_inputs :: "('w, 'c) cli_command" where
  "mcpd_decode_inputs =
     (cli_cmd ''decode-all-inputs-parameter''
       ''Decode a param_source=AllDigitalAndAdcInputs (48 bit) parameter value.''
       [argument ''value'' PtBased] (with_int (\<lambda>v. no_more (decode_inputs v))))\<lparr>cc_handled := False\<rparr>"

section \<open>mpsd_cmds.py, mstd_cmds.py\<close>

definition mpsd_set_mode :: "('w, 'c) api \<Rightarrow> ('w, 'c) cli_command" where
  "mpsd_set_mode api =
     cli_cmd ''set-mode'' ''Set mpsd mode (Position|Amplitude).''
       [argument ''mpsd_id'' PtInt, argument ''mode'' (PtChoice MpsdMode)]
       (with_int (\<lambda>mpsd_id. with_str (\<lambda>mode. no_more (conn_do api ''mpsd_set_mode'' [Inr (PInt mpsd_id), enum_member MpsdMode mode]))))"

definition mpsd_set_tx_format :: "('w, 'c) api \<Rightarrow> ('w, 'c) cli_command" where
  "mpsd_set_tx_format api =
     cli_cmd ''set-tx-format'' ''Set mpsd bus tx format (1|2|4).''
       [argument ''mpsd_id'' PtInt, argument ''tx_format'' PtInt]
       (with_int (\<lambda>mpsd_id. with_int (\<lambda>tx_format. no_more (conn_do api ''mpsd_set_tx_format'' [Inr (PInt mpsd_id), Inr (PInt tx_format)]))))"

definition mpsd_set_gain :: "('w, 'c) api \<Rightarrow> ('w, 'c) cli_command" where
  "mpsd_set_gain api =
     cli_cmd ''set-gain'' ''Set per-channel mpsd gain.''
       [argument ''mpsd_id'' PtInt, argument ''channel'' PtInt, argument ''gain'' PtInt]
       (with_int (\<lambda>mpsd_id. with_int (\<lambda>channel. with_int (\<lambda>gain. no_more (conn_do api ''mpsd_set_gain'' [Inr (PInt mpsd_id), Inr (PInt channel), Inr (PInt gain)])))))"

definition mpsd_set_threshold :: "('w, 'c) api \<Rightarrow> ('w, 'c) cli_command" where
  "mpsd_set_threshold api =
     cli_cmd ''set-threshold'' ''Set mpsd threshold.''
       [argument ''mpsd_id'' PtInt, argument ''threshold'' PtInt]
       (with_int (\<lambda>mpsd_id. with_int (\<lambda>threshold. no_more (conn_do api ''mpsd_set_threshold'' [Inr (PInt mpsd_id), Inr (PInt threshold)]))))"

definition mpsd_set_pulser :: "('w, 'c) api \<Rightarrow> ('w, 'c) cli_command" where
  "mpsd_set_pulser api =
     cli_cmd ''set-pulser'' ''Set per-channel mpsd pulser settings.''
       [argument ''mpsd_id'' PtInt, argument ''channel'' PtInt, argument ''position'' (PtChoice ChannelPosition), argument ''amplitude'' PtInt, argument ''state'' (PtChoice PulserState)]
       (with_int (\<lambda>mpsd_id. with_int (\<lambda>channel. with_str (\<lambda>position. with_int (\<lambda>amplitude. with_str (\<lambda>state. no_more (conn_do api ''mpsd_set_pulser'' [Inr (PInt mpsd_id), Inr (PInt channel), enum_member ChannelPosition position, Inr (PInt amplitude), enum_member PulserState state])))))))"

definition mpsd_get_parameters :: "('w, 'c) api \<Rightarrow> ('w, 'c) cli_command" where
  "mpsd_get_parameters api =
     cli_cmd ''get-parameters'' ''Get mpsd parameters.''
       [argument ''mpsd_id'' PtInt]
       (with_int (\<lambda>mpsd_id. no_more (bind_act (conn_call api ''mpsd_get_params'' [Inr (PInt mpsd_id)]) print_mpsd_parameters)))"

definition mstd_set_gain :: "('w, 'c) api \<Rightarrow> ('w, 'c) cli_command" where
  "mstd_set_gain api =
     cli_cmd ''set-gain'' ''Set per-channel mstd gain (channel 0..15, 16=all channels; gain 0..255).''
       [argument ''mstd_id'' PtInt, argument ''channel'' PtInt, argument ''gain'' PtInt]
       (with_int (\<lambda>mstd_id. with_int (\<lambda>channel. with_int (\<lambda>gain. no_more (conn_do api ''mstd_set_gain'' [Inr (PInt mstd_id), Inr (PInt channel), Inr (PInt gain)])))))"

section \<open>mdll_cmds.py\<close>

definition mdll_version :: "('w, 'c) api \<Rightarrow> ('w, 'c) cli_command" where
  "mdll_version api =
     cli_cmd ''version'' ''Read cpu and fpga version info.''
       []
       (no_more (bind_act (conn_call api ''get_version'' []) print_version))"

definition mdll_set_thresholds :: "('w, 'c) api \<Rightarrow> ('w, 'c) cli_command" where
  "mdll_set_thresholds api =
     cli_cmd ''set-thresholds'' ''Set MDLL thresholds.''
       [argument ''threshold_x'' PtInt, argument ''threshold_y'' PtInt, argument ''threshold_anode'' PtInt]
       (with_int (\<lambda>threshold_x. with_int (\<lambda>threshold_y. with_int (\<lambda>threshold_anode. no_more (conn_do api ''mdll_set_thresholds'' [Inr (PInt threshold_x), Inr (PInt threshold_y), Inr (PInt threshold_anode)])))))"

definition mdll_set_spectrum :: "('w, 'c) api \<Rightarrow> ('w, 'c) cli_command" where
  "mdll_set_spectrum api =
     cli_cmd ''set-spectrum'' ''Set MDLL spectrum.''
       [argument ''shift_x'' PtInt, argument ''shift_y'' PtInt, argument ''scale_x'' PtInt, argument ''scale_y'' PtInt]
       (with_int (\<lambda>shift_x. with_int (\<lambda>shift_y. with_int (\<lambda>scale_x. with_int (\<lambda>scale_y. no_more (conn_do api ''mdll_set_spectrum'' [Inr (PInt shift_x), Inr (PInt shift_y), Inr (PInt scale_x), Inr (PInt scale_y)]))))))"

definition mdll_set_pulser :: "('w, 'c) api \<Rightarrow> ('w, 'c) cli_command" where
  "mdll_set_pulser api =
     cli_cmd ''set-pulser'' ''Set MDLL pulser (amplitude: 0-3).''
       [argument ''enable'' PtBool, argument ''amplitude'' PtInt, argument ''position'' (PtChoice MdllChannelPosition)]
       (with_bool (\<lambda>enable. with_int (\<lambda>amplitude. with_str (\<lambda>position. no_more (conn_do api ''mdll_set_pulser'' [Inr (PBool enable), Inr (PInt amplitude), enum_member MdllChannelPosition position])))))"

definition mdll_set_tx_data_set :: "('w, 'c) api \<Rightarrow> ('w, 'c) cli_command" where
  "mdll_set_tx_data_set api =
     cli_cmd ''set-tx-data-set'' ''Set MDLL TX data set (Default|Timings).''
       [argument ''dataset'' (PtChoice MdllTxDataSet)]
       (with_str (\<lambda>dataset. no_more (conn_do api ''mdll_set_tx_data_set'' [enum_member MdllTxDataSet dataset])))"

definition mdll_set_timing_window :: "('w, 'c) api \<Rightarrow> ('w, 'c) cli_command" where
  "mdll_set_timing_window api =
     cli_cmd ''set-timing-window'' ''Set MDLL timing window.''
       [argument ''x_low'' PtInt, argument ''x_high'' PtInt, argument ''y_low'' PtInt, argument ''y_high'' PtInt]
       (with_int (\<lambda>x_low. with_int (\<lambda>x_high. with_int (\<lambda>y_low. with_int (\<lambda>y_high. no_more (conn_do api ''mdll_set_timing_window'' [Inr (PInt x_low), Inr (PInt x_high), Inr (PInt y_low), Inr (PInt y_high)]))))))"

definition mdll_set_energy_window :: "('w, 'c) api \<Rightarrow> ('w, 'c) cli_command" where
  "mdll_set_energy_window api =
     cli_cmd ''set-energy-window'' ''Set MDLL energy window.''
       [argument ''lower_threshold'' PtInt, argument ''upper_threshold'' PtInt]
       (with_int (\<lambda>lower_threshold. with_int (\<lambda>upper_threshold. no_more (conn_do api ''mdll_set_energy_window'' [Inr (PInt lower_threshold), Inr (PInt upper_threshold)]))))"

section \<open>daq_cmds.py\<close>

definition daq_cmd_start :: "('w, 'c) api \<Rightarrow> ('w, 'c) cli_command" where
  "daq_cmd_start api =
     cli_cmd ''start'' ''Start the DAQ.''
       []
       (no_more (conn_do api ''start_daq'' []))"

definition daq_cmd_stop :: "('w, 'c) api \<Rightarrow> ('w, 'c) cli_command" where
  "daq_cmd_stop api =
     cli_cmd ''stop'' ''Stop the DAQ.''
       []
       (no_more (conn_do api ''stop_daq'' []))"

definition daq_cmd_continue :: "('w, 'c) api \<Rightarrow> ('w, 'c) cli_command" where
  "daq_cmd_continue api =
     cli_cmd ''continue'' ''Continue the DAQ.''
       []
       (no_more (conn_do api ''continue_daq'' []))"

definition daq_cmd_reset :: "('w, 'c) api \<Rightarrow> ('w, 'c) cli_command" where
  "daq_cmd_reset api =
     cli_cmd ''reset'' ''Reset the DAQ.''
       []
       (no_more (conn_do api ''reset_daq'' []))"

section \<open>The groups\<close>

definition mcpd_group :: "('w \<Rightarrow> string \<Rightarrow> int \<Rightarrow> 'w \<times> int res) \<Rightarrow> ('w, 'c) api \<Rightarrow> ('w, 'c) cli_command list" where
  "mcpd_group find_id api =
     [mcpd_version api,
      mcpd_find_id find_id api,
      mcpd_setup api,
      mcpd_setid api,
      mcpd_set_data_port api,
      mcpd_timing api,
      mcpd_runid api,
      mcpd_cell api,
      mcpd_timer api,
      mcpd_set_master_clock api,
      mcpd_param_source api,
      mcpd_get_parameters api,
      mcpd_dac_setup api,
      mcpd_scan_busses api,
      mcpd_get_bus_capabilities api,
      mcpd_set_bus_capabilities api,
      mcpd_write_register api,
      mcpd_read_register api,
      mcpd_read_peripheral_register api,
      mcpd_write_peripheral_register api,
      mcpd_decode_inputs]"

definition mpsd_group :: "('w, 'c) api \<Rightarrow> ('w, 'c) cli_command list" where
  "mpsd_group api =
     [mpsd_set_mode api,
      mpsd_set_tx_format api,
      mpsd_set_gain api,
      mpsd_set_threshold api,
      mpsd_set_pulser api,
      mpsd_get_parameters api]"

definition mstd_group :: "('w, 'c) api \<Rightarrow> ('w, 'c) cli_command list" where
  "mstd_group api =
     [mstd_set_gain api]"

definition mdll_group :: "('w, 'c) api \<Rightarrow> ('w, 'c) cli_command list" where
  "mdll_group api =
     [mdll_version api,
      mdll_set_thresholds api,
      mdll_set_spectrum api,
      mdll_set_pulser api,
      mdll_set_tx_data_set api,
      mdll_set_timing_window api,
      mdll_set_energy_window api]"

definition daq_group :: "('w, 'c) api \<Rightarrow> ('w, 'c) cli_command list" where
  "daq_group api =
     [daq_cmd_start api,
      daq_cmd_stop api,
      daq_cmd_continue api,
      daq_cmd_reset api]"

definition cli_groups ::
  "('w \<Rightarrow> string \<Rightarrow> int \<Rightarrow> 'w \<times> int res) \<Rightarrow> ('w, 'c) api \<Rightarrow> (string \<times> ('w, 'c) cli_command list) list" where
  "cli_groups find_id api =
     [(''mcpd'', mcpd_group find_id api), (''mpsd'', mpsd_group api), (''mstd'', mstd_group api),
      (''mdll'', mdll_group api), (''daq'', daq_group api)]"

definition find_command ::
  "(string \<times> ('w, 'c) cli_command list) list \<Rightarrow> string \<Rightarrow> string \<Rightarrow> ('w, 'c) cli_command res" where
  "find_command groups g n =
     bind_res (opt_res (UsageError (''No such command '' @ repr_str g)) (map_of groups g)) (\<lambda>cs.
     opt_res (UsageError (''No such command '' @ repr_str n)) (List.find (\<lambda>c. cc_name c = n) cs))"

text \<open>One invocation: \<open>mcpd-cli-py OPTIONS GROUP COMMAND ARGS\<close>.\<close>

definition run_cli ::
  "click \<Rightarrow> ('w \<Rightarrow> string \<Rightarrow> int \<Rightarrow> 'w \<times> int res) \<Rightarrow> ('w, 'c) api \<Rightarrow> cli_options \<Rightarrow> string \<Rightarrow> string \<Rightarrow> given list
   \<Rightarrow> 'w \<Rightarrow> ('w, 'c) cli \<times> unit res" where
  "run_cli ck find_id api opts g n gs w =
     invoke api opts
       (bind_act (lift_res (find_command (cli_groups find_id api) g n)) (\<lambda>c. run_command_line ck c gs)) w"

end
