(* ===== verification/Cli_Facts.thy ===== *)
theory Cli_Facts
  imports Cli_Commands
begin

text \<open>
  Facts about the commands of the tool: they call the bindings as they are declared, on one
  connection that is opened when it is needed and always closed, errors of the devices become
  messages, and the decoded numbers are right.
\<close>

section \<open>Calls that fit the bindings\<close>

fun kind_fits :: "ctype \<Rightarrow> pyval \<Rightarrow> bool" where
  "kind_fits CU8 (PInt n) = True"
| "kind_fits CU16 (PInt n) = True"
| "kind_fits CU32 (PInt n) = True"
| "kind_fits CU64 (PInt n) = True"
| "kind_fits CBool (PBool b) = True"
| "kind_fits CStr (PStr s) = True"
| "kind_fits (CEnum t) (PEnum t' m) = (t = t' \<and> m \<in> set (map fst (members t)))"
| "kind_fits _ _ = False"

text \<open>A positional call: the method is bound and takes these kinds of values.\<close>

definition call_fits :: "call \<Rightarrow> bool" where
  "call_fits c \<longleftrightarrow> call_kwargs c = [] \<and>
     (case map_of ((''mcpd_id='', [req ''mcpd_id'' CU8]) # binding_signatures) (call_method c) of
        None \<Rightarrow> False
      | Some ps \<Rightarrow> list_all2 (\<lambda>(n, t, d) v. kind_fits t v) ps (call_args c))"

section \<open>One connection\<close>

abbreviation cli_target :: "(net_event list, target) cli \<Rightarrow> target" where
  "cli_target s \<equiv> (ctx_address s, ctx_mcpd_id s, ctx_port s)"

text \<open>The events of an invocation so far: nothing, or the connection and fitting calls on it.\<close>

definition cli_ok :: "target \<Rightarrow> (net_event list, target) cli \<Rightarrow> bool" where
  "cli_ok t s \<longleftrightarrow> cli_target s = t \<and>
     (case ctx_connection s of
        None \<Rightarrow> cli_world s = []
      | Some c \<Rightarrow> c = t \<and> (\<exists>calls. cli_world s = EvOpen t # map (EvCall t) calls \<and> list_all call_fits calls))"

definition tame :: "target \<Rightarrow> (net_event list, target, 'a) action \<Rightarrow> bool" where
  "tame t act \<longleftrightarrow> (\<forall>s. cli_ok t s \<longrightarrow> cli_ok t (fst (act s)))"

named_theorems tame_intros \<open>actions that keep the discipline of the connection\<close>

lemma tame_ret [tame_intros]: "tame t (ret a)"
  and tame_raising [tame_intros]: "tame t (raising e)"
  and tame_lift [tame_intros]: "tame t (lift_res r)"
  by (simp_all add: tame_def)

lemma tame_echo [tame_intros]: "tame t (echo l)"
  and tame_echo_err [tame_intros]: "tame t (echo_err l)"
  by (simp_all add: tame_def echo_def echo_err_def cli_ok_def cong: option.case_cong)

lemma tame_bind [tame_intros]: "tame t m \<Longrightarrow> (\<And>a. tame t (f a)) \<Longrightarrow> tame t (bind_act m f)"
  unfolding tame_def bind_act_def by (auto split: prod.splits sum.splits)

lemma tame_seq [tame_intros]: "tame t m \<Longrightarrow> tame t k \<Longrightarrow> tame t (seq_act m k)"
  unfolding seq_act_def by (rule tame_bind)

lemma tame_each [tame_intros]: "(\<And>x. tame t (f x)) \<Longrightarrow> tame t (each_act f xs)"
  by (induction xs) (simp_all add: tame_intros)

lemma tame_if [tame_intros]: "tame t m \<Longrightarrow> tame t k \<Longrightarrow> tame t (if b then m else k)"
  by simp

lemma connection_ok:
  assumes "cli_ok t s" and "connection (recording_api fails answer) s = (s', r)"
  shows "r = Inr t \<and> cli_ok t s' \<and> ctx_connection s' = Some t"
  using assms by (auto simp: connection_def cli_ok_def split: option.splits)

lemma tame_conn_call [tame_intros]:
  assumes "\<And>vs. traverse (\<lambda>a. a) args = Inr vs \<Longrightarrow> call_fits (Call m vs [])"
  shows "tame t (conn_call (recording_api fails answer) m args)"
  unfolding tame_def
proof (intro allI impI)
  fix s assume ok: "cli_ok t s"
  obtain s1 r where c: "connection (recording_api fails answer) s = (s1, r)" by fastforce
  from connection_ok [OF ok c] have r: "r = Inr t" "cli_ok t s1" "ctx_connection s1 = Some t" by simp_all
  show "cli_ok t (fst (conn_call (recording_api fails answer) m args s))"
  proof (cases "traverse (\<lambda>a. a) args")
    case (Inl e)
    then show ?thesis using r by (simp add: conn_call_def bind_act_def c)
  next
    case (Inr vs)
    from r obtain calls where w: "cli_world s1 = EvOpen t # map (EvCall t) calls" "list_all call_fits calls"
      by (auto simp: cli_ok_def)
    have "EvOpen t # map (EvCall t) calls @ [EvCall t (Call m vs [])] = EvOpen t # map (EvCall t) (calls @ [Call m vs []])"
      by simp
    moreover have "list_all call_fits (calls @ [Call m vs []])" using w assms [OF Inr] by simp
    ultimately have "\<exists>cs. EvOpen t # map (EvCall t) calls @ [EvCall t (Call m vs [])] = EvOpen t # map (EvCall t) cs
        \<and> list_all call_fits cs" by blast
    then show ?thesis
      using r w Inr by (simp add: conn_call_def bind_act_def c cli_ok_def)
  qed
qed

lemma tame_conn_do [tame_intros]:
  "(\<And>vs. traverse (\<lambda>a. a) args = Inr vs \<Longrightarrow> call_fits (Call m vs [])) \<Longrightarrow>
   tame t (conn_do (recording_api fails answer) m args)"
  unfolding conn_do_def by (intro tame_intros)

lemma tame_handle: "tame t act \<Longrightarrow> tame t (handle_mcpd_errors act)"
  unfolding tame_def handle_mcpd_errors_def by (auto split: prod.splits sum.splits exc.splits)

lemma tame_prints [tame_intros]:
  "tame t (print_version r)" "tame t (print_parameters r)" "tame t (print_busses r)" "tame t (print_capabilities r)"
  "tame t (print_mpsd_parameters r)"
  by (cases r; simp add: print_param_def print_bus_def tame_intros)+

lemma tame_reply_int [tame_intros]: "(\<And>n. tame t (f n)) \<Longrightarrow> tame t (with_reply_int r f)"
  by (cases r) (simp_all add: tame_intros)

text \<open>Bodies: whatever values they are given.\<close>

lemma tame_no_more [tame_intros]: "tame t act \<Longrightarrow> tame t (no_more act vs)"
  by (cases vs) (simp_all add: bad_params_def tame_intros)

lemma tame_with_int [tame_intros]: "(\<And>n vs. tame t (f n vs)) \<Longrightarrow> tame t (with_int f vs)"
  by (cases "(f, vs)" rule: with_int.cases) (simp_all add: bad_params_def tame_intros)

lemma tame_with_str [tame_intros]: "(\<And>n vs. tame t (f n vs)) \<Longrightarrow> tame t (with_str f vs)"
  by (cases "(f, vs)" rule: with_str.cases) (simp_all add: bad_params_def tame_intros)

lemma tame_with_bool [tame_intros]: "(\<And>n vs. tame t (f n vs)) \<Longrightarrow> tame t (with_bool f vs)"
  by (cases "(f, vs)" rule: with_bool.cases) (simp_all add: bad_params_def tame_intros)

lemma enum_member_fits [simp]: "enum_member e m = Inr v \<longleftrightarrow> v = PEnum e m \<and> m \<in> set (map fst (members e))"
  by (auto simp: enum_member_def)

lemma traverse_args [simp]:
  "traverse (\<lambda>a. a) (a # as) = Inr vs \<longleftrightarrow> (\<exists>v vs'. vs = v # vs' \<and> a = Inr v \<and> traverse (\<lambda>a. a) as = Inr vs')"
  by (auto split: sum.splits)

lemmas signature_simps = call_fits_def binding_signatures_def req_def

lemmas command_defs =
  mcpd_version_def mcpd_setup_def mcpd_setid_def mcpd_set_data_port_def mcpd_timing_def mcpd_runid_def mcpd_cell_def
  mcpd_timer_def mcpd_set_master_clock_def mcpd_param_source_def mcpd_get_parameters_def mcpd_dac_setup_def
  mcpd_scan_busses_def mcpd_get_bus_capabilities_def mcpd_set_bus_capabilities_def mcpd_write_register_def
  mcpd_read_register_def mcpd_read_peripheral_register_def mcpd_write_peripheral_register_def
  mpsd_set_mode_def mpsd_set_tx_format_def mpsd_set_gain_def mpsd_set_threshold_def mpsd_set_pulser_def
  mpsd_get_parameters_def mstd_set_gain_def mdll_version_def mdll_set_thresholds_def mdll_set_spectrum_def
  mdll_set_pulser_def mdll_set_tx_data_set_def mdll_set_timing_window_def mdll_set_energy_window_def
  daq_cmd_start_def daq_cmd_stop_def daq_cmd_continue_def daq_cmd_reset_def

lemmas group_defs = mcpd_group_def mpsd_group_def mstd_group_def mdll_group_def daq_group_def

lemma tame_find_id: "tame t (cc_run (mcpd_find_id (\<lambda>w a p. (w, found a p)) (recording_api fails answer)) vs)"
proof -
  have "tame t (\<lambda>s. case (cli_world s, found (ctx_address s) (ctx_port s)) of
      (w, Inl e) \<Rightarrow> (s\<lparr>cli_world := w\<rparr>, Inl e)
    | (w, Inr i) \<Rightarrow> echo (''Found mcpd_id='' @ show_int i) (s\<lparr>cli_world := w\<rparr>))"
    using tame_echo(1) [of t] by (simp add: tame_def split: sum.split)
  then show ?thesis by (simp add: mcpd_find_id_def cli_cmd_def tame_intros)
qed

lemma tame_decode: "tame t (cc_run mcpd_decode_inputs vs)"
  by (simp add: mcpd_decode_inputs_def cli_cmd_def decode_inputs_def tame_intros)

lemma tame_setter [tame_intros]: "tame t (set_conn_mcpd_id (recording_api fails answer) n)"
  unfolding set_conn_mcpd_id_def by (intro tame_intros) (auto simp: signature_simps)

lemma group_tame:
  assumes "(g, cs) \<in> set (cli_groups (\<lambda>w a p. (w, found a p)) (recording_api fails answer))" and "c \<in> set cs"
  shows "tame t (cc_run c vs)"
proof -
  have mcpd: "list_all (\<lambda>c. tame t (cc_run c vs)) (mcpd_group (\<lambda>w a p. (w, found a p)) (recording_api fails answer))"
    unfolding mcpd_group_def append.simps list.pred_inject
    by (intro conjI list.pred_inject(1) tame_find_id tame_decode;
        (simp only: command_defs cli_cmd_def cli_command.simps; intro tame_intros; auto simp: signature_simps simp del: traverse.simps(2)))
  have mpsd: "list_all (\<lambda>c. tame t (cc_run c vs)) (mpsd_group (recording_api fails answer) @ mstd_group (recording_api fails answer))"
    unfolding mpsd_group_def mstd_group_def append.simps list.pred_inject
    by (intro conjI list.pred_inject(1);
        (simp only: command_defs cli_cmd_def cli_command.simps; intro tame_intros; auto simp: signature_simps simp del: traverse.simps(2)))
  have mdll: "list_all (\<lambda>c. tame t (cc_run c vs)) (mdll_group (recording_api fails answer) @ daq_group (recording_api fails answer))"
    unfolding mdll_group_def daq_group_def append.simps list.pred_inject
    by (intro conjI list.pred_inject(1);
        (simp only: command_defs cli_cmd_def cli_command.simps; intro tame_intros; auto simp: signature_simps simp del: traverse.simps(2)))
  from assms mcpd mpsd mdll show ?thesis by (auto simp: cli_groups_def list_all_iff)
qed

text \<open>The state an invocation ends in.\<close>

abbreviation pure_find :: "(string \<Rightarrow> int \<Rightarrow> int res) \<Rightarrow> 'w \<Rightarrow> string \<Rightarrow> int \<Rightarrow> 'w \<times> int res" where
  "pure_find found \<equiv> \<lambda>w a p. (w, found a p)"

lemma find_command_in:
  "find_command groups g n = Inr c \<Longrightarrow> \<exists>cs. (g, cs) \<in> set groups \<and> c \<in> set cs \<and> cc_name c = n"
  by (cases "map_of groups g") (auto simp: find_command_def res_simps find_Some_iff dest: map_of_SomeD)

lemma tame_run_command_line:
  "(\<And>vs. tame t (cc_run c vs)) \<Longrightarrow> tame t (run_command_line ck c gs)"
  unfolding run_command_line_def by (intro tame_intros) (simp add: tame_handle)

lemma cli_start_ok: "cli_ok (opt_address opts, opt_mcpd_id opts, opt_port opts) (cli_start opts [])"
  by (simp add: cli_ok_def cli_start_def new_context_def set_log_level_def Let_def)

lemma run_cli_events:
  assumes "run_cli ck (pure_find found) (recording_api fails answer) opts g n gs [] = (s, r)"
    and "t = (opt_address opts, opt_mcpd_id opts, opt_port opts)"
  shows "cli_world s = [] \<or>
     (\<exists>calls. cli_world s = EvOpen t # map (EvCall t) calls @ [EvClose t] \<and> list_all call_fits calls)"
proof -
  let ?act = "bind_act (lift_res (find_command (cli_groups (pure_find found) (recording_api fails answer)) g n))
     (\<lambda>c. run_command_line ck c gs)"
  have "cli_ok t (fst (?act (cli_start opts [])))"
  proof (cases "find_command (cli_groups (pure_find found) (recording_api fails answer)) g n")
    case (Inl e)
    then show ?thesis using cli_start_ok assms(2) by (simp add: bind_act_def)
  next
    case (Inr c)
    then have "tame t (cc_run c vs)" for vs using find_command_in [OF Inr] group_tame by blast
    then have "tame t (run_command_line ck c gs)" by (rule tame_run_command_line)
    then show ?thesis using Inr cli_start_ok assms(2) by (auto simp: tame_def)
  qed
  moreover have "s = ctx_close (recording_api fails answer) (fst (?act (cli_start opts [])))"
    using assms(1) by (auto simp: run_cli_def invoke_def split: prod.splits)
  ultimately show ?thesis by (auto simp: cli_ok_def ctx_close_def split: option.splits)
qed

text \<open>For the witnesses: a click that converts as Python does, and a device that answers.\<close>

definition plain_click :: click where
  "plain_click =
     \<lparr>ck_int = py_int10,
      ck_bool = (\<lambda>s. if s \<in> {''1'', ''true'', ''yes''} then Some True
                     else if s \<in> {''0'', ''false'', ''no''} then Some False else None),
      ck_choice = (\<lambda>ns s. if s \<in> set ns then Some s else None)\<rparr>"

definition sample_options :: cli_options where
  "sample_options = \<lparr>opt_address = ''mcpd'', opt_mcpd_id = 1, opt_port = 54321, opt_debug = False, opt_trace = False\<rparr>"

definition sample_run :: "(target \<Rightarrow> call \<Rightarrow> bool) \<Rightarrow> string \<Rightarrow> string \<Rightarrow> given list \<Rightarrow> (net_event list, target) cli \<times> unit res" where
  "sample_run fails g n gs =
     run_cli plain_click (pure_find (\<lambda>a p. Inr 0)) (recording_api fails (\<lambda>c. RNone)) sample_options g n gs []"

lemma sample_run_eq:
  "run_cli plain_click (pure_find (\<lambda>a p. Inr 0)) (recording_api fails (\<lambda>c. RNone)) sample_options g n gs []
     = (fst (sample_run fails g n gs), snd (sample_run fails g n gs))"
  by (simp add: sample_run_def)

section \<open>Properties\<close>



text \<open>
  C17. A command opens at most one connection, to the address, id and port of the options, uses
  no other and closes it in the end, whether it succeeds or raises.
\<close>

theorem cli_one_connection:
  assumes "run_cli ck (pure_find found) (recording_api fails answer) opts g n gs [] = (s, r)"
  shows "let t = (opt_address opts, opt_mcpd_id opts, opt_port opts) in
     cli_world s = [] \<or> (\<exists>calls. cli_world s = EvOpen t # map (EvCall t) calls @ [EvClose t])"
  using run_cli_events [OF assms refl] by (auto simp: Let_def)

theorem cli_one_connection_witness:
  "hd (cli_world (fst (sample_run (\<lambda>t c. True) ''daq'' ''start'' []))) = EvOpen (''mcpd'', 1, 54321)
   \<and> last (cli_world (fst (sample_run (\<lambda>t c. True) ''daq'' ''start'' []))) = EvClose (''mcpd'', 1, 54321)"
proof -
  have "cli_world (fst (sample_run (\<lambda>t c. True) ''daq'' ''start'' [])) \<noteq> []" by code_simp
  moreover have "(opt_address sample_options, opt_mcpd_id sample_options, opt_port sample_options) = (''mcpd'', 1, 54321)"
    by code_simp
  moreover note cli_one_connection [OF sample_run_eq, of "\<lambda>t c. True" "''daq''" "''start''" "[]"]
  ultimately show ?thesis by (auto simp: Let_def)
qed

lemma handle_not_mcpd: "snd (handle_mcpd_errors act s) \<noteq> Inl (McpdErr m)"
  by (auto simp: handle_mcpd_errors_def split: prod.splits sum.splits exc.splits)

lemma decode_not_mcpd: "snd (cc_run mcpd_decode_inputs vs s) \<noteq> Inl (McpdErr m)"
  by (cases "(\<lambda>v. no_more (decode_inputs v) :: ('a, 'b) body, vs)" rule: with_int.cases;
      (cases "tl vs")?)
     (auto simp: mcpd_decode_inputs_def cli_cmd_def bad_params_def decode_inputs_def seq_act_def bind_act_def
        echo_def echo_err_def ret_def)

lemma decode_not_mcpd': "c = mcpd_decode_inputs \<Longrightarrow> snd (cc_run c vs s) \<noteq> Inl (McpdErr m)"
  using decode_not_mcpd by blast

lemma traverse_error: "traverse f xs = Inl e \<Longrightarrow> \<exists>x \<in> set xs. f x = Inl e"
  by (induction xs) (auto split: sum.splits)

lemma convert_token_error: "convert_token ck ty s = Inl e \<Longrightarrow> \<exists>m. e = UsageError m"
  by (cases ty) (auto split: option.splits)

lemma convert_params_error: "convert_params ck ps gs = Inl e \<Longrightarrow> \<exists>m. e = UsageError m"
proof -
  have "convert_given ck pg = Inl e \<Longrightarrow> \<exists>m. e = UsageError m" for pg
    by (cases "(ck, pg)" rule: convert_given.cases) (auto dest: convert_token_error split: option.splits if_splits)
  then show "convert_params ck ps gs = Inl e \<Longrightarrow> \<exists>m. e = UsageError m"
    by (auto simp: convert_params_def split: if_splits dest!: traverse_error)
qed

lemma find_command_error: "find_command groups g n = Inl e \<Longrightarrow> \<exists>m. e = UsageError m"
  by (cases "map_of groups g"; cases "List.find (\<lambda>c. cc_name c = n) (the (map_of groups g))")
    (auto simp: find_command_def)

lemma group_handled:
  "(g, cs) \<in> set (cli_groups find_id api) \<Longrightarrow> c \<in> set cs \<Longrightarrow> cc_handled c \<or> c = mcpd_decode_inputs"
  by (auto simp: cli_groups_def group_defs command_defs mcpd_find_id_def cli_cmd_def)

lemma run_cli_eq:
  "run_cli ck find_id api opts g n gs w =
     (case find_command (cli_groups find_id api) g n of
        Inl e \<Rightarrow> (ctx_close api (cli_start opts w), Inl e)
      | Inr c \<Rightarrow>
          (case convert_params ck (cc_params c) gs of
             Inl e \<Rightarrow> (ctx_close api (cli_start opts w), Inl e)
           | Inr vs \<Rightarrow>
               (case (if cc_handled c then handle_mcpd_errors (cc_run c vs) else cc_run c vs) (cli_start opts w) of
                  (s, r) \<Rightarrow> (ctx_close api s, r))))"
  by (simp add: run_cli_def invoke_def run_command_line_def bind_act_def split: sum.split)

text \<open>
  C18. An error that a device or the connection reports never leaves the tool as an exception of
  the bindings: the commands turn it into click's message, and the connection is closed.
\<close>

theorem device_errors_become_messages:
  "snd (run_cli ck find_id api opts g n gs w) \<noteq> Inl (McpdErr m)
   \<and> (find_command (cli_groups find_id api) g n = Inr c \<longrightarrow> convert_params ck (cc_params c) gs = Inr vs \<longrightarrow>
        cc_run c vs (cli_start opts w) = (s, Inl (McpdErr m)) \<longrightarrow>
        run_cli ck find_id api opts g n gs w = (ctx_close api s, Inl (ClickException m)))"
proof (intro conjI impI)
  show "snd (run_cli ck find_id api opts g n gs w) \<noteq> Inl (McpdErr m)"
  proof (cases "find_command (cli_groups find_id api) g n")
    case (Inl e)
    then show ?thesis using find_command_error [OF Inl] by (auto simp: run_cli_eq)
  next
    case (Inr c)
    then have "cc_handled c \<or> c = mcpd_decode_inputs" using find_command_in [OF Inr] group_handled by blast
    then have "snd ((if cc_handled c then handle_mcpd_errors (cc_run c vs) else cc_run c vs) t) \<noteq> Inl (McpdErr m)" for vs t
      by (auto simp: handle_not_mcpd decode_not_mcpd)
    then show ?thesis
      using Inr by (auto simp: run_cli_eq split_beta split: sum.split dest: convert_params_error simp del: if_split)
  qed
next
  assume c: "find_command (cli_groups find_id api) g n = Inr c" "convert_params ck (cc_params c) gs = Inr vs"
      "cc_run c vs (cli_start opts w) = (s, Inl (McpdErr m))"
  have "cc_handled c \<or> c = mcpd_decode_inputs" using find_command_in [OF c(1)] group_handled by blast
  have "cc_handled c"
  proof (rule ccontr)
    assume "\<not> cc_handled c"
    with \<open>cc_handled c \<or> c = mcpd_decode_inputs\<close> c(3)
    have "c = mcpd_decode_inputs" "snd (cc_run c vs (cli_start opts w)) = Inl (McpdErr m)" by simp_all
    then show False using decode_not_mcpd' by blast
  qed
  then show "run_cli ck find_id api opts g n gs w = (ctx_close api s, Inl (ClickException m))"
    using c by (simp add: run_cli_eq handle_mcpd_errors_def)
qed

theorem device_errors_become_messages_witness:
  "snd (sample_run (\<lambda>t c. True) ''daq'' ''start'' []) = Inl (ClickException ''start_daq'')"
proof -
  let ?api = "recording_api (\<lambda>t c. True) (\<lambda>c. RNone)"
  let ?find = "pure_find (\<lambda>a p. Inr 0) :: net_event list \<Rightarrow> _"
  have "find_command (cli_groups ?find ?api) ''daq'' ''start'' = Inr (daq_cmd_start ?api)"
    by (simp add: find_command_def cli_groups_def daq_group_def daq_cmd_start_def cli_cmd_def)
  moreover have "convert_params plain_click (cc_params (daq_cmd_start ?api)) [] = Inr []"
    by (simp add: daq_cmd_start_def cli_cmd_def convert_params_def)
  moreover obtain s where "cc_run (daq_cmd_start ?api) [] (cli_start sample_options []) = (s, Inl (McpdErr ''start_daq''))"
    by (simp add: daq_cmd_start_def cli_cmd_def conn_do_def conn_call_def seq_act_def bind_act_def connection_def
        cli_start_def new_context_def sample_options_def Let_def)
  ultimately show ?thesis
    unfolding sample_run_def
    using device_errors_become_messages [of plain_click ?find ?api sample_options "''daq''" "''start''" "[]" "[]"
      "''start_daq''" "daq_cmd_start ?api" "[]" s] by simp
qed

text \<open>
  A command line that click or a parameter type rejects sends nothing: no connection is
  opened, and the result is a usage error.
\<close>

theorem bad_command_line_sends_nothing:
  assumes "find_command (cli_groups find_id api) g n = Inr c" and "convert_params ck (cc_params c) gs = Inl e"
  shows "run_cli ck find_id api opts g n gs w = (cli_start opts w, Inl e) \<and> (\<exists>m. e = UsageError m)"
  using convert_params_error [OF assms(2)] assms
  by (simp add: run_cli_def invoke_def run_command_line_def bind_act_def ctx_close_def cli_start_def new_context_def
      set_log_level_def Let_def)

theorem bad_command_line_sends_nothing_witness:
  "cli_world (fst (sample_run (\<lambda>t c. False) ''mpsd'' ''set-mode'' [Token ''0'', Token ''Energy''])) = []"
proof -
  let ?api = "recording_api (\<lambda>t c. False) (\<lambda>c. RNone)"
  let ?find = "pure_find (\<lambda>a p. Inr 0) :: net_event list \<Rightarrow> _"
  have f: "find_command (cli_groups ?find ?api) ''mpsd'' ''set-mode'' = Inr (mpsd_set_mode ?api)"
    by (simp add: find_command_def cli_groups_def mpsd_group_def mpsd_set_mode_def cli_cmd_def)
  have "ck_choice plain_click (enum_param MpsdMode) ''Energy'' = None" "ck_int plain_click ''0'' = Some 0" by code_simp+
  then obtain e where c: "convert_params plain_click (cc_params (mpsd_set_mode ?api)) [Token ''0'', Token ''Energy''] = Inl e"
    by (simp add: mpsd_set_mode_def cli_cmd_def convert_params_def argument_def)
  have "cli_world (cli_start sample_options ([] :: net_event list) :: (net_event list, target) cli) = []" by code_simp
  with bad_command_line_sends_nothing [OF f c, of sample_options "[]"] show ?thesis by (simp add: sample_run_def)
qed

lemma and_low_mask: "v AND 65535 = v mod 2 ^ 16" and and_nibble: "v AND 15 = v mod 2 ^ 4" for v :: int
  using take_bit_eq_mask [of 16 v] take_bit_eq_mask [of 4 v] by (simp_all add: mask_numeral take_bit_eq_mod)

lemma numeral_powers: "(2 :: int) ^ 16 = 65536" "(2 :: int) ^ 32 = 4294967296"
  by simp_all

lemma and_match_mask: "v AND 48 = 48 \<longleftrightarrow> bit v 4 \<and> bit v 5" for v :: int
proof -
  have "(48 :: int) = push_bit 4 (mask 2)" by (simp add: mask_numeral)
  then have b: "bit (48 :: int) n \<longleftrightarrow> n = 4 \<or> n = 5" for n
    by (simp only: bit_push_bit_iff bit_mask_iff) auto
  show ?thesis
    unfolding bit_eq_iff [of "v AND 48" 48] by (simp only: bit_and_iff b) auto
qed

text \<open>
  The decoding of a 48 bit parameter value splits it into its three 16 bit words, takes the
  low four bits of the first as the state of the inputs, and warns exactly when bits 4 and 5 of
  the value are not both set.
\<close>

theorem decode_inputs_words:
  assumes "0 \<le> v" and "v < 2 ^ 48"
  shows "v = param_lo v + 2 ^ 16 * param_mid v + 2 ^ 32 * param_hi v
     \<and> 0 \<le> param_lo v \<and> param_lo v < 2 ^ 16 \<and> 0 \<le> param_mid v \<and> param_mid v < 2 ^ 16
     \<and> 0 \<le> param_hi v \<and> param_hi v < 2 ^ 16
     \<and> inputs_status v = v mod 16
     \<and> cli_err (fst (decode_inputs v s)) =
         cli_err s @ (if bit v 4 \<and> bit v 5 then [] else [''warning: lo does not match expected bitmask''])
     \<and> snd (decode_inputs v s) = Inr ()"
proof -
  have lo: "param_lo v = v mod 2 ^ 16" by (simp add: param_lo_def and_low_mask)
  have mid: "param_mid v = v div 2 ^ 16 mod 2 ^ 16" by (simp add: param_mid_def and_low_mask drop_bit_eq_div)
  have "v div 2 ^ 32 < 2 ^ 16" using assms by (simp add: div_less_iff_less_mult)
  then have hi: "param_hi v = v div 2 ^ 32" using assms
    by (simp add: param_hi_def and_low_mask drop_bit_eq_div pos_imp_zdiv_nonneg_iff)
  have "v div 2 ^ 32 = v div 2 ^ 16 div 2 ^ 16" by (simp add: zdiv_zmult2_eq [symmetric])
  moreover have "v = v mod 65536 + 65536 * (v div 65536)" "v div 65536 = v div 65536 mod 65536 + 65536 * (v div 65536 div 65536)"
    by simp_all
  ultimately have v: "v = param_lo v + 2 ^ 16 * param_mid v + 2 ^ 32 * param_hi v"
    unfolding lo mid hi by (simp only: numeral_powers)
  have st: "inputs_status v = v mod 16"
    by (simp add: inputs_status_def lo_extract_mask_def and_nibble lo mod_mod_cancel)
  have "param_lo v AND 48 = 48 \<longleftrightarrow> bit v 4 \<and> bit v 5"
    by (simp only: and_match_mask lo take_bit_eq_mod [symmetric] bit_take_bit_iff) simp
  then have err: "cli_err (fst (decode_inputs v s)) =
      cli_err s @ (if bit v 4 \<and> bit v 5 then [] else [''warning: lo does not match expected bitmask''])"
    and ok: "snd (decode_inputs v s) = Inr ()"
    by (simp_all add: decode_inputs_def lo_match_mask_def seq_act_def bind_act_def echo_def echo_err_def)
  have bounds: "0 \<le> param_lo v" "param_lo v < 2 ^ 16" "0 \<le> param_mid v" "param_mid v < 2 ^ 16"
      "0 \<le> param_hi v" "param_hi v < 2 ^ 16"
    using assms \<open>v div 2 ^ 32 < 2 ^ 16\<close> unfolding lo mid hi by (simp_all add: pos_imp_zdiv_nonneg_iff)
  show ?thesis
    by (intro conjI bounds st err ok) (rule v)
qed

theorem decode_inputs_words_witness:
  "inputs_status 0x123456789ABC = 12 \<and> param_hi 0x123456789ABC = 0x1234"
proof -
  have "inputs_status 0x123456789ABC = 0x123456789ABC mod 16"
    using decode_inputs_words [of "0x123456789ABC" "cli_start sample_options [] :: (net_event list, target) cli"] by simp
  moreover have "param_hi 0x123456789ABC = 0x1234" by code_simp
  ultimately show ?thesis by simp
qed

lemma py_int0_hex:
  assumes "0 \<le> n"
  shows "py_int0 (''0x'' @ fmt_hex u w n) = Some n"
proof -
  have ns: "\<not> is_space c" if "c \<in> set (''0x'' @ fmt_hex u w n)" for c
    using that show_nat_base_chars [of 16 c u] assms
    by (auto simp: fmt_hex_def zero_pad_def is_space_def split: if_splits)
  have "strip (''0x'' @ fmt_hex u w n) = ''0x'' @ fmt_hex u w n"
    by (rule strip_no_space) (blast dest: ns)
  then show ?thesis
    using assms by (simp add: py_int0_def fmt_hex_def prefix_base_def parse_padded)
qed

text \<open>
  The addresses and values that the register commands print, in hexadecimal and in decimal,
  are read back as the same numbers by the parameter type of these commands.
\<close>

theorem printed_registers_parse:
  assumes "0 \<le> addr" and "0 \<le> val"
  shows "\<exists>a v d. register_line addr val = a @ '' = '' @ v @ '' ('' @ d @ '' decimal)''
     \<and> based_int (PStr a) = Inr (PInt addr) \<and> based_int (PStr v) = Inr (PInt val) \<and> based_int (PStr d) = Inr (PInt val)"
proof -
  have "register_line addr val =
      (''0x'' @ fmt_hex True 4 addr) @ '' = '' @ (''0x'' @ fmt_hex True 8 val) @ '' ('' @ show_int val @ '' decimal)''"
    by (simp add: register_line_def)
  moreover have "based_int (PStr (''0x'' @ fmt_hex True 4 addr)) = Inr (PInt addr)"
      "based_int (PStr (''0x'' @ fmt_hex True 8 val)) = Inr (PInt val)" "based_int (PStr (show_int val)) = Inr (PInt val)"
    using assms by (simp_all only: based_int.simps py_int0_hex py_int0_show_int option.case)
  ultimately show ?thesis by blast
qed

theorem printed_registers_parse_witness:
  "\<exists>a v d. register_line 258 48879 = a @ '' = '' @ v @ '' ('' @ d @ '' decimal)''
     \<and> based_int (PStr a) = Inr (PInt 258) \<and> based_int (PStr v) = Inr (PInt 48879) \<and> based_int (PStr d) = Inr (PInt 48879)"
  by (rule printed_registers_parse) simp_all

end
