(* ===== verification/Cli_Readout_Facts.thy ===== *)
theory Cli_Readout_Facts
  imports Cli_Readout Cli_Facts
begin

text \<open>
  Facts about \<open>readout\<close> and \<open>replay\<close>: the readout is stopped on every path, nothing is started
  without it, and a run with a duration ends.
\<close>

section \<open>The loops\<close>

lemma report_if_due_daq: "report_if_due line title i now tr (s, d) = (sd, t) \<Longrightarrow> snd sd = d \<and> cli_world (fst sd) = cli_world s
    \<and> ctx_connection (fst sd) = ctx_connection s"
  by (auto simp: report_if_due_def echo_line_def split: if_splits)

lemma echo_line_simps [simp]:
  "cli_world (echo_line l s) = cli_world s" "ctx_connection (echo_line l s) = ctx_connection s"
  by (simp_all add: echo_line_def)

text \<open>The loops leave the devices alone and raise nothing but \<open>KeyboardInterrupt\<close>.\<close>

lemma readout_loop_keeps:
  "readout_loop dur i t0 tks tr sd = Some ((s', d'), r) \<Longrightarrow>
     cli_world s' = cli_world (fst sd) \<and> ctx_connection s' = ctx_connection (fst sd) \<and> (r = Inr () \<or> r = Inl KeyboardInterrupt)"
proof (induction dur i t0 tks tr sd rule: readout_loop.induct)
  case (1 dur i t0 tr s d)
  then show ?case by (auto split: if_splits)
next
  case (2 dur i t0 tk tks tr s d)
  obtain sd t where rep: "report_if_due readout_counters_line ''readout'' i (tk_now tk) tr (s, daq_events (tk_events tk) d) = (sd, t)"
    by fastforce
  from report_if_due_daq [OF rep] 2 rep show ?case
    by (auto simp: Let_def split: if_splits)
qed

lemma replay_loop_keeps:
  "replay_loop i tks tr sd = Some ((s', d'), r) \<Longrightarrow> r = Inr () \<or> r = Inl KeyboardInterrupt"
proof (induction i tks tr sd rule: replay_loop.induct)
  case (1 i tr s d)
  then show ?case by (auto split: if_splits)
next
  case (2 i tk tks tr s d)
  obtain sd t where "report_if_due replay_counters_line ''replay'' i (tk_now tk) tr (s, daq_events (tk_events tk) d) = (sd, t)"
    by fastforce
  with 2 show ?case by (auto simp: Let_def split: if_splits)
qed

text \<open>
  A loop with a duration ends when the clock has advanced by it: with at least \<open>step\<close> per turn,
  after as many turns as steps fit into the duration.
\<close>

lemma readout_loop_ends:
  assumes "0 < duration" and "\<exists>tk \<in> set tks. duration \<le> tk_now tk - t_start"
  shows "readout_loop duration i t_start tks tr sd \<noteq> None"
  using assms(2)
proof (induction tks arbitrary: tr sd)
  case Nil
  then show ?case by simp
next
  case (Cons tk tks)
  obtain s d where sd: "sd = (s, d)" by (cases sd)
  obtain sd1 t where rep: "report_if_due readout_counters_line ''readout'' i (tk_now tk) tr (s, daq_events (tk_events tk) d) = (sd1, t)"
    by fastforce
  show ?case
  proof (cases "duration \<le> tk_now tk - t_start")
    case True
    then show ?thesis using assms(1) by (simp add: sd Let_def)
  next
    case False
    with Cons show ?thesis by (simp add: sd Let_def rep)
  qed
qed

lemma clock_advances:
  fixes step :: rat
  assumes "\<forall>i < length tks. t_start + of_nat (i + 1) * step \<le> tk_now (tks ! i)"
    and "0 < duration" and "duration \<le> of_nat (length tks) * step"
  shows "\<exists>tk \<in> set tks. duration \<le> tk_now tk - t_start"
proof -
  obtain k where k: "length tks = Suc k" using assms(2,3) by (cases "length tks") auto
  then have "t_start + of_nat (k + 1) * step \<le> tk_now (tks ! k)" using assms(1) by simp
  then have "duration \<le> tk_now (tks ! k) - t_start" using assms(3) k by simp
  then show ?thesis using k by (intro bexI [of _ "tks ! k"]) simp_all
qed

text \<open>The states a readout starts its loop in.\<close>

lemma start_call:
  assumes "cli_ok t s" and "ctx_connection s = None"
    and "conn_do (recording_api fails answer) ''start_daq'' [] s = (s', r)"
  shows "cli_world s' = [EvOpen t, EvCall t (Call ''start_daq'' [] [])] \<and> (r = Inr () \<or> r = Inl (McpdErr ''start_daq''))"
  using assms by (auto simp: conn_do_def conn_call_def seq_act_def bind_act_def connection_def cli_ok_def split: if_splits)

lemma cli_start_simps [simp]: "ctx_connection (cli_start opts w) = None" "cli_world (cli_start opts w) = w"
  by (simp_all add: cli_start_def new_context_def set_log_level_def Let_def)

lemma stop_finally_daq: "stop_finally r = ((s, d), e) \<Longrightarrow> d = daq_stop (snd (fst r)) \<and> s = fst (fst r)
    \<and> e = (if snd r = Inl KeyboardInterrupt then Inr () else snd r)"
  by (auto simp: stop_finally_def split: prod.splits)

lemma readout_end_facts:
  assumes "readout_end (s, d) = ((s', d'), r)"
  shows "is_running d' = is_running d" "local_port d' = local_port d" "daq_worker d' = None \<longleftrightarrow> daq_worker d = None"
    "cli_world s' = cli_world s" "r \<noteq> Inl (McpdErr m)"
  using assms
  by (auto simp: readout_end_def has_exception_def rethrow_exception_def is_running_def split: if_splits option.splits prod.splits)

lemma daq_events_worker: "daq_worker (daq_events evs d) = None \<longleftrightarrow> daq_worker d = None"
proof -
  have "daq_worker (daq_event_step ev d) = None \<longleftrightarrow> daq_worker d = None" for ev d
    by (cases ev) (auto split: option.split)
  then show ?thesis unfolding daq_events_def by (induction evs arbitrary: d) simp_all
qed

lemma readout_loop_worker:
  "readout_loop dur i t0 tks tr sd = Some ((s', d'), r) \<Longrightarrow> daq_worker d' = None \<longleftrightarrow> daq_worker (snd sd) = None"
proof (induction dur i t0 tks tr sd rule: readout_loop.induct)
  case (1 dur i t0 tr s d)
  then show ?case by (auto split: if_splits)
next
  case (2 dur i t0 tk tks tr s d)
  obtain sd t where rep: "report_if_due readout_counters_line ''readout'' i (tk_now tk) tr (s, daq_events (tk_events tk) d) = (sd, t)"
    by fastforce
  from report_if_due_daq [OF rep] 2 rep daq_events_worker [of "tk_events tk" d] show ?case
    by (auto simp: Let_def split: if_splits)
qed

lemma readout_body_facts:
  assumes "readout_body (recording_api fails answer) ro t_start tks (cli_start opts [], d) = Some ((s', d'), r)"
    and "daq_worker d \<noteq> None"
  shows "cli_world s' = (if ro_no_start_daq ro then []
      else [EvOpen (opt_address opts, opt_mcpd_id opts, opt_port opts),
            EvCall (opt_address opts, opt_mcpd_id opts, opt_port opts) (Call ''start_daq'' [] [])])
     \<and> daq_worker d' \<noteq> None"
proof -
  obtain s1 r1 where st: "(if ro_no_start_daq ro then ret () else conn_do (recording_api fails answer) ''start_daq'' [])
      (cli_start opts []) = (s1, r1)" by fastforce
  have w: "cli_world s1 = (if ro_no_start_daq ro then []
      else [EvOpen (opt_address opts, opt_mcpd_id opts, opt_port opts),
            EvCall (opt_address opts, opt_mcpd_id opts, opt_port opts) (Call ''start_daq'' [] [])])"
    using st start_call [OF cli_start_ok cli_start_simps(1)] by (auto split: if_splits)
  show ?thesis
  proof (cases r1)
    case (Inl e)
    then show ?thesis using assms st w by (auto simp: readout_body_def)
  next
    case (Inr u)
    then have "readout_loop (ro_duration ro) (ro_interval ro) t_start tks t_start
        (echo_line ''readout: entering readout loop, press ctrl-c to quit'' s1, d) = Some ((s', d'), r)"
      using assms(1) st by (simp add: readout_body_def)
    from readout_loop_keeps [OF this] readout_loop_worker [OF this] show ?thesis using w assms(2) by auto
  qed
qed

section \<open>Properties\<close>

text \<open>How a readout may end: stopped, with no error of the bindings, the device called if it was started.\<close>

definition ends_stopped :: "cli_options \<Rightarrow> readout_options \<Rightarrow> (net_event list, target) cli \<Rightarrow> daq option \<Rightarrow> unit res \<Rightarrow> bool" where
  "ends_stopped opts ro s d r \<longleftrightarrow>
     (case d of None \<Rightarrow> True | Some d' \<Rightarrow> \<not> is_running d' \<and> local_port d' = 0) \<and> (\<forall>m. r \<noteq> Inl (McpdErr m))
     \<and> (let t = (opt_address opts, opt_mcpd_id opts, opt_port opts) in
        cli_world s = (if ro_no_start_daq ro \<or> d = None \<or> daq_worker (the d) = None then []
          else [EvOpen t, EvCall t (Call ''start_daq'' [] [])]))"

lemma started_readout_stops:
  assumes run: "readout env exists_file (recording_api fails answer) ro t_start tks (cli_start opts []) = Some (s, d, r)"
    and pre: "readout_listfile exists_file ro = Inr l" "make_daq (ro_dataport ro) = Inr d0"
      "daq_start_readout env l (ro_overwrite ro) d0 = (d1, None)"
  shows "ends_stopped opts ro s d r"
proof -
  let ?api = "recording_api fails answer" and ?s0 = "cli_start opts [] :: (net_event list, target) cli"
  define t where "t = (opt_address opts, opt_mcpd_id opts, opt_port opts)"
  have w: "daq_worker d1 \<noteq> None" using daq_start_readout_cases [OF pre(3)] by (auto simp: start_worker_def)
  obtain sb db rb where b: "readout_body ?api ro t_start tks (?s0, d1) = Some ((sb, db), rb)"
    using run pre by (auto simp: readout_def split: option.splits)
  have body: "cli_world sb = (if ro_no_start_daq ro then [] else [EvOpen t, EvCall t (Call ''start_daq'' [] [])])
      \<and> daq_worker db \<noteq> None"
    using readout_body_facts [OF b w] by (simp add: t_def)
  obtain s2 d2 r2 where f: "stop_finally ((sb, db), rb) = ((s2, d2), r2)" by (metis prod.collapse)
  have stopped: "\<not> is_running d2" "local_port d2 = 0" "daq_worker d2 \<noteq> None" "cli_world s2 = cli_world sb"
    using stop_finally_daq [OF f] body by (auto simp: daq_stop_def is_running_def split: option.split)
  show ?thesis
  proof (cases r2)
    case (Inl e)
    then show ?thesis
      using run pre b f stopped body by (auto simp: readout_def ends_stopped_def t_def split: exc.splits)
  next
    case (Inr u)
    obtain s3 d3 r3 where en: "readout_end (s2, d2) = ((s3, d3), r3)" by (metis prod.collapse)
    show ?thesis
      using run pre b f Inr en stopped body readout_end_facts [OF en] by (auto simp: readout_def ends_stopped_def t_def)
  qed
qed

text \<open>
  C19. Whatever happens, the devices raising, ctrl-c, the end of the data or an error of the
  readout thread, the command \<open>readout\<close> leaves the readout stopped and its port closed, raises
  no error of the bindings, and has called the devices only if the readout was started; the
  only call is \<open>start_daq\<close>, and none is made with \<open>--no-start-daq\<close>.
\<close>

theorem readout_always_stops:
  assumes "readout env exists_file (recording_api fails answer) ro t_start tks (cli_start opts []) = Some (s, d, r)"
  shows "(case d of None \<Rightarrow> True | Some d' \<Rightarrow> \<not> is_running d' \<and> local_port d' = 0)
    \<and> r \<noteq> Inl (McpdErr m)
    \<and> (let t = (opt_address opts, opt_mcpd_id opts, opt_port opts) in
       cli_world s = (if ro_no_start_daq ro \<or> d = None \<or> daq_worker (the d) = None then []
                      else [EvOpen t, EvCall t (Call ''start_daq'' [] [])]))"
proof (cases "readout_listfile exists_file ro")
  case (Inl e)
  then have "\<exists>m. e = UsageError m" by (auto simp: readout_listfile_def split: option.splits if_splits)
  with Inl assms show ?thesis by (auto simp: readout_def)
next
  case list: (Inr l)
  show ?thesis
  proof (cases "make_daq (ro_dataport ro)")
    case (Inl e)
    then have "e \<noteq> McpdErr m" by (auto simp: make_daq_def split: if_splits)
    with Inl list assms show ?thesis by (auto simp: readout_def)
  next
    case (Inr d0)
    then have d0: "d0 = new_daq (ro_dataport ro)" by (auto simp: make_daq_def split: if_splits)
    obtain d1 e1 where st: "daq_start_readout env l (ro_overwrite ro) d0 = (d1, e1)" by fastforce
    show ?thesis
    proof (cases e1)
      case (Some e)
      then have "d1 = d0" using daq_start_readout_cases [OF st] by auto
      moreover have "start_error e \<noteq> McpdErr m" by (cases e) simp_all
      ultimately show ?thesis
        using assms list Inr st Some by (auto simp: readout_def d0 new_daq_def is_running_def)
    next
      case None
      with started_readout_stops [OF assms list Inr] st show ?thesis by (simp add: ends_stopped_def)
    qed
  qed
qed

definition sample_env :: os_env where
  "sample_env = \<lparr>os_bind = (\<lambda>p. Inr p), os_create = (\<lambda>l ov. None), os_open = (\<lambda>l. None)\<rparr>"

definition sample_readout :: readout_options where
  "sample_readout = default_readout_options\<lparr>ro_listfile := Some ''run'', ro_duration := 3 / 10\<rparr>"

definition sample_ticks :: "tick list" where
  "sample_ticks = map (\<lambda>n. \<lparr>tk_events = [], tk_interrupt = False, tk_now = n\<rparr>) [1 / 10, 2 / 10, 3 / 10]"

theorem readout_always_stops_witness:
  "\<exists>s d r. readout sample_env (\<lambda>l. False) (recording_api (\<lambda>t c. True) (\<lambda>c. RNone)) sample_readout 0 sample_ticks
      (cli_start sample_options []) = Some (s, Some d, r) \<and> \<not> is_running d \<and> local_port d = 0"
proof -
  let ?r = "readout sample_env (\<lambda>l. False) (recording_api (\<lambda>t c. True) (\<lambda>c. RNone)) sample_readout 0 sample_ticks
      (cli_start sample_options [])"
  have "map_option (\<lambda>(s, d, r). d \<noteq> None) ?r = Some True" by code_simp
  then obtain s d r where r: "?r = Some (s, Some d, r)" by auto
  from readout_always_stops [OF r, of "''x''"] r show ?thesis by auto
qed

text \<open>
  C20. A readout with a duration ends: when every turn of the loop takes at least \<open>step\<close> seconds,
  it has been left after as many turns as it takes to add up to the duration, also when no data
  comes and nothing stops it.
\<close>

theorem readout_ends:
  assumes "0 < ro_duration ro" and "ro_duration ro \<le> of_nat (length tks) * step"
    and "\<forall>i < length tks. t_start + of_nat (i + 1) * step \<le> tk_now (tks ! i)"
  shows "\<exists>r. readout env exists_file api ro t_start tks s = Some r"
proof -
  have "readout_loop (ro_duration ro) i t_start tks tr sd \<noteq> None" for i tr sd
    using readout_loop_ends [OF assms(1) clock_advances [OF assms(3,1,2)]] .
  then have "readout_body api ro t_start tks sd \<noteq> None" for sd
    by (auto simp: readout_body_def split: prod.splits sum.splits)
  then have "\<exists>r. readout_body api ro t_start tks sd = Some r" for sd
    by (metis not_None_eq)
  then show ?thesis
    by (auto simp: readout_def split: sum.splits prod.splits option.splits) (metis option.distinct(1))
qed

theorem readout_ends_witness:
  "\<exists>r. readout sample_env (\<lambda>l. False) (recording_api (\<lambda>t c. False) (\<lambda>c. RNone)) sample_readout 0 sample_ticks
     (cli_start sample_options []) = Some r"
proof (rule readout_ends)
  show "0 < ro_duration sample_readout" by code_simp
  show "ro_duration sample_readout \<le> of_nat (length sample_ticks) * (1 / 10)" by code_simp
  show "\<forall>i < length sample_ticks. 0 + of_nat (i + 1) * (1 / 10) \<le> tk_now (sample_ticks ! i)"
  proof (intro allI impI)
    fix i assume "i < length sample_ticks"
    then have "i = 0 \<or> i = 1 \<or> i = 2" by (auto simp: sample_ticks_def less_Suc_eq)
    then show "0 + of_nat (i + 1) * (1 / 10) \<le> tk_now (sample_ticks ! i)" by (elim disjE) (simp_all add: sample_ticks_def)
  qed
qed

text \<open>An existing listfile is not touched unless overwriting it was asked for.\<close>

lemma readout_keeps_listfile:
  assumes "ro_listfile ro = Some l" "exists_file l" "\<not> ro_overwrite ro" "\<not> ro_no_listfile ro"
  shows "\<exists>m. readout env exists_file api ro t_start tks s = Some (s, None, Inl (UsageError m))"
  using assms by (simp add: readout_def readout_listfile_def)

text \<open>An error of the readout thread during a replay is not reported, unlike in \<open>readout\<close>.\<close>

lemma replay_hides_errors:
  assumes "os_open env l = None"
  shows "\<exists>s' d. replay env l i t0 [\<lparr>tk_events = [Failed e], tk_interrupt = False, tk_now = t0\<rparr>] s = Some (s', d, Inr ())
     \<and> has_exception d"
  using assms
  by (simp add: replay_def daq_start_replay_def Let_def daq_events_def start_worker_def started_worker_def is_running_def
      new_daq_def stop_finally_def daq_stop_def has_exception_def)

end
