(* ===== verification/Device_Worker.thy ===== *)
theory Device_Worker
  imports Config_Facts
begin

text \<open>
  \<open>src/gui/device_worker.py\<close>: one worker thread per device, created at the first
  submission, that runs the device's jobs in submission order over a cached connection and
  reports each job with one \<open>finished\<close> signal.

  A device is named by a number (Python's \<open>id(cfg)\<close>).  A job is a function of the network
  state and an open connection (the \<open>lambda conn: ...\<close> of the sources), \<open>'s\<close> is the type
  of the \<open>on_success\<close> callbacks.  The signals posted to the GUI thread are the list
  \<open>gui_events\<close>, oldest first.  Threads run concurrently: \<open>run_one d\<close> is one step of the
  thread of device \<open>d\<close>, and a schedule is a list of devices.
\<close>

section \<open>Workers\<close>

type_synonym ('w, 'c) job = "'w \<Rightarrow> 'c \<Rightarrow> 'w \<times> reply res"

record ('w, 'c, 's) item =
  it_label :: string
  it_job :: "('w, 'c) job"
  it_target :: target
  it_on_success :: "'s option"

record ('w, 'c, 's) worker =
  queue :: "('w, 'c, 's) item list"
  conn :: "'c option"
  conn_target :: "target option"

text \<open>
  A \<open>finished\<close> signal: device, label, result or exception, and the callback, which is passed
  on only for a result.
\<close>

datatype 's finished = Finished (fin_dev: nat) (fin_label: string) (fin_result: "reply res") (fin_cb: "'s option")

definition new_worker :: "('w, 'c, 's) worker" where
  "new_worker = \<lparr>queue = [], conn = None, conn_target = None\<rparr>"

definition worker_close :: "('w, 'c) api \<Rightarrow> 'w \<Rightarrow> ('w, 'c, 's) worker \<Rightarrow> 'w \<times> ('w, 'c, 's) worker" where
  "worker_close api w wk =
     (case conn wk of
        None \<Rightarrow> (w, wk)
      | Some c \<Rightarrow> (api_close api w c, wk\<lparr>conn := None\<rparr>))"

text \<open>\<open>_connection(target)\<close>\<close>

definition worker_connection ::
  "('w, 'c) api \<Rightarrow> 'w \<Rightarrow> ('w, 'c, 's) worker \<Rightarrow> target \<Rightarrow> 'w \<times> ('w, 'c, 's) worker \<times> 'c res" where
  "worker_connection api w wk tgt =
     (case conn wk of
        Some c \<Rightarrow>
          if conn_target wk = Some tgt then (w, wk, Inr c)
          else
            (case worker_close api w wk of (w1, wk1) \<Rightarrow>
             case api_open api w1 tgt of
               (w2, Inl e) \<Rightarrow> (w2, wk1, Inl e)
             | (w2, Inr c') \<Rightarrow> (w2, wk1\<lparr>conn := Some c', conn_target := Some tgt\<rparr>, Inr c'))
      | None \<Rightarrow>
          (case api_open api w tgt of
             (w2, Inl e) \<Rightarrow> (w2, wk, Inl e)
           | (w2, Inr c') \<Rightarrow> (w2, wk\<lparr>conn := Some c', conn_target := Some tgt\<rparr>, Inr c')))"

text \<open>\<open>_run(item)\<close> for the item of device \<open>d\<close>\<close>

definition worker_run ::
  "('w, 'c) api \<Rightarrow> 'w \<Rightarrow> nat \<Rightarrow> ('w, 'c, 's) worker \<Rightarrow> ('w, 'c, 's) item
   \<Rightarrow> 'w \<times> ('w, 'c, 's) worker \<times> 's finished" where
  "worker_run api w d wk it =
     (case worker_connection api w wk (it_target it) of
        (w1, wk1, Inl e) \<Rightarrow> (w1, wk1, Finished d (it_label it) (Inl e) None)
      | (w1, wk1, Inr c) \<Rightarrow>
          (case it_job it w1 c of
             (w2, Inl e) \<Rightarrow> (w2, wk1, Finished d (it_label it) (Inl e) None)
           | (w2, Inr r) \<Rightarrow> (w2, wk1, Finished d (it_label it) (Inr r) (it_on_success it))))"

section \<open>The set of workers\<close>

record ('w, 'c, 's) dws =
  net :: 'w
  wrks :: "(nat, ('w, 'c, 's) worker) dict"
  gui_events :: "'s finished list"

definition new_workers :: "'w \<Rightarrow> ('w, 'c, 's) dws" where
  "new_workers w = \<lparr>net = w, wrks = [], gui_events = []\<rparr>"

text \<open>\<open>DeviceWorkers.submit\<close>: the target is read from the configuration now, not when the job runs.\<close>

definition submit ::
  "nat \<Rightarrow> device_config \<Rightarrow> string \<Rightarrow> ('w, 'c) job \<Rightarrow> 's option \<Rightarrow> ('w, 'c, 's) dws \<Rightarrow> ('w, 'c, 's) dws" where
  "submit d cfg label jb cb s =
     (let it = \<lparr>it_label = label, it_job = jb, it_target = target_of cfg, it_on_success = cb\<rparr>;
          ws = dict_setdefault d new_worker (wrks s);
          wk = dict_get_or ws d new_worker
      in s\<lparr>wrks := dict_set d (wk\<lparr>queue := queue wk @ [it]\<rparr>) ws\<rparr>)"

text \<open>One turn of the event loop of device \<open>d\<close>'s thread.\<close>

definition run_one :: "('w, 'c) api \<Rightarrow> nat \<Rightarrow> ('w, 'c, 's) dws \<Rightarrow> ('w, 'c, 's) dws" where
  "run_one api d s =
     (case dict_get (wrks s) d of
        None \<Rightarrow> s
      | Some wk \<Rightarrow>
          (case queue wk of
             [] \<Rightarrow> s
           | it # its \<Rightarrow>
               (case worker_run api (net s) d (wk\<lparr>queue := its\<rparr>) it of
                  (w', wk', ev) \<Rightarrow>
                    s\<lparr>net := w', wrks := dict_set d wk' (wrks s), gui_events := gui_events s @ [ev]\<rparr>)))"

fun run_schedule :: "('w, 'c) api \<Rightarrow> nat list \<Rightarrow> ('w, 'c, 's) dws \<Rightarrow> ('w, 'c, 's) dws" where
  "run_schedule api [] s = s"
| "run_schedule api (d # ds) s = run_schedule api ds (run_one api d s)"

text \<open>
  A thread that ended closes the worker's connection; jobs still queued are discarded.
  \<open>quit()\<close> takes effect after an arbitrary number \<open>k\<close> of the queued jobs.
\<close>

definition close_thread :: "('w, 'c) api \<Rightarrow> nat \<Rightarrow> ('w, 'c, 's) dws \<Rightarrow> ('w, 'c, 's) dws" where
  "close_thread api d s =
     (case dict_get (wrks s) d of
        None \<Rightarrow> s
      | Some wk \<Rightarrow>
          (case worker_close api (net s) wk of
             (w', _) \<Rightarrow> s\<lparr>net := w', wrks := dict_remove d (wrks s)\<rparr>))"

definition end_thread :: "('w, 'c) api \<Rightarrow> nat \<Rightarrow> nat \<Rightarrow> ('w, 'c, 's) dws \<Rightarrow> ('w, 'c, 's) dws" where
  "end_thread api d k s = close_thread api d (run_schedule api (replicate k d) s)"

text \<open>\<open>DeviceWorkers.remove(cfg)\<close>: \<open>k\<close> is the number of jobs the thread still runs.\<close>

definition remove_worker :: "('w, 'c) api \<Rightarrow> nat \<Rightarrow> nat \<Rightarrow> ('w, 'c, 's) dws \<Rightarrow> ('w, 'c, 's) dws" where
  "remove_worker api k d s = end_thread api d k s"

definition pending_count :: "('w, 'c, 's) dws \<Rightarrow> nat \<Rightarrow> nat" where
  "pending_count s d = (case dict_get (wrks s) d of None \<Rightarrow> 0 | Some wk \<Rightarrow> length (queue wk))"

text \<open>
  \<open>DeviceWorkers.shutdown(drain)\<close>.  All threads are told to quit and then waited for, so
  they run their last jobs and end concurrently: \<open>sched\<close> is any sequence of turns and ends
  of threads.  With \<open>drain\<close> the request to quit is itself queued behind the jobs
  (\<open>quit_after_jobs\<close>), so a thread cannot end before its queue is empty; without, it ends
  after any number of turns.  The calls of \<open>wait()\<close> complete the threads that \<open>sched\<close>
  did not end.
\<close>

datatype turn = Turn nat | Quit nat

fun shutdown_turn :: "('w, 'c) api \<Rightarrow> bool \<Rightarrow> turn \<Rightarrow> ('w, 'c, 's) dws \<Rightarrow> ('w, 'c, 's) dws" where
  "shutdown_turn api drain (Turn d) s = run_one api d s"
| "shutdown_turn api drain (Quit d) s =
     (if drain \<and> pending_count s d \<noteq> 0 then s else close_thread api d s)"

definition wait_thread :: "('w, 'c) api \<Rightarrow> bool \<Rightarrow> nat \<Rightarrow> ('w, 'c, 's) dws \<Rightarrow> ('w, 'c, 's) dws" where
  "wait_thread api drain d s = end_thread api d (if drain then pending_count s d else 0) s"

definition shutdown ::
  "('w, 'c) api \<Rightarrow> bool \<Rightarrow> turn list \<Rightarrow> ('w, 'c, 's) dws \<Rightarrow> ('w, 'c, 's) dws" where
  "shutdown api drain sched s =
     (let s1 = fold (shutdown_turn api drain) sched s
      in (fold (wait_thread api drain) (dict_keys (wrks s1)) s1)\<lparr>wrks := []\<rparr>)"

section \<open>The interface: one FIFO queue per device\<close>

text \<open>
  What the panels rely on: a submission goes to the end of its device's queue, a step of a
  device's thread finishes the head of its queue, and nothing else changes either.
\<close>

locale fifo_workers =
  fixes lab :: "'j \<Rightarrow> 'l"
    and pending :: "'s \<Rightarrow> nat \<Rightarrow> 'j list"
    and done_labels :: "'s \<Rightarrow> nat \<Rightarrow> 'l list"
    and put :: "nat \<Rightarrow> 'j \<Rightarrow> 's \<Rightarrow> 's"
    and step :: "nat \<Rightarrow> 's \<Rightarrow> 's"
  assumes pending_put: "pending (put d j s) d' = (if d = d' then pending s d @ [j] else pending s d')"
    and done_put: "done_labels (put d j s) d' = done_labels s d'"
    and step_busy: "pending s d = j # js \<Longrightarrow>
          pending (step d s) d = js \<and> done_labels (step d s) d = done_labels s d @ [lab j]"
    and step_idle: "pending s d = [] \<Longrightarrow> step d s = s"
    and step_other: "d \<noteq> d' \<Longrightarrow>
          pending (step d s) d' = pending s d' \<and> done_labels (step d s) d' = done_labels s d'"
begin

definition put_all :: "nat \<Rightarrow> 'j list \<Rightarrow> 's \<Rightarrow> 's" where
  "put_all d js s = fold (put d) js s"

definition steps :: "nat list \<Rightarrow> 's \<Rightarrow> 's" where
  "steps ds s = fold step ds s"

text \<open>Labels finished so far, followed by the labels still queued: what was submitted.\<close>

definition submitted :: "'s \<Rightarrow> nat \<Rightarrow> 'l list" where
  "submitted s d = done_labels s d @ map lab (pending s d)"

lemma pending_put_all: "pending (put_all d js s) d' = (if d = d' then pending s d @ js else pending s d')"
  by (induction js arbitrary: s) (auto simp: put_all_def pending_put)

lemma done_put_all: "done_labels (put_all d js s) d' = done_labels s d'"
  by (induction js arbitrary: s) (auto simp: put_all_def done_put)

lemma submitted_step: "submitted (step d s) d' = submitted s d'"
proof (cases "d = d'")
  case True
  show ?thesis
  proof (cases "pending s d")
    case Nil
    then show ?thesis by (simp add: step_idle)
  next
    case (Cons j js)
    with step_busy [OF Cons] True show ?thesis by (simp add: submitted_def)
  qed
next
  case False
  then show ?thesis by (simp add: submitted_def step_other)
qed

lemma submitted_steps: "submitted (steps ds s) d = submitted s d"
  by (induction ds arbitrary: s) (simp_all add: steps_def submitted_step)

text \<open>Under every schedule the finished labels are an initial part of the submitted ones.\<close>

lemma done_prefix:
  "\<exists>rest. submitted s d = done_labels (steps ds s) d @ rest"
  using submitted_steps [of ds s d] by (metis submitted_def)

lemma length_pending_step:
  "length (pending (step d s) d') = length (pending s d') - (if d = d' then 1 else 0)"
  by (cases "d = d'"; cases "pending s d") (auto simp: step_other step_idle dest: step_busy)

lemma length_pending_steps:
  "length (pending (steps ds s) d) = length (pending s d) - count_list ds d"
  by (induction ds arbitrary: s) (auto simp: steps_def length_pending_step)

text \<open>A thread that gets enough turns finishes everything that was submitted, in order.\<close>

lemma steps_drain:
  assumes "length (pending s d) \<le> count_list ds d"
  shows "pending (steps ds s) d = []" and "done_labels (steps ds s) d = submitted s d"
proof -
  have "length (pending (steps ds s) d) = 0"
    using assms by (simp add: length_pending_steps)
  then show "pending (steps ds s) d = []" by simp
  with submitted_steps [of ds s d] show "done_labels (steps ds s) d = submitted s d"
    by (simp add: submitted_def)
qed

text \<open>Submissions and turns in any order.\<close>

fun play :: "(nat \<times> 'j option) list \<Rightarrow> 's \<Rightarrow> 's" where
  "play [] s = s"
| "play ((d, Some j) # ops) s = play ops (put d j s)"
| "play ((d, None) # ops) s = play ops (step d s)"

fun puts :: "(nat \<times> 'j option) list \<Rightarrow> nat \<Rightarrow> 'j list" where
  "puts [] d = []"
| "puts ((d', Some j) # ops) d = (if d' = d then j # puts ops d else puts ops d)"
| "puts ((d', None) # ops) d = puts ops d"

lemma submitted_put: "submitted (put d j s) d' = submitted s d' @ (if d = d' then [lab j] else [])"
  by (simp add: submitted_def pending_put done_put)

lemma submitted_play: "submitted (play ops s) d = submitted s d @ map lab (puts ops d)"
  by (induction ops s rule: play.induct) (simp_all add: submitted_put submitted_step)

lemma done_step_mono: "\<exists>more. done_labels (step d s) d' = done_labels s d' @ more"
proof (cases "d = d'")
  case True
  then show ?thesis
    by (cases "pending s d") (auto simp: step_idle dest: step_busy)
next
  case False
  then show ?thesis by (auto simp: step_other)
qed

end

section \<open>The workers provide it\<close>

definition pending_items :: "('w, 'c, 's) dws \<Rightarrow> nat \<Rightarrow> ('w, 'c, 's) item list" where
  "pending_items s d = (case dict_get (wrks s) d of None \<Rightarrow> [] | Some wk \<Rightarrow> queue wk)"

definition finished_labels :: "('w, 'c, 's) dws \<Rightarrow> nat \<Rightarrow> string list" where
  "finished_labels s d = map fin_label (filter (\<lambda>e. fin_dev e = d) (gui_events s))"

definition put_item :: "nat \<Rightarrow> ('w, 'c, 's) item \<Rightarrow> ('w, 'c, 's) dws \<Rightarrow> ('w, 'c, 's) dws" where
  "put_item d it s =
     (let ws = dict_setdefault d new_worker (wrks s); wk = dict_get_or ws d new_worker
      in s\<lparr>wrks := dict_set d (wk\<lparr>queue := queue wk @ [it]\<rparr>) ws\<rparr>)"

lemma submit_eq_put_item:
  "submit d cfg label jb cb s =
     put_item d \<lparr>it_label = label, it_job = jb, it_target = target_of cfg, it_on_success = cb\<rparr> s"
  by (simp add: submit_def put_item_def Let_def)

lemma dict_get_setdefault:
  "dict_get (dict_setdefault k v d) k' =
     (if k = k' then Some (dict_get_or d k v) else dict_get d k')"
  by (auto simp: dict_setdefault_def dict_get_or_def map_add_def split: option.splits)

lemma pending_put_item:
  "pending_items (put_item d it s) d' = (if d = d' then pending_items s d @ [it] else pending_items s d')"
  by (auto simp: pending_items_def put_item_def Let_def dict_get_setdefault dict_get_or_def new_worker_def
      split: option.splits)

lemma worker_run_facts:
  assumes "worker_run api w d wk it = (w', wk', ev)"
  shows "queue wk' = queue wk" and "fin_dev ev = d" and "fin_label ev = it_label it"
    and "fin_cb ev = (case fin_result ev of Inl _ \<Rightarrow> None | Inr _ \<Rightarrow> it_on_success it)"
  using assms
  by (auto simp: worker_run_def worker_connection_def worker_close_def
      split: prod.splits sum.splits option.splits if_splits)

lemma run_one_idle: "pending_items s d = [] \<Longrightarrow> run_one api d s = s"
  by (auto simp: run_one_def pending_items_def split: option.splits list.splits)

lemma run_one_busy:
  assumes "pending_items s d = it # its"
  shows "\<exists>wk w' wk' ev. dict_get (wrks s) d = Some wk \<and> queue wk = it # its \<and>
      worker_run api (net s) d (wk\<lparr>queue := its\<rparr>) it = (w', wk', ev) \<and>
      run_one api d s = s\<lparr>net := w', wrks := dict_set d wk' (wrks s), gui_events := gui_events s @ [ev]\<rparr>"
  using assms
  by (auto simp: run_one_def pending_items_def split: option.splits prod.splits)

interpretation dw: fifo_workers it_label pending_items finished_labels put_item "run_one api"
  for api :: "('w, 'c) api"
proof unfold_locales
  fix s :: "('w, 'c, 's) dws" and d d' j js
  show "pending_items (put_item d j s) d' = (if d = d' then pending_items s d @ [j] else pending_items s d')"
    by (rule pending_put_item)
  show "finished_labels (put_item d j s) d' = finished_labels s d'"
    by (simp add: finished_labels_def put_item_def Let_def)
  show "pending_items (run_one api d s) d = js \<and>
      finished_labels (run_one api d s) d = finished_labels s d @ [it_label j]"
    if busy: "pending_items s d = j # js"
    using run_one_busy [OF busy, of api]
    by (auto simp: pending_items_def finished_labels_def dest: worker_run_facts)
  show "run_one api d s = s" if "pending_items s d = []"
    using that by (rule run_one_idle)
  show "pending_items (run_one api d s) d' = pending_items s d' \<and>
      finished_labels (run_one api d s) d' = finished_labels s d'" if "d \<noteq> d'"
  proof (cases "pending_items s d")
    case Nil
    then show ?thesis by (simp add: run_one_idle)
  next
    case (Cons it its)
    with run_one_busy [OF Cons, of api] that show ?thesis
      by (auto simp: pending_items_def finished_labels_def dest: worker_run_facts)
  qed
qed

end
