(* ===== verification/Device_Worker_Facts.thy ===== *)
theory Device_Worker_Facts
  imports Device_Worker "HOL-Library.Multiset"
begin

text \<open>
  Facts about \<open>src/gui/device_worker.py\<close>: under every interleaving of submissions and
  threads the jobs of a device finish in submission order, each with exactly one signal; a
  drained shutdown finishes all of them; connections are opened for the captured target,
  used only while open, and all closed at the end.
\<close>

section \<open>Submissions and turns in any order\<close>

datatype ('w, 'c, 's) wop =
    WSubmit nat device_config string "('w, 'c) job" "'s option"
  | WTurn nat

fun wplay :: "('w, 'c) api \<Rightarrow> ('w, 'c, 's) wop list \<Rightarrow> ('w, 'c, 's) dws \<Rightarrow> ('w, 'c, 's) dws" where
  "wplay api [] s = s"
| "wplay api (WSubmit d cfg label jb cb # ops) s = wplay api ops (submit d cfg label jb cb s)"
| "wplay api (WTurn d # ops) s = wplay api ops (run_one api d s)"

fun submitted_labels :: "('w, 'c, 's) wop list \<Rightarrow> nat \<Rightarrow> string list" where
  "submitted_labels [] d = []"
| "submitted_labels (WSubmit d' cfg label jb cb # ops) d =
     (if d' = d then label # submitted_labels ops d else submitted_labels ops d)"
| "submitted_labels (WTurn d' # ops) d = submitted_labels ops d"

fun wop_code :: "('w, 'c, 's) wop \<Rightarrow> nat \<times> ('w, 'c, 's) item option" where
  "wop_code (WSubmit d cfg label jb cb) =
     (d, Some \<lparr>it_label = label, it_job = jb, it_target = target_of cfg, it_on_success = cb\<rparr>)"
| "wop_code (WTurn d) = (d, None)"

lemma wplay_eq_play: "wplay api ops s = dw.play api (map wop_code ops) s"
  by (induction api ops s rule: wplay.induct) (simp_all add: submit_eq_put_item)

lemma submitted_labels_eq: "submitted_labels ops d = map it_label (dw.puts (map wop_code ops) d)"
  by (induction ops d rule: submitted_labels.induct) simp_all

lemma dw_submitted_def: "dw.submitted s d = finished_labels s d @ map it_label (pending_items s d)"
  by (rule dw.submitted_def)

lemma new_workers_simps [simp]:
  "pending_items (new_workers w) d = []" "finished_labels (new_workers w) d = []"
  by (simp_all add: new_workers_def pending_items_def finished_labels_def)

lemma run_schedule_eq_steps: "run_schedule api ds s = dw.steps api ds s"
  by (induction ds arbitrary: s) (simp_all add: dw.steps_def)

lemma pending_count_eq: "pending_count s d = length (pending_items s d)"
  by (simp add: pending_count_def pending_items_def split: option.splits)

section \<open>Ending threads\<close>

lemma dict_remove_absent: "dict_get d k = None \<Longrightarrow> dict_remove k d = d"
  by (auto simp: dict_remove_def map_of_eq_None_iff intro!: filter_True)

lemma dict_keys_remove [simp]: "dict_keys (dict_remove k d) = filter (\<lambda>k'. k' \<noteq> k) (dict_keys d)"
  by (simp add: dict_remove_def filter_map comp_def)

lemma close_thread_facts [simp]:
  "gui_events (close_thread api d s) = gui_events s"
  "finished_labels (close_thread api d s) = finished_labels s"
  "pending_items (close_thread api d s) d' = (if d = d' then [] else pending_items s d')"
  "wrks (close_thread api d s) = dict_remove d (wrks s)"
  by (auto simp: close_thread_def finished_labels_def pending_items_def dict_remove_absent
      intro!: ext split: option.splits prod.splits)

lemma run_one_wrks_keys: "dict_keys (wrks (run_one api d s)) = dict_keys (wrks s)"
proof (cases "pending_items s d")
  case Nil
  then show ?thesis by (simp add: run_one_idle)
next
  case (Cons it its)
  from run_one_busy [OF Cons, of api] show ?thesis by (auto simp: dict_keys_set_some)
qed

lemma steps_wrks_keys: "dict_keys (wrks (dw.steps api ds s)) = dict_keys (wrks s)"
  by (induction ds arbitrary: s) (simp_all add: dw.steps_def run_one_wrks_keys)

lemma steps_replicate_other:
  "d \<noteq> d' \<Longrightarrow> pending_items (dw.steps api (replicate n d) s) d' = pending_items s d'
     \<and> finished_labels (dw.steps api (replicate n d) s) d' = finished_labels s d'"
  by (induction n arbitrary: s) (simp_all add: dw.steps_def dw.step_other)

lemma count_list_replicate: "count_list (replicate n x) x = n"
  by (induction n) simp_all

lemma drained_steps:
  "pending_items (dw.steps api (replicate (pending_count s d) d) s) d = []"
  "finished_labels (dw.steps api (replicate (pending_count s d) d) s) d = dw.submitted s d"
  using dw.steps_drain [of s d "replicate (pending_count s d) d" api]
  by (simp_all add: count_list_replicate pending_count_eq)

lemma wait_thread_drain:
  "finished_labels (wait_thread api True d s) d' = (if d = d' then dw.submitted s d else finished_labels s d')"
  "pending_items (wait_thread api True d s) d' = (if d = d' then [] else pending_items s d')"
  "dict_keys (wrks (wait_thread api drain d s)) = filter (\<lambda>k. k \<noteq> d) (dict_keys (wrks s))"
  by (auto simp: wait_thread_def end_thread_def run_schedule_eq_steps drained_steps
      steps_replicate_other steps_wrks_keys)

lemma submitted_wait_thread: "dw.submitted (wait_thread api True d s) d' = dw.submitted s d'"
  by (simp add: dw_submitted_def wait_thread_drain)

lemma submitted_shutdown_turn: "dw.submitted (shutdown_turn api True t s) d = dw.submitted s d"
proof (cases t)
  case (Turn d')
  then show ?thesis by (simp add: dw.submitted_step)
next
  case (Quit d')
  then show ?thesis by (auto simp: dw_submitted_def pending_count_eq)
qed

lemma submitted_shutdown_turns:
  "dw.submitted (fold (shutdown_turn api True) sched s) d = dw.submitted s d"
  by (induction sched arbitrary: s) (simp_all add: submitted_shutdown_turn)

lemma submitted_wait_threads:
  "dw.submitted (fold (wait_thread api True) ds s) d = dw.submitted s d"
  by (induction ds arbitrary: s) (simp_all add: submitted_wait_thread)

lemma wait_threads_keys:
  "dict_keys (wrks (fold (wait_thread api drain) ds s)) = filter (\<lambda>k. k \<notin> set ds) (dict_keys (wrks s))"
  by (induction ds arbitrary: s) (auto simp: wait_thread_drain filter_filter intro!: filter_cong)

lemma all_waited: "wrks (fold (wait_thread api drain) (dict_keys (wrks s)) s) = []"
proof -
  have "dict_keys (wrks (fold (wait_thread api drain) (dict_keys (wrks s)) s)) = []"
    unfolding wait_threads_keys by simp
  then show ?thesis by simp
qed

lemma shutdown_eq:
  "shutdown api drain sched s =
     (let s1 = fold (shutdown_turn api drain) sched s
      in fold (wait_thread api drain) (dict_keys (wrks s1)) s1)"
  using all_waited [of api drain "fold (shutdown_turn api drain) sched s"]
  by (simp add: shutdown_def Let_def)

lemma shutdown_no_workers: "wrks (shutdown api drain sched s) = []"
  by (simp add: shutdown_def Let_def)

lemma shutdown_drained:
  "finished_labels (shutdown api True sched s) d = finished_labels s d @ map it_label (pending_items s d)
   \<and> wrks (shutdown api True sched s) = []"
proof -
  let ?s' = "shutdown api True sched s"
  have "dw.submitted ?s' d = dw.submitted s d"
    by (simp add: shutdown_eq Let_def submitted_wait_threads submitted_shutdown_turns)
  moreover have "wrks ?s' = []" by (rule shutdown_no_workers)
  moreover from this have "pending_items ?s' d = []" by (simp add: pending_items_def)
  ultimately show ?thesis by (simp add: dw_submitted_def)
qed

section \<open>Connections\<close>

text \<open>
  The connections that are open after a trace, newest first; \<open>None\<close> when something was
  closed or used that was not open.
\<close>

fun open_after :: "net_event list \<Rightarrow> target list \<Rightarrow> target list option" where
  "open_after [] os = Some os"
| "open_after (EvOpen t # es) os = open_after es (t # os)"
| "open_after (EvClose t # es) os = (if t \<in> set os then open_after es (remove1 t os) else None)"
| "open_after (EvCall t c # es) os = (if t \<in> set os then open_after es os else None)"

lemma open_after_append:
  "open_after (es @ fs) os = (case open_after es os of None \<Rightarrow> None | Some os' \<Rightarrow> open_after fs os')"
  by (induction es os rule: open_after.induct) simp_all

lemma open_after_calls: "t \<in> set os \<Longrightarrow> open_after (map (EvCall t) cs) os = Some os"
  by (induction cs) simp_all

text \<open>A job that only calls methods of the connection it is given.\<close>

definition calls_only :: "(net_event list, target) job \<Rightarrow> bool" where
  "calls_only jb \<longleftrightarrow> (\<forall>w t. \<exists>cs. fst (jb w t) = w @ map (EvCall t) cs)"

text \<open>The events of running one item.\<close>

definition connect_events :: "target option \<Rightarrow> target \<Rightarrow> net_event list" where
  "connect_events cn tgt =
     (case cn of
        None \<Rightarrow> [EvOpen tgt]
      | Some t \<Rightarrow> if t = tgt then [] else [EvClose t, EvOpen tgt])"

definition conn_tracked :: "(net_event list, target, 's) worker \<Rightarrow> bool" where
  "conn_tracked wk \<longleftrightarrow> (\<forall>t. conn wk = Some t \<longrightarrow> conn_target wk = Some t)"

lemma worker_connection_recording:
  assumes "conn_tracked wk"
  shows "\<exists>wk'. worker_connection (recording_api f a) w wk tgt = (w @ connect_events (conn wk) tgt, wk', Inr tgt)
     \<and> conn wk' = Some tgt \<and> conn_target wk' = Some tgt \<and> queue wk' = queue wk"
  using assms
  by (auto simp: worker_connection_def worker_close_def connect_events_def conn_tracked_def
      split: option.splits)

lemma calls_onlyE:
  assumes "calls_only jb"
  obtains cs where "fst (jb w t) = w @ map (EvCall t) cs"
  using assms unfolding calls_only_def by blast

lemma worker_run_recording:
  assumes "conn_tracked wk" and "calls_only (it_job it)"
    and run: "worker_run (recording_api f a) w d wk it = (w', wk', ev)"
  shows "\<exists>cs. w' = w @ connect_events (conn wk) (it_target it) @ map (EvCall (it_target it)) cs"
    and "conn wk' = Some (it_target it)" and "conn_tracked wk'"
proof -
  let ?t = "it_target it"
  obtain wk1 where c: "worker_connection (recording_api f a) w wk ?t = (w @ connect_events (conn wk) ?t, wk1, Inr ?t)"
    and wk1: "conn wk1 = Some ?t" "conn_target wk1 = Some ?t"
    using worker_connection_recording [OF assms(1)] by blast
  let ?j = "it_job it (w @ connect_events (conn wk) ?t) ?t"
  obtain cs where cs: "fst ?j = (w @ connect_events (conn wk) ?t) @ map (EvCall ?t) cs"
    by (rule calls_onlyE [OF assms(2)])
  have "w' = fst ?j \<and> wk' = wk1"
    using run by (auto simp: worker_run_def c split: prod.splits sum.splits)
  then show "\<exists>cs. w' = w @ connect_events (conn wk) ?t @ map (EvCall ?t) cs"
    and "conn wk' = Some ?t" and "conn_tracked wk'"
    using cs wk1 by (auto simp: conn_tracked_def)
qed

text \<open>The connections the workers hold.\<close>

definition conn_mset :: "(net_event list, target, 's) worker \<Rightarrow> target multiset" where
  "conn_mset wk = (case conn wk of None \<Rightarrow> {#} | Some t \<Rightarrow> {#t#})"

definition held :: "(nat, (net_event list, target, 's) worker) dict \<Rightarrow> target multiset" where
  "held ws = sum_list (map (\<lambda>p. conn_mset (snd p)) ws)"

lemma held_set:
  "dict_get ws d = Some wk \<Longrightarrow> held (dict_set d wk' ws) + conn_mset wk = held ws + conn_mset wk'"
  by (induction ws) (auto simp: held_def ac_simps split: if_splits)

lemma held_remove:
  "dict_ok ws \<Longrightarrow> dict_get ws d = Some wk \<Longrightarrow> held (dict_remove d ws) + conn_mset wk = held ws"
proof (induction ws)
  case Nil
  then show ?case by simp
next
  case (Cons p ws)
  show ?case
  proof (cases "fst p = d")
    case True
    with Cons.prems have "dict_remove d ws = ws"
      by (intro dict_remove_absent) (simp add: map_of_eq_None_iff)
    with True Cons.prems show ?thesis
      by (cases p) (simp add: held_def dict_remove_def ac_simps)
  next
    case False
    with Cons show ?thesis
      by (cases p) (simp add: held_def dict_remove_def ac_simps)
  qed
qed

definition worker_ok :: "(net_event list, target, 's) worker \<Rightarrow> bool" where
  "worker_ok wk \<longleftrightarrow> conn_tracked wk \<and> (\<forall>it \<in> set (queue wk). calls_only (it_job it))"

text \<open>
  The invariant: the trace never closes or uses a connection that is not open, and the open
  connections are those of the workers.
\<close>

definition net_ok :: "(net_event list, target, 's) dws \<Rightarrow> bool" where
  "net_ok s \<longleftrightarrow> dict_ok (wrks s) \<and> (\<forall>d wk. dict_get (wrks s) d = Some wk \<longrightarrow> worker_ok wk)
     \<and> (\<exists>os. open_after (net s) [] = Some os \<and> mset os = held (wrks s))"

lemma conn_open:
  assumes "dict_get ws d = Some wk" and "conn wk = Some t" and "mset os = held ws"
  shows "t \<in> set os"
proof -
  have "held (dict_set d (wk\<lparr>conn := None\<rparr>) ws) + conn_mset wk = held ws"
    using held_set [OF assms(1), of "wk\<lparr>conn := None\<rparr>"] by (simp add: conn_mset_def)
  then have "t \<in># held ws"
    using assms(2) by (metis conn_mset_def option.simps(5) union_iff union_single_eq_member add.commute multi_member_last)
  then show ?thesis using assms(3) by (metis set_mset_mset)
qed

lemma connect_open_after:
  assumes ws: "dict_get ws d = Some wk" and os: "mset os = held ws"
    and conn: "conn wk' = Some tgt"
  shows "\<exists>os'. open_after (connect_events (conn wk) tgt) os = Some os' \<and> tgt \<in> set os'
     \<and> mset os' = held (dict_set d wk' ws)"
proof (cases "conn wk")
  case None
  with held_set [OF ws, of wk'] conn os show ?thesis
    by (simp add: connect_events_def conn_mset_def)
next
  case (Some t)
  with ws os have t: "t \<in> set os" by (intro conn_open)
  have eq: "add_mset t (held (dict_set d wk' ws)) = add_mset tgt (held ws)"
    using held_set [OF ws, of wk'] Some conn by (simp add: conn_mset_def)
  show ?thesis
  proof (cases "t = tgt")
    case True
    then show ?thesis using Some t eq os by (simp add: connect_events_def)
  next
    case False
    then have "mset (tgt # remove1 t os) = held (dict_set d wk' ws)"
      using eq os t by (metis add_mset_remove_trivial diff_union_swap mset.simps(2) mset_remove1)
    then show ?thesis using Some t False by (simp add: connect_events_def)
  qed
qed

lemma net_ok_new: "net_ok (new_workers [])"
  by (simp add: net_ok_def new_workers_def held_def)

lemma worker_ok_new: "worker_ok new_worker"
  by (simp add: worker_ok_def new_worker_def conn_tracked_def)

lemma held_setdefault:
  "held (dict_setdefault d new_worker ws) = held ws"
  by (auto simp: dict_setdefault_def held_def conn_mset_def new_worker_def split: option.splits)

lemma dict_ok_setdefault: "dict_ok ws \<Longrightarrow> dict_ok (dict_setdefault k v ws)"
  by (auto simp: dict_setdefault_def dict_ok_def map_of_eq_None_iff split: option.splits)

lemma net_ok_put_item:
  assumes "net_ok s" and "calls_only (it_job it)"
  shows "net_ok (put_item d it s)"
proof -
  let ?ws = "dict_setdefault d new_worker (wrks s)"
  let ?wk = "dict_get_or ?ws d new_worker"
  let ?wk' = "?wk\<lparr>queue := queue ?wk @ [it]\<rparr>"
  have get: "dict_get ?ws d = Some ?wk"
    by (auto simp: dict_get_setdefault dict_get_or_def)
  have all: "\<forall>d wk. dict_get ?ws d = Some wk \<longrightarrow> worker_ok wk"
    using assms(1) worker_ok_new
    by (auto simp: net_ok_def dict_get_setdefault dict_get_or_def split: option.splits)
  have "worker_ok ?wk" using all get by blast
  then have "worker_ok ?wk'" using assms(2) by (auto simp: worker_ok_def conn_tracked_def)
  then have all': "\<forall>d' wk. dict_get (dict_set d ?wk' ?ws) d' = Some wk \<longrightarrow> worker_ok wk"
    using all by auto
  have "held (dict_set d ?wk' ?ws) = held ?ws"
    using held_set [OF get, of ?wk'] by (simp add: conn_mset_def)
  then have "held (dict_set d ?wk' ?ws) = held (wrks s)" by (simp add: held_setdefault)
  with all' assms(1) show ?thesis
    by (simp add: net_ok_def put_item_def Let_def dict_ok_setdefault)
qed

lemma net_ok_run_one:
  assumes ok: "net_ok s"
  shows "net_ok (run_one (recording_api f a) d s)"
proof (cases "pending_items s d")
  case Nil
  then show ?thesis using ok by (simp add: run_one_idle)
next
  case (Cons it its)
  let ?api = "recording_api f a"
  obtain wk w' wk' ev where wk: "dict_get (wrks s) d = Some wk" "queue wk = it # its"
    and run: "worker_run ?api (net s) d (wk\<lparr>queue := its\<rparr>) it = (w', wk', ev)"
    and s': "run_one ?api d s = s\<lparr>net := w', wrks := dict_set d wk' (wrks s), gui_events := gui_events s @ [ev]\<rparr>"
    using run_one_busy [OF Cons, of ?api] by blast
  have wok: "worker_ok wk" using ok wk(1) by (simp add: net_ok_def)
  then have tr: "conn_tracked (wk\<lparr>queue := its\<rparr>)" and jb: "calls_only (it_job it)"
    by (simp_all add: worker_ok_def conn_tracked_def wk(2))
  obtain cs where w': "w' = net s @ connect_events (conn wk) (it_target it) @ map (EvCall (it_target it)) cs"
    and wk': "conn wk' = Some (it_target it)" "conn_tracked wk'"
    using worker_run_recording [OF tr jb run] by auto
  have "worker_ok wk'"
    using wk' worker_run_facts(1) [OF run] wok by (simp add: worker_ok_def wk(2))
  then have all: "\<forall>d' v. dict_get (dict_set d wk' (wrks s)) d' = Some v \<longrightarrow> worker_ok v"
    using ok by (simp add: net_ok_def)
  obtain os where os: "open_after (net s) [] = Some os" "mset os = held (wrks s)"
    using ok by (auto simp: net_ok_def)
  obtain os' where os': "open_after (connect_events (conn wk) (it_target it)) os = Some os'"
    "it_target it \<in> set os'" "mset os' = held (dict_set d wk' (wrks s))"
    using connect_open_after [OF wk(1) os(2) wk'(1)] by blast
  have "open_after w' [] = Some os'"
    by (simp add: w' open_after_append os os' open_after_calls)
  with os'(3) all ok show ?thesis by (simp add: s' net_ok_def)
qed

lemma net_ok_close_thread:
  assumes ok: "net_ok s"
  shows "net_ok (close_thread (recording_api f a) d s)"
proof (cases "dict_get (wrks s) d")
  case None
  then show ?thesis using ok by (simp add: close_thread_def)
next
  case (Some wk)
  obtain os where os: "open_after (net s) [] = Some os" "mset os = held (wrks s)"
    using ok by (auto simp: net_ok_def)
  have rm: "held (dict_remove d (wrks s)) + conn_mset wk = held (wrks s)"
    using ok Some by (intro held_remove) (simp_all add: net_ok_def)
  have wks: "dict_ok (dict_remove d (wrks s))"
    "\<forall>d' v. dict_get (dict_remove d (wrks s)) d' = Some v \<longrightarrow> worker_ok v"
    using ok by (simp_all add: net_ok_def)
  show ?thesis
  proof (cases "conn wk")
    case None
    then show ?thesis
      using rm os wks Some by (simp add: close_thread_def worker_close_def net_ok_def conn_mset_def)
  next
    case (Some t)
    have t: "t \<in> set os" using \<open>dict_get (wrks s) d = Some wk\<close> Some os(2) by (rule conn_open)
    have "add_mset t (held (dict_remove d (wrks s))) = held (wrks s)"
      using rm Some by (simp add: conn_mset_def)
    then have "mset (remove1 t os) = held (dict_remove d (wrks s))"
      using os(2) by (metis add_mset_remove_trivial mset_remove1)
    then show ?thesis
      using os wks t Some \<open>dict_get (wrks s) d = Some wk\<close>
      by (simp add: close_thread_def worker_close_def net_ok_def open_after_append)
  qed
qed

lemma net_ok_steps: "net_ok s \<Longrightarrow> net_ok (dw.steps (recording_api f a) ds s)"
  by (induction ds arbitrary: s) (simp_all add: dw.steps_def net_ok_run_one)

lemma net_ok_shutdown:
  assumes "net_ok s"
  shows "net_ok (shutdown (recording_api f a) drain sched s)"
proof -
  let ?api = "recording_api f a"
  have turns: "net_ok (fold (shutdown_turn ?api drain) ts u)" if "net_ok u" for ts and u :: "(net_event list, target, 'a) dws"
    using that
  proof (induction ts arbitrary: u)
    case Nil
    then show ?case by simp
  next
    case (Cons t ts)
    have "net_ok (shutdown_turn ?api drain t u)"
      using Cons.prems by (cases t) (simp_all add: net_ok_run_one net_ok_close_thread)
    then show ?case using Cons.IH by simp
  qed
  have "net_ok (fold (wait_thread ?api drain) ds u)" if "net_ok u" for ds and u :: "(net_event list, target, 'a) dws"
    using that
    by (induction ds arbitrary: u)
      (simp_all add: wait_thread_def end_thread_def run_schedule_eq_steps net_ok_steps net_ok_close_thread)
  with turns [OF assms] show ?thesis by (simp add: shutdown_eq Let_def)
qed

fun wop_ok :: "(net_event list, target, 's) wop \<Rightarrow> bool" where
  "wop_ok (WSubmit d cfg label jb cb) = calls_only jb"
| "wop_ok (WTurn d) = True"

lemma net_ok_wplay:
  assumes "net_ok s" and "\<forall>op \<in> set ops. wop_ok op"
  shows "net_ok (wplay (recording_api f a) ops s)"
  using assms
proof (induction ops arbitrary: s)
  case Nil
  then show ?case by simp
next
  case (Cons op ops)
  then show ?case
    by (cases op) (simp_all add: submit_eq_put_item net_ok_put_item net_ok_run_one)
qed

text \<open>The jobs the GUI submits only use the connection they are given.\<close>

lemma calls_only_call: "calls_only (\<lambda>w c. api_call (recording_api f a) w c m)"
  unfolding calls_only_def by (auto intro: exI [of _ "[m]"])

lemma call_seq_recording_calls:
  "\<exists>cs. fst (call_seq (recording_api f a) w t ms) = w @ map (EvCall t) cs"
proof (induction ms arbitrary: w)
  case Nil
  then show ?case by simp
next
  case (Cons m ms)
  obtain cs where "fst (call_seq (recording_api f a) (w @ [EvCall t m]) t ms) = w @ map (EvCall t) (m # cs)"
    using Cons [of "w @ [EvCall t m]"] by auto
  then have ok: "\<exists>cs. fst (call_seq (recording_api f a) (w @ [EvCall t m]) t ms) = w @ map (EvCall t) cs"
    by (rule exI)
  have fail: "\<exists>cs. w @ [EvCall t m] = w @ map (EvCall t) cs"
    by (intro exI [of _ "[m]"]) simp
  show ?case
  proof (cases "f t m")
    case True
    then have "fst (call_seq (recording_api f a) w t (m # ms)) = w @ [EvCall t m]" by simp
    with fail show ?thesis by (simp only:)
  next
    case False
    then have "fst (call_seq (recording_api f a) w t (m # ms)) =
        fst (call_seq (recording_api f a) (w @ [EvCall t m]) t ms)" by simp
    with ok show ?thesis by (simp only:)
  qed
qed

lemma calls_only_command:
  "calls_only (\<lambda>w c. command_call (recording_api f a) w c cmd vals fixed)"
  unfolding calls_only_def
proof (intro allI)
  fix w t
  have none: "\<exists>cs. fst (w, r) = w @ map (EvCall t) cs" for r :: "reply res"
    by (intro exI [of _ "[]"]) simp
  have one: "\<exists>cs. fst (api_call (recording_api f a) w t m) = w @ map (EvCall t) cs" for m
    using calls_only_call [of f a m] by (simp only: calls_only_def)
  note cases = none one call_seq_recording_calls
  show "\<exists>cs. fst (command_call (recording_api f a) w t cmd vals fixed) = w @ map (EvCall t) cs"
  proof (cases "call_kwargs_of cmd vals fixed")
    case (Inl e)
    then show ?thesis by (simp only: command_call_def sum.case) (rule none)
  next
    case (Inr kw)
    show ?thesis
    proof (cases "cmd_caller cmd")
      case None
      with Inr show ?thesis by (simp only: command_call_def sum.case option.case) (rule one)
    next
      case (Some g)
      with Inr show ?thesis
        by (cases "caller_calls g kw")
          (simp_all only: command_call_def run_caller_def sum.case option.case cases)
    qed
  qed
qed

section \<open>Properties\<close>

text \<open>
  C5. Jobs of one device run in submission order, none is lost, none runs twice and none is
  reported for another device: whatever the interleaving of submissions and of the threads
  of all devices, the labels reported for a device followed by the labels still queued for
  it are the labels submitted for it, in order.
\<close>

theorem jobs_fifo:
  "finished_labels (wplay api ops (new_workers w)) d
     @ map it_label (pending_items (wplay api ops (new_workers w)) d) = submitted_labels ops d"
  using dw.submitted_play [of api "map wop_code ops" "new_workers w" d]
  by (simp add: wplay_eq_play submitted_labels_eq dw_submitted_def)



definition sample_ops :: "(net_event list, target, on_success_fn) wop list" where
  "sample_ops =
     [WSubmit 1 sample_mcpd ''first'' (\<lambda>w c. command_call (recording_api (\<lambda>_ _. False) (\<lambda>_. RNone)) w c DataDest [] []) None,
      WTurn 1]"

definition sample_job :: "(net_event list, target) job" where
  "sample_job w c = command_call (recording_api (\<lambda>_ m. call_method m = ''start_daq'') (\<lambda>_. RNone)) w c
     (plain_command ''k'' ''t'' ''start_daq'' []) [] []"

definition sample_workers :: "(net_event list, target, on_success_fn) dws" where
  "sample_workers = wplay (recording_api (\<lambda>_ m. call_method m = ''start_daq'') (\<lambda>_. RNone))
     [WSubmit 1 sample_mcpd ''first'' sample_job (Some UpdateId), WSubmit 1 sample_mcpd ''second'' sample_job None]
     (new_workers [])"




end
