(* ===== verification/Device_Panel.thy ===== *)
theory Device_Panel
  imports Device_Worker_Facts
begin

text \<open>
  \<open>src/gui/device_panel.py\<close>: the table of devices, the parameter tree of the selected
  device, and the submission of settings and commands to the device workers.

  Device configurations are objects compared by identity (\<open>eq=False\<close>) that the tree, the
  workers' callbacks and the setup share, so they live in a store \<open>p_heap\<close> and the setup's
  list \<open>p_devs\<close> holds their names.  Names are never reused.  The table is its selected row
  and its texts, the tree is the list of its top groups with names, titles, values,
  visibility and expansion.
\<close>

section \<open>Submitting\<close>

type_synonym arg_values = "(string, pyval) dict"

text \<open>The closure \<open>on_success\<close> of \<open>_run_command\<close>: device, command and copied values.\<close>

datatype panel_cb = RunOnSuccess nat command "(string \<times> pyval) list"

type_synonym ('w, 'c) gui_workers = "('w, 'c, panel_cb) dws"

definition submit_command ::
  "('w, 'c) api \<Rightarrow> nat \<Rightarrow> device_config \<Rightarrow> command \<Rightarrow> arg_values \<Rightarrow> panel_cb option \<Rightarrow> arg_values
   \<Rightarrow> ('w, 'c) gui_workers \<Rightarrow> ('w, 'c) gui_workers" where
  "submit_command api d cfg cmd vals cb fixed ws =
     submit d cfg (describe cmd vals fixed) (\<lambda>w c. command_call api w c cmd vals fixed) cb ws"

definition bus_fixed :: "nat \<Rightarrow> arg_values" where
  "bus_fixed bus = [(''mpsd_id'', PInt (int bus))]"

text \<open>The body of the loops of \<open>apply_settings\<close>.\<close>

definition apply_setting ::
  "('w, 'c) api \<Rightarrow> nat \<Rightarrow> device_config \<Rightarrow> settings \<Rightarrow> arg_values \<Rightarrow> command
   \<Rightarrow> ('w, 'c) gui_workers \<Rightarrow> ('w, 'c) gui_workers outcome" where
  "apply_setting api d cfg s fixed cmd ws =
     (if cmd_apply_all cmd then
        with_res (opt_res (KeyError (cmd_key cmd)) (dict_get s (cmd_key cmd))) ws
          (\<lambda>vals. (submit_command api d cfg cmd vals None fixed ws, None))
      else (ws, None))"

definition apply_bus ::
  "('w, 'c) api \<Rightarrow> nat \<Rightarrow> device_config \<Rightarrow> nat \<times> mpsd_config
   \<Rightarrow> ('w, 'c) gui_workers \<Rightarrow> ('w, 'c) gui_workers outcome" where
  "apply_bus api d cfg bm ws =
     (case bm of (bus, m) \<Rightarrow>
        if present m then for_each (apply_setting api d cfg (mpsd_settings m) (bus_fixed bus)) MPSD_SETTINGS ws
        else (ws, None))"

definition apply_settings ::
  "('w, 'c) api \<Rightarrow> nat \<Rightarrow> device_config \<Rightarrow> ('w, 'c) gui_workers \<Rightarrow> ('w, 'c) gui_workers outcome" where
  "apply_settings api d cfg ws =
     and_then (for_each (apply_setting api d cfg (settings cfg) []) (settings_for (device_type cfg)) ws)
       (for_each (apply_bus api d cfg) (enumerate 0 (mpsds cfg)))"

definition present_busses :: "device_config \<Rightarrow> string" where
  "present_busses cfg =
     join '' '' (map (\<lambda>(bus, m). show_nat bus) (filter (\<lambda>(bus, m). present m) (enumerate 0 (mpsds cfg))))"

definition bus_title :: "device_config \<Rightarrow> nat \<Rightarrow> string res" where
  "bus_title cfg bus =
     (if bus < length (mpsds cfg)
      then Inr (''Bus '' @ show_nat bus @ (if present (mpsds cfg ! bus) then '' (present)'' else []))
      else Inl IndexError)"

section \<open>The parameter tree\<close>

datatype plimits = NoLimits | Range int int | Choices "string list"

datatype pinfo = PGroup | PAction | PValue (pv_type: string) (pv_value: pyval) (pv_limits: plimits)

datatype pnode =
  PNode (pn_name: string) (pn_title: string) (pn_info: pinfo)
    (pn_visible: bool) (pn_expanded: bool) (pn_children: "pnode list")

definition ActionName :: string where
  "ActionName = ''__action''"

definition leaf :: "string \<Rightarrow> string \<Rightarrow> string \<Rightarrow> pyval \<Rightarrow> plimits \<Rightarrow> pnode" where
  "leaf n t ty v l = PNode n t (PValue ty v l) True True []"

definition action_node :: "string \<Rightarrow> pnode" where
  "action_node t = PNode ActionName t PAction True True []"

definition arg_param :: "arg \<Rightarrow> pyval \<Rightarrow> pnode" where
  "arg_param a v =
     (let t = (case arg_title a of None \<Rightarrow> arg_name a | Some t \<Rightarrow> if t = [] then arg_name a else t)
      in case arg_kind a of
           KInt \<Rightarrow> leaf (arg_name a) t ''int'' v
             (case arg_limits a of None \<Rightarrow> NoLimits | Some (lo, hi) \<Rightarrow> Range lo hi)
         | KBool \<Rightarrow> leaf (arg_name a) t ''bool'' v NoLimits
         | KEnum \<Rightarrow> leaf (arg_name a) t ''list'' v
             (Choices (case arg_enum a of None \<Rightarrow> [] | Some e \<Rightarrow> map fst (members e)))
         | _ \<Rightarrow> leaf (arg_name a) t ''str'' v NoLimits)"

definition command_group :: "command \<Rightarrow> arg_values \<Rightarrow> string \<Rightarrow> pnode res" where
  "command_group cmd vals action_title =
     bind_res (traverse (\<lambda>a. bind_res (dict_index vals (arg_name a)) (\<lambda>v. Inr (arg_param a v))) (cmd_args cmd))
       (\<lambda>children. Inr (PNode (cmd_key cmd) (cmd_title cmd) PGroup True True (children @ [action_node action_title])))"

text \<open>
  The values of one-shot commands: scope (\<open>device\<close> or \<open>busN\<close>), command key, argument
  values.  \<open>values_for\<close> is \<open>cmd_values.setdefault(scope, {}).setdefault(cmd.key, cmd.defaults())\<close>.
\<close>

type_synonym scopes = "(string, (string, arg_values) dict) dict"

definition values_for :: "string \<Rightarrow> command \<Rightarrow> scopes \<Rightarrow> scopes" where
  "values_for scope cmd cv =
     dict_set scope (dict_setdefault (cmd_key cmd) (defaults cmd) (dict_get_or cv scope [])) cv"

definition scope_values :: "scopes \<Rightarrow> string \<Rightarrow> string \<Rightarrow> arg_values res" where
  "scope_values cv scope key =
     bind_res (opt_res (KeyError scope) (dict_get cv scope)) (\<lambda>s. opt_res (KeyError key) (dict_get s key))"

definition setting_values :: "settings \<Rightarrow> string \<Rightarrow> arg_values res" where
  "setting_values s key = opt_res (KeyError key) (dict_get s key)"

definition connection_group :: "device_config \<Rightarrow> pnode" where
  "connection_group cfg =
     PNode ''connection'' ''Connection'' PGroup True True
       [leaf ''name'' ''name'' ''str'' (PStr (dev_name cfg)) NoLimits,
        leaf ''device_type'' ''type'' ''list'' (PStr (device_type cfg)) (Choices DeviceTypes),
        leaf ''address'' ''address'' ''str'' (PStr (address cfg)) NoLimits,
        leaf ''mcpd_id'' ''id'' ''int'' (PInt (mcpd_id cfg)) (Range 0 255),
        leaf ''port'' ''port'' ''int'' (PInt (port cfg)) (Range 1 65535),
        leaf ''enabled'' ''enabled'' ''bool'' (PBool (enabled cfg)) NoLimits]"

definition bus_scope :: "nat \<Rightarrow> string" where
  "bus_scope bus = ''bus'' @ show_nat bus"

definition settings_groups :: "command list \<Rightarrow> settings \<Rightarrow> pnode list res" where
  "settings_groups cmds s =
     traverse (\<lambda>c. bind_res (setting_values s (cmd_key c)) (\<lambda>v. command_group c v ''Apply'')) cmds"

definition commands_groups :: "command list \<Rightarrow> string \<Rightarrow> scopes \<Rightarrow> pnode list res" where
  "commands_groups cmds scope cv =
     traverse (\<lambda>c. bind_res (scope_values cv scope (cmd_key c)) (\<lambda>v. command_group c v ''Run'')) cmds"

text \<open>One bus of an MCPD, and the loop over the busses.\<close>

definition bus_group :: "device_config \<Rightarrow> nat \<Rightarrow> mpsd_config \<Rightarrow> scopes \<Rightarrow> scopes \<times> pnode res" where
  "bus_group cfg bus m cv =
     (case bus_title cfg bus of
        Inl e \<Rightarrow> (cv, Inl e)
      | Inr title \<Rightarrow>
          (case settings_groups MPSD_SETTINGS (mpsd_settings m) of
             Inl e \<Rightarrow> (cv, Inl e)
           | Inr sets \<Rightarrow>
               (let cv1 = fold (values_for (bus_scope bus)) MPSD_COMMANDS cv
                in (cv1, bind_res (commands_groups MPSD_COMMANDS (bus_scope bus) cv1) (\<lambda>cmds.
                     Inr (PNode (bus_scope bus) title PGroup True False
                       [leaf ''present'' ''present'' ''bool'' (PBool (present m)) NoLimits,
                        PNode ''settings'' ''Settings'' PGroup True True sets,
                        PNode ''commands'' ''Commands'' PGroup True True cmds]))))))"

fun bus_groups :: "device_config \<Rightarrow> (nat \<times> mpsd_config) list \<Rightarrow> scopes \<Rightarrow> scopes \<times> pnode list res" where
  "bus_groups cfg [] cv = (cv, Inr [])"
| "bus_groups cfg ((bus, m) # bms) cv =
     (case bus_group cfg bus m cv of
        (cv1, Inl e) \<Rightarrow> (cv1, Inl e)
      | (cv1, Inr g) \<Rightarrow>
          (case bus_groups cfg bms cv1 of
             (cv2, Inl e) \<Rightarrow> (cv2, Inl e)
           | (cv2, Inr gs) \<Rightarrow> (cv2, Inr (g # gs))))"

text \<open>\<open>_build_tree(cfg)\<close>: the top groups, and the command values with the defaults added.\<close>

definition build_tree :: "device_config \<Rightarrow> scopes \<Rightarrow> scopes \<times> pnode list res" where
  "build_tree cfg cv =
     (case settings_groups (settings_for (device_type cfg)) (settings cfg) of
        Inl e \<Rightarrow> (cv, Inl e)
      | Inr sets \<Rightarrow>
          (let cv1 = fold (values_for ''device'') (commands_for (device_type cfg)) cv
           in case commands_groups (commands_for (device_type cfg)) ''device'' cv1 of
                Inl e \<Rightarrow> (cv1, Inl e)
              | Inr cmds \<Rightarrow>
                  (let groups = [connection_group cfg,
                                 PNode ''settings'' ''Settings'' PGroup True True sets,
                                 PNode ''commands'' ''Commands'' PGroup True False cmds]
                   in if device_type cfg = ''mcpd'' then
                        (case bus_groups cfg (enumerate 0 (mpsds cfg)) cv1 of
                           (cv2, Inl e) \<Rightarrow> (cv2, Inl e)
                         | (cv2, Inr busses) \<Rightarrow>
                             (cv2, Inr (groups @ [PNode ''busses'' ''Busses (MPSD)'' PGroup True True
                                (action_node (cmd_title ScanBusses) # busses)])))
                      else (cv1, Inr groups))))"

text \<open>
  The \<open>connect(...)\<close> calls of \<open>_build_tree\<close>: what each action button runs, with the
  dictionary it reads its values from when it is clicked.
\<close>

datatype vref = SettingValues string | CommandValues string string | MpsdValues nat string | NoValues

definition tree_actions :: "device_config \<Rightarrow> (string list \<times> command \<times> vref \<times> arg_values) list" where
  "tree_actions cfg =
     map (\<lambda>c. ([''settings'', cmd_key c], c, SettingValues (cmd_key c), [])) (settings_for (device_type cfg))
   @ map (\<lambda>c. ([''commands'', cmd_key c], c, CommandValues ''device'' (cmd_key c), []))
       (commands_for (device_type cfg))
   @ (if device_type cfg = ''mcpd'' then
        ([''busses''], ScanBusses, NoValues, [])
        # concat (map (\<lambda>bus.
            map (\<lambda>c. ([''busses'', bus_scope bus, ''settings'', cmd_key c], c, MpsdValues bus (cmd_key c), bus_fixed bus))
              MPSD_SETTINGS
          @ map (\<lambda>c. ([''busses'', bus_scope bus, ''commands'', cmd_key c], c,
                     CommandValues (bus_scope bus) (cmd_key c), bus_fixed bus))
              MPSD_COMMANDS) [0..<length (mpsds cfg)])
      else [])"

section \<open>The filter\<close>

definition filter_matches :: "string \<Rightarrow> pnode \<Rightarrow> bool" where
  "filter_matches text p \<longleftrightarrow>
     pn_name p \<noteq> ActionName \<and> (contains text (lower (pn_name p)) \<or> contains text (lower (pn_title p)))"

text \<open>\<open>(action := p.names.get(ActionName)) ... action.show(True)\<close>\<close>

definition show_action :: "pnode \<Rightarrow> pnode" where
  "show_action c =
     (if pn_name c = ActionName
      then PNode (pn_name c) (pn_title c) (pn_info c) True (pn_expanded c) (pn_children c) else c)"

fun filter_update :: "string \<Rightarrow> bool \<Rightarrow> pnode \<Rightarrow> pnode" where
  "filter_update text parent_matched (PNode n t i v e cs) =
     (let matched = parent_matched \<or> filter_matches text (PNode n t i v e cs);
          cs1 = map (filter_update text matched) cs;
          any_child = (\<exists>c \<in> set cs1. pn_visible c);
          visible = matched \<or> any_child;
          cs2 = (if visible then map show_action cs1 else cs1)
      in PNode n t i visible (if text \<noteq> [] \<and> cs \<noteq> [] \<and> any_child then True else e) cs2)"

definition apply_filter :: "string \<Rightarrow> pnode list \<Rightarrow> pnode list" where
  "apply_filter le_text groups =
     (let text = lower (strip le_text) in map (filter_update text (text = [])) groups)"

section \<open>The panel\<close>

text \<open>
  \<open>p_tree_cfg\<close> is \<open>_tree_cfg\<close>; \<open>p_tree\<close> is \<open>_tree_root\<close> with the device that its closures
  captured; \<open>p_rebuild\<close> the number of pending \<open>singleShot(0, rebuild_tree)\<close>, \<open>p_changed\<close> the number
  of \<open>devices_changed\<close> signals.
\<close>

record ('w, 'c) panel =
  p_heap :: "nat \<Rightarrow> device_config"
  p_next :: nat
  p_devs :: "nat list"
  p_values :: "(nat, scopes) dict"
  p_sel :: "nat option"
  p_rows :: "string list list"
  p_tree_cfg :: "nat option"
  p_tree :: "(nat \<times> pnode list) option"
  p_filter :: string
  p_rebuild :: nat
  p_changed :: nat
  p_workers :: "('w, 'c) gui_workers"

definition set_cfg :: "nat \<Rightarrow> device_config \<Rightarrow> ('w, 'c) panel \<Rightarrow> ('w, 'c) panel" where
  "set_cfg d cfg p = p\<lparr>p_heap := (p_heap p)(d := cfg)\<rparr>"

definition emit_changed :: "('w, 'c) panel \<Rightarrow> ('w, 'c) panel outcome" where
  "emit_changed p = (p\<lparr>p_changed := Suc (p_changed p)\<rparr>, None)"

definition selected_device :: "('w, 'c) panel \<Rightarrow> nat option" where
  "selected_device p =
     (case p_sel p of
        Some row \<Rightarrow> if row < length (p_devs p) then Some (p_devs p ! row) else None
      | None \<Rightarrow> None)"

text \<open>The check mark of the first column, as UTF-8 bytes.\<close>

definition check_mark :: string where
  "check_mark = [char_of (0xE2 :: nat), char_of (0x9C :: nat), char_of (0x93 :: nat)]"

definition row_texts :: "device_config \<Rightarrow> string list res" where
  "row_texts cfg =
     bind_res (bind_res (timing_role cfg) as_str) (\<lambda>role.
     Inr [if enabled cfg then check_mark else [], dev_name cfg, device_type cfg, address cfg,
          show_int (mcpd_id cfg), show_int (port cfg), role, present_busses cfg])"

text \<open>\<open>_on_selection_changed\<close>\<close>

definition on_selection_changed :: "('w, 'c) panel \<Rightarrow> ('w, 'c) panel outcome" where
  "on_selection_changed p =
     (let cfg = selected_device p in
      if cfg = p_tree_cfg p \<and> p_tree p \<noteq> None then (p, None)
      else
        (case cfg of
           None \<Rightarrow> (p\<lparr>p_tree_cfg := None, p_tree := None\<rparr>, None)
         | Some d \<Rightarrow>
             (case build_tree (p_heap p d) (dict_get_or (p_values p) d []) of
                (cv, Inl e) \<Rightarrow> (p\<lparr>p_values := dict_set d cv (p_values p), p_tree_cfg := Some d\<rparr>, Some e)
              | (cv, Inr groups) \<Rightarrow>
                  (p\<lparr>p_values := dict_set d cv (p_values p), p_tree_cfg := Some d,
                     p_tree := Some (d, apply_filter (p_filter p) groups)\<rparr>, None))))"

text \<open>
  \<open>refresh\<close>.  When a row cannot be shown the method ends there; the rows before it are
  already repainted then, which \<open>p_rows\<close> does not track.
\<close>

definition refresh :: "('w, 'c) panel \<Rightarrow> ('w, 'c) panel outcome" where
  "refresh p =
     with_res (traverse (\<lambda>d. row_texts (p_heap p d)) (p_devs p)) p (\<lambda>rows.
       on_selection_changed
         (p\<lparr>p_rows := rows,
            p_sel := (case selected_device p of
                        Some d \<Rightarrow> index_of d (p_devs p)
                      | None \<Rightarrow> if p_devs p \<noteq> [] then Some 0 else None)\<rparr>))"

definition select_row :: "nat \<Rightarrow> ('w, 'c) panel \<Rightarrow> ('w, 'c) panel outcome" where
  "select_row row p = on_selection_changed (p\<lparr>p_sel := Some row\<rparr>)"

text \<open>\<open>set_setup(setup)\<close>; \<open>k d\<close> jobs of device \<open>d\<close> still run before its thread ends.\<close>

definition set_setup ::
  "('w, 'c) api \<Rightarrow> (nat \<Rightarrow> nat) \<Rightarrow> device_config list \<Rightarrow> ('w, 'c) panel \<Rightarrow> ('w, 'c) panel outcome" where
  "set_setup api k cfgs p =
     (let ws = fold (\<lambda>d. remove_worker api (k d) d) (p_devs p) (p_workers p);
          n = p_next p
      in and_then
           (refresh (p\<lparr>p_workers := ws,
                       p_heap := (\<lambda>d. if n \<le> d \<and> d < n + length cfgs then cfgs ! (d - n) else p_heap p d),
                       p_devs := [n..<n + length cfgs], p_next := n + length cfgs, p_values := []\<rparr>))
           emit_changed)"

definition new_panel :: "'w \<Rightarrow> device_config list \<Rightarrow> ('w, 'c) panel outcome" where
  "new_panel w cfgs =
     refresh \<lparr>p_heap = (\<lambda>d. cfgs ! d), p_next = length cfgs, p_devs = [0..<length cfgs], p_values = [],
              p_sel = None, p_rows = [], p_tree_cfg = None, p_tree = None, p_filter = [], p_rebuild = 0, p_changed = 0,
              p_workers = new_workers w\<rparr>"

text \<open>\<open>cfg.settings["timing"]["role"] = v\<close>\<close>

definition set_setting :: "settings \<Rightarrow> string \<Rightarrow> string \<Rightarrow> pyval \<Rightarrow> settings res" where
  "set_setting s key a v =
     bind_res (setting_values s key) (\<lambda>d. Inr (dict_set key (dict_set a v d) s))"

text \<open>\<open>any(d.timing_role == "Master" for d in devices)\<close>\<close>

fun any_master :: "device_config list \<Rightarrow> bool res" where
  "any_master [] = Inr False"
| "any_master (c # cs) =
     bind_res (timing_role c) (\<lambda>r. if r = PStr ''Master'' then Inr True else any_master cs)"

definition add_device :: "('w, 'c) panel \<Rightarrow> ('w, 'c) panel outcome" where
  "add_device p =
     (let n = length (p_devs p) in
      with_res (new_device (''mcpd'' @ show_nat n) (''192.168.168.'' @ show_nat (121 + n)) 0 DefaultPort True
                  ''mcpd'' (PDict []) []) p (\<lambda>cfg.
      with_res (any_master (map (p_heap p) (p_devs p))) p (\<lambda>master.
      with_res (if master then set_setting (settings cfg) ''timing'' ''role'' (PStr ''Slave'')
                else Inr (settings cfg)) p (\<lambda>s.
      let p1 = (set_cfg (p_next p) (cfg\<lparr>settings := s\<rparr>) p)
                 \<lparr>p_devs := p_devs p @ [p_next p], p_next := Suc (p_next p)\<rparr>
      in and_then (and_then (refresh p1) (select_row n)) emit_changed))))"

definition remove_device :: "('w, 'c) api \<Rightarrow> nat \<Rightarrow> ('w, 'c) panel \<Rightarrow> ('w, 'c) panel outcome" where
  "remove_device api k p =
     (case selected_device p of
        None \<Rightarrow> (p, None)
      | Some d \<Rightarrow>
          and_then
            (refresh (p\<lparr>p_workers := remove_worker api k d (p_workers p), p_devs := remove1 d (p_devs p),
                        p_values := dict_remove d (p_values p)\<rparr>))
            emit_changed)"

definition lift_workers ::
  "('w, 'c) panel \<Rightarrow> (('w, 'c) gui_workers \<Rightarrow> ('w, 'c) gui_workers outcome) \<Rightarrow> ('w, 'c) panel outcome" where
  "lift_workers p f = (case f (p_workers p) of (ws, e) \<Rightarrow> (p\<lparr>p_workers := ws\<rparr>, e))"

definition apply_selected :: "('w, 'c) api \<Rightarrow> ('w, 'c) panel \<Rightarrow> ('w, 'c) panel outcome" where
  "apply_selected api p =
     (case selected_device p of
        None \<Rightarrow> (p, None)
      | Some d \<Rightarrow> lift_workers p (apply_settings api d (p_heap p d)))"

definition apply_all :: "('w, 'c) api \<Rightarrow> ('w, 'c) panel \<Rightarrow> ('w, 'c) panel outcome" where
  "apply_all api p =
     lift_workers p (for_each (\<lambda>d ws. if enabled (p_heap p d) then apply_settings api d (p_heap p d) ws else (ws, None))
       (p_devs p))"

text \<open>\<open>rebuild_tree\<close>, and the timer that calls it\<close>

definition rebuild_tree :: "('w, 'c) panel \<Rightarrow> ('w, 'c) panel outcome" where
  "rebuild_tree p = on_selection_changed (p\<lparr>p_tree := None, p_tree_cfg := None\<rparr>)"

definition on_rebuild_timer :: "('w, 'c) panel \<Rightarrow> ('w, 'c) panel outcome" where
  "on_rebuild_timer p = (if p_rebuild p = 0 then (p, None) else rebuild_tree (p\<lparr>p_rebuild := p_rebuild p - 1\<rparr>))"

definition on_filter_changed :: "string \<Rightarrow> ('w, 'c) panel \<Rightarrow> ('w, 'c) panel" where
  "on_filter_changed text p =
     p\<lparr>p_filter := text, p_tree := map_option (\<lambda>(d, t). (d, apply_filter text t)) (p_tree p)\<rparr>"

section \<open>Commands and their handlers\<close>

definition run_command ::
  "('w, 'c) api \<Rightarrow> nat \<Rightarrow> command \<Rightarrow> arg_values \<Rightarrow> arg_values \<Rightarrow> ('w, 'c) panel \<Rightarrow> ('w, 'c) panel" where
  "run_command api d cmd vals fixed p =
     p\<lparr>p_workers := submit_command api d (p_heap p d) cmd vals
        (if cmd_on_success cmd \<noteq> None then Some (RunOnSuccess d cmd vals) else None) fixed (p_workers p)\<rparr>"

definition read_values :: "nat \<Rightarrow> vref \<Rightarrow> ('w, 'c) panel \<Rightarrow> arg_values res" where
  "read_values d r p =
     (case r of
        SettingValues key \<Rightarrow> setting_values (settings (p_heap p d)) key
      | CommandValues scope key \<Rightarrow> scope_values (dict_get_or (p_values p) d []) scope key
      | MpsdValues bus key \<Rightarrow>
          if bus < length (mpsds (p_heap p d)) then setting_values (mpsd_settings (mpsds (p_heap p d) ! bus)) key
          else Inl IndexError
      | NoValues \<Rightarrow> Inr [])"

text \<open>
  A click on an action button of the tree.  \<open>None\<close>: there is no such button.  The button
  reads the dictionary it was connected to; \<open>normalize\<close> replaces the dictionaries, but the
  tree is rebuilt before the next click then.
\<close>

definition click_action :: "('w, 'c) api \<Rightarrow> string list \<Rightarrow> ('w, 'c) panel \<Rightarrow> ('w, 'c) panel outcome option" where
  "click_action api path p =
     (case p_tree p of
        None \<Rightarrow> None
      | Some (d, _) \<Rightarrow>
          (case map_of (tree_actions (p_heap p d)) path of
             None \<Rightarrow> None
           | Some (cmd, r, fixed) \<Rightarrow>
               Some (with_res (read_values d r p) p (\<lambda>vals. (run_command api d cmd vals fixed p, None)))))"

text \<open>\<open>root.child(*path)\<close> changed by \<open>f\<close>; \<open>None\<close> when there is no such child.\<close>

fun update_child :: "string list \<Rightarrow> (pnode \<Rightarrow> pnode) \<Rightarrow> pnode list \<Rightarrow> pnode list option" where
  "update_child [] f ns = None"
| "update_child path f [] = None"
| "update_child (x # path) f (PNode n t i v e cs # ns) =
     (if n = x then
        (if path = [] then Some (f (PNode n t i v e cs) # ns)
         else map_option (\<lambda>cs'. PNode n t i v e cs' # ns) (update_child path f cs))
      else map_option (\<lambda>ns'. PNode n t i v e cs # ns') (update_child (x # path) f ns))"

fun set_title :: "string \<Rightarrow> pnode \<Rightarrow> pnode" where
  "set_title t' (PNode n t i v e cs) = PNode n t' i v e cs"

fun set_value :: "pyval \<Rightarrow> pnode \<Rightarrow> pnode" where
  "set_value x (PNode n t (PValue ty _ l) v e cs) = PNode n t (PValue ty x l) v e cs"
| "set_value x p = p"

definition update_tree :: "string list \<Rightarrow> (pnode \<Rightarrow> pnode) \<Rightarrow> ('w, 'c) panel \<Rightarrow> ('w, 'c) panel outcome" where
  "update_tree path f p =
     (case p_tree p of
        None \<Rightarrow> (p, None)
      | Some (d, ns) \<Rightarrow>
          (case update_child path f ns of
             None \<Rightarrow> (p, Some (KeyError (concat path)))
           | Some ns' \<Rightarrow> (p\<lparr>p_tree := Some (d, ns')\<rparr>, None)))"

text \<open>
  \<open>_sync_busses(cfg)\<close>.  \<open>setValue\<close> makes the tree report a change back to \<open>on_changed\<close>,
  which stores the value that is already there and refreshes the table once more.
\<close>

definition sync_bus :: "nat \<Rightarrow> nat \<Rightarrow> ('w, 'c) panel \<Rightarrow> ('w, 'c) panel outcome" where
  "sync_bus d bus p =
     (if bus < length (mpsds (p_heap p d)) then
        with_res (bus_title (p_heap p d) bus) p (\<lambda>title.
        and_then (update_tree [''busses'', bus_scope bus, ''present'']
                    (set_value (PBool (present (mpsds (p_heap p d) ! bus)))) p)
          (update_tree [''busses'', bus_scope bus] (set_title title)))
      else (p, Some IndexError))"

definition sync_busses :: "nat \<Rightarrow> ('w, 'c) panel \<Rightarrow> ('w, 'c) panel outcome" where
  "sync_busses d p =
     (if p_tree_cfg p \<noteq> Some d \<or> p_tree p = None \<or> device_type (p_heap p d) \<noteq> ''mcpd'' then (p, None)
      else for_each (sync_bus d) [0..<McpdBusCount] p)"

text \<open>The inner \<open>on_success(result)\<close> of \<open>_run_command\<close>, called in the GUI thread.\<close>

fun on_success :: "panel_cb \<Rightarrow> reply \<Rightarrow> ('w, 'c) panel \<Rightarrow> ('w, 'c) panel outcome" where
  "on_success (RunOnSuccess d cmd snapshot) result p =
     (case cmd_on_success cmd of
        None \<Rightarrow> (p, Some (TypeError ''not callable''))
      | Some f \<Rightarrow>
          (case run_on_success f (p_heap p d) snapshot result of
             (cfg, Some e) \<Rightarrow> (set_cfg d cfg p, Some e)
           | (cfg, None) \<Rightarrow>
               and_then (and_then (refresh (set_cfg d cfg p))
                 (if cmd = ScanBusses then sync_busses d else rebuild_tree)) emit_changed))"

section \<open>Edits in the tree\<close>

text \<open>\<open>setattr(cfg, field, data)\<close>: the parameters deliver values of their own type.\<close>

definition set_attr :: "string \<Rightarrow> pyval \<Rightarrow> device_config \<Rightarrow> device_config" where
  "set_attr f v cfg =
     (case v of
        PStr s \<Rightarrow>
          if f = ''name'' then cfg\<lparr>dev_name := s\<rparr>
          else if f = ''device_type'' then cfg\<lparr>device_type := s\<rparr>
          else if f = ''address'' then cfg\<lparr>address := s\<rparr>
          else cfg
      | PInt n \<Rightarrow>
          if f = ''mcpd_id'' then cfg\<lparr>mcpd_id := n\<rparr>
          else if f = ''port'' then cfg\<lparr>port := n\<rparr>
          else cfg
      | PBool b \<Rightarrow> if f = ''enabled'' then cfg\<lparr>enabled := b\<rparr> else cfg
      | _ \<Rightarrow> cfg)"

definition change_connection :: "nat \<Rightarrow> string \<Rightarrow> pyval \<Rightarrow> ('w, 'c) panel \<Rightarrow> ('w, 'c) panel outcome" where
  "change_connection d f v p =
     (let cfg = set_attr f v (p_heap p d); p1 = set_cfg d cfg p in
      and_then
        (and_then
          (if f = ''device_type'' then
             with_res (normalize cfg) p1 (\<lambda>cfg'. ((set_cfg d cfg' p1)\<lparr>p_rebuild := Suc (p_rebuild p1)\<rparr>, None))
           else (p1, None))
          refresh)
        emit_changed)"

definition change_setting :: "nat \<Rightarrow> string \<Rightarrow> string \<Rightarrow> pyval \<Rightarrow> ('w, 'c) panel \<Rightarrow> ('w, 'c) panel outcome" where
  "change_setting d key a v p =
     with_res (set_setting (settings (p_heap p d)) key a v) p (\<lambda>s.
       let p1 = set_cfg d ((p_heap p d)\<lparr>settings := s\<rparr>) p
       in if key = ''timing'' then refresh p1 else (p1, None))"

definition change_command ::
  "nat \<Rightarrow> string \<Rightarrow> string \<Rightarrow> string \<Rightarrow> pyval \<Rightarrow> ('w, 'c) panel \<Rightarrow> ('w, 'c) panel outcome" where
  "change_command d scope key a v p =
     (let cv = dict_get_or (p_values p) d [] in
      with_res (opt_res (KeyError scope) (dict_get cv scope)) p (\<lambda>s.
      with_res (set_setting s key a v) p (\<lambda>s'.
      (p\<lparr>p_values := dict_set d (dict_set scope s' cv) (p_values p)\<rparr>, None))))"

definition set_mpsd :: "nat \<Rightarrow> nat \<Rightarrow> (mpsd_config \<Rightarrow> mpsd_config) \<Rightarrow> ('w, 'c) panel \<Rightarrow> ('w, 'c) panel" where
  "set_mpsd d bus f p =
     set_cfg d ((p_heap p d)\<lparr>mpsds := (mpsds (p_heap p d))[bus := f (mpsds (p_heap p d) ! bus)]\<rparr>) p"

definition change_present :: "nat \<Rightarrow> nat \<Rightarrow> pyval \<Rightarrow> ('w, 'c) panel \<Rightarrow> ('w, 'c) panel outcome" where
  "change_present d bus v p =
     (if bus < length (mpsds (p_heap p d)) then
        let p1 = set_mpsd d bus (\<lambda>m. m\<lparr>present := truthy v\<rparr>) p in
        with_res (bus_title (p_heap p1 d) bus) p1 (\<lambda>title.
        and_then (update_tree [''busses'', bus_scope bus] (set_title title) p1) refresh)
      else (p, Some IndexError))"

definition change_mpsd_setting ::
  "nat \<Rightarrow> nat \<Rightarrow> string \<Rightarrow> string \<Rightarrow> pyval \<Rightarrow> ('w, 'c) panel \<Rightarrow> ('w, 'c) panel outcome" where
  "change_mpsd_setting d bus key a v p =
     (if bus < length (mpsds (p_heap p d)) then
        with_res (set_setting (mpsd_settings (mpsds (p_heap p d) ! bus)) key a v) p (\<lambda>s.
        (set_mpsd d bus (\<lambda>m. m\<lparr>mpsd_settings := s\<rparr>) p, None))
      else (p, Some IndexError))"

text \<open>\<open>int(path[1].removeprefix("bus"))\<close>\<close>

definition bus_number :: "string \<Rightarrow> nat res" where
  "bus_number scope =
     (case py_int10 (if take 3 scope = ''bus'' then drop 3 scope else scope) of
        None \<Rightarrow> Inl (ValueError scope)
      | Some n \<Rightarrow> if n < 0 then Inl IndexError else Inr (nat n))"

text \<open>\<open>on_changed\<close> for one changed value of the tree of device \<open>d\<close>.\<close>

fun change_value :: "nat \<Rightarrow> string list \<Rightarrow> pyval \<Rightarrow> ('w, 'c) panel \<Rightarrow> ('w, 'c) panel outcome" where
  "change_value d [] v p = (p, Some IndexError)"
| "change_value d (grp # path) v p =
     (if grp = ''connection'' then
        (case path of f # _ \<Rightarrow> change_connection d f v p | [] \<Rightarrow> (p, Some IndexError))
      else if grp = ''settings'' then
        (case path of key # a # _ \<Rightarrow> change_setting d key a v p | _ \<Rightarrow> (p, Some IndexError))
      else if grp = ''commands'' then
        (case path of key # a # _ \<Rightarrow> change_command d ''device'' key a v p | _ \<Rightarrow> (p, Some IndexError))
      else if grp = ''busses'' then
        (case path of
           scope # kind # rest \<Rightarrow>
             with_res (bus_number scope) p (\<lambda>bus.
             if kind = ''present'' then change_present d bus v p
             else if kind = ''settings'' then
               (case rest of key # a # _ \<Rightarrow> change_mpsd_setting d bus key a v p | _ \<Rightarrow> (p, Some IndexError))
             else if kind = ''commands'' then
               (case rest of key # a # _ \<Rightarrow> change_command d scope key a v p | _ \<Rightarrow> (p, Some IndexError))
             else (p, None))
         | _ \<Rightarrow> (p, Some IndexError))
      else (p, None))"

text \<open>The user edits: the tree's parameter takes the value, then \<open>on_changed\<close> runs.\<close>

definition edit_value :: "string list \<Rightarrow> pyval \<Rightarrow> ('w, 'c) panel \<Rightarrow> ('w, 'c) panel outcome" where
  "edit_value path v p =
     (case p_tree p of
        None \<Rightarrow> (p, None)
      | Some (d, _) \<Rightarrow> and_then (update_tree path (set_value v) p) (change_value d path v))"

end
