(* ===== verification/Device_Panel_Facts.thy ===== *)
theory Device_Panel_Facts
  imports Device_Panel
begin

text \<open>
  Facts about \<open>src/gui/device_panel.py\<close>: what \<open>apply_settings\<close> submits and what the device
  receives, the tree filter, and the invariant of the panel's operations.
\<close>

section \<open>Applying the settings\<close>

text \<open>The settings that are sent: command, values and fixed arguments, in order.\<close>

definition setting_jobs :: "device_config \<Rightarrow> (command \<times> arg_values \<times> arg_values) list" where
  "setting_jobs cfg =
     map (\<lambda>c. (c, the (dict_get (settings cfg) (cmd_key c)), []))
       (filter (\<lambda>c. cmd_key c \<noteq> ''data_dest'') (settings_for (device_type cfg)))
   @ concat (map (\<lambda>(bus, m). map (\<lambda>c. (c, the (dict_get (mpsd_settings m) (cmd_key c)), bus_fixed bus)) MPSD_SETTINGS)
       (filter (\<lambda>(bus, m). present m) (enumerate 0 (mpsds cfg))))"

fun setting_item :: "('w, 'c) api \<Rightarrow> device_config \<Rightarrow> command \<times> arg_values \<times> arg_values \<Rightarrow> ('w, 'c, panel_cb) item" where
  "setting_item api cfg (c, v, f) =
     \<lparr>it_label = describe c v f, it_job = (\<lambda>w cn. command_call api w cn c v f),
      it_target = target_of cfg, it_on_success = None\<rparr>"

lemma apply_all_tables:
  "filter cmd_apply_all (settings_for t) = filter (\<lambda>c. cmd_key c \<noteq> ''data_dest'') (settings_for t)"
  "filter cmd_apply_all MPSD_SETTINGS = MPSD_SETTINGS"
proof -
  have "filter cmd_apply_all (settings_for ''mdll'') = filter (\<lambda>c. cmd_key c \<noteq> ''data_dest'') (settings_for ''mdll'')"
    by code_simp
  moreover have "filter cmd_apply_all (settings_for ''mcpd'') = filter (\<lambda>c. cmd_key c \<noteq> ''data_dest'') (settings_for ''mcpd'')"
    by code_simp
  moreover have "settings_for t = settings_for ''mcpd'' \<or> settings_for t = settings_for ''mdll''"
    by (simp add: settings_for_def)
  ultimately show "filter cmd_apply_all (settings_for t) = filter (\<lambda>c. cmd_key c \<noteq> ''data_dest'') (settings_for t)"
    by metis
  show "filter cmd_apply_all MPSD_SETTINGS = MPSD_SETTINGS" by code_simp
qed

lemma settings_shape_get:
  "settings_shape cs s \<Longrightarrow> c \<in> set cs \<Longrightarrow> \<exists>v. dict_get s (cmd_key c) = Some v \<and> dict_keys v = map arg_name (cmd_args c)"
  by (auto simp: settings_shape_def list_all_iff)

lemma submit_setting: "submit_command api d cfg c v None f ws = put_item d (setting_item api cfg (c, v, f)) ws"
  by (simp add: submit_command_def submit_eq_put_item)

lemma for_each_apply_setting:
  assumes "\<And>c. c \<in> set cs \<Longrightarrow> dict_get s (cmd_key c) \<noteq> None"
  shows "for_each (apply_setting api d cfg s fixed) cs ws =
     (fold (put_item d) (map (\<lambda>c. setting_item api cfg (c, the (dict_get s (cmd_key c)), fixed)) (filter cmd_apply_all cs)) ws,
      None)"
  using assms
proof (induction cs arbitrary: ws)
  case Nil
  then show ?case by simp
next
  case (Cons c cs)
  from Cons.prems [of c] obtain v where "dict_get s (cmd_key c) = Some v" by auto
  with Cons show ?case by (simp add: apply_setting_def submit_setting)
qed

definition bus_jobs :: "nat \<times> mpsd_config \<Rightarrow> (command \<times> arg_values \<times> arg_values) list" where
  "bus_jobs bm = map (\<lambda>c. (c, the (dict_get (mpsd_settings (snd bm)) (cmd_key c)), bus_fixed (fst bm))) MPSD_SETTINGS"

lemma apply_bus_eq:
  assumes "mpsd_ok (snd bm)"
  shows "apply_bus api d cfg bm ws =
     (fold (put_item d) (if present (snd bm) then map (setting_item api cfg) (bus_jobs bm) else []) ws, None)"
proof -
  have "dict_get (mpsd_settings (snd bm)) (cmd_key c) \<noteq> None" if "c \<in> set MPSD_SETTINGS" for c
    using settings_shape_get [OF _ that] assms by (auto simp: mpsd_ok_def)
  then show ?thesis
    by (simp add: apply_bus_def split_def for_each_apply_setting apply_all_tables bus_jobs_def comp_def)
qed

lemma for_each_apply_bus:
  assumes "\<And>bm. bm \<in> set bms \<Longrightarrow> mpsd_ok (snd bm)"
  shows "for_each (apply_bus api d cfg) bms ws =
     (fold (put_item d) (map (setting_item api cfg) (concat (map bus_jobs (filter (\<lambda>bm. present (snd bm)) bms)))) ws, None)"
  using assms by (induction bms arbitrary: ws) (simp_all add: apply_bus_eq)

lemma setting_jobs_eq:
  "setting_jobs cfg =
     map (\<lambda>c. (c, the (dict_get (settings cfg) (cmd_key c)), []))
       (filter cmd_apply_all (settings_for (device_type cfg)))
   @ concat (map bus_jobs (filter (\<lambda>bm. present (snd bm)) (enumerate 0 (mpsds cfg))))"
  by (simp add: setting_jobs_def apply_all_tables bus_jobs_def [abs_def] split_def)

lemma apply_settings_eq:
  assumes "device_ok cfg"
  shows "apply_settings api d cfg ws = (dw.put_all d (map (setting_item api cfg) (setting_jobs cfg)) ws, None)"
proof -
  have s: "dict_get (settings cfg) (cmd_key c) \<noteq> None" if "c \<in> set (settings_for (device_type cfg))" for c
    using settings_shape_get [OF _ that] assms by (auto simp: device_ok_def)
  have m: "mpsd_ok (snd bm)" if "bm \<in> set (enumerate 0 (mpsds cfg))" for bm
  proof -
    have "fst bm < length (mpsds cfg)" "mpsds cfg ! fst bm = snd bm"
      using that by (auto simp: in_set_enumerate_eq)
    then have "snd bm \<in> set (mpsds cfg)" by (metis nth_mem)
    then show ?thesis using assms by (simp add: device_ok_def list_all_iff)
  qed
  show ?thesis
    by (simp add: apply_settings_def for_each_apply_setting [OF s] for_each_apply_bus [OF m] setting_jobs_eq
        dw.put_all_def comp_def)
qed

section \<open>What the device receives\<close>

definition job_calls :: "command \<times> arg_values \<times> arg_values \<Rightarrow> call list" where
  "job_calls j = (case j of (c, v, f) \<Rightarrow> (case command_calls c v f of Inl _ \<Rightarrow> [] | Inr ms \<Rightarrow> ms))"

abbreviation quiet :: "(call \<Rightarrow> reply) \<Rightarrow> (net_event list, target) api" where
  "quiet ans \<equiv> recording_api (\<lambda>_ _. False) ans"

lemma setting_item_recording:
  "fst (it_job (setting_item (quiet ans) cfg j) w t) = w @ map (EvCall t) (job_calls j)"
  by (cases j) (auto simp: command_call_recording job_calls_def split: sum.splits)

lemma setting_item_target [simp]: "it_target (setting_item api cfg j) = target_of cfg"
  by (cases j) simp

definition connected :: "(net_event list, target, 's) dws \<Rightarrow> nat \<Rightarrow> target option" where
  "connected s d = (case dict_get (wrks s) d of None \<Rightarrow> None | Some wk \<Rightarrow> conn wk)"

definition tracked :: "(net_event list, target, 's) dws \<Rightarrow> nat \<Rightarrow> bool" where
  "tracked s d = (case dict_get (wrks s) d of None \<Rightarrow> True | Some wk \<Rightarrow> conn_tracked wk)"

lemma run_one_setting:
  assumes pend: "pending_items s d = setting_item (quiet ans) cfg j # its" and tr: "tracked s d"
  shows "net (run_one (quiet ans) d s) =
      net s @ connect_events (connected s d) (target_of cfg) @ map (EvCall (target_of cfg)) (job_calls j)"
    and "connected (run_one (quiet ans) d s) d = Some (target_of cfg)"
    and "tracked (run_one (quiet ans) d s) d"
    and "pending_items (run_one (quiet ans) d s) d = its"
proof -
  let ?it = "setting_item (quiet ans) cfg j" and ?t = "target_of cfg"
  obtain wk w' wk' ev where wk: "dict_get (wrks s) d = Some wk" "queue wk = ?it # its"
    and run: "worker_run (quiet ans) (net s) d (wk\<lparr>queue := its\<rparr>) ?it = (w', wk', ev)"
    and s': "run_one (quiet ans) d s = s\<lparr>net := w', wrks := dict_set d wk' (wrks s), gui_events := gui_events s @ [ev]\<rparr>"
    using run_one_busy [OF pend, of "quiet ans"] by blast
  have "conn_tracked (wk\<lparr>queue := its\<rparr>)" using tr wk(1) by (simp add: tracked_def conn_tracked_def)
  then obtain wk1 where c: "worker_connection (quiet ans) (net s) (wk\<lparr>queue := its\<rparr>) ?t =
      (net s @ connect_events (conn wk) ?t, wk1, Inr ?t)"
    and wk1: "conn wk1 = Some ?t" "conn_target wk1 = Some ?t"
    using worker_connection_recording [of "wk\<lparr>queue := its\<rparr>" "\<lambda>_ _. False" ans "net s" ?t] by auto
  have w': "w' = net s @ connect_events (conn wk) ?t @ map (EvCall ?t) (job_calls j)" and wk': "wk' = wk1"
    using run setting_item_recording [of ans cfg j "net s @ connect_events (conn wk) ?t" ?t]
    by (auto simp: worker_run_def c split: prod.splits sum.splits)
  show "net (run_one (quiet ans) d s) =
      net s @ connect_events (connected s d) ?t @ map (EvCall ?t) (job_calls j)"
    and "connected (run_one (quiet ans) d s) d = Some ?t"
    and "tracked (run_one (quiet ans) d s) d"
    using wk w' wk' wk1 by (simp_all add: s' connected_def tracked_def conn_tracked_def)
  show "pending_items (run_one (quiet ans) d s) d = its"
    using dw.step_busy [OF pend] by simp
qed

lemma connect_events_same [simp]: "connect_events (Some t) t = []"
  by (simp add: connect_events_def)

lemma run_settings_connected:
  assumes "pending_items s d = map (setting_item (quiet ans) cfg) js" and "tracked s d"
    and "connected s d = Some (target_of cfg)"
  shows "net (dw.steps (quiet ans) (replicate (length js) d) s) =
      net s @ map (EvCall (target_of cfg)) (concat (map job_calls js))"
  using assms
proof (induction js arbitrary: s)
  case Nil
  then show ?case by (simp add: dw.steps_def)
next
  case (Cons j js)
  then have pend: "pending_items s d = setting_item (quiet ans) cfg j # map (setting_item (quiet ans) cfg) js"
    by simp
  note one = run_one_setting [OF pend Cons.prems(2)]
  from Cons.IH [of "run_one (quiet ans) d s"] one Cons.prems(3) show ?case
    by (simp add: dw.steps_def)
qed

lemma run_settings:
  assumes "pending_items s d = map (setting_item (quiet ans) cfg) (j # js)" and "tracked s d"
  shows "net (dw.steps (quiet ans) (replicate (length (j # js)) d) s) =
      net s @ connect_events (connected s d) (target_of cfg)
        @ map (EvCall (target_of cfg)) (concat (map job_calls (j # js)))"
proof -
  have pend: "pending_items s d = setting_item (quiet ans) cfg j # map (setting_item (quiet ans) cfg) js"
    using assms(1) by simp
  note one = run_one_setting [OF pend assms(2)]
  from run_settings_connected [of "run_one (quiet ans) d s" d ans cfg js] one show ?thesis
    by (simp add: dw.steps_def)
qed

text \<open>The calls of one bus, and their effect on its gains.\<close>

definition to_bus :: "nat \<Rightarrow> call \<Rightarrow> bool" where
  "to_bus bus c \<longleftrightarrow> dict_get (call_kwargs c) ''mpsd_id'' = Some (PInt (int bus))"

lemma call_kwargs_of_shape:
  assumes "call_kwargs_of cmd vals fixed = Inr kw" and "args_distinct cmd fixed"
  shows "\<exists>xs. kw = fixed @ zip (map arg_name (cmd_args cmd)) xs \<and> length xs = length (cmd_args cmd)"
proof -
  let ?f = "\<lambda>a. bind_res (convert a (arg_value vals a)) (\<lambda>x. Inr (arg_name a, x))"
  obtain kws where t: "traverse ?f (cmd_args cmd) = Inr kws"
    and kw: "kw = dict_update fixed (dict_update [] kws)"
    using assms(1) by (auto simp: call_kwargs_of_def bind_res_Inr_iff)
  from t have l: "list_all2 (\<lambda>a p. ?f a = Inr p) (cmd_args cmd) kws"
    by (simp only: traverse_Inr_iff)
  have names: "map fst kws = map arg_name (cmd_args cmd)"
    using l by (induction rule: list_all2_induct) (auto simp: bind_res_Inr_iff)
  have "fst ` set kws = arg_name ` set (cmd_args cmd)"
    using names by (metis list.set_map)
  then have "kw = fixed @ kws"
    using assms(2) by (simp add: kw dict_update_map_new names args_distinct_def Int_commute)
  moreover have "kws = zip (map arg_name (cmd_args cmd)) (map snd kws)"
    by (simp add: names [symmetric] zip_map_fst_snd)
  moreover have "length (map snd kws) = length (cmd_args cmd)"
    using names by (metis length_map)
  ultimately show ?thesis by metis
qed

lemma job_calls_plain:
  assumes "cmd_caller c = None" and "args_distinct c f" and "m \<in> set (job_calls (c, v, f))"
  shows "\<exists>xs. m = Call (cmd_method c) [] (f @ zip (map arg_name (cmd_args c)) xs) \<and> length xs = length (cmd_args c)"
proof -
  obtain kw where kw: "call_kwargs_of c v f = Inr kw" "m = Call (cmd_method c) [] kw"
    using assms(1,3) by (auto simp: job_calls_def command_calls_def bind_res_def split: sum.splits)
  from call_kwargs_of_shape [OF kw(1) assms(2)] kw(2) show ?thesis by auto
qed

lemma bus_fixed_simps [simp]:
  "dict_keys (bus_fixed b) = [''mpsd_id'']"
  "dict_get (bus_fixed b) k = (if k = ''mpsd_id'' then Some (PInt (int b)) else None)"
  by (simp_all add: bus_fixed_def)

lemma dict_get_absent: "k \<notin> set names \<Longrightarrow> dict_get (zip names xs) k = None"
  by (auto simp: map_of_eq_None_iff dest: set_zip_leftD)

definition plain_setting :: "command \<Rightarrow> bool" where
  "plain_setting c \<longleftrightarrow> cmd_caller c = None \<and> distinct (map arg_name (cmd_args c))
     \<and> ''mpsd_id'' \<notin> set (map arg_name (cmd_args c)) \<and> ''channel'' \<notin> set (map arg_name (cmd_args c))"

lemma device_settings_plain:
  assumes "c \<in> set (filter cmd_apply_all (settings_for t))"
  shows "plain_setting c"
proof -
  have "list_all plain_setting (filter cmd_apply_all (settings_for ''mdll''))"
    and "list_all plain_setting (filter cmd_apply_all (settings_for ''mcpd''))" by code_simp+
  moreover have "settings_for t = settings_for ''mcpd'' \<or> settings_for t = settings_for ''mdll''"
    by (simp add: settings_for_def)
  ultimately show ?thesis using assms by (metis list_all_iff)
qed

lemma mpsd_settings_plain:
  "MPSD_SETTINGS = GainSetting # tl MPSD_SETTINGS" "c \<in> set (tl MPSD_SETTINGS) \<Longrightarrow> plain_setting c"
proof -
  show "MPSD_SETTINGS = GainSetting # tl MPSD_SETTINGS" by (simp add: MPSD_SETTINGS_def)
  have "list_all plain_setting (tl MPSD_SETTINGS)" by code_simp
  then show "c \<in> set (tl MPSD_SETTINGS) \<Longrightarrow> plain_setting c" by (simp add: list_all_iff)
qed

lemma device_job_not_to_bus:
  assumes "plain_setting c" and "m \<in> set (job_calls (c, v, []))"
  shows "\<not> to_bus b m"
proof -
  from assms(1) have "cmd_caller c = None" "args_distinct c []"
    by (simp_all add: plain_setting_def args_distinct_def)
  from job_calls_plain [OF this assms(2)] obtain xs
    where "m = Call (cmd_method c) [] ([] @ zip (map arg_name (cmd_args c)) xs)" by blast
  with assms(1) show ?thesis
    by (simp add: to_bus_def plain_setting_def dict_get_absent)
qed

lemma bus_job_plain:
  assumes "plain_setting c" and "m \<in> set (job_calls (c, v, bus_fixed b))"
  shows "to_bus b' m \<longleftrightarrow> b' = b" and "gain_effect gs m = gs"
proof -
  from assms(1) have "cmd_caller c = None" "args_distinct c (bus_fixed b)"
    by (simp_all add: plain_setting_def args_distinct_def)
  from job_calls_plain [OF this assms(2)] obtain xs
    where m: "m = Call (cmd_method c) [] (bus_fixed b @ zip (map arg_name (cmd_args c)) xs)" by blast
  show "to_bus b' m \<longleftrightarrow> b' = b"
    by (auto simp: m to_bus_def map_add_def split: option.splits)
  have "dict_get (call_kwargs m) ''channel'' = None"
    using assms(1) by (simp add: m plain_setting_def dict_get_absent map_add_def)
  then show "gain_effect gs m = gs" by (simp add: gain_effect_def)
qed

lemma foldl_no_effect: "(\<And>m gs. m \<in> set ms \<Longrightarrow> f gs m = gs) \<Longrightarrow> foldl f gs ms = gs"
  by (induction ms) auto

lemma gain_job:
  assumes "\<forall>a \<in> set (cmd_args GainSetting). arg_value_ok a (arg_value v a)"
  shows "\<forall>m \<in> set (job_calls (GainSetting, v, bus_fixed b)). to_bus b' m \<longleftrightarrow> b' = b"
    and "length gs = MpsdChannelCount \<Longrightarrow>
      foldl gain_effect gs (job_calls (GainSetting, v, bus_fixed b)) = map (gain_value v) [0..<MpsdChannelCount]"
proof -
  obtain cs where cs: "command_calls GainSetting v [(''mpsd_id'', PInt (int b))] = Inr cs"
    "\<forall>gs. length gs = MpsdChannelCount \<longrightarrow> foldl gain_effect gs cs = map (gain_value v) [0..<MpsdChannelCount]"
    "list_all (\<lambda>c. call_method c = ''mpsd_set_gain'' \<and> dict_get (call_kwargs c) ''mpsd_id'' = Some (PInt (int b))) cs"
    using gains_refinement [OF assms, of "PInt (int b)"] by blast
  have calls: "job_calls (GainSetting, v, bus_fixed b) = cs"
    using cs(1) by (simp add: job_calls_def bus_fixed_def)
  show "\<forall>m \<in> set (job_calls (GainSetting, v, bus_fixed b)). to_bus b' m \<longleftrightarrow> b' = b"
    using cs(3) unfolding calls to_bus_def list_all_iff by auto
  show "length gs = MpsdChannelCount \<Longrightarrow>
      foldl gain_effect gs (job_calls (GainSetting, v, bus_fixed b)) = map (gain_value v) [0..<MpsdChannelCount]"
    using cs(2) unfolding calls by blast
qed

text \<open>All calls of one bus.\<close>

lemma bus_jobs_cons:
  "bus_jobs (b, m) = (GainSetting, the (dict_get (mpsd_settings m) (cmd_key GainSetting)), bus_fixed b)
     # map (\<lambda>c. (c, the (dict_get (mpsd_settings m) (cmd_key c)), bus_fixed b)) (tl MPSD_SETTINGS)"
proof -
  let ?f = "\<lambda>c. (c, the (dict_get (mpsd_settings m) (cmd_key c)), bus_fixed b)"
  have "map ?f MPSD_SETTINGS = map ?f (GainSetting # tl MPSD_SETTINGS)"
    by (rule arg_cong [OF mpsd_settings_plain(1)])
  then show ?thesis by (simp add: bus_jobs_def)
qed

definition gains_allowed :: "mpsd_config \<Rightarrow> bool" where
  "gains_allowed m = list_all (\<lambda>a. arg_value_ok a (arg_value (the (dict_get (mpsd_settings m) ''gain'')) a))
     (cmd_args GainSetting)"

definition wanted_gain :: "mpsd_config \<Rightarrow> nat \<Rightarrow> int" where
  "wanted_gain m ch = gain_value (the (dict_get (mpsd_settings m) ''gain'')) ch"

lemma gain_setting_key [simp]: "cmd_key GainSetting = ''gain''"
  by (simp add: GainSetting_def)

lemma bus_calls:
  assumes "gains_allowed m"
  shows "\<forall>c \<in> set (concat (map job_calls (bus_jobs (b, m)))). to_bus b' c \<longleftrightarrow> b' = b"
    and "length gs = MpsdChannelCount \<Longrightarrow>
      foldl gain_effect gs (concat (map job_calls (bus_jobs (b, m)))) = map (wanted_gain m) [0..<MpsdChannelCount]"
proof -
  have ok: "\<forall>a \<in> set (cmd_args GainSetting). arg_value_ok a (arg_value (the (dict_get (mpsd_settings m) ''gain'')) a)"
    using assms by (simp add: gains_allowed_def list_all_iff)
  let ?rest = "concat (map job_calls (map (\<lambda>c. (c, the (dict_get (mpsd_settings m) (cmd_key c)), bus_fixed b)) (tl MPSD_SETTINGS)))"
  have rest: "\<forall>c \<in> set ?rest. (to_bus b' c \<longleftrightarrow> b' = b) \<and> (\<forall>gs. gain_effect gs c = gs)"
    using bus_job_plain [OF mpsd_settings_plain(2)] by auto
  note calls = bus_jobs_cons gain_setting_key list.map concat.simps
  show "\<forall>c \<in> set (concat (map job_calls (bus_jobs (b, m)))). to_bus b' c \<longleftrightarrow> b' = b"
    using rest gain_job(1) [OF ok] unfolding calls set_append by blast
  show "foldl gain_effect gs (concat (map job_calls (bus_jobs (b, m)))) = map (wanted_gain m) [0..<MpsdChannelCount]"
    if "length gs = MpsdChannelCount"
  proof -
    have "foldl gain_effect gs' ?rest = gs'" for gs'
      using rest by (intro foldl_no_effect) blast
    with gain_job(2) [OF ok that, of b] show ?thesis
      unfolding calls foldl_append by (simp add: wanted_gain_def [abs_def])
  qed
qed

lemma concat_map_concat_map: "concat (map g (concat (map f xs))) = concat (map (\<lambda>x. concat (map g (f x))) xs)"
  by (induction xs) simp_all

lemma filter_all_or_none:
  "(\<And>x. x \<in> set xs \<Longrightarrow> P x = q) \<Longrightarrow> filter P xs = (if q then xs else [])"
  by (induction xs) auto

lemma concat_one_index:
  "concat (map (\<lambda>bm. if fst bm = b then X bm else []) (filter P (enumerate n ms))) =
     (if n \<le> b \<and> b < n + length ms \<and> P (b, ms ! (b - n)) then X (b, ms ! (b - n)) else [])"
proof (induction ms arbitrary: n)
  case Nil
  show ?case by auto
next
  case (Cons m ms)
  show ?case
  proof (cases "b = n")
    case True
    with Cons [of "Suc n"] show ?thesis by simp
  next
    case False
    then have "n \<le> b \<longleftrightarrow> Suc n \<le> b" by auto
    moreover have "Suc n \<le> b \<Longrightarrow> (m # ms) ! (b - n) = ms ! (b - Suc n)"
      by (simp add: nth_Cons' Suc_diff_Suc)
    ultimately show ?thesis using Cons [of "Suc n"] False by auto
  qed
qed

text \<open>The calls that go to one bus, out of all that \<open>apply_settings\<close> makes.\<close>

lemma settings_to_bus:
  assumes "device_ok cfg" and "\<forall>m \<in> set (mpsds cfg). gains_allowed m"
  shows "filter (to_bus b) (concat (map job_calls (setting_jobs cfg))) =
     (if b < length (mpsds cfg) \<and> present (mpsds cfg ! b)
      then concat (map job_calls (bus_jobs (b, mpsds cfg ! b))) else [])"
proof -
  let ?dev = "map (\<lambda>c. (c, the (dict_get (settings cfg) (cmd_key c)), [])) (filter cmd_apply_all (settings_for (device_type cfg)))"
  let ?calls = "\<lambda>bm. concat (map job_calls (bus_jobs bm))"
  let ?bms = "filter (\<lambda>bm. present (snd bm)) (enumerate 0 (mpsds cfg))"
  have dev: "filter (to_bus b) (concat (map job_calls ?dev)) = []"
    using device_job_not_to_bus [OF device_settings_plain] by (auto simp: filter_empty_conv)
  have bus: "filter (to_bus b) (?calls bm) = (if fst bm = b then ?calls bm else [])" if "bm \<in> set ?bms" for bm
  proof -
    have "fst bm < length (mpsds cfg)" "mpsds cfg ! fst bm = snd bm"
      using that by (auto simp: in_set_enumerate_eq)
    then have "snd bm \<in> set (mpsds cfg)" by (metis nth_mem)
    with assms(2) have "gains_allowed (snd bm)" by simp
    from bus_calls(1) [OF this, of "fst bm" b] show ?thesis
      by (intro filter_all_or_none) auto
  qed
  have each: "map (\<lambda>bm. filter (to_bus b) (?calls bm)) ?bms = map (\<lambda>bm. if fst bm = b then ?calls bm else []) ?bms"
    using bus by (intro map_cong refl)
  have "filter (to_bus b) (concat (map ?calls ?bms)) = concat (map (filter (to_bus b)) (map ?calls ?bms))"
    by (rule filter_concat)
  also have "\<dots> = concat (map (\<lambda>bm. if fst bm = b then ?calls bm else []) ?bms)"
    by (simp only: map_map comp_def each)
  also have "\<dots> = (if b < length (mpsds cfg) \<and> present (mpsds cfg ! b) then ?calls (b, mpsds cfg ! b) else [])"
    by (simp add: concat_one_index)
  finally have busses: "filter (to_bus b) (concat (map ?calls ?bms)) =
      (if b < length (mpsds cfg) \<and> present (mpsds cfg ! b) then ?calls (b, mpsds cfg ! b) else [])" .
  have "concat (map job_calls (concat (map bus_jobs ?bms))) = concat (map ?calls ?bms)"
    by (rule concat_map_concat_map)
  then have "filter (to_bus b) (concat (map job_calls (setting_jobs cfg))) =
      filter (to_bus b) (concat (map job_calls ?dev)) @ filter (to_bus b) (concat (map ?calls ?bms))"
    by (simp only: setting_jobs_eq map_append concat_append filter_append)
  then show ?thesis by (simp only: dev busses append_Nil)
qed

lemma settings_methods:
  assumes "c \<in> set (filter cmd_apply_all (settings_for t)) \<union> set (tl MPSD_SETTINGS)"
  shows "cmd_method c \<noteq> ''set_ip_address_and_data_dest''"
proof -
  have "list_all (\<lambda>c. cmd_method c \<noteq> ''set_ip_address_and_data_dest'')
      (filter cmd_apply_all (settings_for ''mdll'') @ filter cmd_apply_all (settings_for ''mcpd'') @ tl MPSD_SETTINGS)"
    by code_simp
  moreover have "settings_for t = settings_for ''mcpd'' \<or> settings_for t = settings_for ''mdll''"
    by (simp add: settings_for_def)
  ultimately show ?thesis using assms by (auto simp: list_all_iff)
qed

lemma plain_job_method:
  assumes "plain_setting c" and "m \<in> set (job_calls (c, v, f))" and "f = [] \<or> f = bus_fixed b"
  shows "call_method m = cmd_method c"
proof -
  have "cmd_caller c = None" "args_distinct c f"
    using assms(1,3) by (auto simp: plain_setting_def args_distinct_def bus_fixed_def)
  from job_calls_plain [OF this assms(2)] show ?thesis by auto
qed

lemma setting_jobs_cases:
  assumes "j \<in> set (setting_jobs cfg)"
  shows "(\<exists>c v. c \<in> set (filter cmd_apply_all (settings_for (device_type cfg))) \<and> j = (c, v, []))
     \<or> (\<exists>bm c v. bm \<in> set (enumerate 0 (mpsds cfg)) \<and> c \<in> set MPSD_SETTINGS \<and> present (snd bm)
          \<and> v = the (dict_get (mpsd_settings (snd bm)) (cmd_key c)) \<and> j = (c, v, bus_fixed (fst bm)))"
proof -
  let ?bms = "filter (\<lambda>bm. present (snd bm)) (enumerate 0 (mpsds cfg))"
  from assms consider
      "j \<in> (\<lambda>c. (c, the (dict_get (settings cfg) (cmd_key c)), [])) ` set (filter cmd_apply_all (settings_for (device_type cfg)))"
    | bm where "bm \<in> set ?bms" "j \<in> set (bus_jobs bm)"
    unfolding setting_jobs_eq set_append Un_iff set_concat set_map by blast
  then show ?thesis
  proof cases
    case 1
    then show ?thesis by blast
  next
    case (2 bm)
    then have "bm \<in> set (enumerate 0 (mpsds cfg))" "present (snd bm)" by simp_all
    moreover from 2(2) obtain c where "c \<in> set MPSD_SETTINGS"
      "j = (c, the (dict_get (mpsd_settings (snd bm)) (cmd_key c)), bus_fixed (fst bm))"
      by (auto simp: bus_jobs_def)
    ultimately show ?thesis by blast
  qed
qed

lemma settings_never_set_data_dest:
  assumes "\<forall>m \<in> set (mpsds cfg). gains_allowed m" and "x \<in> set (concat (map job_calls (setting_jobs cfg)))"
  shows "call_method x \<noteq> ''set_ip_address_and_data_dest''"
proof -
  from assms(2) obtain j where j: "j \<in> set (setting_jobs cfg)" and x: "x \<in> set (job_calls j)" by auto
  from setting_jobs_cases [OF j] show ?thesis
  proof (elim disjE exE conjE)
    fix c v assume c: "c \<in> set (filter cmd_apply_all (settings_for (device_type cfg)))" and jv: "j = (c, v, [])"
    from plain_job_method [OF device_settings_plain [OF c], of x v "[]"] x jv settings_methods [of c "device_type cfg"] c
    show ?thesis by auto
  next
    fix bm c v
    assume bm: "bm \<in> set (enumerate 0 (mpsds cfg))" and c: "c \<in> set MPSD_SETTINGS"
      and v: "v = the (dict_get (mpsd_settings (snd bm)) (cmd_key c))" and jv: "j = (c, v, bus_fixed (fst bm))"
    show ?thesis
    proof (cases "c \<in> set (tl MPSD_SETTINGS)")
      case True
      from plain_job_method [OF mpsd_settings_plain(2) [OF True], of x v "bus_fixed (fst bm)" "fst bm"] x jv
        settings_methods [of c "device_type cfg"] True
      show ?thesis by auto
    next
      case False
      then have gain: "c = GainSetting" using c mpsd_settings_plain(1) by (metis set_ConsD)
      have "fst bm < length (mpsds cfg)" "mpsds cfg ! fst bm = snd bm"
        using bm by (auto simp: in_set_enumerate_eq)
      then have "gains_allowed (snd bm)" using assms(1) by (metis nth_mem)
      then have ok: "\<forall>a \<in> set (cmd_args GainSetting). arg_value_ok a (arg_value v a)"
        by (simp add: v gain gains_allowed_def list_all_iff)
      obtain ms where "command_calls GainSetting v [(''mpsd_id'', PInt (int (fst bm)))] = Inr ms"
        "list_all (\<lambda>c. call_method c = ''mpsd_set_gain'' \<and> dict_get (call_kwargs c) ''mpsd_id'' = Some (PInt (int (fst bm)))) ms"
        using gains_refinement [OF ok, of "PInt (int (fst bm))"] by blast
      then have "call_method x = ''mpsd_set_gain''"
        using x by (simp add: jv gain job_calls_def bus_fixed_def list_all_iff)
      then show ?thesis by simp
    qed
  qed
qed

lemma setting_jobs_nonempty: "setting_jobs cfg \<noteq> []"
proof -
  have "filter cmd_apply_all (settings_for ''mdll'') \<noteq> []" "filter cmd_apply_all (settings_for ''mcpd'') \<noteq> []"
    by code_simp+
  moreover have "settings_for (device_type cfg) = settings_for ''mcpd'' \<or> settings_for (device_type cfg) = settings_for ''mdll''"
    by (simp add: settings_for_def)
  ultimately have "filter cmd_apply_all (settings_for (device_type cfg)) \<noteq> []" by metis
  then show ?thesis by (simp add: setting_jobs_eq)
qed

lemma put_item_wrks:
  "net (put_item d it s) = net s"
  "connected (put_item d it s) d = connected s d"
  "tracked s d \<Longrightarrow> tracked (put_item d it s) d"
  by (auto simp: put_item_def Let_def connected_def tracked_def dict_get_setdefault dict_get_or_def
      new_worker_def conn_tracked_def split: option.splits)

lemma put_all_wrks:
  "net (dw.put_all d its s) = net s"
  "connected (dw.put_all d its s) d = connected s d"
  "tracked s d \<Longrightarrow> tracked (dw.put_all d its s) d"
  by (induction its arbitrary: s) (simp_all add: dw.put_all_def put_item_wrks)

lemma net_ok_tracked: "net_ok s \<Longrightarrow> tracked s d"
  by (auto simp: net_ok_def tracked_def worker_ok_def split: option.splits)

section \<open>Properties of \<open>apply_settings\<close>\<close>

text \<open>
  C9. Applying the settings of a device queues exactly one job per setting, in table order
  and then bus by bus: all settings of its type but the data destination, and the four MPSD
  settings of every present bus with that bus as fixed argument.  The jobs carry the values
  and the connection target of that moment; other devices' queues do not change, and no
  exception is raised.
\<close>

theorem apply_settings_exact:
  assumes "device_ok cfg"
  shows "\<exists>ws'. apply_settings api d cfg ws = (ws', None)
     \<and> (\<forall>d'. pending_items ws' d' =
          (if d' = d then pending_items ws d @ map (setting_item api cfg) (setting_jobs cfg) else pending_items ws d'))
     \<and> (\<forall>d'. finished_labels ws' d' = finished_labels ws d')"
  using apply_settings_eq [OF assms, of api d ws] by (simp add: dw.pending_put_all dw.done_put_all)

theorem apply_settings_exact_witness:
  "\<exists>ws'. apply_settings (quiet (\<lambda>_. RNone)) 4 sample_mcpd (new_workers []) = (ws', None)
     \<and> length (pending_items ws' 4) = length (setting_jobs sample_mcpd) \<and> pending_items ws' 5 = []"
proof -
  have "device_ok sample_mcpd" by code_simp
  from apply_settings_exact [OF this, of "quiet (\<lambda>_. RNone)" 4 "new_workers []"] show ?thesis by fastforce
qed

text \<open>
  C10. Applying the settings configures the device: when the thread of an otherwise idle
  device has run the queued jobs on a network without failures, all calls went to the
  device's target over one connection, every present bus has the eight configured gains
  whatever they were before, no call at all was made for an absent bus, and the data
  destination was not touched.
\<close>

theorem apply_settings_configures:
  assumes "device_ok cfg" and "\<forall>m \<in> set (mpsds cfg). gains_allowed m"
    and "net_ok s" and "pending_items s d = []"
  shows "\<exists>ws' ms. apply_settings (quiet ans) d cfg s = (ws', None)
     \<and> net (run_schedule (quiet ans) (replicate (pending_count ws' d) d) ws') =
         net s @ connect_events (connected s d) (target_of cfg) @ map (EvCall (target_of cfg)) ms
     \<and> (\<forall>b < length (mpsds cfg). \<forall>gs. length gs = MpsdChannelCount \<longrightarrow> present (mpsds cfg ! b) \<longrightarrow>
          foldl gain_effect gs (filter (to_bus b) ms) = map (wanted_gain (mpsds cfg ! b)) [0..<MpsdChannelCount])
     \<and> (\<forall>b. b < length (mpsds cfg) \<and> present (mpsds cfg ! b) \<or> filter (to_bus b) ms = [])
     \<and> (\<forall>m \<in> set ms. call_method m \<noteq> ''set_ip_address_and_data_dest'')"
proof -
  let ?its = "map (setting_item (quiet ans) cfg) (setting_jobs cfg)"
  let ?ws = "dw.put_all d ?its s"
  let ?ms = "concat (map job_calls (setting_jobs cfg))"
  obtain j js where jobs: "setting_jobs cfg = j # js"
    using setting_jobs_nonempty by (cases "setting_jobs cfg") auto
  have pend: "pending_items ?ws d = map (setting_item (quiet ans) cfg) (j # js)"
    using assms(4) by (simp add: dw.pending_put_all jobs)
  have len: "pending_count ?ws d = length (j # js)" by (simp add: pending_count_eq pend)
  have "tracked ?ws d" using net_ok_tracked [OF assms(3)] by (rule put_all_wrks)
  from run_settings [OF pend this]
  have net: "net (run_schedule (quiet ans) (replicate (pending_count ?ws d) d) ?ws) =
      net s @ connect_events (connected s d) (target_of cfg) @ map (EvCall (target_of cfg)) ?ms"
    by (simp only: run_schedule_eq_steps len [unfolded jobs] put_all_wrks(1,2) jobs)
  have gains: "foldl gain_effect gs (filter (to_bus b) ?ms) = map (wanted_gain (mpsds cfg ! b)) [0..<MpsdChannelCount]"
    if "b < length (mpsds cfg)" "present (mpsds cfg ! b)" "length gs = MpsdChannelCount" for b gs
    using that assms(2) bus_calls(2) [of "mpsds cfg ! b" gs b] by (simp only: settings_to_bus [OF assms(1,2)]) simp
  have absent: "b < length (mpsds cfg) \<and> present (mpsds cfg ! b) \<or> filter (to_bus b) ?ms = []" for b
    unfolding settings_to_bus [OF assms(1,2)] by presburger
  have dest: "\<forall>m \<in> set ?ms. call_method m \<noteq> ''set_ip_address_and_data_dest''"
    using settings_never_set_data_dest [OF assms(2)] by blast
  show ?thesis
    using apply_settings_eq [OF assms(1), of "quiet ans" d s] net gains absent dest
    by (intro exI [of _ ?ws] exI [of _ ?ms] conjI) blast+
qed

definition scanned_mcpd :: device_config where
  "scanned_mcpd = fst (update_present_mpsds sample_mcpd [] (RInts [0, 17, 0, 0, 0, 0, 0, 0]))"

theorem apply_settings_configures_witness:
  "\<exists>ws' ms. apply_settings (quiet (\<lambda>_. RNone)) 0 scanned_mcpd (new_workers []) = (ws', None)
     \<and> net (run_schedule (quiet (\<lambda>_. RNone)) (replicate (pending_count ws' 0) 0) ws') =
         EvOpen (''10.0.0.2'', 3, 54321) # map (EvCall (''10.0.0.2'', 3, 54321)) ms
     \<and> foldl gain_effect [1, 2, 3, 4, 5, 6, 7, 8] (filter (to_bus 1) ms) = [0, 0, 0, 0, 0, 0, 0, 0]
     \<and> filter (to_bus 2) ms = []"
proof -
  have ok: "device_ok scanned_mcpd" by code_simp
  have "list_all gains_allowed (mpsds scanned_mcpd)" by code_simp
  then have gains: "\<forall>m \<in> set (mpsds scanned_mcpd). gains_allowed m" by (simp only: list_all_iff)
  have tgt: "target_of scanned_mcpd = (''10.0.0.2'', 3, 54321)" by code_simp
  have len: "1 < length (mpsds scanned_mcpd)" "present (mpsds scanned_mcpd ! 1)" "\<not> present (mpsds scanned_mcpd ! 2)"
    by code_simp+
  have zero: "map (wanted_gain (mpsds scanned_mcpd ! 1)) [0..<MpsdChannelCount] = [0, 0, 0, 0, 0, 0, 0, 0]"
    by code_simp
  have eight: "length [1, 2, 3, 4, 5, 6, 7, 8 :: int] = MpsdChannelCount" by code_simp
  let ?s = "new_workers [] :: (net_event list, target) gui_workers"
  have conn: "connected ?s 0 = None" "net ?s = []"
    by (simp_all add: connected_def new_workers_def)
  obtain ws' ms where r: "apply_settings (quiet (\<lambda>_. RNone)) 0 scanned_mcpd ?s = (ws', None)"
    "net (run_schedule (quiet (\<lambda>_. RNone)) (replicate (pending_count ws' 0) 0) ws') =
       net ?s @ connect_events (connected ?s 0) (target_of scanned_mcpd)
         @ map (EvCall (target_of scanned_mcpd)) ms"
    "\<forall>b < length (mpsds scanned_mcpd). \<forall>gs. length gs = MpsdChannelCount \<longrightarrow> present (mpsds scanned_mcpd ! b) \<longrightarrow>
       foldl gain_effect gs (filter (to_bus b) ms) = map (wanted_gain (mpsds scanned_mcpd ! b)) [0..<MpsdChannelCount]"
    "\<forall>b. b < length (mpsds scanned_mcpd) \<and> present (mpsds scanned_mcpd ! b) \<or> filter (to_bus b) ms = []"
    using apply_settings_configures [OF ok gains net_ok_new new_workers_simps(1), of "\<lambda>_. RNone" 0]
    by (elim exE conjE) (rule that; assumption)
  have "foldl gain_effect [1, 2, 3, 4, 5, 6, 7, 8] (filter (to_bus 1) ms) = map (wanted_gain (mpsds scanned_mcpd ! 1)) [0..<MpsdChannelCount]"
    using r(3) len(1,2) eight by blast
  then have "foldl gain_effect [1, 2, 3, 4, 5, 6, 7, 8] (filter (to_bus 1) ms) = [0, 0, 0, 0, 0, 0, 0, 0]"
    by (simp only: zero)
  moreover have "filter (to_bus 2) ms = []" using r(4) len(3) by blast
  moreover note r(2) [unfolded conn tgt connect_events_def option.case append_Nil append_Cons]
  ultimately show ?thesis using r(1) by blast
qed

end
