(* ===== verification/Pulser_Test.thy ===== *)
theory Pulser_Test
  imports Device_Panel_Facts
begin

text \<open>
  \<open>src/gui/pulser_test.py\<close>: the pulser test as a state machine over the slots \<open>start\<close>,
  \<open>stop\<close>, \<open>all_off\<close>, \<open>_next_step\<close> (the timer) and \<open>_on_finished\<close> (a command finished).

  A slot returns the new state and the jobs it submits, in order (\<open>psub\<close>: device, label and
  the one method call of the job); \<open>submit_all\<close> hands them to the device workers.  The
  panel \<open>PulserTestPanel\<close> is its status label and its three buttons.  \<open>h\<close> and \<open>devs\<close> are the
  configurations and the devices of the setup at the time of the call.
\<close>

section \<open>State\<close>

datatype psub = PSub (ps_dev: nat) (ps_label: string) (ps_call: call)

definition LabelPrefix :: string where
  "LabelPrefix = ''pulser_test:''"

definition OffLabel :: string where
  "OffLabel = LabelPrefix @ ''off''"

definition MinDwell_ms :: int where
  "MinDwell_ms = 250"

definition Positions :: "string list" where
  "Positions = [''Left'', ''Right'', ''Center'']"

text \<open>
  \<open>pu_timer\<close> is the interval of the single-shot timer while it is active.  The last four
  fields are the panel's.
\<close>

record pulser =
  pu_amplitudes :: "int list"
  pu_dwell_ms :: int
  pu_steps :: "(nat \<times> string \<times> nat) list"
  pu_step_label :: string
  pu_generation :: nat
  pu_step :: nat
  pu_cycle :: nat
  pu_pending :: nat
  pu_running :: bool
  pu_touched :: "((nat \<times> nat), (nat \<times> nat)) dict"
  pu_timer :: "int option"
  pu_status :: string
  pu_start_enabled :: bool
  pu_stop_enabled :: bool
  pu_all_off_enabled :: bool

text \<open>\<open>_update_buttons\<close>\<close>

definition update_buttons :: "pulser \<Rightarrow> pulser" where
  "update_buttons p =
     p\<lparr>pu_start_enabled := \<not> pu_running p, pu_stop_enabled := pu_running p,
       pu_all_off_enabled := \<not> pu_running p\<rparr>"

definition new_pulser :: pulser where
  "new_pulser = update_buttons
     \<lparr>pu_amplitudes = [50, 90], pu_dwell_ms = MinDwell_ms, pu_steps = [], pu_step_label = [],
      pu_generation = 0, pu_step = 0, pu_cycle = 0, pu_pending = 0, pu_running = False, pu_touched = [],
      pu_timer = None, pu_status = [], pu_start_enabled = True, pu_stop_enabled = True, pu_all_off_enabled = True\<rparr>"

text \<open>\<open>_status\<close> with the panel's \<open>_on_status\<close>\<close>

definition set_status :: "string \<Rightarrow> pulser \<Rightarrow> pulser" where
  "set_status s p = update_buttons (p\<lparr>pu_status := s\<rparr>)"

section \<open>Slots\<close>

definition device_targets :: "(nat \<Rightarrow> device_config) \<Rightarrow> nat \<Rightarrow> (nat \<times> nat) list" where
  "device_targets h d =
     (if enabled (h d) \<and> device_type (h d) = ''mcpd''
      then map (\<lambda>(bus, m). (d, bus)) (filter (\<lambda>(bus, m). present m) (enumerate 0 (mpsds (h d))))
      else [])"

definition targets :: "(nat \<Rightarrow> device_config) \<Rightarrow> nat list \<Rightarrow> (nat \<times> nat) list" where
  "targets h devs = concat (map (device_targets h) devs)"

definition on_call :: "nat \<Rightarrow> nat \<Rightarrow> string \<Rightarrow> int \<Rightarrow> call" where
  "on_call bus channel position amplitude =
     Call ''mpsd_set_pulser''
       [PInt (int bus), PInt (int channel), PEnum ChannelPosition position, PInt amplitude, PEnum PulserState ''On''] []"

definition off_call :: "nat \<Rightarrow> call" where
  "off_call bus =
     Call ''mpsd_set_pulser''
       [PInt (int bus), PInt 0, PEnum ChannelPosition ''Center'', PInt 0, PEnum PulserState ''Off''] []"

definition submit_off :: "string \<Rightarrow> nat \<times> nat \<Rightarrow> psub" where
  "submit_off label t = PSub (fst t) (label @ ''(bus='' @ show_nat (snd t) @ '')'') (off_call (snd t))"

definition stop :: "pulser \<Rightarrow> pulser \<times> psub list" where
  "stop p =
     (if \<not> pu_running p then (p, [])
      else
        (set_status ''stopped'' (p\<lparr>pu_running := False, pu_timer := None, pu_touched := []\<rparr>),
         map (\<lambda>(k, t). submit_off OffLabel t) (pu_touched p)))"

definition all_off :: "(nat \<Rightarrow> device_config) \<Rightarrow> nat list \<Rightarrow> psub list" where
  "all_off h devs = map (submit_off ''pulser_off'') (targets h devs)"

text \<open>The message of \<open>_next_step\<close>, with the cycle and step before they advance.\<close>

definition step_status :: "pulser \<Rightarrow> nat \<Rightarrow> string \<Rightarrow> int \<Rightarrow> nat \<Rightarrow> string" where
  "step_status p channel position amplitude n =
     ''cycle '' @ show_nat (pu_cycle p) @ '', step '' @ show_nat (pu_step p + 1) @ ''/''
     @ show_nat (length (pu_steps p)) @ '': channel='' @ show_nat channel @ '', position='' @ position
     @ '', amplitude='' @ show_int amplitude @ '', mpsds='' @ show_nat n"

text \<open>
  \<open>_next_step\<close>.  The list accesses \<open>_steps[_step]\<close> and \<open>amplitudes[amp_index]\<close> raise out of
  range, before anything is changed.
\<close>

definition next_step ::
  "(nat \<Rightarrow> device_config) \<Rightarrow> nat list \<Rightarrow> pulser \<Rightarrow> (pulser \<times> psub list) \<times> exc option" where
  "next_step h devs p =
     (if \<not> pu_running p then ((p, []), None)
      else
        (let ts = targets h devs in
         if ts = [] then (stop p, None)
         else if \<not> pu_step p < length (pu_steps p) then ((p, []), Some IndexError)
         else
           (case pu_steps p ! pu_step p of
              (channel, position, amp_index) \<Rightarrow>
                if \<not> amp_index < length (pu_amplitudes p) then ((p, []), Some IndexError)
                else
                  (let amplitude = pu_amplitudes p ! amp_index;
                       p1 = p\<lparr>pu_pending := length ts,
                              pu_touched := fold (\<lambda>t. dict_set t t) ts (pu_touched p)\<rparr>;
                       p2 = set_status (step_status p1 channel position amplitude (length ts)) p1;
                       n = pu_step p2 + 1;
                       p3 = (if n = length (pu_steps p2)
                             then p2\<lparr>pu_step := 0, pu_cycle := pu_cycle p2 + 1\<rparr>
                             else p2\<lparr>pu_step := n\<rparr>)
                   in ((p3, map (\<lambda>(d, bus). PSub d (pu_step_label p) (on_call bus channel position amplitude)) ts),
                       None)))))"

text \<open>\<open>itertools.product(range(MpsdChannelCount), Positions, range(len(self.amplitudes)))\<close>\<close>

definition all_steps :: "int list \<Rightarrow> (nat \<times> string \<times> nat) list" where
  "all_steps amps =
     List.product [0..<MpsdChannelCount] (List.product Positions [0..<length amps])"

definition step_label :: "nat \<Rightarrow> string" where
  "step_label generation = LabelPrefix @ ''step#'' @ show_nat generation"

text \<open>\<open>start\<close>: the state, the jobs, and the value returned.\<close>

definition start ::
  "(nat \<Rightarrow> device_config) \<Rightarrow> nat list \<Rightarrow> pulser \<Rightarrow> (pulser \<times> psub list) \<times> bool res" where
  "start h devs p =
     (if pu_running p then ((p, []), Inr True)
      else if targets h devs = [] then ((p, []), Inr False)
      else
        (let p1 = p\<lparr>pu_steps := all_steps (pu_amplitudes p), pu_generation := pu_generation p + 1,
                    pu_step_label := step_label (pu_generation p + 1), pu_step := 0, pu_cycle := 0,
                    pu_pending := 0, pu_touched := [], pu_running := True\<rparr>
         in case next_step h devs p1 of
              (r, None) \<Rightarrow> (r, Inr True)
            | (r, Some e) \<Rightarrow> (r, Inl e)))"

definition on_finished :: "string \<Rightarrow> pulser \<Rightarrow> pulser" where
  "on_finished label p =
     (if label \<noteq> pu_step_label p \<or> pu_pending p = 0 then p
      else
        (let p1 = p\<lparr>pu_pending := pu_pending p - 1\<rparr>
         in if pu_pending p1 = 0 \<and> pu_running p1
            then p1\<lparr>pu_timer := Some (max (pu_dwell_ms p1) MinDwell_ms)\<rparr> else p1))"

text \<open>The single-shot timer expires.\<close>

definition on_timeout ::
  "(nat \<Rightarrow> device_config) \<Rightarrow> nat list \<Rightarrow> pulser \<Rightarrow> (pulser \<times> psub list) \<times> exc option" where
  "on_timeout h devs p =
     (case pu_timer p of
        None \<Rightarrow> ((p, []), None)
      | Some _ \<Rightarrow> next_step h devs (p\<lparr>pu_timer := None\<rparr>))"

section \<open>The panel\<close>

definition apply_params :: "int \<Rightarrow> int \<Rightarrow> int \<Rightarrow> pulser \<Rightarrow> pulser" where
  "apply_params amplitude0 amplitude1 dwell_ms p =
     p\<lparr>pu_amplitudes := [amplitude0, amplitude1], pu_dwell_ms := dwell_ms\<rparr>"

definition panel_start ::
  "int \<Rightarrow> int \<Rightarrow> int \<Rightarrow> (nat \<Rightarrow> device_config) \<Rightarrow> nat list \<Rightarrow> pulser \<Rightarrow> (pulser \<times> psub list) \<times> exc option" where
  "panel_start a0 a1 dwell h devs p =
     (case start h devs (apply_params a0 a1 dwell p) of
        ((p1, subs), Inr _) \<Rightarrow> ((update_buttons p1, subs), None)
      | ((p1, subs), Inl e) \<Rightarrow> ((p1, subs), Some e))"

definition panel_stop :: "pulser \<Rightarrow> pulser \<times> psub list" where
  "panel_stop p = (case stop p of (p1, subs) \<Rightarrow> (update_buttons p1, subs))"

section \<open>Submitting to the workers\<close>

definition submit_psub ::
  "('w, 'c) api \<Rightarrow> (nat \<Rightarrow> device_config) \<Rightarrow> psub \<Rightarrow> ('w, 'c) gui_workers \<Rightarrow> ('w, 'c) gui_workers" where
  "submit_psub api h s ws =
     submit (ps_dev s) (h (ps_dev s)) (ps_label s) (\<lambda>w c. api_call api w c (ps_call s)) None ws"

definition submit_all ::
  "('w, 'c) api \<Rightarrow> (nat \<Rightarrow> device_config) \<Rightarrow> psub list \<Rightarrow> ('w, 'c) gui_workers \<Rightarrow> ('w, 'c) gui_workers" where
  "submit_all api h subs ws = fold (submit_psub api h) subs ws"

section \<open>Facts\<close>

lemma update_buttons_simps [simp]:
  "pu_running (update_buttons p) = pu_running p" "pu_pending (update_buttons p) = pu_pending p"
  "pu_touched (update_buttons p) = pu_touched p" "pu_step (update_buttons p) = pu_step p"
  "pu_steps (update_buttons p) = pu_steps p" "pu_cycle (update_buttons p) = pu_cycle p"
  "pu_timer (update_buttons p) = pu_timer p" "pu_step_label (update_buttons p) = pu_step_label p"
  "pu_generation (update_buttons p) = pu_generation p" "pu_amplitudes (update_buttons p) = pu_amplitudes p"
  "pu_dwell_ms (update_buttons p) = pu_dwell_ms p" "pu_status (update_buttons p) = pu_status p"
  by (simp_all add: update_buttons_def)

lemma set_status_simps [simp]:
  "pu_running (set_status t p) = pu_running p" "pu_pending (set_status t p) = pu_pending p"
  "pu_touched (set_status t p) = pu_touched p" "pu_step (set_status t p) = pu_step p"
  "pu_steps (set_status t p) = pu_steps p" "pu_cycle (set_status t p) = pu_cycle p"
  "pu_timer (set_status t p) = pu_timer p" "pu_step_label (set_status t p) = pu_step_label p"
  "pu_generation (set_status t p) = pu_generation p" "pu_amplitudes (set_status t p) = pu_amplitudes p"
  "pu_dwell_ms (set_status t p) = pu_dwell_ms p"
  by (simp_all add: set_status_def)

lemma length_all_steps: "length (all_steps amps) = 24 * length amps"
  by (simp add: all_steps_def Positions_def MpsdChannelCount_def length_product)

lemma set_all_steps:
  "set (all_steps amps) = {(ch, pos, a). ch < MpsdChannelCount \<and> pos \<in> set Positions \<and> a < length amps}"
  by (auto simp: all_steps_def set_product)

lemma distinct_all_steps: "distinct (all_steps amps)"
  unfolding all_steps_def by (intro distinct_product) (simp_all add: Positions_def)

end
