(* ===== verification/Qt.thy ===== *)
theory Qt
  imports Cli_Readout
begin

text \<open>
  What the sources use of Qt, as data: widgets with the properties that the program sets and
  reads, layouts as trees of widget names, connections of signals to slots.  A widget's name is
  the attribute that holds it.  The behaviour is Qt's documented one: a spin box keeps its value
  in its range, and a change of a property is signalled when the property really changes.
\<close>

datatype wkind = WButton | WCheckBox | WSpinBox | WLineEdit | WLabel | WTable | WTree | WComboBox | WText | WOther

record widget =
  wd_kind :: wkind
  wd_text :: string
  wd_tip :: string
  wd_hint :: string
  wd_enabled :: bool
  wd_checked :: bool
  wd_value :: int
  wd_range :: "int \<times> int"

definition plain_widget :: "wkind \<Rightarrow> string \<Rightarrow> widget" where
  "plain_widget k t =
     \<lparr>wd_kind = k, wd_text = t, wd_tip = [], wd_hint = [], wd_enabled = True, wd_checked = False, wd_value = 0,
      wd_range = (0, 99)\<rparr>"

definition push_button :: "string \<Rightarrow> widget" where
  "push_button t = plain_widget WButton t"

definition with_tip :: "string \<Rightarrow> widget \<Rightarrow> widget" where
  "with_tip t w = w\<lparr>wd_tip := t\<rparr>"

definition check_box :: "string \<Rightarrow> bool \<Rightarrow> widget" where
  "check_box t b = (plain_widget WCheckBox t)\<lparr>wd_checked := b\<rparr>"

definition spin_box :: "int \<Rightarrow> int \<Rightarrow> widget" where
  "spin_box lo hi = (plain_widget WSpinBox [])\<lparr>wd_range := (lo, hi), wd_value := lo\<rparr>"

definition line_edit :: "string \<Rightarrow> widget" where
  "line_edit hint = (plain_widget WLineEdit [])\<lparr>wd_hint := hint\<rparr>"

definition label_widget :: "string \<Rightarrow> widget" where
  "label_widget t = plain_widget WLabel t"

type_synonym widgets = "(string, widget) dict"

text \<open>\<open>w.setEnabled(b)\<close> and the like; an attribute that is not there would raise, which the code never does.\<close>

definition set_enabled :: "string \<Rightarrow> bool \<Rightarrow> widgets \<Rightarrow> widgets" where
  "set_enabled n b ws = dict.modify n (\<lambda>w. w\<lparr>wd_enabled := b\<rparr>) ws"

definition set_text :: "string \<Rightarrow> string \<Rightarrow> widgets \<Rightarrow> widgets" where
  "set_text n t ws = dict.modify n (\<lambda>w. w\<lparr>wd_text := t\<rparr>) ws"

definition set_checked :: "string \<Rightarrow> bool \<Rightarrow> widgets \<Rightarrow> widgets" where
  "set_checked n b ws = dict.modify n (\<lambda>w. w\<lparr>wd_checked := b\<rparr>) ws"

definition clamp :: "int \<times> int \<Rightarrow> int \<Rightarrow> int" where
  "clamp r v = max (fst r) (min v (snd r))"

definition set_spin :: "string \<Rightarrow> int \<Rightarrow> widgets \<Rightarrow> widgets" where
  "set_spin n v ws = dict.modify n (\<lambda>w. w\<lparr>wd_value := clamp (wd_range w) v\<rparr>) ws"

definition is_enabled :: "widgets \<Rightarrow> string \<Rightarrow> bool" where
  "is_enabled ws n = (case dict_get ws n of Some w \<Rightarrow> wd_enabled w | None \<Rightarrow> False)"

definition is_checked :: "widgets \<Rightarrow> string \<Rightarrow> bool" where
  "is_checked ws n = (case dict_get ws n of Some w \<Rightarrow> wd_checked w | None \<Rightarrow> False)"

definition spin_value :: "widgets \<Rightarrow> string \<Rightarrow> int" where
  "spin_value ws n = (case dict_get ws n of Some w \<Rightarrow> wd_value w | None \<Rightarrow> 0)"

definition widget_text :: "widgets \<Rightarrow> string \<Rightarrow> string" where
  "widget_text ws n = (case dict_get ws n of Some w \<Rightarrow> wd_text w | None \<Rightarrow> [])"

text \<open>Layouts, and the widgets they show from first to last.\<close>

datatype layout =
    Place string
  | Hor "layout list"
  | Ver "layout list"
  | Rows "(string \<times> layout) list"
  | Cells "(string \<times> nat \<times> nat) list"
  | Splitter "(layout \<times> nat) list"
  | Pages "layout list"
  | Stretch

fun placed :: "layout \<Rightarrow> string list" where
  "placed (Place n) = [n]"
| "placed (Hor ls) = concat (map placed ls)"
| "placed (Ver ls) = concat (map placed ls)"
| "placed (Rows rs) = concat (map (\<lambda>(t, l). placed l) rs)"
| "placed (Cells cs) = map fst cs"
| "placed (Splitter ls) = concat (map (\<lambda>(l, f). placed l) ls)"
| "placed (Pages ls) = concat (map placed ls)"
| "placed Stretch = []"

text \<open>Connections: sender, signal, slot.\<close>

type_synonym connection_list = "(string \<times> string \<times> string) list"

definition slots_of :: "connection_list \<Rightarrow> string \<Rightarrow> string \<Rightarrow> string list" where
  "slots_of cs sender signal = map (\<lambda>(s, g, t). t) (filter (\<lambda>(s, g, t). s = sender \<and> g = signal) cs)"

section \<open>Fixed-point formatting\<close>

text \<open>\<open>f"{x:.kf}"\<close>: rounded to the nearest, ties to even.\<close>

definition round_half_even :: "rat \<Rightarrow> int" where
  "round_half_even x =
     (let f = \<lfloor>x\<rfloor>; d = x - of_int f in
      if d < 1 / 2 then f else if 1 / 2 < d then f + 1 else if even f then f else f + 1)"

definition fmt_fixed :: "nat \<Rightarrow> rat \<Rightarrow> string" where
  "fmt_fixed k x =
     (let n = round_half_even (\<bar>x\<bar> * 10 ^ k) in
      (if x < 0 then ''-'' else []) @ show_int (n div 10 ^ k)
      @ (if k = 0 then [] else ''.'' @ zero_pad k (show_int (n mod 10 ^ k))))"

lemma round_half_even_near: "\<bar>of_int (round_half_even x) - x\<bar> \<le> 1 / 2"
proof -
  have near: "\<bar>of_int (if d < 1 / 2 then f else if 1 / 2 < d then f + 1 else if even f then f else f + 1) - x\<bar> \<le> 1 / 2"
    if "x = of_int f + d" "0 \<le> d" "d < 1" for f :: int and d :: rat
    using that by auto
  have "0 \<le> x - of_int \<lfloor>x\<rfloor>" "x - of_int \<lfloor>x\<rfloor> < 1" by linarith+
  from near [OF _ this] show ?thesis by (simp add: round_half_even_def Let_def)
qed

text \<open>The operations change their widget and no other.\<close>

named_theorems qt_simps \<open>properties of widgets after an operation\<close>

lemma is_enabled_simps [simp, qt_simps]:
  "is_enabled (set_enabled n b ws) m = (if n = m \<and> dict_get ws n \<noteq> None then b else is_enabled ws m)"
  "is_enabled (set_text n t ws) m = is_enabled ws m"
  "is_enabled (set_checked n b ws) m = is_enabled ws m"
  "is_enabled (set_spin n v ws) m = is_enabled ws m"
  by (auto simp: is_enabled_def set_enabled_def set_text_def set_checked_def set_spin_def dict.lookup_modify
      split: option.splits)

lemma spin_value_simps [simp, qt_simps]:
  "spin_value (set_enabled n b ws) m = spin_value ws m"
  "spin_value (set_text n t ws) m = spin_value ws m"
  "spin_value (set_checked n b ws) m = spin_value ws m"
  by (auto simp: spin_value_def set_enabled_def set_text_def set_checked_def set_spin_def dict.lookup_modify
      split: option.splits)

lemma is_checked_simps [simp, qt_simps]:
  "is_checked (set_enabled n b ws) m = is_checked ws m"
  "is_checked (set_text n t ws) m = is_checked ws m"
  "is_checked (set_spin n v ws) m = is_checked ws m"
  by (auto simp: is_checked_def set_enabled_def set_text_def set_checked_def set_spin_def dict.lookup_modify
      split: option.splits)

lemma widget_text_simps [simp, qt_simps]:
  "widget_text (set_enabled n b ws) m = widget_text ws m"
  "widget_text (set_text n t ws) m = (if n = m \<and> dict_get ws n \<noteq> None then t else widget_text ws m)"
  "widget_text (set_checked n b ws) m = widget_text ws m"
  "widget_text (set_spin n v ws) m = widget_text ws m"
  by (auto simp: widget_text_def set_enabled_def set_text_def set_checked_def set_spin_def dict.lookup_modify
      split: option.splits)

definition has_widget :: "widgets \<Rightarrow> string \<Rightarrow> bool" where
  "has_widget ws n = (dict_get ws n \<noteq> None)"

lemma has_widget_simps [simp, qt_simps]:
  "has_widget (set_enabled n b ws) m = has_widget ws m"
  "has_widget (set_text n t ws) m = has_widget ws m"
  "has_widget (set_checked n b ws) m = has_widget ws m"
  "has_widget (set_spin n v ws) m = has_widget ws m"
  by (auto simp: has_widget_def set_enabled_def set_text_def set_checked_def set_spin_def dict.lookup_modify
      split: option.splits)

lemma is_enabled_set [qt_simps]:
  "is_enabled (set_enabled n b ws) m = (if n = m \<and> has_widget ws n then b else is_enabled ws m)"
  by (simp add: has_widget_def)

end
