(* ===== verification/Window_Ui.thy ===== *)
theory Window_Ui
  imports Qt
begin

text \<open>
  The user interface that \<open>src/gui/main_window.py\<close> and \<open>device_panel.py\<close> build, as data: widgets,
  layouts, menus, docks and the connections of their signals; the enabling of the DAQ controls and
  the contents of the statistics table.
\<close>

section \<open>DaqPanel\<close>

definition daq_panel_widgets :: widgets where
  "daq_panel_widgets =
     [(''spin_port'', spin_box 0 65535),
      (''cb_listfile'', check_box ''Write listfile'' False),
      (''le_listdir'', line_edit ''listfile directory (default: current directory)''),
      (''pb_listdir'', push_button ''...''),
      (''spin_run_id'', spin_box 0 65535),
      (''cb_clear_on_start'', check_box ''Clear histograms on start'' True),
      (''pb_start_run'', with_tip ''Start readout, send the run id to all enabled devices and start_daq to the timing master''
         (push_button ''Start Run'')),
      (''pb_stop_run'', with_tip ''Send stop_daq to the timing master, then stop the readout'' (push_button ''Stop Run'')),
      (''pb_continue'', with_tip ''Send continue_daq to the timing master'' (push_button ''Continue'')),
      (''pb_reset'', with_tip ''Send reset_daq to all enabled devices'' (push_button ''Reset DAQ'')),
      (''pb_start_readout'', with_tip ''Receive data without sending DAQ commands to devices''
         (push_button ''Start Readout Only'')),
      (''pb_stop_readout'', push_button ''Stop Readout''),
      (''pb_replay'', push_button ''Replay...''),
      (''pb_clear'', push_button ''Clear Histograms''),
      (''label_state'', label_widget ''Idle''),
      (''label_counters'', label_widget [])]"

definition daq_panel_layout :: layout where
  "daq_panel_layout =
     Ver [Rows [(''Data port'', Place ''spin_port''), ([], Place ''cb_listfile''),
                ([], Hor [Place ''le_listdir'', Place ''pb_listdir'']), (''Run id'', Place ''spin_run_id''),
                ([], Place ''cb_clear_on_start'')],
          Cells [(''pb_start_run'', 0, 0), (''pb_stop_run'', 0, 1), (''pb_continue'', 1, 0), (''pb_reset'', 1, 1),
                 (''pb_start_readout'', 2, 0), (''pb_stop_readout'', 2, 1), (''pb_replay'', 3, 0), (''pb_clear'', 3, 1)],
          Place ''label_state'', Place ''label_counters'', Stretch]"

definition daq_set_state :: "string \<Rightarrow> widgets \<Rightarrow> widgets" where
  "daq_set_state st ws =
     (let idle = (st = ''idle'') in
      set_enabled ''le_listdir'' idle
      (set_enabled ''cb_listfile'' idle
      (set_enabled ''spin_port'' idle
      (set_enabled ''pb_stop_readout'' (\<not> idle)
      (set_enabled ''pb_stop_run'' (st = ''readout'')
      (set_enabled ''pb_replay'' idle
      (set_enabled ''pb_start_readout'' idle
      (set_enabled ''pb_start_run'' idle ws))))))))"

section \<open>DevicePanel\<close>

definition device_columns :: "string list" where
  "device_columns = [''On'', ''Name'', ''Type'', ''Address'', ''Id'', ''Port'', ''Timing'', ''Busses'']"

definition device_panel_widgets :: widgets where
  "device_panel_widgets =
     [(''table'', plain_widget WTable []),
      (''pb_add'', push_button ''Add''), (''pb_remove'', push_button ''Remove''),
      (''pb_apply'', with_tip ''Send all settings except Data Destination to the selected device''
         (push_button ''Apply Settings'')),
      (''pb_apply_all'', with_tip ''Send all settings except Data Destination to all enabled devices''
         (push_button ''Apply To All'')),
      (''tree'', plain_widget WTree []), (''le_filter'', line_edit ''Filter...'')]"

definition device_panel_layout :: layout where
  "device_panel_layout =
     Ver [Splitter
       [(Ver [Place ''table'', Hor (map Place [''pb_add'', ''pb_remove'', ''pb_apply'', ''pb_apply_all''])], 0),
        (Ver [Place ''le_filter'', Place ''tree''], 3)]]"

definition device_panel_connections :: connection_list where
  "device_panel_connections =
     [(''pb_add'', ''clicked'', ''_add_device''), (''pb_remove'', ''clicked'', ''_remove_device''),
      (''pb_apply'', ''clicked'', ''_apply_selected''), (''pb_apply_all'', ''clicked'', ''apply_all''),
      (''table'', ''itemSelectionChanged'', ''_on_selection_changed''), (''le_filter'', ''textChanged'', ''_apply_filter'')]"

section \<open>StatsTable\<close>

definition stats_columns :: "string list" where
  "stats_columns =
     [''Device'', ''Source'', ''Id'', ''Type'', ''Packets'', ''Packets/s'', ''Neutrons/s'', ''MB/s'',
      ''Lost'', ''Lost/s'', ''Seq Jumps'', ''Triggers'', ''Run'', ''Status'', ''Buffer#'', ''Notes'']"

definition stats_values :: "device_row \<Rightarrow> string list" where
  "stats_values row =
     (let st = row_stats row in
      [case config row of Some c \<Rightarrow> dev_name c | None \<Rightarrow> ''?'',
       row_ip row,
       show_int (device_id row),
       type_name row,
       show_int (packets st),
       fmt_fixed 0 (packet_rate row),
       fmt_fixed 0 (event_rate row),
       fmt_fixed 2 (byte_rate row / 10 ^ 6),
       show_int (packets_lost st),
       fmt_fixed 0 (loss_rate row),
       show_int (buffer_number_jumps st),
       show_int (trigger_events st),
       show_int (last_run_id st),
       fmt_alt_hex 4 (last_device_status st),
       show_int (last_buffer_number st),
       join ''; '' (note_list row)])"

definition cell_is_bad :: "device_row \<Rightarrow> nat \<Rightarrow> bool" where
  "cell_is_bad row c \<longleftrightarrow>
     note_list row \<noteq> [] \<or> (c \<in> {8, 9} \<and> 0 < packets_lost (row_stats row))
     \<or> (c = 10 \<and> 0 < buffer_number_jumps (row_stats row))"

text \<open>The cells of the table: text and whether the background warns.\<close>

definition update_rows :: "device_row list \<Rightarrow> (string \<times> bool) list list" where
  "update_rows rows = map (\<lambda>row. map (\<lambda>(c, t). (t, cell_is_bad row c)) (enumerate 0 (stats_values row))) rows"

section \<open>MainWindow\<close>

text \<open>Menu entries: text, shortcut, slot.  \<open>None\<close> is a separator.\<close>

definition window_menus :: "(string \<times> (string \<times> string \<times> string) option list) list" where
  "window_menus =
     [(''&File'',
       [Some (''&New Setup'', ''New'', ''_new_setup''), Some (''&Open Setup...'', [], ''_open_setup''),
        Some (''&Save Setup'', ''Save'', ''_save_setup''), Some (''Save Setup &As...'', [], ''_save_setup_as''), None,
        Some (''E&xit'', ''Quit'', ''close'')]),
      (''&View'',
       [Some (''New &Histogram View'', [], ''_add_histo_view''), None, Some (''&Reset UI to Defaults'', [], ''_reset_ui'')])]"

text \<open>Docks: attribute, title, size, widget.\<close>

definition window_docks :: "(string \<times> string \<times> (nat \<times> nat) \<times> string) list" where
  "window_docks =
     [(''dock_daq'', ''DAQ'', (350, 300), ''daq_panel''), (''dock_devices'', ''Devices'', (350, 700), ''device_panel''),
      (''dock_pulser_test'', ''Pulser Test'', (350, 150), ''pulser_test_panel''),
      (''dock_stats'', ''Statistics'', (1200, 200), ''stats_table''), (''dock_log'', ''Log'', (600, 200), ''log_view''),
      (''dock_console'', ''Console'', (1200, 200), ''console'')]"

definition window_connections :: connection_list where
  "window_connections =
     [(''pb_start_run'', ''clicked'', ''start_run''), (''pb_stop_run'', ''clicked'', ''stop_run''),
      (''pb_continue'', ''clicked'', ''continue_run''), (''pb_reset'', ''clicked'', ''reset_daq''),
      (''pb_start_readout'', ''clicked'', ''start_readout''), (''pb_stop_readout'', ''clicked'', ''stop_readout''),
      (''pb_replay'', ''clicked'', ''_start_replay''), (''pb_clear'', ''clicked'', ''_clear_histograms''),
      (''pb_listdir'', ''clicked'', ''_choose_listdir''), (''spin_port'', ''valueChanged'', ''data_port''),
      (''cb_listfile'', ''toggled'', ''write_listfile''), (''le_listdir'', ''textChanged'', ''listfile_dir'')]"

section \<open>Facts\<close>

lemma daq_panel_has: "n \<in> set (dict_keys daq_panel_widgets) \<Longrightarrow> has_widget daq_panel_widgets n"
  by (simp add: has_widget_def map_of_eq_None_iff)

lemma has_widget_daq_set_state [simp]: "has_widget (daq_set_state st ws) n = has_widget ws n"
  by (simp add: daq_set_state_def Let_def)

lemma daq_set_state_other [simp]:
  "spin_value (daq_set_state st ws) n = spin_value ws n" "is_checked (daq_set_state st ws) n = is_checked ws n"
  "widget_text (daq_set_state st ws) n = widget_text ws n"
  by (simp_all add: daq_set_state_def Let_def)

text \<open>The names that \<open>set_state\<close> switches.\<close>

definition switched :: "string list" where
  "switched = [''pb_start_run'', ''pb_start_readout'', ''pb_replay'', ''pb_stop_run'', ''pb_stop_readout'', ''spin_port'',
     ''cb_listfile'', ''le_listdir'']"

lemma daq_set_state_enabled:
  assumes "list_all (has_widget ws) switched" and "n \<in> set switched"
  shows "is_enabled (daq_set_state st ws) n \<longleftrightarrow>
    (if n = ''pb_stop_run'' then st = ''readout'' else if n = ''pb_stop_readout'' then st \<noteq> ''idle'' else st = ''idle'')"
  using assms by (auto simp: switched_def daq_set_state_def Let_def is_enabled_set simp del: is_enabled_simps)

text \<open>Every widget is placed once, and every push button has a slot.\<close>

definition ui_complete :: "widgets \<Rightarrow> layout \<Rightarrow> connection_list \<Rightarrow> bool" where
  "ui_complete ws l cs \<longleftrightarrow>
     distinct (placed l) \<and> set (placed l) = set (dict_keys ws)
     \<and> list_all (\<lambda>(n, w). wd_kind w = WButton \<longrightarrow> length (slots_of cs n ''clicked'') = 1) ws"

lemma daq_panel_complete: "ui_complete daq_panel_widgets daq_panel_layout window_connections"
  by code_simp

lemma device_panel_complete: "ui_complete device_panel_widgets device_panel_layout device_panel_connections"
  by code_simp

lemma length_stats_values: "length (stats_values row) = length stats_columns"
  by (simp add: stats_values_def stats_columns_def Let_def)

end
