(* ===== verification/Histo_View.thy ===== *)
theory Histo_View
  imports Window_Ui
begin

text \<open>
  \<open>src/gui/histo_view.py\<close>: the histogram view.  The state of a view is what its widgets hold: the
  selected entries of the combo boxes, the channel boxes, the histogram shown, the curves and
  image drawn from it, the page that is visible and the two labels.

  Arrays are nested lists.  Drawn values are counts, logarithms of counts or not-a-number.  The
  slot that \<open>selection_changed\<close> is connected to is an argument of the operations that emit it.
  The saved state is a dictionary of Python values; the mouse position arrives as the bin
  coordinates that pyqtgraph maps it to.
\<close>

section \<open>Arrays\<close>

fun array_sum :: "ndarray \<Rightarrow> int" where
  "array_sum (Scalars xs) = sum_list xs"
| "array_sum (Arrays as) = sum_list (map array_sum as)"

fun ndim :: "ndarray \<Rightarrow> nat" where
  "ndim (Scalars xs) = 1"
| "ndim (Arrays []) = 2"
| "ndim (Arrays (a # as)) = Suc (ndim a)"

fun last_dim :: "ndarray \<Rightarrow> nat" where
  "last_dim (Scalars xs) = length xs"
| "last_dim (Arrays []) = 0"
| "last_dim (Arrays (a # as)) = last_dim a"

fun array_len :: "ndarray \<Rightarrow> nat" where
  "array_len (Scalars xs) = length xs"
| "array_len (Arrays as) = length as"

fun sub :: "ndarray \<Rightarrow> nat \<Rightarrow> ndarray res" where
  "sub (Arrays as) i = (if i < length as then Inr (as ! i) else Inl IndexError)"
| "sub (Scalars xs) i = Inl (TypeError ''scalar'')"

fun item :: "ndarray \<Rightarrow> nat \<Rightarrow> int res" where
  "item (Scalars xs) i = (if i < length xs then Inr (xs ! i) else Inl IndexError)"
| "item (Arrays as) i = Inl (TypeError ''array'')"

fun rows_of :: "ndarray \<Rightarrow> ndarray list" where
  "rows_of (Arrays as) = as"
| "rows_of (Scalars xs) = []"

fun values_of :: "ndarray \<Rightarrow> int list" where
  "values_of (Scalars xs) = xs"
| "values_of (Arrays as) = concat (map values_of as)"

text \<open>\<open>data[:, :n, :]\<close>; too few dimensions raise.\<close>

fun slice_channels :: "nat \<Rightarrow> ndarray \<Rightarrow> ndarray res" where
  "slice_channels n (Scalars xs) = Inl IndexError"
| "slice_channels n (Arrays as) =
     bind_res (traverse (\<lambda>a. case a of Arrays chs \<Rightarrow> Inr (Arrays (take n chs)) | Scalars xs \<Rightarrow> Inl IndexError) as)
       (\<lambda>bs. Inr (Arrays bs))"

text \<open>\<open>data.reshape(-1, data.shape[-1])\<close>: the rows of the last dimension.\<close>

fun flat_rows :: "ndarray \<Rightarrow> int list list" where
  "flat_rows (Scalars xs) = [xs]"
| "flat_rows (Arrays as) = concat (map flat_rows as)"

section \<open>State\<close>

definition HISTO_TYPES :: "(string \<times> string) list" where
  "HISTO_TYPES = [(''xy'', ''XY Position''), (''amplitude'', ''Amplitude''), (''x'', ''X Position''), (''y'', ''Y Position'')]"

definition MCPD_VALUES :: "(string \<times> string) list" where
  "MCPD_VALUES = [(''position'', ''Position''), (''amplitude'', ''Amplitude'')]"

definition MCPD_MODES :: "(string \<times> string) list" where
  "MCPD_MODES = [(''bus'', ''Bus Channels''), (''overlay'', ''Channel Overlay''), (''overview'', ''All Channels 2D'')]"

datatype pixel = NaN | Count int | LogCount int

text \<open>A device entry: label, key, kind.\<close>

type_synonym device_entry = "string \<times> device_key \<times> string"

record view =
  v_data :: "ndarray option"
  v_wanted :: "pyval list option"
  v_kind :: string
  v_devices :: "device_entry list"
  v_device :: "nat option"
  v_type :: nat
  v_value :: nat
  v_mode :: nat
  v_bus :: nat
  v_channels :: "bool list"
  v_log :: bool
  v_info :: string
  v_cursor :: string
  v_shown :: "(string, bool) dict"
  v_axes :: "string \<times> string"
  v_ticks :: "((rat \<times> string) list list) option"
  v_separators :: bool
  v_page :: string
  v_legend :: "nat list"
  v_curve :: "pixel list"
  v_overlay :: "pixel list list"
  v_stacked :: "pixel list list"
  v_image :: "pixel list list option"
  v_levels :: "(int \<times> int) option"
  v_widened :: bool
  v_color_label :: string
  v_log_plots :: bool
  v_emitted :: nat

text \<open>Keys as Python tuples.\<close>

definition key_tuple :: "device_key \<Rightarrow> pyval list" where
  "key_tuple k = [PInt (fst k), PInt (snd k)]"

definition histo_type :: "view \<Rightarrow> string" where
  "histo_type v = fst (HISTO_TYPES ! v_type v)"

definition mcpd_value :: "view \<Rightarrow> string" where
  "mcpd_value v = fst (MCPD_VALUES ! v_value v)"

definition mcpd_mode :: "view \<Rightarrow> string" where
  "mcpd_mode v = fst (MCPD_MODES ! v_mode v)"

definition channels :: "view \<Rightarrow> nat list" where
  "channels v = map fst (filter snd (enumerate 0 (v_channels v)))"

definition current_device :: "view \<Rightarrow> device_entry option" where
  "current_device v = map_option (\<lambda>i. v_devices v ! i) (v_device v)"

definition device_key :: "view \<Rightarrow> device_key option" where
  "device_key v = map_option (\<lambda>(l, k, kd). k) (current_device v)"

text \<open>\<open>find_device\<close>: \<open>None\<close> for -1.\<close>

definition find_device :: "view \<Rightarrow> pyval list \<Rightarrow> nat option" where
  "find_device v ky = index_of ky (map (\<lambda>(l, k, kd). key_tuple k) (v_devices v))"

text \<open>\<open>setCurrentIndex(max(find_device(key), 0))\<close>; an empty combo box has no current entry.\<close>

definition select_index :: "view \<Rightarrow> pyval list option \<Rightarrow> nat option" where
  "select_index v ky =
     (if v_devices v = [] then None
      else Some (case ky of None \<Rightarrow> 0 | Some k \<Rightarrow> (case find_device v k of None \<Rightarrow> 0 | Some i \<Rightarrow> i)))"

section \<open>Drawing\<close>

definition overview_ticks :: "(rat \<times> string) list list" where
  "overview_ticks =
     [map (\<lambda>bus. (of_nat (bus * MpsdChannelCount) + of_nat MpsdChannelCount / 2, ''bus '' @ show_nat bus)) [0..<McpdBusCount],
      concat (map (\<lambda>bus. map (\<lambda>ch. (of_nat (bus * MpsdChannelCount + ch) + 1 / 2, show_nat ch)) [0..<MpsdChannelCount])
        [0..<McpdBusCount])]"

definition update_controls :: "view \<Rightarrow> view" where
  "update_controls v =
     (let mdll = (v_kind v = ''mdll''); mode = mcpd_mode v in
      v\<lparr>v_shown := [(''combo_type'', mdll), (''combo_value'', \<not> mdll), (''combo_mode'', \<not> mdll),
                    (''combo_bus'', \<not> mdll \<and> mode \<noteq> ''overview''), (''channel_box'', \<not> mdll \<and> mode = ''overlay'')],
        v_axes := (if mdll then (''X'', ''Y'') else (''Bin'', ''Bus / Channel'')),
        v_ticks := (if mdll then None else Some overview_ticks),
        v_separators := \<not> mdll,
        v_page := (if mdll then (if histo_type v = ''xy'' then ''plot2d'' else ''plot1d'')
                   else if mode = ''bus'' then ''stacked'' else if mode = ''overlay'' then ''plot1d'' else ''plot2d''),
        v_legend := (if \<not> mdll \<and> mode = ''overlay'' then channels v else [])\<rparr>)"

definition clear_plots :: "view \<Rightarrow> view" where
  "clear_plots v =
     v\<lparr>v_curve := [], v_overlay := map (\<lambda>_. []) (v_overlay v), v_stacked := map (\<lambda>_. []) (v_stacked v), v_image := None\<rparr>"

text \<open>\<open>slot\<close> is what \<open>selection_changed\<close> is connected to.\<close>

definition view_selection_changed :: "(view \<Rightarrow> view outcome) \<Rightarrow> view \<Rightarrow> view outcome" where
  "view_selection_changed slot v =
     slot ((clear_plots ((update_controls v)\<lparr>v_data := None\<rparr>))
       \<lparr>v_info := [], v_cursor := [], v_emitted := Suc (v_emitted v)\<rparr>)"

definition curve_values :: "bool \<Rightarrow> int list \<Rightarrow> pixel list" where
  "curve_values lg ys = map (\<lambda>y. if lg \<and> y \<le> 0 then NaN else Count y) ys"

text \<open>\<open>_set_image\<close>: zero counts are not drawn; the levels span the drawn values.\<close>

definition image_pixel :: "bool \<Rightarrow> int \<Rightarrow> pixel" where
  "image_pixel lg y = (if y \<le> 0 then NaN else if lg then LogCount y else Count y)"

definition set_image :: "int list list \<Rightarrow> view \<Rightarrow> view" where
  "set_image rows v =
     (let pos = filter (\<lambda>y. 0 < y) (concat rows) in
      if pos = [] then v\<lparr>v_image := None\<rparr>
      else
        v\<lparr>v_image := Some (map (map (image_pixel (v_log v))) rows),
          v_levels := Some (Min (set pos), Max (set pos)), v_widened := (Min (set pos) = Max (set pos)),
          v_color_label := (if v_log v then ''log10(Counts)'' else ''Counts'')\<rparr>)"

definition entries_text :: "int \<Rightarrow> string" where
  "entries_text n = ''Entries: '' @ show_int n"

definition redraw :: "view \<Rightarrow> view outcome" where
  "redraw v =
     (case v_data v of
        None \<Rightarrow> (v, None)
      | Some data \<Rightarrow>
          if v_kind v = ''mdll'' then
            (let v1 = v\<lparr>v_info := entries_text (array_sum data)\<rparr> in
             if ndim data = 1 then (v1\<lparr>v_curve := curve_values (v_log v) (values_of data)\<rparr>, None)
             else (set_image (map values_of (rows_of data)) v1, None))
          else if mcpd_mode v = ''overview'' then
            (set_image (flat_rows data) (v\<lparr>v_info := entries_text (array_sum data)\<rparr>), None)
          else
            with_res (sub data (v_bus v)) v (\<lambda>bus_data.
            if mcpd_mode v = ''bus'' then
              (let v1 = v\<lparr>v_info := entries_text (array_sum bus_data)\<rparr> in
               if length (v_stacked v) = array_len bus_data then
                 (v1\<lparr>v_stacked := map (\<lambda>a. curve_values (v_log v) (values_of a)) (rows_of bus_data)\<rparr>, None)
               else (v1, Some (ValueError ''zip() arguments have different lengths'')))
            else
              with_res (traverse (sub bus_data) (channels v)) v (\<lambda>shown.
              (v\<lparr>v_info := entries_text (sum_list (map array_sum shown)),
                 v_overlay := map (\<lambda>ch. if ch \<in> set (channels v)
                                      then curve_values (v_log v) (values_of (rows_of bus_data ! ch)) else [])
                                 [0..<length (v_overlay v)]\<rparr>, None))))"

definition update_histograms :: "histograms option \<Rightarrow> view \<Rightarrow> view outcome" where
  "update_histograms histos v =
     (case histos of
        None \<Rightarrow> redraw (v\<lparr>v_data := None\<rparr>)
      | Some h \<Rightarrow>
          if v_kind v = ''mdll'' then redraw (v\<lparr>v_data := dict_get h (histo_type v)\<rparr>)
          else
            (case dict_get h (mcpd_value v) of
               None \<Rightarrow> redraw (v\<lparr>v_data := None\<rparr>)
             | Some a \<Rightarrow>
                 with_res (slice_channels MpsdChannelCount a) (v\<lparr>v_data := Some a\<rparr>)
                   (\<lambda>d. redraw (v\<lparr>v_data := Some d\<rparr>))))"

section \<open>Controls\<close>

text \<open>\<open>_combo(items, current)\<close>\<close>

definition combo_index :: "(string \<times> string) list \<Rightarrow> string \<Rightarrow> nat" where
  "combo_index table current = (case index_of current (map fst table) of Some i \<Rightarrow> i | None \<Rightarrow> 0)"

definition new_view :: "(view \<Rightarrow> view outcome) \<Rightarrow> view outcome" where
  "new_view slot =
     view_selection_changed slot
       \<lparr>v_data = None, v_wanted = None, v_kind = ''mcpd'', v_devices = [], v_device = None,
        v_type = combo_index HISTO_TYPES ''xy'', v_value = combo_index MCPD_VALUES ''position'',
        v_mode = combo_index MCPD_MODES ''bus'', v_bus = 0, v_channels = replicate MpsdChannelCount True, v_log = False,
        v_info = [], v_cursor = [], v_shown = [], v_axes = ([], []), v_ticks = None, v_separators = True,
        v_page = ''plot1d'', v_legend = [], v_curve = [], v_overlay = replicate MpsdChannelCount [],
        v_stacked = replicate MpsdChannelCount [], v_image = None, v_levels = None, v_widened = False,
        v_color_label = [], v_log_plots = False, v_emitted = 0\<rparr>"

text \<open>Selecting an entry of a combo box signals when the entry changes.\<close>

definition set_type :: "(view \<Rightarrow> view outcome) \<Rightarrow> nat \<Rightarrow> view \<Rightarrow> view outcome" where
  "set_type slot i v = (if v_type v = i then (v, None) else view_selection_changed slot (v\<lparr>v_type := i\<rparr>))"

definition set_value_index :: "(view \<Rightarrow> view outcome) \<Rightarrow> nat \<Rightarrow> view \<Rightarrow> view outcome" where
  "set_value_index slot i v = (if v_value v = i then (v, None) else view_selection_changed slot (v\<lparr>v_value := i\<rparr>))"

definition set_mode :: "(view \<Rightarrow> view outcome) \<Rightarrow> nat \<Rightarrow> view \<Rightarrow> view outcome" where
  "set_mode slot i v = (if v_mode v = i then (v, None) else view_selection_changed slot (v\<lparr>v_mode := i\<rparr>))"

definition set_bus :: "(view \<Rightarrow> view outcome) \<Rightarrow> nat \<Rightarrow> view \<Rightarrow> view outcome" where
  "set_bus slot i v = (if v_bus v = i then (v, None) else view_selection_changed slot (v\<lparr>v_bus := i\<rparr>))"

definition on_channels_changed :: "view \<Rightarrow> view outcome" where
  "on_channels_changed v = redraw (update_controls v)"

definition set_channel :: "nat \<Rightarrow> bool \<Rightarrow> view \<Rightarrow> view outcome" where
  "set_channel ch b v =
     (if v_channels v ! ch = b then (v, None) else on_channels_changed (v\<lparr>v_channels := (v_channels v)[ch := b]\<rparr>))"

definition on_log_toggled :: "bool \<Rightarrow> view \<Rightarrow> view outcome" where
  "on_log_toggled b v = redraw (v\<lparr>v_log_plots := b\<rparr>)"

definition set_log :: "bool \<Rightarrow> view \<Rightarrow> view outcome" where
  "set_log b v = (if v_log v = b then (v, None) else on_log_toggled b (v\<lparr>v_log := b\<rparr>))"

definition kind_of_current :: "view \<Rightarrow> string" where
  "kind_of_current v = (case current_device v of Some (l, k, kd) \<Rightarrow> if kd = [] then v_kind v else kd | None \<Rightarrow> v_kind v)"

definition on_device_changed :: "(view \<Rightarrow> view outcome) \<Rightarrow> view \<Rightarrow> view outcome" where
  "on_device_changed slot v = view_selection_changed slot (v\<lparr>v_wanted := None, v_kind := kind_of_current v\<rparr>)"

definition select_device :: "(view \<Rightarrow> view outcome) \<Rightarrow> pyval list \<Rightarrow> view \<Rightarrow> view outcome" where
  "select_device slot ky v =
     (let i = select_index v (Some ky) in
      if v_device v = i then (v, None) else on_device_changed slot (v\<lparr>v_device := i\<rparr>))"

section \<open>Saved state\<close>

type_synonym view_state = "(string, pyval) dict"

definition save_state :: "view \<Rightarrow> view_state" where
  "save_state v =
     (let ky = (case v_wanted v of Some w \<Rightarrow> Some w | None \<Rightarrow> map_option key_tuple (device_key v)) in
      [(''type'', PStr (histo_type v)), (''value'', PStr (mcpd_value v)), (''mode'', PStr (mcpd_mode v)),
       (''bus'', PInt (int (v_bus v))), (''channels'', PList (map (\<lambda>ch. PInt (int ch)) (channels v))),
       (''log'', PBool (v_log v)), (''device'', case ky of Some k \<Rightarrow> PList k | None \<Rightarrow> PNone)])"

text \<open>\<open>_set_combo(combo, table, key)\<close>: unknown keys are ignored, a list is not hashable.\<close>

definition set_combo ::
  "(nat \<Rightarrow> view \<Rightarrow> view outcome) \<Rightarrow> (string \<times> string) list \<Rightarrow> pyval \<Rightarrow> view \<Rightarrow> view outcome" where
  "set_combo set_idx table ky v =
     (case ky of
        PStr s \<Rightarrow> (case index_of s (map fst table) of Some i \<Rightarrow> set_idx i v | None \<Rightarrow> (v, None))
      | PList xs \<Rightarrow> (v, Some (TypeError ''unhashable type''))
      | PDict d \<Rightarrow> (v, Some (TypeError ''unhashable type''))
      | _ \<Rightarrow> (v, None))"

text \<open>\<open>ch in channels\<close>\<close>

fun contains_channel :: "pyval \<Rightarrow> nat \<Rightarrow> bool res" where
  "contains_channel (PList xs) ch = Inr (PInt (int ch) \<in> set xs)"
| "contains_channel (PDict d) ch = Inr False"
| "contains_channel v ch = Inl (TypeError ''argument is not iterable'')"

fun tuple_of :: "pyval \<Rightarrow> pyval list res" where
  "tuple_of (PList xs) = Inr xs"
| "tuple_of (PStr s) = Inr (map (\<lambda>c. PStr [c]) s)"
| "tuple_of (PDict d) = Inr (map (\<lambda>(k, v). PStr k) d)"
| "tuple_of v = Inl (TypeError ''object is not iterable'')"

definition restore_channels :: "pyval \<Rightarrow> view \<Rightarrow> view outcome" where
  "restore_channels chs v =
     (if chs = PNone then (v, None)
      else for_each (\<lambda>ch v. with_res (contains_channel chs ch) v (\<lambda>b. set_channel ch b v)) [0..<length (v_channels v)] v)"

definition restore_bus :: "(view \<Rightarrow> view outcome) \<Rightarrow> pyval \<Rightarrow> view \<Rightarrow> view outcome" where
  "restore_bus slot b v =
     (case b of PInt n \<Rightarrow> if 0 \<le> n \<and> n < int McpdBusCount then set_bus slot (nat n) v else (v, None) | _ \<Rightarrow> (v, None))"

definition restore_device :: "pyval \<Rightarrow> view \<Rightarrow> view outcome" where
  "restore_device dev v =
     (if truthy dev then with_res (tuple_of dev) v (\<lambda>w. (v\<lparr>v_wanted := Some w\<rparr>, None)) else (v, None))"

definition restore_state :: "(view \<Rightarrow> view outcome) \<Rightarrow> view_state \<Rightarrow> view \<Rightarrow> view outcome" where
  "restore_state slot st v =
     and_then (and_then (and_then (and_then (and_then (and_then
       (set_combo (set_type slot) HISTO_TYPES (dict_get_or st ''type'' PNone) v)
       (set_combo (set_value_index slot) MCPD_VALUES (dict_get_or st ''value'' PNone)))
       (set_combo (set_mode slot) MCPD_MODES (dict_get_or st ''mode'' PNone)))
       (restore_bus slot (dict_get_or st ''bus'' PNone)))
       (restore_channels (dict_get_or st ''channels'' PNone)))
       (set_log (truthy (dict_get_or st ''log'' (PBool False)))))
       (restore_device (dict_get_or st ''device'' PNone))"

text \<open>\<open>set_devices\<close>, with the entries as key, label, kind.\<close>

definition set_devices ::
  "(view \<Rightarrow> view outcome) \<Rightarrow> (device_key \<times> string \<times> string) list \<Rightarrow> view \<Rightarrow> view outcome" where
  "set_devices slot ds v =
     (let pv = map_option key_tuple (device_key v);
          found = (case v_wanted v of None \<Rightarrow> False | Some w \<Rightarrow> w \<in> set (map (\<lambda>(k, l, kd). key_tuple k) ds));
          current = (if found then v_wanted v else pv);
          v1 = (if found then v\<lparr>v_wanted := None\<rparr> else v);
          known = map (\<lambda>(l, k, kd). (k, l, kd)) (v_devices v)
      in if current = pv \<and> known = ds then (v1, None)
         else
           (let v2 = v1\<lparr>v_devices := map (\<lambda>(k, l, kd). (l, k, kd)) ds\<rparr>;
                v3 = v2\<lparr>v_device := select_index v2 current\<rparr>;
                kind = kind_of_current v3
            in if map_option key_tuple (device_key v3) \<noteq> pv \<or> kind \<noteq> v_kind v3
               then view_selection_changed slot (v3\<lparr>v_kind := kind\<rparr>)
               else (v3, None)))"

section \<open>The cursor\<close>

definition counts_text :: "nat \<Rightarrow> int \<Rightarrow> string" where
  "counts_text ch n = ''ch'' @ show_nat ch @ ''='' @ show_int n"

definition mouse_moved_1d :: "int \<Rightarrow> view \<Rightarrow> view outcome" where
  "mouse_moved_1d x v =
     (case v_data v of
        None \<Rightarrow> (v, None)
      | Some data \<Rightarrow>
          if v_kind v = ''mdll'' then
            (if ndim data = 1 \<and> 0 \<le> x \<and> x < int (array_len data) then
               with_res (item data (nat x)) v (\<lambda>n.
               (v\<lparr>v_cursor := ''bin '' @ show_int x @ '': '' @ show_int n\<rparr>, None))
             else (v, None))
          else if 0 \<le> x \<and> x < int (last_dim data) then
            with_res (sub data (v_bus v)) v (\<lambda>bus_data.
            with_res (traverse (\<lambda>ch. bind_res (sub bus_data ch) (\<lambda>a. bind_res (item a (nat x)) (\<lambda>n. Inr (counts_text ch n))))
                (channels v)) v (\<lambda>cs.
            (v\<lparr>v_cursor := ''bin '' @ show_int x @ '': '' @ join '', '' cs\<rparr>, None)))
          else (v, None))"

definition mouse_moved_2d :: "int \<Rightarrow> int \<Rightarrow> view \<Rightarrow> view outcome" where
  "mouse_moved_2d x y v =
     (case v_data v of
        None \<Rightarrow> (v, None)
      | Some data \<Rightarrow>
          if v_kind v = ''mdll'' then
            (if ndim data = 2 \<and> 0 \<le> y \<and> y < int (array_len data) \<and> 0 \<le> x \<and> x < int (last_dim data) then
               with_res (bind_res (sub data (nat y)) (\<lambda>r. item r (nat x))) v (\<lambda>n.
               (v\<lparr>v_cursor := ''x='' @ show_int x @ '', y='' @ show_int y @ '': '' @ show_int n\<rparr>, None))
             else (v, None))
          else if ndim data \<noteq> 3 then (v, Some (ValueError ''not enough values to unpack''))
          else
            (let buses = array_len data; chans = (case rows_of data of [] \<Rightarrow> 0 | b # _ \<Rightarrow> array_len b); bins = last_dim data in
             if 0 \<le> y \<and> y < int (buses * chans) \<and> 0 \<le> x \<and> x < int bins then
               (let bus = nat y div chans; ch = nat y mod chans in
                with_res (bind_res (sub data bus) (\<lambda>b. bind_res (sub b ch) (\<lambda>a. item a (nat x)))) v (\<lambda>n.
                (v\<lparr>v_cursor := ''bus '' @ show_nat bus @ '', ch'' @ show_nat ch @ '', bin '' @ show_int x @ '': '' @ show_int n\<rparr>,
                 None)))
             else (v, None)))"

text \<open>\<open>hit\<close>: the plot under the mouse and the bin in it.\<close>

definition mouse_moved_stacked :: "(nat \<times> int) option \<Rightarrow> view \<Rightarrow> view outcome" where
  "mouse_moved_stacked hit v =
     (case v_data v of
        None \<Rightarrow> (v, None)
      | Some data \<Rightarrow>
          if v_kind v \<noteq> ''mcpd'' then (v, None)
          else
            (case hit of
               None \<Rightarrow> (v, None)
             | Some (ch, x) \<Rightarrow>
                 if 0 \<le> x \<and> x < int (last_dim data) then
                   with_res (bind_res (sub data (v_bus v)) (\<lambda>b. bind_res (sub b ch) (\<lambda>a. item a (nat x)))) v (\<lambda>n.
                   (v\<lparr>v_cursor := ''bus '' @ show_nat (v_bus v) @ '', ch'' @ show_nat ch @ '', bin '' @ show_int x
                       @ '': '' @ show_int n\<rparr>, None))
                 else (v, None)))"

section \<open>Widgets\<close>

definition channel_box_names :: "string list" where
  "channel_box_names = map (\<lambda>ch. ''cb_channel'' @ show_nat ch) [0..<MpsdChannelCount]"

definition histo_widgets :: widgets where
  "histo_widgets =
     [(''combo_device'', plain_widget WComboBox []), (''combo_type'', plain_widget WComboBox []),
      (''combo_value'', plain_widget WComboBox []), (''combo_mode'', plain_widget WComboBox []),
      (''combo_bus'', plain_widget WComboBox [])]
     @ map (\<lambda>ch. (''cb_channel'' @ show_nat ch, check_box (show_nat ch) True)) [0..<MpsdChannelCount]
     @ [(''cb_log'', check_box ''Log'' False), (''label_info'', label_widget []), (''label_cursor'', label_widget []),
        (''plot1d'', plain_widget WOther []), (''plot2d'', plain_widget WOther []), (''stacked'', plain_widget WOther [])]"

text \<open>The entries of the combo boxes: text and data.  The devices come later.\<close>

definition bus_items :: "(string \<times> nat) list" where
  "bus_items = map (\<lambda>bus. (''Bus '' @ show_nat bus, bus)) [0..<McpdBusCount]"

definition histo_layout :: layout where
  "histo_layout =
     Ver [Hor ([Place ''combo_device'', Place ''combo_type'', Place ''combo_value'', Place ''combo_mode'', Place ''combo_bus'',
                Hor (map Place channel_box_names), Place ''cb_log'', Stretch, Place ''label_info'']),
          Pages [Place ''plot1d'', Place ''plot2d'', Place ''stacked''],
          Place ''label_cursor'']"

definition histo_connections :: connection_list where
  "histo_connections =
     [(''combo_device'', ''currentIndexChanged'', ''_on_device_changed'')]
     @ map (\<lambda>n. (n, ''currentIndexChanged'', ''_on_selection_changed'')) [''combo_type'', ''combo_value'', ''combo_mode'', ''combo_bus'']
     @ map (\<lambda>n. (n, ''toggled'', ''_on_channels_changed'')) channel_box_names
     @ [(''cb_log'', ''toggled'', ''_on_log_toggled''), (''plot1d'', ''sigMouseMoved'', ''_on_mouse_moved_1d''),
        (''plot2d'', ''sigMouseMoved'', ''_on_mouse_moved_2d''), (''stacked'', ''sigMouseMoved'', ''_on_mouse_moved_stacked'')]"

text \<open>The stacked plots: label of the left axis, plot whose x axis it follows, bottom values shown.\<close>

definition stacked_plots :: "(string \<times> nat option \<times> bool) list" where
  "stacked_plots =
     map (\<lambda>ch. (''ch'' @ show_nat ch, if ch = 0 then None else Some 0, \<not> ch < MpsdChannelCount - 1)) [0..<MpsdChannelCount]"

definition bus_separators :: "nat list" where
  "bus_separators = map (\<lambda>bus. bus * MpsdChannelCount) [1..<McpdBusCount]"

lemma histo_view_complete:
  "distinct (placed histo_layout)" "set (placed histo_layout) = set (dict_keys histo_widgets)"
  by code_simp+

end
