(* ===== verification/Histo_View_Facts.thy ===== *)
theory Histo_View_Facts
  imports Histo_View
begin

text \<open>
  The histogram view keeps its parts consistent (\<open>view_ok\<close>) and never raises on histograms of
  the shapes that the bindings deliver; what the cursor says is what the image shows; a device
  list keeps or restores the selection; a saved state is restored.
\<close>

section \<open>Shapes\<close>

fun has_shape :: "nat list \<Rightarrow> ndarray \<Rightarrow> bool" where
  "has_shape [n] (Scalars xs) = (length xs = n)"
| "has_shape (n # m # ns) (Arrays as) = (length as = n \<and> list_all (has_shape (m # ns)) as)"
| "has_shape ns a = False"

fun dims :: "ndarray \<Rightarrow> nat list" where
  "dims (Scalars xs) = [length xs]"
| "dims (Arrays []) = [0]"
| "dims (Arrays (a # as)) = length (a # as) # dims a"

definition one_dim :: "ndarray \<Rightarrow> bool" where
  "one_dim a \<longleftrightarrow> length (dims a) = 1 \<and> has_shape (dims a) a"

definition two_dim :: "ndarray \<Rightarrow> bool" where
  "two_dim a \<longleftrightarrow> length (dims a) = 2 \<and> has_shape (dims a) a"

text \<open>Counts of all busses, at least or exactly eight channels each.\<close>

definition mcpd_histo :: "ndarray \<Rightarrow> bool" where
  "mcpd_histo a \<longleftrightarrow>
     length (dims a) = 3 \<and> dims a ! 0 = McpdBusCount \<and> MpsdChannelCount \<le> dims a ! 1 \<and> has_shape (dims a) a"

definition bus_histo :: "ndarray \<Rightarrow> bool" where
  "bus_histo a \<longleftrightarrow> mcpd_histo a \<and> dims a ! 1 = MpsdChannelCount"

lemma has_shape_1: "has_shape [n] a \<longleftrightarrow> (\<exists>xs. a = Scalars xs \<and> length xs = n)"
  by (cases a) auto

lemma has_shape_Cons:
  "has_shape (n # m # ns) a \<longleftrightarrow> (\<exists>as. a = Arrays as \<and> length as = n \<and> (\<forall>x\<in>set as. has_shape (m # ns) x))"
  by (cases a) (auto simp: list_all_iff)

lemma dims_shape: "has_shape (n # ns) a \<Longrightarrow> 0 \<notin> set (butlast (n # ns)) \<Longrightarrow> dims a = n # ns"
proof (induction a arbitrary: n ns rule: dims.induct)
  case (1 xs)
  then show ?case by (cases ns) auto
next
  case 2
  then show ?case by (cases ns) auto
next
  case (3 a as)
  then show ?case by (cases ns) auto
qed

lemma length_3: "length xs = 3 \<longleftrightarrow> (\<exists>a b c. xs = [a, b, c])"
  by (auto simp: numeral_3_eq_3 length_Suc_conv)

lemma length_2: "length xs = 2 \<longleftrightarrow> (\<exists>a b. xs = [a, b])"
  by (auto simp: numeral_2_eq_2 length_Suc_conv)

lemma mcpd_histo_iff: "mcpd_histo a \<longleftrightarrow> (\<exists>c n. MpsdChannelCount \<le> c \<and> has_shape [McpdBusCount, c, n] a)"
proof
  assume "\<exists>c n. MpsdChannelCount \<le> c \<and> has_shape [McpdBusCount, c, n] a"
  then obtain c n where c: "MpsdChannelCount \<le> c" and s: "has_shape [McpdBusCount, c, n] a" by blast
  from dims_shape [OF s] c have "dims a = [McpdBusCount, c, n]"
    by (simp add: McpdBusCount_def MpsdChannelCount_def)
  with c s show "mcpd_histo a" by (simp add: mcpd_histo_def)
next
  assume "mcpd_histo a"
  then obtain c n where "dims a = [McpdBusCount, c, n]" "MpsdChannelCount \<le> c" "has_shape (dims a) a"
    by (auto simp: mcpd_histo_def length_3)
  then show "\<exists>c n. MpsdChannelCount \<le> c \<and> has_shape [McpdBusCount, c, n] a" by metis
qed

lemma bus_histo_iff: "bus_histo a \<longleftrightarrow> (\<exists>n. has_shape [McpdBusCount, MpsdChannelCount, n] a)"
proof
  assume "\<exists>n. has_shape [McpdBusCount, MpsdChannelCount, n] a"
  then obtain n where s: "has_shape [McpdBusCount, MpsdChannelCount, n] a" by blast
  from dims_shape [OF s] have "dims a = [McpdBusCount, MpsdChannelCount, n]"
    by (simp add: McpdBusCount_def MpsdChannelCount_def)
  with s show "bus_histo a" by (simp add: bus_histo_def mcpd_histo_def)
qed (auto simp: bus_histo_def mcpd_histo_def length_3)

lemma slice_channels_ok:
  assumes "mcpd_histo a"
  shows "\<exists>b. slice_channels MpsdChannelCount a = Inr b \<and> bus_histo b"
proof -
  from assms obtain c n as where c: "MpsdChannelCount \<le> c" and a: "a = Arrays as" and len: "length as = McpdBusCount"
    and sub: "\<forall>x\<in>set as. has_shape [c, n] x"
    unfolding mcpd_histo_iff by (auto simp: has_shape_Cons)
  define f where "f x = (case x of Arrays chs \<Rightarrow> Arrays (take MpsdChannelCount chs) | Scalars xs \<Rightarrow> x)" for x
  have f: "(case x of Arrays chs \<Rightarrow> Inr (Arrays (take MpsdChannelCount chs)) | Scalars xs \<Rightarrow> Inl IndexError) = (Inr (f x) :: ndarray res)"
    if "x \<in> set as" for x
    using sub that by (auto simp: f_def has_shape_Cons)
  have "slice_channels MpsdChannelCount a = Inr (Arrays (map f as))"
    by (simp add: a traverse_all_ok [OF f])
  moreover have "has_shape [McpdBusCount, MpsdChannelCount, n] (Arrays (map f as))"
    using sub c len by (fastforce simp: f_def list_all_iff has_shape_Cons dest: in_set_takeD)
  ultimately show ?thesis by (auto simp: bus_histo_iff)
qed

text \<open>What the operations read of an array of bus counts.\<close>

lemma bus_histo_parts:
  assumes "bus_histo a"
  obtains n where "ndim a = 3" "last_dim a = n" "array_len a = McpdBusCount"
    "\<And>b. b < McpdBusCount \<Longrightarrow> sub a b = Inr (rows_of a ! b) \<and> has_shape [MpsdChannelCount, n] (rows_of a ! b)"
    "has_shape [McpdBusCount, MpsdChannelCount, n] a"
proof -
  from assms obtain n where s: "has_shape [McpdBusCount, MpsdChannelCount, n] a" unfolding bus_histo_iff by blast
  then obtain as where a: "a = Arrays as" and len: "length as = McpdBusCount"
    and inner: "\<forall>x\<in>set as. has_shape [MpsdChannelCount, n] x" by (auto simp: has_shape_Cons)
  from len obtain x xs where as: "as = x # xs" by (cases as) (auto simp: McpdBusCount_def)
  with inner obtain ys where x: "x = Arrays ys" and ys: "length ys = MpsdChannelCount" and y: "\<forall>y\<in>set ys. has_shape [n] y"
    by (auto simp: has_shape_Cons)
  from ys obtain z zs where "ys = z # zs" by (cases ys) (auto simp: MpsdChannelCount_def)
  with y obtain ws where z: "ys = Scalars ws # zs" and "length ws = n" by (auto simp: has_shape_1)
  with a as x have 1: "ndim a = 3" "last_dim a = n" "array_len a = McpdBusCount" using len by auto
  have 2: "sub a b = Inr (rows_of a ! b) \<and> has_shape [MpsdChannelCount, n] (rows_of a ! b)" if "b < McpdBusCount" for b
    using that len inner by (simp add: a)
  from 1 2 s that show thesis by blast
qed

lemma bus_parts:
  assumes "has_shape [m, n] b"
  shows "array_len b = m" and "c < m \<Longrightarrow> sub b c = Inr (rows_of b ! c)"
    and "c < m \<Longrightarrow> x < n \<Longrightarrow> item (rows_of b ! c) x = Inr (values_of (rows_of b ! c) ! x)"
    and "c < m \<Longrightarrow> length (values_of (rows_of b ! c)) = n"
proof -
  from assms obtain cs where b: "b = Arrays cs" and len: "length cs = m" and cs: "\<forall>y\<in>set cs. has_shape [n] y"
    by (auto simp: has_shape_Cons)
  show "array_len b = m" "c < m \<Longrightarrow> sub b c = Inr (rows_of b ! c)" by (simp_all add: b len)
  have row: "\<exists>xs. rows_of b ! c = Scalars xs \<and> length xs = n" if "c < m"
    using that cs len nth_mem [of c cs] by (auto simp: b has_shape_1)
  show "item (rows_of b ! c) x = Inr (values_of (rows_of b ! c) ! x)" if "c < m" "x < n"
    using row [OF that(1)] that(2) by auto
  show "length (values_of (rows_of b ! c)) = n" if "c < m"
    using row [OF that] by auto
qed

section \<open>The invariant\<close>

definition data_ok :: "string \<Rightarrow> string \<Rightarrow> ndarray \<Rightarrow> bool" where
  "data_ok kd ty a \<longleftrightarrow> (if kd = ''mdll'' then if ty = ''xy'' then two_dim a else one_dim a else bus_histo a)"

definition view_ok :: "view \<Rightarrow> bool" where
  "view_ok v \<longleftrightarrow>
     v_type v < length HISTO_TYPES \<and> v_value v < length MCPD_VALUES \<and> v_mode v < length MCPD_MODES
     \<and> v_bus v < McpdBusCount \<and> length (v_channels v) = MpsdChannelCount
     \<and> length (v_overlay v) = MpsdChannelCount \<and> length (v_stacked v) = MpsdChannelCount
     \<and> (case v_device v of None \<Rightarrow> v_devices v = [] | Some i \<Rightarrow> i < length (v_devices v))
     \<and> kind_of_current v = v_kind v \<and> v_wanted v \<noteq> Some []
     \<and> (case v_data v of None \<Rightarrow> True | Some a \<Rightarrow> data_ok (v_kind v) (histo_type v) a)"

lemmas view_congs = option.case_cong prod.case_cong if_cong

text \<open>An operation that does not raise and keeps the invariant.\<close>

definition view_fine :: "view outcome \<Rightarrow> bool" where
  "view_fine r \<longleftrightarrow> snd r = None \<and> view_ok (fst r)"

text \<open>What drawing leaves alone.\<close>

definition selections :: "view \<Rightarrow> _" where
  "selections v = (v_devices v, v_device v, v_wanted v, v_kind v, v_type v, v_value v, v_mode v, v_bus v, v_channels v, v_log v)"

lemma view_fine_simps [simp]: "view_fine (v, e) \<longleftrightarrow> e = None \<and> view_ok v"
  by (simp add: view_fine_def)

lemma view_fine_and_then: "view_fine r \<Longrightarrow> (\<And>v. view_ok v \<Longrightarrow> view_fine (f v)) \<Longrightarrow> view_fine (and_then r f)"
  by (cases r) (auto simp: and_then_def)

lemma view_fine_for_each: "view_ok v \<Longrightarrow> (\<And>x v. x \<in> set xs \<Longrightarrow> view_ok v \<Longrightarrow> view_fine (f x v)) \<Longrightarrow> view_fine (for_each f xs v)"
  by (induction xs arbitrary: v) (auto intro: view_fine_and_then)

text \<open>The invariant does not look at what is drawn.\<close>

lemma view_ok_drawn [simp]:
  "view_ok (v\<lparr>v_info := s\<rparr>) = view_ok v" "view_ok (v\<lparr>v_cursor := s\<rparr>) = view_ok v" "view_ok (v\<lparr>v_curve := c\<rparr>) = view_ok v"
  "view_ok (v\<lparr>v_image := im\<rparr>) = view_ok v" "view_ok (v\<lparr>v_levels := l\<rparr>) = view_ok v"
  "view_ok (v\<lparr>v_widened := b\<rparr>) = view_ok v" "view_ok (v\<lparr>v_color_label := s\<rparr>) = view_ok v"
  "view_ok (v\<lparr>v_log_plots := b\<rparr>) = view_ok v" "view_ok (v\<lparr>v_emitted := n\<rparr>) = view_ok v"
  "view_ok (v\<lparr>v_shown := sh\<rparr>) = view_ok v" "view_ok (v\<lparr>v_axes := ax\<rparr>) = view_ok v" "view_ok (v\<lparr>v_ticks := ti\<rparr>) = view_ok v"
  "view_ok (v\<lparr>v_separators := b\<rparr>) = view_ok v" "view_ok (v\<lparr>v_page := s\<rparr>) = view_ok v" "view_ok (v\<lparr>v_legend := n'\<rparr>) = view_ok v"
  "view_ok (v\<lparr>v_log := b\<rparr>) = view_ok v"
  by (simp_all add: view_ok_def kind_of_current_def current_device_def histo_type_def cong: view_congs)

lemma view_ok_data_None: "view_ok v \<Longrightarrow> view_ok (v\<lparr>v_data := None\<rparr>)"
  by (simp add: view_ok_def kind_of_current_def current_device_def histo_type_def cong: view_congs)

lemma view_ok_data_Some: "view_ok v \<Longrightarrow> data_ok (v_kind v) (histo_type v) a \<Longrightarrow> view_ok (v\<lparr>v_data := Some a\<rparr>)"
  by (simp add: view_ok_def kind_of_current_def current_device_def histo_type_def cong: view_congs)

lemma view_ok_curves:
  "view_ok v \<Longrightarrow> length cs = MpsdChannelCount \<Longrightarrow> view_ok (v\<lparr>v_stacked := cs\<rparr>)"
  "view_ok v \<Longrightarrow> length cs = MpsdChannelCount \<Longrightarrow> view_ok (v\<lparr>v_overlay := cs\<rparr>)"
  by (simp_all add: view_ok_def kind_of_current_def current_device_def histo_type_def cong: view_congs)

lemma view_ok_set_image [simp]: "view_ok (set_image rows v) = view_ok v"
  by (simp add: set_image_def Let_def)

lemma view_ok_update_controls [simp]: "view_ok (update_controls v) = view_ok v"
  by (simp add: update_controls_def Let_def)

lemma channels_lt: "view_ok v \<Longrightarrow> ch \<in> set (channels v) \<Longrightarrow> ch < MpsdChannelCount"
  by (auto simp: view_ok_def channels_def in_set_enumerate_eq)

section \<open>Drawing\<close>

lemma selections_simps [simp]:
  "selections (v\<lparr>v_info := s\<rparr>) = selections v" "selections (v\<lparr>v_cursor := s\<rparr>) = selections v"
  "selections (v\<lparr>v_curve := c\<rparr>) = selections v" "selections (v\<lparr>v_overlay := o'\<rparr>) = selections v"
  "selections (v\<lparr>v_stacked := o'\<rparr>) = selections v" "selections (v\<lparr>v_data := d\<rparr>) = selections v"
  "selections (v\<lparr>v_image := im\<rparr>) = selections v" "selections (v\<lparr>v_emitted := n\<rparr>) = selections v"
  "selections (set_image rows v) = selections v" "selections (update_controls v) = selections v"
  "selections (clear_plots v) = selections v"
  by (simp_all add: selections_def set_image_def update_controls_def clear_plots_def Let_def)

lemma selections_redraw [simp]: "selections (fst (redraw v)) = selections v"
  by (simp add: redraw_def with_res_def Let_def split: option.split sum.split)

lemma selections_update_histograms [simp]: "selections (fst (update_histograms h v)) = selections v"
  by (simp add: update_histograms_def with_res_def split: option.split sum.split)

lemma redraw_fine:
  assumes ok: "view_ok v"
  shows "view_fine (redraw v)"
proof (cases "v_data v")
  case None
  with ok show ?thesis by (simp add: redraw_def)
next
  case (Some a)
  show ?thesis
  proof (cases "v_kind v = ''mdll'' \<or> mcpd_mode v = ''overview''")
    case True
    with ok Some show ?thesis by (auto simp: redraw_def Let_def)
  next
    case False
    with ok Some have "bus_histo a" by (simp add: view_ok_def data_ok_def)
    then obtain n where sub: "\<And>b. b < McpdBusCount \<Longrightarrow> sub a b = Inr (rows_of a ! b) \<and> has_shape [MpsdChannelCount, n] (rows_of a ! b)"
      by (rule bus_histo_parts) blast
    from ok have bus: "v_bus v < McpdBusCount" and len: "length (v_stacked v) = MpsdChannelCount" "length (v_overlay v) = MpsdChannelCount"
      by (simp_all add: view_ok_def)
    let ?b = "rows_of a ! v_bus v"
    have shape: "has_shape [MpsdChannelCount, n] ?b" using sub [OF bus] by simp
    then have rows: "length (rows_of ?b) = MpsdChannelCount" by (auto simp: has_shape_Cons)
    have "traverse (sub ?b) (channels v) = Inr (map (\<lambda>c. rows_of ?b ! c) (channels v))"
      using bus_parts(2) [OF shape] channels_lt [OF ok] by (intro traverse_all_ok) auto
    with ok Some False sub [OF bus] bus_parts(1) [OF shape] len rows show ?thesis
      by (simp add: redraw_def Let_def with_res_def view_ok_curves)
  qed
qed

definition good_histos :: "string \<Rightarrow> histograms \<Rightarrow> bool" where
  "good_histos kd h \<longleftrightarrow> list_all (\<lambda>(n, a). if kd = ''mdll'' then if n = ''xy'' then two_dim a else one_dim a else mcpd_histo a) h"

lemma good_histosD: "good_histos kd h \<Longrightarrow> dict_get h n = Some a \<Longrightarrow>
    if kd = ''mdll'' then if n = ''xy'' then two_dim a else one_dim a else mcpd_histo a"
  by (auto simp: good_histos_def list_all_iff dest!: dict_get_in)

lemma update_histograms_fine:
  assumes ok: "view_ok v" and good: "\<And>h. histos = Some h \<Longrightarrow> good_histos (v_kind v) h"
  shows "view_fine (update_histograms histos v)"
proof (cases histos)
  case None
  then show ?thesis using ok by (simp add: update_histograms_def redraw_fine view_ok_data_None)
next
  case (Some h)
  note good = good [OF Some]
  show ?thesis
  proof (cases "v_kind v = ''mdll''")
    case True
    have "view_ok (v\<lparr>v_data := dict_get h (histo_type v)\<rparr>)"
      using ok good_histosD [OF good, of "histo_type v"] True
      by (cases "dict_get h (histo_type v)") (auto simp: view_ok_data_None view_ok_data_Some data_ok_def)
    with True Some show ?thesis by (simp add: update_histograms_def redraw_fine)
  next
    case False
    show ?thesis
    proof (cases "dict_get h (mcpd_value v)")
      case None
      with False Some ok show ?thesis by (simp add: update_histograms_def redraw_fine view_ok_data_None)
    next
      case (Some a)
      with good_histosD [OF good this] False obtain b where "slice_channels MpsdChannelCount a = Inr b" "bus_histo b"
        using slice_channels_ok by auto
      with False \<open>histos = Some h\<close> Some ok show ?thesis
        by (simp add: update_histograms_def with_res_def redraw_fine view_ok_data_Some data_ok_def)
    qed
  qed
qed

section \<open>Controls\<close>

text \<open>A slot for \<open>selection_changed\<close> that changes only what is drawn.\<close>

definition slot_ok :: "(view \<Rightarrow> view outcome) \<Rightarrow> bool" where
  "slot_ok slot \<longleftrightarrow> (\<forall>v. view_ok v \<longrightarrow> view_fine (slot v)) \<and> (\<forall>v. selections (fst (slot v)) = selections v)"

text \<open>The slot of the window: the histograms of the selected device are fetched from the source \<open>src\<close>.\<close>

type_synonym histo_source = "string \<Rightarrow> device_key \<Rightarrow> histograms option"

definition fetch_into :: "histo_source \<Rightarrow> view \<Rightarrow> view outcome" where
  "fetch_into src v = (case device_key v of None \<Rightarrow> (v, None) | Some k \<Rightarrow> update_histograms (src (v_kind v) k) v)"

definition good_source :: "histo_source \<Rightarrow> bool" where
  "good_source src \<longleftrightarrow> (\<forall>kd k h. src kd k = Some h \<longrightarrow> good_histos kd h)"

lemma slot_okD: "slot_ok slot \<Longrightarrow> view_ok v \<Longrightarrow> view_fine (slot v)" "slot_ok slot \<Longrightarrow> selections (fst (slot v)) = selections v"
  by (simp_all add: slot_ok_def)

lemma slot_ok_fetch: "good_source src \<Longrightarrow> slot_ok (fetch_into src)"
  by (auto simp: slot_ok_def fetch_into_def good_source_def intro!: update_histograms_fine split: option.split)

lemma slot_ok_none: "slot_ok (\<lambda>v. (v, None))"
  by (simp add: slot_ok_def)

text \<open>Changing a selection empties the view before anything can look at it.\<close>

definition view_bare_ok :: "view \<Rightarrow> bool" where
  "view_bare_ok v \<longleftrightarrow> view_ok (v\<lparr>v_data := None\<rparr>)"

lemma selection_changed_fine:
  assumes "slot_ok slot" and "view_bare_ok v"
  shows "view_fine (view_selection_changed slot v)"
proof -
  have "update_controls v\<lparr>v_data := None\<rparr> = update_controls (v\<lparr>v_data := None\<rparr>)"
    by (simp add: update_controls_def Let_def channels_def mcpd_mode_def histo_type_def)
  then have "view_ok (update_controls v\<lparr>v_data := None\<rparr>)"
    using assms(2) by (simp add: view_bare_ok_def del: view_ok_drawn)
  moreover have "length (v_stacked v) = MpsdChannelCount" "length (v_overlay v) = MpsdChannelCount"
    using assms(2) by (simp_all add: view_bare_ok_def view_ok_def)
  ultimately have "view_ok (clear_plots (update_controls v\<lparr>v_data := None\<rparr>))"
    by (simp add: clear_plots_def view_ok_curves update_controls_def Let_def)
  with assms(1) show ?thesis by (simp add: view_selection_changed_def slot_okD)
qed

lemma selections_selection_changed:
  "slot_ok slot \<Longrightarrow> selections (fst (view_selection_changed slot v)) = selections v"
  by (simp add: view_selection_changed_def slot_okD)

text \<open>Changing one selection keeps what the emptied view needs.\<close>

lemma view_bare_selected:
  assumes "view_ok v"
  shows "i < length HISTO_TYPES \<Longrightarrow> view_bare_ok (v\<lparr>v_type := i\<rparr>)"
    and "i < length MCPD_VALUES \<Longrightarrow> view_bare_ok (v\<lparr>v_value := i\<rparr>)"
    and "i < length MCPD_MODES \<Longrightarrow> view_bare_ok (v\<lparr>v_mode := i\<rparr>)"
    and "i < McpdBusCount \<Longrightarrow> view_bare_ok (v\<lparr>v_bus := i\<rparr>)"
  using assms
  by (simp_all add: view_bare_ok_def view_ok_def kind_of_current_def current_device_def
      cong: view_congs)

lemma view_ok_channels: "view_ok v \<Longrightarrow> length bs = MpsdChannelCount \<Longrightarrow> view_ok (v\<lparr>v_channels := bs\<rparr>)"
  by (simp add: view_ok_def kind_of_current_def current_device_def histo_type_def cong: view_congs)

lemma picks_fine:
  assumes "slot_ok slot" and "view_ok v"
  shows "i < length HISTO_TYPES \<Longrightarrow> view_fine (set_type slot i v)"
    and "i < length MCPD_VALUES \<Longrightarrow> view_fine (set_value_index slot i v)"
    and "i < length MCPD_MODES \<Longrightarrow> view_fine (set_mode slot i v)"
    and "i < McpdBusCount \<Longrightarrow> view_fine (set_bus slot i v)"
    and "view_fine (set_channel ch b v)"
    and "view_fine (set_log b v)"
  using assms
  by (simp_all add: set_type_def set_value_index_def set_mode_def set_bus_def set_channel_def set_log_def
      on_channels_changed_def on_log_toggled_def selection_changed_fine view_bare_selected redraw_fine view_ok_channels
      view_ok_def [of v])

text \<open>The device that a list of entries selects.\<close>

lemma index_of_lt: "index_of x xs = Some i \<Longrightarrow> i < length xs \<and> xs ! i = x"
  by (induction xs arbitrary: i) (auto split: if_splits)

lemma index_of_None: "index_of x xs = None \<longleftrightarrow> x \<notin> set xs"
  by (induction xs) auto

definition entry_keys :: "view \<Rightarrow> pyval list list" where
  "entry_keys v = map (\<lambda>(l, k, kd). key_tuple k) (v_devices v)"

lemma select_index_cases:
  "v_devices v = [] \<Longrightarrow> select_index v ky = None"
  "v_devices v \<noteq> [] \<Longrightarrow> \<exists>i. select_index v ky = Some i \<and> i < length (v_devices v)
     \<and> entry_keys v ! i = (if ky \<noteq> None \<and> the ky \<in> set (entry_keys v) then the ky else entry_keys v ! 0)"
  by (auto simp: select_index_def find_device_def entry_keys_def index_of_None split: option.split dest: index_of_lt)

lemma kind_of_current_own:
  "kind_of_current (v\<lparr>v_kind := kind_of_current v\<rparr>) = kind_of_current v"
  "kind_of_current (v\<lparr>v_wanted := w, v_kind := kind_of_current v\<rparr>) = kind_of_current v"
  by (auto simp: kind_of_current_def current_device_def split: option.splits prod.splits)

definition device_ix_ok :: "view \<Rightarrow> bool" where
  "device_ix_ok v \<longleftrightarrow> (case v_device v of None \<Rightarrow> v_devices v = [] | Some i \<Rightarrow> i < length (v_devices v))"

lemma device_ix_select: "device_ix_ok (v\<lparr>v_device := select_index v ky\<rparr>)"
  using select_index_cases [of v ky] by (cases "v_devices v = []") (auto simp: device_ix_ok_def)

text \<open>Everything of \<open>view_ok\<close> that a change of device does not touch.\<close>

definition view_rest_ok :: "view \<Rightarrow> bool" where
  "view_rest_ok v \<longleftrightarrow>
     v_type v < length HISTO_TYPES \<and> v_value v < length MCPD_VALUES \<and> v_mode v < length MCPD_MODES
     \<and> v_bus v < McpdBusCount \<and> length (v_channels v) = MpsdChannelCount
     \<and> length (v_overlay v) = MpsdChannelCount \<and> length (v_stacked v) = MpsdChannelCount \<and> v_wanted v \<noteq> Some []"

lemma view_ok_split:
  "view_ok v \<longleftrightarrow> view_rest_ok v \<and> device_ix_ok v \<and> kind_of_current v = v_kind v
     \<and> (case v_data v of None \<Rightarrow> True | Some a \<Rightarrow> data_ok (v_kind v) (histo_type v) a)"
  by (auto simp: view_ok_def view_rest_ok_def device_ix_ok_def)

lemma kind_of_current_data [simp]: "kind_of_current (v\<lparr>v_data := d\<rparr>) = kind_of_current v"
  by (simp add: kind_of_current_def current_device_def cong: view_congs)

lemma view_bare_split: "view_bare_ok v \<longleftrightarrow> view_rest_ok v \<and> device_ix_ok v \<and> kind_of_current v = v_kind v"
  by (simp add: view_bare_ok_def view_ok_split view_rest_ok_def device_ix_ok_def cong: option.case_cong)

lemma view_rest_device [simp]:
  "view_rest_ok (v\<lparr>v_device := i\<rparr>) = view_rest_ok v" "view_rest_ok (v\<lparr>v_devices := ds\<rparr>) = view_rest_ok v"
  "view_rest_ok (v\<lparr>v_kind := kd\<rparr>) = view_rest_ok v"
  by (simp_all add: view_rest_ok_def)

lemma select_device_fine:
  assumes "slot_ok slot" and "view_ok v"
  shows "view_fine (select_device slot ky v)"
proof -
  let ?w = "v\<lparr>v_device := select_index v (Some ky)\<rparr>"
  have "view_bare_ok (?w\<lparr>v_wanted := None, v_kind := kind_of_current ?w\<rparr>)"
    using assms(2) device_ix_select [of v "Some ky"]
    by (simp add: view_bare_split view_ok_split kind_of_current_own)
      (simp add: view_rest_ok_def device_ix_ok_def cong: option.case_cong)
  then show ?thesis
    using assms by (simp add: select_device_def Let_def on_device_changed_def selection_changed_fine)
qed

section \<open>Device lists\<close>

lemma key_tuple_nonempty [simp]: "key_tuple k \<noteq> []"
  by (simp add: key_tuple_def)

definition new_keys :: "(device_key \<times> string \<times> string) list \<Rightarrow> pyval list list" where
  "new_keys ds = map (\<lambda>(k, l, kd). key_tuple k) ds"

text \<open>The key to select: the wanted device once it is there, otherwise the device selected so far.\<close>

definition wanted_key :: "(device_key \<times> string \<times> string) list \<Rightarrow> view \<Rightarrow> pyval list option" where
  "wanted_key ds v =
     (case v_wanted v of
        Some w \<Rightarrow> if w \<in> set (new_keys ds) then Some w else map_option key_tuple (device_key v)
      | None \<Rightarrow> map_option key_tuple (device_key v))"

definition wanted_after :: "(device_key \<times> string \<times> string) list \<Rightarrow> view \<Rightarrow> pyval list option" where
  "wanted_after ds v =
     (case v_wanted v of Some w \<Rightarrow> if w \<in> set (new_keys ds) then None else Some w | None \<Rightarrow> None)"

definition entries_of :: "(device_key \<times> string \<times> string) list \<Rightarrow> device_entry list" where
  "entries_of ds = map (\<lambda>(k, l, kd). (l, k, kd)) ds"

text \<open>The view with the new list, before the kind is compared.\<close>

definition listed :: "(device_key \<times> string \<times> string) list \<Rightarrow> view \<Rightarrow> view" where
  "listed ds v =
     (let v2 = v\<lparr>v_wanted := wanted_after ds v, v_devices := entries_of ds\<rparr>
      in v2\<lparr>v_device := select_index v2 (wanted_key ds v)\<rparr>)"

lemma set_devices_cases:
  "set_devices slot ds v =
     (if wanted_key ds v = map_option key_tuple (device_key v) \<and> v_devices v = entries_of ds
      then (v\<lparr>v_wanted := wanted_after ds v\<rparr>, None)
      else if map_option key_tuple (device_key (listed ds v)) \<noteq> map_option key_tuple (device_key v)
              \<or> kind_of_current (listed ds v) \<noteq> v_kind v
      then view_selection_changed slot ((listed ds v)\<lparr>v_kind := kind_of_current (listed ds v)\<rparr>)
      else (listed ds v, None))"
proof -
  have known: "map (\<lambda>(l, k, kd). (k, l, kd)) (v_devices v) = ds \<longleftrightarrow> v_devices v = entries_of ds"
    unfolding entries_of_def by (auto simp: comp_def case_prod_unfold)
  define found where "found = (case v_wanted v of None \<Rightarrow> False | Some w \<Rightarrow> w \<in> set (new_keys ds))"
  have found_eq: "(case v_wanted v of None \<Rightarrow> False | Some w \<Rightarrow> w \<in> set (map (\<lambda>(k, l, kd). key_tuple k) ds)) = found"
    unfolding found_def new_keys_def by simp
  have cur: "(if found then v_wanted v else map_option key_tuple (device_key v)) = wanted_key ds v"
    by (auto simp: found_def wanted_key_def split: option.split)
  have v1: "(if found then v\<lparr>v_wanted := None\<rparr> else v) = v\<lparr>v_wanted := wanted_after ds v\<rparr>"
    by (auto simp: found_def wanted_after_def split: option.split)
  have kind: "v_kind (listed ds v) = v_kind v" by (simp add: listed_def Let_def)
  show ?thesis
    unfolding set_devices_def Let_def found_eq cur v1 known entries_of_def [symmetric] listed_def [unfolded Let_def, symmetric]
      kind by simp
qed

lemma device_ix_listed: "device_ix_ok (listed ds v)"
  by (simp add: listed_def Let_def device_ix_select)

lemma view_rest_listed: "view_rest_ok v \<Longrightarrow> view_rest_ok (listed ds v)"
  by (auto simp: listed_def Let_def view_rest_ok_def wanted_after_def split: option.split)

lemma set_devices_fine:
  assumes slot: "slot_ok slot" and ok: "view_ok v"
  shows "view_fine (set_devices slot ds v)"
proof -
  let ?w = "listed ds v"
  have rest: "view_rest_ok ?w" and ix: "device_ix_ok ?w" and kind: "v_kind ?w = v_kind v" "v_data ?w = v_data v" "histo_type ?w = histo_type v"
    using ok by (simp_all add: view_rest_listed device_ix_listed view_ok_split) (simp_all add: listed_def Let_def histo_type_def)
  have "view_bare_ok (?w\<lparr>v_kind := kind_of_current ?w\<rparr>)"
    using rest ix by (simp add: view_bare_split kind_of_current_own) (simp add: device_ix_ok_def cong: option.case_cong)
  moreover have "view_ok ?w" if "kind_of_current ?w = v_kind v"
    using that rest ix ok kind by (simp add: view_ok_split cong: option.case_cong)
  moreover have "view_ok (v\<lparr>v_wanted := wanted_after ds v\<rparr>)"
    using ok by (auto simp: view_ok_def wanted_after_def kind_of_current_def current_device_def histo_type_def
        cong: view_congs split: option.split)
  ultimately show ?thesis
    by (simp add: set_devices_cases selection_changed_fine slot)
qed

lemma device_key_nth:
  "device_key v = (case v_device v of None \<Rightarrow> None | Some i \<Rightarrow> Some (fst (snd (v_devices v ! i))))"
  by (simp add: device_key_def current_device_def case_prod_unfold split: option.split)

lemma device_key_entry:
  "v_device v = Some i \<Longrightarrow> i < length (v_devices v) \<Longrightarrow> map_option key_tuple (device_key v) = Some (entry_keys v ! i)"
  by (simp add: device_key_nth entry_keys_def case_prod_unfold)

lemma current_key_listed:
  assumes "view_ok v" and "v_devices v = entries_of ds"
  shows "ds = [] \<Longrightarrow> device_key v = None" and "ds \<noteq> [] \<Longrightarrow> \<exists>k. device_key v = Some k \<and> key_tuple k \<in> set (new_keys ds)"
proof -
  have ix: "case v_device v of None \<Rightarrow> ds = [] | Some i \<Rightarrow> i < length ds"
    using assms by (auto simp: view_ok_def entries_of_def split: option.splits)
  then show "ds = [] \<Longrightarrow> device_key v = None" by (auto simp: device_key_nth split: option.splits)
  assume "ds \<noteq> []"
  with ix obtain i where i: "v_device v = Some i" "i < length ds" by (auto split: option.splits)
  then have "device_key v = Some (fst (ds ! i))"
    by (simp add: device_key_nth assms(2) entries_of_def case_prod_unfold)
  moreover have "key_tuple (fst (ds ! i)) \<in> set (new_keys ds)"
    using i by (auto simp: new_keys_def case_prod_unfold)
  ultimately show "\<exists>k. device_key v = Some k \<and> key_tuple k \<in> set (new_keys ds)" by blast
qed

lemma selections_parts:
  "selections u = selections u' \<Longrightarrow> v_devices u = v_devices u' \<and> v_wanted u = v_wanted u' \<and> device_key u = device_key u'
     \<and> v_kind u = v_kind u' \<and> kind_of_current u = kind_of_current u'"
  by (simp add: selections_def device_key_nth kind_of_current_def current_device_def cong: view_congs)

text \<open>
  A new device list (\<open>set_devices\<close>) replaces the entries, and the selection is: the device that
  a restored state asked for as soon as it is in the list; otherwise the device selected before
  if it is still there; otherwise the first of the list.  The wish of a restored state stays
  until its device appears.  The kind of the view is that of the selected device, so the controls
  and the histograms it asks for fit it.
\<close>

theorem device_list_selection:
  assumes "slot_ok slot" and "view_ok v"
  shows "case set_devices slot ds v of (w, e) \<Rightarrow>
      e = None \<and> view_ok w \<and> v_devices w = entries_of ds
      \<and> v_wanted w = wanted_after ds v
      \<and> map_option key_tuple (device_key w) =
          (if ds = [] then None
           else if wanted_key ds v \<noteq> None \<and> the (wanted_key ds v) \<in> set (new_keys ds) then wanted_key ds v
           else Some (hd (new_keys ds)))
      \<and> kind_of_current w = v_kind w"
proof -
  let ?w = "listed ds v"
  obtain w e where r: "set_devices slot ds v = (w, e)" by (cases "set_devices slot ds v")
  have fine: "e = None" "view_ok w" using set_devices_fine [OF assms, of ds] by (simp_all add: r)
  have listed_key: "map_option key_tuple (device_key ?w) =
      (if ds = [] then None
       else if wanted_key ds v \<noteq> None \<and> the (wanted_key ds v) \<in> set (new_keys ds) then wanted_key ds v
       else Some (hd (new_keys ds)))"
  proof (cases "ds = []")
    case True
    then show ?thesis by (simp add: listed_def Let_def device_key_nth select_index_def entries_of_def)
  next
    case False
    let ?u = "v\<lparr>v_wanted := wanted_after ds v, v_devices := entries_of ds\<rparr>"
    have ne: "v_devices ?u \<noteq> []" using False by (simp add: entries_of_def)
    have keys: "entry_keys ?u = new_keys ds" "new_keys ds ! 0 = hd (new_keys ds)"
      using False by (simp_all add: entry_keys_def entries_of_def new_keys_def case_prod_unfold comp_def hd_conv_nth)
    from select_index_cases(2) [OF ne, of "wanted_key ds v"] obtain i where i: "select_index ?u (wanted_key ds v) = Some i"
      "i < length (entries_of ds)" and at: "new_keys ds ! i =
         (if wanted_key ds v \<noteq> None \<and> the (wanted_key ds v) \<in> set (new_keys ds) then the (wanted_key ds v) else hd (new_keys ds))"
      unfolding keys by auto
    have "map_option key_tuple (device_key ?w) = Some (new_keys ds ! i)"
      using i by (simp add: listed_def Let_def device_key_nth entries_of_def new_keys_def case_prod_unfold)
    then show ?thesis using False at by auto
  qed
  have new: "v_devices ?w = entries_of ds" "v_wanted ?w = wanted_after ds v" by (simp_all add: listed_def Let_def)
  let ?c = "?w\<lparr>v_kind := kind_of_current ?w\<rparr>"
  have c: "v_devices ?c = v_devices ?w" "v_wanted ?c = v_wanted ?w" "device_key ?c = device_key ?w"
    by (simp_all add: device_key_nth cong: view_congs)
  note ch = selections_parts [OF selections_selection_changed [OF assms(1)], of ?c, unfolded c new]
  have kind: "kind_of_current w = v_kind w" using fine(2) by (simp add: view_ok_def)
  consider (same) "wanted_key ds v = map_option key_tuple (device_key v)" "v_devices v = entries_of ds"
      "w = v\<lparr>v_wanted := wanted_after ds v\<rparr>"
    | (changed) "w = fst (view_selection_changed slot ?c)" | (kept) "w = ?w"
    using r unfolding set_devices_cases by (auto split: if_splits)
  then have "v_devices w = entries_of ds \<and> v_wanted w = wanted_after ds v \<and> map_option key_tuple (device_key w) =
      (if ds = [] then None
       else if wanted_key ds v \<noteq> None \<and> the (wanted_key ds v) \<in> set (new_keys ds) then wanted_key ds v
       else Some (hd (new_keys ds)))"
  proof cases
    case same
    have "device_key w = device_key v" by (simp add: same device_key_nth cong: view_congs)
    with same current_key_listed [OF assms(2) same(2)] show ?thesis by (cases "ds = []") auto
  qed (use new listed_key ch in simp_all)
  with fine kind show ?thesis by (simp add: r)
qed

definition sample_view :: view where
  "sample_view = fst (new_view (\<lambda>v. (v, None)))"

lemma sample_view_ok: "view_ok sample_view"
  unfolding sample_view_def by code_simp

definition sample_devices :: "(device_key \<times> string \<times> string) list" where
  "sample_devices = [((1, 0), ''first'', ''mdll''), ((2, 3), ''second'', ''mcpd'')]"

lemma device_list_selection_witness:
  "device_key (fst (set_devices (\<lambda>v. (v, None)) sample_devices (sample_view\<lparr>v_wanted := Some [PInt 2, PInt 3]\<rparr>))) = Some (2, 3)"
proof -
  let ?v = "sample_view\<lparr>v_wanted := Some [PInt 2, PInt 3]\<rparr>"
  have ok: "view_ok ?v" unfolding sample_view_def by code_simp
  have keys: "new_keys sample_devices = [[PInt 1, PInt 0], [PInt 2, PInt 3]]" by code_simp
  have wanted: "wanted_key sample_devices ?v = Some [PInt 2, PInt 3]" by (simp add: wanted_key_def keys)
  obtain w e where "set_devices (\<lambda>v. (v, None)) sample_devices ?v = (w, e)" by fastforce
  with device_list_selection [OF slot_ok_none ok, of sample_devices] show ?thesis
    by (simp add: wanted keys sample_devices_def [THEN arg_cong, of "\<lambda>d. d = []"] key_tuple_def prod_eq_iff)
qed

section \<open>The image and the cursor\<close>

lemma concat_nth_blocks:
  assumes "\<forall>x\<in>set xss. length x = m" and "i < length xss" and "j < m"
  shows "concat xss ! (i * m + j) = xss ! i ! j" and "i * m + j < length (concat xss)"
  using assms
proof (induction xss arbitrary: i)
  case (Cons x xss)
  {
    case 1
    then show ?case using Cons.IH by (cases i) (auto simp: nth_append add.assoc)
  next
    case 2
    then show ?case using Cons.IH(2) by (cases i) (auto simp: add.assoc)
  }
qed simp_all

lemma flat_rows_bus:
  assumes "bus_histo a" and "y < McpdBusCount * MpsdChannelCount"
  shows "flat_rows a ! y = values_of (rows_of (rows_of a ! (y div MpsdChannelCount)) ! (y mod MpsdChannelCount))"
    and "length (flat_rows a) = McpdBusCount * MpsdChannelCount"
proof -
  from assms(1) obtain n as where a: "a = Arrays as" and len: "length as = McpdBusCount"
    and inner: "\<forall>x\<in>set as. has_shape [MpsdChannelCount, n] x" unfolding bus_histo_iff by (auto simp: has_shape_Cons)
  have flat: "flat_rows x = map values_of (rows_of x)" "length (rows_of x) = MpsdChannelCount"
    if "x \<in> set as" for x
  proof -
    from inner that obtain ys where x: "x = Arrays ys" and ys: "length ys = MpsdChannelCount" "\<forall>y\<in>set ys. has_shape [n] y"
      by (auto simp: has_shape_Cons)
    then have "map flat_rows ys = map (\<lambda>y. [values_of y]) ys" by (auto simp: has_shape_1)
    then have "concat (map flat_rows ys) = map values_of ys" by (simp only: concat_map_singleton)
    with x ys show "flat_rows x = map values_of (rows_of x)" "length (rows_of x) = MpsdChannelCount"
      by simp_all
  qed
  have lens: "\<forall>x\<in>set (map flat_rows as). length x = MpsdChannelCount" using flat by simp
  have y: "y = y div MpsdChannelCount * MpsdChannelCount + y mod MpsdChannelCount" by simp
  have i: "y div MpsdChannelCount < length as" and j: "y mod MpsdChannelCount < MpsdChannelCount"
    using assms(2) len by (simp_all add: less_mult_imp_div_less MpsdChannelCount_def)
  have "flat_rows a ! y = map flat_rows as ! (y div MpsdChannelCount) ! (y mod MpsdChannelCount)"
    using concat_nth_blocks(1) [OF lens _ j, of "y div MpsdChannelCount"] i by (simp add: a)
  with i j flat [OF nth_mem [OF i]] show "flat_rows a ! y = values_of (rows_of (rows_of a ! (y div MpsdChannelCount)) ! (y mod MpsdChannelCount))"
    by (simp add: a)
  have "length (concat (map flat_rows as)) = sum_list (map length (map flat_rows as))" by (simp add: length_concat)
  also have "map length (map flat_rows as) = map (\<lambda>_. MpsdChannelCount) as" using flat by simp
  finally show "length (flat_rows a) = McpdBusCount * MpsdChannelCount" by (simp add: a sum_list_triv len)
qed

lemma bus_histo_counts:
  assumes "bus_histo a"
  obtains n where "ndim a = 3" "last_dim a = n" "array_len a = McpdBusCount"
    "(case rows_of a of [] \<Rightarrow> 0 | b # _ \<Rightarrow> array_len b) = MpsdChannelCount"
proof -
  from assms obtain n where parts: "ndim a = 3" "last_dim a = n" "array_len a = McpdBusCount"
    and sub: "\<And>b. b < McpdBusCount \<Longrightarrow> sub a b = Inr (rows_of a ! b) \<and> has_shape [MpsdChannelCount, n] (rows_of a ! b)"
    and shape: "has_shape [McpdBusCount, MpsdChannelCount, n] a" by (rule bus_histo_parts) blast
  have "length (rows_of a) = McpdBusCount" using parts(3) shape by (auto simp: has_shape_Cons)
  then obtain r rs where r: "rows_of a = r # rs" by (cases "rows_of a") (auto simp: McpdBusCount_def)
  with sub [of 0] bus_parts(1) have "(case rows_of a of [] \<Rightarrow> 0 | b # _ \<Rightarrow> array_len b) = MpsdChannelCount"
    by (fastforce simp: McpdBusCount_def)
  with parts that show thesis by blast
qed

lemma overview_cursor:
  assumes "view_ok v" and "v_kind v \<noteq> ''mdll''" and "v_data v = Some a"
    and "y < length (flat_rows a)" and "x < length (flat_rows a ! y)"
  shows "mouse_moved_2d (int x) (int y) v =
     (v\<lparr>v_cursor := ''bus '' @ show_nat (y div MpsdChannelCount) @ '', ch'' @ show_nat (y mod MpsdChannelCount)
         @ '', bin '' @ show_int (int x) @ '': '' @ show_int (flat_rows a ! y ! x)\<rparr>, None)"
proof -
  have bh: "bus_histo a" using assms(1,2,3) by (simp add: view_ok_def data_ok_def)
  have zero: "0 < McpdBusCount * MpsdChannelCount" by (simp add: McpdBusCount_def MpsdChannelCount_def)
  have y: "y < McpdBusCount * MpsdChannelCount" using assms(4) flat_rows_bus(2) [OF bh zero] by simp
  note row = flat_rows_bus(1) [OF bh y]
  obtain n where parts: "ndim a = 3" "last_dim a = n" "array_len a = McpdBusCount"
    and sub: "\<And>b. b < McpdBusCount \<Longrightarrow> sub a b = Inr (rows_of a ! b) \<and> has_shape [MpsdChannelCount, n] (rows_of a ! b)"
    using bh by (rule bus_histo_parts) blast
  let ?b = "y div MpsdChannelCount" and ?c = "y mod MpsdChannelCount"
  have b: "?b < McpdBusCount" and c: "?c < MpsdChannelCount" using y by (simp_all add: less_mult_imp_div_less MpsdChannelCount_def)
  note bp = bus_parts [OF conjunct2 [OF sub [OF b]]]
  have x: "x < n" using assms(5) bp(4) [OF c] by (simp add: row)
  have chans: "(case rows_of a of [] \<Rightarrow> 0 | b # _ \<Rightarrow> array_len b) = MpsdChannelCount"
    using bh by (rule bus_histo_counts)
  have "bind_res (sub a ?b) (\<lambda>b. bind_res (sub b ?c) (\<lambda>z. item z x)) = Inr (flat_rows a ! y ! x)"
    using sub [OF b] bp(2) [OF c] bp(3) [OF c x] by (simp add: row)
  moreover have "int y < int (McpdBusCount * MpsdChannelCount)" using y by (simp only: of_nat_less_iff)
  ultimately show ?thesis using assms(2,3) parts chans x
    by (simp add: mouse_moved_2d_def Let_def with_res_def del: of_nat_mult)
qed


definition sample_counts_data :: ndarray where
  "sample_counts_data = Arrays (map (\<lambda>b. Arrays (map (\<lambda>c. Scalars [int b, int c]) [0..<MpsdChannelCount])) [0..<McpdBusCount])"


section \<open>Saving and restoring\<close>

lemma index_of_nth: "distinct xs \<Longrightarrow> i < length xs \<Longrightarrow> index_of (xs ! i) xs = Some i"
  by (induction xs arbitrary: i) (auto simp: nth_Cons split: nat.split)

text \<open>An operation that ends without an exception with the selections \<open>s\<close>.\<close>

definition selects :: "view outcome \<Rightarrow> _ \<Rightarrow> bool" where
  "selects r s \<longleftrightarrow> view_fine r \<and> selections (fst r) = s"

lemma selects_and_then: "selects r s \<Longrightarrow> (\<And>v. view_ok v \<Longrightarrow> selections v = s \<Longrightarrow> selects (f v) s') \<Longrightarrow> selects (and_then r f) s'"
  by (cases r) (auto simp: selects_def and_then_def)

lemma picks_select:
  assumes "slot_ok slot" and "view_ok v" and "selections v = (ds, d, w, k, ty, va, mo, bu, ch, lg)"
  shows "i < length HISTO_TYPES \<Longrightarrow> selects (set_type slot i v) (ds, d, w, k, i, va, mo, bu, ch, lg)"
    and "i < length MCPD_VALUES \<Longrightarrow> selects (set_value_index slot i v) (ds, d, w, k, ty, i, mo, bu, ch, lg)"
    and "i < length MCPD_MODES \<Longrightarrow> selects (set_mode slot i v) (ds, d, w, k, ty, va, i, bu, ch, lg)"
    and "i < McpdBusCount \<Longrightarrow> selects (set_bus slot i v) (ds, d, w, k, ty, va, mo, i, ch, lg)"
    and "selects (set_channel c b v) (ds, d, w, k, ty, va, mo, bu, ch[c := b], lg)"
    and "selects (set_log b v) (ds, d, w, k, ty, va, mo, bu, ch, b)"
proof -
  note fine = picks_fine [OF assms(1,2)]
  note sel = selections_selection_changed [OF assms(1)]
  have redrawn: "selections (fst (on_channels_changed u)) = selections u" "selections (fst (on_log_toggled b u)) = selections u" for u
    by (simp_all add: on_channels_changed_def on_log_toggled_def) (simp add: selections_def)
  show "i < length HISTO_TYPES \<Longrightarrow> selects (set_type slot i v) (ds, d, w, k, i, va, mo, bu, ch, lg)"
    using fine(1) assms(3) by (auto simp: selects_def set_type_def sel) (simp_all add: selections_def)
  show "i < length MCPD_VALUES \<Longrightarrow> selects (set_value_index slot i v) (ds, d, w, k, ty, i, mo, bu, ch, lg)"
    using fine(2) assms(3) by (auto simp: selects_def set_value_index_def sel) (simp_all add: selections_def)
  show "i < length MCPD_MODES \<Longrightarrow> selects (set_mode slot i v) (ds, d, w, k, ty, va, i, bu, ch, lg)"
    using fine(3) assms(3) by (auto simp: selects_def set_mode_def sel) (simp_all add: selections_def)
  show "i < McpdBusCount \<Longrightarrow> selects (set_bus slot i v) (ds, d, w, k, ty, va, mo, i, ch, lg)"
    using fine(4) assms(3) by (auto simp: selects_def set_bus_def sel) (simp_all add: selections_def)
  show "selects (set_channel c b v) (ds, d, w, k, ty, va, mo, bu, ch[c := b], lg)"
  proof (cases "v_channels v ! c = b")
    case True
    then have "(v_channels v)[c := b] = v_channels v" by (rule subst) (rule list_update_id)
    with True assms(2,3) show ?thesis by (simp add: selects_def set_channel_def) (simp add: selections_def)
  next
    case False
    then show ?thesis
      using fine(5) [of c b] assms(3) by (simp add: selects_def set_channel_def redrawn) (simp add: selections_def)
  qed
  show "selects (set_log b v) (ds, d, w, k, ty, va, mo, bu, ch, b)"
    using fine(6) [of b] assms(3) by (auto simp: selects_def set_log_def redrawn) (simp_all add: selections_def)
qed

lemma fold_update_nth: "length (fold (\<lambda>i bs. bs[i := g i]) is bs) = length bs
   \<and> (\<forall>j < length bs. fold (\<lambda>i bs. bs[i := g i]) is bs ! j = (if j \<in> set is then g j else bs ! j))"
  by (induction "is" arbitrary: bs) (auto simp: nth_list_update)

lemma fold_update_all: "length bs = n \<Longrightarrow> fold (\<lambda>i bs. bs[i := g i]) [0..<n] bs = map g [0..<n]"
  using fold_update_nth [of g "[0..<n]" bs] by (auto intro: nth_equalityI)

lemma channels_select:
  assumes "slot_ok slot" and "view_ok v" and "selections v = (ds, d, w, k, ty, va, mo, bu, ch, lg)"
  shows "selects (for_each (\<lambda>c v. set_channel c (g c) v) cs v) (ds, d, w, k, ty, va, mo, bu, fold (\<lambda>c bs. bs[c := g c]) cs ch, lg)"
  using assms(2,3)
proof (induction cs arbitrary: v ch)
  case Nil
  then show ?case by (simp add: selects_def)
next
  case (Cons c cs)
  show ?case
    unfolding for_each.simps fold_simps
    by (rule selects_and_then [OF picks_select(5) [OF assms(1) Cons.prems]]) (rule Cons.IH)
qed

lemma tables_distinct:
  "distinct (map fst HISTO_TYPES)" "distinct (map fst MCPD_VALUES)" "distinct (map fst MCPD_MODES)"
  by code_simp+

lemma set_combo_entry:
  "distinct (map fst items') \<Longrightarrow> i < length items' \<Longrightarrow> set_combo f items' (PStr (fst (items' ! i))) v = f i v"
  using index_of_nth [of "map fst items'" i] by (simp add: set_combo_def)

lemma saved_entries:
  "dict_get_or (save_state v) ''type'' PNone = PStr (histo_type v)"
  "dict_get_or (save_state v) ''value'' PNone = PStr (mcpd_value v)"
  "dict_get_or (save_state v) ''mode'' PNone = PStr (mcpd_mode v)"
  "dict_get_or (save_state v) ''bus'' PNone = PInt (int (v_bus v))"
  "dict_get_or (save_state v) ''channels'' PNone = PList (map (\<lambda>ch. PInt (int ch)) (channels v))"
  "dict_get_or (save_state v) ''log'' (PBool False) = PBool (v_log v)"
  "dict_get_or (save_state v) ''device'' PNone =
     (case (case v_wanted v of Some w \<Rightarrow> Some w | None \<Rightarrow> map_option key_tuple (device_key v)) of Some k \<Rightarrow> PList k | None \<Rightarrow> PNone)"
  by (simp_all add: save_state_def Let_def dict_get_or_def)

lemma channels_saved:
  "length (v_channels v) = n \<Longrightarrow> map (\<lambda>c. PInt (int c) \<in> (\<lambda>ch. PInt (int ch)) ` set (channels v)) [0..<n] = v_channels v"
  by (rule nth_equalityI) (auto simp: channels_def in_set_enumerate_eq image_iff)

definition saved_key :: "view \<Rightarrow> pyval list option" where
  "saved_key v = (case v_wanted v of Some w \<Rightarrow> Some w | None \<Rightarrow> map_option key_tuple (device_key v))"

text \<open>Restoring the state saved by \<open>v\<close> in a view \<open>u\<close>.\<close>

lemma restore_saved:
  assumes slot: "slot_ok slot" and v: "view_ok v" and u: "view_ok u"
  shows "selects (restore_state slot (save_state v) u)
     (v_devices u, v_device u, case saved_key v of Some k \<Rightarrow> Some k | None \<Rightarrow> v_wanted u, v_kind u,
      v_type v, v_value v, v_mode v, v_bus v, v_channels v, v_log v)"
proof -
  have ranges: "v_type v < length HISTO_TYPES" "v_value v < length MCPD_VALUES" "v_mode v < length MCPD_MODES"
    "v_bus v < McpdBusCount" "length (v_channels v) = MpsdChannelCount" "v_wanted v \<noteq> Some []"
    using v by (simp_all add: view_ok_def)
  note pick = picks_select [OF slot]
  have chs: "selects (restore_channels (PList (map (\<lambda>ch. PInt (int ch)) (channels v))) w) (a, b, c, d, e, f, g, h, v_channels v, j)"
    if "view_ok w" "selections w = (a, b, c, d, e, f, g, h, i, j)" for w a b c d e f g h i j
  proof -
    have len: "length i = MpsdChannelCount" "length (v_channels w) = MpsdChannelCount"
      using that by (auto simp: selections_def view_ok_def)
    show ?thesis
      using channels_select [OF slot that, of "\<lambda>c. PInt (int c) \<in> (\<lambda>ch. PInt (int ch)) ` set (channels v)" "[0..<MpsdChannelCount]"]
      unfolding fold_update_all [OF len(1)] channels_saved [OF ranges(5)]
      by (simp add: restore_channels_def len with_res_def)
  qed
  have dev: "selects (restore_device (case saved_key v of Some k \<Rightarrow> PList k | None \<Rightarrow> PNone) w)
      (a, b, case saved_key v of Some k \<Rightarrow> Some k | None \<Rightarrow> c, d, e, f, g, h, i, j)"
    if "view_ok w" "selections w = (a, b, c, d, e, f, g, h, i, j)" for w a b c d e f g h i j
  proof (cases "saved_key v")
    case None
    with that show ?thesis by (simp add: restore_device_def selects_def)
  next
    case (Some k)
    then have "k \<noteq> []" using ranges(6) by (auto simp: saved_key_def split: option.splits)
    moreover have "view_ok (w\<lparr>v_wanted := Some k\<rparr>)"
      using that(1) \<open>k \<noteq> []\<close> by (simp add: view_ok_def kind_of_current_def current_device_def histo_type_def cong: view_congs)
    ultimately show ?thesis
      using Some that(2) by (simp add: restore_device_def with_res_def selects_def) (simp add: selections_def)
  qed
  show ?thesis
    unfolding restore_state_def saved_entries saved_key_def [symmetric] truthy.simps
  proof (intro selects_and_then)
    let ?t = "\<lambda>ty va mo bu ch lg. (v_devices u, v_device u, v_wanted u, v_kind u, ty, va, mo, bu, ch, lg)"
    show "selects (set_combo (set_type slot) HISTO_TYPES (PStr (histo_type v)) u)
        (?t (v_type v) (v_value u) (v_mode u) (v_bus u) (v_channels u) (v_log u))"
      unfolding histo_type_def set_combo_entry [OF tables_distinct(1) ranges(1)]
      by (rule pick(1) [OF u _ ranges(1)]) (simp add: selections_def)
    show "selects (set_combo (set_value_index slot) MCPD_VALUES (PStr (mcpd_value v)) w)
        (?t (v_type v) (v_value v) (v_mode u) (v_bus u) (v_channels u) (v_log u))"
      if "view_ok w" "selections w = ?t (v_type v) (v_value u) (v_mode u) (v_bus u) (v_channels u) (v_log u)" for w
      unfolding mcpd_value_def set_combo_entry [OF tables_distinct(2) ranges(2)] by (rule pick(2) [OF that ranges(2)])
    show "selects (set_combo (set_mode slot) MCPD_MODES (PStr (mcpd_mode v)) w)
        (?t (v_type v) (v_value v) (v_mode v) (v_bus u) (v_channels u) (v_log u))"
      if "view_ok w" "selections w = ?t (v_type v) (v_value v) (v_mode u) (v_bus u) (v_channels u) (v_log u)" for w
      unfolding mcpd_mode_def set_combo_entry [OF tables_distinct(3) ranges(3)] by (rule pick(3) [OF that ranges(3)])
    show "selects (restore_bus slot (PInt (int (v_bus v))) w)
        (?t (v_type v) (v_value v) (v_mode v) (v_bus v) (v_channels u) (v_log u))"
      if "view_ok w" "selections w = ?t (v_type v) (v_value v) (v_mode v) (v_bus u) (v_channels u) (v_log u)" for w
      using pick(4) [OF that ranges(4)] ranges(4) by (simp add: restore_bus_def)
    show "selects (restore_channels (PList (map (\<lambda>ch. PInt (int ch)) (channels v))) w)
        (?t (v_type v) (v_value v) (v_mode v) (v_bus v) (v_channels v) (v_log u))"
      if "view_ok w" "selections w = ?t (v_type v) (v_value v) (v_mode v) (v_bus v) (v_channels u) (v_log u)" for w
      by (rule chs [OF that])
    show "selects (set_log (v_log v) w) (?t (v_type v) (v_value v) (v_mode v) (v_bus v) (v_channels v) (v_log v))"
      if "view_ok w" "selections w = ?t (v_type v) (v_value v) (v_mode v) (v_bus v) (v_channels v) (v_log u)" for w
      by (rule pick(6) [OF that])
  qed (rule dev)
qed

text \<open>
  A saved state is restored.  Restoring what \<open>save_state\<close> of one view delivers, in a new view
  connected to the window, ends without an error, selects type, value, mode, bus, channels and
  scale of the saved view, asks for its device, and saves the same state again.
\<close>

theorem view_state_roundtrip:
  assumes "view_ok v" and "good_source src" and "new_view (\<lambda>v. (v, None)) = (u, e)"
  shows "case restore_state (fetch_into src) (save_state v) u of (w, err) \<Rightarrow>
      err = None \<and> save_state w = save_state v \<and> v_wanted w = saved_key v \<and> mcpd_mode w = mcpd_mode v \<and> v_bus w = v_bus v
      \<and> channels w = channels v \<and> v_log w = v_log v \<and> histo_type w = histo_type v \<and> mcpd_value w = mcpd_value v"
proof -
  have u: "u = sample_view" using assms(3) by (simp add: sample_view_def)
  have new: "v_devices sample_view = []" "v_device sample_view = None" "v_wanted sample_view = None" unfolding sample_view_def by code_simp+
  obtain w err where r: "restore_state (fetch_into src) (save_state v) u = (w, err)" by fastforce
  have uok: "view_ok u" using sample_view_ok by (simp add: u)
  have "v_wanted u = None" "v_device u = None" by (simp_all add: u new)
  with restore_saved [OF slot_ok_fetch [OF assms(2)] assms(1) uok, unfolded r]
  have w: "err = None" "v_wanted w = saved_key v" "v_type w = v_type v" "v_value w = v_value v" "v_mode w = v_mode v"
    "v_bus w = v_bus v" "v_channels w = v_channels v" "v_log w = v_log v" "v_device w = None"
    by (simp_all add: selects_def selections_def split: option.splits)
  then have same: "histo_type w = histo_type v" "mcpd_value w = mcpd_value v" "mcpd_mode w = mcpd_mode v" "channels w = channels v"
    by (simp_all add: histo_type_def mcpd_value_def mcpd_mode_def channels_def)
  have "device_key w = None" using w(9) by (simp add: device_key_nth)
  then have key: "saved_key w = saved_key v" by (simp add: saved_key_def [of w] w(2) split: option.split)
  have "save_state w = save_state v"
    unfolding save_state_def Let_def saved_key_def [symmetric] key same w(6,8) by (rule refl)
  with w same show ?thesis by (simp add: r)
qed

definition sample_source :: histo_source where
  "sample_source kd k =
     (if kd = ''mcpd'' \<and> k = (2, 3) then Some [(''position'', sample_counts_data), (''amplitude'', sample_counts_data)]
      else if kd = ''mdll'' \<and> k = (1, 0) then Some [(''xy'', Arrays [Scalars [0, 1], Scalars [2, 3]]), (''x'', Scalars [4, 5])]
      else None)"

lemma sample_source_good: "good_source sample_source"
proof -
  have "good_histos ''mcpd'' [(''position'', sample_counts_data), (''amplitude'', sample_counts_data)]"
    "good_histos ''mdll'' [(''xy'', Arrays [Scalars [0, 1], Scalars [2, 3]]), (''x'', Scalars [4, 5])]" by code_simp+
  then show ?thesis by (auto simp: good_source_def sample_source_def)
qed

lemma view_state_roundtrip_witness:
  "case restore_state (fetch_into sample_source) (save_state (sample_view\<lparr>v_bus := 3, v_wanted := Some [PInt 2, PInt 3]\<rparr>)) sample_view of
     (w, err) \<Rightarrow> err = None \<and> v_bus w = 3 \<and> v_wanted w = Some [PInt 2, PInt 3]"
proof -
  let ?v = "sample_view\<lparr>v_bus := 3, v_wanted := Some [PInt 2, PInt 3]\<rparr>"
  have ok: "view_ok ?v" unfolding sample_view_def by code_simp
  have new: "new_view (\<lambda>v. (v, None)) = (sample_view, snd (new_view (\<lambda>v. (v, None))))" by (simp add: sample_view_def)
  from view_state_roundtrip [OF ok sample_source_good new] show ?thesis
    by (auto simp: saved_key_def)
qed

section \<open>Every history of a view\<close>

text \<open>
  What happens to a view: the user's selections and movements, new device lists, the timer of
  the window, a restored state.
\<close>

datatype view_event =
    PickType nat | PickValue nat | PickMode nat | PickBus nat | ToggleChannel nat bool | ToggleLog bool
  | PickDevice "pyval list" | NewDevices "(device_key \<times> string \<times> string) list" | Refresh | RestoreFrom view
  | Move1d int | Move2d int int | MoveStacked "(nat \<times> int) option"

fun view_handle :: "(view \<Rightarrow> view outcome) \<Rightarrow> view_event \<Rightarrow> view \<Rightarrow> view outcome" where
  "view_handle slot (PickType i) v = set_type slot i v"
| "view_handle slot (PickValue i) v = set_value_index slot i v"
| "view_handle slot (PickMode i) v = set_mode slot i v"
| "view_handle slot (PickBus i) v = set_bus slot i v"
| "view_handle slot (ToggleChannel c b) v = set_channel c b v"
| "view_handle slot (ToggleLog b) v = set_log b v"
| "view_handle slot (PickDevice k) v = select_device slot k v"
| "view_handle slot (NewDevices ds) v = set_devices slot ds v"
| "view_handle slot Refresh v = slot v"
| "view_handle slot (RestoreFrom u) v = restore_state slot (save_state u) v"
| "view_handle slot (Move1d x) v = mouse_moved_1d x v"
| "view_handle slot (Move2d x y) v = mouse_moved_2d x y v"
| "view_handle slot (MoveStacked h) v = mouse_moved_stacked h v"

text \<open>Entries that the combo boxes have; a plot that is there.\<close>

fun event_possible :: "view_event \<Rightarrow> bool" where
  "event_possible (PickType i) = (i < length HISTO_TYPES)"
| "event_possible (PickValue i) = (i < length MCPD_VALUES)"
| "event_possible (PickMode i) = (i < length MCPD_MODES)"
| "event_possible (PickBus i) = (i < McpdBusCount)"
| "event_possible (RestoreFrom u) = view_ok u"
| "event_possible (MoveStacked (Some (ch, x))) = (ch < MpsdChannelCount)"
| "event_possible e = True"

lemma ndim_pos: "ndim a \<noteq> 0"
  by (induction a rule: ndim.induct) auto

lemma mouse_1d_fine:
  assumes ok: "view_ok v"
  shows "view_fine (mouse_moved_1d x v)"
proof (cases "v_data v")
  case None
  with ok show ?thesis by (simp add: mouse_moved_1d_def)
next
  case (Some a)
  show ?thesis
  proof (cases "v_kind v = ''mdll''")
    case True
    with Some ok have "ndim a = 1 \<Longrightarrow> \<exists>xs. a = Scalars xs"
      using ndim_pos by (cases a rule: ndim.cases) auto
    with Some True ok show ?thesis by (auto simp: mouse_moved_1d_def with_res_def nat_less_iff)
  next
    case False
    with ok Some have "bus_histo a" by (simp add: view_ok_def data_ok_def)
    then obtain n where n: "last_dim a = n" and sub: "\<And>b. b < McpdBusCount \<Longrightarrow> sub a b = Inr (rows_of a ! b) \<and> has_shape [MpsdChannelCount, n] (rows_of a ! b)"
      by (rule bus_histo_parts) blast
    have bus: "v_bus v < McpdBusCount" using ok by (simp add: view_ok_def)
    let ?b = "rows_of a ! v_bus v"
    note bp = bus_parts [OF conjunct2 [OF sub [OF bus]]]
    have "\<exists>cs. traverse (\<lambda>ch. bind_res (sub ?b ch) (\<lambda>a. bind_res (item a (nat x)) (\<lambda>n. Inr (counts_text ch n)))) (channels v) = Inr cs"
      if "nat x < n"
      by (rule exI, rule traverse_all_ok [where g = "\<lambda>ch. counts_text ch (values_of (rows_of ?b ! ch) ! nat x)"])
        (use bp(2,3) channels_lt [OF ok] that in simp)
    with Some False ok sub [OF bus] n show ?thesis
      by (auto simp: mouse_moved_1d_def with_res_def nat_less_iff split: sum.split)
  qed
qed

lemma mouse_2d_fine:
  assumes ok: "view_ok v"
  shows "view_fine (mouse_moved_2d x y v)"
proof (cases "v_data v")
  case None
  with ok show ?thesis by (simp add: mouse_moved_2d_def)
next
  case (Some a)
  show ?thesis
  proof (cases "v_kind v = ''mdll''")
    case True
    have "\<exists>n. bind_res (sub a (nat y)) (\<lambda>r. item r (nat x)) = Inr n"
      if "ndim a = 2" "nat y < array_len a" "nat x < last_dim a"
    proof -
      have "two_dim a"
        using ok True Some that(1) by (auto simp: view_ok_def data_ok_def one_dim_def length_Suc_conv has_shape_1 split: if_splits)
      then obtain h w as where a: "a = Arrays as" "length as = h" and as: "\<forall>r\<in>set as. has_shape [w] r"
        by (auto simp: two_dim_def length_2 has_shape_Cons)
      from a that(2) obtain r rs where r: "as = r # rs" by (cases as) auto
      with as a have "last_dim a = w" by (auto simp: has_shape_1)
      moreover have "has_shape [w] (as ! nat y)" using as a that(2) by simp
      ultimately show ?thesis using a that by (auto simp: has_shape_1)
    qed
    with Some True ok show ?thesis by (auto simp: mouse_moved_2d_def with_res_def nat_less_iff split: sum.split)
  next
    case False
    with ok Some have bh: "bus_histo a" by (simp add: view_ok_def data_ok_def)
    show ?thesis
    proof (cases "0 \<le> y \<and> y < int (McpdBusCount * MpsdChannelCount) \<and> 0 \<le> x \<and> x < int (last_dim a)")
      case True
      then obtain i j where xy: "x = int j" "y = int i" by (metis nonneg_int_cases)
      from bh obtain n where n: "last_dim a = n" and sub: "\<And>b. b < McpdBusCount \<Longrightarrow> sub a b = Inr (rows_of a ! b) \<and> has_shape [MpsdChannelCount, n] (rows_of a ! b)"
        by (rule bus_histo_parts) blast
      have i: "i < McpdBusCount * MpsdChannelCount" and j: "j < n" using True xy n by (simp_all only: of_nat_less_iff)
      have b: "i div MpsdChannelCount < McpdBusCount" and c: "i mod MpsdChannelCount < MpsdChannelCount"
        using i by (simp_all add: less_mult_imp_div_less MpsdChannelCount_def)
      have "j < length (flat_rows a ! i)"
        using bus_parts(4) [OF conjunct2 [OF sub [OF b]] c] j by (simp add: flat_rows_bus(1) [OF bh i])
      moreover have "i < length (flat_rows a)" using i flat_rows_bus(2) [OF bh i] by simp
      ultimately show ?thesis
        using overview_cursor [OF ok False Some] ok by (simp add: xy)
    next
      case out: False
      from bh obtain n where parts: "ndim a = 3" "last_dim a = n" "array_len a = McpdBusCount"
        and chans: "(case rows_of a of [] \<Rightarrow> 0 | b # _ \<Rightarrow> array_len b) = MpsdChannelCount" by (rule bus_histo_counts)
      with out Some False ok show ?thesis by (auto simp: mouse_moved_2d_def Let_def)
    qed
  qed
qed

lemma mouse_stacked_fine:
  assumes ok: "view_ok v" and hit: "event_possible (MoveStacked h)"
  shows "view_fine (mouse_moved_stacked h v)"
proof (cases "v_data v")
  case None
  with ok show ?thesis by (simp add: mouse_moved_stacked_def)
next
  case (Some a)
  show ?thesis
  proof (cases "v_kind v = ''mcpd''")
    case False
    with ok Some show ?thesis by (simp add: mouse_moved_stacked_def)
  next
    case True
    with ok Some have "bus_histo a" by (simp add: view_ok_def data_ok_def)
    then obtain n where n: "last_dim a = n" and sub: "\<And>b. b < McpdBusCount \<Longrightarrow> sub a b = Inr (rows_of a ! b) \<and> has_shape [MpsdChannelCount, n] (rows_of a ! b)"
      by (rule bus_histo_parts) blast
    have bus: "v_bus v < McpdBusCount" using ok by (simp add: view_ok_def)
    note bp = bus_parts [OF conjunct2 [OF sub [OF bus]]]
    from sub [OF bus] bp(2,3) n hit True Some ok show ?thesis
      by (auto simp: mouse_moved_stacked_def with_res_def nat_less_iff split: option.split)
  qed
qed

lemma view_handle_fine:
  assumes slot: "slot_ok slot" and "event_possible e" and "view_ok v"
  shows "view_fine (view_handle slot e v)"
proof -
  note fine = picks_fine [OF slot assms(3)]
  show ?thesis
  proof (cases e)
    case (RestoreFrom u)
    with restore_saved [OF slot _ assms(3), of u] assms(2) show ?thesis by (simp add: selects_def)
  next
    case (MoveStacked h)
    then show ?thesis using mouse_stacked_fine [OF assms(3)] assms(2) by simp
  qed (use assms(2) fine select_device_fine [OF slot assms(3)] set_devices_fine [OF slot assms(3)]
       slot_okD(1) [OF slot assms(3)] mouse_1d_fine [OF assms(3)] mouse_2d_fine [OF assms(3)] in simp_all)
qed

text \<open>
  C22. A view never raises and stays consistent.  Whatever the user selects, whichever devices
  come and go, whatever is restored, and wherever the mouse moves, in any order, as long as the
  histograms come in the shapes of the bindings (their contents may change at any time): no
  handler ends with an error, the data held always has the shape that the selection needs, and
  the kind of the view is that of the selected device.
\<close>

theorem views_never_raise:
  assumes "list_all (\<lambda>(src, e). good_source src \<and> event_possible e) evs"
  shows "view_fine (and_then (new_view (\<lambda>v. (v, None))) (for_each (\<lambda>(src, e). view_handle (fetch_into src) e) evs))"
proof (rule view_fine_and_then)
  show "view_fine (new_view (\<lambda>v. (v, None)))" unfolding view_fine_def by code_simp
  fix v assume "view_ok v"
  then show "view_fine (for_each (\<lambda>(src, e). view_handle (fetch_into src) e) evs v)"
    using assms by (intro view_fine_for_each) (auto 0 3 simp: list_all_iff split_beta intro!: view_handle_fine slot_ok_fetch)
qed

lemma views_never_raise_witness:
  "view_fine (and_then (new_view (\<lambda>v. (v, None))) (for_each (\<lambda>(src, e). view_handle (fetch_into src) e)
     [(sample_source, NewDevices sample_devices), (sample_source, Refresh), (sample_source, PickDevice [PInt 2, PInt 3]),
      (sample_source, PickMode 2), (sample_source, Move2d 1 21), (sample_source, ToggleLog True)]))"
proof (rule views_never_raise)
  show "list_all (\<lambda>(src, e). good_source src \<and> event_possible e)
     [(sample_source, NewDevices sample_devices), (sample_source, Refresh), (sample_source, PickDevice [PInt 2, PInt 3]),
      (sample_source, PickMode 2), (sample_source, Move2d 1 21), (sample_source, ToggleLog True)]"
    by (simp add: sample_source_good MCPD_MODES_def)
qed

end
