(* ===== verification/Py_Path.thy ===== *)
theory Py_Path
  imports Py_Text
begin

text \<open>
  What the program uses of \<open>pathlib\<close> (its POSIX flavour): parsing a path into root and parts,
  writing it, joining and the parent.
\<close>

type_synonym path = "string \<times> string list"

text \<open>The components between slashes.\<close>

fun split_slash :: "string \<Rightarrow> string list" where
  "split_slash [] = [[]]"
| "split_slash (c # s) =
     (if c = CHR ''/'' then [] # split_slash s
      else (case split_slash s of p # ps \<Rightarrow> (c # p) # ps | [] \<Rightarrow> [[c]]))"

text \<open>Two leading slashes are kept, one or more than two are one.\<close>

definition path_root :: "string \<Rightarrow> string" where
  "path_root s =
     (if take 1 s \<noteq> ''/'' then []
      else if take 2 s = ''//'' \<and> take 3 s \<noteq> ''///'' then ''//'' else ''/'')"

definition parse_path :: "string \<Rightarrow> path" where
  "parse_path s = (path_root s, filter (\<lambda>p. p \<noteq> [] \<and> p \<noteq> ''.'') (split_slash s))"

fun slashed :: "string list \<Rightarrow> string" where
  "slashed [] = []"
| "slashed [p] = p"
| "slashed (p # ps) = p @ ''/'' @ slashed ps"

definition show_path :: "path \<Rightarrow> string" where
  "show_path p = (case p of (r, ps) \<Rightarrow> if r = [] \<and> ps = [] then ''.'' else r @ slashed ps)"

text \<open>\<open>a / b\<close>: an absolute \<open>b\<close> wins.\<close>

definition path_join :: "path \<Rightarrow> path \<Rightarrow> path" where
  "path_join a b = (if fst b \<noteq> [] then b else (fst a, snd a @ snd b))"

definition path_parent :: "path \<Rightarrow> path" where
  "path_parent p = (fst p, butlast (snd p))"

definition path_str :: "string \<Rightarrow> string" where
  "path_str s = show_path (parse_path s)"

text \<open>Writing a path and reading it back.\<close>

definition plain_part :: "string \<Rightarrow> bool" where
  "plain_part p \<longleftrightarrow> p \<noteq> [] \<and> p \<noteq> ''.'' \<and> CHR ''/'' \<notin> set p"

lemma split_slash_nonempty [simp]: "split_slash s \<noteq> []"
  by (induction s) (auto split: list.split)

lemma split_slash_plain: "CHR ''/'' \<notin> set p \<Longrightarrow> split_slash p = [p]"
  by (induction p) auto

lemma split_slash_append: "CHR ''/'' \<notin> set p \<Longrightarrow> split_slash (p @ CHR ''/'' # s) = p # split_slash s"
  by (induction p) auto

lemma split_slashed: "list_all plain_part ps \<Longrightarrow> split_slash (slashed ps) = (if ps = [] then [[]] else ps)"
  by (induction ps rule: slashed.induct) (auto simp: plain_part_def split_slash_plain split_slash_append)

lemma take_slashed: "list_all plain_part ps \<Longrightarrow> take 1 (slashed ps) \<noteq> ''/''"
proof (induction ps rule: slashed.induct)
  case (2 p)
  then show ?case by (cases p) (auto simp: plain_part_def)
next
  case (3 p q ps)
  then show ?case by (cases p) (auto simp: plain_part_def)
qed simp

lemma parse_show_path:
  assumes "list_all plain_part ps" and "r = [] \<or> r = ''/''"
  shows "parse_path (show_path (r, ps)) = (r, ps)"
proof -
  have keep: "filter (\<lambda>p. p \<noteq> [] \<and> p \<noteq> ''.'') ps = ps"
    using assms(1) by (auto simp: list_all_iff plain_part_def filter_id_conv)
  show ?thesis
  proof (cases "r = []")
    case True
    with assms(1) keep take_slashed [OF assms(1)] show ?thesis
      by (auto simp: show_path_def parse_path_def path_root_def split_slashed)
  next
    case False
    then have r: "r = ''/''" using assms(2) by simp
    have "take 2 (CHR ''/'' # slashed ps) \<noteq> ''//''"
      using take_slashed [OF assms(1)] by (cases "slashed ps") auto
    with assms(1) keep show ?thesis
      by (auto simp: r show_path_def parse_path_def path_root_def split_slashed)
  qed
qed

end
