(* ===== verification/Main_Window.thy ===== *)
theory Main_Window
  imports Pulser_Test Histo_View_Facts Py_Path
begin

text \<open>
  \<open>src/gui/main_window.py\<close>: the window that composes the device panel, the device workers, the
  pulser test, the readout, the statistics and the histogram views.  This theory holds its state,
  the readout and run control, the delivery of finished commands and the periodic updates.

  The setup's devices and the workers are those of the device panel (\<open>w_panel\<close>), the other
  fields of the setup are \<open>w_port\<close>, \<open>w_write\<close> and \<open>w_dir\<close>.  A histogram view is its dock's name
  and its state.  What the outside answers at the time of an event is the record \<open>win_env\<close>.
\<close>

section \<open>State\<close>

definition StatsInterval_ms :: int where
  "StatsInterval_ms = 500"

definition HistoInterval_ms :: int where
  "HistoInterval_ms = 250"

definition DrainDelay_ms :: int where
  "DrainDelay_ms = 300"

datatype level = Debug | Info | Warning | Error

text \<open>
  \<open>we_denied\<close>: the error of reading or writing a file; \<open>we_stamp\<close>: the time in a listfile's
  name; \<open>we_visible\<close>: the docks whose view is visible; \<open>we_left\<close>: the jobs that the thread of a
  removed device still runs; \<open>we_turns\<close>: the order in which the threads end; \<open>we_obj_str\<close>: \<open>str\<close>
  of a bound object; \<open>we_docks\<close> and \<open>we_geometry\<close>: the saved state of the dock area and the window.
\<close>

record ('w, 'c) win_env =
  we_api :: "('w, 'c) api"
  we_os :: os_env
  we_resolve :: resolver
  we_denied :: "string \<Rightarrow> exc option"
  we_now :: rat
  we_stamp :: string
  we_visible :: "string \<Rightarrow> bool"
  we_left :: "nat \<Rightarrow> nat"
  we_turns :: "turn list"
  we_obj_str :: "reply \<Rightarrow> string"
  we_docks :: pyval
  we_geometry :: string

text \<open>Calls to the dock area.\<close>

datatype dock_call = AddDock string string "string option" | MoveDock string string string | RaiseDock string | CloseDock string

text \<open>
  \<open>w_pending\<close> is \<open>_pending_stop\<close>, \<open>w_drains\<close> the number of armed \<open>singleShot(DrainDelay_ms,
  stop_readout)\<close>.  \<open>w_files\<close> are the setup files (their JSON values), \<open>w_stored\<close> the \<open>QSettings\<close>.
\<close>

record ('w, 'c) window =
  w_panel :: "('w, 'c) panel"
  w_pulser :: pulser
  w_port :: int
  w_write :: bool
  w_dir :: string
  w_path :: "string option"
  w_daq :: daq
  w_state :: string
  w_tracker :: tracker
  w_rows :: "device_row list"
  w_pending :: "nat list"
  w_drains :: nat
  w_listfile :: string
  w_widgets :: widgets
  w_status :: string
  w_title :: string
  w_cells :: "(string \<times> bool) list list"
  w_views :: "(string \<times> view) list"
  w_docks :: "dock_call list"
  w_log :: "(level \<times> string) list"
  w_files :: "(string, pyval) dict"
  w_stored :: "(string, pyval) dict"
  w_closed :: bool

type_synonym ('w, 'c) win_step = "('w, 'c) window \<Rightarrow> ('w, 'c) window outcome"

definition log_msg :: "level \<Rightarrow> string \<Rightarrow> ('w, 'c) window \<Rightarrow> ('w, 'c) window" where
  "log_msg l t w = w\<lparr>w_log := w_log w @ [(l, t)]\<rparr>"

text \<open>Steps that also give a value: \<open>ok_step\<close> and the sequencing \<open>bind_step\<close>.\<close>

definition bind_step :: "'s \<times> 'a res \<Rightarrow> ('a \<Rightarrow> 's \<Rightarrow> 's \<times> 'b res) \<Rightarrow> 's \<times> 'b res" where
  "bind_step r f = (case r of (s, Inl e) \<Rightarrow> (s, Inl e) | (s, Inr a) \<Rightarrow> f a s)"

definition end_step :: "'s \<times> 'a res \<Rightarrow> ('a \<Rightarrow> 's \<Rightarrow> 's outcome) \<Rightarrow> 's outcome" where
  "end_step r f = (case r of (s, Inl e) \<Rightarrow> (s, Some e) | (s, Inr a) \<Rightarrow> f a s)"

section \<open>The log view\<close>

fun html_escape :: "string \<Rightarrow> string" where
  "html_escape [] = []"
| "html_escape (c # s) =
     (if c = CHR ''&'' then ''&amp;'' else if c = CHR ''<'' then ''&lt;'' else if c = CHR ''>'' then ''&gt;''
      else if c = CHR 0x22 then ''&quot;'' else if c = CHR 0x27 then ''&#x27;'' else [c]) @ html_escape s"

datatype log_line = LogHtml string | LogPlain string

text \<open>\<open>_append_log(level, text)\<close>\<close>

definition append_log :: "level \<Rightarrow> string \<Rightarrow> log_line" where
  "append_log l t =
     (if l = Warning \<or> l = Error then
        LogHtml (''<span style='' @ [CHR 0x22] @ ''color:'' @ (if l = Error then ''#d03030'' else ''#c08000'') @ [CHR 0x22] @ ''>''
          @ html_escape t @ ''</span>'')
      else LogPlain t)"

section \<open>Histograms\<close>

text \<open>\<open>get_mdll_histograms\<close> and \<open>get_mcpd_histograms\<close>\<close>

definition histos_of :: "daq \<Rightarrow> histo_source" where
  "histos_of d kd k = (if kd = ''mdll'' then dict_get (mdll_histos d) k else dict_get (mcpd_histos d) k)"

text \<open>The loop of \<open>_update_histograms\<close> with its local \<open>cache\<close>.\<close>

fun update_views ::
  "histo_source \<Rightarrow> (string \<Rightarrow> bool) \<Rightarrow> ((string \<times> device_key), histograms option) dict \<Rightarrow> (string \<times> view) list
   \<Rightarrow> (string \<times> view) list outcome" where
  "update_views src visible cache [] = ([], None)"
| "update_views src visible cache ((n, v) # vs) =
     (if \<not> visible n \<or> device_key v = None then
        (case update_views src visible cache vs of (vs', e) \<Rightarrow> ((n, v) # vs', e))
      else
        (let k = (v_kind v, the (device_key v));
             cache1 = (if dict_get cache k = None then dict_set k (src (fst k) (snd k)) cache else cache)
         in case update_histograms (the (dict_get cache1 k)) v of
              (v', Some e) \<Rightarrow> ((n, v') # vs, Some e)
            | (v', None) \<Rightarrow> (case update_views src visible cache1 vs of (vs', e) \<Rightarrow> ((n, v') # vs', e))))"

definition win_update_histograms :: "('w, 'c) win_env \<Rightarrow> ('w, 'c) win_step" where
  "win_update_histograms env w =
     (case update_views (histos_of (w_daq w)) (we_visible env) [] (w_views w) of (vs, e) \<Rightarrow> (w\<lparr>w_views := vs\<rparr>, e))"

text \<open>
  An operation of view \<open>i\<close>.  The slot that it emits to is \<open>_update_histograms\<close>, whose effect on
  the view itself is \<open>fetch_into\<close>; the other views are updated after the operation, which makes no
  difference to them.
\<close>

definition view_slot :: "('w, 'c) win_env \<Rightarrow> ('w, 'c) window \<Rightarrow> string \<Rightarrow> view \<Rightarrow> view outcome" where
  "view_slot env w n = (if we_visible env n then fetch_into (histos_of (w_daq w)) else (\<lambda>v. (v, None)))"

definition on_view ::
  "('w, 'c) win_env \<Rightarrow> nat \<Rightarrow> ((view \<Rightarrow> view outcome) \<Rightarrow> view \<Rightarrow> view outcome) \<Rightarrow> ('w, 'c) win_step" where
  "on_view env i f w =
     (if i < length (w_views w) then
        (case w_views w ! i of (n, v) \<Rightarrow>
         case f (view_slot env w n) v of (v', e) \<Rightarrow>
           (let w1 = w\<lparr>w_views := (w_views w)[i := (n, v')]\<rparr> in
            if e = None \<and> v_emitted v' \<noteq> v_emitted v then win_update_histograms env w1 else (w1, e)))
      else (w, Some IndexError))"

section \<open>State and statistics\<close>

definition newline :: string where
  "newline = [CHR 0x0A]"

definition state_text :: "string \<Rightarrow> string" where
  "state_text st = (if st = ''idle'' then ''Idle'' else if st = ''readout'' then ''Readout running'' else ''Replay running'')"

text \<open>\<open>_set_state\<close>; the status bar shows the first line.\<close>

definition win_set_state :: "string \<Rightarrow> ('w, 'c) window \<Rightarrow> ('w, 'c) window" where
  "win_set_state st w =
     w\<lparr>w_state := st,
       w_widgets := set_text ''label_state''
         (state_text st @ (if st = ''readout'' \<and> w_listfile w \<noteq> [] then newline @ ''Listfile: '' @ w_listfile w else []))
         (daq_set_state st (w_widgets w)),
       w_status := state_text st\<rparr>"

text \<open>\<open>_device_choices\<close>: key, label, kind\<close>

definition device_choices :: "device_row list \<Rightarrow> (device_key \<times> string \<times> string) list" where
  "device_choices rows =
     map (\<lambda>r. (key r, row_label r, if is_mdll r then ''mdll'' else ''mcpd'')) (filter (\<lambda>r. is_mdll r \<or> is_mcpd r) rows)"

definition counters_text :: "worker_counters \<Rightarrow> string" where
  "counters_text c =
     ''packets: '' @ show_int (rc_packets c) @ '', invalid: '' @ show_int (rc_invalid_packets c) @ '', timeouts: ''
     @ show_int (rc_timeouts c) @ newline
     @ ''received: '' @ fmt_fixed 1 (of_int (rc_bytes c) / 10 ^ 6) @ '' MB, listfile: ''
     @ fmt_fixed 1 (of_int (rc_listfile_bytes c) / 10 ^ 6) @ '' MB''"

definition setup_devices :: "('w, 'c) window \<Rightarrow> device_config list" where
  "setup_devices w = map (p_heap (w_panel w)) (p_devs (w_panel w))"

text \<open>The first statement of \<open>_update_stats\<close>: an exception of the readout thread.\<close>

definition check_exception :: "('w, 'c) window \<Rightarrow> ('w, 'c) window" where
  "check_exception w =
     (if has_exception (w_daq w) then
        (let w1 = (case rethrow_exception (w_daq w) of
                     (d, None) \<Rightarrow> w\<lparr>w_daq := d\<rparr>
                   | (d, Some e) \<Rightarrow> log_msg Error (''Readout error: '' @ exc_str e) (w\<lparr>w_daq := d\<rparr>))
         in win_set_state ''idle'' (w1\<lparr>w_daq := daq_stop (w_daq w1)\<rparr>))
      else w)"

text \<open>The second: the state follows the readout.\<close>

definition sync_state :: "('w, 'c) window \<Rightarrow> ('w, 'c) window" where
  "sync_state w =
     (let running = is_running (w_daq w) in
      if w_state w \<noteq> ''idle'' \<and> \<not> running then
        win_set_state ''idle''
          ((log_msg Info (if w_state w = ''replay'' then ''Replay finished'' else ''Readout stopped'')
             (w\<lparr>w_daq := daq_stop (w_daq w)\<rparr>))\<lparr>w_listfile := []\<rparr>)
      else if w_state w = ''idle'' \<and> running then
        win_set_state (if local_port (w_daq w) \<noteq> 0 then ''readout'' else ''replay'') (w\<lparr>w_listfile := []\<rparr>)
      else w)"

text \<open>The third: rows, notes and the table.\<close>

definition track_stats :: "('w, 'c) win_env \<Rightarrow> ('w, 'c) window \<Rightarrow> ('w, 'c) window" where
  "track_stats env w =
     (case tracker_update (we_resolve env) (daq_stats (w_daq w)) (setup_devices w) (we_now env) (w_tracker w) of
        (t, rows, new_notes) \<Rightarrow>
          (fold (log_msg Warning) new_notes (w\<lparr>w_tracker := t, w_rows := rows\<rparr>))\<lparr>w_cells := update_rows rows\<rparr>)"

definition show_counters :: "('w, 'c) window \<Rightarrow> ('w, 'c) window" where
  "show_counters w = w\<lparr>w_widgets := set_text ''label_counters'' (counters_text (get_counters (w_daq w))) (w_widgets w)\<rparr>"

definition update_stats :: "('w, 'c) win_env \<Rightarrow> ('w, 'c) win_step" where
  "update_stats env w =
     (let w1 = track_stats env (sync_state (check_exception w)); choices = device_choices (w_rows w1) in
      and_then (for_each (\<lambda>i. on_view env i (\<lambda>slot. set_devices slot choices)) [0..<length (w_views w1)] w1)
        (\<lambda>w2. (show_counters w2, None)))"

section \<open>Readout control\<close>

text \<open>\<open>mcpd.Daq(port)\<close> replaces the readout when the port was changed; the old one ends.\<close>

definition ensure_daq_port :: "('w, 'c) win_step" where
  "ensure_daq_port w =
     (if listen_port (w_daq w) \<noteq> w_port w then
        with_res (make_daq (w_port w)) w (\<lambda>d. (w\<lparr>w_daq := d, w_tracker := tracker_reset (w_tracker w)\<rparr>, None))
      else (w, None))"

definition make_listfile_path :: "('w, 'c) win_env \<Rightarrow> ('w, 'c) window \<Rightarrow> string" where
  "make_listfile_path env w =
     (let name = ''run'' @ zero_pad 5 (show_int (spin_value (w_widgets w) ''spin_run_id'')) @ ''_'' @ we_stamp env @ ''.mcpdlst'' in
      show_path (path_join (parse_path (if w_dir w = [] then ''.'' else w_dir w)) (parse_path name)))"

definition start_readout :: "('w, 'c) win_env \<Rightarrow> bool \<Rightarrow> ('w, 'c) window \<Rightarrow> ('w, 'c) window \<times> bool res" where
  "start_readout env write w =
     (case ensure_daq_port w of
        (w1, Some e) \<Rightarrow> (w1, Inl e)
      | (w1, None) \<Rightarrow>
          (let w2 = w1\<lparr>w_listfile := (if write then make_listfile_path env w1 else [])\<rparr> in
           case daq_start_readout (we_os env) (w_listfile w2) False (w_daq w2) of
             (d, Some e) \<Rightarrow>
               ((log_msg Error (''Failed to start readout: '' @ exc_str e) (w2\<lparr>w_daq := d\<rparr>))\<lparr>w_listfile := []\<rparr>, Inr False)
           | (d, None) \<Rightarrow>
               (win_set_state ''readout''
                  (log_msg Info (''Readout started on port '' @ show_int (local_port d)
                     @ (if w_listfile w2 \<noteq> [] then '', writing '' @ w_listfile w2 else []))
                    (w2\<lparr>w_daq := d\<rparr>)), Inr True)))"

definition stop_readout :: "('w, 'c) win_env \<Rightarrow> ('w, 'c) win_step" where
  "stop_readout env w =
     (let w1 = log_msg Info (''Readout stopped'' @ (if w_listfile w \<noteq> [] then '', listfile '' @ w_listfile w else []))
                 (w\<lparr>w_daq := daq_stop (w_daq w)\<rparr>);
          w2 = win_set_state ''idle'' (w1\<lparr>w_listfile := []\<rparr>)
      in and_then (update_stats env w2) (win_update_histograms env))"

section \<open>Commands to the devices\<close>

definition enabled_devices :: "('w, 'c) window \<Rightarrow> nat list" where
  "enabled_devices w = filter (\<lambda>d. enabled (p_heap (w_panel w) d)) (p_devs (w_panel w))"

definition with_workers :: "(('w, 'c) gui_workers \<Rightarrow> ('w, 'c) gui_workers) \<Rightarrow> ('w, 'c) window \<Rightarrow> ('w, 'c) window" where
  "with_workers f w = w\<lparr>w_panel := (w_panel w)\<lparr>p_workers := f (p_workers (w_panel w))\<rparr>\<rparr>"

text \<open>\<open>workers.submit(cfg, label, lambda conn: getattr(conn, method)(*args))\<close>\<close>

definition submit_method ::
  "('w, 'c) win_env \<Rightarrow> string \<Rightarrow> pyval list \<Rightarrow> string \<Rightarrow> nat \<Rightarrow> ('w, 'c) window \<Rightarrow> ('w, 'c) window" where
  "submit_method env meth args label d w =
     with_workers (submit d (p_heap (w_panel w) d) label (\<lambda>n c. api_call (we_api env) n c (Call meth args [])) None) w"

definition send_to_enabled ::
  "('w, 'c) win_env \<Rightarrow> string \<Rightarrow> pyval list \<Rightarrow> string option \<Rightarrow> ('w, 'c) window \<Rightarrow> ('w, 'c) window" where
  "send_to_enabled env meth args label w =
     (let ds = enabled_devices w;
          w1 = (if ds = [] then log_msg Warning ''No enabled devices'' w else w)
      in fold (submit_method env meth args (case label of Some l \<Rightarrow> l | None \<Rightarrow> meth)) ds w1)"

text \<open>\<open>[d for d in devices if d.timing_role == "Master"]\<close>\<close>

definition masters_of :: "(nat \<Rightarrow> device_config) \<Rightarrow> nat list \<Rightarrow> nat list res" where
  "masters_of h ds =
     bind_res (traverse (\<lambda>d. bind_res (timing_role (h d)) (\<lambda>r. Inr (d, r = PStr ''Master''))) ds)
       (\<lambda>ps. Inr (map fst (filter snd ps)))"

definition master_device :: "('w, 'c) window \<Rightarrow> ('w, 'c) window \<times> nat option res" where
  "master_device w =
     (case masters_of (p_heap (w_panel w)) (enabled_devices w) of
        Inl e \<Rightarrow> (w, Inl e)
      | Inr [m] \<Rightarrow> (w, Inr (Some m))
      | Inr ms \<Rightarrow>
          (let names = join '', '' (map (\<lambda>d. dev_name (p_heap (w_panel w) d)) ms) in
           (log_msg Error (''Need exactly one enabled timing master, have '' @ show_nat (length ms) @ '' (''
              @ (if names = [] then ''none'' else names) @ '')'') w, Inr None)))"

definition send_to_master ::
  "('w, 'c) win_env \<Rightarrow> string \<Rightarrow> string option \<Rightarrow> ('w, 'c) window \<Rightarrow> ('w, 'c) window \<times> nat option res" where
  "send_to_master env meth label w =
     bind_step (master_device w) (\<lambda>m w1.
       (case m of None \<Rightarrow> w1
        | Some d \<Rightarrow> submit_method env meth [] (case label of Some l \<Rightarrow> l | None \<Rightarrow> meth) d w1, Inr m))"

definition reset_daq_clicked :: "('w, 'c) win_env \<Rightarrow> ('w, 'c) window \<Rightarrow> ('w, 'c) window" where
  "reset_daq_clicked env w = send_to_enabled env ''reset_daq'' [] None w"

section \<open>Run control\<close>

text \<open>What \<open>start_run\<close> does between the start of the readout and the commands.\<close>

definition fresh_counts :: "('w, 'c) window \<Rightarrow> ('w, 'c) window" where
  "fresh_counts w =
     (let w1 = w\<lparr>w_daq := reset_stats (w_daq w), w_tracker := tracker_reset (w_tracker w)\<rparr> in
      if is_checked (w_widgets w1) ''cb_clear_on_start'' then w1\<lparr>w_daq := clear_histograms (w_daq w1)\<rparr> else w1)"

definition set_run_id_label :: "int \<Rightarrow> string" where
  "set_run_id_label n = ''set_run_id('' @ show_int n @ '')''"

definition start_run :: "('w, 'c) win_env \<Rightarrow> ('w, 'c) win_step" where
  "start_run env w =
     end_step (master_device w) (\<lambda>m w1.
       if m = None then (w1, None)
       else
         end_step (start_readout env (w_write w1) w1) (\<lambda>started w2.
           if \<not> started then (w2, None)
           else
             (let w3 = fresh_counts w2;
                  run_id = spin_value (w_widgets w3) ''spin_run_id'';
                  w4 = send_to_enabled env ''set_run_id'' [PInt run_id] (Some (set_run_id_label run_id)) w3
              in end_step (send_to_master env ''start_daq'' None w4) (\<lambda>_ w5. (w5, None)))))"

definition continue_run :: "('w, 'c) win_env \<Rightarrow> ('w, 'c) win_step" where
  "continue_run env w =
     end_step (master_device w) (\<lambda>m w1.
       if m = None then (w1, None)
       else
         end_step (if w_state w1 = ''idle'' then start_readout env (w_write w1) w1 else (w1, Inr True)) (\<lambda>started w2.
           if \<not> started then (w2, None)
           else end_step (send_to_master env ''continue_daq'' None w2) (\<lambda>_ w3. (w3, None))))"

definition StopLabel :: string where
  "StopLabel = ''run:stop_daq''"

definition stop_run :: "('w, 'c) win_env \<Rightarrow> ('w, 'c) win_step" where
  "stop_run env w =
     end_step (send_to_master env ''stop_daq'' (Some StopLabel) w) (\<lambda>m w1.
       let w2 = w1\<lparr>w_pending := (case m of Some d \<Rightarrow> [d] | None \<Rightarrow> [])\<rparr> in
       if w_pending w2 = [] then stop_readout env w2 else (w2, None))"

definition start_replay :: "('w, 'c) win_env \<Rightarrow> string \<Rightarrow> ('w, 'c) window \<Rightarrow> ('w, 'c) window" where
  "start_replay env path w =
     (if path = [] then w
      else
        (let w1 = w\<lparr>w_daq := reset_stats (clear_sources (w_daq w)), w_tracker := tracker_reset (w_tracker w)\<rparr> in
         case daq_start_replay (we_os env) path (w_daq w1) of
           (d, Some e) \<Rightarrow> log_msg Error (''Failed to start replay: '' @ exc_str e) (w1\<lparr>w_daq := d\<rparr>)
         | (d, None) \<Rightarrow> win_set_state ''replay'' (log_msg Info (''Replaying '' @ path) (w1\<lparr>w_daq := d\<rparr>))))"

definition win_clear_histograms :: "('w, 'c) win_env \<Rightarrow> ('w, 'c) win_step" where
  "win_clear_histograms env w = win_update_histograms env (w\<lparr>w_daq := clear_histograms (w_daq w)\<rparr>)"

section \<open>Finished commands\<close>

definition lift_panel :: "(('w, 'c) panel \<Rightarrow> ('w, 'c) panel outcome) \<Rightarrow> ('w, 'c) win_step" where
  "lift_panel f w = (case f (w_panel w) of (p, e) \<Rightarrow> (w\<lparr>w_panel := p\<rparr>, e))"

definition report_finished :: "('w, 'c) win_env \<Rightarrow> panel_cb finished \<Rightarrow> ('w, 'c) win_step" where
  "report_finished env ev w =
     (let name = dev_name (p_heap (w_panel w) (fin_dev ev)); label = fin_label ev in
      case fin_result ev of
        Inl e \<Rightarrow> (log_msg Error (name @ '': '' @ label @ '': '' @ exc_str e) w, None)
      | Inr r \<Rightarrow>
          (let l = (if take (length LabelPrefix) label = LabelPrefix then Debug else Info);
               w1 = log_msg l (name @ '': '' @ label @ '': '' @ format_result (we_obj_str env) r) w
           in case fin_cb ev of None \<Rightarrow> (w1, None) | Some cb \<Rightarrow> lift_panel (on_success cb r) w1))"

text \<open>The end of \<open>_on_command_finished\<close>: a run was stopped.\<close>

definition check_stopped :: "panel_cb finished \<Rightarrow> ('w, 'c) window \<Rightarrow> ('w, 'c) window" where
  "check_stopped ev w =
     (if fin_label ev = StopLabel \<and> fin_dev ev \<in> set (w_pending w) then
        (let w1 = w\<lparr>w_pending := removeAll (fin_dev ev) (w_pending w)\<rparr> in
         if w_pending w1 = [] \<and> w_state w1 = ''readout'' then w1\<lparr>w_drains := Suc (w_drains w1)\<rparr> else w1)
      else w)"

definition on_command_finished :: "('w, 'c) win_env \<Rightarrow> panel_cb finished \<Rightarrow> ('w, 'c) win_step" where
  "on_command_finished env ev w = and_then (report_finished env ev w) (\<lambda>w1. (check_stopped ev w1, None))"

text \<open>
  The GUI thread takes the oldest \<open>finished\<close> signal: the pulser test is connected first, then
  the window.
\<close>

definition deliver_finished :: "('w, 'c) win_env \<Rightarrow> ('w, 'c) win_step" where
  "deliver_finished env w =
     (case gui_events (p_workers (w_panel w)) of
        [] \<Rightarrow> (w, None)
      | ev # evs \<Rightarrow>
          on_command_finished env ev
            ((with_workers (\<lambda>ws. ws\<lparr>gui_events := evs\<rparr>) w)\<lparr>w_pulser := on_finished (fin_label ev) (w_pulser w)\<rparr>))"

text \<open>The drain timer expires.\<close>

definition on_drained :: "('w, 'c) win_env \<Rightarrow> ('w, 'c) win_step" where
  "on_drained env w = (if w_drains w = 0 then (w, None) else stop_readout env (w\<lparr>w_drains := w_drains w - 1\<rparr>))"

section \<open>The pulser test in the window\<close>

definition pulser_step ::
  "('w, 'c) win_env \<Rightarrow> ((nat \<Rightarrow> device_config) \<Rightarrow> nat list \<Rightarrow> pulser \<Rightarrow> (pulser \<times> psub list) \<times> exc option) \<Rightarrow> ('w, 'c) win_step" where
  "pulser_step env f w =
     (let h = p_heap (w_panel w) in
      case f h (p_devs (w_panel w)) (w_pulser w) of
        ((p, subs), e) \<Rightarrow> (with_workers (submit_all (we_api env) h subs) (w\<lparr>w_pulser := p\<rparr>), e))"

definition stop_pulsers :: "('w, 'c) win_env \<Rightarrow> (pulser \<Rightarrow> pulser \<times> psub list) \<Rightarrow> ('w, 'c) window \<Rightarrow> ('w, 'c) window" where
  "stop_pulsers env f w = fst (pulser_step env (\<lambda>_ _ p. (f p, None)) w)"

end
