(* ===== verification/Main_Window_Setup.thy ===== *)
theory Main_Window_Setup
  imports Main_Window
begin

text \<open>
  \<open>src/gui/main_window.py\<close>, second part: histogram views and docks, the saved user interface,
  loading and saving setups, closing, and the start of the program.

  Files hold Python values: \<open>json.dumps\<close> followed by \<open>json.loads\<close> is the identity on what the
  program writes.
\<close>

section \<open>Histogram views\<close>

definition histogram_name :: "nat \<Rightarrow> string" where
  "histogram_name i = ''Histogram '' @ show_nat i"

text \<open>\<open>next(f"Histogram {i}" for i in range(len(used) + 1) if ... not in used)\<close>\<close>

definition fresh_name :: "string list \<Rightarrow> string res" where
  "fresh_name used =
     (case filter (\<lambda>n. n \<notin> set used) (map histogram_name [0..<card (set used) + 1]) of
        [] \<Rightarrow> Inl (OtherExc ''StopIteration'')
      | n # _ \<Rightarrow> Inr n)"

definition add_histo_view :: "('w, 'c) win_env \<Rightarrow> string \<Rightarrow> string option \<Rightarrow> ('w, 'c) win_step" where
  "add_histo_view env position name w =
     (case new_view (\<lambda>v. (v, None)) of
        (v, Some e) \<Rightarrow> (w, Some e)
      | (v, None) \<Rightarrow>
          with_res (case name of Some n \<Rightarrow> Inr n | None \<Rightarrow> fresh_name (map fst (w_views w))) w (\<lambda>n.
          let place = (if w_views w \<noteq> [] then AddDock n position (Some (fst (last (w_views w))))
                       else AddDock n ''top'' (Some ''Statistics''))
          in case set_devices (\<lambda>v. (v, None)) (device_choices (w_rows w)) v of
               (v', e) \<Rightarrow> (w\<lparr>w_docks := w_docks w @ [place], w_views := w_views w @ [(n, v')]\<rparr>, e)))"

text \<open>\<open>_on_histo_dock_closed\<close>\<close>

definition close_histo_view :: "string \<Rightarrow> ('w, 'c) window \<Rightarrow> ('w, 'c) window" where
  "close_histo_view n w = w\<lparr>w_docks := w_docks w @ [CloseDock n], w_views := filter (\<lambda>p. fst p \<noteq> n) (w_views w)\<rparr>"

definition close_histo_views :: "('w, 'c) window \<Rightarrow> ('w, 'c) window" where
  "close_histo_views w = (fold close_histo_view (map fst (w_views w)) w)\<lparr>w_views := []\<rparr>"

definition place_docks :: "dock_call list \<Rightarrow> ('w, 'c) window \<Rightarrow> ('w, 'c) window" where
  "place_docks cs w = w\<lparr>w_docks := w_docks w @ cs\<rparr>"

text \<open>\<open>self._add_histo_view(...).restore_state(...)\<close>\<close>

definition add_restored :: "('w, 'c) win_env \<Rightarrow> string \<Rightarrow> string option \<Rightarrow> view_state \<Rightarrow> ('w, 'c) win_step" where
  "add_restored env position name st w =
     and_then (add_histo_view env position name w)
       (\<lambda>w1. on_view env (length (w_views w1) - 1) (\<lambda>slot. restore_state slot st) w1)"

definition build_default_layout :: "('w, 'c) win_env \<Rightarrow> ('w, 'c) win_step" where
  "build_default_layout env w =
     and_then (and_then
       (add_restored env ''bottom'' None [(''type'', PStr ''xy''), (''mode'', PStr ''bus'')]
         (place_docks [AddDock ''DAQ'' ''left'' None, AddDock ''Devices'' ''bottom'' (Some ''DAQ''),
            AddDock ''Pulser Test'' ''bottom'' (Some ''Devices''), AddDock ''Statistics'' ''right'' None,
            AddDock ''Console'' ''above'' (Some ''Statistics''), RaiseDock ''Statistics''] w))
       (add_restored env ''right'' None [(''type'', PStr ''amplitude''), (''mode'', PStr ''overview'')]))
       (\<lambda>w1. (place_docks [AddDock ''Log'' ''right'' (Some ''Statistics'')] w1, None))"

definition reset_ui :: "('w, 'c) win_env \<Rightarrow> ('w, 'c) win_step" where
  "reset_ui env w = build_default_layout env (close_histo_views w)"

section \<open>The saved user interface\<close>

definition save_ui_state :: "('w, 'c) win_env \<Rightarrow> ('w, 'c) window \<Rightarrow> ('w, 'c) window" where
  "save_ui_state env w =
     w\<lparr>w_stored := dict_set ''ui_state''
        (PDict [(''geometry'', PStr (we_geometry env)),
                (''histograms'', PList (map (\<lambda>(n, v). PDict ((''name'', PStr n) # save_state v)) (w_views w))),
                (''docks'', we_docks env)]) (w_stored w)\<rparr>"

text \<open>\<open>_saved_dock_names.walk\<close>: a node is a list of kind, content and state.\<close>

fun walk_docks :: "pyval \<Rightarrow> pyval list res" where
  "walk_docks (PList [kd, PList cs, st]) =
     (if kd = PStr ''dock'' then Inl (TypeError ''unhashable type'')
      else bind_res (traverse walk_docks cs) (\<lambda>ns. Inr (concat ns)))"
| "walk_docks (PList [kd, c, st]) = (if kd = PStr ''dock'' then Inr [c] else Inl (TypeError ''not iterable''))"
| "walk_docks v = Inl (ValueError ''not enough values to unpack'')"

text \<open>\<open>d[k]\<close> of a value\<close>

fun member :: "pyval \<Rightarrow> string \<Rightarrow> pyval res" where
  "member (PDict d) k = dict_index d k"
| "member v k = Inl (TypeError ''not subscriptable'')"

text \<open>\<open>f[0]["main"]\<close>\<close>

fun float_main :: "pyval \<Rightarrow> pyval res" where
  "float_main (PList (f # fs)) = member f ''main''"
| "float_main (PList []) = Inl IndexError"
| "float_main v = Inl (TypeError ''not subscriptable'')"

definition saved_dock_names :: "pyval \<Rightarrow> pyval list res" where
  "saved_dock_names state =
     bind_res (member state ''main'') (\<lambda>m.
     bind_res (bind_res (member state ''float'') as_list) (\<lambda>fs.
     bind_res (traverse float_main fs) (\<lambda>ms.
     bind_res (traverse walk_docks (filter (\<lambda>r. r \<noteq> PNone) ((if m \<noteq> PNone then [m] else []) @ ms))) (\<lambda>ns.
     Inr (concat ns)))))"

definition restore_histogram :: "('w, 'c) win_env \<Rightarrow> pyval \<Rightarrow> ('w, 'c) win_step" where
  "restore_histogram env h w =
     with_res (bind_res (member h ''name'') as_str) w (\<lambda>n.
     with_res (items h) w (\<lambda>st. add_restored env ''bottom'' (Some n) st w))"

text \<open>The statements of the \<open>try\<close> block.\<close>

definition restore_saved_ui :: "('w, 'c) win_env \<Rightarrow> pyval \<Rightarrow> ('w, 'c) win_step" where
  "restore_saved_ui env state w =
     and_then
       (with_res (bind_res (member state ''histograms'') as_list) (close_histo_views w) (\<lambda>hs.
          for_each (restore_histogram env) hs (close_histo_views w)))
       (\<lambda>w1. with_res (bind_res (member state ''docks'') saved_dock_names) w1 (\<lambda>names.
          let w2 = (if PStr ''Pulser Test'' \<notin> set names then place_docks [MoveDock ''Pulser Test'' ''bottom'' ''Devices''] w1 else w1)
          in with_res (bind_res (member state ''geometry'') as_str) w2 (\<lambda>_. (w2, None))))"

definition restore_ui_state :: "('w, 'c) win_env \<Rightarrow> ('w, 'c) win_step" where
  "restore_ui_state env w =
     (case dict_get (w_stored w) ''ui_state'' of
        None \<Rightarrow> (w, None)
      | Some state \<Rightarrow>
          (case restore_saved_ui env state w of
             (w1, None) \<Rightarrow> (w1, None)
           | (w1, Some e) \<Rightarrow>
               reset_ui env (log_msg Warning (''Failed to restore ui state, using defaults: '' @ exc_str e) w1)))"

section \<open>Setups\<close>

definition current_setup :: "('w, 'c) window \<Rightarrow> gui_setup" where
  "current_setup w = \<lparr>data_port = w_port w, write_listfile = w_write w, listfile_dir = w_dir w, devices = setup_devices w\<rparr>"

definition read_setup :: "('w, 'c) win_env \<Rightarrow> (string, pyval) dict \<Rightarrow> string \<Rightarrow> gui_setup res" where
  "read_setup env files p =
     (case we_denied env p of
        Some e \<Rightarrow> Inl e
      | None \<Rightarrow> (case dict_get files p of None \<Rightarrow> Inl (OSErr p) | Some v \<Rightarrow> setup_from_dict v))"

definition write_setup :: "('w, 'c) win_env \<Rightarrow> string \<Rightarrow> ('w, 'c) win_step" where
  "write_setup env p w =
     (case we_denied env p of
        Some e \<Rightarrow> (w, Some e)
      | None \<Rightarrow> (w\<lparr>w_files := dict_set p (setup_asdict (current_setup w)) (w_files w)\<rparr>, None))"

definition edit_port :: "int \<Rightarrow> ('w, 'c) window \<Rightarrow> ('w, 'c) window" where
  "edit_port v w =
     (let ws = set_spin ''spin_port'' v (w_widgets w); new = spin_value ws ''spin_port'' in
      w\<lparr>w_widgets := ws, w_port := (if new \<noteq> spin_value (w_widgets w) ''spin_port'' then new else w_port w)\<rparr>)"

definition edit_listfile :: "bool \<Rightarrow> ('w, 'c) window \<Rightarrow> ('w, 'c) window" where
  "edit_listfile b w =
     w\<lparr>w_widgets := set_checked ''cb_listfile'' b (w_widgets w),
       w_write := (if b \<noteq> is_checked (w_widgets w) ''cb_listfile'' then b else w_write w)\<rparr>"

definition edit_dir :: "string \<Rightarrow> ('w, 'c) window \<Rightarrow> ('w, 'c) window" where
  "edit_dir t w =
     w\<lparr>w_widgets := set_text ''le_listdir'' t (w_widgets w),
       w_dir := (if t \<noteq> widget_text (w_widgets w) ''le_listdir'' then t else w_dir w)\<rparr>"

definition window_title :: "string option \<Rightarrow> string" where
  "window_title p = (case p of Some s \<Rightarrow> ''MPSD DAQ GUI - '' @ s | None \<Rightarrow> ''MPSD DAQ GUI'')"

text \<open>
  \<open>_load_setup_into_ui\<close>; \<open>install\<close> is the panel's \<open>set_setup\<close>, for new devices or for the same
  ones.
\<close>

definition load_setup_into_ui :: "('w, 'c) win_env \<Rightarrow> (('w, 'c) panel \<Rightarrow> ('w, 'c) panel outcome) \<Rightarrow> ('w, 'c) win_step" where
  "load_setup_into_ui env install w =
     (let w1 = stop_pulsers env panel_stop w; w2 = edit_port (w_port w1) w1;
          w3 = edit_listfile (w_write w2) w2; w4 = edit_dir (w_dir w3) w3
      in and_then (lift_panel install w4) (\<lambda>w5. (w5\<lparr>w_title := window_title (w_path w5)\<rparr>, None)))"

definition use_setup :: "gui_setup \<Rightarrow> ('w, 'c) window \<Rightarrow> ('w, 'c) window" where
  "use_setup s w = w\<lparr>w_port := data_port s, w_write := write_listfile s, w_dir := listfile_dir s\<rparr>"

definition install_devices :: "('w, 'c) win_env \<Rightarrow> device_config list \<Rightarrow> ('w, 'c) panel \<Rightarrow> ('w, 'c) panel outcome" where
  "install_devices env = set_setup (we_api env) (we_left env)"

text \<open>
  \<open>set_setup\<close> with the setup that is already shown: the workers end and the command values are
  forgotten, except those of the tree, which keeps its dictionary.
\<close>

definition reinstall_devices :: "('w, 'c) win_env \<Rightarrow> ('w, 'c) panel \<Rightarrow> ('w, 'c) panel outcome" where
  "reinstall_devices env p =
     and_then
       (refresh (p\<lparr>p_workers := fold (\<lambda>d. remove_worker (we_api env) (we_left env d) d) (p_devs p) (p_workers p),
                   p_values := filter (\<lambda>(d, _). p_tree_cfg p = Some d) (p_values p)\<rparr>))
       emit_changed"

definition new_setup_clicked :: "('w, 'c) win_env \<Rightarrow> ('w, 'c) win_step" where
  "new_setup_clicked env w =
     and_then (load_setup_into_ui env (install_devices env []) ((use_setup new_setup w)\<lparr>w_path := None\<rparr>))
       (\<lambda>w1. (log_msg Info ''Created new setup'' w1, None))"

definition remember :: "string \<Rightarrow> string \<Rightarrow> ('w, 'c) window \<Rightarrow> ('w, 'c) window" where
  "remember k v w = w\<lparr>w_stored := dict_set k (PStr v) (w_stored w)\<rparr>"

definition remember_setup_dir :: "string \<Rightarrow> ('w, 'c) window \<Rightarrow> ('w, 'c) window" where
  "remember_setup_dir p = remember ''last_setup_dir'' (show_path (path_parent (parse_path p)))"

definition remember_setup_path :: "('w, 'c) window \<Rightarrow> ('w, 'c) window" where
  "remember_setup_path w = remember ''last_setup_path'' (case w_path w of Some p \<Rightarrow> p | None \<Rightarrow> ''None'') w"

text \<open>\<open>path\<close> is the answer of the file dialog, empty when it was cancelled.\<close>

definition open_setup :: "('w, 'c) win_env \<Rightarrow> string \<Rightarrow> ('w, 'c) win_step" where
  "open_setup env path w =
     (if path = [] then (w, None)
      else
        (let w1 = remember_setup_dir path w in
         case read_setup env (w_files w1) (path_str path) of
           Inl e \<Rightarrow> (log_msg Error (''Failed to load setup '' @ path @ '': '' @ exc_str e) w1, None)
         | Inr s \<Rightarrow>
             and_then
               (load_setup_into_ui env (install_devices env (devices s))
                 (remember_setup_path ((use_setup s w1)\<lparr>w_path := Some (path_str path)\<rparr>)))
               (\<lambda>w2. (log_msg Info (''Loaded setup '' @ path) w2, None))))"

text \<open>\<open>_save_setup\<close> with a path\<close>

definition save_to :: "('w, 'c) win_env \<Rightarrow> string \<Rightarrow> ('w, 'c) window \<Rightarrow> ('w, 'c) window" where
  "save_to env p w =
     (case write_setup env p w of
        (w1, None) \<Rightarrow> log_msg Info (''Saved setup to '' @ p) (remember_setup_path w1)
      | (w1, Some e) \<Rightarrow> log_msg Error (''Failed to save setup '' @ p @ '': '' @ exc_str e) w1)"

definition save_setup_as :: "('w, 'c) win_env \<Rightarrow> string \<Rightarrow> ('w, 'c) win_step" where
  "save_setup_as env path w =
     (if path = [] then (w, None)
      else
        load_setup_into_ui env (reinstall_devices env)
          (save_to env (path_str path) ((remember_setup_dir path w)\<lparr>w_path := Some (path_str path)\<rparr>)))"

definition save_setup :: "('w, 'c) win_env \<Rightarrow> string \<Rightarrow> ('w, 'c) win_step" where
  "save_setup env path w =
     (case w_path w of None \<Rightarrow> save_setup_as env path w | Some p \<Rightarrow> (save_to env p w, None))"

definition choose_listdir :: "string \<Rightarrow> ('w, 'c) window \<Rightarrow> ('w, 'c) window" where
  "choose_listdir path w = (if path \<noteq> [] then edit_dir path w else w)"

text \<open>\<open>_setup_dialog_dir\<close>: \<open>is_dir\<close> and \<open>documents\<close> are the outside's.\<close>

definition setup_dialog_dir :: "(string \<Rightarrow> bool) \<Rightarrow> string \<Rightarrow> ('w, 'c) window \<Rightarrow> string" where
  "setup_dialog_dir is_dir documents w =
     (case dict_get (w_stored w) ''last_setup_dir'' of
        Some (PStr d) \<Rightarrow> if d \<noteq> [] \<and> is_dir d then d else documents
      | _ \<Rightarrow> documents)"

section \<open>Closing\<close>

definition close_event :: "('w, 'c) win_env \<Rightarrow> ('w, 'c) window \<Rightarrow> ('w, 'c) window" where
  "close_event env w =
     (let running = pu_running (w_pulser w);
          w1 = stop_pulsers env Pulser_Test.stop (w\<lparr>w_daq := daq_stop (w_daq w)\<rparr>);
          w2 = with_workers (shutdown (we_api env) running (we_turns env)) w1;
          w3 = save_ui_state env w2;
          w4 = (case w_path w3 of None \<Rightarrow> w3 | Some p \<Rightarrow> fst (write_setup env p w3))
      in w4\<lparr>w_closed := True\<rparr>)"

section \<open>The start of the program\<close>

text \<open>The window before its first statement that may raise.\<close>

definition blank_window :: "gui_setup \<Rightarrow> string option \<Rightarrow> daq \<Rightarrow> ('w, 'c) panel
    \<Rightarrow> (string, pyval) dict \<Rightarrow> (string, pyval) dict \<Rightarrow> ('w, 'c) window" where
  "blank_window s path d p files stored =
     \<lparr>w_panel = p, w_pulser = new_pulser, w_port = data_port s, w_write = write_listfile s, w_dir = listfile_dir s,
      w_path = path, w_daq = d, w_state = ''idle'', w_tracker = new_tracker, w_rows = [], w_pending = [], w_drains = 0,
      w_listfile = [], w_widgets = daq_panel_widgets, w_status = [], w_title = ''MPSD DAQ GUI'', w_cells = [], w_views = [],
      w_docks = [], w_log = [], w_files = files, w_stored = stored, w_closed = False\<rparr>"

definition new_window ::
  "('w, 'c) win_env \<Rightarrow> 'w \<Rightarrow> gui_setup \<Rightarrow> string option \<Rightarrow> (string, pyval) dict \<Rightarrow> (string, pyval) dict
   \<Rightarrow> ('w, 'c) window res" where
  "new_window env n0 s path files stored =
     bind_res (make_daq (data_port s)) (\<lambda>d.
     case new_panel n0 (devices s) of
       (p, Some e) \<Rightarrow> Inl e
     | (p, None) \<Rightarrow>
         (case and_then (and_then (build_default_layout env (blank_window s path d p files stored)) (restore_ui_state env))
                 (load_setup_into_ui env (reinstall_devices env)) of
            (w, Some e) \<Rightarrow> Inl e
          | (w, None) \<Rightarrow> Inr (win_set_state ''idle'' w)))"

text \<open>\<open>main\<close>: the setup file and the setup to start with.\<close>

definition choose_setup_path :: "string option \<Rightarrow> string \<Rightarrow> (string \<Rightarrow> bool) \<Rightarrow> (string, pyval) dict \<Rightarrow> string" where
  "choose_setup_path arg default_path exists stored =
     (case arg of
        Some a \<Rightarrow> if a \<noteq> [] then path_str a else
          (case dict_get stored ''last_setup_path'' of
             Some (PStr l) \<Rightarrow> if l \<noteq> [] \<and> exists (path_str l) then path_str l else default_path
           | _ \<Rightarrow> default_path)
      | None \<Rightarrow>
          (case dict_get stored ''last_setup_path'' of
             Some (PStr l) \<Rightarrow> if l \<noteq> [] \<and> exists (path_str l) then path_str l else default_path
           | _ \<Rightarrow> default_path))"

definition initial_setup :: "('w, 'c) win_env \<Rightarrow> (string, pyval) dict \<Rightarrow> string \<Rightarrow> gui_setup \<times> string option" where
  "initial_setup env files p =
     (if dict_get files p = None then (new_setup, None)
      else
        (case read_setup env files p of
           Inl e \<Rightarrow> (new_setup, Some (''Failed to load setup '' @ p @ '': '' @ exc_str e))
         | Inr s \<Rightarrow> (s, None)))"

definition main_window ::
  "('w, 'c) win_env \<Rightarrow> 'w \<Rightarrow> string option \<Rightarrow> string \<Rightarrow> (string, pyval) dict \<Rightarrow> (string, pyval) dict
   \<Rightarrow> ('w, 'c) window res" where
  "main_window env n0 arg default_path files stored =
     (let p = choose_setup_path arg default_path (\<lambda>q. dict_get files q \<noteq> None) stored in
      new_window env n0 (fst (initial_setup env files p)) (Some p) files stored)"

end
