(* ===== verification/Device_Panel_Invariant.thy ===== *)
theory Device_Panel_Invariant
  imports Device_Panel_Facts
begin

text \<open>
  The filter of the parameter tree and the invariant of the device panel: after every
  operation the configurations are well-formed, the selection is valid and the tree belongs
  to the selected device.
\<close>

section \<open>The filter\<close>

text \<open>The visibility flags of a tree in pre-order, and what they should be.\<close>

fun flags :: "pnode \<Rightarrow> bool list" where
  "flags (PNode n t i v e cs) = v # concat (map flags cs)"

fun has_match :: "string \<Rightarrow> pnode \<Rightarrow> bool" where
  "has_match tx (PNode n t i v e cs) \<longleftrightarrow>
     filter_matches tx (PNode n t i v e cs) \<or> (\<exists>c \<in> set cs. has_match tx c)"

fun shown :: "string \<Rightarrow> bool \<Rightarrow> bool \<Rightarrow> pnode \<Rightarrow> bool list" where
  "shown tx anc parent_shown (PNode n t i v e cs) =
     (let matched = anc \<or> filter_matches tx (PNode n t i v e cs);
          visible = anc \<or> has_match tx (PNode n t i v e cs)
      in (visible \<or> n = ActionName \<and> parent_shown) # concat (map (shown tx matched visible) cs))"

lemma visible_filter_update:
  "pn_visible (filter_update tx anc p) \<longleftrightarrow> anc \<or> has_match tx p"
  by (induction tx anc p rule: filter_update.induct) (auto simp: Let_def)

lemma flags_show_action:
  "flags (show_action c) = (pn_visible c \<or> pn_name c = ActionName) # tl (flags c)"
  by (cases c) (auto simp: show_action_def)

lemma name_filter_update [simp]: "pn_name (filter_update tx anc p) = pn_name p"
  by (cases p) (simp add: Let_def)

lemma shown_split:
  "shown tx anc act p = (hd (shown tx anc False p) \<or> pn_name p = ActionName \<and> act) # tl (shown tx anc False p)"
  by (cases p) (simp add: Let_def)

lemma flags_hd: "flags p = pn_visible p # tl (flags p)"
  by (cases p) simp

lemma flags_child:
  assumes "flags c = shown tx anc False q" "pn_name c = pn_name q"
  shows "flags (if act then show_action c else c) = shown tx anc act q"
proof -
  have "pn_visible c = hd (shown tx anc False q)"
    using assms(1) flags_hd [of c] by (metis list.sel(1))
  then show ?thesis
    using assms by (cases act) (auto simp: flags_show_action shown_split [of tx anc True q])
qed

lemma map_if_map:
  "(\<And>c. c \<in> set cs \<Longrightarrow> h (if b then f (g c) else g c) = k c) \<Longrightarrow>
   map h (if b then map f (map g cs) else map g cs) = map k cs"
  by (cases b) simp_all

lemma flags_filter_update: "flags (filter_update tx anc p) = shown tx anc False p"
proof (induction tx anc p rule: filter_update.induct)
  case (1 tx anc n t i v e cs)
  let ?p = "PNode n t i v e cs"
  let ?m = "anc \<or> filter_matches tx ?p"
  let ?vis = "anc \<or> has_match tx ?p"
  have child: "flags (if ?vis then show_action (filter_update tx ?m c) else filter_update tx ?m c)
      = shown tx ?m ?vis c" if "c \<in> set cs" for c
    using 1 [OF refl that] by (intro flags_child) simp_all
  have vis: "(?m \<or> (\<exists>c \<in> set (map (filter_update tx ?m) cs). pn_visible c)) = ?vis"
    by (auto simp: visible_filter_update)
  have "map flags (if ?vis then map show_action (map (filter_update tx ?m) cs) else map (filter_update tx ?m) cs)
      = map (shown tx ?m ?vis) cs"
    by (rule map_if_map) (rule child)
  then show ?case
    by (simp only: filter_update.simps Let_def vis flags.simps shown.simps) simp
qed

text \<open>What the filter leaves alone: names, titles, values and the shape of the tree.\<close>

fun bare :: "pnode \<Rightarrow> pnode" where
  "bare (PNode n t i v e cs) = PNode n t i True True (map bare cs)"

lemma bare_show_action [simp]: "bare (show_action c) = bare c"
  by (cases c) (simp add: show_action_def)

lemma bare_filter_update: "bare (filter_update tx anc p) = bare p"
proof (induction tx anc p rule: filter_update.induct)
  case (1 tx anc n t i v e cs)
  let ?m = "anc \<or> filter_matches tx (PNode n t i v e cs)"
  let ?vis = "?m \<or> (\<exists>c \<in> set (map (filter_update tx ?m) cs). pn_visible c)"
  have "bare (if ?vis then show_action (filter_update tx ?m c) else filter_update tx ?m c) = bare c"
    if "c \<in> set cs" for c
    using 1 [OF refl that] by (simp only: if_distrib [of bare] bare_show_action if_cancel)
  then have "map bare (if ?vis then map show_action (map (filter_update tx ?m) cs) else map (filter_update tx ?m) cs)
      = map bare cs"
    by (rule map_if_map)
  then show ?case by (simp only: filter_update.simps Let_def bare.simps)
qed

section \<open>Command values\<close>

definition scope_table :: "string \<Rightarrow> command list" where
  "scope_table scope = (if scope = ''device'' then COMMANDS else MPSD_COMMANDS)"

definition scopes_ok :: "scopes \<Rightarrow> bool" where
  "scopes_ok cv \<longleftrightarrow>
     (\<forall>scope s c v. dict_get cv scope = Some s \<longrightarrow> c \<in> set (scope_table scope) \<longrightarrow>
        dict_get s (cmd_key c) = Some v \<longrightarrow> set (map arg_name (cmd_args c)) \<subseteq> set (dict_keys v))"

lemma scopes_ok_Nil [simp]: "scopes_ok []"
  by (simp add: scopes_ok_def)

lemma scope_table_ok: "table_ok (scope_table scope)"
proof -
  have "table_ok COMMANDS" "table_ok MPSD_COMMANDS" by code_simp+
  then show ?thesis by (simp add: scope_table_def)
qed

lemma table_key_inj: "table_ok cs \<Longrightarrow> c \<in> set cs \<Longrightarrow> c' \<in> set cs \<Longrightarrow> cmd_key c = cmd_key c' \<Longrightarrow> c = c'"
  by (auto simp: table_ok_def distinct_map inj_on_def)

lemma keys_defaults: "set (dict_keys (defaults c)) = set (map arg_name (cmd_args c))"
proof -
  have "fst ` set (dict_update d kw) = fst ` set d \<union> fst ` set kw" for d kw :: arg_values
    unfolding dict_update_def by (induction kw arbitrary: d) (simp_all add: split_def set_dict_keys_set)
  then show ?thesis by (auto simp: defaults_def image_image)
qed

lemma values_for_get:
  "dict_get (values_for scope c cv) scope' =
     (if scope' = scope then Some (dict_setdefault (cmd_key c) (defaults c) (dict_get_or cv scope []))
      else dict_get cv scope')"
  by (auto simp: values_for_def)

lemma scopes_ok_values_for:
  assumes "scopes_ok cv" and "c \<in> set (scope_table scope)"
  shows "scopes_ok (values_for scope c cv)"
  unfolding scopes_ok_def
proof (intro allI impI)
  fix scope' s c' v
  assume s: "dict_get (values_for scope c cv) scope' = Some s" and c': "c' \<in> set (scope_table scope')"
    and v: "dict_get s (cmd_key c') = Some v"
  show "set (map arg_name (cmd_args c')) \<subseteq> set (dict_keys v)"
  proof (cases "scope' = scope \<and> cmd_key c' = cmd_key c \<and> dict_get (dict_get_or cv scope []) (cmd_key c) = None")
    case True
    then have "c' = c" using table_key_inj [OF scope_table_ok] c' assms(2) by blast
    moreover have "v = defaults c" using True s v by (auto simp: values_for_get dict_get_setdefault dict_get_or_def)
    ultimately show ?thesis by (simp only: keys_defaults)
  next
    case False
    then have "dict_get (dict_get_or cv scope' []) (cmd_key c') = Some v"
      using s v by (auto simp: values_for_get dict_get_setdefault dict_get_or_def split: if_splits option.splits)
    then obtain s0 where "dict_get cv scope' = Some s0" "dict_get s0 (cmd_key c') = Some v"
      by (auto simp: dict_get_or_def split: option.splits)
    with assms(1) c' show ?thesis by (auto simp: scopes_ok_def)
  qed
qed

text \<open>Once stored, values stay until they are edited.\<close>

lemma scope_values_values_for:
  "\<exists>v. scope_values (values_for scope c cv) scope (cmd_key c) = Inr v"
  "scope_values cv scope' k = Inr v \<Longrightarrow> scope_values (values_for scope c cv) scope' k = Inr v"
  by (auto simp: scope_values_def bind_res_Inr_iff opt_res_iff values_for_get dict_get_setdefault dict_get_or_def
      split: option.splits)

lemma fold_values_for:
  assumes "scopes_ok cv" and "set cs \<subseteq> set (scope_table scope)"
  shows "scopes_ok (fold (values_for scope) cs cv)"
    and "\<forall>c \<in> set cs. \<exists>v. scope_values (fold (values_for scope) cs cv) scope (cmd_key c) = Inr v"
proof -
  show "scopes_ok (fold (values_for scope) cs cv)"
    using assms by (induction cs arbitrary: cv) (simp_all add: scopes_ok_values_for)
  have keep: "scope_values cv' scope k = Inr v \<Longrightarrow> scope_values (fold (values_for scope) cs' cv') scope k = Inr v" for cs' cv' k v
    by (induction cs' arbitrary: cv') (simp_all add: scope_values_values_for(2))
  show "\<forall>c \<in> set cs. \<exists>v. scope_values (fold (values_for scope) cs cv) scope (cmd_key c) = Inr v"
  proof (induction cs arbitrary: cv)
    case Nil
    then show ?case by simp
  next
    case (Cons c cs)
    then show ?case using keep scope_values_values_for(1) by (metis fold_simps(2) set_ConsD)
  qed
qed

section \<open>Building the tree does not raise\<close>

lemma command_group_total:
  assumes "set (map arg_name (cmd_args c)) \<subseteq> set (dict_keys v)"
  shows "\<exists>g. command_group c v t = Inr g"
proof -
  have "\<exists>x. dict_get v (arg_name a) = Some x" if "a \<in> set (cmd_args c)" for a
  proof -
    have "arg_name a \<in> set (dict_keys v)" using assms that by auto
    then show ?thesis by (metis list.set_map map_of_eq_None_iff not_Some_eq)
  qed
  then have "traverse (\<lambda>a. bind_res (dict_index v (arg_name a)) (\<lambda>x. Inr (arg_param a x))) (cmd_args c) =
      Inr (map (\<lambda>a. arg_param a (the (dict_get v (arg_name a)))) (cmd_args c))"
    by (intro traverse_all_ok) (fastforce simp: dict_index_def)
  then show ?thesis by (simp add: command_group_def)
qed

lemma traverse_total: "(\<And>x. x \<in> set xs \<Longrightarrow> \<exists>y. f x = Inr y) \<Longrightarrow> \<exists>ys. traverse f xs = Inr ys"
  by (induction xs) fastforce+

lemma settings_groups_total: "settings_shape cs s \<Longrightarrow> \<exists>gs. settings_groups cs s = Inr gs"
  unfolding settings_groups_def
proof (rule traverse_total)
  fix c assume s: "settings_shape cs s" and "c \<in> set cs"
  then obtain v where "dict_get s (cmd_key c) = Some v" "dict_keys v = map arg_name (cmd_args c)"
    using settings_shape_get by blast
  then show "\<exists>y. bind_res (setting_values s (cmd_key c)) (\<lambda>v. command_group c v ''Apply'') = Inr y"
    using command_group_total [of c v "''Apply''"] by (simp add: setting_values_def)
qed

lemma commands_groups_total:
  assumes "scopes_ok cv" "set cs \<subseteq> set (scope_table scope)"
    and "\<forall>c \<in> set cs. \<exists>v. scope_values cv scope (cmd_key c) = Inr v"
  shows "\<exists>gs. commands_groups cs scope cv = Inr gs"
  unfolding commands_groups_def
proof (rule traverse_total)
  fix c assume c: "c \<in> set cs"
  then obtain v where v: "scope_values cv scope (cmd_key c) = Inr v" using assms(3) by blast
  then obtain s where s: "dict_get cv scope = Some s" "dict_get s (cmd_key c) = Some v"
    by (auto simp: scope_values_def bind_res_Inr_iff opt_res_iff)
  have "c \<in> set (scope_table scope)" using assms(2) c by blast
  then have "set (map arg_name (cmd_args c)) \<subseteq> set (dict_keys v)"
    using s assms(1) unfolding scopes_ok_def by blast
  then show "\<exists>y. bind_res (scope_values cv scope (cmd_key c)) (\<lambda>v. command_group c v ''Run'') = Inr y"
    using command_group_total [of c v "''Run''"] v by simp
qed

lemma bus_scope_device [simp]: "bus_scope b \<noteq> ''device''"
  by (simp add: bus_scope_def)

lemma bus_group_total:
  assumes "scopes_ok cv" "mpsd_ok m" "b < length (mpsds cfg)"
  shows "\<exists>cv' g. bus_group cfg b m cv = (cv', Inr g) \<and> scopes_ok cv'"
proof -
  let ?cv = "fold (values_for (bus_scope b)) MPSD_COMMANDS cv"
  have tab: "set MPSD_COMMANDS \<subseteq> set (scope_table (bus_scope b))" by (simp add: scope_table_def)
  note ok = fold_values_for [OF assms(1) tab]
  obtain sets where "settings_groups MPSD_SETTINGS (mpsd_settings m) = Inr sets"
    using assms(2) settings_groups_total by (auto simp: mpsd_ok_def)
  moreover obtain cmds where "commands_groups MPSD_COMMANDS (bus_scope b) ?cv = Inr cmds"
    using commands_groups_total [OF ok(1) tab ok(2)] by blast
  moreover obtain t where "bus_title cfg b = Inr t" using assms(3) by (simp add: bus_title_def)
  ultimately show ?thesis using ok(1) by (simp add: bus_group_def Let_def)
qed

lemma bus_groups_total:
  assumes "scopes_ok cv" "\<And>b m. (b, m) \<in> set bms \<Longrightarrow> mpsd_ok m \<and> b < length (mpsds cfg)"
  shows "\<exists>cv' gs. bus_groups cfg bms cv = (cv', Inr gs) \<and> scopes_ok cv'"
  using assms
proof (induction bms arbitrary: cv)
  case Nil
  then show ?case by simp
next
  case (Cons bm bms)
  obtain b m where bm: "bm = (b, m)" by (cases bm)
  obtain cv1 g where g: "bus_group cfg b m cv = (cv1, Inr g)" "scopes_ok cv1"
    using bus_group_total [OF Cons.prems(1), of m b cfg] Cons.prems(2) [of b m] bm by auto
  obtain cv2 gs where "bus_groups cfg bms cv1 = (cv2, Inr gs)" "scopes_ok cv2"
    using Cons.IH [OF g(2)] Cons.prems(2) by auto
  with g bm show ?case by simp
qed

lemma build_tree_total:
  assumes "device_ok cfg" "scopes_ok cv"
  shows "\<exists>cv' gs. build_tree cfg cv = (cv', Inr gs) \<and> scopes_ok cv'"
proof -
  let ?t = "device_type cfg"
  let ?cv = "fold (values_for ''device'') (commands_for ?t) cv"
  have tab: "set (commands_for ?t) \<subseteq> set (scope_table ''device'')"
    by (auto simp: scope_table_def commands_for_def COMMANDS_def)
  note ok = fold_values_for [OF assms(2) tab]
  obtain sets where s: "settings_groups (settings_for ?t) (settings cfg) = Inr sets"
    using assms(1) settings_groups_total by (auto simp: device_ok_def)
  obtain cmds where c: "commands_groups (commands_for ?t) ''device'' ?cv = Inr cmds"
    using commands_groups_total [OF ok(1) tab ok(2)] by blast
  have bms: "mpsd_ok m \<and> b < length (mpsds cfg)" if "(b, m) \<in> set (enumerate 0 (mpsds cfg))" for b m
  proof -
    have "b < length (mpsds cfg)" "mpsds cfg ! b = m" using that by (auto simp: in_set_enumerate_eq)
    then have "m \<in> set (mpsds cfg)" by (metis nth_mem)
    with \<open>b < length (mpsds cfg)\<close> assms(1) show ?thesis by (simp add: device_ok_def list_all_iff)
  qed
  obtain cv2 gs where b: "bus_groups cfg (enumerate 0 (mpsds cfg)) ?cv = (cv2, Inr gs)" "scopes_ok cv2"
    using bus_groups_total [OF ok(1) bms] by blast
  show ?thesis
  proof (cases "?t = ''mcpd''")
    case True
    with s c b show ?thesis by (simp add: build_tree_def Let_def)
  next
    case False
    with s c ok(1) show ?thesis by (simp add: build_tree_def Let_def)
  qed
qed

section \<open>The invariant\<close>

text \<open>A configuration the table can show: the timing role is a string.\<close>

definition role_ok :: "device_config \<Rightarrow> bool" where
  "role_ok cfg = is_ok (bind_res (timing_role cfg) as_str)"

definition cfg_ok :: "device_config \<Rightarrow> bool" where
  "cfg_ok cfg \<longleftrightarrow> device_ok cfg \<and> role_ok cfg"

definition store_ok :: "('w, 'c) panel \<Rightarrow> bool" where
  "store_ok p \<longleftrightarrow> distinct (p_devs p) \<and> (\<forall>d \<in> set (p_devs p). d < p_next p)
     \<and> (\<forall>d < p_next p. cfg_ok (p_heap p d))
     \<and> (\<forall>d cv. dict_get (p_values p) d = Some cv \<longrightarrow> scopes_ok cv)"

definition sel_ok :: "('w, 'c) panel \<Rightarrow> bool" where
  "sel_ok p \<longleftrightarrow> (case p_sel p of None \<Rightarrow> p_devs p = [] | Some r \<Rightarrow> r < length (p_devs p))"

definition tree_ok :: "('w, 'c) panel \<Rightarrow> bool" where
  "tree_ok p \<longleftrightarrow> p_tree_cfg p = selected_device p \<and> map_option fst (p_tree p) = selected_device p"

text \<open>The tree belongs to the device it was built for.\<close>

definition tree_own :: "('w, 'c) panel \<Rightarrow> bool" where
  "tree_own p \<longleftrightarrow> (p_tree p \<noteq> None \<longrightarrow> map_option fst (p_tree p) = p_tree_cfg p)"

definition panel_ok :: "('w, 'c) panel \<Rightarrow> bool" where
  "panel_ok p \<longleftrightarrow> store_ok p \<and> sel_ok p \<and> tree_ok p"

definition rows_ok :: "('w, 'c) panel \<Rightarrow> bool" where
  "rows_ok p \<longleftrightarrow> traverse (\<lambda>d. row_texts (p_heap p d)) (p_devs p) = Inr (p_rows p)"

lemma selected_device_cong:
  "p_sel p = p_sel q \<Longrightarrow> p_devs p = p_devs q \<Longrightarrow> selected_device p = selected_device q"
  by (simp add: selected_device_def split: option.split)

lemma sel_ok_cong: "p_sel p = p_sel q \<Longrightarrow> p_devs p = p_devs q \<Longrightarrow> sel_ok p = sel_ok q"
  by (simp add: sel_ok_def split: option.split)

lemma selected_device_upd [simp]:
  "selected_device (p\<lparr>p_values := a\<rparr>) = selected_device p"
  "selected_device (p\<lparr>p_tree_cfg := b\<rparr>) = selected_device p"
  "selected_device (p\<lparr>p_tree := c\<rparr>) = selected_device p"
  "selected_device (p\<lparr>p_rows := e\<rparr>) = selected_device p"
  "selected_device (p\<lparr>p_workers := f\<rparr>) = selected_device p"
  "selected_device (p\<lparr>p_changed := g\<rparr>) = selected_device p"
  "selected_device (p\<lparr>p_heap := h\<rparr>) = selected_device p"
  "selected_device (p\<lparr>p_filter := i\<rparr>) = selected_device p"
  "selected_device (p\<lparr>p_rebuild := j\<rparr>) = selected_device p"
  "selected_device (p\<lparr>p_next := k\<rparr>) = selected_device p"
  by (simp_all add: selected_device_def cong: option.case_cong if_cong)

lemma selected_device_sel:
  "i < length (p_devs p) \<Longrightarrow> selected_device (p\<lparr>p_sel := Some i\<rparr>) = Some (p_devs p ! i)"
  by (simp add: selected_device_def)

lemma row_texts_total: "role_ok cfg \<Longrightarrow> \<exists>r. row_texts cfg = Inr r"
  by (auto simp: role_ok_def row_texts_def is_ok_iff)

lemma selected_in_devs: "selected_device p = Some d \<Longrightarrow> d \<in> set (p_devs p)"
  by (auto simp: selected_device_def split: option.splits if_splits)

lemma on_selection_changed_ok:
  assumes "store_ok p" and "tree_own p"
  shows "\<exists>p'. on_selection_changed p = (p', None) \<and> store_ok p' \<and> tree_ok p'
     \<and> p_heap p' = p_heap p \<and> p_devs p' = p_devs p \<and> p_sel p' = p_sel p \<and> p_rows p' = p_rows p
     \<and> p_next p' = p_next p"
proof (cases "selected_device p = p_tree_cfg p \<and> p_tree p \<noteq> None")
  case True
  with assms show ?thesis by (simp add: on_selection_changed_def tree_ok_def tree_own_def)
next
  case False
  show ?thesis
  proof (cases "selected_device p")
    case None
    with False assms(1) show ?thesis
      by (auto simp: on_selection_changed_def store_ok_def tree_ok_def)
  next
    case (Some d)
    have d: "d \<in> set (p_devs p)" using Some by (rule selected_in_devs)
    then have cfg: "device_ok (p_heap p d)" using assms(1) by (auto simp: store_ok_def cfg_ok_def)
    have "scopes_ok (dict_get_or (p_values p) d [])"
      using assms(1) by (auto simp: store_ok_def dict_get_or_def split: option.splits)
    then obtain cv' gs where b: "build_tree (p_heap p d) (dict_get_or (p_values p) d []) = (cv', Inr gs)"
      and cv': "scopes_ok cv'"
      using build_tree_total [OF cfg] by blast
    let ?p = "p\<lparr>p_values := dict_set d cv' (p_values p), p_tree_cfg := Some d,
                p_tree := Some (d, apply_filter (p_filter p) gs)\<rparr>"
    have "on_selection_changed p = (?p, None)"
      using False Some b by (auto simp: on_selection_changed_def)
    moreover have "store_ok ?p" using assms(1) cv' by (simp add: store_ok_def)
    moreover have "tree_ok ?p" using Some by (simp add: tree_ok_def)
    ultimately show ?thesis by simp
  qed
qed

lemma panel_ok_tree_own: "panel_ok p \<Longrightarrow> tree_own p"
  by (simp add: panel_ok_def tree_ok_def tree_own_def)

text \<open>
  \<open>refresh\<close> establishes the invariant from well-formed configurations, whatever the
  selection was, and keeps the selected device selected.
\<close>

lemma refresh_ok:
  assumes "store_ok p" and "tree_own p"
  shows "\<exists>p'. refresh p = (p', None) \<and> panel_ok p' \<and> rows_ok p' \<and> p_heap p' = p_heap p \<and> p_devs p' = p_devs p
     \<and> p_next p' = p_next p
     \<and> (selected_device p \<noteq> None \<longrightarrow> selected_device p' = selected_device p)"
proof -
  have "\<exists>r. row_texts (p_heap p d) = Inr r" if "d \<in> set (p_devs p)" for d
    using assms(1) that row_texts_total by (auto simp: store_ok_def cfg_ok_def)
  then have "\<exists>rows. traverse (\<lambda>d. row_texts (p_heap p d)) (p_devs p) = Inr rows"
    by (rule traverse_total)
  then obtain rows where rows: "traverse (\<lambda>d. row_texts (p_heap p d)) (p_devs p) = Inr rows" ..
  let ?sel = "case selected_device p of Some d \<Rightarrow> index_of d (p_devs p) | None \<Rightarrow> if p_devs p \<noteq> [] then Some 0 else None"
  let ?p = "p\<lparr>p_rows := rows, p_sel := ?sel\<rparr>"
  have sel: "sel_ok ?p \<and> (selected_device p \<noteq> None \<longrightarrow> selected_device ?p = selected_device p)"
  proof (cases "selected_device p")
    case None
    then show ?thesis by (simp add: sel_ok_def)
  next
    case (Some d)
    from index_of_in [OF selected_in_devs [OF Some]] obtain i
      where "index_of d (p_devs p) = Some i" "i < length (p_devs p)" "p_devs p ! i = d" by blast
    with Some show ?thesis by (simp add: sel_ok_def selected_device_sel)
  qed
  have "store_ok ?p" "tree_own ?p" using assms by (simp_all add: store_ok_def tree_own_def)
  from on_selection_changed_ok [OF this] obtain p' where
    p': "on_selection_changed ?p = (p', None)" "store_ok p'" "tree_ok p'" "p_heap p' = p_heap p"
      "p_devs p' = p_devs p" "p_sel p' = ?sel" "p_rows p' = rows" "p_next p' = p_next p"
    by auto
  have "refresh p = (p', None)" using rows p'(1) by (simp add: refresh_def)
  moreover have same: "p_sel p' = p_sel ?p" "p_devs p' = p_devs ?p" using p'(5,6) by simp_all
  moreover have "sel_ok p'" using sel sel_ok_cong [OF same] by blast
  moreover have eq: "selected_device p' = selected_device ?p" using same by (rule selected_device_cong)
  moreover have "rows_ok p'" using p'(4,5,7) rows by (simp add: rows_ok_def)
  ultimately show ?thesis
    using p'(2,3,4,5,8) sel unfolding panel_ok_def by (intro exI [of _ p'] conjI impI) simp_all
qed

lemma panel_ok_refresh:
  assumes "store_ok p" and "tree_own p"
  shows "panel_ok (fst (refresh p))" and "snd (refresh p) = None" and "rows_ok (fst (refresh p))"
  using refresh_ok [OF assms] by auto

section \<open>The operations\<close>

lemma emit_changed_ok:
  "panel_ok p \<Longrightarrow> panel_ok (fst (emit_changed p))"
  "rows_ok p \<Longrightarrow> rows_ok (fst (emit_changed p))"
  by (simp_all add: emit_changed_def panel_ok_def store_ok_def sel_ok_def tree_ok_def rows_ok_def cong: option.case_cong)

text \<open>
  What holds after an operation: the invariant, and, when it did not raise and the table was
  up to date before (\<open>u\<close>), an up to date table.
\<close>

definition good :: "bool \<Rightarrow> ('w, 'c) panel outcome \<Rightarrow> bool" where
  "good u r \<longleftrightarrow> panel_ok (fst r) \<and> (u \<and> snd r = None \<longrightarrow> rows_ok (fst r))"

lemma good_refresh_emit:
  assumes "store_ok p" and "tree_own p"
  shows "good u (and_then (refresh p) emit_changed)"
  using refresh_ok [OF assms] emit_changed_ok by (auto simp: good_def)

lemma good_refresh: "store_ok p \<Longrightarrow> tree_own p \<Longrightarrow> good u (refresh p)"
  using refresh_ok [of p] by (auto simp: good_def)

text \<open>A configuration of the store is replaced by a well-formed one.\<close>

lemma store_ok_set_cfg: "store_ok p \<Longrightarrow> cfg_ok cfg \<Longrightarrow> store_ok (set_cfg d cfg p)"
  by (simp add: store_ok_def set_cfg_def)

lemma tree_own_upd [simp]:
  "tree_own (set_cfg d cfg p) = tree_own p"
  "tree_own (p\<lparr>p_rebuild := n\<rparr>) = tree_own p"
  "tree_own (p\<lparr>p_workers := ws\<rparr>) = tree_own p"
  "tree_own (p\<lparr>p_values := cv\<rparr>) = tree_own p"
  "tree_own (p\<lparr>p_heap := h\<rparr>) = tree_own p"
  "tree_own (p\<lparr>p_devs := ds\<rparr>) = tree_own p"
  "tree_own (p\<lparr>p_next := m\<rparr>) = tree_own p"
  by (simp_all add: tree_own_def set_cfg_def)

lemma store_ok_upd [simp]:
  "store_ok (p\<lparr>p_rebuild := n\<rparr>) = store_ok p"
  "store_ok (p\<lparr>p_workers := ws\<rparr>) = store_ok p"
  "store_ok (p\<lparr>p_tree := t\<rparr>) = store_ok p"
  "store_ok (p\<lparr>p_tree_cfg := c\<rparr>) = store_ok p"
  "store_ok (p\<lparr>p_filter := f\<rparr>) = store_ok p"
  "store_ok (p\<lparr>p_sel := r\<rparr>) = store_ok p"
  by (simp_all add: store_ok_def)

lemma panel_ok_parts: "panel_ok p \<Longrightarrow> store_ok p" "panel_ok p \<Longrightarrow> tree_own p"
  by (simp_all add: panel_ok_def panel_ok_tree_own)

lemma panel_ok_upd:
  "panel_ok p \<Longrightarrow> panel_ok (p\<lparr>p_workers := ws\<rparr>)"
  "panel_ok p \<Longrightarrow> panel_ok (p\<lparr>p_filter := f\<rparr>)"
  "panel_ok p \<Longrightarrow> cfg_ok cfg \<Longrightarrow> panel_ok (set_cfg d cfg p)"
  "rows_ok p \<Longrightarrow> rows_ok (p\<lparr>p_workers := ws\<rparr>)"
  by (simp_all add: panel_ok_def store_ok_set_cfg)
    (simp_all add: sel_ok_def tree_ok_def set_cfg_def rows_ok_def cong: option.case_cong)

text \<open>New devices.\<close>

lemma new_device_ok:
  assumes "new_device n a i q e t s [] = Inr cfg"
  shows "device_ok cfg"
  using assms normalize_with_ok by (fastforce simp: new_device_def)

lemma default_device:
  "\<exists>cfg s. new_device n a i q e ''mcpd'' (PDict []) [] = Inr cfg \<and> timing_role cfg = Inr (PStr ''Master'')
     \<and> set_setting (settings cfg) ''timing'' ''role'' (PStr ''Slave'') = Inr s
     \<and> timing_role (cfg\<lparr>settings := s\<rparr>) = Inr (PStr ''Slave'') \<and> device_ok cfg \<and> device_ok (cfg\<lparr>settings := s\<rparr>)"
proof -
  let ?new = "\<lambda>n a i q e. new_device n a i q e ''mcpd'' (PDict []) []"
  obtain m where m: "default_mpsd = Inr m" using default_mpsd_total by blast
  obtain s0 where s0: "merge_settings (settings_for ''mcpd'') (PDict []) = Inr s0"
    "dict_get s0 ''timing'' = Some [(''role'', PStr ''Master''), (''term'', PStr ''On''), (''ext_sync'', PBool False)]"
    by (simp add: merge_settings_def settings_for_def COMMON_SETTINGS_def MCPD_SETTINGS_def default_settings_def
        dict_update_def defaults_def plain_command_def DataDest_def enum_arg_def bool_arg_def)
  let ?cfg = "\<lparr>dev_name = n, address = a, mcpd_id = i, port = q, enabled = e, device_type = ''mcpd'',
      settings = s0, mpsds = replicate McpdBusCount m\<rparr>"
  have new: "?new n a i q e = Inr ?cfg"
    by (simp add: new_device_def normalize_with_def s0(1) m)
  define s where "s = dict_set ''timing'' (dict_set ''role'' (PStr ''Slave'')
      [(''role'', PStr ''Master''), (''term'', PStr ''On''), (''ext_sync'', PBool False)]) s0"
  have s: "set_setting s0 ''timing'' ''role'' (PStr ''Slave'') = Inr s"
    using s0 by (simp add: set_setting_def setting_values_def s_def)
  have ok: "device_ok ?cfg" using new by (rule new_device_ok)
  have "settings_shape (settings_for ''mcpd'') s"
  proof -
    have sh: "settings_shape (settings_for ''mcpd'') s0" using ok by (simp add: device_ok_def)
    have "dict_keys s = dict_keys s0" using s0(2) by (simp add: s_def dict_keys_set_some)
    then show ?thesis
      using sh s0(2) by (auto simp: settings_shape_def list_all_iff s_def)
  qed
  then have "device_ok (?cfg\<lparr>settings := s\<rparr>)" using ok by (simp add: device_ok_def)
  then show ?thesis
    using new s ok s0(2) by (auto simp: timing_role_def s_def)
qed

lemma role_ok_str: "timing_role cfg = Inr (PStr r) \<Longrightarrow> role_ok cfg"
  by (simp add: role_ok_def)

lemma store_ok_append:
  assumes "store_ok p" and "cfg_ok cfg"
  shows "store_ok ((set_cfg (p_next p) cfg p)\<lparr>p_devs := p_devs p @ [p_next p], p_next := Suc (p_next p)\<rparr>)"
  using assms by (auto simp: store_ok_def set_cfg_def less_Suc_eq)

lemma any_master_total:
  "(\<And>c. c \<in> set cs \<Longrightarrow> role_ok c) \<Longrightarrow>
   any_master cs = Inr (\<exists>c \<in> set cs. timing_role c = Inr (PStr ''Master''))"
proof (induction cs)
  case Nil
  then show ?case by simp
next
  case (Cons c cs)
  then obtain r where "timing_role c = Inr r"
    by (auto simp: role_ok_def is_ok_iff bind_res_Inr_iff)
  with Cons show ?case by simp
qed

lemma select_row_ok:
  assumes "panel_ok p" and "row < length (p_devs p)"
  shows "\<exists>p'. select_row row p = (p', None) \<and> panel_ok p' \<and> (rows_ok p \<longrightarrow> rows_ok p')
     \<and> p_heap p' = p_heap p \<and> p_devs p' = p_devs p \<and> p_sel p' = Some row \<and> p_next p' = p_next p"
proof -
  let ?p = "p\<lparr>p_sel := Some row\<rparr>"
  have "store_ok ?p" "tree_own ?p" using panel_ok_parts [OF assms(1)] by (simp_all add: tree_own_def)
  from on_selection_changed_ok [OF this] obtain p' where
    p': "on_selection_changed ?p = (p', None)" "store_ok p'" "tree_ok p'" "p_heap p' = p_heap p"
      "p_devs p' = p_devs p" "p_sel p' = Some row" "p_rows p' = p_rows p" "p_next p' = p_next p"
    by auto
  then show ?thesis
    using assms(2) by (auto simp: select_row_def panel_ok_def sel_ok_def rows_ok_def)
qed

text \<open>
  \<open>_add_device\<close> never raises; the new device is a slave exactly when there is a master.
\<close>

lemma add_device_ok:
  assumes "panel_ok p"
  shows "\<exists>p' cfg. add_device p = (p', None) \<and> panel_ok p' \<and> rows_ok p' \<and> p_devs p' = p_devs p @ [p_next p]
     \<and> p_next p' = Suc (p_next p)
     \<and> p_heap p' = (p_heap p)(p_next p := cfg) \<and> selected_device p' = Some (p_next p)
     \<and> timing_role cfg = Inr (PStr (if \<exists>d \<in> set (p_devs p). timing_role (p_heap p d) = Inr (PStr ''Master'')
                              then ''Slave'' else ''Master''))"
proof -
  let ?n = "length (p_devs p)"
  obtain cfg s where new: "new_device (''mcpd'' @ show_nat ?n) (''192.168.168.'' @ show_nat (121 + ?n)) 0 DefaultPort True
      ''mcpd'' (PDict []) [] = Inr cfg" "timing_role cfg = Inr (PStr ''Master'')"
    "set_setting (settings cfg) ''timing'' ''role'' (PStr ''Slave'') = Inr s"
    "timing_role (cfg\<lparr>settings := s\<rparr>) = Inr (PStr ''Slave'')" "device_ok cfg" "device_ok (cfg\<lparr>settings := s\<rparr>)"
    using default_device by blast
  let ?master = "\<exists>d \<in> set (p_devs p). timing_role (p_heap p d) = Inr (PStr ''Master'')"
  have am: "any_master (map (p_heap p) (p_devs p)) = Inr ?master"
    using assms by (subst any_master_total) (auto simp: panel_ok_def store_ok_def cfg_ok_def)
  let ?cfg = "cfg\<lparr>settings := if ?master then s else settings cfg\<rparr>"
  have cfg: "timing_role ?cfg = Inr (PStr (if ?master then ''Slave'' else ''Master''))" "device_ok ?cfg"
    using new by auto
  then have "cfg_ok ?cfg" using role_ok_str [OF cfg(1)] unfolding cfg_ok_def by blast
  let ?p1 = "(set_cfg (p_next p) ?cfg p)\<lparr>p_devs := p_devs p @ [p_next p], p_next := Suc (p_next p)\<rparr>"
  have "store_ok ?p1" using panel_ok_parts(1) [OF assms] \<open>cfg_ok ?cfg\<close> by (rule store_ok_append)
  moreover have "tree_own ?p1" using panel_ok_parts(2) [OF assms] by simp
  ultimately obtain p2 where p2: "refresh ?p1 = (p2, None)" "panel_ok p2" "rows_ok p2" "p_heap p2 = p_heap ?p1"
    "p_devs p2 = p_devs ?p1" "p_next p2 = p_next ?p1"
    using refresh_ok by blast
  have "?n < length (p_devs p2)" using p2(5) by simp
  from select_row_ok [OF p2(2) this] obtain p3 where p3: "select_row ?n p2 = (p3, None)" "panel_ok p3" "rows_ok p3"
    "p_heap p3 = p_heap p2" "p_devs p3 = p_devs p2" "p_sel p3 = Some ?n" "p_next p3 = p_next p2"
    using p2(3) by blast
  let ?p4 = "p3\<lparr>p_changed := Suc (p_changed p3)\<rparr>"
  have sel: "(if ?master then set_setting (settings cfg) ''timing'' ''role'' (PStr ''Slave'') else Inr (settings cfg))
      = Inr (if ?master then s else settings cfg)"
    using new(3) by auto
  have "add_device p = (?p4, None)"
    unfolding add_device_def Let_def new(1) outcome_simps am sel
    by (simp only: p2(1) p3(1) outcome_simps emit_changed_def)
  moreover have "panel_ok ?p4" "rows_ok ?p4"
    using emit_changed_ok p3(2,3) by (simp_all add: emit_changed_def)
  moreover have "selected_device ?p4 = Some (p_next p)"
    using p3(5,6) p2(5) by (simp add: selected_device_def)
  ultimately show ?thesis
    using cfg(1) p2(4-6) p3(4,5,7) by (intro exI [of _ ?p4] exI [of _ ?cfg]) (simp add: set_cfg_def)
qed

lemma remove_device_ok: "panel_ok p \<Longrightarrow> (u \<longrightarrow> rows_ok p) \<Longrightarrow> good u (remove_device api k p)"
proof (cases "selected_device p")
  case None
  moreover assume "panel_ok p" "u \<longrightarrow> rows_ok p"
  ultimately show ?thesis by (simp add: remove_device_def good_def)
next
  case (Some d)
  assume ok: "panel_ok p"
  let ?p = "p\<lparr>p_workers := remove_worker api k d (p_workers p), p_devs := remove1 d (p_devs p),
              p_values := dict_remove d (p_values p)\<rparr>"
  have "store_ok ?p"
    using panel_ok_parts(1) [OF ok] set_remove1_subset [of d "p_devs p"] by (auto simp: store_ok_def)
  moreover have "tree_own ?p" using panel_ok_parts(2) [OF ok] by simp
  ultimately have "good u (and_then (refresh ?p) emit_changed)" by (rule good_refresh_emit)
  then show ?thesis by (simp add: remove_device_def Some)
qed

lemma set_setup_ok:
  assumes "panel_ok p" and "\<forall>c \<in> set cfgs. cfg_ok c"
  shows "good u (set_setup api k cfgs p)"
proof -
  let ?n = "p_next p"
  let ?p = "p\<lparr>p_workers := fold (\<lambda>d. remove_worker api (k d) d) (p_devs p) (p_workers p),
              p_heap := (\<lambda>d. if ?n \<le> d \<and> d < ?n + length cfgs then cfgs ! (d - ?n) else p_heap p d),
              p_devs := [?n..<?n + length cfgs], p_next := ?n + length cfgs, p_values := []\<rparr>"
  have "cfg_ok (cfgs ! i)" if "i < length cfgs" for i
    using assms(2) that by simp
  then have "store_ok ?p"
    using panel_ok_parts(1) [OF assms(1)] by (auto simp: store_ok_def)
  moreover have "tree_own ?p" using panel_ok_parts(2) [OF assms(1)] by simp
  ultimately have "good u (and_then (refresh ?p) emit_changed)" by (rule good_refresh_emit)
  then show ?thesis by (simp add: set_setup_def Let_def)
qed

lemma update_tree_ok:
  shows "panel_ok p \<Longrightarrow> panel_ok (fst (update_tree path f p))"
    and "rows_ok (fst (update_tree path f p)) = rows_ok p"
    and "p_heap (fst (update_tree path f p)) = p_heap p" "p_devs (fst (update_tree path f p)) = p_devs p"
      "p_next (fst (update_tree path f p)) = p_next p" "p_values (fst (update_tree path f p)) = p_values p"
      "p_sel (fst (update_tree path f p)) = p_sel p"
proof -
  have ok: "panel_ok (p\<lparr>p_tree := Some (d, ns)\<rparr>)" if "panel_ok p" "p_tree p = Some (d, ns')" for d ns ns'
    using that by (simp add: panel_ok_def tree_ok_def) (simp add: sel_ok_def cong: option.case_cong)
  show "panel_ok p \<Longrightarrow> panel_ok (fst (update_tree path f p))"
    using ok by (auto simp: update_tree_def split: option.splits prod.splits)
qed (auto simp: update_tree_def rows_ok_def split: option.splits prod.splits)

text \<open>Statements that keep the invariant and leave the store alone.\<close>

definition calm :: "(('w, 'c) panel \<Rightarrow> ('w, 'c) panel outcome) \<Rightarrow> bool" where
  "calm f \<longleftrightarrow> (\<forall>p. panel_ok p \<longrightarrow> panel_ok (fst (f p)) \<and> (rows_ok p \<longrightarrow> rows_ok (fst (f p))))"

lemma calm_update_tree: "calm (update_tree path f)"
  by (simp add: calm_def update_tree_ok)

lemma calm_seq: "calm (f :: ('a, 'b) panel \<Rightarrow> ('a, 'b) panel outcome) \<Longrightarrow> calm g \<Longrightarrow> calm (\<lambda>p. and_then (f p) g)"
  unfolding calm_def
proof (intro allI impI)
  fix p :: "('a, 'b) panel"
  assume f: "\<forall>p. panel_ok p \<longrightarrow> panel_ok (fst (f p)) \<and> (rows_ok p \<longrightarrow> rows_ok (fst (f p)))"
    and g: "\<forall>p. panel_ok p \<longrightarrow> panel_ok (fst (g p)) \<and> (rows_ok p \<longrightarrow> rows_ok (fst (g p)))" and p: "panel_ok p"
  obtain p1 e where fp: "f p = (p1, e)" by (cases "f p")
  from f p have "panel_ok (fst (f p)) \<and> (rows_ok p \<longrightarrow> rows_ok (fst (f p)))" by blast
  with g show "panel_ok (fst (and_then (f p) g)) \<and> (rows_ok p \<longrightarrow> rows_ok (fst (and_then (f p) g)))"
    by (cases e) (simp_all add: fp)
qed

lemma calm_for_each: "(\<And>x. calm (f x)) \<Longrightarrow> calm (for_each f xs)"
proof (induction xs)
  case Nil
  then show ?case by (simp add: calm_def)
next
  case (Cons x xs)
  then have "calm (\<lambda>p. and_then (f x p) (for_each f xs))" by (intro calm_seq) simp_all
  then show ?case by simp
qed

lemma calm_emit: "calm emit_changed"
  by (simp add: calm_def emit_changed_ok)

lemma calm_with_res: "(\<And>x. calm (f x)) \<Longrightarrow> calm (\<lambda>p. with_res (r p) p (\<lambda>x. f x p))"
  by (auto simp: calm_def with_res_def split: sum.splits)

lemma calm_read: "(\<And>x. calm (f x)) \<Longrightarrow> calm (\<lambda>p. f (g p) p)"
  by (simp add: calm_def)

lemma calm_if: "calm f \<Longrightarrow> calm g \<Longrightarrow> calm (\<lambda>p. if b p then f p else g p)"
  by (simp add: calm_def)

lemma calm_raise: "calm (\<lambda>p. (p, Some (e p)))"
  by (simp add: calm_def)

lemma calm_sync_bus: "calm (sync_bus d b)"
  unfolding sync_bus_def
  by (intro calm_if calm_raise calm_with_res
      calm_seq calm_update_tree calm_read [of "\<lambda>v. update_tree [''busses'', bus_scope b, ''present''] (set_value v)"])

lemma calm_sync_busses: "calm (sync_busses d)"
proof -
  have "calm (for_each (sync_bus d) [0..<McpdBusCount])" by (intro calm_for_each calm_sync_bus)
  then show ?thesis by (auto simp: sync_busses_def calm_def)
qed

lemma calm_rebuild: "calm rebuild_tree"
  unfolding calm_def
proof (intro allI impI)
  fix p :: "('w, 'c) panel" assume ok: "panel_ok p"
  let ?p = "p\<lparr>p_tree := None, p_tree_cfg := None\<rparr>"
  have "store_ok ?p" "tree_own ?p" using ok by (simp_all add: panel_ok_def tree_own_def)
  from on_selection_changed_ok [OF this] obtain p' where
    p': "on_selection_changed ?p = (p', None)" "store_ok p'" "tree_ok p'" "p_heap p' = p_heap p"
      "p_devs p' = p_devs p" "p_sel p' = p_sel p" "p_rows p' = p_rows p"
    by auto
  have "sel_ok p'" using ok p'(5,6) sel_ok_cong [of p' p] by (simp add: panel_ok_def)
  then show "panel_ok (fst (rebuild_tree p)) \<and> (rows_ok p \<longrightarrow> rows_ok (fst (rebuild_tree p)))"
    using p' by (simp add: rebuild_tree_def panel_ok_def rows_ok_def)
qed

lemma good_then_calm: "good u r \<Longrightarrow> calm f \<Longrightarrow> good u (and_then r f)"
  by (cases r; cases "snd r") (auto simp: good_def calm_def)

subsection \<open>Handlers of commands\<close>

lemma set_present_settings: "map mpsd_settings (set_present ms bs) = map mpsd_settings ms"
  by (induction ms bs rule: set_present.induct) simp_all

lemma mpsd_ok_map: "list_all mpsd_ok ms = list_all (settings_shape MPSD_SETTINGS) (map mpsd_settings ms)"
  by (simp add: list_all_iff mpsd_ok_def)

lemma run_on_success_keeps:
  assumes "cfg_ok cfg" and "run_on_success f cfg vals r = (cfg', e)"
  shows "cfg_ok cfg'"
proof -
  have keep: "settings cfg' = settings cfg \<and> device_type cfg' = device_type cfg
      \<and> map mpsd_settings (mpsds cfg') = map mpsd_settings (mpsds cfg)"
    using assms(2)
    by (cases f) (auto simp: update_id_def update_address_def update_present_mpsds_def set_present_settings
        split: sum.splits reply.splits if_splits)
  then have m: "list_all mpsd_ok (mpsds cfg')" "length (mpsds cfg') = length (mpsds cfg)"
    using assms(1) mpsd_ok_map [of "mpsds cfg'"] mpsd_ok_map [of "mpsds cfg"]
    by (auto simp: cfg_ok_def device_ok_def dest: map_eq_imp_length_eq)
  then show ?thesis
    using keep assms(1) by (auto simp: cfg_ok_def device_ok_def role_ok_def timing_role_def split: if_splits)
qed

lemma on_success_ok:
  assumes "panel_ok p" and "d < p_next p"
  shows "good u (on_success (RunOnSuccess d cmd snapshot) r p)"
proof (cases "cmd_on_success cmd")
  case None
  then show ?thesis using assms(1) by (simp add: good_def)
next
  case (Some f)
  obtain cfg e where run: "run_on_success f (p_heap p d) snapshot r = (cfg, e)" by fastforce
  have cfg: "cfg_ok cfg"
    using assms run by (intro run_on_success_keeps [OF _ run]) (simp add: panel_ok_def store_ok_def)
  show ?thesis
  proof (cases e)
    case None
    have "good u (refresh (set_cfg d cfg p))"
      using panel_ok_parts [OF assms(1)] cfg by (intro good_refresh store_ok_set_cfg) simp_all
    then show ?thesis
      using Some run None by (auto intro!: good_then_calm calm_emit calm_sync_busses calm_rebuild)
  next
    case (Some e')
    with \<open>cmd_on_success cmd = Some f\<close> run show ?thesis
      using panel_ok_upd(3) [OF assms(1) cfg] by (simp add: good_def)
  qed
qed

subsection \<open>Edits\<close>

text \<open>
  The paths of the tree's parameters: settings are edited at the arguments of their
  commands, and the timing role, a choice, stays a string.
\<close>

definition edit_ok :: "device_config \<Rightarrow> string list \<Rightarrow> pyval \<Rightarrow> bool" where
  "edit_ok cfg path v \<longleftrightarrow>
     (\<forall>key a rest. path = ''settings'' # key # a # rest \<longrightarrow>
        (\<exists>c \<in> set (settings_for (device_type cfg)). cmd_key c = key \<and> a \<in> set (map arg_name (cmd_args c))) \<and>
        (key = ''timing'' \<and> a = ''role'' \<longrightarrow> (\<exists>s. v = PStr s))) \<and>
     (\<forall>scope key a rest. path = ''busses'' # scope # ''settings'' # key # a # rest \<longrightarrow>
        (\<exists>c \<in> set MPSD_SETTINGS. cmd_key c = key \<and> a \<in> set (map arg_name (cmd_args c))))"

lemma edit_ok_setting:
  "edit_ok cfg (''settings'' # key # a # rest) v \<Longrightarrow>
   (\<exists>c \<in> set (settings_for (device_type cfg)). cmd_key c = key \<and> a \<in> set (map arg_name (cmd_args c)))
     \<and> (key = ''timing'' \<and> a = ''role'' \<longrightarrow> (\<exists>s. v = PStr s))"
  by (simp add: edit_ok_def)

lemma edit_ok_mpsd:
  "edit_ok cfg (''busses'' # scope # ''settings'' # key # a # rest) v \<Longrightarrow>
   \<exists>c \<in> set MPSD_SETTINGS. cmd_key c = key \<and> a \<in> set (map arg_name (cmd_args c))"
  by (simp add: edit_ok_def)

lemma set_setting_shape:
  assumes "table_ok cs" "settings_shape cs s" "set_setting s key a v = Inr s'"
    and c: "c \<in> set cs" "cmd_key c = key" "a \<in> set (map arg_name (cmd_args c))"
  shows "settings_shape cs s'"
    and "dict_get s' k = (if k = key then map_option (dict_set a v) (dict_get s k) else dict_get s k)"
proof -
  obtain d where d: "dict_get s key = Some d" "s' = dict_set key (dict_set a v d) s"
    using assms(3) by (auto simp: set_setting_def setting_values_def bind_res_Inr_iff opt_res_iff)
  show get: "dict_get s' k = (if k = key then map_option (dict_set a v) (dict_get s k) else dict_get s k)" for k
    using d by auto
  obtain v' where v': "dict_get s (cmd_key c) = Some v'" "dict_keys v' = map arg_name (cmd_args c)"
    using settings_shape_get [OF assms(2) c(1)] by blast
  have keys: "dict_keys (dict_set a v d) = dict_keys d"
    using v' d c(2,3) by (intro dict_keys_set_present) simp
  have "map_option dict_keys (dict_get s' k) = map_option dict_keys (dict_get s k)" for k
    unfolding get using d(1) keys by auto
  moreover have "dict_keys s' = dict_keys s" using d by (simp add: dict_keys_set_some)
  ultimately show "settings_shape cs s'" using assms(2) by (simp add: settings_shape_def)
qed

lemma timing_role_set:
  assumes "timing_role cfg = Inr r"
    and "\<And>k. dict_get s k = (if k = key then map_option (dict_set a v) (dict_get (settings cfg) k) else dict_get (settings cfg) k)"
  shows "timing_role (cfg\<lparr>settings := s\<rparr>) = Inr (if key = ''timing'' \<and> a = ''role'' then v else r)"
  using assms(1) by (auto simp: timing_role_def assms(2) split: option.splits if_splits)

lemma change_setting_ok:
  assumes "panel_ok p" "u \<longrightarrow> rows_ok p" "d < p_next p" "edit_ok (p_heap p d) (''settings'' # key # a # rest) v"
  shows "good u (change_setting d key a v p)"
proof (cases "set_setting (settings (p_heap p d)) key a v")
  case (Inl e)
  then show ?thesis using assms(1) by (simp add: change_setting_def good_def)
next
  case (Inr s)
  let ?cfg = "p_heap p d"
  have cfg: "cfg_ok ?cfg" using assms(1,3) by (simp add: panel_ok_def store_ok_def)
  obtain c where c: "c \<in> set (settings_for (device_type ?cfg))" "cmd_key c = key" "a \<in> set (map arg_name (cmd_args c))"
    and role: "key = ''timing'' \<and> a = ''role'' \<longrightarrow> (\<exists>s. v = PStr s)"
    using edit_ok_setting [OF assms(4)] by blast
  have sh: "settings_shape (settings_for (device_type ?cfg)) (settings ?cfg)"
    using cfg by (simp add: cfg_ok_def device_ok_def)
  note set = set_setting_shape [OF table_ok_settings_for sh Inr c]
  obtain r t where r: "timing_role ?cfg = Inr r" "as_str r = Inr t"
    using cfg by (auto simp: cfg_ok_def role_ok_def is_ok_iff bind_res_Inr_iff)
  have "role_ok (?cfg\<lparr>settings := s\<rparr>)"
    using timing_role_set [OF r(1) set(2)] r(2) role by (auto simp: role_ok_def)
  moreover have "device_ok (?cfg\<lparr>settings := s\<rparr>)"
    using cfg set(1) by (simp add: cfg_ok_def device_ok_def)
  ultimately have ok: "cfg_ok (?cfg\<lparr>settings := s\<rparr>)" by (simp add: cfg_ok_def)
  let ?p = "set_cfg d (?cfg\<lparr>settings := s\<rparr>) p"
  show ?thesis
  proof (cases "key = ''timing''")
    case True
    have "good u (refresh ?p)"
      using panel_ok_parts [OF assms(1)] ok by (intro good_refresh store_ok_set_cfg) simp_all
    then show ?thesis using Inr True by (simp add: change_setting_def Let_def)
  next
    case False
    have "timing_role (?cfg\<lparr>settings := s\<rparr>) = timing_role ?cfg"
      using timing_role_set [OF r(1) set(2)] r(1) False by simp
    then have "row_texts (?cfg\<lparr>settings := s\<rparr>) = row_texts ?cfg"
      by (simp add: row_texts_def present_busses_def)
    then have "(\<lambda>d'. row_texts (p_heap ?p d')) = (\<lambda>d'. row_texts (p_heap p d'))"
      by (auto simp: set_cfg_def)
    then have "u \<longrightarrow> rows_ok ?p" using assms(2) by (simp add: rows_ok_def set_cfg_def)
    then show ?thesis
      using panel_ok_upd(3) [OF assms(1) ok] Inr False by (simp add: change_setting_def Let_def good_def)
  qed
qed

lemma set_attr_keeps:
  "f \<noteq> ''device_type'' \<Longrightarrow> settings (set_attr f v cfg) = settings cfg \<and> mpsds (set_attr f v cfg) = mpsds cfg
     \<and> device_type (set_attr f v cfg) = device_type cfg"
  by (auto simp: set_attr_def split: pyval.splits)

lemma set_attr_type: "\<exists>t. set_attr ''device_type'' v cfg = cfg\<lparr>device_type := t\<rparr>"
  by (cases v) (auto simp: set_attr_def intro: exI [of _ "device_type cfg"])

lemma normalize_cfg_ok:
  assumes "cfg_ok cfg"
  shows "\<exists>cfg'. normalize (cfg\<lparr>device_type := t\<rparr>) = Inr cfg' \<and> cfg_ok cfg'"
proof -
  obtain cfg' where n: "normalize (cfg\<lparr>device_type := t\<rparr>) = Inr cfg'" "device_ok cfg'"
    "list_all (\<lambda>c. dict_get (settings cfg') (cmd_key c) = dict_get (settings cfg) (cmd_key c)) COMMON_SETTINGS"
    using normalize_keeps_common [of cfg t] assms by (auto simp: cfg_ok_def)
  have "''timing'' \<in> cmd_key ` set COMMON_SETTINGS" by (simp add: COMMON_SETTINGS_def plain_command_def)
  then have "dict_get (settings cfg') ''timing'' = dict_get (settings cfg) ''timing''"
    using n(3) by (auto simp: list_all_iff)
  then have "role_ok cfg'" using assms by (simp add: cfg_ok_def role_ok_def timing_role_def)
  with n show ?thesis by (auto simp: cfg_ok_def)
qed

lemma change_connection_ok:
  assumes "panel_ok p" "d < p_next p"
  shows "good u (change_connection d f v p)"
proof -
  have cfg: "cfg_ok (p_heap p d)" using assms by (simp add: panel_ok_def store_ok_def)
  note parts = panel_ok_parts [OF assms(1)]
  show ?thesis
  proof (cases "f = ''device_type''")
    case True
    obtain t where t: "set_attr ''device_type'' v (p_heap p d) = (p_heap p d)\<lparr>device_type := t\<rparr>"
      using set_attr_type by blast
    obtain cfg' where n: "normalize ((p_heap p d)\<lparr>device_type := t\<rparr>) = Inr cfg'" "cfg_ok cfg'"
      using normalize_cfg_ok [OF cfg] by blast
    let ?p1 = "set_cfg d ((p_heap p d)\<lparr>device_type := t\<rparr>) p"
    let ?p2 = "(set_cfg d cfg' ?p1)\<lparr>p_rebuild := Suc (p_rebuild ?p1)\<rparr>"
    have "set_cfg d cfg' ?p1 = set_cfg d cfg' p" by (simp add: set_cfg_def)
    then have "good u (and_then (refresh ?p2) emit_changed)"
      using parts n(2) by (intro good_refresh_emit) (simp_all add: store_ok_set_cfg)
    then show ?thesis by (simp add: change_connection_def Let_def True t n(1))
  next
    case False
    let ?cfg = "set_attr f v (p_heap p d)"
    have "cfg_ok ?cfg"
      using cfg set_attr_keeps [OF False, of v "p_heap p d"]
      by (simp add: cfg_ok_def device_ok_def role_ok_def timing_role_def)
    then have "good u (and_then (refresh (set_cfg d ?cfg p)) emit_changed)"
      using parts by (intro good_refresh_emit) (simp_all add: store_ok_set_cfg)
    then show ?thesis by (simp add: change_connection_def Let_def False)
  qed
qed

lemma change_command_ok:
  assumes "panel_ok p" "u \<longrightarrow> rows_ok p"
  shows "good u (change_command d scope key a v p)"
proof -
  have "panel_ok p' \<and> (u \<longrightarrow> rows_ok p')"
    if gs: "dict_get (dict_get_or (p_values p) d []) scope = Some s" and st: "set_setting s key a v = Inr s'"
      and p': "p' = p\<lparr>p_values := dict_set d (dict_set scope s' (dict_get_or (p_values p) d [])) (p_values p)\<rparr>" for s s' p'
  proof -
    let ?cv = "dict_get_or (p_values p) d []"
    have "scopes_ok ?cv"
      using assms(1) by (auto simp: panel_ok_def store_ok_def dict_get_or_def split: option.splits)
    moreover obtain x where x: "dict_get s key = Some x" "s' = dict_set key (dict_set a v x) s"
      using st by (auto simp: set_setting_def setting_values_def bind_res_Inr_iff opt_res_iff)
    ultimately have "scopes_ok (dict_set scope s' ?cv)"
      using gs unfolding scopes_ok_def by (auto split: if_splits) blast+
    then have "store_ok p'" using assms(1) by (simp add: panel_ok_def store_ok_def p')
    then show ?thesis
      using assms by (simp add: panel_ok_def p' tree_ok_def rows_ok_def) (simp add: sel_ok_def cong: option.case_cong)
  qed
  then show ?thesis
    using assms by (auto simp: change_command_def Let_def good_def with_res_def opt_res_def split: sum.splits option.splits)
qed

lemma set_mpsd_ok:
  assumes "panel_ok p" "d < p_next p" "b < length (mpsds (p_heap p d))" "\<And>m. mpsd_ok m \<Longrightarrow> mpsd_ok (f m)"
  shows "panel_ok (set_mpsd d b f p)"
proof -
  have "cfg_ok (p_heap p d)" using assms by (simp add: panel_ok_def store_ok_def)
  then have "cfg_ok ((p_heap p d)\<lparr>mpsds := (mpsds (p_heap p d))[b := f (mpsds (p_heap p d) ! b)]\<rparr>)"
    using assms(3,4)
    by (auto simp: cfg_ok_def device_ok_def role_ok_def timing_role_def list_all_iff split: if_splits
        dest!: set_update_subset_insert [THEN subsetD])
  then show ?thesis using assms(1) by (simp add: set_mpsd_def panel_ok_upd)
qed

lemma panel_ok_refresh_outcome: "panel_ok p \<Longrightarrow> good u (refresh p)"
  using panel_ok_parts by (blast intro: good_refresh)

lemma good_and_then:
  "panel_ok (fst r) \<Longrightarrow> (\<And>p. panel_ok p \<Longrightarrow> good u (f p)) \<Longrightarrow> good u (and_then r f)"
  by (cases r; cases "snd r") (auto simp: good_def)

lemma change_present_ok:
  assumes "panel_ok p" "d < p_next p"
  shows "good u (change_present d b v p)"
proof (cases "b < length (mpsds (p_heap p d))")
  case True
  let ?p = "set_mpsd d b (\<lambda>m. m\<lparr>present := truthy v\<rparr>) p"
  have ok: "panel_ok ?p" using assms True by (intro set_mpsd_ok) (simp_all add: mpsd_ok_def)
  have "b < length (mpsds (p_heap ?p d))" using True by (simp add: set_mpsd_def set_cfg_def)
  then obtain t where "bus_title (p_heap ?p d) b = Inr t" by (simp add: bus_title_def)
  then show ?thesis
    using True ok
    by (auto simp: change_present_def Let_def intro!: good_and_then update_tree_ok(1) panel_ok_refresh_outcome)
next
  case False
  then show ?thesis using assms(1) by (simp add: change_present_def good_def)
qed

lemma change_mpsd_setting_ok:
  assumes "panel_ok p" "u \<longrightarrow> rows_ok p" "d < p_next p"
    and "edit_ok (p_heap p d) (''busses'' # scope # ''settings'' # key # a # rest) v"
  shows "good u (change_mpsd_setting d b key a v p)"
proof (cases "b < length (mpsds (p_heap p d))")
  case False
  then show ?thesis using assms(1) by (simp add: change_mpsd_setting_def good_def)
next
  case b: True
  let ?m = "mpsds (p_heap p d) ! b"
  have m: "mpsd_ok ?m"
    using assms(1,3) b by (auto simp: panel_ok_def store_ok_def cfg_ok_def device_ok_def list_all_length)
  show ?thesis
  proof (cases "set_setting (mpsd_settings ?m) key a v")
    case (Inl e)
    then show ?thesis using b assms(1) by (simp add: change_mpsd_setting_def good_def)
  next
    case (Inr s)
    obtain c where c: "c \<in> set MPSD_SETTINGS" "cmd_key c = key" "a \<in> set (map arg_name (cmd_args c))"
      using edit_ok_mpsd [OF assms(4)] by blast
    have "settings_shape MPSD_SETTINGS s"
      using set_setting_shape(1) [OF table_ok_mpsd _ Inr c] m by (simp add: mpsd_ok_def)
    then have ok: "panel_ok (set_mpsd d b (\<lambda>m. m\<lparr>mpsd_settings := s\<rparr>) p)"
      using assms(1,3) b by (intro set_mpsd_ok) (simp_all add: mpsd_ok_def)
    have "present_busses ((p_heap p d)\<lparr>mpsds := (mpsds (p_heap p d))[b := ?m\<lparr>mpsd_settings := s\<rparr>]\<rparr>) = present_busses (p_heap p d)"
    proof -
      have "map fst (filter (\<lambda>bm. present (snd bm)) (enumerate n (ms[b := (ms ! b)\<lparr>mpsd_settings := s\<rparr>]))) =
          map fst (filter (\<lambda>bm. present (snd bm)) (enumerate n ms))" for n and ms :: "mpsd_config list"
        by (induction ms arbitrary: n b) (auto split: nat.splits)
      from arg_cong [OF this, of "map show_nat"] show ?thesis
        by (simp add: present_busses_def split_def comp_def)
    qed
    then have "row_texts ((p_heap p d)\<lparr>mpsds := (mpsds (p_heap p d))[b := ?m\<lparr>mpsd_settings := s\<rparr>]\<rparr>) = row_texts (p_heap p d)"
      by (simp add: row_texts_def timing_role_def)
    then have "(\<lambda>d'. row_texts (p_heap (set_mpsd d b (\<lambda>m. m\<lparr>mpsd_settings := s\<rparr>) p) d')) = (\<lambda>d'. row_texts (p_heap p d'))"
      by (auto simp: set_cfg_def set_mpsd_def)
    then have "u \<longrightarrow> rows_ok (set_mpsd d b (\<lambda>m. m\<lparr>mpsd_settings := s\<rparr>) p)"
      using assms(2) by (simp add: rows_ok_def set_mpsd_def set_cfg_def)
    then show ?thesis using ok b Inr by (simp add: change_mpsd_setting_def good_def)
  qed
qed

lemma change_value_ok:
  assumes "panel_ok p" "u \<longrightarrow> rows_ok p" "d < p_next p" "edit_ok (p_heap p d) path v"
  shows "good u (change_value d path v p)"
proof -
  have raise: "good u (p, Some e)" and skip: "good u (p, None)" for e
    using assms(1,2) by (simp_all add: good_def)
  show ?thesis
  proof (cases path)
    case Nil
    then show ?thesis by (simp add: raise)
  next
    case (Cons grp rest)
    consider "grp = ''connection''" | "grp = ''settings''" | "grp = ''commands''" | "grp = ''busses''"
      | "grp \<notin> {''connection'', ''settings'', ''commands'', ''busses''}" by blast
    then show ?thesis
    proof cases
      case 1
      with Cons show ?thesis by (cases rest) (simp_all add: raise change_connection_ok [OF assms(1,3)])
    next
      case 2
      show ?thesis
      proof (cases "\<exists>key a more. rest = key # a # more")
        case True
        then obtain key a more where "rest = key # a # more" by blast
        with 2 Cons assms(4) show ?thesis by (simp add: change_setting_ok [OF assms(1-3)])
      next
        case False
        with 2 Cons show ?thesis by (auto simp: raise split: list.splits)
      qed
    next
      case 3
      with Cons show ?thesis by (auto simp: raise change_command_ok [OF assms(1,2)] split: list.splits)
    next
      case 4
      show ?thesis
      proof (cases "\<exists>scope kind more. rest = scope # kind # more")
        case True
        then obtain scope kind more where rest: "rest = scope # kind # more" by blast
        show ?thesis
        proof (cases "bus_number scope")
          case (Inl e)
          with 4 Cons rest show ?thesis by (simp add: raise)
        next
          case (Inr b)
          show ?thesis
          proof (cases "kind = ''settings'' \<and> (\<exists>key a tl. more = key # a # tl)")
            case True
            then obtain key a tl where "kind = ''settings''" "more = key # a # tl" by blast
            with 4 Cons rest Inr assms(4) show ?thesis by (simp add: change_mpsd_setting_ok [OF assms(1-3)])
          next
            case False
            with 4 Cons rest Inr show ?thesis
              by (auto simp: raise skip change_present_ok [OF assms(1,3)] change_command_ok [OF assms(1,2)]
                  split: list.splits)
          qed
        qed
      next
        case False
        with 4 Cons show ?thesis by (auto simp: raise split: list.splits)
      qed
    next
      case 5
      with Cons show ?thesis by (simp add: skip)
    qed
  qed
qed

lemma edit_value_ok:
  assumes "panel_ok p" "u \<longrightarrow> rows_ok p" "\<And>d. selected_device p = Some d \<Longrightarrow> edit_ok (p_heap p d) path v"
  shows "good u (edit_value path v p)"
proof (cases "p_tree p")
  case None
  then show ?thesis using assms by (simp add: edit_value_def good_def)
next
  case (Some t)
  obtain d ns where t: "t = (d, ns)" by (cases t)
  have d: "selected_device p = Some d" using assms(1) Some t by (simp add: panel_ok_def tree_ok_def)
  then have lt: "d < p_next p" using assms(1) selected_in_devs by (auto simp: panel_ok_def store_ok_def)
  obtain p1 e where p1: "update_tree path (set_value v) p = (p1, e)" by fastforce
  have up: "panel_ok p1" "u \<longrightarrow> rows_ok p1" "p_heap p1 = p_heap p" "p_next p1 = p_next p"
    using update_tree_ok [where p = p and path = path and f = "set_value v"] assms(1,2) by (simp_all add: p1)
  have edit: "edit_value path v p = and_then (p1, e) (change_value d path v)"
    by (simp add: edit_value_def Some t p1)
  show ?thesis
  proof (cases e)
    case None
    have "good u (change_value d path v p1)"
      using up lt assms(3) [OF d] by (intro change_value_ok) simp_all
    then show ?thesis by (simp add: edit None)
  next
    case (Some e')
    then show ?thesis using up(1) by (simp add: edit good_def)
  qed
qed

section \<open>The panel as a state machine\<close>

text \<open>
  Everything that can happen to the panel: its own slots, the main window replacing the
  setup, callbacks of finished commands, and the worker threads.
\<close>

inductive panel_step :: "('w, 'c) api \<Rightarrow> ('w, 'c) panel \<Rightarrow> ('w, 'c) panel outcome \<Rightarrow> bool" for api where
  ps_setup: "\<forall>c \<in> set cfgs. cfg_ok c \<Longrightarrow> panel_step api p (set_setup api k cfgs p)"
| ps_add: "panel_step api p (add_device p)"
| ps_remove: "panel_step api p (remove_device api k p)"
| ps_select: "row < length (p_devs p) \<Longrightarrow> panel_step api p (select_row row p)"
| ps_filter: "panel_step api p (on_filter_changed t p, None)"
| ps_apply: "panel_step api p (apply_selected api p)"
| ps_apply_all: "panel_step api p (apply_all api p)"
| ps_click: "click_action api path p = Some r \<Longrightarrow> panel_step api p r"
| ps_timer: "panel_step api p (on_rebuild_timer p)"
| ps_success: "d < p_next p \<Longrightarrow> panel_step api p (on_success (RunOnSuccess d cmd snapshot) result p)"
| ps_edit: "\<forall>d. selected_device p = Some d \<longrightarrow> edit_ok (p_heap p d) path v \<Longrightarrow> panel_step api p (edit_value path v p)"
| ps_thread: "panel_step api p (p\<lparr>p_workers := run_one api d (p_workers p)\<rparr>, None)"

inductive_cases panel_stepE: "panel_step api p r"

lemma workers_only:
  "panel_ok p \<Longrightarrow> (u \<longrightarrow> rows_ok p) \<Longrightarrow> good u (lift_workers p f)"
  by (simp add: lift_workers_def good_def panel_ok_upd split: prod.split)

lemma rebuild_good: "panel_ok p \<Longrightarrow> (u \<longrightarrow> rows_ok p) \<Longrightarrow> good u (rebuild_tree p)"
  using calm_rebuild by (auto simp: calm_def good_def)

lemma panel_step_good:
  assumes "panel_step api p r" "panel_ok p" "rows_ok p \<or> \<not> u"
  shows "good u r"
  using assms
proof (induction rule: panel_step.induct)
  case (ps_setup cfgs p k)
  then show ?case by (intro set_setup_ok)
next
  case (ps_add p)
  then show ?case using add_device_ok [of p] by (auto simp: good_def)
next
  case (ps_remove p k)
  then show ?case by (intro remove_device_ok) auto
next
  case (ps_select row p)
  then show ?case using select_row_ok [of p row] by (auto simp: good_def)
next
  case (ps_filter p t)
  then have "panel_ok (on_filter_changed t p)"
    by (simp add: panel_ok_def on_filter_changed_def tree_ok_def option.map_comp comp_def split_def)
      (simp add: sel_ok_def cong: option.case_cong)
  with ps_filter show ?case by (auto simp: good_def rows_ok_def on_filter_changed_def)
next
  case (ps_apply p)
  then show ?case using workers_only by (auto simp: apply_selected_def good_def split: option.split)
next
  case (ps_apply_all p)
  then show ?case using workers_only by (auto simp: apply_all_def)
next
  case (ps_click path p r)
  then show ?case
    by (auto simp: click_action_def with_res_def good_def run_command_def panel_ok_upd
        split: option.splits prod.splits sum.splits)
next
  case (ps_timer p)
  have keep: "panel_ok (p\<lparr>p_rebuild := n\<rparr>)" "rows_ok (p\<lparr>p_rebuild := n\<rparr>) = rows_ok p" for n
    using ps_timer(1) by (simp_all add: panel_ok_def tree_ok_def rows_ok_def) (simp add: sel_ok_def cong: option.case_cong)
  show ?case
  proof (cases "p_rebuild p = 0")
    case True
    with ps_timer show ?thesis by (auto simp: on_rebuild_timer_def good_def)
  next
    case False
    have "good u (rebuild_tree (p\<lparr>p_rebuild := p_rebuild p - 1\<rparr>))"
      using keep ps_timer(2) by (intro rebuild_good) auto
    with False show ?thesis by (simp add: on_rebuild_timer_def)
  qed
next
  case (ps_success d p cmd snapshot result)
  then show ?case by (intro on_success_ok)
next
  case (ps_edit p path v)
  then show ?case by (intro edit_value_ok) auto
next
  case (ps_thread p d)
  then show ?case by (auto simp: good_def panel_ok_upd)
qed

inductive panel_reachable :: "('w, 'c) api \<Rightarrow> ('w, 'c) panel \<Rightarrow> bool" for api where
  pr_new: "\<forall>c \<in> set cfgs. cfg_ok c \<Longrightarrow> panel_reachable api (fst (new_panel w cfgs))"
| pr_step: "panel_reachable api p \<Longrightarrow> panel_step api p r \<Longrightarrow> panel_reachable api (fst r)"

lemma new_panel_good:
  assumes "\<forall>c \<in> set cfgs. cfg_ok c"
  shows "good u (new_panel w cfgs)"
  unfolding new_panel_def using assms
  by (intro good_refresh) (auto simp: store_ok_def tree_own_def)

lemma new_panel_facts:
  assumes "\<forall>c \<in> set cfgs. cfg_ok c"
  shows "\<exists>p :: ('w, 'c) panel. new_panel w cfgs = (p, None) \<and> p_heap p = (\<lambda>d. cfgs ! d) \<and> p_devs p = [0..<length cfgs]
     \<and> p_next p = length cfgs"
proof -
  let ?start = "\<lparr>p_heap = (\<lambda>d. cfgs ! d), p_next = length cfgs, p_devs = [0..<length cfgs],
      p_values = [], p_sel = None, p_rows = [], p_tree_cfg = None, p_tree = None, p_filter = [], p_rebuild = 0,
      p_changed = 0, p_workers = new_workers w\<rparr> :: ('w, 'c) panel"
  have "store_ok ?start" "tree_own ?start" using assms by (auto simp: store_ok_def tree_own_def)
  then obtain p where "refresh ?start = (p, None)" "p_heap p = p_heap ?start" "p_devs p = p_devs ?start"
    "p_next p = p_next ?start"
    using refresh_ok by blast
  then show ?thesis by (simp add: new_panel_def)
qed

lemma panel_reachable_ok: "panel_reachable api p \<Longrightarrow> panel_ok p"
proof (induction rule: panel_reachable.induct)
  case (pr_new cfgs w)
  then show ?case using new_panel_good [of cfgs False w] by (simp add: good_def)
next
  case (pr_step p r)
  then show ?case using panel_step_good [of api p r False] by (auto simp: good_def)
qed

section \<open>Properties\<close>



text \<open>
  The filter shows exactly the parameters whose name or title contains the filter text,
  their ancestors and their descendants, and the action button of every group that is shown
  for one of these reasons; with an empty filter everything is shown.  It never changes
  names, titles, values or the structure of the tree.
\<close>

theorem filter_shows_matches:
  "map flags (apply_filter le_text groups) =
     map (shown (lower (strip le_text)) (lower (strip le_text) = []) False) groups
   \<and> map bare (apply_filter le_text groups) = map bare groups"
  by (simp add: apply_filter_def Let_def flags_filter_update bare_filter_update)

text \<open>
  Adding a device never raises and selects the new device, which becomes a timing
  slave exactly when there is a master already: the panel never adds a second master.
\<close>

theorem add_device_one_master:
  assumes "panel_reachable api p"
  shows "\<exists>p'. add_device p = (p', None) \<and> p_devs p' = p_devs p @ [p_next p] \<and> selected_device p' = Some (p_next p)
     \<and> (\<forall>d \<in> set (p_devs p). p_heap p' d = p_heap p d)
     \<and> (timing_role (p_heap p' (p_next p)) = Inr (PStr ''Master'') \<longleftrightarrow>
          \<not> (\<exists>d \<in> set (p_devs p). timing_role (p_heap p d) = Inr (PStr ''Master'')))"
proof -
  have ok: "panel_ok p" using assms by (rule panel_reachable_ok)
  then have "\<forall>d \<in> set (p_devs p). d \<noteq> p_next p" by (auto simp: panel_ok_def store_ok_def)
  with add_device_ok [OF ok] show ?thesis by fastforce
qed

theorem add_device_one_master_witness:
  "\<exists>p'. add_device (fst (new_panel [] [sample_mcpd] :: (net_event list, target) panel outcome)) = (p', None)
     \<and> timing_role (p_heap p' 1) \<noteq> Inr (PStr ''Master'')"
proof -
  let ?p = "fst (new_panel [] [sample_mcpd] :: (net_event list, target) panel outcome)"
  have ok: "cfg_ok sample_mcpd" by code_simp
  then have r: "panel_reachable (quiet (\<lambda>_. RNone)) ?p" by (intro pr_new) simp
  obtain q :: "(net_event list, target) panel" where "new_panel [] [sample_mcpd] = (q, None)"
    "p_heap q = (\<lambda>d. [sample_mcpd] ! d)" "p_devs q = [0..<length [sample_mcpd]]" "p_next q = length [sample_mcpd]"
    using new_panel_facts [of "[sample_mcpd]" "[] :: net_event list"] ok by auto
  then have p: "p_devs ?p = [0]" "p_next ?p = 1" "p_heap ?p 0 = sample_mcpd" by simp_all
  have "timing_role sample_mcpd = Inr (PStr ''Master'')" by code_simp
  with add_device_one_master [OF r] p show ?thesis by auto
qed

end
