(* ===== verification/Pulser_Test_Facts.thy ===== *)
theory Pulser_Test_Facts
  imports Pulser_Test
begin

text \<open>
  Facts about \<open>src/gui/pulser_test.py\<close>: the test together with the device workers as a
  transition system, its invariant, and what it means for the pulsers of the MPSDs.
\<close>

section \<open>Labels\<close>

lemma step_label_inj [simp]: "step_label g = step_label g' \<longleftrightarrow> g = g'"
  by (simp add: step_label_def inj_show_nat)

lemma off_label_neq [simp]:
  "ps_label (submit_off OffLabel t) \<noteq> step_label g" "ps_label (submit_off ''pulser_off'' t) \<noteq> step_label g"
  by (simp_all add: submit_off_def OffLabel_def step_label_def LabelPrefix_def)

lemma submit_off_dev [simp]: "ps_dev (submit_off l t) = fst t" "ps_call (submit_off l t) = off_call (snd t)"
  by (simp_all add: submit_off_def)

section \<open>Counting outstanding jobs\<close>

definition queued :: "string \<Rightarrow> (nat, ('w, 'c, 's) worker) dict \<Rightarrow> nat" where
  "queued l ws = sum_list (map (\<lambda>p. count_list (map it_label (queue (snd p))) l) ws)"

lemma queued_set:
  "dict_get ws d = Some wk \<Longrightarrow>
   queued l (dict_set d wk' ws) + count_list (map it_label (queue wk)) l
     = queued l ws + count_list (map it_label (queue wk')) l"
  by (induction ws) (auto simp: queued_def split: if_splits)

lemma queued_setdefault [simp]: "queued l (dict_setdefault d new_worker ws) = queued l ws"
  by (auto simp: dict_setdefault_def queued_def new_worker_def split: option.splits)

lemma queued_put_item:
  "queued l (wrks (put_item d it s)) = queued l (wrks s) + (if it_label it = l then 1 else 0)"
proof -
  let ?ws = "dict_setdefault d new_worker (wrks s)"
  let ?wk = "dict_get_or ?ws d new_worker"
  have "dict_get ?ws d = Some ?wk" by (auto simp: dict_get_setdefault dict_get_or_def)
  from queued_set [OF this, of l "?wk\<lparr>queue := queue ?wk @ [it]\<rparr>"] show ?thesis
    by (simp add: put_item_def Let_def)
qed

text \<open>Jobs with a label that wait in a queue or whose signal is not delivered yet.\<close>

definition outstanding :: "string \<Rightarrow> nat \<Rightarrow> ('w, 'c, 's) dws \<Rightarrow> nat" where
  "outstanding l seen s = queued l (wrks s) + count_list (map fin_label (drop seen (gui_events s))) l"

lemma outstanding_run_one:
  assumes "seen \<le> length (gui_events s)"
  shows "outstanding l seen (run_one api d s) = outstanding l seen s"
    and "length (gui_events s) \<le> length (gui_events (run_one api d s))"
proof -
  show "outstanding l seen (run_one api d s) = outstanding l seen s"
  proof (cases "pending_items s d")
    case Nil
    then show ?thesis by (simp add: run_one_idle)
  next
    case (Cons it its)
    obtain wk w' wk' ev where wk: "dict_get (wrks s) d = Some wk" "queue wk = it # its"
      and run: "worker_run api (net s) d (wk\<lparr>queue := its\<rparr>) it = (w', wk', ev)"
      and s': "run_one api d s = s\<lparr>net := w', wrks := dict_set d wk' (wrks s), gui_events := gui_events s @ [ev]\<rparr>"
      using run_one_busy [OF Cons, of api] by blast
    from queued_set [OF wk(1), of l wk'] worker_run_facts(1,3) [OF run] show ?thesis
      using assms by (auto simp: outstanding_def s' wk(2) split: if_splits)
  qed
  show "length (gui_events s) \<le> length (gui_events (run_one api d s))"
  proof (cases "pending_items s d")
    case Nil
    then show ?thesis by (simp add: run_one_idle)
  next
    case (Cons it its)
    from run_one_busy [OF Cons, of api] show ?thesis by auto
  qed
qed

lemma gui_events_put_item [simp]: "gui_events (put_item d it s) = gui_events s"
  by (simp add: put_item_def Let_def)

lemma outstanding_submit:
  "outstanding l seen (submit d cfg label jb cb s) = outstanding l seen s + (if label = l then 1 else 0)"
  by (simp add: submit_eq_put_item outstanding_def queued_put_item)

lemma gui_events_submit [simp]: "gui_events (submit d cfg label jb cb s) = gui_events s"
  by (simp add: submit_eq_put_item)

lemma outstanding_submit_all:
  "outstanding l seen (submit_all api h subs s) = outstanding l seen s + count_list (map ps_label subs) l"
  by (induction subs arbitrary: s) (simp_all add: submit_all_def submit_psub_def outstanding_submit)

lemma gui_events_submit_all [simp]: "gui_events (submit_all api h subs s) = gui_events s"
  by (induction subs arbitrary: s) (simp_all add: submit_all_def submit_psub_def)

lemma outstanding_deliver:
  assumes "seen < length (gui_events s)"
  shows "outstanding l (Suc seen) s + (if fin_label (gui_events s ! seen) = l then 1 else 0) = outstanding l seen s"
  using assms by (simp add: outstanding_def Cons_nth_drop_Suc [symmetric])

section \<open>One step of the test\<close>

lemma next_step_ok:
  assumes "pu_running p" "targets h devs \<noteq> []" "pu_step p < length (pu_steps p)"
    "pu_steps p ! pu_step p = (ch, pos, a)" "a < length (pu_amplitudes p)"
  shows "\<exists>p'. next_step h devs p =
       ((p', map (\<lambda>(d, bus). PSub d (pu_step_label p) (on_call bus ch pos (pu_amplitudes p ! a))) (targets h devs)), None)
     \<and> pu_running p' \<and> pu_pending p' = length (targets h devs) \<and> pu_steps p' = pu_steps p
     \<and> pu_touched p' = fold (\<lambda>t. dict_set t t) (targets h devs) (pu_touched p)
     \<and> pu_step p' = (if pu_step p + 1 = length (pu_steps p) then 0 else pu_step p + 1)
     \<and> pu_cycle p' = (if pu_step p + 1 = length (pu_steps p) then pu_cycle p + 1 else pu_cycle p)
     \<and> pu_timer p' = pu_timer p \<and> pu_step_label p' = pu_step_label p \<and> pu_generation p' = pu_generation p
     \<and> pu_amplitudes p' = pu_amplitudes p \<and> pu_dwell_ms p' = pu_dwell_ms p
     \<and> pu_start_enabled p' = (\<not> pu_running p') \<and> pu_stop_enabled p' = pu_running p'
     \<and> pu_all_off_enabled p' = (\<not> pu_running p')"
  using assms by (simp add: next_step_def Let_def set_status_def update_buttons_def)

lemma stop_facts:
  assumes "pu_running p"
  shows "stop p = (set_status ''stopped'' (p\<lparr>pu_running := False, pu_timer := None, pu_touched := []\<rparr>),
      map (\<lambda>(k, t). submit_off OffLabel t) (pu_touched p))"
  using assms by (simp add: stop_def)

section \<open>The test and the workers together\<close>

text \<open>
  \<open>t_seen\<close> counts the \<open>finished\<close> signals delivered to the GUI thread, \<open>t_subs\<close> records
  what the test submitted.
\<close>

record ('w, 'c) tsys =
  t_pt :: pulser
  t_ws :: "('w, 'c) gui_workers"
  t_seen :: nat
  t_subs :: "psub list"

definition emit :: "('w, 'c) api \<Rightarrow> (nat \<Rightarrow> device_config) \<Rightarrow> pulser \<times> psub list \<Rightarrow> ('w, 'c) tsys \<Rightarrow> ('w, 'c) tsys" where
  "emit api h r s =
     s\<lparr>t_pt := fst r, t_ws := submit_all api h (snd r) (t_ws s), t_subs := t_subs s @ snd r\<rparr>"

text \<open>
  The setup (\<open>h\<close>, \<open>devs\<close>) may be a different one at every step; other parts of the GUI
  submit jobs with labels of their own.  Workers are not removed.
\<close>

inductive tstep :: "('w, 'c) api \<Rightarrow> ('w, 'c) tsys \<Rightarrow> ('w, 'c) tsys \<Rightarrow> bool" for api where
  ts_start: "tstep api s (emit api h (fst (panel_start a0 a1 dwell h devs (t_pt s))) s)"
| ts_stop: "tstep api s (emit api h (panel_stop (t_pt s)) s)"
| ts_all_off: "tstep api s (emit api h (t_pt s, all_off h devs) s)"
| ts_params: "tstep api s (s\<lparr>t_pt := apply_params a0 a1 dwell (t_pt s)\<rparr>)"
| ts_timer: "tstep api s (emit api h (fst (on_timeout h devs (t_pt s))) s)"
| ts_finished: "t_seen s < length (gui_events (t_ws s)) \<Longrightarrow>
    tstep api s (s\<lparr>t_pt := on_finished (fin_label (gui_events (t_ws s) ! t_seen s)) (t_pt s), t_seen := Suc (t_seen s)\<rparr>)"
| ts_thread: "tstep api s (s\<lparr>t_ws := run_one api d (t_ws s)\<rparr>)"
| ts_other: "\<forall>g. label \<noteq> step_label g \<Longrightarrow>
    tstep api s (s\<lparr>t_ws := submit d cfg label jb cb (t_ws s)\<rparr>)"

inductive treach :: "('w, 'c) api \<Rightarrow> ('w, 'c) tsys \<Rightarrow> bool" for api where
  tr_init: "treach api \<lparr>t_pt = new_pulser, t_ws = new_workers w, t_seen = 0, t_subs = []\<rparr>"
| tr_step: "treach api s \<Longrightarrow> tstep api s s' \<Longrightarrow> treach api s'"

text \<open>The pulser settings a list of submissions amounts to: the last one for a bus counts.\<close>

definition sets_pulser :: "call \<Rightarrow> (nat \<times> bool) option" where
  "sets_pulser c =
     (case c of
        Call m [PInt b, _, _, _, PEnum t st] [] \<Rightarrow>
          if m = ''mpsd_set_pulser'' \<and> t = PulserState then Some (nat b, st = ''On'') else None
      | _ \<Rightarrow> None)"

definition pulser_after :: "bool \<Rightarrow> nat \<times> nat \<Rightarrow> psub \<Rightarrow> bool" where
  "pulser_after on t s =
     (case sets_pulser (ps_call s) of
        Some (b, on') \<Rightarrow> if (ps_dev s, b) = t then on' else on
      | None \<Rightarrow> on)"

definition pulser_on :: "psub list \<Rightarrow> nat \<times> nat \<Rightarrow> bool" where
  "pulser_on subs t = foldl (\<lambda>on s. pulser_after on t s) False subs"

lemma sets_pulser_simps [simp]:
  "sets_pulser (on_call b ch pos a) = Some (b, True)" "sets_pulser (off_call b) = Some (b, False)"
  by (simp_all add: sets_pulser_def on_call_def off_call_def)

lemma pulser_on_append: "pulser_on (xs @ ys) t = foldl (\<lambda>on s. pulser_after on t s) (pulser_on xs t) ys"
  by (simp add: pulser_on_def)

lemma foldl_on_calls:
  "foldl (\<lambda>on s. pulser_after on t s) x (map (\<lambda>(d, b). PSub d l (on_call b ch pos a)) ts) \<longleftrightarrow> x \<or> t \<in> set ts"
proof (induction ts arbitrary: x)
  case Nil
  then show ?case by simp
next
  case (Cons t' ts)
  obtain d b where "t' = (d, b)" by (cases t')
  moreover have "pulser_after x t (PSub d l (on_call b ch pos a)) \<longleftrightarrow> x \<or> t = (d, b)"
    unfolding pulser_after_def psub.sel sets_pulser_simps by auto
  ultimately show ?case by (simp add: Cons.IH)
qed

lemma foldl_off_calls:
  "foldl (\<lambda>on s. pulser_after on t s) x (map (submit_off l) ts) \<longleftrightarrow> x \<and> t \<notin> set ts"
proof (induction ts arbitrary: x)
  case Nil
  then show ?case by simp
next
  case (Cons t' ts)
  have "pulser_after x t (submit_off l t') \<longleftrightarrow> x \<and> t \<noteq> t'"
    unfolding pulser_after_def submit_off_dev sets_pulser_simps by (cases t') auto
  then show ?case by (simp add: Cons.IH)
qed

section \<open>The invariant\<close>

definition pulser_ok :: "pulser \<Rightarrow> bool" where
  "pulser_ok p \<longleftrightarrow> length (pu_amplitudes p) = 2
     \<and> (pu_running p \<longrightarrow> pu_steps p = all_steps [0, 0] \<and> pu_step p < 48 \<and> 0 < pu_generation p
          \<and> (pu_timer p = None \<longleftrightarrow> 0 < pu_pending p))
     \<and> (\<forall>t. pu_timer p = Some t \<longrightarrow> MinDwell_ms \<le> t \<and> pu_running p)
     \<and> (\<forall>k v. dict_get (pu_touched p) k = Some v \<longrightarrow> v = k)
     \<and> pu_start_enabled p = (\<not> pu_running p) \<and> pu_stop_enabled p = pu_running p
     \<and> pu_all_off_enabled p = (\<not> pu_running p)"

definition counts_ok :: "pulser \<Rightarrow> ('w, 'c) gui_workers \<Rightarrow> nat \<Rightarrow> bool" where
  "counts_ok p ws seen \<longleftrightarrow> seen \<le> length (gui_events ws)
     \<and> (\<forall>g > pu_generation p. outstanding (step_label g) seen ws = 0)
     \<and> (if pu_generation p = 0 then pu_pending p = 0
        else pu_step_label p = step_label (pu_generation p)
           \<and> pu_pending p = outstanding (step_label (pu_generation p)) seen ws)"

definition subs_ok :: "pulser \<Rightarrow> psub list \<Rightarrow> bool" where
  "subs_ok p subs \<longleftrightarrow> (\<forall>t. pulser_on subs t \<longrightarrow> pu_running p \<and> dict_get (pu_touched p) t \<noteq> None)"

definition tsys_ok :: "('w, 'c) tsys \<Rightarrow> bool" where
  "tsys_ok s \<longleftrightarrow> pulser_ok (t_pt s) \<and> counts_ok (t_pt s) (t_ws s) (t_seen s) \<and> subs_ok (t_pt s) (t_subs s)"

lemma touched_fold:
  "dict_get (fold (\<lambda>t. dict_set t t) ts d) k = (if k \<in> set ts then Some k else dict_get d k)"
  by (induction ts arbitrary: d) auto

lemma all_steps_length_eq: "length xs = length ys \<Longrightarrow> all_steps xs = all_steps ys"
  by (simp add: all_steps_def)

lemma step_lookup:
  assumes "steps = all_steps [0, 0]" "i < 48"
  shows "\<exists>ch pos a. steps ! i = (ch, pos, a) \<and> a < 2 \<and> i < length steps"
proof -
  have "length steps = 48" using assms(1) length_all_steps [of "[0, 0]"] by simp
  then have "steps ! i \<in> set steps" and "i < length steps" using assms(2) by simp_all
  then show ?thesis using assms(1) by (auto simp: set_all_steps)
qed

lemma count_off_labels:
  "count_list (map ps_label (map (\<lambda>(k, t). submit_off OffLabel t) xs)) (step_label g) = 0"
  "count_list (map ps_label (map (submit_off ''pulser_off'') ts)) (step_label g) = 0"
  by (induction xs) (auto simp: split_def, induction ts, auto)

lemma count_step_labels:
  "count_list (map ps_label (map (\<lambda>(d, b). PSub d l (on_call b ch pos a)) ts)) l' = (if l = l' then length ts else 0)"
  by (induction ts) (auto simp: split_def)

text \<open>Switching off everything touched switches off everything that may be on.\<close>

lemma touched_off:
  assumes "\<And>t. pulser_on subs t \<Longrightarrow> dict_get touched t \<noteq> None" and "\<And>k v. dict_get touched k = Some v \<Longrightarrow> v = k"
  shows "\<not> pulser_on (subs @ map (\<lambda>(k, t). submit_off OffLabel t) touched) t"
proof
  have offs: "map (\<lambda>(k, t). submit_off OffLabel t) touched = map (submit_off OffLabel) (map snd touched)"
    by (simp add: split_def)
  assume "pulser_on (subs @ map (\<lambda>(k, t). submit_off OffLabel t) touched) t"
  then have "pulser_on subs t" and n: "t \<notin> set (map snd touched)"
    unfolding pulser_on_append offs foldl_off_calls by simp_all
  then have "dict_get touched t \<noteq> None" using assms(1) by blast
  then obtain v where v: "dict_get touched t = Some v" by (metis not_None_eq)
  then have "v = t" using assms(2) by blast
  with v n show False by (force dest: map_of_SomeD)
qed

lemma stop_ok:
  assumes "pulser_ok p" "counts_ok p ws seen" "subs_ok p subs"
  shows "pulser_ok (fst (stop p)) \<and> counts_ok (fst (stop p)) (submit_all api h (snd (stop p)) ws) seen
     \<and> subs_ok (fst (stop p)) (subs @ snd (stop p)) \<and> \<not> pu_running (fst (stop p))"
proof (cases "pu_running p")
  case False
  with assms show ?thesis by (simp add: stop_def submit_all_def)
next
  case True
  let ?offs = "map (\<lambda>(k, t). submit_off OffLabel t) (pu_touched p)"
  have out: "outstanding (step_label g) seen (submit_all api h ?offs ws) = outstanding (step_label g) seen ws" for g
    by (simp add: outstanding_submit_all count_off_labels(1) del: map_map)
  have "\<not> pulser_on (subs @ ?offs) t" for t
    by (rule touched_off) (use assms(1,3) in \<open>auto simp: subs_ok_def pulser_ok_def\<close>)
  then show ?thesis
    using assms(1,2) True out
    by (simp add: stop_facts pulser_ok_def counts_ok_def subs_ok_def set_status_def update_buttons_def)
qed

text \<open>A step taken when no job of the test is outstanding.\<close>

lemma next_step_keeps:
  assumes "pu_running p" "pu_timer p = None" "pu_pending p = 0" "pu_steps p = all_steps [0, 0]" "pu_step p < 48"
    "length (pu_amplitudes p) = 2" "0 < pu_generation p" "pu_step_label p = step_label (pu_generation p)"
    and touched: "\<forall>k v. dict_get (pu_touched p) k = Some v \<longrightarrow> v = k"
    and seen: "seen \<le> length (gui_events ws)" and none: "\<forall>g \<ge> pu_generation p. outstanding (step_label g) seen ws = 0"
    and subs: "\<forall>t. pulser_on subs t \<longrightarrow> dict_get (pu_touched p) t \<noteq> None"
  shows "\<exists>p' out. next_step h devs p = ((p', out), None) \<and> pulser_ok p'
     \<and> counts_ok p' (submit_all api h out ws) seen \<and> subs_ok p' (subs @ out)"
proof (cases "targets h devs = []")
  case True
  let ?offs = "map (\<lambda>(k, t). submit_off OffLabel t) (pu_touched p)"
  have out: "outstanding (step_label g) seen (submit_all api h ?offs ws) = outstanding (step_label g) seen ws" for g
    by (simp add: outstanding_submit_all count_off_labels(1) del: map_map)
  have "\<not> pulser_on (subs @ ?offs) t" for t
    by (rule touched_off) (use subs touched in blast)+
  then show ?thesis
    using True assms out
    by (simp add: next_step_def stop_facts pulser_ok_def counts_ok_def subs_ok_def set_status_def update_buttons_def)
next
  case False
  obtain ch pos a where st: "pu_steps p ! pu_step p = (ch, pos, a)" "a < 2" "pu_step p < length (pu_steps p)"
    using step_lookup [OF assms(4,5)] by blast
  let ?out = "map (\<lambda>(d, bus). PSub d (pu_step_label p) (on_call bus ch pos (pu_amplitudes p ! a))) (targets h devs)"
  from next_step_ok [OF assms(1) False st(3,1)] st(2) assms(6) obtain p' where
    p': "next_step h devs p = ((p', ?out), None)" "pu_running p'" "pu_pending p' = length (targets h devs)"
      "pu_steps p' = pu_steps p" "pu_touched p' = fold (\<lambda>t. dict_set t t) (targets h devs) (pu_touched p)"
      "pu_step p' = (if pu_step p + 1 = length (pu_steps p) then 0 else pu_step p + 1)"
      "pu_timer p' = pu_timer p" "pu_step_label p' = pu_step_label p" "pu_generation p' = pu_generation p"
      "pu_amplitudes p' = pu_amplitudes p" "pu_start_enabled p' = (\<not> pu_running p')"
      "pu_stop_enabled p' = pu_running p'" "pu_all_off_enabled p' = (\<not> pu_running p')"
    by auto
  have "length (pu_steps p) = 48" using assms(4) length_all_steps [of "[0, 0]"] by simp
  then have "pu_step p' < 48" using p'(6) assms(5) by auto
  then have ok: "pulser_ok p'"
    using p' assms False touched by (auto simp: pulser_ok_def touched_fold)
  have "outstanding (step_label g) seen (submit_all api h ?out ws) =
      (if pu_generation p = g then length (targets h devs) else 0)" if "pu_generation p \<le> g" for g
    using none that unfolding outstanding_submit_all count_step_labels by (simp add: assms(8))
  then have counts: "counts_ok p' (submit_all api h ?out ws) seen"
    using p' seen assms(7,8) by (simp add: counts_ok_def)
  have "subs_ok p' (subs @ ?out)"
    unfolding subs_ok_def
  proof (intro allI impI conjI)
    fix t
    assume "pulser_on (subs @ ?out) t"
    then have "t \<in> set (targets h devs) \<or> dict_get (pu_touched p) t \<noteq> None"
      using subs unfolding pulser_on_append foldl_on_calls by blast
    then show "dict_get (pu_touched p') t \<noteq> None" by (simp only: p'(5) touched_fold) (cases "t \<in> set (targets h devs)"; simp)
    show "pu_running p'" by (rule p'(2))
  qed
  with p'(1) ok counts show ?thesis by blast
qed

lemma start_keeps:
  assumes "pulser_ok p" "counts_ok p ws seen" "subs_ok p subs"
  shows "\<exists>p' out r. start h devs p = ((p', out), Inr r) \<and> pulser_ok p'
     \<and> counts_ok p' (submit_all api h out ws) seen \<and> subs_ok p' (subs @ out)"
proof (cases "pu_running p \<or> targets h devs = []")
  case True
  with assms show ?thesis by (auto simp: start_def submit_all_def)
next
  case False
  let ?p1 = "p\<lparr>pu_steps := all_steps (pu_amplitudes p), pu_generation := pu_generation p + 1,
      pu_step_label := step_label (pu_generation p + 1), pu_step := 0, pu_cycle := 0,
      pu_pending := 0, pu_touched := [], pu_running := True\<rparr>"
  have tm: "pu_timer p = None" using assms(1) False by (cases "pu_timer p") (auto simp: pulser_ok_def)
  have amps: "length (pu_amplitudes p) = 2" using assms(1) by (simp add: pulser_ok_def)
  have none: "\<forall>g \<ge> pu_generation ?p1. outstanding (step_label g) seen ws = 0"
    using assms(2) by (simp add: counts_ok_def)
  have subs: "\<forall>t. pulser_on subs t \<longrightarrow> dict_get (pu_touched ?p1) t \<noteq> None"
    using assms(3) False by (simp add: subs_ok_def)
  have "\<exists>p' out. next_step h devs ?p1 = ((p', out), None) \<and> pulser_ok p'
     \<and> counts_ok p' (submit_all api h out ws) seen \<and> subs_ok p' (subs @ out)"
  proof (rule next_step_keeps)
    show "pu_steps ?p1 = all_steps [0, 0]" using amps all_steps_length_eq [of "pu_amplitudes p" "[0, 0]"] by simp
    show "seen \<le> length (gui_events ws)" using assms(2) by (simp add: counts_ok_def)
  qed (use tm amps none subs in simp_all)
  then show ?thesis using False by (auto simp: start_def Let_def)
qed

lemma update_buttons_keeps:
  "pulser_ok p \<Longrightarrow> pulser_ok (update_buttons p)"
  "counts_ok (update_buttons p) ws seen = counts_ok p ws seen"
  "subs_ok (update_buttons p) subs = subs_ok p subs"
  by (simp_all add: pulser_ok_def counts_ok_def subs_ok_def) (simp add: update_buttons_def)

lemma apply_params_keeps:
  "pulser_ok p \<Longrightarrow> pulser_ok (apply_params a0 a1 dwell p)"
  "counts_ok (apply_params a0 a1 dwell p) ws seen = counts_ok p ws seen"
  "subs_ok (apply_params a0 a1 dwell p) subs = subs_ok p subs"
  by (simp_all add: pulser_ok_def counts_ok_def subs_ok_def apply_params_def)

lemma on_timeout_keeps:
  assumes "pulser_ok p" "counts_ok p ws seen" "subs_ok p subs"
  shows "\<exists>p' out. on_timeout h devs p = ((p', out), None) \<and> pulser_ok p'
     \<and> counts_ok p' (submit_all api h out ws) seen \<and> subs_ok p' (subs @ out)"
proof (cases "pu_timer p")
  case None
  with assms show ?thesis by (simp add: on_timeout_def submit_all_def)
next
  case (Some t)
  let ?p = "p\<lparr>pu_timer := None\<rparr>"
  have run: "pu_running p" "pu_pending p = 0" using assms(1) Some by (auto simp: pulser_ok_def)
  then have "\<forall>g \<ge> pu_generation p. outstanding (step_label g) seen ws = 0"
    using assms(1,2) by (auto simp: counts_ok_def pulser_ok_def le_less)
  then have "\<exists>p' out. next_step h devs ?p = ((p', out), None) \<and> pulser_ok p'
     \<and> counts_ok p' (submit_all api h out ws) seen \<and> subs_ok p' (subs @ out)"
    using assms run by (intro next_step_keeps) (auto simp: pulser_ok_def counts_ok_def subs_ok_def)
  then show ?thesis by (simp add: on_timeout_def Some)
qed

lemma counts_ok_timer: "counts_ok (p\<lparr>pu_timer := t\<rparr>) ws seen = counts_ok p ws seen"
  by (simp add: counts_ok_def)

lemma if_keeps: "P x \<Longrightarrow> P y \<Longrightarrow> P (if b then x else y)"
  by simp

lemma on_finished_keeps:
  assumes "pulser_ok p" "counts_ok p ws seen" "subs_ok p subs" and seen: "seen < length (gui_events ws)"
  shows "pulser_ok (on_finished (fin_label (gui_events ws ! seen)) p)
     \<and> counts_ok (on_finished (fin_label (gui_events ws ! seen)) p) ws (Suc seen)
     \<and> subs_ok (on_finished (fin_label (gui_events ws ! seen)) p) subs"
proof -
  let ?l = "fin_label (gui_events ws ! seen)"
  have del: "outstanding l (Suc seen) ws = outstanding l seen ws - (if ?l = l then 1 else 0)" for l
    using outstanding_deliver [OF seen, of l] by auto
  show ?thesis
  proof (cases "?l = pu_step_label p \<and> pu_pending p \<noteq> 0")
    case True
    let ?p = "p\<lparr>pu_pending := pu_pending p - 1\<rparr>"
    let ?q = "if pu_pending ?p = 0 \<and> pu_running ?p
              then ?p\<lparr>pu_timer := Some (max (pu_dwell_ms ?p) MinDwell_ms)\<rparr> else ?p"
    have q: "on_finished ?l p = ?q" using True by (simp add: on_finished_def Let_def)
    have gen: "0 < pu_generation p" using assms(2) True by (cases "pu_generation p") (auto simp: counts_ok_def)
    then have label: "?l = step_label (pu_generation p)" using assms(2) True by (simp add: counts_ok_def)
    have "pulser_ok ?q" using assms(1) True by (auto simp: pulser_ok_def)
    moreover have "counts_ok ?p ws (Suc seen)"
      using assms(2) gen seen del label by (simp add: counts_ok_def)
    then have "counts_ok ?q ws (Suc seen)"
      by (intro if_keeps [of "\<lambda>x. counts_ok x ws (Suc seen)"]) (simp_all add: counts_ok_timer)
    moreover have "subs_ok ?q subs" using assms(3) by (simp add: subs_ok_def)
    ultimately show ?thesis unfolding q by blast
  next
    case False
    then have "on_finished ?l p = p" by (auto simp: on_finished_def)
    moreover have "counts_ok p ws (Suc seen)"
      using assms(2) seen del False by (auto simp: counts_ok_def)
    ultimately show ?thesis using assms(1,3) by simp
  qed
qed

lemma tstep_ok:
  assumes "tstep api s s'" "tsys_ok s"
  shows "tsys_ok s'"
  using assms
proof (induction rule: tstep.induct)
  case (ts_start s h a0 a1 dwell devs)
  let ?p = "apply_params a0 a1 dwell (t_pt s)"
  have "pulser_ok ?p" "counts_ok ?p (t_ws s) (t_seen s)" "subs_ok ?p (t_subs s)"
    using ts_start by (simp_all add: tsys_ok_def apply_params_keeps)
  from start_keeps [OF this, of h devs api] show ?case
    by (auto simp: tsys_ok_def panel_start_def emit_def update_buttons_keeps)
next
  case (ts_stop s h)
  have "pulser_ok (t_pt s)" "counts_ok (t_pt s) (t_ws s) (t_seen s)" "subs_ok (t_pt s) (t_subs s)"
    using ts_stop by (simp_all add: tsys_ok_def)
  from stop_ok [OF this, of api h] show ?case
    by (auto simp: tsys_ok_def panel_stop_def emit_def update_buttons_keeps split: prod.splits)
next
  case (ts_all_off s h devs)
  have "foldl (\<lambda>on s. pulser_after on t s) x (map (submit_off ''pulser_off'') ts) \<longrightarrow> x" for t x ts
    by (simp add: foldl_off_calls)
  then show ?case
    using ts_all_off count_off_labels(2)
    by (auto simp: tsys_ok_def emit_def all_off_def counts_ok_def outstanding_submit_all subs_ok_def pulser_on_append foldl_off_calls)
next
  case (ts_params s a0 a1 dwell)
  then show ?case by (simp add: tsys_ok_def apply_params_keeps)
next
  case (ts_timer s h devs)
  have "pulser_ok (t_pt s)" "counts_ok (t_pt s) (t_ws s) (t_seen s)" "subs_ok (t_pt s) (t_subs s)"
    using ts_timer by (simp_all add: tsys_ok_def)
  from on_timeout_keeps [OF this, of h devs api] show ?case
    by (auto simp: tsys_ok_def emit_def)
next
  case (ts_finished s)
  then show ?case using on_finished_keeps [of "t_pt s" "t_ws s" "t_seen s" "t_subs s"] by (auto simp: tsys_ok_def)
next
  case (ts_thread s d)
  then have "t_seen s \<le> length (gui_events (t_ws s))" by (simp add: tsys_ok_def counts_ok_def)
  from outstanding_run_one [OF this] this ts_thread show ?case
    by (auto simp: tsys_ok_def counts_ok_def intro: le_trans)
next
  case (ts_other label s d cfg jb cb)
  then show ?case by (simp add: tsys_ok_def counts_ok_def outstanding_submit)
qed

lemma treach_ok: "treach api s \<Longrightarrow> tsys_ok s"
proof (induction rule: treach.induct)
  case (tr_init w)
  show ?case
    by (simp add: tsys_ok_def pulser_ok_def counts_ok_def subs_ok_def new_pulser_def outstanding_def queued_def
        new_workers_def pulser_on_def)
      (simp add: update_buttons_def)
next
  case (tr_step s s')
  then show ?case by (blast intro: tstep_ok)
qed

section \<open>A full cycle\<close>

fun run_steps :: "(nat \<Rightarrow> device_config) \<Rightarrow> nat list \<Rightarrow> nat \<Rightarrow> pulser \<Rightarrow> pulser \<times> psub list" where
  "run_steps h devs 0 p = (p, [])"
| "run_steps h devs (Suc n) p =
     (case next_step h devs p of
        ((p1, out), _) \<Rightarrow> (case run_steps h devs n p1 of (p2, out2) \<Rightarrow> (p2, out @ out2)))"

text \<open>The jobs of one step: one per present MPSD.\<close>

definition step_jobs :: "pulser \<Rightarrow> (nat \<times> nat) list \<Rightarrow> nat \<times> string \<times> nat \<Rightarrow> psub list" where
  "step_jobs p ts s =
     (case s of (ch, pos, a) \<Rightarrow>
        map (\<lambda>(d, bus). PSub d (pu_step_label p) (on_call bus ch pos (pu_amplitudes p ! a))) ts)"

lemma run_steps_jobs:
  assumes "pu_running p" "targets h devs \<noteq> []" "pu_steps p = all_steps [0, 0]" "length (pu_amplitudes p) = 2"
    "pu_step p = i" "i < 48" "i + n \<le> 48"
  shows "snd (run_steps h devs n p) = concat (map (step_jobs p (targets h devs)) (take n (drop i (all_steps [0, 0]))))"
    and "pu_step (fst (run_steps h devs n p)) = (if n = 0 then i else if i + n = 48 then 0 else i + n)"
    and "pu_cycle (fst (run_steps h devs n p)) = pu_cycle p + (if n \<noteq> 0 \<and> i + n = 48 then 1 else 0)"
    and "pu_running (fst (run_steps h devs n p))"
  using assms
proof (induction n arbitrary: p i)
  case 0
  { case 1 show ?case by simp next case 2 then show ?case by simp next
    case 3 show ?case by simp next case 4 then show ?case by simp }
next
  case (Suc n)
  have all: "snd (run_steps h devs (Suc n) p) =
        concat (map (step_jobs p (targets h devs)) (take (Suc n) (drop i (all_steps [0, 0]))))
      \<and> pu_step (fst (run_steps h devs (Suc n) p)) = (if i + Suc n = 48 then 0 else i + Suc n)
      \<and> pu_cycle (fst (run_steps h devs (Suc n) p)) = pu_cycle p + (if i + Suc n = 48 then 1 else 0)
      \<and> pu_running (fst (run_steps h devs (Suc n) p))"
    if p: "pu_running p" "targets h devs \<noteq> []" "pu_steps p = all_steps [0, 0]" "length (pu_amplitudes p) = 2"
      "pu_step p = i" "i < 48" "i + Suc n \<le> 48" for p i
  proof -
    have len: "length (all_steps [0, 0]) = 48" by (simp add: length_all_steps)
    obtain ch pos a where st: "all_steps [0, 0] ! i = (ch, pos, a)" "a < 2"
      using step_lookup [OF refl p(6)] by blast
    from next_step_ok [of p h devs ch pos a] p st len obtain p' where
      p': "next_step h devs p = ((p', step_jobs p (targets h devs) (ch, pos, a)), None)" "pu_running p'"
        "pu_steps p' = pu_steps p" "pu_step p' = (if i + 1 = 48 then 0 else i + 1)"
        "pu_cycle p' = (if i + 1 = 48 then pu_cycle p + 1 else pu_cycle p)"
        "pu_step_label p' = pu_step_label p" "pu_amplitudes p' = pu_amplitudes p"
      by (auto simp: step_jobs_def)
    have drop: "drop i (all_steps [0, 0]) = (ch, pos, a) # drop (Suc i) (all_steps [0, 0])"
      using st p(6) len by (simp add: Cons_nth_drop_Suc [symmetric])
    have same: "step_jobs p' = step_jobs p" using p'(6,7) by (intro ext) (simp add: step_jobs_def)
    obtain p2 out2 where r: "run_steps h devs n p' = (p2, out2)" by fastforce
    show ?thesis
    proof (cases "n = 0")
      case True
      with r p' drop p(5) show ?thesis by auto
    next
      case False
      then have lt: "i + 1 < 48" using p(7) by simp
      note IH = Suc.IH [of p' "i + 1"]
      show ?thesis
        using IH p p' lt False r drop by (simp add: same)
    qed
  qed
  { case 1 from all [OF 1] show ?case by (elim conjE) next
    case 2 from all [OF 2] show ?case by simp next
    case 3 from all [OF 3] show ?case by simp next
    case 4 from all [OF 4] show ?case by (elim conjE) }
qed

section \<open>Properties\<close>

text \<open>
  C12. The pulser test keeps all MPSDs in lockstep and respects the dwell time, whatever the
  user, the device threads and the rest of the GUI do: while it runs, its counter is exactly
  the number of jobs of the current step that have not been reported yet (completions of
  earlier runs never count), the timer for the next step is armed exactly when none is left,
  and never for less than 250 ms; the buttons always show whether it runs.
\<close>

theorem pulser_lockstep:
  assumes "treach api s" and "pu_running (t_pt s)"
  shows "pu_pending (t_pt s) = outstanding (pu_step_label (t_pt s)) (t_seen s) (t_ws s)
     \<and> (pu_timer (t_pt s) \<noteq> None \<longleftrightarrow> outstanding (pu_step_label (t_pt s)) (t_seen s) (t_ws s) = 0)
     \<and> (\<forall>t. pu_timer (t_pt s) = Some t \<longrightarrow> 250 \<le> t)
     \<and> pu_stop_enabled (t_pt s) \<and> \<not> pu_start_enabled (t_pt s) \<and> \<not> pu_all_off_enabled (t_pt s)"
  using treach_ok [OF assms(1)] assms(2)
  by (auto simp: tsys_ok_def pulser_ok_def counts_ok_def MinDwell_ms_def split: if_splits)

definition pulser_sys :: "(net_event list, target) tsys" where
  "pulser_sys = \<lparr>t_pt = new_pulser, t_ws = new_workers [], t_seen = 0, t_subs = []\<rparr>"

definition pulser_started :: "(net_event list, target) tsys" where
  "pulser_started = emit (quiet (\<lambda>_. RNone)) (\<lambda>_. scanned_mcpd)
     (fst (panel_start 10 20 0 (\<lambda>_. scanned_mcpd) [3] (t_pt pulser_sys))) pulser_sys"

lemma pulser_started_reachable: "treach (quiet (\<lambda>_. RNone)) pulser_started"
proof -
  have "treach (quiet (\<lambda>_. RNone)) pulser_sys" unfolding pulser_sys_def by (rule tr_init)
  then show ?thesis unfolding pulser_started_def by (rule tr_step) (rule ts_start)
qed

lemma pulser_started_pt:
  "t_pt pulser_started = fst (fst (panel_start 10 20 0 (\<lambda>_. scanned_mcpd) [3] new_pulser))"
  by (simp add: pulser_started_def emit_def pulser_sys_def)

theorem pulser_lockstep_witness:
  "pu_timer (t_pt pulser_started) = None \<and> pu_pending (t_pt pulser_started) = 1
   \<and> outstanding (pu_step_label (t_pt pulser_started)) 0 (t_ws pulser_started) = 1"
proof -
  have run: "pu_running (t_pt pulser_started)" unfolding pulser_started_pt by code_simp
  have pend: "pu_pending (t_pt pulser_started) = 1" unfolding pulser_started_pt by code_simp
  have seen: "t_seen pulser_started = 0" by (simp add: pulser_started_def emit_def pulser_sys_def)
  note inv = pulser_lockstep [OF pulser_started_reachable run, unfolded seen]
  then have "outstanding (pu_step_label (t_pt pulser_started)) 0 (t_ws pulser_started) = 1" using pend by simp
  with inv pend show ?thesis by simp
qed

text \<open>
  C13. The test never leaves a pulser on: whenever it is not running (stopped by the user, by
  a step that found no target left, or never started), for every device and bus the last
  pulser setting it ever submitted is "off".  Devices run their jobs in the order submitted,
  so this is also the last one the MPSD receives.
\<close>

theorem pulsers_off_when_stopped:
  assumes "treach api s" and "\<not> pu_running (t_pt s)"
  shows "\<not> pulser_on (t_subs s) (d, bus)"
  using treach_ok [OF assms(1)] assms(2) by (auto simp: tsys_ok_def subs_ok_def)

theorem pulsers_off_when_stopped_witness:
  "pulser_on (t_subs pulser_started) (3, 1)
   \<and> \<not> pulser_on (t_subs (emit (quiet (\<lambda>_. RNone)) (\<lambda>_. scanned_mcpd) (panel_stop (t_pt pulser_started)) pulser_started)) (3, 1)"
proof -
  let ?s = "emit (quiet (\<lambda>_. RNone)) (\<lambda>_. scanned_mcpd) (panel_stop (t_pt pulser_started)) pulser_started"
  have "treach (quiet (\<lambda>_. RNone)) ?s"
    by (rule tr_step [OF pulser_started_reachable]) (rule ts_stop)
  moreover have "\<not> pu_running (t_pt ?s)"
    by (simp add: emit_def panel_stop_def stop_def split_def)
  moreover have "t_subs pulser_started = snd (fst (panel_start 10 20 0 (\<lambda>_. scanned_mcpd) [3] new_pulser))"
    by (simp add: pulser_started_def emit_def pulser_sys_def)
  moreover have "pulser_on (snd (fst (panel_start 10 20 0 (\<lambda>_. scanned_mcpd) [3] new_pulser))) (3, 1)"
    by code_simp
  ultimately show ?thesis using pulsers_off_when_stopped by simp
qed

text \<open>
  C14. One cycle of the test covers everything: with an unchanged setup the 48 steps after
  the start of a cycle submit, for every channel, position and amplitude exactly once and in
  this nesting order, one pulser setting for every present MPSD of every enabled MCPD, and
  then the next cycle begins.
\<close>

theorem full_cycle:
  assumes "pulser_ok p" and "pu_running p" and "pu_step p = 0" and "targets h devs \<noteq> []"
  shows "snd (run_steps h devs 48 p) = concat (map (step_jobs p (targets h devs)) (all_steps [0, 0]))
     \<and> pu_step (fst (run_steps h devs 48 p)) = 0 \<and> pu_cycle (fst (run_steps h devs 48 p)) = pu_cycle p + 1
     \<and> pu_running (fst (run_steps h devs 48 p))
     \<and> distinct (all_steps [0, 0])
     \<and> set (all_steps [0, 0]) = {(ch, pos, a). ch < 8 \<and> pos \<in> {''Left'', ''Right'', ''Center''} \<and> a < 2}"
proof -
  have p: "pu_steps p = all_steps [0, 0]" "length (pu_amplitudes p) = 2"
    using assms(1,2) by (simp_all add: pulser_ok_def)
  have len: "take 48 (all_steps [0, 0]) = all_steps [0, 0]" by (simp add: length_all_steps)
  from run_steps_jobs [OF assms(2,4) p assms(3), of 48] show ?thesis
    by (simp add: len distinct_all_steps set_all_steps Positions_def MpsdChannelCount_def numeral_2_eq_2)
qed

theorem full_cycle_witness:
  "\<exists>p. length (snd (run_steps (\<lambda>_. scanned_mcpd) [3, 4] 48 p)) = 96 \<and> pu_cycle (fst (run_steps (\<lambda>_. scanned_mcpd) [3, 4] 48 p)) = 1"
proof -
  let ?p = "new_pulser\<lparr>pu_steps := all_steps [50, 90], pu_generation := 1, pu_pending := 2, pu_running := True\<rparr>"
  have "pulser_ok (update_buttons ?p)"
    by (simp add: pulser_ok_def new_pulser_def all_steps_def update_buttons_def)
  moreover have "pu_running (update_buttons ?p)" "pu_step (update_buttons ?p) = 0" "pu_cycle (update_buttons ?p) = 0"
    by (simp_all add: new_pulser_def)
  moreover have ts: "targets (\<lambda>_. scanned_mcpd) [3, 4] = [(3, 1), (4, 1)]" by code_simp
  moreover have "length (concat (map (step_jobs q [(3, 1), (4, 1)]) xs)) = 2 * length xs" for q xs
    by (induction xs) (auto simp: step_jobs_def)
  ultimately show ?thesis
    using full_cycle [of "update_buttons ?p" "\<lambda>_. scanned_mcpd" "[3, 4]"]
    by (intro exI [of _ "update_buttons ?p"]) (simp add: length_all_steps)
qed

section \<open>A removed device\<close>

text \<open>
  When the worker of a device is removed (\<open>DevicePanel._remove_device\<close>) while its step job
  still waits, the signal for that job never comes: the counter stays above zero, the timer
  is not armed, and the running test takes no further step.
\<close>

lemma removed_device_stalls_test:
  defines "ws \<equiv> remove_worker (quiet (\<lambda>_. RNone)) 0 3 (t_ws pulser_started)"
  shows "pu_running (t_pt pulser_started)" and "pu_pending (t_pt pulser_started) = 1"
    and "pu_timer (t_pt pulser_started) = None" and "wrks ws = []" and "gui_events ws = []"
    and "on_timeout h devs (t_pt pulser_started) = ((t_pt pulser_started, []), None)"
proof -
  show "pu_running (t_pt pulser_started)" "pu_pending (t_pt pulser_started) = 1"
    and tm: "pu_timer (t_pt pulser_started) = None"
    unfolding pulser_started_pt by code_simp+
  show "on_timeout h devs (t_pt pulser_started) = ((t_pt pulser_started, []), None)"
    by (simp add: on_timeout_def tm)
  have "snd (fst (panel_start 10 20 0 (\<lambda>_. scanned_mcpd) [3] new_pulser)) =
      [PSub 3 (step_label 1) (on_call 1 0 ''Left'' 10)]"
    by code_simp
  then have "t_ws pulser_started = submit_all (quiet (\<lambda>_. RNone)) (\<lambda>_. scanned_mcpd)
      [PSub 3 (step_label 1) (on_call 1 0 ''Left'' 10)] (new_workers [])"
    by (simp add: pulser_started_def emit_def pulser_sys_def)
  then show "wrks ws = []" "gui_events ws = []"
    by (simp_all add: ws_def remove_worker_def end_thread_def submit_all_def submit_psub_def submit_eq_put_item)
      (simp add: put_item_def new_workers_def dict_setdefault_def dict_remove_def Let_def)+
qed

end
