(* ===== verification/Main_Window_Facts.thy ===== *)
theory Main_Window_Facts
  imports Main_Window_Setup Device_Panel_Invariant Pulser_Test_Facts
begin

text \<open>
  Facts about the main window: its controls follow the readout under every sequence of events,
  starting and stopping a run, closing, and setups that are saved and opened again.
\<close>

section \<open>Events\<close>

text \<open>
  What happens to the window: the user's clicks and edits, its timers, finished commands, the
  threads of the devices and of the readout, and the console, which may call any method of the
  readout object.
\<close>

datatype ('w, 'c) win_event =
    StartRun | StopRun | ContinueRun | ResetDaq | StartReadout | StopReadout | Replay string | ClearHistograms
  | ChooseDir string | EditPort int | EditListfile bool | EditDir string | EditRunId int | EditClear bool
  | StatsTimer | HistoTimer | DrainTimer | Deliver
  | ThreadTurn nat | ReadoutWork "daq_event list" | Console "daq \<Rightarrow> daq"
  | PanelOp "('w, 'c) panel \<Rightarrow> ('w, 'c) panel outcome"
  | PulserStart int int int | PulserStop | PulserAllOff | PulserTimer
  | ViewOp nat view_event | AddView | CloseView string | ResetUi
  | NewSetup | OpenSetup string | SaveSetup string | SaveSetupAs string

fun win_handle :: "('w, 'c) win_env \<Rightarrow> ('w, 'c) win_event \<Rightarrow> ('w, 'c) win_step" where
  "win_handle env StartRun w = start_run env w"
| "win_handle env StopRun w = stop_run env w"
| "win_handle env ContinueRun w = continue_run env w"
| "win_handle env ResetDaq w = (reset_daq_clicked env w, None)"
| "win_handle env StartReadout w = end_step (start_readout env False w) (\<lambda>_ w1. (w1, None))"
| "win_handle env StopReadout w = stop_readout env w"
| "win_handle env (Replay p) w = (start_replay env p w, None)"
| "win_handle env ClearHistograms w = win_clear_histograms env w"
| "win_handle env (ChooseDir p) w = (choose_listdir p w, None)"
| "win_handle env (EditPort v) w = (edit_port v w, None)"
| "win_handle env (EditListfile b) w = (edit_listfile b w, None)"
| "win_handle env (EditDir t) w = (edit_dir t w, None)"
| "win_handle env (EditRunId v) w = (w\<lparr>w_widgets := set_spin ''spin_run_id'' v (w_widgets w)\<rparr>, None)"
| "win_handle env (EditClear b) w = (w\<lparr>w_widgets := set_checked ''cb_clear_on_start'' b (w_widgets w)\<rparr>, None)"
| "win_handle env StatsTimer w = update_stats env w"
| "win_handle env HistoTimer w = win_update_histograms env w"
| "win_handle env DrainTimer w = on_drained env w"
| "win_handle env Deliver w = deliver_finished env w"
| "win_handle env (ThreadTurn d) w = (with_workers (run_one (we_api env) d) w, None)"
| "win_handle env (ReadoutWork evs) w = (w\<lparr>w_daq := daq_events evs (w_daq w)\<rparr>, None)"
| "win_handle env (Console f) w = (w\<lparr>w_daq := f (w_daq w)\<rparr>, None)"
| "win_handle env (PanelOp f) w = lift_panel f w"
| "win_handle env (PulserStart a0 a1 dw) w = pulser_step env (panel_start a0 a1 dw) w"
| "win_handle env PulserStop w = (stop_pulsers env panel_stop w, None)"
| "win_handle env PulserAllOff w = pulser_step env (\<lambda>h devs p. ((p, all_off h devs), None)) w"
| "win_handle env PulserTimer w = pulser_step env on_timeout w"
| "win_handle env (ViewOp i e) w = on_view env i (\<lambda>slot. view_handle slot e) w"
| "win_handle env AddView w = add_histo_view env ''bottom'' None w"
| "win_handle env (CloseView n) w = (close_histo_view n w, None)"
| "win_handle env ResetUi w = reset_ui env w"
| "win_handle env NewSetup w = new_setup_clicked env w"
| "win_handle env (OpenSetup p) w = open_setup env p w"
| "win_handle env (SaveSetup p) w = save_setup env p w"
| "win_handle env (SaveSetupAs p) w = save_setup_as env p w"

text \<open>A handler that raises ends there; the event loop goes on.\<close>

definition run_window :: "(('w, 'c) win_env \<times> ('w, 'c) win_event) list \<Rightarrow> ('w, 'c) window \<Rightarrow> ('w, 'c) window" where
  "run_window evs w = fold (\<lambda>(env, e) w. fst (win_handle env e w)) evs w"

section \<open>The controls\<close>

definition window_states :: "string list" where
  "window_states = [''idle'', ''readout'', ''replay'']"

definition expected_enabled :: "string \<Rightarrow> string \<Rightarrow> bool" where
  "expected_enabled st n \<longleftrightarrow>
     (if n = ''pb_stop_run'' then st = ''readout'' else if n = ''pb_stop_readout'' then st \<noteq> ''idle'' else st = ''idle'')"

definition controls_ok :: "bool \<Rightarrow> ('w, 'c) window \<Rightarrow> bool" where
  "controls_ok sh w \<longleftrightarrow>
     w_state w \<in> set window_states
     \<and> list_all (has_widget (w_widgets w)) (dict_keys daq_panel_widgets)
     \<and> (sh \<longrightarrow> list_all (\<lambda>n. is_enabled (w_widgets w) n = expected_enabled (w_state w) n) switched
        \<and> w_status w = state_text (w_state w)
        \<and> take (length (state_text (w_state w))) (widget_text (w_widgets w) ''label_state'') = state_text (w_state w))"

text \<open>\<open>sh\<close>: the state was shown, which is so after the constructor.\<close>

text \<open>
  What the invariant looks at; every operation but \<open>_set_state\<close> leaves it alone.
\<close>

definition shown_state :: "('w, 'c) window \<Rightarrow> _" where
  "shown_state w = (w_state w, w_status w, map (has_widget (w_widgets w)) (dict_keys daq_panel_widgets),
     map (is_enabled (w_widgets w)) switched, widget_text (w_widgets w) ''label_state'')"

lemma controls_ok_shown: "shown_state w' = shown_state w \<Longrightarrow> controls_ok sh w' = controls_ok sh w"
  by (simp add: controls_ok_def shown_state_def list_all_iff map_eq_conv)

lemma switched_in_panel: "list_all (\<lambda>n. n \<in> set (dict_keys daq_panel_widgets)) switched"
  by code_simp

lemma controls_ok_set_state:
  assumes "controls_ok sh' w" and "st \<in> set window_states"
  shows "controls_ok sh (win_set_state st w)"
proof -
  have has: "list_all (has_widget (w_widgets w)) switched"
    using assms(1) switched_in_panel by (auto simp: controls_ok_def list_all_iff)
  have label: "has_widget (w_widgets w) ''label_state''"
    using assms(1) by (simp add: controls_ok_def daq_panel_widgets_def)
  have "is_enabled (daq_set_state st (w_widgets w)) n = expected_enabled st n" if "n \<in> set switched" for n
    using daq_set_state_enabled [OF has that] by (simp add: expected_enabled_def)
  moreover have "dict_get (daq_set_state st (w_widgets w)) ''label_state'' \<noteq> None"
    using label has_widget_daq_set_state [of st "w_widgets w" "''label_state''"] by (simp add: has_widget_def)
  ultimately show ?thesis
    using assms by (simp add: controls_ok_def win_set_state_def list_all_iff)
qed

section \<open>Keeping an invariant\<close>

lemma fst_and_then: "P (fst r) \<Longrightarrow> (\<And>s. P s \<Longrightarrow> P (fst (f s))) \<Longrightarrow> P (fst (and_then r f))"
  by (cases r; cases "snd r") (auto simp: and_then_def)

lemma fst_for_each: "P s \<Longrightarrow> (\<And>x s. x \<in> set xs \<Longrightarrow> P s \<Longrightarrow> P (fst (f x s))) \<Longrightarrow> P (fst (for_each f xs s))"
  by (induction xs arbitrary: s) (auto intro: fst_and_then)

lemma fst_with_res: "P s \<Longrightarrow> (\<And>x. r = Inr x \<Longrightarrow> P (fst (f x))) \<Longrightarrow> P (fst (with_res r s f))"
  by (cases r) (auto simp: with_res_def)

lemma fst_end_step: "P (fst r) \<Longrightarrow> (\<And>a s. r = (s, Inr a) \<Longrightarrow> P s \<Longrightarrow> P (fst (f a s))) \<Longrightarrow> P (fst (end_step r f))"
  by (cases r; cases "snd r") (auto simp: end_step_def)

lemma fst_bind_step: "P (fst r) \<Longrightarrow> (\<And>a s. r = (s, Inr a) \<Longrightarrow> P s \<Longrightarrow> P (fst (f a s))) \<Longrightarrow> P (fst (bind_step r f))"
  by (cases r; cases "snd r") (auto simp: bind_step_def)

section \<open>Histograms of the readout\<close>

definition histos_good :: "daq \<Rightarrow> bool" where
  "histos_good d \<longleftrightarrow>
     list_all (\<lambda>(k, h). good_histos ''mdll'' h) (mdll_histos d) \<and> list_all (\<lambda>(k, h). good_histos ''mcpd'' h) (mcpd_histos d)"

lemma good_histos_not_mdll: "kd \<noteq> ''mdll'' \<Longrightarrow> good_histos kd h = good_histos ''mcpd'' h"
  by (simp add: good_histos_def)

lemma good_source_daq:
  assumes "histos_good d"
  shows "good_source (histos_of d)"
  unfolding good_source_def
proof (intro allI impI)
  fix kd k h assume "histos_of d kd k = Some h"
  then consider "kd = ''mdll''" "(k, h) \<in> set (mdll_histos d)" | "kd \<noteq> ''mdll''" "(k, h) \<in> set (mcpd_histos d)"
    by (cases "kd = ''mdll''") (auto simp: histos_of_def dest: dict_get_in)
  then show "good_histos kd h"
  proof cases
    case 1
    with assms show ?thesis by (auto simp: histos_good_def list_all_iff)
  next
    case 2
    with assms show ?thesis by (subst good_histos_not_mdll) (auto simp: histos_good_def list_all_iff)
  qed
qed

lemma dims_zero [simp]: "dims (zero_array a) = dims a"
  by (induction a rule: dims.induct) auto

lemma has_shape_zero [simp]: "has_shape ns (zero_array a) = has_shape ns a"
  by (induction ns a rule: has_shape.induct) (auto simp: list_all_iff)

lemma good_histos_zero [simp]: "good_histos kd (map (\<lambda>(n, a). (n, zero_array a)) h) = good_histos kd h"
  "good_histos kd (map (\<lambda>p. (fst p, zero_array (snd p))) h) = good_histos kd h"
  by (simp_all add: good_histos_def list_all_iff one_dim_def two_dim_def mcpd_histo_def case_prod_unfold)

fun event_good :: "daq_event \<Rightarrow> bool" where
  "event_good (Received c st ml mc) \<longleftrightarrow>
     list_all (\<lambda>(k, h). good_histos ''mdll'' h) ml \<and> list_all (\<lambda>(k, h). good_histos ''mcpd'' h) mc"
| "event_good e = True"

lemma histos_good_simps [simp]:
  "histos_good (new_daq p)" "histos_good (daq_stop d) = histos_good d" "histos_good (reset_stats d) = histos_good d"
  "histos_good (clear_histograms d) = histos_good d" "histos_good (clear_sources d)"
  "histos_good (fst (rethrow_exception d)) = histos_good d" "histos_good (start_worker l d) = histos_good d"
  "histos_good (d\<lparr>local_port := p\<rparr>) = histos_good d"
  by (simp_all add: histos_good_def new_daq_def daq_stop_def reset_stats_def clear_histograms_def zero_histos_def clear_sources_def
      rethrow_exception_def start_worker_def list_all_iff case_prod_unfold split: option.split)

lemma histos_good_event: "event_good ev \<Longrightarrow> histos_good d \<Longrightarrow> histos_good (daq_event_step ev d)"
  by (cases ev) (auto simp: histos_good_def split: option.split)

lemma histos_good_events: "list_all event_good evs \<Longrightarrow> histos_good d \<Longrightarrow> histos_good (daq_events evs d)"
  unfolding daq_events_def by (induction evs arbitrary: d) (auto simp: histos_good_event simp del: daq_event_step.simps)

lemma histos_good_start:
  "histos_good d \<Longrightarrow> histos_good (fst (daq_start_readout env l ov d))"
  "histos_good d \<Longrightarrow> histos_good (fst (daq_start_replay env' l d))"
proof -
  show "histos_good d \<Longrightarrow> histos_good (fst (daq_start_readout env l ov d))"
    using daq_start_readout_cases [of env l ov d] by (cases "daq_start_readout env l ov d") fastforce
  show "histos_good d \<Longrightarrow> histos_good (fst (daq_start_replay env' l d))"
    using daq_start_replay_cases [of env' l d] by (cases "daq_start_replay env' l d") fastforce
qed

section \<open>The invariant of the window\<close>

definition views_ok :: "('w, 'c) window \<Rightarrow> bool" where
  "views_ok w \<longleftrightarrow> list_all (\<lambda>(n, v). view_ok v) (w_views w)"

definition window_ok :: "bool \<Rightarrow> ('w, 'c) window \<Rightarrow> bool" where
  "window_ok sh w \<longleftrightarrow> controls_ok sh w \<and> views_ok w \<and> histos_good (w_daq w)"

definition win_fine :: "bool \<Rightarrow> ('w, 'c) window outcome \<Rightarrow> bool" where
  "win_fine sh r \<longleftrightarrow> snd r = None \<and> window_ok sh (fst r)"

lemma win_fine_simps [simp]: "win_fine sh (w, e) \<longleftrightarrow> e = None \<and> window_ok sh w"
  by (simp add: win_fine_def)

lemma win_fine_and_then: "win_fine sh r \<Longrightarrow> (\<And>w. window_ok sh w \<Longrightarrow> win_fine sh (f w)) \<Longrightarrow> win_fine sh (and_then r f)"
  by (cases r) (auto simp: and_then_def)

text \<open>Fields that the invariant does not look at.\<close>

lemma window_ok_upd [simp]:
  "window_ok sh (w\<lparr>w_panel := p\<rparr>) = window_ok sh w" "window_ok sh (w\<lparr>w_pulser := pu\<rparr>) = window_ok sh w"
  "window_ok sh (w\<lparr>w_port := n\<rparr>) = window_ok sh w" "window_ok sh (w\<lparr>w_write := b\<rparr>) = window_ok sh w"
  "window_ok sh (w\<lparr>w_dir := t\<rparr>) = window_ok sh w" "window_ok sh (w\<lparr>w_path := pt\<rparr>) = window_ok sh w"
  "window_ok sh (w\<lparr>w_tracker := tr\<rparr>) = window_ok sh w" "window_ok sh (w\<lparr>w_rows := rs\<rparr>) = window_ok sh w"
  "window_ok sh (w\<lparr>w_pending := pe\<rparr>) = window_ok sh w" "window_ok sh (w\<lparr>w_drains := k\<rparr>) = window_ok sh w"
  "window_ok sh (w\<lparr>w_listfile := t\<rparr>) = window_ok sh w" "window_ok sh (w\<lparr>w_title := t\<rparr>) = window_ok sh w"
  "window_ok sh (w\<lparr>w_cells := ce\<rparr>) = window_ok sh w" "window_ok sh (w\<lparr>w_docks := ds\<rparr>) = window_ok sh w"
  "window_ok sh (w\<lparr>w_log := lg\<rparr>) = window_ok sh w" "window_ok sh (w\<lparr>w_files := fs\<rparr>) = window_ok sh w"
  "window_ok sh (w\<lparr>w_stored := st\<rparr>) = window_ok sh w" "window_ok sh (w\<lparr>w_closed := b\<rparr>) = window_ok sh w"
  by (simp_all add: window_ok_def controls_ok_def views_ok_def)

lemma window_ok_daq [simp]: "window_ok sh (w\<lparr>w_daq := d\<rparr>) \<longleftrightarrow> controls_ok sh w \<and> views_ok w \<and> histos_good d"
  by (simp add: window_ok_def controls_ok_def views_ok_def)

lemma window_ok_views [simp]:
  "window_ok sh (w\<lparr>w_views := vs\<rparr>) \<longleftrightarrow> controls_ok sh w \<and> list_all (\<lambda>(n, v). view_ok v) vs \<and> histos_good (w_daq w)"
  by (simp add: window_ok_def controls_ok_def views_ok_def)

lemma window_okD: "window_ok sh w \<Longrightarrow> controls_ok sh w" "window_ok sh w \<Longrightarrow> views_ok w" "window_ok sh w \<Longrightarrow> histos_good (w_daq w)"
  by (simp_all add: window_ok_def)

lemma window_ok_log [simp]: "window_ok sh (log_msg l t w) = window_ok sh w" "window_ok sh (fold (log_msg l) ts w) = window_ok sh w"
  by (simp add: log_msg_def) (induction ts arbitrary: w, simp_all add: log_msg_def)

lemma parts_log [simp]: "controls_ok sh (log_msg l t w) = controls_ok sh w" "views_ok (log_msg l t w) = views_ok w"
  "controls_ok sh (w\<lparr>w_daq := d\<rparr>) = controls_ok sh w" "views_ok (w\<lparr>w_daq := d\<rparr>) = views_ok w"
  by (simp_all add: log_msg_def controls_ok_def views_ok_def)

lemma window_ok_workers [simp]: "window_ok sh (with_workers f w) = window_ok sh w"
  by (simp add: with_workers_def)

lemma window_ok_first_state: "window_ok sh' w \<Longrightarrow> st \<in> set window_states \<Longrightarrow> window_ok sh (win_set_state st w)"
  using controls_ok_set_state [of sh' w st sh] by (simp add: window_ok_def views_ok_def win_set_state_def)

lemma window_ok_set_state: "window_ok sh w \<Longrightarrow> st \<in> set window_states \<Longrightarrow> window_ok sh (win_set_state st w)"
  by (rule window_ok_first_state)

text \<open>Changes of widgets that \<open>_set_state\<close> does not own.\<close>

lemma window_ok_widgets [simp]:
  "n \<noteq> ''label_state'' \<Longrightarrow> window_ok sh (w\<lparr>w_widgets := set_text n t (w_widgets w)\<rparr>) = window_ok sh w"
  "window_ok sh (w\<lparr>w_widgets := set_spin n v (w_widgets w)\<rparr>) = window_ok sh w"
  "window_ok sh (w\<lparr>w_widgets := set_checked n b (w_widgets w)\<rparr>) = window_ok sh w"
  by (simp_all add: window_ok_def controls_ok_def views_ok_def cong: list.pred_cong)

section \<open>Views\<close>

text \<open>The cache of \<open>_update_histograms\<close> makes no difference: every visible view gets its own histograms.\<close>

lemma update_views_eq:
  assumes "good_source src" and "list_all (\<lambda>(n, v). view_ok v) vs" and "\<forall>k h. dict_get cache k = Some h \<longrightarrow> h = src (fst k) (snd k)"
  shows "update_views src visible cache vs = (map (\<lambda>(n, v). (n, if visible n then fst (fetch_into src v) else v)) vs, None)"
  using assms(2,3)
proof (induction vs arbitrary: cache)
  case (Cons p vs)
  obtain n v where p: "p = (n, v)" by fastforce
  show ?case
  proof (cases "\<not> visible n \<or> device_key v = None")
    case True
    then have "(if visible n then fst (fetch_into src v) else v) = v" by (auto simp: fetch_into_def)
    with True Cons show ?thesis by (simp add: p)
  next
    case False
    then obtain k where k: "device_key v = Some k" and vis: "visible n" by auto
    let ?k = "(v_kind v, k)"
    let ?c = "if dict_get cache ?k = None then dict_set ?k (src (v_kind v) k) cache else cache"
    have known: "dict_get cache ?k = Some h \<Longrightarrow> h = src (v_kind v) k" for h using Cons.prems(2) [rule_format, of ?k h] by simp
    have get: "the (dict_get ?c ?k) = src (v_kind v) k" using known by (cases "dict_get cache ?k") simp_all
    have cache: "dict_get ?c k' = Some h \<longrightarrow> h = src (fst k') (snd k')" for k' h
      using Cons.prems(2) [rule_format, of k' h] by (cases "dict_get cache ?k"; cases "k' = ?k") simp_all
    have "view_fine (fetch_into src v)" using slot_okD(1) [OF slot_ok_fetch [OF assms(1)]] Cons.prems(1) by (simp add: p)
    then obtain v' where v': "update_histograms (src (v_kind v) k) v = (v', None)"
      by (cases "update_histograms (src (v_kind v) k) v") (simp add: fetch_into_def k)
    have "update_views src visible ?c vs = (map (\<lambda>(n, v). (n, if visible n then fst (fetch_into src v) else v)) vs, None)"
      by (rule Cons.IH) (use Cons.prems(1) cache in \<open>auto simp del: split_paired_All\<close>)
    with False k get v' vis show ?thesis
      by (cases "dict_get cache ?k") (simp_all add: p fetch_into_def Let_def)
  qed
qed simp

lemma length_update_views: "length (fst (update_views src visible cache vs)) = length vs"
  by (induction src visible cache vs rule: update_views.induct) (auto simp: Let_def split: prod.splits option.splits)

lemma set_mem_update_or: "x \<in> set (xs[i := y]) \<Longrightarrow> x = y \<or> x \<in> set xs"
  using set_update_subset_insert [of xs i y] by auto

lemma update_histograms_ok:
  assumes "window_ok sh w"
  shows "win_fine sh (win_update_histograms env w)"
    and "shown_state (fst (win_update_histograms env w)) = shown_state w" "w_daq (fst (win_update_histograms env w)) = w_daq w"
proof -
  note src = good_source_daq [OF window_okD(3) [OF assms]]
  have vs: "list_all (\<lambda>(n, v). view_ok v) (w_views w)" using assms by (simp add: window_ok_def views_ok_def)
  note eq = update_views_eq [OF src vs, of "[]" "we_visible env"]
  have "view_ok (fst (fetch_into (histos_of (w_daq w)) v))" if "view_ok v" for v
    using slot_okD(1) [OF slot_ok_fetch [OF src] that] by (simp add: view_fine_def)
  then show "win_fine sh (win_update_histograms env w)"
    using assms vs by (auto simp: win_update_histograms_def eq window_ok_def views_ok_def controls_ok_def list_all_iff)
  show "shown_state (fst (win_update_histograms env w)) = shown_state w" "w_daq (fst (win_update_histograms env w)) = w_daq w"
    by (simp_all add: win_update_histograms_def eq shown_state_def)
qed

lemma view_slot_ok: "window_ok sh w \<Longrightarrow> slot_ok (view_slot env w n)"
  by (simp add: view_slot_def slot_ok_none slot_ok_fetch good_source_daq window_okD)

lemma on_view_ok:
  assumes ok: "window_ok sh w" and f: "\<And>slot v. slot_ok slot \<Longrightarrow> view_ok v \<Longrightarrow> view_ok (fst (f slot v))"
  shows "window_ok sh (fst (on_view env i f w))" and "w_daq (fst (on_view env i f w)) = w_daq w"
    and "shown_state (fst (on_view env i f w)) = shown_state w"
    and "length (w_views (fst (on_view env i f w))) = length (w_views w)"
    and "(\<And>slot v. slot_ok slot \<Longrightarrow> view_ok v \<Longrightarrow> view_fine (f slot v)) \<Longrightarrow> i < length (w_views w) \<Longrightarrow> win_fine sh (on_view env i f w)"
proof -
  have vs: "list_all (\<lambda>(n, v). view_ok v) (w_views w)" using ok by (simp add: window_ok_def views_ok_def)
  obtain n v where nv: "w_views w ! i = (n, v)" by fastforce
  obtain v' e where r: "f (view_slot env w n) v = (v', e)" by fastforce
  let ?w1 = "w\<lparr>w_views := (w_views w)[i := (n, v')]\<rparr>"
  have unfold: "on_view env i f w =
      (if i < length (w_views w) then if e = None \<and> v_emitted v' \<noteq> v_emitted v then win_update_histograms env ?w1 else (?w1, e)
       else (w, Some IndexError))"
    unfolding on_view_def nv prod.case r by (simp add: Let_def)
  have w1: "window_ok sh ?w1" if "i < length (w_views w)"
  proof -
    have "view_ok v" using vs that nth_mem [OF that] nv by (auto simp: list_all_iff)
    then have "view_ok v'" using f [OF view_slot_ok [OF ok]] by (metis fst_conv r)
    then show ?thesis
      using ok vs by (auto simp: window_okD list_all_iff dest!: set_mem_update_or)
  qed
  note u = update_histograms_ok [OF w1]
  show "window_ok sh (fst (on_view env i f w))"
    using ok w1 u(1) by (auto simp: unfold win_fine_def)
  show "w_daq (fst (on_view env i f w)) = w_daq w" using u(3) by (simp add: unfold)
  show "shown_state (fst (on_view env i f w)) = shown_state w"
    using u(2) by (simp add: unfold shown_state_def)
  show "length (w_views (fst (on_view env i f w))) = length (w_views w)"
    by (simp add: unfold win_update_histograms_def split_beta length_update_views)
  assume fine: "\<And>slot v. slot_ok slot \<Longrightarrow> view_ok v \<Longrightarrow> view_fine (f slot v)" and i: "i < length (w_views w)"
  have "view_ok v" using vs i nth_mem [OF i] nv by (auto simp: list_all_iff)
  with fine [OF view_slot_ok [OF ok]] have "e = None" by (metis r snd_conv view_fine_def)
  with i w1 u(1) show "win_fine sh (on_view env i f w)" by (simp add: unfold)
qed

text \<open>Restoring any value keeps the view in order, also when it raises.\<close>

lemma fst_fine: "view_fine r \<Longrightarrow> view_ok (fst r)"
  by (simp add: view_fine_def)

lemma set_combo_ok:
  assumes "view_ok v" and "\<And>i v. view_ok v \<Longrightarrow> i < length tab \<Longrightarrow> view_ok (fst (f i v))"
  shows "view_ok (fst (set_combo f tab ky v))"
  using assms by (auto simp: set_combo_def split: pyval.split option.split dest!: index_of_lt)

lemma tuple_of_nonempty: "truthy dv \<Longrightarrow> tuple_of dv = Inr xs \<Longrightarrow> xs \<noteq> []"
  by (cases dv) auto

lemma restore_state_ok:
  assumes slot: "slot_ok slot" and "view_ok v"
  shows "view_ok (fst (restore_state slot st v))"
proof -
  note fine = fst_fine [OF picks_fine(1) [OF slot]] fst_fine [OF picks_fine(2) [OF slot]] fst_fine [OF picks_fine(3) [OF slot]]
    fst_fine [OF picks_fine(4) [OF slot]] fst_fine [OF picks_fine(5) [OF slot]] fst_fine [OF picks_fine(6) [OF slot]]
  have bus: "view_ok (fst (restore_bus slot b u))" if "view_ok u" for b u
    using that fine(4) by (auto simp: restore_bus_def split: pyval.split)
  have chans: "view_ok (fst (restore_channels cs u))" if "view_ok u" for cs u
  proof (cases "cs = PNone")
    case False
    show ?thesis
      unfolding restore_channels_def if_not_P [OF False]
      by (rule fst_for_each [where P = view_ok], rule that, rule fst_with_res [where P = view_ok], assumption, rule fine(5))
  qed (simp add: restore_channels_def that)
  have dev: "view_ok (fst (restore_device dv u))" if "view_ok u" for dv u
  proof -
    have "view_ok (u\<lparr>v_wanted := Some xs\<rparr>)" if "truthy dv" "tuple_of dv = Inr xs" for xs
      using \<open>view_ok u\<close> tuple_of_nonempty [OF that]
      by (simp add: view_ok_def kind_of_current_def current_device_def histo_type_def cong: view_congs)
    with that show ?thesis by (auto simp: restore_device_def with_res_def split: sum.split)
  qed
  show ?thesis
    unfolding restore_state_def
    by (intro fst_and_then [where P = view_ok] set_combo_ok) (use assms fine bus chans dev in auto)
qed

section \<open>Operations of the window\<close>

lemma window_state_cases: "window_ok sh w \<Longrightarrow> w_state w \<in> set window_states"
  by (simp add: window_ok_def controls_ok_def)

lemma window_states_simps [simp]: "''idle'' \<in> set window_states" "''readout'' \<in> set window_states" "''replay'' \<in> set window_states"
  by (simp_all add: window_states_def)

lemma w_set_state_simps [simp]:
  "w_state (win_set_state st w) = st" "w_daq (win_set_state st w) = w_daq w" "w_panel (win_set_state st w) = w_panel w"
  "w_views (win_set_state st w) = w_views w" "w_pending (win_set_state st w) = w_pending w"
  "w_drains (win_set_state st w) = w_drains w" "w_listfile (win_set_state st w) = w_listfile w"
  "w_log (win_set_state st w) = w_log w"
  by (simp_all add: win_set_state_def)

lemma log_msg_simps [simp]:
  "w_state (log_msg l t w) = w_state w" "w_daq (log_msg l t w) = w_daq w" "w_panel (log_msg l t w) = w_panel w"
  "w_views (log_msg l t w) = w_views w" "w_pending (log_msg l t w) = w_pending w" "w_drains (log_msg l t w) = w_drains w"
  "w_listfile (log_msg l t w) = w_listfile w" "w_widgets (log_msg l t w) = w_widgets w" "w_port (log_msg l t w) = w_port w"
  "w_write (log_msg l t w) = w_write w" "w_pulser (log_msg l t w) = w_pulser w" "w_path (log_msg l t w) = w_path w"
  "w_tracker (log_msg l t w) = w_tracker w"
  by (simp_all add: log_msg_def)

lemma check_exception_ok: "window_ok sh w \<Longrightarrow> window_ok sh (check_exception w)"
proof (cases "has_exception (w_daq w)")
  case True
  assume ok: "window_ok sh w"
  obtain d r where d: "rethrow_exception (w_daq w) = (d, r)" by fastforce
  then have "histos_good d" using histos_good_simps(6) [of "w_daq w"] ok by (simp add: window_okD)
  with True ok show ?thesis
    by (cases r) (auto simp: check_exception_def d Let_def window_okD intro!: window_ok_set_state)
qed (simp add: check_exception_def)

lemma sync_state_ok: "window_ok sh w \<Longrightarrow> window_ok sh (sync_state w)"
  by (auto simp: sync_state_def Let_def window_okD intro!: window_ok_set_state)

lemma fold_log_simps [simp]:
  "w_state (fold (log_msg l) ts w) = w_state w" "w_daq (fold (log_msg l) ts w) = w_daq w"
  "w_panel (fold (log_msg l) ts w) = w_panel w" "w_views (fold (log_msg l) ts w) = w_views w"
  "w_pending (fold (log_msg l) ts w) = w_pending w" "w_drains (fold (log_msg l) ts w) = w_drains w"
  by (induction ts arbitrary: w) simp_all

lemma track_stats_simps [simp]:
  "window_ok sh (track_stats env w) = window_ok sh w" "w_state (track_stats env w) = w_state w" "w_daq (track_stats env w) = w_daq w"
  "w_panel (track_stats env w) = w_panel w" "w_views (track_stats env w) = w_views w" "w_pending (track_stats env w) = w_pending w"
  "w_drains (track_stats env w) = w_drains w"
  by (simp_all add: track_stats_def split: prod.split)

text \<open>After \<open>sync_state\<close> the state is \<open>idle\<close> exactly when the readout does not run.\<close>

lemma sync_state_synced: "w_state (sync_state w) = ''idle'' \<longleftrightarrow> \<not> is_running (w_daq (sync_state w))"
  by (auto simp: sync_state_def Let_def)

lemma set_devices_loop:
  assumes "window_ok sh w" and "list_all (\<lambda>i. i < length (w_views w)) is"
  shows "win_fine sh (for_each (\<lambda>i. on_view env i (\<lambda>slot. set_devices slot ds)) is w)"
    and "w_daq (fst (for_each (\<lambda>i. on_view env i (\<lambda>slot. set_devices slot ds)) is w)) = w_daq w"
    and "w_state (fst (for_each (\<lambda>i. on_view env i (\<lambda>slot. set_devices slot ds)) is w)) = w_state w"
  using assms
proof (induction "is" arbitrary: w)
  case (Cons i "is")
  let ?r = "on_view env i (\<lambda>slot. set_devices slot ds) w"
  have f: "view_fine (set_devices slot ds v)" if "slot_ok slot" "view_ok v" for slot v
    using set_devices_fine [OF that] .
  {
    fix w :: "('a, 'b) window" assume w: "window_ok sh w" "list_all (\<lambda>i. i < length (w_views w)) (i # is)"
    have "win_fine sh (on_view env i (\<lambda>slot. set_devices slot ds) w)"
      using on_view_ok(5) [OF w(1) fst_fine [OF f] f, where env = env and i = i] w(2) by simp
    moreover have "length (w_views (fst (on_view env i (\<lambda>slot. set_devices slot ds) w))) = length (w_views w)"
      "w_daq (fst (on_view env i (\<lambda>slot. set_devices slot ds) w)) = w_daq w"
      "shown_state (fst (on_view env i (\<lambda>slot. set_devices slot ds) w)) = shown_state w"
      using on_view_ok(2-4) [OF w(1) fst_fine [OF f], where env = env and i = i] by simp_all
    ultimately have "\<exists>w'. on_view env i (\<lambda>slot. set_devices slot ds) w = (w', None) \<and> window_ok sh w'
        \<and> length (w_views w') = length (w_views w) \<and> w_daq w' = w_daq w \<and> w_state w' = w_state w"
      by (cases "on_view env i (\<lambda>slot. set_devices slot ds) w") (simp add: shown_state_def)
  } note step = this
  {
    case 1
    with step [OF 1] Cons.IH(1) show ?case by (auto simp: and_then_def)
  next
    case 2
    with step [OF 2] Cons.IH(2) show ?case by (auto simp: and_then_def)
  next
    case 3
    with step [OF 3] Cons.IH(3) show ?case by (auto simp: and_then_def)
  }
qed simp_all

lemma show_counters_simps [simp]:
  "window_ok sh (show_counters w) = window_ok sh w" "w_daq (show_counters w) = w_daq w" "w_state (show_counters w) = w_state w"
  by (simp_all add: show_counters_def)

lemma update_stats_ok:
  assumes "window_ok sh w"
  shows "win_fine sh (update_stats env w)"
    and "w_state (fst (update_stats env w)) = ''idle'' \<longleftrightarrow> \<not> is_running (w_daq (fst (update_stats env w)))"
proof -
  let ?w = "track_stats env (sync_state (check_exception w))"
  let ?ds = "device_choices (w_rows ?w)"
  have ok: "window_ok sh ?w" using assms by (simp add: sync_state_ok check_exception_ok)
  have lt: "list_all (\<lambda>i. i < length (w_views ?w)) [0..<length (w_views ?w)]" by (simp add: list_all_iff)
  note loop = set_devices_loop [OF ok lt, of env ?ds]
  obtain w' where w': "for_each (\<lambda>i. on_view env i (\<lambda>slot. set_devices slot ?ds)) [0..<length (w_views ?w)] ?w = (w', None)"
    "window_ok sh w'" "w_daq w' = w_daq ?w" "w_state w' = w_state ?w"
    using loop by (cases "for_each (\<lambda>i. on_view env i (\<lambda>slot. set_devices slot ?ds)) [0..<length (w_views ?w)] ?w") auto
  have "update_stats env w = (show_counters w', None)"
    using w'(1) by (simp add: update_stats_def Let_def and_then_def)
  with w' show "win_fine sh (update_stats env w)"
    "w_state (fst (update_stats env w)) = ''idle'' \<longleftrightarrow> \<not> is_running (w_daq (fst (update_stats env w)))"
    using sync_state_synced [of "check_exception w"] by simp_all
qed

section \<open>Every operation keeps the invariant\<close>

lemma fst_win_fine: "win_fine sh r \<Longrightarrow> window_ok sh (fst r)"
  by (simp add: win_fine_def)

lemma ensure_daq_port_ok: "window_ok sh w \<Longrightarrow> window_ok sh (fst (ensure_daq_port w))"
  by (auto simp: ensure_daq_port_def make_daq_def with_res_def window_okD)

lemma start_readout_ok: "window_ok sh w \<Longrightarrow> window_ok sh (fst (start_readout env b w))"
proof -
  assume "window_ok sh w"
  obtain w1 r where e: "ensure_daq_port w = (w1, r)" by fastforce
  with ensure_daq_port_ok [OF \<open>window_ok sh w\<close>] have w1: "window_ok sh w1" by simp
  let ?l = "if b then make_listfile_path env w1 else []"
  obtain d x where d: "daq_start_readout (we_os env) ?l False (w_daq w1) = (d, x)" by fastforce
  have "histos_good d" using histos_good_start(1) [OF window_okD(3) [OF w1], of "we_os env" ?l False] by (simp add: d)
  with w1 d e show ?thesis
    by (cases r; cases x) (simp_all add: start_readout_def Let_def window_okD window_ok_set_state)
qed

lemma stop_readout_ok: "window_ok sh w \<Longrightarrow> win_fine sh (stop_readout env w)"
  unfolding stop_readout_def Let_def
  by (intro win_fine_and_then update_stats_ok(1) update_histograms_ok(1) window_ok_set_state) (simp_all add: window_okD)

lemma send_ok [simp]:
  "window_ok sh (submit_method env meth args l d w) = window_ok sh w"
  "window_ok sh (fold (submit_method env meth args l) ds w) = window_ok sh w"
  "window_ok sh (send_to_enabled env meth args lb w) = window_ok sh w"
proof -
  show submit: "window_ok sh (submit_method env meth args l d w) = window_ok sh w" for d l w by (simp add: submit_method_def)
  show fold: "window_ok sh (fold (submit_method env meth args l) ds w) = window_ok sh w" for ds l w
    by (induction ds arbitrary: w) (simp_all add: submit)
  show "window_ok sh (send_to_enabled env meth args lb w) = window_ok sh w"
    by (simp add: send_to_enabled_def Let_def fold)
qed

lemma master_device_ok: "window_ok sh w \<Longrightarrow> window_ok sh (fst (master_device w))"
  by (auto simp: master_device_def Let_def split: sum.split list.split)

lemma send_to_master_ok: "window_ok sh w \<Longrightarrow> window_ok sh (fst (send_to_master env meth lb w))"
  unfolding send_to_master_def
  by (intro fst_bind_step [where P = "window_ok sh"] master_device_ok) (auto split: option.split)

lemma fresh_counts_ok: "window_ok sh w \<Longrightarrow> window_ok sh (fresh_counts w)"
  by (simp add: fresh_counts_def Let_def window_okD)

lemma start_run_ok: "window_ok sh w \<Longrightarrow> window_ok sh (fst (start_run env w))"
  unfolding start_run_def Let_def
  by (intro fst_end_step [where P = "window_ok sh"] master_device_ok)
    (auto intro!: fst_end_step [where P = "window_ok sh"] start_readout_ok send_to_master_ok fresh_counts_ok)

lemma continue_run_ok: "window_ok sh w \<Longrightarrow> window_ok sh (fst (continue_run env w))"
  unfolding continue_run_def
  by (intro fst_end_step [where P = "window_ok sh"] master_device_ok)
    (auto intro!: fst_end_step [where P = "window_ok sh"] start_readout_ok send_to_master_ok)

lemma stop_run_ok: "window_ok sh w \<Longrightarrow> window_ok sh (fst (stop_run env w))"
  unfolding stop_run_def Let_def
  by (intro fst_end_step [where P = "window_ok sh"] send_to_master_ok)
    (auto intro!: fst_win_fine stop_readout_ok)

lemma start_replay_ok: "window_ok sh w \<Longrightarrow> window_ok sh (start_replay env p w)"
proof -
  assume ok: "window_ok sh w"
  obtain d x where d: "daq_start_replay (we_os env) p (reset_stats (clear_sources (w_daq w))) = (d, x)" by fastforce
  have "histos_good d" using histos_good_start(2) [of "reset_stats (clear_sources (w_daq w))" "we_os env" p] by (simp add: d)
  with ok d show ?thesis
    by (cases x) (simp_all add: start_replay_def Let_def window_okD window_ok_set_state)
qed

lemma win_clear_histograms_ok: "window_ok sh w \<Longrightarrow> win_fine sh (win_clear_histograms env w)"
  unfolding win_clear_histograms_def by (rule update_histograms_ok) (simp add: window_okD)

lemma lift_panel_ok [simp]: "window_ok sh (fst (lift_panel f w)) = window_ok sh w"
  by (simp add: lift_panel_def split: prod.split)

lemma report_finished_ok: "window_ok sh (fst (report_finished env ev w)) = window_ok sh w"
  by (simp add: report_finished_def Let_def split: sum.split option.split)

lemma check_stopped_ok [simp]: "window_ok sh (check_stopped ev w) = window_ok sh w"
  by (simp add: check_stopped_def Let_def)

lemma on_command_finished_ok: "window_ok sh w \<Longrightarrow> window_ok sh (fst (on_command_finished env ev w))"
  unfolding on_command_finished_def
  by (rule fst_and_then [where P = "window_ok sh"]) (simp_all add: report_finished_ok)

lemma deliver_finished_ok: "window_ok sh w \<Longrightarrow> window_ok sh (fst (deliver_finished env w))"
  by (auto simp: deliver_finished_def intro!: on_command_finished_ok split: list.split)

lemma on_drained_ok: "window_ok sh w \<Longrightarrow> win_fine sh (on_drained env w)"
  by (simp add: on_drained_def stop_readout_ok)

lemma pulser_step_ok [simp]: "window_ok sh (fst (pulser_step env f w)) = window_ok sh w"
  "window_ok sh (stop_pulsers env g w) = window_ok sh w"
proof -
  show 1: "window_ok sh (fst (pulser_step env f w)) = window_ok sh w" for f
    by (simp add: pulser_step_def Let_def split: prod.split)
  then show "window_ok sh (stop_pulsers env g w) = window_ok sh w" by (simp add: stop_pulsers_def)
qed

section \<open>Views that come and go\<close>

lemma new_view_eq: "new_view (\<lambda>v. (v, None)) = (sample_view, None)"
proof -
  have "snd (new_view (\<lambda>v. (v, None))) = None" by code_simp
  then show ?thesis by (simp add: sample_view_def prod_eq_iff)
qed

text \<open>There is always a number left for a new view.\<close>

lemma fresh_name_total: "\<exists>n. fresh_name used = Inr n \<and> n \<notin> set used"
proof -
  have "inj histogram_name" by (auto simp: inj_on_def histogram_name_def inj_show_nat)
  then have "card (set (map histogram_name [0..<card (set used) + 1])) = card (set used) + 1"
    by (simp add: card_image inj_on_subset [OF _ subset_UNIV] del: upt_Suc)
  then have "\<not> set (map histogram_name [0..<card (set used) + 1]) \<subseteq> set used"
    using card_mono [of "set used" "set (map histogram_name [0..<card (set used) + 1])"] by auto
  then have "filter (\<lambda>n. n \<notin> set used) (map histogram_name [0..<card (set used) + 1]) \<noteq> []"
    by (auto simp: filter_empty_conv simp del: upt_Suc)
  then obtain n ns where f: "filter (\<lambda>n. n \<notin> set used) (map histogram_name [0..<card (set used) + 1]) = n # ns"
    by (cases "filter (\<lambda>n. n \<notin> set used) (map histogram_name [0..<card (set used) + 1])") auto
  then have "n \<in> set (filter (\<lambda>n. n \<notin> set used) (map histogram_name [0..<card (set used) + 1]))" by simp
  then show ?thesis using f by (simp add: fresh_name_def del: upt_Suc)
qed

lemma set_devices_new: "\<exists>v. set_devices (\<lambda>v. (v, None)) ds sample_view = (v, None) \<and> view_ok v"
  using set_devices_fine [OF slot_ok_none sample_view_ok, of ds]
  by (cases "set_devices (\<lambda>v. (v, None)) ds sample_view") simp

lemma add_histo_view_ok:
  assumes "window_ok sh w"
  shows "\<exists>w'. add_histo_view env pos nm w = (w', None) \<and> window_ok sh w'"
proof -
  obtain n where n: "(case nm of Some n \<Rightarrow> Inr n | None \<Rightarrow> fresh_name (map fst (w_views w))) = Inr n"
    using fresh_name_total [of "map fst (w_views w)"] by (cases nm) auto
  obtain v where v: "set_devices (\<lambda>v. (v, None)) (device_choices (w_rows w)) sample_view = (v, None)" "view_ok v"
    using set_devices_new by blast
  from assms v show ?thesis
    by (simp add: add_histo_view_def new_view_eq n with_res_def Let_def window_ok_def views_ok_def controls_ok_def)
qed

lemma close_histo_view_ok [simp]: "window_ok sh w \<Longrightarrow> window_ok sh (close_histo_view n w)"
  by (auto simp: close_histo_view_def window_ok_def views_ok_def controls_ok_def list_all_iff)

lemma close_histo_views_ok: "window_ok sh w \<Longrightarrow> window_ok sh (close_histo_views w)"
proof -
  have "window_ok sh (fold close_histo_view ns w)" if "window_ok sh w" for ns and w :: "('a, 'b) window"
    using that by (induction ns arbitrary: w) simp_all
  note closed = this
  show "window_ok sh w \<Longrightarrow> window_ok sh (close_histo_views w)"
    using closed [of w "map fst (w_views w)"] by (simp add: close_histo_views_def window_ok_def views_ok_def controls_ok_def)
qed

lemma place_docks_ok [simp]: "window_ok sh (place_docks cs w) = window_ok sh w"
  by (simp add: place_docks_def)

lemma add_restored_ok:
  assumes "window_ok sh w"
  shows "window_ok sh (fst (add_restored env pos nm st w))"
proof -
  obtain w' where w': "add_histo_view env pos nm w = (w', None)" "window_ok sh w'"
    using add_histo_view_ok [OF assms] by blast
  then show ?thesis
    using on_view_ok(1) [OF w'(2), where f = "\<lambda>slot. restore_state slot st"] restore_state_ok
    by (simp add: add_restored_def and_then_def)
qed

text \<open>The states of the default views restore without an error.\<close>

lemma default_states_fine:
  assumes "slot_ok slot" and "view_ok v"
  shows "view_fine (restore_state slot [(''type'', PStr ''xy''), (''mode'', PStr ''bus'')] v)"
    and "view_fine (restore_state slot [(''type'', PStr ''amplitude''), (''mode'', PStr ''overview'')] v)"
proof -
  have combo: "view_fine (set_combo f tab (PStr s) u)"
    if "view_ok u" "\<And>i u. view_ok u \<Longrightarrow> i < length tab \<Longrightarrow> view_fine (f i u)" for f tab s u
    using that by (auto simp: set_combo_def split: option.split dest!: index_of_lt)
  note fine = picks_fine [OF assms(1)]
  show "view_fine (restore_state slot [(''type'', PStr ''xy''), (''mode'', PStr ''bus'')] v)"
    "view_fine (restore_state slot [(''type'', PStr ''amplitude''), (''mode'', PStr ''overview'')] v)"
    unfolding restore_state_def
    by (intro view_fine_and_then; use assms fine combo in \<open>simp add: dict_get_or_def set_combo_def restore_bus_def restore_channels_def
        restore_device_def\<close>; simp add: set_combo_def [symmetric])+
qed

section \<open>Layout and saved user interface\<close>

lemma names_update_views: "map fst (fst (update_views src visible cache vs)) = map fst vs"
  by (induction src visible cache vs rule: update_views.induct) (auto simp: Let_def split: prod.splits option.splits)

lemma nth_names: "i < length vs \<Longrightarrow> vs ! i = (n, v) \<Longrightarrow> map fst (vs[i := (n, v')]) = map fst vs"
  by (rule nth_equalityI) (auto simp: nth_list_update)

lemma names_on_view: "map fst (w_views (fst (on_view env i f w))) = map fst (w_views w)"
proof (cases "i < length (w_views w)")
  case True
  obtain n v where nv: "w_views w ! i = (n, v)" by fastforce
  obtain v' e where r: "f (view_slot env w n) v = (v', e)" by fastforce
  show ?thesis
    using nth_names [OF True nv, of v']
    by (simp add: on_view_def True nv r Let_def win_update_histograms_def split_beta names_update_views)
qed (simp add: on_view_def)

lemma add_restored_fine:
  assumes "window_ok sh w" and f: "\<And>slot v. slot_ok slot \<Longrightarrow> view_ok v \<Longrightarrow> view_fine (restore_state slot st v)"
  shows "win_fine sh (add_restored env pos nm st w)"
    and "\<exists>n. map fst (w_views (fst (add_restored env pos nm st w))) = map fst (w_views w) @ [n]
      \<and> (case nm of Some m \<Rightarrow> n = m | None \<Rightarrow> fresh_name (map fst (w_views w)) = Inr n)"
proof -
  obtain w' where w': "add_histo_view env pos nm w = (w', None)" "window_ok sh w'"
    using add_histo_view_ok [OF assms(1)] by blast
  from w'(1) have names: "\<exists>n. map fst (w_views w') = map fst (w_views w) @ [n]
      \<and> (case nm of Some m \<Rightarrow> n = m | None \<Rightarrow> fresh_name (map fst (w_views w)) = Inr n)"
    by (auto simp: add_histo_view_def new_view_eq with_res_def Let_def split: sum.splits option.splits prod.splits)
  then have len: "length (w_views w') - 1 < length (w_views w')" by (cases "w_views w'") auto
  show "win_fine sh (add_restored env pos nm st w)"
    using on_view_ok(5) [OF w'(2) fst_fine [OF f] f len, where env = env] by (simp add: add_restored_def and_then_def w'(1))
  show "\<exists>n. map fst (w_views (fst (add_restored env pos nm st w))) = map fst (w_views w) @ [n]
      \<and> (case nm of Some m \<Rightarrow> n = m | None \<Rightarrow> fresh_name (map fst (w_views w)) = Inr n)"
    using names by (simp add: add_restored_def and_then_def w'(1) names_on_view)
qed

lemma fresh_names: "fresh_name [] = Inr ''Histogram 0''" "fresh_name [''Histogram 0''] = Inr ''Histogram 1''"
  by code_simp+

lemma build_default_layout_fine:
  assumes ok: "window_ok sh w"
  shows "win_fine sh (build_default_layout env w)"
    and "w_views w = [] \<Longrightarrow> map fst (w_views (fst (build_default_layout env w))) = [''Histogram 0'', ''Histogram 1'']"
proof -
  let ?w0 = "place_docks [AddDock ''DAQ'' ''left'' None, AddDock ''Devices'' ''bottom'' (Some ''DAQ''),
            AddDock ''Pulser Test'' ''bottom'' (Some ''Devices''), AddDock ''Statistics'' ''right'' None,
            AddDock ''Console'' ''above'' (Some ''Statistics''), RaiseDock ''Statistics''] w"
  have w0: "window_ok sh ?w0" "w_views ?w0 = w_views w" using ok by (simp, simp add: place_docks_def)
  obtain w1 where w1: "add_restored env ''bottom'' None [(''type'', PStr ''xy''), (''mode'', PStr ''bus'')] ?w0 = (w1, None)" "window_ok sh w1"
    using add_restored_fine(1) [OF w0(1) default_states_fine(1), where env = env and pos = "''bottom''" and nm = None]
    by (cases "add_restored env ''bottom'' None [(''type'', PStr ''xy''), (''mode'', PStr ''bus'')] ?w0") auto
  obtain w2 where w2: "add_restored env ''right'' None [(''type'', PStr ''amplitude''), (''mode'', PStr ''overview'')] w1 = (w2, None)" "window_ok sh w2"
    using add_restored_fine(1) [OF w1(2) default_states_fine(2), where env = env and pos = "''right''" and nm = None]
    by (cases "add_restored env ''right'' None [(''type'', PStr ''amplitude''), (''mode'', PStr ''overview'')] w1") auto
  have r: "build_default_layout env w = (place_docks [AddDock ''Log'' ''right'' (Some ''Statistics'')] w2, None)"
    by (simp add: build_default_layout_def and_then_def w1(1) w2(1))
  then show "win_fine sh (build_default_layout env w)" using w2(2) by simp
  assume "w_views w = []"
  with add_restored_fine(2) [OF w0(1) default_states_fine(1), where env = env and pos = "''bottom''" and nm = None]
  have "map fst (w_views w1) = [''Histogram 0'']" by (simp add: w1(1) w0(2) fresh_names)
  with add_restored_fine(2) [OF w1(2) default_states_fine(2), where env = env and pos = "''right''" and nm = None]
  have "map fst (w_views w2) = [''Histogram 0'', ''Histogram 1'']" by (auto simp: w2(1) fresh_names)
  then show "map fst (w_views (fst (build_default_layout env w))) = [''Histogram 0'', ''Histogram 1'']"
    by (simp add: r place_docks_def)
qed

lemma reset_ui_fine:
  assumes "window_ok sh w"
  shows "win_fine sh (reset_ui env w)" and "map fst (w_views (fst (reset_ui env w))) = [''Histogram 0'', ''Histogram 1'']"
proof -
  show "win_fine sh (reset_ui env w)"
    unfolding reset_ui_def by (rule build_default_layout_fine(1) [OF close_histo_views_ok [OF assms]])
  have "w_views (close_histo_views w) = []" by (simp add: close_histo_views_def)
  then show "map fst (w_views (fst (reset_ui env w))) = [''Histogram 0'', ''Histogram 1'']"
    unfolding reset_ui_def by (rule build_default_layout_fine(2) [OF close_histo_views_ok [OF assms]])
qed

lemma restore_histogram_ok: "window_ok sh w \<Longrightarrow> window_ok sh (fst (restore_histogram env h w))"
  unfolding restore_histogram_def
  by (intro fst_with_res [where P = "window_ok sh"] add_restored_ok)

lemma restore_saved_ui_ok:
  assumes "window_ok sh w"
  shows "window_ok sh (fst (restore_saved_ui env state w))"
proof -
  note close = close_histo_views_ok [OF assms]
  show ?thesis
    unfolding restore_saved_ui_def Let_def
    by (intro fst_and_then [where P = "window_ok sh"] fst_with_res [where P = "window_ok sh"] fst_for_each [where P = "window_ok sh"]
        restore_histogram_ok close) simp_all
qed

lemma restore_ui_state_fine:
  assumes "window_ok sh w"
  shows "win_fine sh (restore_ui_state env w)"
proof (cases "dict_get (w_stored w) ''ui_state''")
  case None
  with assms show ?thesis by (simp add: restore_ui_state_def)
next
  case (Some state)
  obtain w1 e where r: "restore_saved_ui env state w = (w1, e)" by fastforce
  with restore_saved_ui_ok [OF assms, of env state] have w1: "window_ok sh w1" by simp
  show ?thesis
    using w1 reset_ui_fine(1) [of sh "log_msg Warning (''Failed to restore ui state, using defaults: '' @ exc_str (the e)) w1" env]
    by (cases e) (simp_all add: restore_ui_state_def Some r)
qed

section \<open>Setups\<close>

lemma edits_ok [simp]:
  "window_ok sh (edit_port v w) = window_ok sh w" "window_ok sh (edit_listfile b w) = window_ok sh w" "window_ok sh (edit_dir t w) = window_ok sh w"
  by (simp_all add: edit_port_def edit_listfile_def edit_dir_def Let_def)

lemma edits_simps [simp]:
  "w_panel (edit_port v w) = w_panel w" "w_panel (edit_listfile b w) = w_panel w" "w_panel (edit_dir t w) = w_panel w"
  "w_path (edit_port v w) = w_path w" "w_path (edit_listfile b w) = w_path w" "w_path (edit_dir t w) = w_path w"
  "w_files (edit_port v w) = w_files w" "w_files (edit_listfile b w) = w_files w" "w_files (edit_dir t w) = w_files w"
  by (simp_all add: edit_port_def edit_listfile_def edit_dir_def Let_def)

lemma load_setup_into_ui_ok: "window_ok sh w \<Longrightarrow> window_ok sh (fst (load_setup_into_ui env install w))"
  unfolding load_setup_into_ui_def Let_def
  by (rule fst_and_then [where P = "window_ok sh"]) simp_all

lemma use_setup_ok [simp]: "window_ok sh (use_setup s w) = window_ok sh w" "window_ok sh (remember k v w) = window_ok sh w"
  "window_ok sh (remember_setup_dir p w) = window_ok sh w" "window_ok sh (remember_setup_path w) = window_ok sh w"
  by (simp_all add: use_setup_def remember_def remember_setup_dir_def remember_setup_path_def)

lemma write_setup_ok [simp]: "window_ok sh (fst (write_setup env p w)) = window_ok sh w"
  by (simp add: write_setup_def split: option.split)

lemma save_to_ok [simp]: "window_ok sh (save_to env p w) = window_ok sh w"
proof -
  obtain w1 r where "write_setup env p w = (w1, r)" by fastforce
  moreover from this have "window_ok sh w1 = window_ok sh w" using write_setup_ok [of sh env p w] by simp
  ultimately show ?thesis by (cases r) (simp_all add: save_to_def)
qed

lemma setup_ops_ok:
  assumes "window_ok sh w"
  shows "window_ok sh (fst (new_setup_clicked env w))" and "window_ok sh (fst (open_setup env p w))"
    and "window_ok sh (fst (save_setup_as env p w))" and "window_ok sh (fst (save_setup env p w))"
proof -
  show "window_ok sh (fst (new_setup_clicked env w))"
    unfolding new_setup_clicked_def using assms
    by (intro fst_and_then [where P = "window_ok sh"] load_setup_into_ui_ok) simp_all
  show "window_ok sh (fst (open_setup env p w))"
    using assms by (auto simp: open_setup_def Let_def split: sum.split intro!: fst_and_then [where P = "window_ok sh"] load_setup_into_ui_ok)
  show as: "window_ok sh (fst (save_setup_as env p w))"
    using assms by (auto simp: save_setup_as_def intro!: load_setup_into_ui_ok)
  show "window_ok sh (fst (save_setup env p w))"
    using assms as by (simp add: save_setup_def split: option.split)
qed

section \<open>The invariant holds always\<close>

text \<open>
  The readout delivers histograms of the shapes of the bindings, the console does not replace
  them by others, and the combo boxes have the entries that are picked.
\<close>

fun event_allowed :: "('w, 'c) win_event \<Rightarrow> bool" where
  "event_allowed (ReadoutWork evs) = list_all event_good evs"
| "event_allowed (Console f) = (\<forall>d. histos_good d \<longrightarrow> histos_good (f d))"
| "event_allowed (ViewOp i e) = event_possible e"
| "event_allowed e = True"

lemma win_handle_ok:
  assumes "event_allowed e" and ok: "window_ok sh w"
  shows "window_ok sh (fst (win_handle env e w))"
proof (cases e)
  case StartReadout
  then show ?thesis using ok by (auto intro!: fst_end_step [where P = "window_ok sh"] start_readout_ok)
next
  case (ReadoutWork evs)
  then show ?thesis using assms histos_good_events by (simp add: window_okD)
next
  case (ViewOp i ev)
  have "view_ok (fst (view_handle slot ev v))" if "slot_ok slot" "view_ok v" for slot v
    using view_handle_fine [OF that(1) _ that(2), of ev] assms(1) by (simp add: ViewOp fst_fine)
  then show ?thesis using on_view_ok(1) [OF ok] by (simp add: ViewOp)
next
  case AddView
  then show ?thesis using add_histo_view_ok [OF ok, of env "''bottom''" None] by auto
qed (use assms in \<open>simp_all add: start_run_ok stop_run_ok continue_run_ok reset_daq_clicked_def start_replay_ok choose_listdir_def
      deliver_finished_ok setup_ops_ok window_okD fst_win_fine [OF stop_readout_ok] fst_win_fine [OF win_clear_histograms_ok]
      fst_win_fine [OF update_stats_ok(1)] fst_win_fine [OF update_histograms_ok(1)] fst_win_fine [OF on_drained_ok]
      fst_win_fine [OF reset_ui_fine(1)]\<close>)

lemma run_window_ok: "list_all (\<lambda>(env, e). event_allowed e) evs \<Longrightarrow> window_ok sh w \<Longrightarrow> window_ok sh (run_window evs w)"
  by (induction evs arbitrary: w) (auto simp: run_window_def win_handle_ok)

lemma blank_window_ok: "histos_good d \<Longrightarrow> window_ok False (blank_window s path d p files stored)"
  by (simp add: window_ok_def controls_ok_def views_ok_def blank_window_def list_all_iff daq_panel_has)

section \<open>The window opens\<close>

text \<open>Views and docks do not touch the device panel.\<close>

lemma w_panel_views [simp]:
  "w_panel (fst (win_update_histograms env w)) = w_panel w" "w_panel (fst (on_view env i f w)) = w_panel w"
  "w_panel (place_docks cs w) = w_panel w" "w_panel (close_histo_view n w) = w_panel w"
proof -
  show 1: "w_panel (fst (win_update_histograms env w)) = w_panel w" for w
    by (simp add: win_update_histograms_def split: prod.split)
  show "w_panel (fst (on_view env i f w)) = w_panel w"
    by (simp add: on_view_def Let_def 1 split: prod.split)
  show "w_panel (place_docks cs w) = w_panel w" "w_panel (close_histo_view n w) = w_panel w"
    by (simp_all add: place_docks_def close_histo_view_def)
qed

lemma w_panel_close [simp]: "w_panel (close_histo_views w) = w_panel w"
proof -
  have "w_panel (fold close_histo_view ns w) = w_panel w" for ns by (induction ns arbitrary: w) simp_all
  then show ?thesis by (simp add: close_histo_views_def)
qed

lemma w_panel_add [simp]: "w_panel (fst (add_restored env pos nm st w)) = w_panel w"
proof -
  have "w_panel (fst (add_histo_view env pos nm w)) = w_panel w"
    by (simp add: add_histo_view_def with_res_def Let_def split: prod.split option.split sum.split)
  then show ?thesis
    unfolding add_restored_def by (rule fst_and_then [where P = "\<lambda>u. w_panel u = w_panel w"]) simp
qed

lemma w_panel_layout: "w_panel (fst (build_default_layout env w)) = w_panel w"
  unfolding build_default_layout_def by (intro fst_and_then [where P = "\<lambda>u. w_panel u = w_panel w"]) simp_all

lemma w_panel_restore: "w_panel (fst (restore_ui_state env w)) = w_panel w"
proof -
  have saved: "w_panel (fst (restore_saved_ui env state w)) = w_panel w" for state
    unfolding restore_saved_ui_def restore_histogram_def Let_def
    by (intro fst_and_then [where P = "\<lambda>u. w_panel u = w_panel w"] fst_with_res [where P = "\<lambda>u. w_panel u = w_panel w"]
        fst_for_each [where P = "\<lambda>u. w_panel u = w_panel w"]) simp_all
  show ?thesis
  proof (cases "dict_get (w_stored w) ''ui_state''")
    case (Some state)
    obtain w1 e where "restore_saved_ui env state w = (w1, e)" by fastforce
    with saved [of state] Some show ?thesis
      by (cases e) (simp_all add: restore_ui_state_def reset_ui_def w_panel_layout)
  qed (simp add: restore_ui_state_def)
qed

lemma panel_ok_values: "panel_ok p \<Longrightarrow> store_ok (p\<lparr>p_workers := ws, p_values := filter (\<lambda>(d, _). f d) (p_values p)\<rparr>)"
proof -
  assume "panel_ok p"
  have sub: "dict_get (filter (\<lambda>(d, _). f d) vs) d = Some cv \<Longrightarrow> dict_get vs d = Some cv" for vs :: "(nat, scopes) dict" and d cv
    by (induction vs) (auto split: if_splits dest!: dict_get_in)
  have "scopes_ok cv" if "dict_get (filter (\<lambda>(d, _). f d) (p_values p)) d = Some cv" for d cv
  proof -
    have "dict_get (p_values p) d = Some cv" using that by (rule sub)
    then show ?thesis using \<open>panel_ok p\<close> by (simp add: panel_ok_def store_ok_def)
  qed
  with \<open>panel_ok p\<close> show ?thesis by (simp add: panel_ok_def store_ok_def)
qed

lemma reinstall_good:
  assumes "panel_ok p"
  shows "\<exists>p'. reinstall_devices env p = (p', None) \<and> panel_ok p'"
proof -
  let ?p = "p\<lparr>p_workers := fold (\<lambda>d. remove_worker (we_api env) (we_left env d) d) (p_devs p) (p_workers p),
              p_values := filter (\<lambda>(d, _). p_tree_cfg p = Some d) (p_values p)\<rparr>"
  have "store_ok ?p" using assms by (rule panel_ok_values)
  moreover have "tree_own ?p" using assms by (simp add: panel_ok_parts)
  ultimately obtain p' where "refresh ?p = (p', None)" "panel_ok p'" using refresh_ok by blast
  then show ?thesis
    using emit_changed_ok(1) by (auto simp: reinstall_devices_def and_then_def emit_changed_def)
qed

lemma load_reinstall:
  assumes "panel_ok (w_panel w)"
  shows "\<exists>w'. load_setup_into_ui env (reinstall_devices env) w = (w', None) \<and> panel_ok (w_panel w')"
proof -
  let ?w = "edit_dir (w_dir (edit_listfile (w_write (edit_port (w_port (stop_pulsers env panel_stop w)) (stop_pulsers env panel_stop w)))
              (edit_port (w_port (stop_pulsers env panel_stop w)) (stop_pulsers env panel_stop w))))
            (edit_listfile (w_write (edit_port (w_port (stop_pulsers env panel_stop w)) (stop_pulsers env panel_stop w)))
              (edit_port (w_port (stop_pulsers env panel_stop w)) (stop_pulsers env panel_stop w)))"
  have "panel_ok (w_panel ?w)"
    using assms by (simp add: stop_pulsers_def pulser_step_def Let_def with_workers_def panel_ok_upd split: prod.split)
  then obtain p' where "reinstall_devices env (w_panel ?w) = (p', None)" "panel_ok p'" using reinstall_good by blast
  then show ?thesis
    by (simp add: load_setup_into_ui_def Let_def lift_panel_def and_then_def)
qed

lemma window_opens:
  assumes "\<forall>c \<in> set (devices s). cfg_ok c" and "0 \<le> data_port s" and "data_port s < 2 ^ 16"
  shows "\<exists>w. new_window env n0 s path files stored = Inr w \<and> window_ok True w \<and> w_state w = ''idle'' \<and> panel_ok (w_panel w)"
proof -
  obtain p :: "('a, 'b) panel" where p: "new_panel n0 (devices s) = (p, None)" "panel_ok p"
  proof -
    have "good False (new_panel n0 (devices s) :: ('a, 'b) panel outcome)" by (rule new_panel_good [OF assms(1)])
    moreover obtain p :: "('a, 'b) panel" where "new_panel n0 (devices s) = (p, None)"
    proof -
      have "\<exists>p :: ('a, 'b) panel. new_panel n0 (devices s) = (p, None) \<and> p_heap p = (\<lambda>d. devices s ! d)
          \<and> p_devs p = [0..<length (devices s)] \<and> p_next p = length (devices s)"
        by (rule new_panel_facts [OF assms(1)])
      then show ?thesis using that by (elim exE conjE)
    qed
    ultimately show ?thesis using that by (simp add: good_def)
  qed
  let ?b = "blank_window s path (new_daq (data_port s)) p files stored"
  have b: "window_ok False ?b" by (simp add: blank_window_ok)
  obtain w1 where w1: "build_default_layout env ?b = (w1, None)" "window_ok False w1" "w_panel w1 = p"
    using build_default_layout_fine(1) [OF b, of env] w_panel_layout [of env ?b]
    by (cases "build_default_layout env ?b") (simp add: blank_window_def)
  obtain w2 where w2: "restore_ui_state env w1 = (w2, None)" "window_ok False w2" "w_panel w2 = p"
    using restore_ui_state_fine [OF w1(2), of env] w_panel_restore [of env w1] w1(3)
    by (cases "restore_ui_state env w1") simp
  obtain w3 where w3: "load_setup_into_ui env (reinstall_devices env) w2 = (w3, None)" "panel_ok (w_panel w3)"
    using load_reinstall [of w2 env] w2(3) p(2) by auto
  have ok3: "window_ok False w3" using load_setup_into_ui_ok [OF w2(2), of env "reinstall_devices env"] by (simp add: w3)
  have "new_window env n0 s path files stored = Inr (win_set_state ''idle'' w3)"
    using assms(2,3) by (simp add: new_window_def make_daq_def p(1) and_then_def w1(1) w2(1) w3(1))
  with window_ok_first_state [OF ok3, of "''idle''" True] w3(2) show ?thesis by simp
qed

definition sample_os :: os_env where
  "sample_os = \<lparr>os_bind = (\<lambda>p. Inr p), os_create = (\<lambda>f ov. None), os_open = (\<lambda>f. None)\<rparr>"

definition sample_win_env :: "(net_event list, target) win_env" where
  "sample_win_env =
     \<lparr>we_api = quiet (\<lambda>_. RNone), we_os = sample_os, we_resolve = (\<lambda>_. None), we_denied = (\<lambda>_. None), we_now = 1,
      we_stamp = ''20250101_120000'', we_visible = (\<lambda>_. True), we_left = (\<lambda>_. 0), we_turns = [], we_obj_str = (\<lambda>_. []),
      we_docks = PDict [(''main'', PNone), (''float'', PList [])], we_geometry = ''AdnQ''\<rparr>"

definition sample_setup :: gui_setup where
  "sample_setup = new_setup\<lparr>devices := [sample_mcpd]\<rparr>"

lemma sample_setup_ok: "\<forall>c \<in> set (devices sample_setup). cfg_ok c" "0 \<le> data_port sample_setup" "data_port sample_setup < 2 ^ 16"
proof -
  have "cfg_ok sample_mcpd" by code_simp
  then show "\<forall>c \<in> set (devices sample_setup). cfg_ok c" by (simp add: sample_setup_def new_setup_def)
qed (simp_all add: sample_setup_def new_setup_def DefaultPort_def)

text \<open>
  C24. The controls follow the readout.  After any events (clicks, edits, timers, finished
  commands, turns of the device threads, packets, ends and errors of the readout thread,
  calls from the console, setups that are loaded, views that come and go), the buttons are
  enabled exactly as the state says, and the status bar shows it.  The next statistics timer
  makes the state \<open>idle\<close> exactly when the readout does not run, however it was started or ended,
  without an error, and the buttons again agree.
\<close>

theorem controls_follow_readout:
  assumes "\<forall>c \<in> set (devices s). cfg_ok c" and "new_window env0 n0 s path files stored = Inr w0"
    and "list_all (\<lambda>(env, e). event_allowed e) evs"
  shows "let w = run_window evs w0; (w', err) = update_stats env w in
      list_all (\<lambda>n. is_enabled (w_widgets w) n = expected_enabled (w_state w) n) switched
      \<and> w_state w \<in> set window_states \<and> w_status w = state_text (w_state w)
      \<and> err = None \<and> (w_state w' = ''idle'' \<longleftrightarrow> \<not> is_running (w_daq w'))
      \<and> list_all (\<lambda>n. is_enabled (w_widgets w') n = expected_enabled (w_state w') n) switched
      \<and> w_status w' = state_text (w_state w')"
proof -
  have port: "0 \<le> data_port s" "data_port s < 2 ^ 16"
    using assms(2) by (auto simp: new_window_def make_daq_def split: if_splits)
  have "window_ok True w0" using window_opens [OF assms(1) port, of env0 n0 path files stored] assms(2) by auto
  then have w: "window_ok True (run_window evs w0)" by (rule run_window_ok [OF assms(3)])
  note u = update_stats_ok [OF w, of env]
  obtain w' err where r: "update_stats env (run_window evs w0) = (w', err)" by fastforce
  show ?thesis
    using w u by (simp add: r window_ok_def controls_ok_def)
qed

lemma controls_follow_readout_witness:
  "\<exists>w0. new_window sample_win_env [] sample_setup None [] [] = Inr w0
     \<and> (let w = run_window [(sample_win_env, StartReadout), (sample_win_env, ReadoutWork [EndOfData])] w0;
          (w', err) = update_stats sample_win_env w
        in err = None \<and> (w_state w' = ''idle'') = (\<not> is_running (w_daq w')))"
proof -
  obtain w0 where w0: "new_window sample_win_env [] sample_setup None [] [] = Inr w0"
    using window_opens [OF sample_setup_ok, of sample_win_env "[]" None "[]" "[]"] by blast
  have "list_all (\<lambda>(env, e). event_allowed e)
      [(sample_win_env, StartReadout :: (net_event list, target) win_event), (sample_win_env, ReadoutWork [EndOfData])]" by simp
  from controls_follow_readout [OF sample_setup_ok(1) w0 this, of sample_win_env] w0 show ?thesis
    by (auto simp: Let_def split: prod.splits)
qed

end
