(* ===== verification/Main_Window_Runs.thy ===== *)
theory Main_Window_Runs
  imports Main_Window_Facts
begin

text \<open>
  Starting and stopping a run, and closing the window: which jobs the devices get in which
  order, that a stop is never lost, and what is left when the window is closed.
\<close>

section \<open>Submitted commands\<close>

abbreviation win_workers :: "('w, 'c) window \<Rightarrow> ('w, 'c) gui_workers" where
  "win_workers w \<equiv> p_workers (w_panel w)"

definition method_item :: "('w, 'c) api \<Rightarrow> device_config \<Rightarrow> string \<Rightarrow> pyval list \<Rightarrow> string \<Rightarrow> ('w, 'c, panel_cb) item" where
  "method_item api cfg meth args label =
     \<lparr>it_label = label, it_job = (\<lambda>n c. api_call api n c (Call meth args [])), it_target = target_of cfg, it_on_success = None\<rparr>"

lemma win_workers_submit [simp]:
  "win_workers (submit_method env meth args l d w) = put_item d (method_item (we_api env) (p_heap (w_panel w) d) meth args l) (win_workers w)"
  by (simp add: submit_method_def with_workers_def submit_eq_put_item method_item_def)

lemma submit_method_simps [simp]:
  "p_heap (w_panel (submit_method env meth args l d w)) = p_heap (w_panel w)"
  "p_devs (w_panel (submit_method env meth args l d w)) = p_devs (w_panel w)"
  "w_daq (submit_method env meth args l d w) = w_daq w" "w_state (submit_method env meth args l d w) = w_state w"
  "w_widgets (submit_method env meth args l d w) = w_widgets w" "w_pending (submit_method env meth args l d w) = w_pending w"
  "w_tracker (submit_method env meth args l d w) = w_tracker w" "w_drains (submit_method env meth args l d w) = w_drains w"
  by (simp_all add: submit_method_def with_workers_def)

lemma submits_simps [simp]:
  "p_heap (w_panel (fold (submit_method env meth args l) ds w)) = p_heap (w_panel w)"
  "p_devs (w_panel (fold (submit_method env meth args l) ds w)) = p_devs (w_panel w)"
  "w_daq (fold (submit_method env meth args l) ds w) = w_daq w"
  "w_state (fold (submit_method env meth args l) ds w) = w_state w"
  "w_widgets (fold (submit_method env meth args l) ds w) = w_widgets w"
  "w_pending (fold (submit_method env meth args l) ds w) = w_pending w"
  "w_tracker (fold (submit_method env meth args l) ds w) = w_tracker w"
  by (induction ds arbitrary: w) simp_all

text \<open>One job for every device of a list.\<close>

lemma pending_submits:
  "distinct ds \<Longrightarrow> pending_items (win_workers (fold (submit_method env meth args l) ds w)) d =
     pending_items (win_workers w) d
       @ (if d \<in> set ds then [method_item (we_api env) (p_heap (w_panel w) d) meth args l] else [])"
  by (induction ds arbitrary: w) (auto simp: pending_put_item)

lemma send_to_enabled_simps:
  "distinct (p_devs (w_panel w)) \<Longrightarrow> pending_items (win_workers (send_to_enabled env meth args lb w)) d =
     pending_items (win_workers w) d
       @ (if d \<in> set (enabled_devices w)
          then [method_item (we_api env) (p_heap (w_panel w) d) meth args (case lb of Some l \<Rightarrow> l | None \<Rightarrow> meth)] else [])"
  "p_heap (w_panel (send_to_enabled env meth args lb w)) = p_heap (w_panel w)"
  "enabled_devices (send_to_enabled env meth args lb w) = enabled_devices w"
  "w_daq (send_to_enabled env meth args lb w) = w_daq w"
  "w_state (send_to_enabled env meth args lb w) = w_state w"
  "w_tracker (send_to_enabled env meth args lb w) = w_tracker w"
  by (simp_all add: send_to_enabled_def Let_def pending_submits enabled_devices_def)

lemma master_device_one: "masters_of (p_heap (w_panel w)) (enabled_devices w) = Inr [m] \<Longrightarrow> master_device w = (w, Inr (Some m))"
  by (simp add: master_device_def)

text \<open>Anything but one master: an error message and nothing else.\<close>

lemma master_device_none:
  assumes "masters_of (p_heap (w_panel w)) (enabled_devices w) = Inr ms" and "length ms \<noteq> 1"
  shows "\<exists>t. master_device w = (log_msg Error t w, Inr None)"
  using assms by (cases ms rule: remdups_adj.cases) (auto simp: master_device_def Let_def)

lemma send_to_master_one:
  "masters_of (p_heap (w_panel w)) (enabled_devices w) = Inr [m] \<Longrightarrow>
   send_to_master env meth lb w = (submit_method env meth [] (case lb of Some l \<Rightarrow> l | None \<Rightarrow> meth) m w, Inr (Some m))"
  by (simp add: send_to_master_def master_device_one bind_step_def)

section \<open>Starting\<close>

lemma make_daq_cases: "make_daq p = Inr d \<Longrightarrow> d = new_daq p"
  by (auto simp: make_daq_def split: if_splits)

lemma ensure_daq_port_cases:
  assumes "ensure_daq_port w = (w1, None)"
  shows "w_panel w1 = w_panel w" "w_widgets w1 = w_widgets w" "w_state w1 = w_state w" "listen_port (w_daq w1) = w_port w"
    "w_write w1 = w_write w"
  using assms by (auto simp: ensure_daq_port_def with_res_def dest: make_daq_cases split: if_splits sum.splits)

text \<open>What the readout start leaves: it runs and the state says so, or nothing was started.\<close>

lemma start_readout_cases:
  assumes "start_readout env b w = (w', Inr started)"
  shows "w_panel w' = w_panel w" and "spin_value (w_widgets w') n = spin_value (w_widgets w) n"
    and "is_checked (w_widgets w') n = is_checked (w_widgets w) n"
    and "started \<Longrightarrow> is_running (w_daq w') \<and> w_state w' = ''readout'' \<and> listen_port (w_daq w') = w_port w"
    and "\<not> started \<Longrightarrow> w_state w' = w_state w"
proof -
  obtain w1 where e: "ensure_daq_port w = (w1, None)"
    using assms by (cases "ensure_daq_port w"; cases "snd (ensure_daq_port w)") (auto simp: start_readout_def)
  note e1 = ensure_daq_port_cases [OF e]
  obtain d x where d: "daq_start_readout (we_os env) (if b then make_listfile_path env w1 else []) False (w_daq w1) = (d, x)" by fastforce
  from daq_start_readout_cases [OF d] have running: "x = None \<Longrightarrow> is_running d \<and> listen_port d = listen_port (w_daq w1)"
    by auto
  show "w_panel w' = w_panel w" "spin_value (w_widgets w') n = spin_value (w_widgets w) n"
    "is_checked (w_widgets w') n = is_checked (w_widgets w) n"
    "started \<Longrightarrow> is_running (w_daq w') \<and> w_state w' = ''readout'' \<and> listen_port (w_daq w') = w_port w"
    "\<not> started \<Longrightarrow> w_state w' = w_state w"
    using assms e1 running d e
    by (cases x; auto simp: start_readout_def Let_def win_set_state_def)+
qed

lemma fresh_counts_simps [simp]:
  "w_panel (fresh_counts w) = w_panel w" "w_state (fresh_counts w) = w_state w" "w_widgets (fresh_counts w) = w_widgets w"
  "is_running (w_daq (fresh_counts w)) = is_running (w_daq w)"
  "tracker_reset (w_tracker (fresh_counts w)) = w_tracker (fresh_counts w)"
  by (simp_all add: fresh_counts_def Let_def tracker_reset_def)

text \<open>The jobs of a start: the run id for every enabled device, then the start of the master.\<close>

definition start_jobs :: "('w, 'c) win_env \<Rightarrow> ('w, 'c) window \<Rightarrow> nat \<Rightarrow> nat \<Rightarrow> ('w, 'c, panel_cb) item list" where
  "start_jobs env w m d =
     (let cfg = p_heap (w_panel w) d; run_id = spin_value (w_widgets w) ''spin_run_id'' in
      (if d \<in> set (enabled_devices w)
       then [method_item (we_api env) cfg ''set_run_id'' [PInt run_id] (set_run_id_label run_id)] else [])
      @ (if d = m then [method_item (we_api env) cfg ''start_daq'' [] ''start_daq''] else []))"

definition with_fresh_counts :: "('w, 'c) window \<Rightarrow> daq \<Rightarrow> daq" where
  "with_fresh_counts w d =
     (if is_checked (w_widgets w) ''cb_clear_on_start'' then clear_histograms (reset_stats d) else reset_stats d)"

lemma start_readout_total: "0 \<le> w_port w \<Longrightarrow> w_port w < 2 ^ 16 \<Longrightarrow> \<exists>w' b'. start_readout env b w = (w', Inr b')"
  by (auto simp: start_readout_def ensure_daq_port_def make_daq_def with_res_def Let_def split: prod.split option.split)

lemma masters_keep:
  "p_heap (w_panel w') = p_heap (w_panel w) \<Longrightarrow> enabled_devices w' = enabled_devices w \<Longrightarrow>
   masters_of (p_heap (w_panel w')) (enabled_devices w') = masters_of (p_heap (w_panel w)) (enabled_devices w)"
  by simp

lemma start_run_started:
  assumes "distinct (p_devs (w_panel w))" and "masters_of (p_heap (w_panel w)) (enabled_devices w) = Inr [m]"
    and r: "start_readout env (w_write w) w = (w2, Inr True)"
  shows "\<exists>w'. start_run env w = (w', None) \<and> w_daq w' = with_fresh_counts w (w_daq w2) \<and> w_state w' = ''readout''
     \<and> is_running (w_daq w') \<and> prev (w_tracker w') = []
     \<and> (\<forall>d. pending_items (win_workers w') d = pending_items (win_workers w) d @ start_jobs env w m d)"
proof -
  note c = start_readout_cases [OF r]
  let ?w3 = "fresh_counts w2"
  let ?id = "spin_value (w_widgets w) ''spin_run_id''"
  let ?w4 = "send_to_enabled env ''set_run_id'' [PInt ?id] (Some (set_run_id_label ?id)) ?w3"
  let ?w5 = "submit_method env ''start_daq'' [] ''start_daq'' m ?w4"
  have same: "w_panel ?w3 = w_panel w" "enabled_devices ?w3 = enabled_devices w" "spin_value (w_widgets ?w3) ''spin_run_id'' = ?id"
    using c(1,2) by (simp_all add: enabled_devices_def)
  have m: "masters_of (p_heap (w_panel ?w4)) (enabled_devices ?w4) = Inr [m]"
    using assms(2) same by (simp add: send_to_enabled_simps)
  have run: "start_run env w = (?w5, None)"
    using r same(3) send_to_master_one [OF m, of env "''start_daq''" None]
    by (simp add: start_run_def master_device_one [OF assms(2)] end_step_def Let_def)
  have daq: "w_daq ?w5 = with_fresh_counts w (w_daq w2)"
    using c(3) by (simp add: send_to_enabled_simps fresh_counts_def with_fresh_counts_def Let_def)
  have jobs: "pending_items (win_workers ?w5) d = pending_items (win_workers w) d @ start_jobs env w m d" for d
    using assms(1) by (auto simp: pending_put_item send_to_enabled_simps c(1) same start_jobs_def Let_def)
  have "prev (w_tracker ?w5) = []" by (simp add: send_to_enabled_simps fresh_counts_def Let_def tracker_reset_def)
  moreover have "w_state ?w5 = ''readout''" "is_running (w_daq ?w5)" using c(4) by (simp_all add: send_to_enabled_simps)
  ultimately show ?thesis using run daq jobs by (intro exI [of _ ?w5]) simp
qed

text \<open>
  C25. Starting a run.  With exactly one enabled timing master, and when the readout could be
  started: the readout runs before any device is told anything, the statistics and the rates
  start from zero (the histograms too when asked for), and the jobs queued are exactly the run id
  for every enabled device followed by the start command for the master, behind what was queued
  before.  Otherwise (no master, several, or a readout that does not start) no device gets a job
  and the state does not change.  No error escapes in any case.
\<close>

theorem start_run_protocol:
  assumes "distinct (p_devs (w_panel w))" and "masters_of (p_heap (w_panel w)) (enabled_devices w) = Inr ms"
    and "0 \<le> w_port w" and "w_port w < 2 ^ 16"
  shows "case start_run env w of (w', e) \<Rightarrow> e = None \<and>
      (case ms of
         [m] \<Rightarrow>
           (case start_readout env (w_write w) w of
              (w2, Inr True) \<Rightarrow>
                w_daq w' = with_fresh_counts w (w_daq w2) \<and> is_running (w_daq w') \<and> w_state w' = ''readout''
                \<and> prev (w_tracker w') = []
                \<and> (\<forall>d. pending_items (win_workers w') d = pending_items (win_workers w) d @ start_jobs env w m d)
            | _ \<Rightarrow> win_workers w' = win_workers w \<and> w_state w' = w_state w)
       | _ \<Rightarrow> win_workers w' = win_workers w \<and> w_state w' = w_state w \<and> w_daq w' = w_daq w)"
proof (cases "\<exists>m. ms = [m]")
  case True
  then obtain m where m: "ms = [m]" ..
  from start_readout_total [OF assms(3,4)] obtain w2 b where r: "start_readout env (w_write w) w = (w2, Inr b)" by blast
  show ?thesis
  proof (cases b)
    case True
    with start_run_started [OF assms(1) assms(2) [unfolded m]] r m show ?thesis by fastforce
  next
    case False
    with r start_readout_cases(1,5) [OF r] show ?thesis
      by (simp add: m start_run_def master_device_one [OF assms(2) [unfolded m]] end_step_def)
  qed
next
  case False
  then have "length ms \<noteq> 1" by (auto simp: length_Suc_conv)
  with master_device_none [OF assms(2)] obtain t where "master_device w = (log_msg Error t w, Inr None)" by blast
  with False show ?thesis by (auto simp: start_run_def end_step_def split: list.split)
qed

text \<open>A window with one device, the master.\<close>

definition sample_panel :: "(net_event list, target) panel" where
  "sample_panel = fst (new_panel [] [sample_mcpd])"

definition sample_window :: "(net_event list, target) window" where
  "sample_window = win_set_state ''idle'' (blank_window sample_setup None (new_daq 54321) sample_panel [] [])"

lemma sample_panel_simps [simp]:
  "p_heap sample_panel = (\<lambda>d. [sample_mcpd] ! d)" "p_devs sample_panel = [0]"
proof -
  have "\<forall>c \<in> set [sample_mcpd]. cfg_ok c" by (simp, code_simp)
  note p = new_panel_facts [OF this]
  have "\<exists>p :: (net_event list, target) panel. new_panel [] [sample_mcpd] = (p, None) \<and> p_heap p = (\<lambda>d. [sample_mcpd] ! d)
      \<and> p_devs p = [0..<length [sample_mcpd]] \<and> p_next p = length [sample_mcpd]" by (rule p)
  then show "p_heap sample_panel = (\<lambda>d. [sample_mcpd] ! d)" "p_devs sample_panel = [0]"
    by (auto simp: sample_panel_def)
qed

lemma sample_window_simps [simp]:
  "w_panel sample_window = sample_panel" "w_port sample_window = DefaultPort" "w_state sample_window = ''idle''"
  "w_daq sample_window = new_daq 54321" "w_write sample_window = True"
  by (simp_all add: sample_window_def blank_window_def sample_setup_def new_setup_def win_set_state_def)

lemma sample_master: "masters_of (p_heap (w_panel sample_window)) (enabled_devices sample_window) = Inr [0]"
proof -
  have "enabled sample_mcpd" "timing_role sample_mcpd = Inr (PStr ''Master'')" by code_simp+
  then show ?thesis by (simp add: enabled_devices_def masters_of_def)
qed

lemma sample_starts: "start_readout sample_win_env b sample_window = (w2, Inr started) \<Longrightarrow> started"
  by (auto simp: start_readout_def ensure_daq_port_def make_daq_def with_res_def Let_def daq_start_readout_def sample_win_env_def
      sample_os_def DefaultPort_def split: if_splits)

lemma start_run_protocol_witness:
  "case start_run sample_win_env sample_window of (w', e) \<Rightarrow> e = None \<and> w_state w' = ''readout''
     \<and> map it_label (pending_items (win_workers w') 0) =
         map it_label (pending_items (win_workers sample_window) 0 @ start_jobs sample_win_env sample_window 0 0)"
proof -
  have d: "distinct (p_devs (w_panel sample_window))" by simp
  have port: "0 \<le> w_port sample_window" "w_port sample_window < 2 ^ 16" by (simp_all add: DefaultPort_def)
  obtain w2 b where r: "start_readout sample_win_env (w_write sample_window) sample_window = (w2, Inr b)"
    using start_readout_total [OF port] by blast
  have b by (rule sample_starts [OF r])
  with start_run_protocol [OF d sample_master port, of sample_win_env] r show ?thesis
    by (cases "start_run sample_win_env sample_window") simp
qed

section \<open>Stopping\<close>

definition stop_item :: "('w, 'c, panel_cb) item \<Rightarrow> bool" where
  "stop_item it \<longleftrightarrow> it_label it = StopLabel \<and> it_on_success it = None"

definition stop_event :: "nat \<Rightarrow> panel_cb finished \<Rightarrow> bool" where
  "stop_event m ev \<longleftrightarrow> fin_dev ev = m \<and> fin_label ev = StopLabel \<and> fin_cb ev = None"

text \<open>The stop command of device \<open>m\<close> is queued, or its signal has not been delivered yet.\<close>

definition stop_waiting :: "nat \<Rightarrow> ('w, 'c) gui_workers \<Rightarrow> bool" where
  "stop_waiting m ws \<longleftrightarrow> (\<exists>it \<in> set (pending_items ws m). stop_item it) \<or> (\<exists>ev \<in> set (gui_events ws). stop_event m ev)"

text \<open>The stop is under way: the readout has ended, or it will be told to.\<close>

definition stopping :: "nat \<Rightarrow> ('w, 'c) window \<Rightarrow> bool" where
  "stopping m w \<longleftrightarrow>
     \<not> is_running (w_daq w)
     \<or> (w_state w = ''readout'' \<and> (0 < w_drains w \<or> (w_pending w = [m] \<and> stop_waiting m (win_workers w))))"

lemma stop_waiting_put [simp]: "stop_waiting m ws \<Longrightarrow> stop_waiting m (put_item d it ws)"
  by (auto simp: stop_waiting_def pending_put_item)

lemma stop_waiting_submit_all: "stop_waiting m ws \<Longrightarrow> stop_waiting m (submit_all api h subs ws)"
  unfolding submit_all_def
  by (induction subs arbitrary: ws) (simp_all add: submit_psub_def submit_eq_put_item)

lemma stop_waiting_run_one:
  assumes "stop_waiting m ws"
  shows "stop_waiting m (run_one api d ws)"
proof (cases "pending_items ws d")
  case Nil
  with assms show ?thesis by (simp add: run_one_idle)
next
  case (Cons it its)
  from run_one_busy [OF Cons, of api] obtain wk w' wk' ev where
    wk: "dict_get (wrks ws) d = Some wk" "queue wk = it # its" "worker_run api (net ws) d (wk\<lparr>queue := its\<rparr>) it = (w', wk', ev)"
    and r: "run_one api d ws = ws\<lparr>net := w', wrks := dict_set d wk' (wrks ws), gui_events := gui_events ws @ [ev]\<rparr>" by blast
  note f = worker_run_facts [OF wk(3)]
  have pend: "pending_items (run_one api d ws) m = (if d = m then its else pending_items ws m)"
    using f(1) by (simp add: r pending_items_def)
  have ev: "stop_event m ev" if "d = m" "stop_item it"
    using that f(2-4) by (simp add: stop_event_def stop_item_def split: sum.splits)
  show ?thesis
    using assms pend ev Cons by (auto simp: stop_waiting_def r)
qed

text \<open>What views and periodic updates leave alone.\<close>

definition run_part :: "('w, 'c) window \<Rightarrow> _" where
  "run_part w = (w_panel w, w_pending w, w_drains w, w_state w, w_daq w)"

lemma run_part_upd [simp]:
  "run_part (w\<lparr>w_views := vs\<rparr>) = run_part w" "run_part (w\<lparr>w_docks := ds\<rparr>) = run_part w"
  "run_part (w\<lparr>w_widgets := ws\<rparr>) = run_part w" "run_part (w\<lparr>w_log := lg\<rparr>) = run_part w"
  "run_part (w\<lparr>w_tracker := tr\<rparr>) = run_part w" "run_part (w\<lparr>w_rows := rs\<rparr>) = run_part w"
  "run_part (w\<lparr>w_cells := cs\<rparr>) = run_part w" "run_part (w\<lparr>w_port := pt\<rparr>) = run_part w"
  "run_part (w\<lparr>w_write := b\<rparr>) = run_part w" "run_part (w\<lparr>w_dir := t\<rparr>) = run_part w"
  "run_part (log_msg l t w) = run_part w" "run_part (show_counters w) = run_part w" "run_part (track_stats env w) = run_part w"
  "run_part (place_docks cl w) = run_part w" "run_part (close_histo_view n w) = run_part w"
  by (simp_all add: run_part_def place_docks_def close_histo_view_def log_msg_def) (simp_all add: show_counters_def)

lemma run_part_on_view [simp]:
  "run_part (fst (win_update_histograms env w)) = run_part w" "run_part (fst (on_view env i f w)) = run_part w"
proof -
  show 1: "run_part (fst (win_update_histograms env w)) = run_part w" for w
    by (simp add: win_update_histograms_def split: prod.split)
  show "run_part (fst (on_view env i f w)) = run_part w"
    by (simp add: on_view_def Let_def 1 split: prod.split)
qed

lemma run_part_for_each:
  "(\<And>x u. run_part (fst (f x u)) = run_part u) \<Longrightarrow> run_part (fst (for_each f xs w)) = run_part w"
  by (rule fst_for_each [where P = "\<lambda>u. run_part u = run_part w"]) simp_all

lemma run_part_and_then:
  "run_part (fst r) = run_part w \<Longrightarrow> (\<And>u. run_part (fst (f u)) = run_part u) \<Longrightarrow> run_part (fst (and_then r f)) = run_part w"
  by (rule fst_and_then [where P = "\<lambda>u. run_part u = run_part w"]) simp_all

lemma run_part_views [simp]:
  "run_part (fst (add_histo_view env pos nm w)) = run_part w" "run_part (fst (add_restored env pos nm st w)) = run_part w"
  "run_part (fst (reset_ui env w)) = run_part w"
proof -
  show 1: "run_part (fst (add_histo_view env pos nm w)) = run_part w" for env :: "('a, 'b) win_env" and pos nm w
    by (simp add: add_histo_view_def with_res_def Let_def split: prod.split option.split sum.split)
  show 2: "run_part (fst (add_restored env pos nm st w)) = run_part w" for env :: "('a, 'b) win_env" and pos nm st w
    unfolding add_restored_def by (rule run_part_and_then) (simp_all add: 1)
  have "run_part (fold close_histo_view ns w) = run_part w" for ns and w :: "('a, 'b) window" by (induction ns arbitrary: w) simp_all
  then have close: "run_part (close_histo_views w) = run_part w" for w :: "('a, 'b) window"
    by (simp add: close_histo_views_def)
  show "run_part (fst (reset_ui env w)) = run_part w"
    unfolding reset_ui_def build_default_layout_def by (intro run_part_and_then) (simp_all add: 2 close)
qed

lemma run_part_edits [simp]:
  "run_part (edit_port v w) = run_part w" "run_part (edit_listfile b w) = run_part w" "run_part (edit_dir t w) = run_part w"
  "run_part (choose_listdir t w) = run_part w"
  by (simp_all add: edit_port_def edit_listfile_def edit_dir_def choose_listdir_def Let_def)

lemma stopping_run_part: "run_part w' = run_part w \<Longrightarrow> stopping m w' = stopping m w"
  by (simp add: run_part_def stopping_def)

lemma stopping_same: "stopping m w \<Longrightarrow> run_part w' = run_part w \<Longrightarrow> stopping m w'"
  by (simp add: run_part_def stopping_def)

text \<open>The statistics timer while a stop is under way.\<close>

lemma stopping_sync: "stopping m w \<Longrightarrow> stopping m (sync_state (check_exception w))"
proof (cases "is_running (w_daq w) \<and> \<not> has_exception (w_daq w)")
  case True
  assume "stopping m w"
  with True show ?thesis by (simp add: check_exception_def sync_state_def Let_def stopping_def)
next
  case False
  have "\<not> is_running (w_daq (check_exception w))"
    using False by (auto simp: check_exception_def Let_def split: prod.split option.split)
  then have "\<not> is_running (w_daq (sync_state (check_exception w)))"
    by (simp add: sync_state_def Let_def)
  then show ?thesis by (simp add: stopping_def)
qed

lemma run_part_update_stats: "run_part (fst (update_stats env w)) = run_part (sync_state (check_exception w))"
  unfolding update_stats_def Let_def
  by (intro run_part_and_then) (simp_all add: run_part_for_each)

lemma stopping_update_stats: "stopping m w \<Longrightarrow> stopping m (fst (update_stats env w))"
  using stopping_run_part [OF run_part_update_stats] stopping_sync by blast

lemma stop_readout_stops:
  "\<not> is_running (w_daq (fst (stop_readout env w)))" "w_state (fst (stop_readout env w)) = ''idle''"
proof -
  let ?w = "win_set_state ''idle'' ((log_msg Info (''Readout stopped'' @ (if w_listfile w \<noteq> [] then '', listfile '' @ w_listfile w else []))
                 (w\<lparr>w_daq := daq_stop (w_daq w)\<rparr>))\<lparr>w_listfile := []\<rparr>)"
  have idle: "w_state ?w = ''idle''" "\<not> is_running (w_daq ?w)" by simp_all
  have exc: "w_state (check_exception u) = ''idle''" "\<not> is_running (w_daq (check_exception u))"
    if "w_state u = ''idle''" "\<not> is_running (w_daq u)" for u :: "('a, 'b) window"
    using that by (auto simp: check_exception_def Let_def split: prod.split option.split)
  have sync: "sync_state u = u" if "w_state u = ''idle''" "\<not> is_running (w_daq u)" for u :: "('a, 'b) window"
    using that by (simp add: sync_state_def Let_def)
  have "run_part (fst (stop_readout env w)) = run_part (check_exception ?w)"
    unfolding stop_readout_def Let_def using run_part_update_stats [of env ?w] sync [OF exc [OF idle]]
    by (intro run_part_and_then) simp_all
  with exc [OF idle] show "\<not> is_running (w_daq (fst (stop_readout env w)))" "w_state (fst (stop_readout env w)) = ''idle''"
    by (simp_all add: run_part_def)
qed

text \<open>Callbacks of commands do not submit anything.\<close>

lemma p_workers_on_success: "p_workers (fst (on_success cb r p)) = p_workers p"
proof -
  have sel: "p_workers (fst (Device_Panel.on_selection_changed p)) = p_workers p" for p :: "('w, 'c) panel"
    by (simp add: Device_Panel.on_selection_changed_def Let_def split: option.split prod.split sum.split)
  have refresh: "p_workers (fst (refresh p)) = p_workers p" for p :: "('w, 'c) panel"
    by (simp add: refresh_def with_res_def sel split: sum.split)
  have upd: "p_workers (fst (update_tree path f p)) = p_workers p" for path f and p :: "('w, 'c) panel"
    by (simp add: update_tree_def split: option.split prod.split)
  have bus: "p_workers (fst (sync_bus d b p)) = p_workers p" for d b and p :: "('w, 'c) panel"
    unfolding sync_bus_def
    by (auto simp: upd intro!: fst_with_res [where P = "\<lambda>q. p_workers q = p_workers p"] fst_and_then [where P = "\<lambda>q. p_workers q = p_workers p"])
  have busses: "p_workers (fst (sync_busses d p)) = p_workers p" for d and p :: "('w, 'c) panel"
    unfolding sync_busses_def
    by (auto simp: bus intro!: fst_for_each [where P = "\<lambda>q. p_workers q = p_workers p"])
  have rebuild: "p_workers (fst (rebuild_tree p)) = p_workers p" for p :: "('w, 'c) panel"
    by (simp add: rebuild_tree_def sel)
  obtain d cmd snapshot where cb: "cb = RunOnSuccess d cmd snapshot" by (cases cb) auto
  have "p_workers (fst (and_then (and_then (refresh (set_cfg d cfg p)) (if cmd = ScanBusses then sync_busses d else rebuild_tree)) emit_changed))
      = p_workers p" for cfg
    by (intro fst_and_then [where P = "\<lambda>q. p_workers q = p_workers p"])
      (simp_all add: refresh busses rebuild emit_changed_def set_cfg_def)
  note seq = this
  show ?thesis
  proof (cases "cmd_on_success cmd")
    case None
    then show ?thesis by (simp add: cb)
  next
    case (Some f)
    obtain cfg e where "run_on_success f (p_heap p d) snapshot r = (cfg, e)" by fastforce
    with Some seq [of cfg] show ?thesis by (cases e) (simp_all add: cb, simp add: set_cfg_def)
  qed
qed

lemma report_finished_keeps:
  "win_workers (fst (report_finished env ev w)) = win_workers w \<and> w_pending (fst (report_finished env ev w)) = w_pending w
   \<and> w_drains (fst (report_finished env ev w)) = w_drains w \<and> w_state (fst (report_finished env ev w)) = w_state w
   \<and> w_daq (fst (report_finished env ev w)) = w_daq w"
proof -
  have w: "p_workers p' = p_workers p" if "on_success cb r p = (p', e)" for cb r e and p p' :: "('a, 'b) panel"
    using p_workers_on_success [of cb r p] that by simp
  show ?thesis
    by (auto simp: report_finished_def Let_def lift_panel_def w split: sum.split option.split prod.split)
qed

lemma report_finished_no_callback: "fin_cb ev = None \<Longrightarrow> snd (report_finished env ev w) = None"
  by (simp add: report_finished_def Let_def split: sum.split)

lemma stopping_deliver:
  assumes "stopping m w"
  shows "stopping m (fst (deliver_finished env w))"
proof (cases "gui_events (win_workers w)")
  case Nil
  with assms show ?thesis by (simp add: deliver_finished_def)
next
  case (Cons ev evs)
  let ?w = "(with_workers (\<lambda>ws. ws\<lparr>gui_events := evs\<rparr>) w)\<lparr>w_pulser := on_finished (fin_label ev) (w_pulser w)\<rparr>"
  obtain w1 e where r: "report_finished env ev ?w = (w1, e)" by fastforce
  from report_finished_keeps [of env ev ?w] r have w1: "win_workers w1 = (win_workers w)\<lparr>gui_events := evs\<rparr>"
    "w_pending w1 = w_pending w" "w_drains w1 = w_drains w" "w_state w1 = w_state w" "w_daq w1 = w_daq w"
    by (simp_all add: with_workers_def)
  have d: "deliver_finished env w = (if e = None then (check_stopped ev w1, None) else (w1, e))"
    by (simp add: deliver_finished_def Cons on_command_finished_def r and_then_def split: option.split)
  have wait: "stop_waiting m (win_workers w1)" if "stop_waiting m (win_workers w)" "\<not> stop_event m ev"
    using that Cons by (auto simp: stop_waiting_def w1(1) pending_items_def)
  show ?thesis
  proof (cases "stop_event m ev")
    case True
    then have "e = None" using report_finished_no_callback [of ev env ?w] r by (simp add: stop_event_def)
    with True assms w1(2-5) show ?thesis
      by (auto simp: d stopping_def check_stopped_def Let_def stop_event_def)
  next
    case False
    have "stopping m w1" using assms wait [OF _ False] w1(2-5) by (auto simp: stopping_def)
    moreover have "stopping m (check_stopped ev w1)"
    proof (cases "fin_label ev = StopLabel \<and> fin_dev ev \<in> set (w_pending w1)")
      case True
      with \<open>stopping m w1\<close> show ?thesis by (auto simp: stopping_def check_stopped_def Let_def)
    next
      case False
      with \<open>stopping m w1\<close> show ?thesis by (auto simp: check_stopped_def)
    qed
    ultimately show ?thesis by (simp add: d)
  qed
qed

text \<open>
  Events that neither start anything nor remove a device: timers, threads, packets and errors of
  the readout, edits, other commands, the pulser test, views.
\<close>

fun harmless :: "('w, 'c) win_event \<Rightarrow> bool" where
  "harmless (PanelOp f) = (\<forall>p m. stop_waiting m (p_workers p) \<longrightarrow> stop_waiting m (p_workers (fst (f p))))"
| "harmless (Console f) = False"
| "harmless StartRun = False"
| "harmless StopRun = False"
| "harmless ContinueRun = False"
| "harmless StartReadout = False"
| "harmless (Replay p) = False"
| "harmless NewSetup = False"
| "harmless (OpenSetup p) = False"
| "harmless (SaveSetup p) = False"
| "harmless (SaveSetupAs p) = False"
| "harmless e = True"

lemma stopping_workers:
  "stopping m w \<Longrightarrow> (\<And>ws. stop_waiting m ws \<Longrightarrow> stop_waiting m (f ws)) \<Longrightarrow> stopping m (with_workers f w)"
  by (auto simp: stopping_def with_workers_def)

lemma stopping_pulser_step: "stopping m w \<Longrightarrow> stopping m (fst (pulser_step env f w))"
  by (auto simp: pulser_step_def Let_def stopping_def with_workers_def stop_waiting_submit_all split: prod.split)

lemma stopping_submits: "stopping m w \<Longrightarrow> stopping m (send_to_enabled env meth args lb w)"
proof -
  have one: "stopping m (submit_method env meth args l d w)" if "stopping m w" for l d and w :: "('a, 'b) window"
    unfolding submit_method_def by (rule stopping_workers [OF that]) (simp add: submit_eq_put_item)
  have "stopping m (fold (submit_method env meth args l) ds w)" if "stopping m w" for l ds and w :: "('a, 'b) window"
    using that by (induction ds arbitrary: w) (simp_all add: one)
  then show "stopping m w \<Longrightarrow> stopping m (send_to_enabled env meth args lb w)"
    using stopping_run_part [of "log_msg Warning ''No enabled devices'' w" w m] by (simp add: send_to_enabled_def Let_def)
qed

lemma stopping_handle:
  assumes "harmless e" and s: "stopping m w"
  shows "stopping m (fst (win_handle env e w))"
proof (cases e)
  case StopReadout
  then show ?thesis using stop_readout_stops(1) by (auto simp: stopping_def)
next
  case ClearHistograms
  have "stopping m (w\<lparr>w_daq := clear_histograms (w_daq w)\<rparr>)" using s by (simp add: stopping_def)
  with ClearHistograms show ?thesis by (simp add: win_clear_histograms_def stopping_run_part [OF run_part_on_view(1)])
next
  case (EditRunId v)
  with s stopping_run_part [of "w\<lparr>w_widgets := set_spin ''spin_run_id'' v (w_widgets w)\<rparr>" w m] show ?thesis by simp
next
  case (EditClear b)
  with s stopping_run_part [of "w\<lparr>w_widgets := set_checked ''cb_clear_on_start'' b (w_widgets w)\<rparr>" w m] show ?thesis by simp
next
  case DrainTimer
  show ?thesis
  proof (cases "w_drains w = 0")
    case True
    with s DrainTimer show ?thesis by (simp add: on_drained_def)
  next
    case False
    with DrainTimer stop_readout_stops(1) show ?thesis by (auto simp: on_drained_def stopping_def)
  qed
next
  case (ThreadTurn d)
  then show ?thesis using stopping_workers [OF s stop_waiting_run_one] by simp
next
  case (ReadoutWork evs)
  show ?thesis
  proof (cases "is_running (w_daq w)")
    case True
    with s ReadoutWork show ?thesis by (auto simp: stopping_def)
  next
    case False
    with ReadoutWork show ?thesis by (simp add: stopping_def daq_events_idle)
  qed
next
  case (PanelOp f)
  obtain p x where r: "f (w_panel w) = (p, x)" by fastforce
  have "stop_waiting m (p_workers p)" if "stop_waiting m (win_workers w)"
    using assms(1) that by (simp add: PanelOp) (metis fst_conv r)
  with s show ?thesis by (auto simp: PanelOp r stopping_def lift_panel_def)
next
  case PulserStop
  with stopping_pulser_step [OF s] show ?thesis by (simp add: stop_pulsers_def)
next
  case ResetDaq
  with stopping_submits [OF s] show ?thesis by (simp add: reset_daq_clicked_def)
next
  case StatsTimer
  with stopping_update_stats [OF s] show ?thesis by simp
next
  case Deliver
  with stopping_deliver [OF s] show ?thesis by simp
next
  case (PulserStart a b c)
  with stopping_pulser_step [OF s] show ?thesis by simp
next
  case PulserAllOff
  with stopping_pulser_step [OF s] show ?thesis by simp
next
  case PulserTimer
  with stopping_pulser_step [OF s] show ?thesis by simp
next
  case (ChooseDir t)
  then show ?thesis by (simp add: stopping_same [OF s])
next
  case (EditPort v)
  then show ?thesis by (simp add: stopping_same [OF s])
next
  case (EditListfile b)
  then show ?thesis by (simp add: stopping_same [OF s])
next
  case (EditDir t)
  then show ?thesis by (simp add: stopping_same [OF s])
next
  case HistoTimer
  then show ?thesis by (simp add: stopping_same [OF s])
next
  case (ViewOp i ev)
  then show ?thesis by (simp add: stopping_same [OF s])
next
  case AddView
  then show ?thesis by (simp add: stopping_same [OF s])
next
  case ResetUi
  then show ?thesis by (simp add: stopping_same [OF s])
next
  case (CloseView n)
  then show ?thesis by (simp add: stopping_same [OF s] close_histo_view_def)
qed (use assms in simp_all)

lemma stopping_run: "list_all (\<lambda>(env, e). harmless e) evs \<Longrightarrow> stopping m w \<Longrightarrow> stopping m (run_window evs w)"
  by (induction evs arbitrary: w) (auto simp: run_window_def stopping_handle)



section \<open>Closing\<close>

lemma pulser_submits_labels:
  "finished_labels (submit_all api h subs ws) d @ map it_label (pending_items (submit_all api h subs ws) d) =
     finished_labels ws d @ map it_label (pending_items ws d) @ map ps_label (filter (\<lambda>s. ps_dev s = d) subs)"
proof (induction subs arbitrary: ws)
  case (Cons s subs)
  then show ?case
    by (simp add: submit_all_def submit_psub_def submit_eq_put_item pending_put_item finished_labels_def)
qed (simp add: submit_all_def)



end
