(* ===== verification/Packets.thy ===== *)
theory Packets
  imports Mcpd_Prelude "HOL-Library.Word" "HOL-Library.Signed_Division"
begin

text \<open>
  Data packets of MCPD and MDLL (\<open>src/mesytec-mcpd/mcpd_core.h\<close>) and their sources
  (\<open>packet_io.h\<close>, \<open>packet_io.cc\<close>): the packet as a record of words, the 48 bit values, the
  events and their decoding, the validity check, received datagrams and listfiles.

  The arrays of the C++ struct are lists.  Reading past the end of one would be undefined
  behaviour; here it is an error.  In memory and in a listfile words are little endian.
\<close>

unbundle bit_operations_syntax

type_synonym u8 = "8 word"
type_synonym u16 = "16 word"
type_synonym u32 = "32 word"
type_synonym u64 = "64 word"

section \<open>Packets\<close>

definition McpdParamCount :: nat where
  "McpdParamCount = 4"

definition McpdParamWords :: nat where
  "McpdParamWords = 3"

definition DataPacketMaxDataWords :: nat where
  "DataPacketMaxDataWords = 715"

definition McpdDataBuffer :: u16 where
  "McpdDataBuffer = 1"

definition MdllDataBuffer :: u16 where
  "MdllDataBuffer = 2"

record data_packet =
  dp_buffer_length :: u16
  dp_buffer_type :: u16
  dp_header_length :: u16
  dp_buffer_number :: u16
  dp_run_id :: u16
  dp_device_status :: u8
  dp_device_id :: u8
  dp_time :: "u16 list"
  dp_param :: "u16 list list"
  dp_data :: "u16 list"

text \<open>The lengths of the arrays.\<close>

definition packet_ok :: "data_packet \<Rightarrow> bool" where
  "packet_ok p \<longleftrightarrow>
     length (dp_time p) = 3 \<and> length (dp_param p) = McpdParamCount \<and> list_all (\<lambda>q. length q = McpdParamWords) (dp_param p)
     \<and> length (dp_data p) = DataPacketMaxDataWords"

section \<open>48 bit values\<close>

definition to_48bit_value :: "u16 \<Rightarrow> u16 \<Rightarrow> u16 \<Rightarrow> u64" where
  "to_48bit_value v0 v1 v2 = push_bit 0 (ucast v0) OR push_bit 16 (ucast v1) OR push_bit 32 (ucast v2)"

definition from_48bit_value :: "u64 \<Rightarrow> u16 \<times> u16 \<times> u16" where
  "from_48bit_value v =
     (ucast (drop_bit 0 v AND 0xFFFF), ucast (drop_bit 16 v AND 0xFFFF), ucast (drop_bit 32 v AND 0xFFFF))"

fun value_of_words :: "u16 list \<Rightarrow> u64 res" where
  "value_of_words (v0 # v1 # v2 # vs) = Inr (to_48bit_value v0 v1 v2)"
| "value_of_words vs = Inl IndexError"

section \<open>Events\<close>

definition get_data_length :: "data_packet \<Rightarrow> int" where
  "get_data_length p = uint (dp_buffer_length p) - uint (dp_header_length p)"

text \<open>The division truncates, the result is converted to \<open>size_t\<close>.\<close>

definition get_event_count :: "data_packet \<Rightarrow> nat" where
  "get_event_count p = unat (word_of_int (get_data_length p sdiv 3) :: u64)"

definition get_header_timestamp :: "data_packet \<Rightarrow> u64 res" where
  "get_header_timestamp p = value_of_words (dp_time p)"

definition get_parameter_values :: "data_packet \<Rightarrow> u64 list res" where
  "get_parameter_values p = traverse value_of_words (dp_param p)"

text \<open>\<open>get_raw_event\<close>: the words of an event, without a check of the index.\<close>

definition get_raw_event :: "data_packet \<Rightarrow> nat \<Rightarrow> u64 res" where
  "get_raw_event p i = value_of_words (drop (i * 3) (dp_data p))"

text \<open>\<open>get_event\<close>: the index is converted to an \<open>int\<close>.\<close>

definition get_event :: "data_packet \<Rightarrow> nat \<Rightarrow> u64 res" where
  "get_event p n =
     (let idx = sint (word_of_nat (n * 3) :: u32) in
      if get_data_length p \<le> idx + 2 then Inl (RuntimeErr ''eventNum out of range'')
      else if idx < 0 then Inl IndexError
      else value_of_words (drop (nat idx) (dp_data p)))"

text \<open>Bit fields of an event: shift and number of bits (\<open>event_constants\<close>).\<close>

definition event_field :: "nat \<Rightarrow> nat \<Rightarrow> u64 \<Rightarrow> u64" where
  "event_field shift bits ev = drop_bit shift ev AND mask bits"

definition IdBits :: "nat \<times> nat" where "IdBits = (47, 1)"
definition MpsdIdBits :: "nat \<times> nat" where "MpsdIdBits = (44, 3)"
definition ChannelBits :: "nat \<times> nat" where "ChannelBits = (39, 5)"
definition AmplitudeBits :: "nat \<times> nat" where "AmplitudeBits = (29, 10)"
definition PositionBits :: "nat \<times> nat" where "PositionBits = (19, 10)"
definition TriggerIdBits :: "nat \<times> nat" where "TriggerIdBits = (44, 3)"
definition DataIdBits :: "nat \<times> nat" where "DataIdBits = (40, 4)"
definition DataBits :: "nat \<times> nat" where "DataBits = (19, 21)"
definition MdllAmplitudeBits :: "nat \<times> nat" where "MdllAmplitudeBits = (39, 8)"
definition MdllXBits :: "nat \<times> nat" where "MdllXBits = (19, 10)"
definition MdllYBits :: "nat \<times> nat" where "MdllYBits = (29, 10)"
definition TimestampBits :: "nat \<times> nat" where "TimestampBits = (0, 19)"

lemmas event_constants =
  IdBits_def MpsdIdBits_def ChannelBits_def AmplitudeBits_def PositionBits_def TriggerIdBits_def DataIdBits_def DataBits_def
  MdllAmplitudeBits_def MdllXBits_def MdllYBits_def TimestampBits_def

definition field_of :: "nat \<times> nat \<Rightarrow> u64 \<Rightarrow> u64" where
  "field_of c ev = event_field (fst c) (snd c) ev"

text \<open>The payload of a decoded event; its constructor is the event's type.\<close>

datatype event_data = Neutron u8 u8 u16 u16 | Trigger u8 u8 u32 | MdllNeutron u8 u16 u16

record decoded_event =
  ev_device_id :: u8
  ev_data :: event_data
  ev_packet_timestamp :: u64
  ev_event_timestamp :: u32
  ev_timestamp :: u64

definition is_neutron :: "u64 \<Rightarrow> bool" where
  "is_neutron ev = (field_of IdBits ev = 0)"

definition decode_word :: "u64 \<Rightarrow> u8 \<Rightarrow> u16 \<Rightarrow> u64 \<Rightarrow> decoded_event" where
  "decode_word ev dev_id buffer_kind header_time =
     (let stamp = ucast (field_of TimestampBits ev) :: u32 in
      \<lparr>ev_device_id = dev_id,
       ev_data =
         (if is_neutron ev then
            if buffer_kind = MdllDataBuffer then
              MdllNeutron (ucast (field_of MdllAmplitudeBits ev)) (ucast (field_of MdllXBits ev)) (ucast (field_of MdllYBits ev))
            else
              Neutron (ucast (field_of MpsdIdBits ev)) (ucast (field_of ChannelBits ev)) (ucast (field_of AmplitudeBits ev))
                (ucast (field_of PositionBits ev))
          else
            Trigger (ucast (field_of TriggerIdBits ev)) (ucast (field_of DataIdBits ev)) (ucast (field_of DataBits ev))),
       ev_packet_timestamp = header_time,
       ev_event_timestamp = stamp,
       ev_timestamp = header_time + ucast stamp\<rparr>)"

definition decode_event :: "data_packet \<Rightarrow> nat \<Rightarrow> decoded_event res" where
  "decode_event p n =
     bind_res (get_event p n) (\<lambda>ev. bind_res (get_header_timestamp p) (\<lambda>t.
     Inr (decode_word ev (dp_device_id p) (dp_buffer_type p) t)))"

text \<open>\<open>get_decoded_events\<close> of the bindings\<close>

definition get_decoded_events :: "data_packet \<Rightarrow> decoded_event list res" where
  "get_decoded_events p = traverse (decode_event p) [0..<get_event_count p]"

section \<open>Received packets\<close>

record received =
  rp_packet :: data_packet
  rp_bytes :: nat
  rp_addr :: u32
  rp_port :: u16

definition DataPacketHeaderWords :: nat where
  "DataPacketHeaderWords = 21"

definition is_valid_data_packet :: "received \<Rightarrow> bool" where
  "is_valid_data_packet rp \<longleftrightarrow>
     (let p = rp_packet rp in
      DataPacketHeaderWords * 2 \<le> rp_bytes rp
      \<and> unat (dp_buffer_length p) * 2 \<le> rp_bytes rp
      \<and> dp_header_length p \<le> dp_buffer_length p
      \<and> get_data_length p \<le> int DataPacketMaxDataWords)"

section \<open>Packets in memory\<close>

definition PacketBytes :: nat where
  "PacketBytes = (DataPacketHeaderWords + DataPacketMaxDataWords) * 2"

definition word_bytes :: "u16 \<Rightarrow> u8 list" where
  "word_bytes w = [ucast w, ucast (drop_bit 8 w)]"

definition word_of_bytes :: "u8 \<Rightarrow> u8 \<Rightarrow> u16" where
  "word_of_bytes lo hi = ucast lo OR push_bit 8 (ucast hi)"

fun words_of :: "u8 list \<Rightarrow> u16 list" where
  "words_of (lo # hi # bs) = word_of_bytes lo hi # words_of bs"
| "words_of bs = []"

definition packet_bytes :: "data_packet \<Rightarrow> u8 list" where
  "packet_bytes p =
     concat (map word_bytes [dp_buffer_length p, dp_buffer_type p, dp_header_length p, dp_buffer_number p, dp_run_id p])
     @ [dp_device_status p, dp_device_id p]
     @ concat (map word_bytes (dp_time p @ concat (dp_param p) @ dp_data p))"

text \<open>The packet whose memory the bytes are; \<open>chunks n\<close> cuts a list into pieces of length \<open>n\<close>.\<close>

fun chunks :: "nat \<Rightarrow> nat \<Rightarrow> 'a list \<Rightarrow> 'a list list" where
  "chunks n 0 xs = []"
| "chunks n (Suc k) xs = take n xs # chunks n k (drop n xs)"

definition packet_of_bytes :: "u8 list \<Rightarrow> data_packet" where
  "packet_of_bytes bs =
     (let ws = words_of bs; rest = drop 6 ws in
      \<lparr>dp_buffer_length = ws ! 0, dp_buffer_type = ws ! 1, dp_header_length = ws ! 2, dp_buffer_number = ws ! 3,
       dp_run_id = ws ! 4, dp_device_status = bs ! 10, dp_device_id = bs ! 11,
       dp_time = take 3 rest, dp_param = chunks McpdParamWords McpdParamCount (drop 3 rest), dp_data = drop 15 rest\<rparr>)"

text \<open>\<open>UdpPacketSource::read\<close>: the tail that was not received is zero.\<close>

definition udp_packet :: "u8 list \<Rightarrow> u32 \<Rightarrow> u16 \<Rightarrow> received" where
  "udp_packet bs addr port =
     (let got = take PacketBytes bs in
      \<lparr>rp_packet = packet_of_bytes (got @ replicate (PacketBytes - length got) 0), rp_bytes = length got,
       rp_addr = addr, rp_port = port\<rparr>)"

text \<open>\<open>ListfileWriter::write\<close>: the bytes of the file afterwards.\<close>

definition listfile_write :: "data_packet \<Rightarrow> u8 list \<Rightarrow> u8 list" where
  "listfile_write p file = file @ packet_bytes p"

text \<open>\<open>ListfilePacketSource::read\<close>: a packet and the rest of the file, \<open>None\<close> at its end.\<close>

definition listfile_read :: "u8 list \<Rightarrow> (received \<times> u8 list) option" where
  "listfile_read file =
     (if length file < PacketBytes then None
      else Some (\<lparr>rp_packet = packet_of_bytes (take PacketBytes file), rp_bytes = PacketBytes, rp_addr = 0, rp_port = 0\<rparr>,
                 drop PacketBytes file))"

text \<open>All the packets of a file.\<close>

function listfile_packets :: "u8 list \<Rightarrow> received list" where
  "listfile_packets file = (case listfile_read file of None \<Rightarrow> [] | Some (rp, rest) \<Rightarrow> rp # listfile_packets rest)"
  by pat_completeness auto
termination
  by (relation "measure length")
    (auto simp: listfile_read_def PacketBytes_def DataPacketHeaderWords_def DataPacketMaxDataWords_def split: if_splits)

declare listfile_packets.simps [simp del]

end
