(* ===== verification/Collectors.thy ===== *)
theory Collectors
  imports Packets "HOL-Library.Product_Lexorder"
begin

text \<open>
  The consumers of the readout thread: the histograms (\<open>src/mesytec-mcpd/histogrammers.h\<close>,
  \<open>histogrammers.cc\<close>) and the counts per source (\<open>source_stats.h\<close>, \<open>source_stats.cc\<close>).

  A \<open>std::map\<close> is a list of pairs in the order of its keys.  Counts are 64 bit words that wrap
  around.  An access outside a vector would be undefined behaviour; here it is an error.
\<close>

section \<open>Maps and vectors\<close>

text \<open>\<open>m[k]\<close>, which inserts \<open>d\<close> when the key is new, followed by a change of the entry.\<close>

fun map_at :: "'v \<Rightarrow> 'k::linorder \<Rightarrow> ('v \<Rightarrow> 'v) \<Rightarrow> ('k \<times> 'v) list \<Rightarrow> ('k \<times> 'v) list" where
  "map_at d k f [] = [(k, f d)]"
| "map_at d k f ((k', v) # m) =
     (if k = k' then (k, f v) # m else if k < k' then (k, f d) # (k', v) # m else (k', v) # map_at d k f m)"

text \<open>\<open>m.find(k)\<close>, in a sorted list the entry with that key\<close>

definition map_find :: "('k \<times> 'v) list \<Rightarrow> 'k \<Rightarrow> 'v option" where
  "map_find m k = map_of m k"

definition map_ordered :: "('k::linorder \<times> 'v) list \<Rightarrow> bool" where
  "map_ordered m \<longleftrightarrow> sorted_wrt (<) (map fst m)"

text \<open>\<open>++v[i]\<close>\<close>

definition bump :: "nat \<Rightarrow> u64 list \<Rightarrow> u64 list res" where
  "bump i v = (if i < length v then Inr (v[i := v ! i + 1]) else Inl IndexError)"

text \<open>A loop whose body may fail.\<close>

fun fold_res :: "('a \<Rightarrow> 's \<Rightarrow> 's res) \<Rightarrow> 'a list \<Rightarrow> 's \<Rightarrow> 's res" where
  "fold_res f [] s = Inr s"
| "fold_res f (x # xs) s = bind_res (f x s) (fold_res f xs)"

type_synonym source_key = "u32 \<times> u8"

definition source_of :: "received \<Rightarrow> source_key" where
  "source_of rp = (rp_addr rp, dp_device_id (rp_packet rp))"

definition raw_events :: "data_packet \<Rightarrow> u64 list res" where
  "raw_events p = traverse (get_raw_event p) [0..<get_event_count p]"

section \<open>MDLL histograms\<close>

record mdll_histograms =
  mh_amplitude :: "u64 list"
  mh_x :: "u64 list"
  mh_y :: "u64 list"
  mh_xy :: "u64 list"

definition MdllAmplitudeBins :: nat where
  "MdllAmplitudeBins = 2 ^ 8"

definition XBins :: nat where
  "XBins = 2 ^ 10"

definition YBins :: nat where
  "YBins = 2 ^ 10"

definition new_mdll_histograms :: mdll_histograms where
  "new_mdll_histograms =
     \<lparr>mh_amplitude = replicate MdllAmplitudeBins 0, mh_x = replicate XBins 0, mh_y = replicate YBins 0,
      mh_xy = replicate (XBins * YBins) 0\<rparr>"

definition fill_mdll_event :: "u64 \<Rightarrow> mdll_histograms \<Rightarrow> mdll_histograms res" where
  "fill_mdll_event ev h =
     (if \<not> is_neutron ev then Inr h
      else
        (let amp = unat (field_of MdllAmplitudeBits ev); x = unat (field_of MdllXBits ev); y = unat (field_of MdllYBits ev) in
         bind_res (bump amp (mh_amplitude h)) (\<lambda>as.
         bind_res (bump x (mh_x h)) (\<lambda>xs.
         bind_res (bump y (mh_y h)) (\<lambda>ys.
         bind_res (bump (y * XBins + x) (mh_xy h)) (\<lambda>xys.
         Inr \<lparr>mh_amplitude = as, mh_x = xs, mh_y = ys, mh_xy = xys\<rparr>))))))"

definition fill_mdll :: "data_packet \<Rightarrow> mdll_histograms \<Rightarrow> mdll_histograms res" where
  "fill_mdll p h = bind_res (raw_events p) (\<lambda>evs. fold_res fill_mdll_event evs h)"

definition zero_bins :: "u64 list \<Rightarrow> u64 list" where
  "zero_bins v = map (\<lambda>_. 0) v"

definition clear_mdll :: "mdll_histograms \<Rightarrow> mdll_histograms" where
  "clear_mdll h =
     \<lparr>mh_amplitude = zero_bins (mh_amplitude h), mh_x = zero_bins (mh_x h), mh_y = zero_bins (mh_y h),
      mh_xy = zero_bins (mh_xy h)\<rparr>"

section \<open>MCPD histograms\<close>

record mcpd_histograms =
  ch_amplitude :: "u64 list"
  ch_position :: "u64 list"

definition MpsdCount :: nat where
  "MpsdCount = 2 ^ 3"

definition ChannelCount :: nat where
  "ChannelCount = 2 ^ 5"

definition AmplitudeBins :: nat where
  "AmplitudeBins = 2 ^ 10"

definition PositionBins :: nat where
  "PositionBins = 2 ^ 10"

definition new_mcpd_histograms :: mcpd_histograms where
  "new_mcpd_histograms =
     \<lparr>ch_amplitude = replicate (MpsdCount * ChannelCount * AmplitudeBins) 0,
      ch_position = replicate (MpsdCount * ChannelCount * PositionBins) 0\<rparr>"

definition bin_index :: "nat \<Rightarrow> nat \<Rightarrow> nat \<Rightarrow> nat" where
  "bin_index mpsd ch bin = (mpsd * ChannelCount + ch) * AmplitudeBins + bin"

definition fill_mcpd_event :: "u64 \<Rightarrow> mcpd_histograms \<Rightarrow> mcpd_histograms res" where
  "fill_mcpd_event ev h =
     (if \<not> is_neutron ev then Inr h
      else
        (let mpsd = unat (field_of MpsdIdBits ev); ch = unat (field_of ChannelBits ev);
             amp = unat (field_of AmplitudeBits ev); pos = unat (field_of PositionBits ev) in
         bind_res (bump (bin_index mpsd ch amp) (ch_amplitude h)) (\<lambda>as.
         bind_res (bump (bin_index mpsd ch pos) (ch_position h)) (\<lambda>ps.
         Inr \<lparr>ch_amplitude = as, ch_position = ps\<rparr>))))"

definition fill_mcpd :: "data_packet \<Rightarrow> mcpd_histograms \<Rightarrow> mcpd_histograms res" where
  "fill_mcpd p h = bind_res (raw_events p) (\<lambda>evs. fold_res fill_mcpd_event evs h)"

definition clear_mcpd :: "mcpd_histograms \<Rightarrow> mcpd_histograms" where
  "clear_mcpd h = \<lparr>ch_amplitude = zero_bins (ch_amplitude h), ch_position = zero_bins (ch_position h)\<rparr>"

section \<open>Histogrammer\<close>

text \<open>\<open>Histogrammer<Histos>\<close>: the entry of the packet's source is made and filled.\<close>

definition histogrammer_consume ::
  "u16 \<Rightarrow> 'h \<Rightarrow> (data_packet \<Rightarrow> 'h \<Rightarrow> 'h res) \<Rightarrow> received \<Rightarrow> (source_key \<times> 'h) list \<Rightarrow> (source_key \<times> 'h) list res" where
  "histogrammer_consume kind new fill rp m =
     (if dp_buffer_type (rp_packet rp) \<noteq> kind then Inr m
      else
        (let h = (case map_find m (source_of rp) of Some h \<Rightarrow> h | None \<Rightarrow> new) in
         bind_res (fill (rp_packet rp) h) (\<lambda>h'. Inr (map_at new (source_of rp) (\<lambda>_. h') m))))"

definition consume_mdll :: "received \<Rightarrow> (source_key \<times> mdll_histograms) list \<Rightarrow> (source_key \<times> mdll_histograms) list res" where
  "consume_mdll = histogrammer_consume MdllDataBuffer new_mdll_histograms fill_mdll"

definition consume_mcpd :: "received \<Rightarrow> (source_key \<times> mcpd_histograms) list \<Rightarrow> (source_key \<times> mcpd_histograms) list res" where
  "consume_mcpd = histogrammer_consume McpdDataBuffer new_mcpd_histograms fill_mcpd"

definition histogrammer_clear :: "('h \<Rightarrow> 'h) \<Rightarrow> (source_key \<times> 'h) list \<Rightarrow> (source_key \<times> 'h) list" where
  "histogrammer_clear clear m = map (\<lambda>(k, h). (k, clear h)) m"

section \<open>Source statistics\<close>

text \<open>\<open>None\<close>: the number repeated or went backwards, which happens after a restart.\<close>

definition buffer_number_gap :: "u16 \<Rightarrow> u16 \<Rightarrow> u16 option" where
  "buffer_number_gap prv cur =
     (let distance = cur - prv in if distance = 0 \<or> 0x8000 \<le> distance then None else Some (distance - 1))"

record source_counts =
  sc_buffer_type :: u16
  sc_packets :: u64
  sc_bytes :: u64
  sc_events :: u64
  sc_neutron_events :: u64
  sc_trigger_events :: u64
  sc_packets_lost :: u64
  sc_buffer_number_jumps :: u64
  sc_last_buffer_number :: u16
  sc_have_buffer_number :: bool
  sc_last_device_status :: u8
  sc_last_run_id :: u16
  sc_last_header_timestamp :: u64
  sc_last_params :: "u64 list"

definition no_counts :: source_counts where
  "no_counts =
     \<lparr>sc_buffer_type = 0, sc_packets = 0, sc_bytes = 0, sc_events = 0, sc_neutron_events = 0, sc_trigger_events = 0,
      sc_packets_lost = 0, sc_buffer_number_jumps = 0, sc_last_buffer_number = 0, sc_have_buffer_number = False,
      sc_last_device_status = 0, sc_last_run_id = 0, sc_last_header_timestamp = 0,
      sc_last_params = replicate McpdParamCount 0\<rparr>"

text \<open>The first change of the entry: lost packets.\<close>

definition track_buffer_number :: "u16 \<Rightarrow> source_counts \<Rightarrow> source_counts" where
  "track_buffer_number n st =
     (if sc_have_buffer_number st then
        (case buffer_number_gap (sc_last_buffer_number st) n of
           Some gap \<Rightarrow> st\<lparr>sc_packets_lost := sc_packets_lost st + ucast gap\<rparr>
         | None \<Rightarrow> st\<lparr>sc_buffer_number_jumps := sc_buffer_number_jumps st + 1\<rparr>)
      else st)"

text \<open>The second: the rest of \<open>consume\<close>, for the number of events and triggers of the packet.\<close>

definition count_packet :: "received \<Rightarrow> nat \<Rightarrow> nat \<Rightarrow> u64 \<Rightarrow> u64 list \<Rightarrow> source_counts \<Rightarrow> source_counts" where
  "count_packet rp n trg stamp ps st =
     (let p = rp_packet rp in
      st\<lparr>sc_buffer_type := dp_buffer_type p, sc_last_buffer_number := dp_buffer_number p, sc_have_buffer_number := True,
        sc_packets := sc_packets st + 1, sc_bytes := sc_bytes st + word_of_nat (rp_bytes rp),
        sc_events := sc_events st + word_of_nat n, sc_trigger_events := sc_trigger_events st + word_of_nat trg,
        sc_neutron_events := sc_neutron_events st + (word_of_nat n - word_of_nat trg),
        sc_last_device_status := dp_device_status p, sc_last_run_id := dp_run_id p,
        sc_last_header_timestamp := stamp, sc_last_params := ps\<rparr>)"

definition is_data :: "data_packet \<Rightarrow> bool" where
  "is_data p \<longleftrightarrow> dp_buffer_type p = McpdDataBuffer \<or> dp_buffer_type p = MdllDataBuffer"

definition consume_stats :: "received \<Rightarrow> (source_key \<times> source_counts) list \<Rightarrow> (source_key \<times> source_counts) list res" where
  "consume_stats rp m =
     (let p = rp_packet rp in
      bind_res (if is_data p then raw_events p else Inr []) (\<lambda>evs.
      bind_res (get_header_timestamp p) (\<lambda>stamp.
      bind_res (get_parameter_values p) (\<lambda>ps.
      Inr (map_at no_counts (source_of rp)
        (\<lambda>st. count_packet rp (length evs) (length (filter (\<lambda>ev. \<not> is_neutron ev) evs)) stamp ps
           (track_buffer_number (dp_buffer_number p) st)) m)))))"

text \<open>\<open>getTotals\<close>\<close>

definition add_counts :: "source_counts \<Rightarrow> source_counts \<Rightarrow> source_counts" where
  "add_counts st r =
     r\<lparr>sc_packets := sc_packets r + sc_packets st, sc_bytes := sc_bytes r + sc_bytes st, sc_events := sc_events r + sc_events st,
       sc_neutron_events := sc_neutron_events r + sc_neutron_events st,
       sc_trigger_events := sc_trigger_events r + sc_trigger_events st,
       sc_packets_lost := sc_packets_lost r + sc_packets_lost st,
       sc_buffer_number_jumps := sc_buffer_number_jumps r + sc_buffer_number_jumps st\<rparr>"

definition get_totals :: "(source_key \<times> source_counts) list \<Rightarrow> source_counts" where
  "get_totals m = fold (\<lambda>(k, st). add_counts st) m no_counts"

definition stats_reset :: "(source_key \<times> source_counts) list \<Rightarrow> (source_key \<times> source_counts) list" where
  "stats_reset m = map (\<lambda>(k, st). (k, no_counts)) m"

section \<open>Tables per source\<close>

text \<open>
  What the collectors rely on: changing the entry of one source makes it when it is new, and
  leaves the entries of the others alone.
\<close>

locale source_table =
  fixes look :: "'m \<Rightarrow> 'k \<Rightarrow> 'v option"
    and touch :: "'k \<Rightarrow> ('v \<Rightarrow> 'v) \<Rightarrow> 'm \<Rightarrow> 'm"
    and well :: "'m \<Rightarrow> bool"
    and fresh :: 'v
  assumes look_touch: "well m \<Longrightarrow> look (touch k f m) k' =
      (if k = k' then Some (f (case look m k of None \<Rightarrow> fresh | Some v \<Rightarrow> v)) else look m k')"
    and well_touch: "well m \<Longrightarrow> well (touch k f m)"
begin

text \<open>Consuming a list of items that belong to different entries.\<close>

definition consumed :: "('a \<Rightarrow> bool) \<Rightarrow> ('a \<Rightarrow> 'k) \<Rightarrow> ('a \<Rightarrow> 'v \<Rightarrow> 'v) \<Rightarrow> 'a list \<Rightarrow> 'm \<Rightarrow> 'm" where
  "consumed rel key_of step xs m = fold (\<lambda>x m. if rel x then touch (key_of x) (step x) m else m) xs m"

lemma well_consumed: "well m \<Longrightarrow> well (consumed rel key_of step xs m)"
  unfolding consumed_def by (induction xs arbitrary: m) (auto simp: well_touch)

lemma look_consumed:
  "well m \<Longrightarrow> look (consumed rel key_of step xs m) k =
     (let ys = filter (\<lambda>x. rel x \<and> key_of x = k) xs in
      if ys = [] then look m k else Some (fold step ys (case look m k of None \<Rightarrow> fresh | Some v \<Rightarrow> v)))"
proof (induction xs arbitrary: m)
  case Nil
  then show ?case by (simp add: consumed_def)
next
  case (Cons x xs)
  let ?m = "if rel x then touch (key_of x) (step x) m else m"
  have "well ?m" using Cons.prems by (simp add: well_touch)
  note IH = Cons.IH [OF this]
  have "consumed rel key_of step (x # xs) m = consumed rel key_of step xs ?m" by (simp add: consumed_def)
  with IH Cons.prems show ?case by (auto simp: Let_def look_touch)
qed

end

lemma map_ordered_simps [simp]:
  "map_ordered []" "map_ordered ((k, v) # m) \<longleftrightarrow> (\<forall>q \<in> set m. k < fst q) \<and> map_ordered m"
  by (auto simp: map_ordered_def)

lemma set_map_at: "q \<in> set (map_at d k f m) \<Longrightarrow> fst q = k \<or> q \<in> set m"
  by (induction m) (auto split: if_splits)

lemma map_ordered_at: "map_ordered m \<Longrightarrow> map_ordered (map_at d k f m)"
proof (induction m)
  case (Cons q m)
  then show ?case by (cases q) (auto dest!: set_map_at)
qed simp

lemma map_find_at:
  "map_ordered m \<Longrightarrow> map_find (map_at d k f m) k' =
     (if k = k' then Some (f (case map_find m k of None \<Rightarrow> d | Some v \<Rightarrow> v)) else map_find m k')"
proof (induction m)
  case (Cons q m)
  obtain k0 v where q: "q = (k0, v)" by (cases q)
  have "map_of m k = None" if "k < k0"
    using that Cons.prems q by (auto simp: map_of_eq_None_iff)
  with Cons q show ?case by (auto simp: map_find_def)
qed (auto simp: map_find_def)

interpretation table: source_table map_find "map_at d" map_ordered d for d
  by unfold_locales (simp_all add: map_find_at map_ordered_at)

end
