(* ===== verification/Packets_Facts.thy ===== *)
theory Packets_Facts
  imports Packets
begin

text \<open>
  48 bit values and their words, the decoding of events, the safety of the accesses to a valid
  packet, and listfiles that are read back.
\<close>

section \<open>48 bit values\<close>

lemma bit_to_48bit:
  "bit (to_48bit_value a b c) n \<longleftrightarrow>
     (if n < 16 then bit a n else if n < 32 then bit b (n - 16) else if n < 48 then bit c (n - 32) else False)"
  by (cases "n < 64") (auto simp: to_48bit_value_def bit_simps dest: bit_imp_le_length)

lemma from_to_48bit: "from_48bit_value (to_48bit_value a b c) = (a, b, c)"
proof -
  have 0: "ucast (drop_bit k (to_48bit_value a b c) AND 0xFFFF) = (w :: u16)"
    if "\<And>n. n < 16 \<Longrightarrow> bit (to_48bit_value a b c) (n + k) = bit w n" for k and w :: u16
  proof (rule bit_word_eqI)
    fix n assume "n < LENGTH(16)"
    then have n: "n < 16" by simp
    have m: "(0xFFFF :: u64) = mask 16" by (simp add: mask_eq_exp_minus_1)
    show "bit (ucast (drop_bit k (to_48bit_value a b c) AND 0xFFFF) :: u16) n = bit w n"
      unfolding m using n by (simp add: that [OF n, symmetric] bit_simps add.commute)
  qed
  have "ucast (drop_bit 0 (to_48bit_value a b c) AND 0xFFFF) = a" by (rule 0) (simp add: bit_to_48bit)
  moreover have "ucast (drop_bit 16 (to_48bit_value a b c) AND 0xFFFF) = b" by (rule 0) (simp add: bit_to_48bit)
  moreover have "ucast (drop_bit 32 (to_48bit_value a b c) AND 0xFFFF) = c" by (rule 0) (simp add: bit_to_48bit)
  ultimately show ?thesis by (simp only: from_48bit_value_def)
qed

lemma to_48bit_bound: "to_48bit_value a b c < 2 ^ 48"
proof -
  have "take_bit 48 (to_48bit_value a b c) = to_48bit_value a b c"
    by (rule bit_word_eqI) (auto simp: bit_simps bit_to_48bit)
  moreover have "take_bit 48 (to_48bit_value a b c) < 2 ^ 48" 
    using take_bit_int_less_exp [of 48 "uint (to_48bit_value a b c)"] by (simp add: word_less_def unsigned_take_bit_eq)
  ultimately show ?thesis by simp
qed


section \<open>Valid packets\<close>

text \<open>The length fields of a valid packet keep every event inside the data array.\<close>

lemma valid_data_length:
  assumes "is_valid_data_packet rp"
  shows "0 \<le> get_data_length (rp_packet rp)" "get_data_length (rp_packet rp) \<le> 715"
  using assms by (auto simp: is_valid_data_packet_def Let_def get_data_length_def DataPacketMaxDataWords_def word_le_def)

lemma event_count:
  assumes "is_valid_data_packet rp"
  shows "int (get_event_count (rp_packet rp)) = get_data_length (rp_packet rp) div 3"
proof -
  let ?n = "get_data_length (rp_packet rp)"
  note n = valid_data_length [OF assms]
  have "?n sdiv 3 = ?n div 3" using n(1) by (cases "?n = 0") (simp_all add: signed_divide_int_def)
  moreover have "uint (word_of_int (?n div 3) :: u64) = ?n div 3"
    using n by (simp add: unsigned_of_int take_bit_int_eq_self)
  ultimately show ?thesis by (simp add: get_event_count_def)
qed

lemma event_words:
  assumes "is_valid_data_packet rp" and "i < get_event_count (rp_packet rp)"
  shows "int (i * 3 + 2) < get_data_length (rp_packet rp)" "i * 3 + 2 < DataPacketMaxDataWords"
proof -
  have "int i < get_data_length (rp_packet rp) div 3" using assms event_count by fastforce
  then show "int (i * 3 + 2) < get_data_length (rp_packet rp)" by simp
  with valid_data_length [OF assms(1)] show "i * 3 + 2 < DataPacketMaxDataWords"
    by (simp add: DataPacketMaxDataWords_def)
qed

lemma value_of_words_nth:
  "i + 2 < length ws \<Longrightarrow> value_of_words (drop i ws) = Inr (to_48bit_value (ws ! i) (ws ! (i + 1)) (ws ! (i + 2)))"
proof -
  assume i: "i + 2 < length ws"
  have "drop i ws = ws ! i # ws ! (i + 1) # ws ! (i + 2) # drop (i + 3) ws"
    using i by (simp add: Cons_nth_drop_Suc numeral_3_eq_3)
  then show ?thesis by simp
qed

definition event_word :: "data_packet \<Rightarrow> nat \<Rightarrow> u64" where
  "event_word p i = to_48bit_value (dp_data p ! (i * 3)) (dp_data p ! (i * 3 + 1)) (dp_data p ! (i * 3 + 2))"

lemma raw_event_ok:
  assumes "is_valid_data_packet rp" and "packet_ok (rp_packet rp)" and "i < get_event_count (rp_packet rp)"
  shows "get_raw_event (rp_packet rp) i = Inr (event_word (rp_packet rp) i)"
    and "get_event (rp_packet rp) i = Inr (event_word (rp_packet rp) i)"
proof -
  let ?p = "rp_packet rp"
  note w = event_words [OF assms(1,3)]
  have len: "i * 3 + 2 < length (dp_data ?p)" using w(2) assms(2) by (simp add: packet_ok_def)
  show "get_raw_event ?p i = Inr (event_word ?p i)"
    using value_of_words_nth [OF len] by (simp add: get_raw_event_def event_word_def)
  have "i * 3 < 2 ^ 31" using w(2) by (simp add: DataPacketMaxDataWords_def)
  then have "sint (word_of_nat (i * 3) :: u32) = int (i * 3)"
    by (simp add: signed_of_nat signed_take_bit_int_eq_self del: of_nat_mult)
  with w(1) value_of_words_nth [OF len] show "get_event ?p i = Inr (event_word ?p i)"
    by (simp add: get_event_def event_word_def nat_mult_distrib)
qed

lemma header_values_ok:
  assumes "packet_ok p"
  shows "get_header_timestamp p = Inr (to_48bit_value (dp_time p ! 0) (dp_time p ! 1) (dp_time p ! 2))"
    and "get_parameter_values p = Inr (map (\<lambda>q. to_48bit_value (q ! 0) (q ! 1) (q ! 2)) (dp_param p))"
proof -
  have three: "value_of_words ws = Inr (to_48bit_value (ws ! 0) (ws ! 1) (ws ! 2))" if "length ws = 3" for ws
    using that value_of_words_nth [of 0 ws] by (simp add: numeral_2_eq_2)
  show "get_header_timestamp p = Inr (to_48bit_value (dp_time p ! 0) (dp_time p ! 1) (dp_time p ! 2))"
    using assms by (simp add: get_header_timestamp_def packet_ok_def three)
  show "get_parameter_values p = Inr (map (\<lambda>q. to_48bit_value (q ! 0) (q ! 1) (q ! 2)) (dp_param p))"
    unfolding get_parameter_values_def using assms
    by (intro traverse_all_ok) (auto simp: packet_ok_def list_all_iff McpdParamWords_def three)
qed


section \<open>Decoding\<close>

text \<open>An event word written from its fields, as the hardware's documentation lays them out.\<close>

definition place :: "nat \<times> nat \<Rightarrow> nat \<Rightarrow> u64" where
  "place c v = push_bit (fst c) (word_of_nat v)"

definition neutron_word :: "nat \<Rightarrow> nat \<Rightarrow> nat \<Rightarrow> nat \<Rightarrow> nat \<Rightarrow> u64" where
  "neutron_word bus ch amp pos stamp =
     place MpsdIdBits bus OR place ChannelBits ch OR place AmplitudeBits amp OR place PositionBits pos OR place TimestampBits stamp"

definition mdll_word :: "nat \<Rightarrow> nat \<Rightarrow> nat \<Rightarrow> nat \<Rightarrow> u64" where
  "mdll_word amp y x stamp =
     place MdllAmplitudeBits amp OR place MdllYBits y OR place MdllXBits x OR place TimestampBits stamp"

definition trigger_word :: "nat \<Rightarrow> nat \<Rightarrow> nat \<Rightarrow> nat \<Rightarrow> u64" where
  "trigger_word tid src val stamp =
     place IdBits 1 OR place TriggerIdBits tid OR place DataIdBits src OR place DataBits val OR place TimestampBits stamp"

lemma bit_nat_bound: "v < 2 ^ b \<Longrightarrow> bit v n \<Longrightarrow> n < b" for v :: nat
  by (metis bit_take_bit_iff take_bit_nat_eq_self)

lemma bit_place: "v < 2 ^ b \<Longrightarrow> bit (place (s, b) v) n \<longleftrightarrow> n < 64 \<and> s \<le> n \<and> n < s + b \<and> bit v (n - s)"
proof -
  assume v: "v < 2 ^ b"
  have "s \<le> n \<Longrightarrow> bit v (n - s) \<Longrightarrow> n < s + b"
    using bit_nat_bound [OF v, of "n - s"] by linarith
  then show ?thesis by (auto simp: place_def bit_simps)
qed

lemma bit_place_id: "bit (place IdBits 1) n \<longleftrightarrow> n = 47"
proof -
  have p: "place IdBits 1 = push_bit 47 1" unfolding place_def IdBits_def by (simp only: fst_conv of_nat_1)
  show ?thesis unfolding p bit_push_bit_iff bit_1_iff by auto
qed

lemma field_of_place:
  assumes "v < 2 ^ b" and "s + b \<le> 64" and "\<And>n. n < b \<Longrightarrow> bit ev (s + n) = bit v n"
  shows "field_of (s, b) ev = word_of_nat v"
proof (rule bit_word_eqI)
  fix n assume n: "n < LENGTH(64)"
  from assms(3) n bit_nat_bound [OF assms(1)] show "bit (field_of (s, b) ev) n = bit (word_of_nat v :: u64) n"
    by (auto simp: field_of_def event_field_def bit_simps)
qed


lemma ucast_word_of_nat: "ucast (word_of_nat v :: u64) = (word_of_nat v :: 'b::len word)" if "LENGTH('b) \<le> 64"
  by (rule bit_word_eqI) (use that in \<open>auto simp: bit_simps\<close>)

lemma widen_word_of_nat: "ucast (word_of_nat v :: u32) = (word_of_nat v :: u64)" if "v < 2 ^ 32"
  by (rule bit_word_eqI) (use bit_nat_bound [OF that] in \<open>auto simp: bit_simps\<close>)

lemma neutron_fields:
  assumes "bus < 8" "ch < 32" "amp < 1024" "pos < 1024" "stamp < 2 ^ 19"
  shows "field_of IdBits (neutron_word bus ch amp pos stamp) = 0"
    "field_of MpsdIdBits (neutron_word bus ch amp pos stamp) = word_of_nat bus"
    "field_of ChannelBits (neutron_word bus ch amp pos stamp) = word_of_nat ch"
    "field_of AmplitudeBits (neutron_word bus ch amp pos stamp) = word_of_nat amp"
    "field_of PositionBits (neutron_word bus ch amp pos stamp) = word_of_nat pos"
    "field_of TimestampBits (neutron_word bus ch amp pos stamp) = word_of_nat stamp"
proof -
  have bits: "bit (neutron_word bus ch amp pos stamp) n \<longleftrightarrow>
      (44 \<le> n \<and> n < 47 \<and> bit bus (n - 44)) \<or> (39 \<le> n \<and> n < 44 \<and> bit ch (n - 39)) \<or> (29 \<le> n \<and> n < 39 \<and> bit amp (n - 29))
      \<or> (19 \<le> n \<and> n < 29 \<and> bit pos (n - 19)) \<or> (n < 19 \<and> bit stamp n)" if "n < 64" for n
    using assms that by (simp add: neutron_word_def event_constants bit_or_iff bit_place)
  show "field_of IdBits (neutron_word bus ch amp pos stamp) = 0"
    unfolding IdBits_def using field_of_place [of 0 1 47 "neutron_word bus ch amp pos stamp"] by (simp add: bits)
  show "field_of MpsdIdBits (neutron_word bus ch amp pos stamp) = word_of_nat bus"
    unfolding MpsdIdBits_def using assms by (intro field_of_place) (simp_all add: bits)
  show "field_of ChannelBits (neutron_word bus ch amp pos stamp) = word_of_nat ch"
    unfolding ChannelBits_def using assms by (intro field_of_place) (simp_all add: bits)
  show "field_of AmplitudeBits (neutron_word bus ch amp pos stamp) = word_of_nat amp"
    unfolding AmplitudeBits_def using assms by (intro field_of_place) (simp_all add: bits)
  show "field_of PositionBits (neutron_word bus ch amp pos stamp) = word_of_nat pos"
    unfolding PositionBits_def using assms by (intro field_of_place) (simp_all add: bits)
  show "field_of TimestampBits (neutron_word bus ch amp pos stamp) = word_of_nat stamp"
    unfolding TimestampBits_def using assms by (intro field_of_place) (simp_all add: bits)
qed

lemma mdll_fields:
  assumes "amp < 256" "y < 1024" "x < 1024" "stamp < 2 ^ 19"
  shows "field_of IdBits (mdll_word amp y x stamp) = 0"
    "field_of MdllAmplitudeBits (mdll_word amp y x stamp) = word_of_nat amp"
    "field_of MdllYBits (mdll_word amp y x stamp) = word_of_nat y"
    "field_of MdllXBits (mdll_word amp y x stamp) = word_of_nat x"
    "field_of TimestampBits (mdll_word amp y x stamp) = word_of_nat stamp"
proof -
  have bits: "bit (mdll_word amp y x stamp) n \<longleftrightarrow>
      (39 \<le> n \<and> n < 47 \<and> bit amp (n - 39)) \<or> (29 \<le> n \<and> n < 39 \<and> bit y (n - 29))
      \<or> (19 \<le> n \<and> n < 29 \<and> bit x (n - 19)) \<or> (n < 19 \<and> bit stamp n)" if "n < 64" for n
    using assms that by (simp add: mdll_word_def event_constants bit_or_iff bit_place)
  show "field_of IdBits (mdll_word amp y x stamp) = 0"
    unfolding IdBits_def using field_of_place [of 0 1 47 "mdll_word amp y x stamp"] by (simp add: bits)
  show "field_of MdllAmplitudeBits (mdll_word amp y x stamp) = word_of_nat amp"
    unfolding MdllAmplitudeBits_def using assms by (intro field_of_place) (simp_all add: bits)
  show "field_of MdllYBits (mdll_word amp y x stamp) = word_of_nat y"
    unfolding MdllYBits_def using assms by (intro field_of_place) (simp_all add: bits)
  show "field_of MdllXBits (mdll_word amp y x stamp) = word_of_nat x"
    unfolding MdllXBits_def using assms by (intro field_of_place) (simp_all add: bits)
  show "field_of TimestampBits (mdll_word amp y x stamp) = word_of_nat stamp"
    unfolding TimestampBits_def using assms by (intro field_of_place) (simp_all add: bits)
qed

lemma trigger_fields:
  assumes "tid < 8" "src < 16" "val < 2 ^ 21" "stamp < 2 ^ 19"
  shows "field_of IdBits (trigger_word tid src val stamp) = 1"
    "field_of TriggerIdBits (trigger_word tid src val stamp) = word_of_nat tid"
    "field_of DataIdBits (trigger_word tid src val stamp) = word_of_nat src"
    "field_of DataBits (trigger_word tid src val stamp) = word_of_nat val"
    "field_of TimestampBits (trigger_word tid src val stamp) = word_of_nat stamp"
proof -
  have bits: "bit (trigger_word tid src val stamp) n \<longleftrightarrow>
      n = 47 \<or> (44 \<le> n \<and> n < 47 \<and> bit tid (n - 44)) \<or> (40 \<le> n \<and> n < 44 \<and> bit src (n - 40))
      \<or> (19 \<le> n \<and> n < 40 \<and> bit val (n - 19)) \<or> (n < 19 \<and> bit stamp n)" if "n < 64" for n
    using assms that 
    unfolding trigger_word_def bit_or_iff bit_place_id by (simp add: event_constants bit_place)
  show "field_of IdBits (trigger_word tid src val stamp) = 1"
    unfolding IdBits_def using field_of_place [of 1 1 47 "trigger_word tid src val stamp"] by (simp add: bits bit_Suc_0_iff)
  show "field_of TriggerIdBits (trigger_word tid src val stamp) = word_of_nat tid"
    unfolding TriggerIdBits_def using assms by (intro field_of_place) (simp_all add: bits)
  show "field_of DataIdBits (trigger_word tid src val stamp) = word_of_nat src"
    unfolding DataIdBits_def using assms by (intro field_of_place) (simp_all add: bits)
  show "field_of DataBits (trigger_word tid src val stamp) = word_of_nat val"
    unfolding DataBits_def using assms by (intro field_of_place) (simp_all add: bits)
  show "field_of TimestampBits (trigger_word tid src val stamp) = word_of_nat stamp"
    unfolding TimestampBits_def using assms by (intro field_of_place) (simp_all add: bits)
qed


text \<open>What a device reports, its event word and what the word is decoded to.\<close>

datatype sent = SentNeutron nat nat nat nat | SentMdll nat nat nat | SentTrigger nat nat nat

fun sent_ok :: "u16 \<Rightarrow> sent \<Rightarrow> bool" where
  "sent_ok kind (SentNeutron bus ch amp pos) \<longleftrightarrow> kind \<noteq> MdllDataBuffer \<and> bus < 8 \<and> ch < 32 \<and> amp < 1024 \<and> pos < 1024"
| "sent_ok kind (SentMdll amp y x) \<longleftrightarrow> kind = MdllDataBuffer \<and> amp < 256 \<and> y < 1024 \<and> x < 1024"
| "sent_ok kind (SentTrigger tid src val) \<longleftrightarrow> tid < 8 \<and> src < 16 \<and> val < 2 ^ 21"

fun sent_word :: "sent \<Rightarrow> nat \<Rightarrow> u64" where
  "sent_word (SentNeutron bus ch amp pos) t = neutron_word bus ch amp pos t"
| "sent_word (SentMdll amp y x) t = mdll_word amp y x t"
| "sent_word (SentTrigger tid src val) t = trigger_word tid src val t"

fun sent_data :: "sent \<Rightarrow> event_data" where
  "sent_data (SentNeutron bus ch amp pos) = Neutron (word_of_nat bus) (word_of_nat ch) (word_of_nat amp) (word_of_nat pos)"
| "sent_data (SentMdll amp y x) = MdllNeutron (word_of_nat amp) (word_of_nat x) (word_of_nat y)"
| "sent_data (SentTrigger tid src val) = Trigger (word_of_nat tid) (word_of_nat src) (word_of_nat val)"

definition decoded_sent :: "u8 \<Rightarrow> u64 \<Rightarrow> sent \<times> nat \<Rightarrow> decoded_event" where
  "decoded_sent dev_id header_time st =
     \<lparr>ev_device_id = dev_id, ev_data = sent_data (fst st), ev_packet_timestamp = header_time,
      ev_event_timestamp = word_of_nat (snd st), ev_timestamp = header_time + word_of_nat (snd st)\<rparr>"

lemma decode_sent_word:
  assumes "sent_ok kind s" and "t < 2 ^ 19"
  shows "decode_word (sent_word s t) dev_id kind header_time = decoded_sent dev_id header_time (s, t)"
proof (cases s)
  case (SentNeutron bus ch amp pos)
  with assms neutron_fields [of bus ch amp pos t] show ?thesis
    by (simp add: decode_word_def decoded_sent_def is_neutron_def ucast_word_of_nat widen_word_of_nat Let_def)
next
  case (SentMdll amp y x)
  with assms mdll_fields [of amp y x t] show ?thesis
    by (simp add: decode_word_def decoded_sent_def is_neutron_def ucast_word_of_nat widen_word_of_nat Let_def)
next
  case (SentTrigger tid src val)
  with assms trigger_fields [of tid src val t] show ?thesis
    by (simp add: decode_word_def decoded_sent_def is_neutron_def ucast_word_of_nat widen_word_of_nat Let_def)
qed


text \<open>The data of a packet with these events: three words each.\<close>

definition value_words :: "u64 \<Rightarrow> u16 list" where
  "value_words v = (case from_48bit_value v of (a, b, c) \<Rightarrow> [a, b, c])"

definition sent_words :: "(sent \<times> nat) list \<Rightarrow> u16 list" where
  "sent_words es = concat (map (\<lambda>(s, t). value_words (sent_word s t)) es)"

lemma to_from_48bit:
  assumes "\<And>n. 48 \<le> n \<Longrightarrow> \<not> bit v n"
  shows "value_of_words (value_words v @ ws) = Inr v"
proof -
  have m: "(0xFFFF :: u64) = mask 16" by (simp add: mask_eq_exp_minus_1)
  obtain a b c where abc: "from_48bit_value v = (a, b, c)" by (cases "from_48bit_value v")
  then have "a = ucast (v AND mask 16)" "b = ucast (drop_bit 16 v AND mask 16)" "c = ucast (drop_bit 32 v AND mask 16)"
    unfolding from_48bit_value_def m by auto
  then have bits: "bit a n = (n < 16 \<and> bit v n)" "bit b n = (n < 16 \<and> bit v (n + 16))" "bit c n = (n < 16 \<and> bit v (n + 32))" for n
    by (auto simp: bit_simps add.commute)
  have "to_48bit_value a b c = v"
    by (rule bit_word_eqI) (use assms in \<open>auto simp: bit_to_48bit bits\<close>)
  then show ?thesis by (simp add: value_words_def abc)
qed

lemma sent_word_bits:
  assumes "sent_ok kind s" and "t < 2 ^ 19" and "48 \<le> n"
  shows "\<not> bit (sent_word s t) n"
proof (cases s)
  case (SentTrigger tid src val)
  with assms show ?thesis
    unfolding SentTrigger sent_word.simps trigger_word_def bit_or_iff bit_place_id by (simp add: event_constants bit_place)
qed (use assms in \<open>simp_all add: neutron_word_def mdll_word_def event_constants bit_or_iff bit_place\<close>)

lemma length_value_words [simp]: "length (value_words v) = 3"
  by (simp add: value_words_def split: prod.split)

lemma drop_sent_words:
  "i < length es \<Longrightarrow> drop (i * 3) (sent_words es @ ws)
     = value_words (sent_word (fst (es ! i)) (snd (es ! i))) @ drop (i * 3 + 3) (sent_words es @ ws)"
proof (induction es arbitrary: i)
  case (Cons e es)
  obtain s t where e: "e = (s, t)" by (cases e)
  show ?case
  proof (cases i)
    case 0
    then show ?thesis by (simp add: e sent_words_def)
  next
    case (Suc j)
    with Cons.prems Cons.IH [of j] show ?thesis by (simp add: e sent_words_def add.commute)
  qed
qed simp

lemma event_word_sent:
  assumes "is_valid_data_packet rp" and "packet_ok (rp_packet rp)" and "get_event_count (rp_packet rp) = length es"
    and "dp_data (rp_packet rp) = sent_words es @ ws"
    and "list_all (\<lambda>(s, t). sent_ok (dp_buffer_type (rp_packet rp)) s \<and> t < 2 ^ 19) es" and i: "i < length es"
  shows "event_word (rp_packet rp) i = sent_word (fst (es ! i)) (snd (es ! i))"
proof -
  obtain s t where st: "es ! i = (s, t)" by (cases "es ! i")
  have ok: "sent_ok (dp_buffer_type (rp_packet rp)) s" "t < 2 ^ 19"
    using assms(5) nth_mem [OF i] st by (auto simp: list_all_iff)
  have bits: "\<not> bit (sent_word s t) n" if "48 \<le> n" for n by (rule sent_word_bits [OF ok that])
  have "get_raw_event (rp_packet rp) i = Inr (sent_word s t)"
    unfolding get_raw_event_def assms(4) drop_sent_words [OF i] st fst_conv snd_conv by (rule to_from_48bit [OF bits])
  with raw_event_ok(1) [OF assms(1,2)] i assms(3) st show ?thesis by simp
qed

text \<open>
  Events survive the way through a packet: the events that a device packs into a valid packet are
  what \<open>get_decoded_events\<close> returns, in order, each with the packet's device and time, and its full
  time stamp is the sum of both times without a wrap-around.
\<close>

lemma decoded_events:
  assumes "is_valid_data_packet rp" and "packet_ok (rp_packet rp)" and "get_event_count (rp_packet rp) = length es"
    and "dp_data (rp_packet rp) = sent_words es @ ws"
    and "list_all (\<lambda>(s, t). sent_ok (dp_buffer_type (rp_packet rp)) s \<and> t < 2 ^ 19) es"
    and "get_header_timestamp (rp_packet rp) = Inr T"
  shows "get_decoded_events (rp_packet rp) = Inr (map (decoded_sent (dp_device_id (rp_packet rp)) T) es)
    \<and> list_all (\<lambda>e. unat (ev_timestamp e) = unat T + unat (ev_event_timestamp e))
        (map (decoded_sent (dp_device_id (rp_packet rp)) T) es)"
proof
  let ?p = "rp_packet rp"
  have T: "unat T < 2 ^ 48"
    using header_values_ok(1) [OF assms(2)] assms(6) to_48bit_bound by (auto simp: word_less_nat_alt)
  have one: "decode_event ?p i = Inr (decoded_sent (dp_device_id ?p) T (es ! i))" if i: "i < length es" for i
  proof -
    obtain s t where st: "es ! i = (s, t)" by (cases "es ! i")
    have ok: "sent_ok (dp_buffer_type ?p) s" "t < 2 ^ 19"
      using assms(5) nth_mem [OF i] st by (auto simp: list_all_iff)
    have "get_event ?p i = Inr (sent_word s t)"
      using event_word_sent [OF assms(1-5) i] raw_event_ok(2) [OF assms(1,2)] i assms(3) st by simp
    then show ?thesis
      unfolding decode_event_def by (simp only: bind_res_simps assms(6) decode_sent_word [OF ok] st)
  qed
  have "get_decoded_events ?p = Inr (map (\<lambda>i. decoded_sent (dp_device_id ?p) T (es ! i)) [0..<length es])"
    unfolding get_decoded_events_def assms(3) by (rule traverse_all_ok) (simp add: one)
  also have "map (\<lambda>i. decoded_sent (dp_device_id ?p) T (es ! i)) [0..<length es] = map (decoded_sent (dp_device_id ?p) T) es"
    by (rule nth_equalityI) simp_all
  finally show "get_decoded_events ?p = Inr (map (decoded_sent (dp_device_id ?p) T) es)" .
  show "list_all (\<lambda>e. unat (ev_timestamp e) = unat T + unat (ev_event_timestamp e)) (map (decoded_sent (dp_device_id ?p) T) es)"
  proof (clarsimp simp: list_all_iff decoded_sent_def)
    fix s t assume "(s, t) \<in> set es"
    then have t: "t < 2 ^ 19" using assms(5) by (auto simp: list_all_iff)
    then have "unat (word_of_nat t :: u32) = t" "unat (word_of_nat t :: u64) = t" by (simp_all add: unat_of_nat)
    then show "unat (T + word_of_nat t) = unat T + unat (word_of_nat t :: u32)"
      using T t by (simp add: unat_word_ariths)
  qed
qed


lemma length_sent_words: "length (sent_words es) = 3 * length es"
  by (induction es) (auto simp: sent_words_def)

definition sample_packet :: "(sent \<times> nat) list \<Rightarrow> u16 \<Rightarrow> u16 \<Rightarrow> data_packet" where
  "sample_packet es kind number =
     \<lparr>dp_buffer_length = 21 + 3 * word_of_nat (length es), dp_buffer_type = kind, dp_header_length = 21,
      dp_buffer_number = number, dp_run_id = 7, dp_device_status = 1, dp_device_id = 3, dp_time = [100, 2, 0],
      dp_param = replicate 4 [1, 0, 0], dp_data = sent_words es @ replicate (715 - 3 * length es) 0\<rparr>"

definition sample_received :: "(sent \<times> nat) list \<Rightarrow> u16 \<Rightarrow> u16 \<Rightarrow> received" where
  "sample_received es kind number =
     \<lparr>rp_packet = sample_packet es kind number, rp_bytes = 42 + 6 * length es, rp_addr = 0x0A000001, rp_port = 54321\<rparr>"

lemma sample_packet_ok: "length es \<le> 238 \<Longrightarrow> packet_ok (sample_packet es kind number)"
  by (simp add: packet_ok_def sample_packet_def length_sent_words McpdParamCount_def McpdParamWords_def DataPacketMaxDataWords_def
      list_all_iff)

lemma sample_received_valid:
  assumes "length es \<le> 238"
  shows "is_valid_data_packet (sample_received es kind number)" "get_event_count (sample_packet es kind number) = length es"
proof -
  have "21 + 3 * word_of_nat (length es) = (word_of_nat (21 + 3 * length es) :: u16)" by simp
  moreover have "unat (word_of_nat (21 + 3 * length es) :: u16) = 21 + 3 * length es"
    using assms unfolding unat_of_nat by simp
  ultimately have len: "unat (21 + 3 * word_of_nat (length es) :: u16) = 21 + 3 * length es" by simp
  then have uint: "uint (21 + 3 * word_of_nat (length es) :: u16) = 21 + 3 * int (length es)"
    by (metis int_ops(7) of_nat_add of_nat_numeral uint_nat)
  show valid: "is_valid_data_packet (sample_received es kind number)"
    using assms len
    by (simp add: is_valid_data_packet_def sample_received_def sample_packet_def get_data_length_def uint word_le_nat_alt
        DataPacketHeaderWords_def DataPacketMaxDataWords_def)
  show "get_event_count (sample_packet es kind number) = length es"
    using event_count [OF valid] by (simp add: sample_received_def sample_packet_def get_data_length_def uint)
qed

text \<open>
  C28. Events survive the way through a packet.  What a device packs into a valid packet is what
  \<open>get_decoded_events\<close> returns, in order: the fields of neutron, MDLL and trigger events, the
  packet's device and header time, and the full time stamp, which is the sum of header and event
  time and never wraps around.
\<close>

theorem events_survive_packets:
  assumes "is_valid_data_packet rp" and "packet_ok (rp_packet rp)" and "get_event_count (rp_packet rp) = length es"
    and "dp_data (rp_packet rp) = sent_words es @ ws"
    and "list_all (\<lambda>(s, t). sent_ok (dp_buffer_type (rp_packet rp)) s \<and> t < 2 ^ 19) es"
    and "get_header_timestamp (rp_packet rp) = Inr T"
  shows "get_decoded_events (rp_packet rp) = Inr (map (decoded_sent (dp_device_id (rp_packet rp)) T) es)
    \<and> list_all (\<lambda>e. unat (ev_timestamp e) = unat T + unat (ev_event_timestamp e))
        (map (decoded_sent (dp_device_id (rp_packet rp)) T) es)"
  using assms by (rule decoded_events)

lemma events_survive_packets_witness:
  "get_decoded_events (sample_packet [(SentNeutron 2 5 700 300, 1000), (SentTrigger 7 1 12345, 2000)] McpdDataBuffer 9) =
     Inr (map (decoded_sent 3 (to_48bit_value 100 2 0)) [(SentNeutron 2 5 700 300, 1000), (SentTrigger 7 1 12345, 2000)])"
proof -
  let ?es = "[(SentNeutron 2 5 700 300, 1000), (SentTrigger 7 1 12345, 2000)] :: (sent \<times> nat) list"
  let ?rp = "sample_received ?es McpdDataBuffer 9"
  have rp: "rp_packet ?rp = sample_packet ?es McpdDataBuffer 9" by (simp add: sample_received_def)
  have len: "length ?es \<le> 238" by simp
  have "list_all (\<lambda>(s, t). sent_ok McpdDataBuffer s \<and> t < 2 ^ 19) ?es"
    by (simp add: McpdDataBuffer_def MdllDataBuffer_def)
  with events_survive_packets [of ?rp ?es, unfolded rp, OF sample_received_valid(1) [OF len] sample_packet_ok [OF len]
      sample_received_valid(2) [OF len]]
  show ?thesis by (simp add: sample_packet_def get_header_timestamp_def)
qed

section \<open>Listfiles\<close>

lemma word_of_word_bytes: "word_of_bytes (ucast w) (ucast (drop_bit 8 w)) = w"
  by (rule bit_word_eqI) (auto simp: word_of_bytes_def bit_simps)

lemma words_of_word_bytes: "words_of (concat (map word_bytes ws) @ bs) = ws @ words_of bs"
  by (induction ws) (simp_all add: word_bytes_def word_of_word_bytes)

lemma length_word_bytes: "length (concat (map word_bytes ws)) = 2 * length ws"
  by (induction ws) (simp_all add: word_bytes_def)

lemma chunks_concat: "list_all (\<lambda>q. length q = n) ps \<Longrightarrow> chunks n (length ps) (concat ps @ r) = ps"
  by (induction ps) auto

lemma length_concat_const: "list_all (\<lambda>q. length q = n) ps \<Longrightarrow> length (concat ps) = length ps * n"
  by (induction ps) auto

lemma length_packet_bytes: "packet_ok p \<Longrightarrow> length (packet_bytes p) = PacketBytes"
  unfolding packet_bytes_def length_append length_word_bytes
  using length_concat_const [of 3 "dp_param p"]
  by (simp add: packet_ok_def PacketBytes_def DataPacketHeaderWords_def McpdParamCount_def McpdParamWords_def)

lemma packet_of_packet_bytes:
  assumes "packet_ok p"
  shows "packet_of_bytes (packet_bytes p) = p"
proof -
  let ?five = "[dp_buffer_length p, dp_buffer_type p, dp_header_length p, dp_buffer_number p, dp_run_id p]"
  let ?rest = "dp_time p @ concat (dp_param p) @ dp_data p"
  have ws: "words_of (packet_bytes p) = ?five @ word_of_bytes (dp_device_status p) (dp_device_id p) # ?rest"
    unfolding packet_bytes_def words_of_word_bytes
    using words_of_word_bytes [of ?rest "[]"] by (simp only: append_Cons append_Nil append_Nil2 words_of.simps)
  have "packet_bytes p ! 10 = dp_device_status p" "packet_bytes p ! 11 = dp_device_id p"
    by (simp_all add: packet_bytes_def word_bytes_def)
  moreover have "length (dp_time p) = 3" "length (dp_param p) = 4" "list_all (\<lambda>q. length q = 3) (dp_param p)"
    using assms by (simp_all add: packet_ok_def McpdParamCount_def McpdParamWords_def)
  moreover from this have "length (concat (dp_param p)) = 12" by (simp add: length_concat_const)
  moreover from calculation have "chunks 3 4 (concat (dp_param p) @ dp_data p) = dp_param p"
    using chunks_concat [of 3 "dp_param p" "dp_data p"] by simp
  ultimately show ?thesis
    by (simp add: packet_of_bytes_def ws McpdParamCount_def McpdParamWords_def)
qed

definition replayed :: "data_packet \<Rightarrow> received" where
  "replayed p = \<lparr>rp_packet = p, rp_bytes = PacketBytes, rp_addr = 0, rp_port = 0\<rparr>"

lemma listfile_packets_step:
  "packet_ok p \<Longrightarrow> listfile_packets (packet_bytes p @ rest) = replayed p # listfile_packets rest"
  by (subst listfile_packets.simps)
    (simp add: listfile_read_def length_packet_bytes packet_of_packet_bytes replayed_def)

lemma listfile_packets_end: "length rest < PacketBytes \<Longrightarrow> listfile_packets rest = []"
  by (subst listfile_packets.simps) (simp add: listfile_read_def)

lemma fold_listfile_write: "fold listfile_write ps bs = bs @ concat (map packet_bytes ps)"
  by (induction ps arbitrary: bs) (simp_all add: listfile_write_def)

text \<open>
  C29. A listfile replays what was recorded.  The packets written to a listfile are read back
  bit by bit and in order, as packets of the unknown address; an incomplete record at the end,
  as a full disk or a crash leaves it, is ignored.
\<close>

theorem listfile_replays_packets:
  assumes "list_all packet_ok ps" and "length rest < PacketBytes"
  shows "listfile_packets (fold listfile_write ps [] @ rest) = map replayed ps"
  using assms unfolding fold_listfile_write
  by (induction ps) (simp_all add: listfile_packets_step listfile_packets_end)

lemma listfile_replays_packets_witness:
  "listfile_packets (fold listfile_write [sample_packet [] McpdDataBuffer 1, sample_packet [] MdllDataBuffer 2] [] @ [1, 2, 3])
     = [replayed (sample_packet [] McpdDataBuffer 1), replayed (sample_packet [] MdllDataBuffer 2)]"
  using listfile_replays_packets [of "[sample_packet [] McpdDataBuffer 1, sample_packet [] MdllDataBuffer 2]" "[1, 2, 3]"]
  by (simp add: sample_packet_ok PacketBytes_def DataPacketHeaderWords_def DataPacketMaxDataWords_def)

end
