(* ===== verification/Collectors_Facts.thy ===== *)
theory Collectors_Facts
  imports Collectors Packets_Facts
begin

text \<open>
  The histograms count exactly the neutron events of each source and agree with each other, the
  statistics count the packets that were lost, and no access leaves a packet or a vector.
\<close>

section \<open>Events of valid packets\<close>

definition valid_received :: "received \<Rightarrow> bool" where
  "valid_received rp \<longleftrightarrow> is_valid_data_packet rp \<and> packet_ok (rp_packet rp)"

definition events_of :: "data_packet \<Rightarrow> u64 list" where
  "events_of p = map (event_word p) [0..<get_event_count p]"

lemma raw_events_ok: "valid_received rp \<Longrightarrow> raw_events (rp_packet rp) = Inr (events_of (rp_packet rp))"
  unfolding raw_events_def events_of_def valid_received_def
  by (rule traverse_all_ok) (simp add: raw_event_ok)

lemma field_bound: "snd c < 64 \<Longrightarrow> unat (field_of c ev) < 2 ^ snd c"
proof -
  have "field_of c ev = take_bit (snd c) (drop_bit (fst c) ev)"
    by (simp add: field_of_def event_field_def take_bit_eq_mask)
  then show ?thesis by (simp add: unsigned_take_bit_eq)
qed

lemma field_bounds:
  "unat (field_of MdllAmplitudeBits ev) < 256" "unat (field_of MdllXBits ev) < 1024" "unat (field_of MdllYBits ev) < 1024"
  "unat (field_of MpsdIdBits ev) < 8" "unat (field_of ChannelBits ev) < 32" "unat (field_of AmplitudeBits ev) < 1024"
  "unat (field_of PositionBits ev) < 1024"
  using field_bound [of MdllAmplitudeBits ev] field_bound [of MdllXBits ev] field_bound [of MdllYBits ev]
    field_bound [of MpsdIdBits ev] field_bound [of ChannelBits ev] field_bound [of AmplitudeBits ev] field_bound [of PositionBits ev]
  by (simp_all add: event_constants)

section \<open>Counting\<close>

text \<open>Loops that count: \<open>P\<close> selects the events, \<open>ix\<close> is the bin of an event.\<close>

definition count_in :: "(u64 \<Rightarrow> bool) \<Rightarrow> (u64 \<Rightarrow> nat) \<Rightarrow> u64 list \<Rightarrow> u64 list \<Rightarrow> u64 list" where
  "count_in P ix evs v = fold (\<lambda>ev v. if P ev then v[ix ev := v ! ix ev + 1] else v) evs v"

lemma length_count_in [simp]: "length (count_in P ix evs v) = length v"
  unfolding count_in_def by (induction evs arbitrary: v) simp_all

lemma count_in_simps [simp]:
  "count_in P ix [] v = v"
  "count_in P ix (ev # evs) v = count_in P ix evs (if P ev then v[ix ev := v ! ix ev + 1] else v)"
  by (simp_all add: count_in_def)

lemma count_in_append: "count_in P ix (evs @ fs) v = count_in P ix fs (count_in P ix evs v)"
  by (simp add: count_in_def)

lemma nth_count_in:
  "j < length v \<Longrightarrow> (\<And>ev. P ev \<Longrightarrow> ix ev < length v) \<Longrightarrow>
   count_in P ix evs v ! j = v ! j + word_of_nat (length (filter (\<lambda>ev. P ev \<and> ix ev = j) evs))"
proof (induction evs arbitrary: v)
  case (Cons ev evs)
  let ?v = "if P ev then v[ix ev := v ! ix ev + 1] else v"
  have "j < length ?v" "\<And>ev. P ev \<Longrightarrow> ix ev < length ?v" using Cons.prems by auto
  from Cons.IH [OF this] Cons.prems(1) show ?case by auto
qed simp

section \<open>MDLL histograms\<close>

definition mdll_sized :: "mdll_histograms \<Rightarrow> bool" where
  "mdll_sized h \<longleftrightarrow>
     length (mh_amplitude h) = 256 \<and> length (mh_x h) = 1024 \<and> length (mh_y h) = 1024 \<and> length (mh_xy h) = 1024 * 1024"

definition mdll_amp :: "u64 \<Rightarrow> nat" where "mdll_amp ev = unat (field_of MdllAmplitudeBits ev)"
definition mdll_x :: "u64 \<Rightarrow> nat" where "mdll_x ev = unat (field_of MdllXBits ev)"
definition mdll_y :: "u64 \<Rightarrow> nat" where "mdll_y ev = unat (field_of MdllYBits ev)"
definition mdll_xy :: "u64 \<Rightarrow> nat" where "mdll_xy ev = mdll_y ev * 1024 + mdll_x ev"

definition count_mdll :: "u64 list \<Rightarrow> mdll_histograms \<Rightarrow> mdll_histograms" where
  "count_mdll evs h =
     \<lparr>mh_amplitude = count_in is_neutron mdll_amp evs (mh_amplitude h), mh_x = count_in is_neutron mdll_x evs (mh_x h),
      mh_y = count_in is_neutron mdll_y evs (mh_y h), mh_xy = count_in is_neutron mdll_xy evs (mh_xy h)\<rparr>"

lemma bump_ok: "i < length v \<Longrightarrow> bump i v = Inr (v[i := v ! i + 1])"
  by (simp add: bump_def)

lemma pair_index_bound: "x < 1024 \<Longrightarrow> y < n \<Longrightarrow> y * 1024 + x < n * 1024" for x y n :: nat
proof -
  assume "x < 1024" "y < n"
  then have "Suc y * 1024 \<le> n * 1024" by (intro mult_right_mono) simp_all
  with \<open>x < 1024\<close> show ?thesis by simp
qed

lemma mdll_indices: "mdll_amp ev < 256" "mdll_x ev < 1024" "mdll_y ev < 1024" "mdll_xy ev < 1024 * 1024"
  using field_bounds [of ev] pair_index_bound [of "mdll_x ev" "mdll_y ev" 1024]
  by (simp_all add: mdll_amp_def mdll_x_def mdll_y_def mdll_xy_def)

lemma sized_count_mdll [simp]: "mdll_sized (count_mdll evs h) = mdll_sized h"
  by (simp add: mdll_sized_def count_mdll_def)

lemma count_mdll_Nil [simp]: "count_mdll [] h = h"
  by (simp add: count_mdll_def)

lemma count_mdll_append: "count_mdll (evs @ fs) h = count_mdll fs (count_mdll evs h)"
  by (simp add: count_mdll_def count_in_append)

lemma fill_mdll_event_ok: "mdll_sized h \<Longrightarrow> fill_mdll_event ev h = Inr (count_mdll [ev] h)"
  using mdll_indices [of ev]
  by (auto simp: fill_mdll_event_def count_mdll_def mdll_sized_def bump_ok Let_def mdll_amp_def mdll_x_def mdll_y_def mdll_xy_def
      XBins_def)

lemma fill_mdll_events: "mdll_sized h \<Longrightarrow> fold_res fill_mdll_event evs h = Inr (count_mdll evs h)"
proof (induction evs arbitrary: h)
  case (Cons ev evs)
  then show ?case using count_mdll_append [of "[ev]" evs h] by (simp add: fill_mdll_event_ok)
qed simp

lemma fill_mdll_ok:
  "valid_received rp \<Longrightarrow> mdll_sized h \<Longrightarrow> fill_mdll (rp_packet rp) h = Inr (count_mdll (events_of (rp_packet rp)) h)"
  by (simp add: fill_mdll_def raw_events_ok fill_mdll_events)

lemma sized_new_mdll [simp]: "mdll_sized new_mdll_histograms"
  by (simp add: mdll_sized_def new_mdll_histograms_def MdllAmplitudeBins_def XBins_def YBins_def)

section \<open>MCPD histograms\<close>

definition mcpd_sized :: "mcpd_histograms \<Rightarrow> bool" where
  "mcpd_sized h \<longleftrightarrow> length (ch_amplitude h) = 256 * 1024 \<and> length (ch_position h) = 256 * 1024"

definition mcpd_amp :: "u64 \<Rightarrow> nat" where
  "mcpd_amp ev = bin_index (unat (field_of MpsdIdBits ev)) (unat (field_of ChannelBits ev)) (unat (field_of AmplitudeBits ev))"

definition mcpd_pos :: "u64 \<Rightarrow> nat" where
  "mcpd_pos ev = bin_index (unat (field_of MpsdIdBits ev)) (unat (field_of ChannelBits ev)) (unat (field_of PositionBits ev))"

definition count_mcpd :: "u64 list \<Rightarrow> mcpd_histograms \<Rightarrow> mcpd_histograms" where
  "count_mcpd evs h =
     \<lparr>ch_amplitude = count_in is_neutron mcpd_amp evs (ch_amplitude h),
      ch_position = count_in is_neutron mcpd_pos evs (ch_position h)\<rparr>"

lemma bin_index_bound: "b < 8 \<Longrightarrow> c < 32 \<Longrightarrow> i < 1024 \<Longrightarrow> bin_index b c i < 256 * 1024"
  using pair_index_bound [of i "b * 32 + c" 256] by (simp add: bin_index_def ChannelCount_def AmplitudeBins_def)

lemma mcpd_indices: "mcpd_amp ev < 256 * 1024" "mcpd_pos ev < 256 * 1024"
  using field_bounds [of ev] bin_index_bound by (simp_all add: mcpd_amp_def mcpd_pos_def)

lemma sized_count_mcpd [simp]: "mcpd_sized (count_mcpd evs h) = mcpd_sized h"
  by (simp add: mcpd_sized_def count_mcpd_def)

lemma count_mcpd_Nil [simp]: "count_mcpd [] h = h"
  by (simp add: count_mcpd_def)

lemma count_mcpd_append: "count_mcpd (evs @ fs) h = count_mcpd fs (count_mcpd evs h)"
  by (simp add: count_mcpd_def count_in_append)

lemma fill_mcpd_event_ok: "mcpd_sized h \<Longrightarrow> fill_mcpd_event ev h = Inr (count_mcpd [ev] h)"
  using mcpd_indices [of ev]
  by (auto simp: fill_mcpd_event_def count_mcpd_def mcpd_sized_def bump_ok Let_def mcpd_amp_def mcpd_pos_def)

lemma fill_mcpd_events: "mcpd_sized h \<Longrightarrow> fold_res fill_mcpd_event evs h = Inr (count_mcpd evs h)"
proof (induction evs arbitrary: h)
  case (Cons ev evs)
  then show ?case using count_mcpd_append [of "[ev]" evs h] by (simp add: fill_mcpd_event_ok)
qed simp

lemma fill_mcpd_ok:
  "valid_received rp \<Longrightarrow> mcpd_sized h \<Longrightarrow> fill_mcpd (rp_packet rp) h = Inr (count_mcpd (events_of (rp_packet rp)) h)"
  by (simp add: fill_mcpd_def raw_events_ok fill_mcpd_events)

lemma sized_new_mcpd [simp]: "mcpd_sized new_mcpd_histograms"
  by (simp add: mcpd_sized_def new_mcpd_histograms_def MpsdCount_def ChannelCount_def AmplitudeBins_def PositionBins_def)

section \<open>Tables\<close>

lemma map_at_const:
  "map_ordered m \<Longrightarrow> map_at d k (\<lambda>_. f (case map_find m k of Some v \<Rightarrow> v | None \<Rightarrow> d)) m = map_at d k f m"
proof (induction m)
  case (Cons q m)
  obtain k0 v where q: "q = (k0, v)" by (cases q)
  have "map_of m k = None" if "k < k0"
    using that Cons.prems q by (auto simp: map_of_eq_None_iff)
  with Cons q show ?case by (auto simp: map_find_def)
qed (simp add: map_find_def)

text \<open>A histogrammer whose \<open>fill\<close> never fails on the histograms it keeps.\<close>

lemma histogrammer_run:
  assumes fill: "\<And>rp h. valid_received rp \<Longrightarrow> sized h \<Longrightarrow> fill (rp_packet rp) h = Inr (cnt (events_of (rp_packet rp)) h)"
    and sized: "sized new" "\<And>evs h. sized h \<Longrightarrow> sized (cnt evs h)"
    and "list_all valid_received rps" and "map_ordered m" and "list_all (\<lambda>q. sized (snd q)) m"
  shows "fold_res (histogrammer_consume kind new fill) rps m =
      Inr (table.consumed new (\<lambda>rp. dp_buffer_type (rp_packet rp) = kind) source_of (\<lambda>rp. cnt (events_of (rp_packet rp))) rps m)
    \<and> list_all (\<lambda>q. sized (snd q))
        (table.consumed new (\<lambda>rp. dp_buffer_type (rp_packet rp) = kind) source_of (\<lambda>rp. cnt (events_of (rp_packet rp))) rps m)"
  using assms(4-6)
proof (induction rps arbitrary: m)
  case Nil
  then show ?case by (simp add: table.consumed_def)
next
  case (Cons rp rps)
  let ?rel = "\<lambda>rp. dp_buffer_type (rp_packet rp) = kind" and ?step = "\<lambda>rp. cnt (events_of (rp_packet rp))"
  let ?m = "if ?rel rp then map_at new (source_of rp) (?step rp) m else m"
  have cons: "table.consumed new ?rel source_of ?step (rp # rps) m = table.consumed new ?rel source_of ?step rps ?m"
    by (simp add: table.consumed_def)
  have found: "sized (case map_find m (source_of rp) of Some h \<Rightarrow> h | None \<Rightarrow> new)"
    using Cons.prems(3) sized(1) by (force simp: map_find_def list_all_iff split: option.split dest: map_of_SomeD)
  have one: "histogrammer_consume kind new fill rp m = Inr ?m"
    using Cons.prems fill [OF _ found, of rp] map_at_const [OF Cons.prems(2), of new "source_of rp" "?step rp"]
    by (simp add: histogrammer_consume_def Let_def)
  have "list_all (\<lambda>q. sized (snd q)) (map_at new k f m)" if "\<And>h. sized h \<Longrightarrow> sized (f h)" for k f
    using Cons.prems(3) that sized(1) by (induction m) auto
  then have "list_all (\<lambda>q. sized (snd q)) ?m" using Cons.prems(3) sized(2) by simp
  moreover have "map_ordered ?m" using Cons.prems(2) by (simp add: map_ordered_at)
  ultimately show ?case unfolding cons using Cons.IH [of ?m] Cons.prems(1) by (simp add: one)
qed

text \<open>The events of a source in the packets of one kind.\<close>

definition source_events :: "u16 \<Rightarrow> source_key \<Rightarrow> received list \<Rightarrow> u64 list" where
  "source_events kind k rps =
     concat (map (\<lambda>rp. events_of (rp_packet rp))
       (filter (\<lambda>rp. dp_buffer_type (rp_packet rp) = kind \<and> source_of rp = k) rps))"

lemma histogrammer_entry:
  assumes run: "\<And>evs fs h. cnt (evs @ fs) h = cnt fs (cnt evs h)" "\<And>h. cnt [] h = h"
  shows "map_find (table.consumed new (\<lambda>rp. dp_buffer_type (rp_packet rp) = kind) source_of (\<lambda>rp. cnt (events_of (rp_packet rp))) rps []) k
    = (if list_ex (\<lambda>rp. dp_buffer_type (rp_packet rp) = kind \<and> source_of rp = k) rps
       then Some (cnt (source_events kind k rps) new) else None)"
proof -
  have "fold (\<lambda>rp. cnt (events_of (rp_packet rp))) ys v = cnt (concat (map (\<lambda>rp. events_of (rp_packet rp)) ys)) v" for ys v
    by (induction ys arbitrary: v) (simp_all add: run)
  then show ?thesis
    unfolding table.look_consumed [OF map_ordered_simps(1)]
    by (auto simp: Let_def map_find_def source_events_def list_ex_iff filter_empty_conv)
qed

section \<open>What the histograms show\<close>

definition number_of :: "(u64 \<Rightarrow> bool) \<Rightarrow> u64 list \<Rightarrow> u64" where
  "number_of P evs = word_of_nat (length (filter P evs))"

lemma count_split: "(\<And>ev. ev \<in> set evs \<Longrightarrow> f ev < n) \<Longrightarrow> number_of P evs = (\<Sum>j<n. number_of (\<lambda>ev. P ev \<and> f ev = j) evs)"
  for f :: "u64 \<Rightarrow> nat"
proof (induction evs)
  case Nil
  then show ?case by (simp add: number_of_def)
next
  case (Cons ev evs)
  have add: "number_of Q (ev # evs) = (if Q ev then 1 else 0) + number_of Q evs" for Q
    by (simp add: number_of_def)
  have "(\<Sum>j<n. if P ev \<and> f ev = j then 1 else 0) = (if P ev then 1 else (0 :: u64))"
    using Cons.prems [of ev] by (cases "P ev") simp_all
  moreover have "number_of P evs = (\<Sum>j<n. number_of (\<lambda>ev. P ev \<and> f ev = j) evs)"
    using Cons.prems by (intro Cons.IH) simp
  ultimately show ?case unfolding add sum.distrib by simp
qed

lemma count_in_zero:
  "j < n \<Longrightarrow> (\<And>ev. ix ev < n) \<Longrightarrow> count_in is_neutron ix evs (replicate n 0) ! j = number_of (\<lambda>ev. is_neutron ev \<and> ix ev = j) evs"
  by (simp add: nth_count_in number_of_def)

lemma number_cong: "(\<And>ev. ev \<in> set evs \<Longrightarrow> P ev = Q ev) \<Longrightarrow> number_of P evs = number_of Q evs"
  unfolding number_of_def by (metis filter_cong)

lemma xy_bin: "x < 1024 \<Longrightarrow> mdll_xy ev = y * 1024 + x \<longleftrightarrow> mdll_y ev = y \<and> mdll_x ev = x"
proof
  assume x: "x < 1024" and "mdll_xy ev = y * 1024 + x"
  then have e: "mdll_y ev * 1024 + mdll_x ev = y * 1024 + x" by (simp add: mdll_xy_def)
  from arg_cong [OF e, of "\<lambda>n. n div 1024"] arg_cong [OF e, of "\<lambda>n. n mod 1024"] x mdll_indices(2) [of ev]
  show "mdll_y ev = y \<and> mdll_x ev = x" by simp
qed (simp add: mdll_xy_def)

lemma mdll_counts:
  fixes evs
  defines "h \<equiv> count_mdll evs new_mdll_histograms"
  assumes "x < 1024" and "y < 1024"
  shows "mh_xy h ! (y * 1024 + x) = number_of (\<lambda>ev. is_neutron ev \<and> mdll_y ev = y \<and> mdll_x ev = x) evs"
    and "mh_x h ! x = number_of (\<lambda>ev. is_neutron ev \<and> mdll_x ev = x) evs"
    and "mh_y h ! y = number_of (\<lambda>ev. is_neutron ev \<and> mdll_y ev = y) evs"
proof -
  have new: "h = \<lparr>mh_amplitude = count_in is_neutron mdll_amp evs (replicate 256 0), mh_x = count_in is_neutron mdll_x evs (replicate 1024 0),
      mh_y = count_in is_neutron mdll_y evs (replicate 1024 0), mh_xy = count_in is_neutron mdll_xy evs (replicate (1024 * 1024) 0)\<rparr>"
    by (simp add: h_def count_mdll_def new_mdll_histograms_def MdllAmplitudeBins_def XBins_def YBins_def)
  have "y * 1024 + x < 1024 * 1024" using assms by (simp add: pair_index_bound)
  then have "mh_xy h ! (y * 1024 + x) = number_of (\<lambda>ev. is_neutron ev \<and> mdll_xy ev = y * 1024 + x) evs"
    unfolding new mdll_histograms.simps by (rule count_in_zero) (rule mdll_indices)
  then show "mh_xy h ! (y * 1024 + x) = number_of (\<lambda>ev. is_neutron ev \<and> mdll_y ev = y \<and> mdll_x ev = x) evs"
    using assms(2) by (simp add: xy_bin)
  show "mh_x h ! x = number_of (\<lambda>ev. is_neutron ev \<and> mdll_x ev = x) evs"
    unfolding new mdll_histograms.simps using assms(2) mdll_indices by (intro count_in_zero)
  show "mh_y h ! y = number_of (\<lambda>ev. is_neutron ev \<and> mdll_y ev = y) evs"
    unfolding new mdll_histograms.simps using assms(3) mdll_indices by (intro count_in_zero)
qed

lemma mdll_projections:
  fixes evs
  defines "h \<equiv> count_mdll evs new_mdll_histograms"
  shows "x < 1024 \<Longrightarrow> mh_x h ! x = (\<Sum>y<1024. mh_xy h ! (y * 1024 + x))"
    and "y < 1024 \<Longrightarrow> mh_y h ! y = (\<Sum>x<1024. mh_xy h ! (y * 1024 + x))"
proof -
  assume x: "x < 1024"
  have "mh_x h ! x = number_of (\<lambda>ev. is_neutron ev \<and> mdll_x ev = x) evs"
    unfolding h_def by (rule mdll_counts(2) [OF x, of 0]) simp
  also have "\<dots> = (\<Sum>y<1024. number_of (\<lambda>ev. (is_neutron ev \<and> mdll_x ev = x) \<and> mdll_y ev = y) evs)"
    by (rule count_split) (rule mdll_indices)
  also have "\<dots> = (\<Sum>y<1024. mh_xy h ! (y * 1024 + x))"
    unfolding h_def by (intro sum.cong refl) (use x in \<open>auto simp: mdll_counts(1) intro: number_cong\<close>)
  finally show "mh_x h ! x = (\<Sum>y<1024. mh_xy h ! (y * 1024 + x))" .
next
  assume y: "y < 1024"
  have "mh_y h ! y = number_of (\<lambda>ev. is_neutron ev \<and> mdll_y ev = y) evs"
    unfolding h_def by (rule mdll_counts(3) [OF _ y, of 0]) simp
  also have "\<dots> = (\<Sum>x<1024. number_of (\<lambda>ev. (is_neutron ev \<and> mdll_y ev = y) \<and> mdll_x ev = x) evs)"
    by (rule count_split) (rule mdll_indices)
  also have "\<dots> = (\<Sum>x<1024. mh_xy h ! (y * 1024 + x))"
    unfolding h_def by (intro sum.cong refl) (use y in \<open>auto simp: mdll_counts(1) intro: number_cong\<close>)
  finally show "mh_y h ! y = (\<Sum>x<1024. mh_xy h ! (y * 1024 + x))" .
qed

lemma bin_index_inj:
  assumes "c < 32" "i < 1024" "c' < 32" "i' < 1024"
  shows "bin_index b c i = bin_index b' c' i' \<longleftrightarrow> b = b' \<and> c = c' \<and> i = i'"
proof
  assume "bin_index b c i = bin_index b' c' i'"
  then have e: "(b * 32 + c) * 1024 + i = (b' * 32 + c') * 1024 + i'"
    by (simp add: bin_index_def ChannelCount_def AmplitudeBins_def)
  from arg_cong [OF e, of "\<lambda>n. n mod 1024"] have i: "i = i'"
    unfolding mod_mult_self3 using assms by simp
  with e have bc: "b * 32 + c = b' * 32 + c'" by simp
  from arg_cong [OF bc, of "\<lambda>n. n mod 32"] have "c = c'"
    unfolding mod_mult_self3 using assms by simp
  with bc i show "b = b' \<and> c = c' \<and> i = i'" by simp
qed simp

lemma mcpd_counts:
  fixes evs
  defines "h \<equiv> count_mcpd evs new_mcpd_histograms"
  assumes "b < 8" and "c < 32" and "i < 1024"
  shows "ch_amplitude h ! bin_index b c i = number_of (\<lambda>ev. is_neutron ev \<and> unat (field_of MpsdIdBits ev) = b
      \<and> unat (field_of ChannelBits ev) = c \<and> unat (field_of AmplitudeBits ev) = i) evs"
    and "ch_position h ! bin_index b c i = number_of (\<lambda>ev. is_neutron ev \<and> unat (field_of MpsdIdBits ev) = b
      \<and> unat (field_of ChannelBits ev) = c \<and> unat (field_of PositionBits ev) = i) evs"
proof -
  have new: "h = \<lparr>ch_amplitude = count_in is_neutron mcpd_amp evs (replicate (256 * 1024) 0),
      ch_position = count_in is_neutron mcpd_pos evs (replicate (256 * 1024) 0)\<rparr>"
    by (simp add: h_def count_mcpd_def new_mcpd_histograms_def MpsdCount_def ChannelCount_def AmplitudeBins_def PositionBins_def)
  note lt = bin_index_bound [OF assms(2-4)]
  have "ch_amplitude h ! bin_index b c i = number_of (\<lambda>ev. is_neutron ev \<and> mcpd_amp ev = bin_index b c i) evs"
    unfolding new mcpd_histograms.simps by (rule count_in_zero [OF lt]) (rule mcpd_indices)
  then show "ch_amplitude h ! bin_index b c i = number_of (\<lambda>ev. is_neutron ev \<and> unat (field_of MpsdIdBits ev) = b
      \<and> unat (field_of ChannelBits ev) = c \<and> unat (field_of AmplitudeBits ev) = i) evs"
    using assms(3,4) by (simp add: mcpd_amp_def bin_index_inj field_bounds)
  have "ch_position h ! bin_index b c i = number_of (\<lambda>ev. is_neutron ev \<and> mcpd_pos ev = bin_index b c i) evs"
    unfolding new mcpd_histograms.simps by (rule count_in_zero [OF lt]) (rule mcpd_indices)
  then show "ch_position h ! bin_index b c i = number_of (\<lambda>ev. is_neutron ev \<and> unat (field_of MpsdIdBits ev) = b
      \<and> unat (field_of ChannelBits ev) = c \<and> unat (field_of PositionBits ev) = i) evs"
    using assms(3,4) by (simp add: mcpd_pos_def bin_index_inj field_bounds)
qed

lemma consume_mdll_run:
  assumes "list_all valid_received rps"
  shows "\<exists>m. fold_res consume_mdll rps [] = Inr m \<and> list_all (\<lambda>q. mdll_sized (snd q)) m
    \<and> (\<forall>k. map_find m k = (if list_ex (\<lambda>rp. dp_buffer_type (rp_packet rp) = MdllDataBuffer \<and> source_of rp = k) rps
         then Some (count_mdll (source_events MdllDataBuffer k rps) new_mdll_histograms) else None))"
  using histogrammer_run [where sized = mdll_sized and fill = fill_mdll and cnt = count_mdll and new = new_mdll_histograms
      and m = "[]" and kind = MdllDataBuffer, OF fill_mdll_ok _ _ assms]
    histogrammer_entry [where cnt = count_mdll and new = new_mdll_histograms and kind = MdllDataBuffer and rps = rps,
      OF count_mdll_append count_mdll_Nil]
  by (auto simp: consume_mdll_def)

lemma consume_mcpd_run:
  assumes "list_all valid_received rps"
  shows "\<exists>m. fold_res consume_mcpd rps [] = Inr m \<and> list_all (\<lambda>q. mcpd_sized (snd q)) m
    \<and> (\<forall>k. map_find m k = (if list_ex (\<lambda>rp. dp_buffer_type (rp_packet rp) = McpdDataBuffer \<and> source_of rp = k) rps
         then Some (count_mcpd (source_events McpdDataBuffer k rps) new_mcpd_histograms) else None))"
  using histogrammer_run [where sized = mcpd_sized and fill = fill_mcpd and cnt = count_mcpd and new = new_mcpd_histograms
      and m = "[]" and kind = McpdDataBuffer, OF fill_mcpd_ok _ _ assms]
    histogrammer_entry [where cnt = count_mcpd and new = new_mcpd_histograms and kind = McpdDataBuffer and rps = rps,
      OF count_mcpd_append count_mcpd_Nil]
  by (auto simp: consume_mcpd_def)


definition sample_mdll :: received where
  "sample_mdll = sample_received [(SentMdll 5 3 2, 40), (SentTrigger 1 0 9, 50), (SentMdll 6 3 2, 60)] MdllDataBuffer 1"

lemma events_of_sample:
  assumes "length es \<le> 238" and "list_all (\<lambda>(s, t). sent_ok kind s \<and> t < 2 ^ 19) es"
  shows "events_of (sample_packet es kind number) = map (\<lambda>(s, t). sent_word s t) es"
proof -
  let ?rp = "sample_received es kind number"
  have rp: "rp_packet ?rp = sample_packet es kind number" by (simp add: sample_received_def)
  have "event_word (sample_packet es kind number) i = sent_word (fst (es ! i)) (snd (es ! i))" if "i < length es" for i
    using event_word_sent [of ?rp es, unfolded rp, OF sample_received_valid(1) [OF assms(1)] sample_packet_ok [OF assms(1)]
        sample_received_valid(2) [OF assms(1)], of "replicate (715 - 3 * length es) 0" i] assms(2) that
    by (simp add: sample_packet_def)
  then show ?thesis
    unfolding events_of_def sample_received_valid(2) [OF assms(1)]
    by (intro nth_equalityI) (simp_all add: case_prod_unfold)
qed

lemma sample_valid: "length es \<le> 238 \<Longrightarrow> valid_received (sample_received es kind number)"
  by (simp add: valid_received_def sample_received_valid sample_packet_ok)
    (simp add: sample_received_def sample_packet_ok)


text \<open>
  C31. The MCPD histograms count exactly the neutrons: for every source, bus, channel and bin, the
  amplitude and position counts are the numbers of neutron events with these values in its packets
  (modulo \<open>2^64\<close>), whatever valid packets of any kind and source arrive.
\<close>

theorem mcpd_histograms_exact:
  assumes "list_all valid_received rps"
  shows "\<exists>m. fold_res consume_mcpd rps [] = Inr m \<and> (\<forall>k. case map_find m k of
      None \<Rightarrow> \<not> list_ex (\<lambda>rp. dp_buffer_type (rp_packet rp) = McpdDataBuffer \<and> source_of rp = k) rps
    | Some h \<Rightarrow> mcpd_sized h \<and> (\<forall>bus ch bin. bus < 8 \<longrightarrow> ch < 32 \<longrightarrow> bin < 1024 \<longrightarrow>
          ch_amplitude h ! bin_index bus ch bin =
            number_of (\<lambda>ev. is_neutron ev \<and> unat (field_of MpsdIdBits ev) = bus \<and> unat (field_of ChannelBits ev) = ch
                \<and> unat (field_of AmplitudeBits ev) = bin) (source_events McpdDataBuffer k rps)
          \<and> ch_position h ! bin_index bus ch bin =
            number_of (\<lambda>ev. is_neutron ev \<and> unat (field_of MpsdIdBits ev) = bus \<and> unat (field_of ChannelBits ev) = ch
                \<and> unat (field_of PositionBits ev) = bin) (source_events McpdDataBuffer k rps)))"
proof -
  from consume_mcpd_run [OF assms] obtain m where m: "fold_res consume_mcpd rps [] = Inr m"
    "\<And>k. map_find m k = (if list_ex (\<lambda>rp. dp_buffer_type (rp_packet rp) = McpdDataBuffer \<and> source_of rp = k) rps
       then Some (count_mcpd (source_events McpdDataBuffer k rps) new_mcpd_histograms) else None)" by blast
  then show ?thesis
    by (intro exI [of _ m]) (auto simp: mcpd_counts)
qed

definition sample_mcpd :: received where
  "sample_mcpd = sample_received [(SentNeutron 2 7 500 600, 40), (SentTrigger 1 0 9, 50), (SentNeutron 2 7 500 601, 60)] McpdDataBuffer 1"

lemma mcpd_histograms_exact_witness:
  "\<exists>m h. fold_res consume_mcpd [sample_mcpd] [] = Inr m \<and> map_find m (0x0A000001, 3) = Some h
     \<and> ch_amplitude h ! bin_index 2 7 500 = 2"
proof -
  let ?es = "[(SentNeutron 2 7 500 600, 40), (SentTrigger 1 0 9, 50), (SentNeutron 2 7 500 601, 60)] :: (sent \<times> nat) list"
  have valid: "list_all valid_received [sample_mcpd]" by (simp add: sample_mcpd_def sample_valid)
  have ok: "list_all (\<lambda>(s, t). sent_ok McpdDataBuffer s \<and> t < 2 ^ 19) ?es" by (simp add: MdllDataBuffer_def McpdDataBuffer_def)
  have evs: "events_of (rp_packet sample_mcpd) = [neutron_word 2 7 500 600 40, trigger_word 1 0 9 50, neutron_word 2 7 500 601 60]"
    using events_of_sample [OF _ ok, of 1] by (simp add: sample_mcpd_def sample_received_def)
  have src: "source_of sample_mcpd = (0x0A000001, 3)" "dp_buffer_type (rp_packet sample_mcpd) = McpdDataBuffer"
    by (simp_all add: sample_mcpd_def sample_received_def sample_packet_def source_of_def)
  have fields: "is_neutron (neutron_word 2 7 500 p t)" "unat (field_of MpsdIdBits (neutron_word 2 7 500 p t)) = 2"
    "unat (field_of ChannelBits (neutron_word 2 7 500 p t)) = 7" "unat (field_of AmplitudeBits (neutron_word 2 7 500 p t)) = 500"
    if "p < 1024" "t < 2 ^ 19" for p t
    using that neutron_fields [of 2 7 500 p t] by (simp_all add: is_neutron_def)
  have trigger: "\<not> is_neutron (trigger_word (Suc 0) 0 9 50)" using trigger_fields [of "Suc 0" 0 9 50] by (simp add: is_neutron_def)
  have n: "number_of (\<lambda>ev. is_neutron ev \<and> unat (field_of MpsdIdBits ev) = 2 \<and> unat (field_of ChannelBits ev) = 7
      \<and> unat (field_of AmplitudeBits ev) = 500) (source_events McpdDataBuffer (0x0A000001, 3) [sample_mcpd]) = 2"
    by (simp add: source_events_def src evs number_of_def fields trigger)
  obtain m where m: "fold_res consume_mcpd [sample_mcpd] [] = Inr m"
      and all: "case map_find m (0x0A000001, 3) of
      None \<Rightarrow> \<not> list_ex (\<lambda>rp. dp_buffer_type (rp_packet rp) = McpdDataBuffer \<and> source_of rp = (0x0A000001, 3)) [sample_mcpd]
    | Some h \<Rightarrow> mcpd_sized h \<and> (\<forall>bus ch bin. bus < 8 \<longrightarrow> ch < 32 \<longrightarrow> bin < 1024 \<longrightarrow>
          ch_amplitude h ! bin_index bus ch bin =
            number_of (\<lambda>ev. is_neutron ev \<and> unat (field_of MpsdIdBits ev) = bus \<and> unat (field_of ChannelBits ev) = ch
                \<and> unat (field_of AmplitudeBits ev) = bin) (source_events McpdDataBuffer (0x0A000001, 3) [sample_mcpd])
          \<and> ch_position h ! bin_index bus ch bin =
            number_of (\<lambda>ev. is_neutron ev \<and> unat (field_of MpsdIdBits ev) = bus \<and> unat (field_of ChannelBits ev) = ch
                \<and> unat (field_of PositionBits ev) = bin) (source_events McpdDataBuffer (0x0A000001, 3) [sample_mcpd]))"
    using mcpd_histograms_exact [OF valid] by blast
  then obtain h where h: "map_find m (0x0A000001, 3) = Some h"
    by (cases "map_find m (0x0A000001, 3)") (simp_all add: src)
  with all n have "ch_amplitude h ! bin_index 2 7 500 = 2" by simp
  with m h show ?thesis by blast
qed

section \<open>Source statistics\<close>

definition counted_events :: "data_packet \<Rightarrow> u64 list" where
  "counted_events p = (if is_data p then events_of p else [])"

definition stat_step :: "received \<Rightarrow> source_counts \<Rightarrow> source_counts" where
  "stat_step rp = (\<lambda>st.
     let p = rp_packet rp; evs = counted_events p in
      count_packet rp (length evs) (length (filter (\<lambda>ev. \<not> is_neutron ev) evs))
        (to_48bit_value (dp_time p ! 0) (dp_time p ! 1) (dp_time p ! 2))
        (map (\<lambda>q. to_48bit_value (q ! 0) (q ! 1) (q ! 2)) (dp_param p))
        (track_buffer_number (dp_buffer_number p) st))"

lemma consume_stats_ok: "valid_received rp \<Longrightarrow> consume_stats rp m = Inr (map_at no_counts (source_of rp) (stat_step rp) m)"
  using header_values_ok [of "rp_packet rp"]
  by (simp add: consume_stats_def stat_step_def counted_events_def raw_events_ok valid_received_def Let_def fun_eq_iff)

lemma consume_stats_run:
  "list_all valid_received rps \<Longrightarrow>
   fold_res consume_stats rps m = Inr (table.consumed no_counts (\<lambda>_. True) source_of stat_step rps m)"
  by (induction rps arbitrary: m) (simp_all add: consume_stats_ok table.consumed_def)

lemma stat_step_simps [simp]:
  "sc_packets (stat_step rp st) = sc_packets st + 1"
  "sc_bytes (stat_step rp st) = sc_bytes st + word_of_nat (rp_bytes rp)"
  "sc_events (stat_step rp st) = sc_events st + word_of_nat (length (counted_events (rp_packet rp)))"
  "sc_neutron_events (stat_step rp st) = sc_neutron_events st + number_of is_neutron (counted_events (rp_packet rp))"
  "sc_trigger_events (stat_step rp st) = sc_trigger_events st + number_of (\<lambda>ev. \<not> is_neutron ev) (counted_events (rp_packet rp))"
  "sc_last_buffer_number (stat_step rp st) = dp_buffer_number (rp_packet rp)"
  "sc_have_buffer_number (stat_step rp st)"
  "sc_packets_lost (stat_step rp st) = sc_packets_lost (track_buffer_number (dp_buffer_number (rp_packet rp)) st)"
  "sc_buffer_number_jumps (stat_step rp st) = sc_buffer_number_jumps (track_buffer_number (dp_buffer_number (rp_packet rp)) st)"
proof -
  have keep: "sc_packets (track_buffer_number n st) = sc_packets st" "sc_bytes (track_buffer_number n st) = sc_bytes st"
    "sc_events (track_buffer_number n st) = sc_events st" "sc_neutron_events (track_buffer_number n st) = sc_neutron_events st"
    "sc_trigger_events (track_buffer_number n st) = sc_trigger_events st" for n
    by (auto simp: track_buffer_number_def split: option.split)
  have "word_of_nat (length evs) - word_of_nat (length (filter (\<lambda>ev. \<not> is_neutron ev) evs)) = number_of is_neutron evs" for evs
    using sum_length_filter_compl [of is_neutron evs] unfolding number_of_def
    by (metis add_diff_cancel_right' of_nat_add)
  then show
    "sc_packets (stat_step rp st) = sc_packets st + 1"
    "sc_bytes (stat_step rp st) = sc_bytes st + word_of_nat (rp_bytes rp)"
    "sc_events (stat_step rp st) = sc_events st + word_of_nat (length (counted_events (rp_packet rp)))"
    "sc_neutron_events (stat_step rp st) = sc_neutron_events st + number_of is_neutron (counted_events (rp_packet rp))"
    "sc_trigger_events (stat_step rp st) = sc_trigger_events st + number_of (\<lambda>ev. \<not> is_neutron ev) (counted_events (rp_packet rp))"
    "sc_last_buffer_number (stat_step rp st) = dp_buffer_number (rp_packet rp)"
    "sc_have_buffer_number (stat_step rp st)"
    "sc_packets_lost (stat_step rp st) = sc_packets_lost (track_buffer_number (dp_buffer_number (rp_packet rp)) st)"
    "sc_buffer_number_jumps (stat_step rp st) = sc_buffer_number_jumps (track_buffer_number (dp_buffer_number (rp_packet rp)) st)"
    by (simp_all add: stat_step_def count_packet_def Let_def keep number_of_def)
qed

text \<open>Consecutive numbers of one source: \<open>b - a - 1\<close> packets are missing between them.\<close>

lemma gap_of_numbers:
  "a < b \<Longrightarrow> b - a < 0x8000 \<Longrightarrow> buffer_number_gap (word_of_nat a) (word_of_nat b) = Some (word_of_nat (b - a - 1))"
proof -
  assume ab: "a < b" "b - a < 0x8000"
  have d: "word_of_nat b - word_of_nat a = (word_of_nat (b - a) :: u16)" using ab(1) by (simp add: of_nat_diff)
  have u: "unat (word_of_nat (b - a) :: u16) = b - a" using ab(2) by (simp add: unat_of_nat)
  have "(word_of_nat (b - a) :: u16) \<noteq> 0" using u ab(1) by (metis unat_0 zero_less_diff less_irrefl)
  moreover have "\<not> 0x8000 \<le> (word_of_nat (b - a) :: u16)" using u ab(2) by (simp add: word_le_nat_alt)
  moreover have "word_of_nat (b - a) - 1 = (word_of_nat (b - a - 1) :: u16)"
    using ab(1) of_nat_diff [of 1 "b - a", where ?'a = u16] by simp
  ultimately show ?thesis by (simp only: buffer_number_gap_def d Let_def if_False disj_not1 simp_thms)
qed

definition numbered :: "nat list \<Rightarrow> bool" where
  "numbered ns \<longleftrightarrow> successively (\<lambda>a b. a < b \<and> b - a < 0x8000) ns"

lemma numbered_simps [simp]:
  "numbered [a]" "numbered (a # b # ns) \<longleftrightarrow> a < b \<and> b - a < 0x8000 \<and> numbered (b # ns)"
  by (simp_all add: numbered_def conj_assoc)

lemma numbered_span: "numbered (n # ns) \<Longrightarrow> n + length ns \<le> last (n # ns)"
  by (induction ns arbitrary: n) (auto split: if_splits, force)

lemma lost_fold:
  "map (\<lambda>rp. dp_buffer_number (rp_packet rp)) ys = map word_of_nat ns \<Longrightarrow> numbered (n # ns) \<Longrightarrow>
   sc_have_buffer_number st \<Longrightarrow> sc_last_buffer_number st = word_of_nat n \<Longrightarrow>
   sc_packets_lost (fold stat_step ys st) = sc_packets_lost st + word_of_nat (last (n # ns) - n - length ns)
   \<and> sc_buffer_number_jumps (fold stat_step ys st) = sc_buffer_number_jumps st"
proof (induction ns arbitrary: n ys st)
  case (Cons b ns)
  obtain rp zs where ys: "ys = rp # zs" "dp_buffer_number (rp_packet rp) = word_of_nat b"
      "map (\<lambda>rp. dp_buffer_number (rp_packet rp)) zs = map word_of_nat ns"
    using Cons.prems(1) by (cases ys) auto
  have nb: "n < b" "b - n < 0x8000" "numbered (b # ns)" using Cons.prems(2) by auto
  note IH = Cons.IH [OF ys(3) nb(3), of "stat_step rp st"]
  have track: "track_buffer_number (word_of_nat b) st = st\<lparr>sc_packets_lost := sc_packets_lost st + word_of_nat (b - n - 1)\<rparr>"
  proof -
    have "b - n - 1 < 2 ^ 16" using nb(2) by simp
    from bit_nat_bound [OF this] have "ucast (word_of_nat (b - n - 1) :: u16) = (word_of_nat (b - n - 1) :: u64)"
      by (intro bit_word_eqI) (auto simp: bit_simps)
    then show ?thesis using Cons.prems(3,4) gap_of_numbers [OF nb(1,2)] by (simp add: track_buffer_number_def)
  qed
  have "word_of_nat (b - n - 1) + word_of_nat (last (b # ns) - b - length ns)
      = (word_of_nat (last (n # b # ns) - n - length (b # ns)) :: u64)"
    unfolding of_nat_add [symmetric] using nb(1) numbered_span [OF nb(3)] by (intro arg_cong [where f = word_of_nat]) auto
  with IH show ?case by (simp add: ys(1,2) track add.assoc)
qed simp

text \<open>
  C32. Lost packets are counted: when the valid packets of a source carry the numbers \<open>n # ns\<close> of an increasing
  sequence (16 bits of each in the header, gaps below \<open>0x8000\<close>), whatever other sources send in between, its
  statistics count every packet received, exactly the numbers missing as lost, and no jump.
\<close>

theorem lost_packets_counted:
  assumes "list_all valid_received rps" and "numbered (n # ns)"
    and "map (\<lambda>rp. dp_buffer_number (rp_packet rp)) (filter (\<lambda>rp. source_of rp = k) rps) = map word_of_nat (n # ns)"
  shows "\<exists>m st. fold_res consume_stats rps [] = Inr m \<and> map_find m k = Some st
     \<and> sc_packets st = word_of_nat (length (n # ns)) \<and> sc_packets_lost st = word_of_nat (last (n # ns) + 1 - n - length (n # ns))
     \<and> sc_buffer_number_jumps st = 0"
proof -
  let ?m = "table.consumed no_counts (\<lambda>_. True) source_of stat_step rps []"
  obtain rp ys where ys: "filter (\<lambda>rp. source_of rp = k) rps = rp # ys" "dp_buffer_number (rp_packet rp) = word_of_nat n"
      "map (\<lambda>rp. dp_buffer_number (rp_packet rp)) ys = map word_of_nat ns"
    using assms(3) by auto
  have find: "map_find ?m k = Some (fold stat_step ys (stat_step rp no_counts))"
    using table.look_consumed [OF map_ordered_simps(1), of no_counts "\<lambda>_. True" source_of stat_step rps k]
    by (simp add: ys(1)) (simp add: map_find_def)
  have packets: "sc_packets (fold stat_step zs st) = sc_packets st + word_of_nat (length zs)" for zs st
    by (induction zs arbitrary: st) simp_all
  have first: "sc_packets_lost (stat_step rp no_counts) = 0" "sc_buffer_number_jumps (stat_step rp no_counts) = 0"
    "sc_packets (stat_step rp no_counts) = 1"
    by (simp_all add: track_buffer_number_def no_counts_def)
  have "length ys = length ns" using arg_cong [OF ys(3), of length] by simp
  with find packets [of ys "stat_step rp no_counts"] first
    lost_fold [OF ys(3) assms(2), of "stat_step rp no_counts"] ys(2)
  show ?thesis by (intro exI [of _ ?m] exI [of _ "fold stat_step ys (stat_step rp no_counts)"])
      (simp add: consume_stats_run [OF assms(1)])
qed

lemma lost_packets_counted_witness:
  "\<exists>m st. fold_res consume_stats [sample_received [] McpdDataBuffer 65535, sample_received [] McpdDataBuffer 2] [] = Inr m
     \<and> map_find m (0x0A000001, 3) = Some st \<and> sc_packets_lost st = 2"
proof -
  let ?rps = "[sample_received [] McpdDataBuffer 65535, sample_received [] McpdDataBuffer 2]"
  have src: "source_of (sample_received [] McpdDataBuffer i) = (0x0A000001, 3)" "dp_buffer_number (rp_packet (sample_received [] McpdDataBuffer i)) = i" for i
    by (simp_all add: sample_received_def sample_packet_def source_of_def)
  have "list_all valid_received ?rps" by (simp add: sample_valid)
  moreover have "map (\<lambda>rp. dp_buffer_number (rp_packet rp)) (filter (\<lambda>rp. source_of rp = (0x0A000001, 3)) ?rps)
      = map word_of_nat [65535, 65538]" by (simp add: src)
  ultimately show ?thesis using lost_packets_counted [of ?rps 65535 "[65538]" "(0x0A000001, 3)"] by auto
qed

end
