(* ===== verification/Readout_Loop.thy ===== *)
theory Readout_Loop
  imports Collectors_Facts Main_Window_Facts
begin

text \<open>
  The loop of the readout thread (\<open>ReadoutWorker::loop\<close>, \<open>src/mesytec-mcpd/readout_worker.cc\<close>)
  over what its packet source and its listfile answer, what the bindings
  (\<open>mesytec_mcpd_py.cc\<close>) make of its counts, and that the loop does what the readout control
  of the theory Daq lets its thread do.
\<close>

section \<open>The loop\<close>

text \<open>
  One round of the loop: the flag \<open>quit_\<close> is seen, \<open>source_->read\<close> times out, ends, fails or
  delivers a packet, with the exception of writing it to the listfile, if any.
\<close>

datatype reading = QuitSeen | NothingRead | NoMoreData | SourceFailed exc | Incoming received "exc option"

record loop_counters =
  lc_packets :: u64
  lc_bytes :: u64
  lc_timeouts :: u64
  lc_invalid_packets :: u64
  lc_listfile_bytes :: u64

text \<open>\<open>ls_written\<close> is \<open>bytesWritten\<close> of the listfile, \<open>None\<close> without one.\<close>

record loop_state =
  ls_running :: bool
  ls_exception :: "exc option"
  ls_counters :: loop_counters
  ls_written :: "u64 option"
  ls_stats :: "(source_key \<times> source_counts) list"
  ls_mdll :: "(source_key \<times> mdll_histograms) list"
  ls_mcpd :: "(source_key \<times> mcpd_histograms) list"

text \<open>\<open>catch\<close> and the end of the loop\<close>

definition loop_failed :: "exc \<Rightarrow> loop_state \<Rightarrow> loop_state" where
  "loop_failed e s = s\<lparr>ls_running := False, ls_exception := Some e\<rparr>"

definition count_timeout :: "loop_counters \<Rightarrow> loop_counters" where
  "count_timeout c = c\<lparr>lc_timeouts := lc_timeouts c + 1\<rparr>"

definition count_read :: "received \<Rightarrow> u64 option \<Rightarrow> loop_counters \<Rightarrow> loop_counters" where
  "count_read rp written c =
     c\<lparr>lc_packets := lc_packets c + 1, lc_bytes := lc_bytes c + word_of_nat (rp_bytes rp),
       lc_listfile_bytes := (case written of None \<Rightarrow> 0 | Some n \<Rightarrow> n),
       lc_invalid_packets := lc_invalid_packets c + (if is_valid_data_packet rp then 0 else 1)\<rparr>"

text \<open>The loop over \<open>consumers_\<close>, in the order of \<open>Daq::startWorker\<close>\<close>

definition loop_consume :: "received \<Rightarrow> loop_state \<Rightarrow> loop_state" where
  "loop_consume rp s =
     (case consume_stats rp (ls_stats s) of
        Inl e \<Rightarrow> loop_failed e s
      | Inr st \<Rightarrow>
          let s = s\<lparr>ls_stats := st\<rparr> in
          case consume_mdll rp (ls_mdll s) of
            Inl e \<Rightarrow> loop_failed e s
          | Inr ml \<Rightarrow>
              let s = s\<lparr>ls_mdll := ml\<rparr> in
              case consume_mcpd rp (ls_mcpd s) of
                Inl e \<Rightarrow> loop_failed e s
              | Inr mc \<Rightarrow> s\<lparr>ls_mcpd := mc\<rparr>)"

fun loop_step :: "reading \<Rightarrow> loop_state \<Rightarrow> loop_state" where
  "loop_step rd s =
     (if \<not> ls_running s then s
      else
        (case rd of
           QuitSeen \<Rightarrow> s\<lparr>ls_running := False\<rparr>
         | NoMoreData \<Rightarrow> s\<lparr>ls_running := False\<rparr>
         | NothingRead \<Rightarrow> s\<lparr>ls_counters := count_timeout (ls_counters s)\<rparr>
         | SourceFailed e \<Rightarrow> loop_failed e s
         | Incoming rp wr \<Rightarrow>
             (case (if ls_written s = None then None else wr) of
                Some e \<Rightarrow> loop_failed e s
              | None \<Rightarrow>
                  let s = s\<lparr>ls_written := map_option (\<lambda>n. n + word_of_nat PacketBytes) (ls_written s)\<rparr>;
                      s = s\<lparr>ls_counters := count_read rp (ls_written s) (ls_counters s)\<rparr> in
                  if is_valid_data_packet rp then loop_consume rp s else s)))"

definition loop_run :: "reading list \<Rightarrow> loop_state \<Rightarrow> loop_state" where
  "loop_run rds s = fold loop_step rds s"

definition new_loop_counters :: loop_counters where
  "new_loop_counters = \<lparr>lc_packets = 0, lc_bytes = 0, lc_timeouts = 0, lc_invalid_packets = 0, lc_listfile_bytes = 0\<rparr>"

section \<open>What Python sees\<close>

text \<open>\<open>to_array\<close>: the array of a shape over the counts of a vector.\<close>

fun to_array :: "nat list \<Rightarrow> u64 list \<Rightarrow> ndarray" where
  "to_array (n # m # ns) v = Arrays (map (to_array (m # ns)) (chunks (prod_list (m # ns)) n v))"
| "to_array ns v = Scalars (map uint v)"

definition counters_view :: "loop_counters \<Rightarrow> worker_counters" where
  "counters_view c =
     \<lparr>rc_packets = uint (lc_packets c), rc_bytes = uint (lc_bytes c), rc_timeouts = uint (lc_timeouts c),
      rc_invalid_packets = uint (lc_invalid_packets c), rc_listfile_bytes = uint (lc_listfile_bytes c)\<rparr>"

definition key_view :: "source_key \<Rightarrow> device_key" where
  "key_view k = (uint (fst k), uint (snd k))"

definition stats_view :: "source_counts \<Rightarrow> source_stats" where
  "stats_view st =
     \<lparr>buffer_type = uint (sc_buffer_type st), packets = uint (sc_packets st), bytes = uint (sc_bytes st),
      events = uint (sc_events st), neutron_events = uint (sc_neutron_events st), trigger_events = uint (sc_trigger_events st),
      packets_lost = uint (sc_packets_lost st), buffer_number_jumps = uint (sc_buffer_number_jumps st),
      last_buffer_number = uint (sc_last_buffer_number st), last_device_status = uint (sc_last_device_status st),
      last_run_id = uint (sc_last_run_id st)\<rparr>"

definition mdll_view :: "mdll_histograms \<Rightarrow> histograms" where
  "mdll_view h =
     [(''amplitude'', to_array [MdllAmplitudeBins] (mh_amplitude h)), (''x'', to_array [XBins] (mh_x h)),
      (''y'', to_array [YBins] (mh_y h)), (''xy'', to_array [YBins, XBins] (mh_xy h))]"

definition mcpd_view :: "mcpd_histograms \<Rightarrow> histograms" where
  "mcpd_view h =
     [(''amplitude'', to_array [MpsdCount, ChannelCount, AmplitudeBins] (ch_amplitude h)),
      (''position'', to_array [MpsdCount, ChannelCount, PositionBins] (ch_position h))]"

definition table_view :: "('a \<Rightarrow> 'b) \<Rightarrow> (source_key \<times> 'a) list \<Rightarrow> (device_key, 'b) dict" where
  "table_view f m = map (\<lambda>(k, v). (key_view k, f v)) m"

text \<open>The readout control \<open>d\<close> with the worker whose loop has the state \<open>s\<close>\<close>

definition worker_view :: "string \<Rightarrow> loop_state \<Rightarrow> readout_worker" where
  "worker_view listfile s =
     \<lparr>rw_running = ls_running s, rw_exception = ls_exception s, rw_counters = counters_view (ls_counters s),
      rw_listfile = listfile\<rparr>"

definition daq_view :: "daq \<Rightarrow> string \<Rightarrow> loop_state \<Rightarrow> daq" where
  "daq_view d listfile s =
     d\<lparr>daq_worker := Some (worker_view listfile s), daq_stats := table_view stats_view (ls_stats s),
       mdll_histos := table_view mdll_view (ls_mdll s), mcpd_histos := table_view mcpd_view (ls_mcpd s)\<rparr>"

text \<open>\<open>Daq::startWorker\<close>: a new worker, with the statistics and histograms of the runs before\<close>

definition worker_started :: "string \<Rightarrow> loop_state \<Rightarrow> loop_state" where
  "worker_started listfile s =
     s\<lparr>ls_running := True, ls_exception := None, ls_counters := new_loop_counters,
       ls_written := (if listfile = [] then None else Some 0)\<rparr>"

definition sources_cleared :: "loop_state \<Rightarrow> loop_state" where
  "sources_cleared s = s\<lparr>ls_stats := [], ls_mdll := [], ls_mcpd := []\<rparr>"

definition histograms_cleared :: "loop_state \<Rightarrow> loop_state" where
  "histograms_cleared s = s\<lparr>ls_mdll := histogrammer_clear clear_mdll (ls_mdll s), ls_mcpd := histogrammer_clear clear_mcpd (ls_mcpd s)\<rparr>"

definition stats_cleared :: "loop_state \<Rightarrow> loop_state" where
  "stats_cleared s = s\<lparr>ls_stats := stats_reset (ls_stats s)\<rparr>"

section \<open>Shapes\<close>

lemma length_chunks [simp]: "length (chunks n k xs) = k"
  by (induction k arbitrary: xs) auto

lemma chunks_lengths: "length xs = k * n \<Longrightarrow> ys \<in> set (chunks n k xs) \<Longrightarrow> length ys = n"
proof (induction k arbitrary: xs)
  case (Suc k)
  then show ?case using Suc.IH [of "drop n xs"] by auto
qed simp

lemma shape_to_array: "ns \<noteq> [] \<Longrightarrow> length v = prod_list ns \<Longrightarrow> has_shape ns (to_array ns v)"
proof (induction ns v rule: to_array.induct)
  case (1 n m ns v)
  have "has_shape (m # ns) (to_array (m # ns) w)" if "w \<in> set (chunks (prod_list (m # ns)) n v)" for w
    using that chunks_lengths [OF _ that] 1 by simp
  then show ?case by (simp add: list_all_iff)
qed simp_all

lemma zero_to_array: "zero_array (to_array ns v) = to_array ns (zero_bins v)"
proof (induction ns v rule: to_array.induct)
  case (1 n m ns v)
  have "chunks l k (zero_bins w) = map zero_bins (chunks l k w)" for l k w
    by (induction k arbitrary: w) (simp_all add: zero_bins_def take_map drop_map)
  with 1 show ?case by simp
qed (simp_all add: zero_bins_def)

lemma good_mdll_view: "mdll_sized h \<Longrightarrow> good_histos ''mdll'' (mdll_view h)"
  using shape_to_array [of "[MdllAmplitudeBins]" "mh_amplitude h"] shape_to_array [of "[XBins]" "mh_x h"]
    shape_to_array [of "[YBins]" "mh_y h"] shape_to_array [of "[YBins, XBins]" "mh_xy h"]
    dims_shape [of YBins "[XBins]" "to_array [YBins, XBins] (mh_xy h)"]
  by (simp add: good_histos_def mdll_view_def one_dim_def two_dim_def mdll_sized_def MdllAmplitudeBins_def XBins_def YBins_def)

lemma good_mcpd_view: "mcpd_sized h \<Longrightarrow> good_histos ''mcpd'' (mcpd_view h)"
proof -
  assume "mcpd_sized h"
  then have "has_shape [McpdBusCount, 32, 1024] (to_array [MpsdCount, ChannelCount, AmplitudeBins] (ch_amplitude h))"
    "has_shape [McpdBusCount, 32, 1024] (to_array [MpsdCount, ChannelCount, PositionBins] (ch_position h))"
    using shape_to_array [of "[MpsdCount, ChannelCount, AmplitudeBins]" "ch_amplitude h"]
      shape_to_array [of "[MpsdCount, ChannelCount, PositionBins]" "ch_position h"]
    by (simp_all add: mcpd_sized_def MpsdCount_def ChannelCount_def AmplitudeBins_def PositionBins_def McpdBusCount_def
        del: to_array.simps has_shape.simps)
  moreover have "mcpd_histo a" if "has_shape [McpdBusCount, 32, 1024] a" for a
    unfolding mcpd_histo_iff
    by (rule exI [of _ 32], rule exI [of _ 1024]) (use that in \<open>simp add: MpsdChannelCount_def del: has_shape.simps\<close>)
  ultimately show ?thesis by (simp add: good_histos_def mcpd_view_def del: to_array.simps)
qed

section \<open>The loop refines the readout control\<close>

definition reading_ok :: "reading \<Rightarrow> bool" where
  "reading_ok rd = (case rd of Incoming rp wr \<Rightarrow> packet_ok (rp_packet rp) | _ \<Rightarrow> True)"

definition tables_ok :: "loop_state \<Rightarrow> bool" where
  "tables_ok s \<longleftrightarrow> map_ordered (ls_stats s) \<and> map_ordered (ls_mdll s) \<and> map_ordered (ls_mcpd s)
     \<and> list_all (\<lambda>q. mdll_sized (snd q)) (ls_mdll s) \<and> list_all (\<lambda>q. mcpd_sized (snd q)) (ls_mcpd s)"

lemma fold_res_one [simp]: "fold_res f [x] s = f x s"
  by (cases "f x s") simp_all

lemma map_ordered_Inr: "fold_res consume_stats rps m = Inr m' \<Longrightarrow> list_all valid_received rps \<Longrightarrow> map_ordered m \<Longrightarrow> map_ordered m'"
  by (auto simp: consume_stats_run table.well_consumed)

lemma consume_one:
  assumes "valid_received rp" and "tables_ok s"
  obtains st and ml :: "(source_key \<times> mdll_histograms) list" and mc :: "(source_key \<times> mcpd_histograms) list"
    where "consume_stats rp (ls_stats s) = Inr st" "consume_mdll rp (ls_mdll s) = Inr ml"
    "consume_mcpd rp (ls_mcpd s) = Inr mc" "tables_ok (s\<lparr>ls_stats := st, ls_mdll := ml, ls_mcpd := mc\<rparr>)"
proof -
  note ok = assms(2) [unfolded tables_ok_def]
  have st: "consume_stats rp (ls_stats s) = Inr (map_at no_counts (source_of rp) (stat_step rp) (ls_stats s))"
    by (rule consume_stats_ok [OF assms(1)])
  note ml = histogrammer_run [of mdll_sized fill_mdll count_mdll new_mdll_histograms "[rp]" "ls_mdll s" MdllDataBuffer,
      OF fill_mdll_ok sized_new_mdll, folded consume_mdll_def, simplified fold_res_one]
  note mc = histogrammer_run [of mcpd_sized fill_mcpd count_mcpd new_mcpd_histograms "[rp]" "ls_mcpd s" McpdDataBuffer,
      OF fill_mcpd_ok sized_new_mcpd, folded consume_mcpd_def, simplified fold_res_one]
  show thesis
    using that [OF st conjunct1 [OF ml] conjunct1 [OF mc]] conjunct2 [OF ml] conjunct2 [OF mc] assms(1) ok
    by (simp add: tables_ok_def map_ordered_at table.well_consumed)
qed

lemma loop_consume_ok:
  assumes "is_valid_data_packet rp" and "packet_ok (rp_packet rp)" and "tables_ok s"
  obtains st ml mc where "loop_consume rp s = s\<lparr>ls_stats := st, ls_mdll := ml, ls_mcpd := mc\<rparr>"
    "consume_stats rp (ls_stats s) = Inr st" "consume_mdll rp (ls_mdll s) = Inr ml" "consume_mcpd rp (ls_mcpd s) = Inr mc"
    "tables_ok (loop_consume rp s)"
proof -
  obtain st ml mc where "consume_stats rp (ls_stats s) = Inr st" "consume_mdll rp (ls_mdll s) = Inr ml"
    "consume_mcpd rp (ls_mcpd s) = Inr mc" "tables_ok (s\<lparr>ls_stats := st, ls_mdll := ml, ls_mcpd := mc\<rparr>)"
    using consume_one [of rp s] assms by (auto simp: valid_received_def)
  then show thesis using that [where st = st and ml = ml and mc = mc] by (simp add: loop_consume_def)
qed

lemma tables_ok_simps [simp]:
  "tables_ok (s\<lparr>ls_counters := c\<rparr>) = tables_ok s" "tables_ok (s\<lparr>ls_written := w\<rparr>) = tables_ok s"
  "tables_ok (s\<lparr>ls_running := r\<rparr>) = tables_ok s" "tables_ok (loop_failed e s) = tables_ok s"
  by (simp_all add: tables_ok_def loop_failed_def)

lemma good_tables:
  assumes "tables_ok s"
  shows "event_good (Received c st (table_view mdll_view (ls_mdll s)) (table_view mcpd_view (ls_mcpd s)))"
  using assms by (auto simp: tables_ok_def table_view_def list_all_iff good_mdll_view good_mcpd_view)

lemma received_view:
  "ls_running s \<Longrightarrow> ls_running t \<Longrightarrow> ls_exception t = ls_exception s \<Longrightarrow> daq_view d l t =
     daq_event_step (Received (counters_view (ls_counters t)) (table_view stats_view (ls_stats t)) (table_view mdll_view (ls_mdll t))
       (table_view mcpd_view (ls_mcpd t))) (daq_view d l s)"
  by (simp add: daq_view_def worker_view_def)

lemma loop_step_refines:
  assumes "reading_ok rd" and ok: "tables_ok s" and run: "ls_running s"
  shows "tables_ok (loop_step rd s) \<and> (\<exists>ev. event_good ev \<and> daq_view d l (loop_step rd s) = daq_event_step ev (daq_view d l s))"
proof -
  have received: ?thesis if "ls_running (loop_step rd s)" "ls_exception (loop_step rd s) = ls_exception s" "tables_ok (loop_step rd s)"
    using that good_tables [OF that(3)] received_view [OF run that(1,2)] by blast
  have failed: "daq_view d l (loop_failed e s) = daq_event_step (Failed e) (daq_view d l s)" for e
    using run by (simp add: daq_view_def worker_view_def loop_failed_def)
  have ended: "daq_view d l (s\<lparr>ls_running := False\<rparr>) = daq_event_step EndOfData (daq_view d l s)"
    using run by (simp add: daq_view_def worker_view_def)
  show ?thesis
  proof (cases rd)
    case QuitSeen
    then show ?thesis using run ok ended by (auto intro!: exI [of _ EndOfData])
  next
    case NoMoreData
    then show ?thesis using run ok ended by (auto intro!: exI [of _ EndOfData])
  next
    case (SourceFailed e)
    then show ?thesis using run ok failed [of e] by (auto intro!: exI [of _ "Failed e"])
  next
    case NothingRead
    then show ?thesis using run ok by (intro received) simp_all
  next
    case (Incoming rp wr)
    let ?s = "s\<lparr>ls_written := map_option (\<lambda>n. n + word_of_nat PacketBytes) (ls_written s)\<rparr>"
    let ?t = "?s\<lparr>ls_counters := count_read rp (ls_written ?s) (ls_counters ?s)\<rparr>"
    show ?thesis
    proof (cases "if ls_written s = None then None else wr")
      case (Some e)
      then show ?thesis using run ok failed [of e] Incoming by (auto intro!: exI [of _ "Failed e"])
    next
      case None
      then have step: "loop_step rd s = (if is_valid_data_packet rp then loop_consume rp ?t else ?t)"
        using run Incoming by (simp add: Let_def)
      have t: "tables_ok ?t" using ok by simp
      show ?thesis
      proof (cases "is_valid_data_packet rp")
        case True
        have "packet_ok (rp_packet rp)" using assms(1) Incoming by (simp add: reading_ok_def)
        from loop_consume_ok [OF True this t] obtain st ml mc where c:
          "loop_consume rp ?t = ?t\<lparr>ls_stats := st, ls_mdll := ml, ls_mcpd := mc\<rparr>" "tables_ok (loop_consume rp ?t)" by blast
        show ?thesis by (rule received) (use c run in \<open>simp_all only: step True if_True, simp_all\<close>)
      next
        case False
        show ?thesis by (rule received) (use t run in \<open>simp_all only: step False if_False, simp_all\<close>)
      qed
    qed
  qed
qed

lemma loop_step_stopped: "\<not> ls_running s \<Longrightarrow> loop_step rd s = s"
  by simp

lemma daq_events_Cons: "daq_events (ev # evs) d = daq_events evs (daq_event_step ev d)"
  by (simp add: daq_events_def)

lemma loop_run_refines:
  "list_all reading_ok rds \<Longrightarrow> tables_ok s \<Longrightarrow>
   tables_ok (loop_run rds s) \<and> (\<exists>evs. list_all event_good evs \<and> daq_view d l (loop_run rds s) = daq_events evs (daq_view d l s))"
proof (induction rds arbitrary: s)
  case Nil
  then show ?case by (auto simp: loop_run_def daq_events_def intro!: exI [of _ "[]"])
next
  case (Cons rd rds)
  have run: "loop_run (rd # rds) s = loop_run rds (loop_step rd s)" by (simp add: loop_run_def)
  show ?case
  proof (cases "ls_running s")
    case False
    then show ?thesis using Cons.IH [of s] Cons.prems by (simp add: run)
  next
    case True
    have rd: "reading_ok rd" and rds: "list_all reading_ok rds" using Cons.prems(1) by simp_all
    from loop_step_refines [OF rd Cons.prems(2) True] obtain ev where ev: "event_good ev" "tables_ok (loop_step rd s)"
      "daq_view d l (loop_step rd s) = daq_event_step ev (daq_view d l s)" by blast
    from Cons.IH [OF rds ev(2)] obtain evs where "list_all event_good evs" "tables_ok (loop_run (rd # rds) s)"
      "daq_view d l (loop_run (rd # rds) s) = daq_events evs (daq_view d l (loop_step rd s))" unfolding run by blast
    then show ?thesis using ev by (intro conjI exI [of _ "ev # evs"]) (simp_all add: daq_events_Cons del: daq_event_step.simps)
  qed
qed

text \<open>Starting a worker and clearing between or during runs are the operations of the readout control.\<close>

lemma control_views:
  "daq_view d l (worker_started l s) = start_worker l (daq_view d l s)"
  "daq_view d l (sources_cleared s) = clear_sources (daq_view d l s)"
  "daq_view d l (histograms_cleared s) = clear_histograms (daq_view d l s)"
  "daq_view d l (stats_cleared s) = reset_stats (daq_view d l s)"
proof -
  have "stats_view no_counts = zero_stats" by (simp add: stats_view_def no_counts_def zero_stats_def)
  then show "daq_view d l (stats_cleared s) = reset_stats (daq_view d l s)"
    by (simp add: daq_view_def worker_view_def stats_cleared_def stats_reset_def reset_stats_def table_view_def case_prod_unfold)
  have "map (\<lambda>(n, a). (n, zero_array a)) (mdll_view h) = mdll_view (clear_mdll h)"
    "map (\<lambda>(n, a). (n, zero_array a)) (mcpd_view h') = mcpd_view (clear_mcpd h')" for h h'
    by (simp_all add: mdll_view_def clear_mdll_def mcpd_view_def clear_mcpd_def zero_to_array del: to_array.simps)
  then show "daq_view d l (histograms_cleared s) = clear_histograms (daq_view d l s)"
    by (simp add: daq_view_def worker_view_def histograms_cleared_def histogrammer_clear_def clear_histograms_def zero_histos_def
        table_view_def case_prod_unfold)
qed (simp_all add: daq_view_def worker_view_def worker_started_def start_worker_def started_worker_def counters_view_def
    new_loop_counters_def no_counters_def sources_cleared_def clear_sources_def table_view_def)

section \<open>Nothing is lost in the loop\<close>

definition uninterrupted :: "reading \<Rightarrow> bool" where
  "uninterrupted rd = (case rd of Incoming rp wr \<Rightarrow> wr = None | NothingRead \<Rightarrow> True | _ \<Rightarrow> False)"

definition packets_in :: "reading list \<Rightarrow> received list" where
  "packets_in rds = concat (map (\<lambda>rd. case rd of Incoming rp wr \<Rightarrow> [rp] | _ \<Rightarrow> []) rds)"

lemma packets_in_simps [simp]:
  "packets_in [] = []" "packets_in (Incoming rp wr # rds) = rp # packets_in rds" "packets_in (NothingRead # rds) = packets_in rds"
  by (simp_all add: packets_in_def)

definition loop_counted :: "reading list \<Rightarrow> loop_state \<Rightarrow> loop_state \<Rightarrow> bool" where
  "loop_counted rds s t \<longleftrightarrow>
     (let rps = packets_in rds; valid = filter is_valid_data_packet rps; c = ls_counters s; c' = ls_counters t in
      ls_running t \<and> ls_exception t = ls_exception s
      \<and> lc_packets c' = lc_packets c + word_of_nat (length rps)
      \<and> lc_bytes c' = lc_bytes c + (\<Sum>rp\<leftarrow>rps. word_of_nat (rp_bytes rp))
      \<and> lc_invalid_packets c' = lc_invalid_packets c + word_of_nat (length (filter (\<lambda>rp. \<not> is_valid_data_packet rp) rps))
      \<and> lc_timeouts c' = lc_timeouts c + word_of_nat (length (filter (\<lambda>rd. rd = NothingRead) rds))
      \<and> ls_written t = map_option (\<lambda>n. n + word_of_nat (length rps * PacketBytes)) (ls_written s)
      \<and> fold_res consume_stats valid (ls_stats s) = Inr (ls_stats t)
      \<and> fold_res consume_mdll valid (ls_mdll s) = Inr (ls_mdll t)
      \<and> fold_res consume_mcpd valid (ls_mcpd s) = Inr (ls_mcpd t))"

lemma loop_run_counted:
  "list_all reading_ok rds \<Longrightarrow> list_all uninterrupted rds \<Longrightarrow> tables_ok s \<Longrightarrow> ls_running s \<Longrightarrow> loop_counted rds s (loop_run rds s)"
proof (induction rds arbitrary: s)
  case Nil
  then show ?case by (simp add: loop_run_def loop_counted_def Let_def option.map_ident)
next
  case (Cons rd rds)
  have run: "loop_run (rd # rds) s = loop_run rds (loop_step rd s)" by (simp add: loop_run_def)
  have rest: "list_all reading_ok rds" "list_all uninterrupted rds" and rd: "reading_ok rd" "uninterrupted rd"
    using Cons.prems by simp_all
  have t: "tables_ok (loop_step rd s)" using loop_step_refines [OF rd(1) Cons.prems(3,4)] by blast
  show ?case
  proof (cases rd)
    case NothingRead
    then show ?thesis using Cons.IH [OF rest t] Cons.prems(4)
      by (simp add: NothingRead run [unfolded NothingRead] loop_counted_def Let_def count_timeout_def add.assoc)
  next
    case (Incoming rp wr)
    define u where "u = s\<lparr>ls_written := map_option (\<lambda>n. n + word_of_nat PacketBytes) (ls_written s),
      ls_counters := count_read rp (map_option (\<lambda>n. n + word_of_nat PacketBytes) (ls_written s)) (ls_counters s)\<rparr>"
    have wr: "wr = None" using rd(2) Incoming by (simp add: uninterrupted_def)
    have step: "loop_step rd s = (if is_valid_data_packet rp then loop_consume rp u else u)"
      using Cons.prems(4) Incoming wr by (simp add: u_def)
    have u: "ls_running u" "ls_exception u = ls_exception s" "ls_stats u = ls_stats s" "ls_mdll u = ls_mdll s" "ls_mcpd u = ls_mcpd s"
      "ls_written u = map_option (\<lambda>n. n + word_of_nat PacketBytes) (ls_written s)" "tables_ok u"
      "ls_counters u = count_read rp (ls_written u) (ls_counters s)"
      using Cons.prems(3,4) by (simp_all add: u_def tables_ok_def)
    have written: "map_option (\<lambda>n. n + word_of_nat (k * PacketBytes)) (ls_written u)
        = map_option (\<lambda>n. n + word_of_nat (Suc k * PacketBytes)) (ls_written s)" for k
      by (simp add: u(6) option.map_comp comp_def algebra_simps)
    show ?thesis
    proof (cases "is_valid_data_packet rp")
      case True
      have "packet_ok (rp_packet rp)" using rd(1) Incoming by (simp add: reading_ok_def)
      from loop_consume_ok [OF True this u(7)] obtain st ml mc where c:
        "loop_step rd s = u\<lparr>ls_stats := st, ls_mdll := ml, ls_mcpd := mc\<rparr>"
        "consume_stats rp (ls_stats s) = Inr st" "consume_mdll rp (ls_mdll s) = Inr ml" "consume_mcpd rp (ls_mcpd s) = Inr mc"
        unfolding step u(3-5) if_P [OF True] by blast
      with Cons.IH [OF rest t] u(1,2,8) True written show ?thesis
        by (simp add: Incoming run [unfolded Incoming] c(1) [unfolded Incoming] loop_counted_def Let_def count_read_def add.assoc distrib_right del: loop_step.simps)
    next
      case False
      with Cons.IH [OF rest t] u written show ?thesis
        by (simp add: Incoming run [unfolded Incoming] step [unfolded Incoming] loop_counted_def Let_def count_read_def add.assoc distrib_right del: loop_step.simps)
    qed
  qed (use rd(2) in \<open>simp_all add: uninterrupted_def\<close>)
qed


definition sample_loop :: loop_state where
  "sample_loop = worker_started ''run.mdat''
     \<lparr>ls_running = False, ls_exception = Some KeyboardInterrupt, ls_counters = new_loop_counters, ls_written = None, ls_stats = [],
      ls_mdll = [], ls_mcpd = []\<rparr>"

lemma sample_loop_ok: "tables_ok sample_loop" "ls_running sample_loop" "reading_ok (Incoming sample_mdll None)"
  "reading_ok NothingRead" "uninterrupted NothingRead" "uninterrupted (Incoming sample_mdll None)"
  "is_valid_data_packet sample_mdll"
proof -
  have "valid_received sample_mdll" by (simp add: sample_mdll_def sample_valid)
  then show "reading_ok (Incoming sample_mdll None)" "is_valid_data_packet sample_mdll"
    by (simp_all add: reading_ok_def valid_received_def)
qed (simp_all add: sample_loop_def worker_started_def tables_ok_def reading_ok_def uninterrupted_def)


text \<open>
  C34. As long as reading and writing succeed, the loop counts every packet, byte, timeout and
  invalid packet, appends every packet to the listfile, and gives exactly the valid packets, in
  order, to the statistics and both histogrammers.
\<close>

theorem readout_counts_everything:
  assumes "list_all reading_ok rds" and "list_all uninterrupted rds" and "tables_ok s" and "ls_running s"
  shows "loop_counted rds s (loop_run rds s)"
  using assms by (rule loop_run_counted)

lemma readout_counts_everything_witness:
  "loop_counted [NothingRead, Incoming sample_mdll None] sample_loop (loop_run [NothingRead, Incoming sample_mdll None] sample_loop)"
  using readout_counts_everything [of "[NothingRead, Incoming sample_mdll None]" sample_loop] by (simp add: sample_loop_ok)

end
