(* ===== verification/Py_Os.thy ===== *)
theory Py_Os
  imports Bindings
begin

text \<open>
  What the sources use of Python's string methods, of \<open>os.path\<close> (its POSIX flavour) and of
  \<open>shlex\<close>: splitting, extensions, relative paths, shell quoting and shell splitting.
\<close>

section \<open>Strings\<close>

text \<open>\<open>s.split(c)\<close> for a single character\<close>

fun split_on :: "char \<Rightarrow> string \<Rightarrow> string list" where
  "split_on c [] = [[]]"
| "split_on c (x # s) =
     (if x = c then [] # split_on c s
      else (case split_on c s of p # ps \<Rightarrow> (x # p) # ps | [] \<Rightarrow> [[x]]))"

definition starts_with :: "string \<Rightarrow> string \<Rightarrow> bool" where
  "starts_with p s = (take (length p) s = p)"

definition ends_with :: "string \<Rightarrow> string \<Rightarrow> bool" where
  "ends_with p s = starts_with (rev p) (rev s)"

text \<open>What is before and after the last \<open>c\<close>, if there is one.\<close>

definition last_split :: "char \<Rightarrow> string \<Rightarrow> (string \<times> string) option" where
  "last_split c s =
     (if c \<in> set s
      then Some (rev (tl (dropWhile (\<lambda>x. x \<noteq> c) (rev s))), rev (takeWhile (\<lambda>x. x \<noteq> c) (rev s)))
      else None)"

text \<open>\<open>s.replace(a, b)\<close> for a single character\<close>

definition replace_char :: "char \<Rightarrow> string \<Rightarrow> string \<Rightarrow> string" where
  "replace_char a b s = concat (map (\<lambda>x. if x = a then b else [x]) s)"

lemma split_on_nonempty [simp]: "split_on c s \<noteq> []"
  by (induction s) (auto split: list.split)

lemma split_on_plain: "c \<notin> set s \<Longrightarrow> split_on c s = [s]"
  by (induction s) auto

lemma split_on_append: "c \<notin> set p \<Longrightarrow> split_on c (p @ c # s) = p # split_on c s"
  by (induction p) auto

lemma last_split_Some: "last_split c (a @ c # b) = Some (a, b)" if "c \<notin> set b"
proof -
  have b: "\<And>x. x \<in> set (rev b) \<Longrightarrow> x \<noteq> c" using that by auto
  have t: "takeWhile (\<lambda>x. x \<noteq> c) (rev b @ c # rev a) = rev b" "dropWhile (\<lambda>x. x \<noteq> c) (rev b @ c # rev a) = c # rev a"
    using takeWhile_append2 [of "rev b" "\<lambda>x. x \<noteq> c" "c # rev a"] dropWhile_append2 [of "rev b" "\<lambda>x. x \<noteq> c" "c # rev a"] b
    by auto
  show ?thesis by (simp add: last_split_def t)
qed

lemma last_split_parts: "last_split c s = Some (a, b) \<Longrightarrow> s = a @ c # b \<and> c \<notin> set b"
proof -
  assume s: "last_split c s = Some (a, b)"
  then have "c \<in> set s" by (simp add: last_split_def split: if_splits)
  then obtain u v where uv: "s = u @ c # v" "c \<notin> set v" using split_list_last by fastforce
  with s last_split_Some [OF uv(2), of u] show ?thesis by simp
qed

section \<open>os.path\<close>

definition os_join :: "string \<Rightarrow> string \<Rightarrow> string" where
  "os_join a b =
     (if starts_with ''/'' b then b else if a = [] \<or> ends_with ''/'' a then a @ b else a @ ''/'' @ b)"

definition strip_slashes :: "string \<Rightarrow> string" where
  "strip_slashes s = rev (dropWhile (\<lambda>x. x = CHR ''/'') (rev s))"

text \<open>\<open>os.path.split\<close>\<close>

definition os_split :: "string \<Rightarrow> string \<times> string" where
  "os_split p =
     (case last_split (CHR ''/'') p of
        None \<Rightarrow> ([], p)
      | Some (a, b) \<Rightarrow>
          (let head = a @ ''/'' in (if list_all (\<lambda>x. x = CHR ''/'') head then head else strip_slashes head, b)))"

definition os_dirname :: "string \<Rightarrow> string" where
  "os_dirname p = fst (os_split p)"

definition os_basename :: "string \<Rightarrow> string" where
  "os_basename p = snd (os_split p)"

text \<open>\<open>os.path.splitext\<close>: leading dots of the file name do not start an extension.\<close>

definition os_splitext :: "string \<Rightarrow> string \<times> string" where
  "os_splitext p =
     (case last_split (CHR ''.'') p of
        None \<Rightarrow> (p, [])
      | Some (a, b) \<Rightarrow>
          if CHR ''/'' \<in> set b then (p, [])
          else if list_all (\<lambda>x. x = CHR ''.'') (takeWhile (\<lambda>x. x \<noteq> CHR ''/'') (rev a)) then (p, [])
          else (a, CHR ''.'' # b))"

text \<open>The components of \<open>normpath\<close> of an absolute path.\<close>

definition norm_step :: "string \<Rightarrow> string list \<Rightarrow> string list" where
  "norm_step c ps = (if c = [] \<or> c = ''.'' then ps else if c = ''..'' then butlast ps else ps @ [c])"

definition abs_parts :: "string \<Rightarrow> string \<Rightarrow> string list" where
  "abs_parts cwd p = fold norm_step (split_on (CHR ''/'') (os_join cwd p)) []"

fun common_prefix :: "'a list \<Rightarrow> 'a list \<Rightarrow> nat" where
  "common_prefix (x # xs) (y # ys) = (if x = y then Suc (common_prefix xs ys) else 0)"
| "common_prefix xs ys = 0"

text \<open>\<open>os.path.relpath(path, start)\<close>, relative to the current directory \<open>cwd\<close>.\<close>

definition os_relpath :: "string \<Rightarrow> string \<Rightarrow> string \<Rightarrow> string res" where
  "os_relpath cwd p start =
     (if p = [] then Inl (ValueError ''no path specified'')
      else
        (let ss = abs_parts cwd start; ps = abs_parts cwd p; i = common_prefix ss ps;
             rel = replicate (length ss - i) ''..'' @ drop i ps
         in Inr (if rel = [] then ''.'' else join ''/'' rel)))"

section \<open>shlex\<close>

text \<open>\<open>_find_unsafe\<close>: the characters that need no quoting are \<open>\w@%+=:,./-\<close>, ASCII only.\<close>

definition shell_safe :: "char \<Rightarrow> bool" where
  "shell_safe c =
     (let n = of_char c :: nat in
      (48 \<le> n \<and> n \<le> 57) \<or> (65 \<le> n \<and> n \<le> 90) \<or> (97 \<le> n \<and> n \<le> 122) \<or> c \<in> set ''_@%+=:,./-'')"

definition quote_mark :: char where
  "quote_mark = CHR 0x27"

definition double_mark :: char where
  "double_mark = CHR 0x22"

definition back_slash :: char where
  "back_slash = CHR 0x5C"

text \<open>\<open>shlex.quote\<close>\<close>

definition shell_quote :: "string \<Rightarrow> string" where
  "shell_quote s =
     (if s = [] then [quote_mark, quote_mark]
      else if list_all shell_safe s then s
      else quote_mark # replace_char quote_mark [quote_mark, double_mark, quote_mark, double_mark, quote_mark] s @ [quote_mark])"

definition shell_space :: "char \<Rightarrow> bool" where
  "shell_space c = (let n = of_char c :: nat in n = 32 \<or> n = 9 \<or> n = 10 \<or> n = 13)"

text \<open>
  The states of the lexer behind \<open>shlex.split\<close> (POSIX rules, split at whitespace, no comments):
  between words, in a word, in quotes, after a backslash; the word read so far goes with it.
\<close>

datatype lex = Between | Word string | Quoted char string | Escape lex_back string
and lex_back = FromWord | FromQuotes char

fun shell_lex :: "lex \<Rightarrow> string \<Rightarrow> string list res" where
  "shell_lex Between [] = Inr []"
| "shell_lex (Word t) [] = Inr [t]"
| "shell_lex (Quoted q t) [] = Inl (ValueError ''No closing quotation'')"
| "shell_lex (Escape b t) [] = Inl (ValueError ''No escaped character'')"
| "shell_lex Between (c # s) =
     (if shell_space c then shell_lex Between s
      else if c = quote_mark \<or> c = double_mark then shell_lex (Quoted c []) s
      else if c = back_slash then shell_lex (Escape FromWord []) s
      else shell_lex (Word [c]) s)"
| "shell_lex (Word t) (c # s) =
     (if shell_space c then bind_res (shell_lex Between s) (\<lambda>ws. Inr (t # ws))
      else if c = quote_mark \<or> c = double_mark then shell_lex (Quoted c t) s
      else if c = back_slash then shell_lex (Escape FromWord t) s
      else shell_lex (Word (t @ [c])) s)"
| "shell_lex (Quoted q t) (c # s) =
     (if c = q then shell_lex (Word t) s
      else if c = back_slash \<and> q = double_mark then shell_lex (Escape (FromQuotes q) t) s
      else shell_lex (Quoted q (t @ [c])) s)"
| "shell_lex (Escape FromWord t) (c # s) = shell_lex (Word (t @ [c])) s"
| "shell_lex (Escape (FromQuotes q) t) (c # s) =
     (if c = back_slash \<or> c = q then shell_lex (Quoted q (t @ [c])) s
      else shell_lex (Quoted q (t @ [back_slash, c])) s)"

definition shell_split :: "string \<Rightarrow> string list res" where
  "shell_split s = shell_lex Between s"

text \<open>A quoted word is read back as it was, and words joined with blanks are separated again.\<close>

lemma marks [simp]:
  "quote_mark \<noteq> double_mark" "double_mark \<noteq> quote_mark" "quote_mark \<noteq> back_slash" "double_mark \<noteq> back_slash"
  "back_slash \<noteq> quote_mark" "back_slash \<noteq> double_mark"
  "\<not> shell_space quote_mark" "\<not> shell_space double_mark" "\<not> shell_space back_slash" "shell_space (CHR '' '')"
  by (simp_all add: quote_mark_def double_mark_def back_slash_def shell_space_def)

lemma safe_plain:
  "shell_safe c \<Longrightarrow> \<not> shell_space c \<and> c \<noteq> quote_mark \<and> c \<noteq> double_mark \<and> c \<noteq> back_slash"
  by (auto simp: shell_safe_def shell_space_def quote_mark_def double_mark_def back_slash_def Let_def)

lemma lex_safe: "list_all shell_safe w \<Longrightarrow> shell_lex (Word t) (w @ s) = shell_lex (Word (t @ w)) s"
  by (induction w arbitrary: t) (auto dest: safe_plain)

lemma lex_quoted:
  "shell_lex (Quoted quote_mark t)
     (replace_char quote_mark [quote_mark, double_mark, quote_mark, double_mark, quote_mark] w @ quote_mark # s)
   = shell_lex (Word (t @ w)) s"
  by (induction w arbitrary: t) (simp_all add: replace_char_def)

lemma lex_shell_quote: "shell_lex Between (shell_quote w @ s) = shell_lex (Word w) s"
proof (cases "w = [] \<or> list_all shell_safe w")
  case True
  then show ?thesis
    by (cases w) (auto simp: shell_quote_def dest: safe_plain simp: lex_safe)
next
  case False
  then show ?thesis using lex_quoted [of "[]" w s] by (auto simp: shell_quote_def)
qed

theorem shell_split_quote: "shell_split (join '' '' (map shell_quote ws)) = Inr ws"
proof -
  have "shell_lex Between (join '' '' (map shell_quote ws)) = Inr ws"
  proof (induction ws rule: induct_list012)
    case 1
    show ?case by simp
  next
    case (2 w)
    then show ?case using lex_shell_quote [of w "[]"] by simp
  next
    case (3 v w ws)
    then show ?case by (simp add: lex_shell_quote)
  qed
  then show ?thesis by (simp add: shell_split_def)
qed

end
