(* ===== verification/Packet_Csv.thy ===== *)
theory Packet_Csv
  imports Packets_Facts Py_Os
begin

text \<open>
  The scripts for \<open>mcpd-cli\<close>'s embedded Python: \<open>mcpd-cli-check-mdll-stuffz.py\<close>, which writes every
  packet and event with its time differences to a CSV file, and
  \<open>extras/mcpd-cli/mcpd-cli-python-example.py\<close>; with \<open>csv.writer\<close> and a reader of its output.
\<close>

section \<open>CSV\<close>

text \<open>Quoting of the dialect \<open>excel\<close> with minimal quotes.\<close>

definition carriage_return :: char where
  "carriage_return = CHR 0x0D"

definition line_feed :: char where
  "line_feed = CHR 0x0A"

definition csv_special :: "char \<Rightarrow> bool" where
  "csv_special c \<longleftrightarrow> c = CHR '','' \<or> c = double_mark \<or> c = carriage_return \<or> c = line_feed"

definition csv_field :: "string \<Rightarrow> string" where
  "csv_field t =
     (if list_ex csv_special t then [double_mark] @ replace_char double_mark [double_mark, double_mark] t @ [double_mark] else t)"

definition csv_line :: "string list \<Rightarrow> string" where
  "csv_line fs =
     (if fs = [[]] then [double_mark, double_mark] else join '','' (map csv_field fs)) @ [carriage_return, line_feed]"

text \<open>A reader of such files, for the theorems: the field it is in, the fields before it.\<close>

datatype csv_mode = FieldStart | PlainField string | QuotedField string | QuoteSeen string

fun csv_parse :: "csv_mode \<Rightarrow> string list \<Rightarrow> string \<Rightarrow> string list list" where
  "csv_parse m fs [] = (if fs = [] then [] else [fs])"
| "csv_parse (QuotedField t) fs (c # s) =
     (if c = double_mark then csv_parse (QuoteSeen t) fs s else csv_parse (QuotedField (t @ [c])) fs s)"
| "csv_parse FieldStart fs (c # s) =
     (if c = double_mark then csv_parse (QuotedField []) fs s
      else if c = CHR '','' then csv_parse FieldStart (fs @ [[]]) s
      else if c = carriage_return then (fs @ [[]]) # csv_parse FieldStart [] (drop 1 s)
      else csv_parse (PlainField [c]) fs s)"
| "csv_parse (PlainField t) fs (c # s) =
     (if c = CHR '','' then csv_parse FieldStart (fs @ [t]) s
      else if c = carriage_return then (fs @ [t]) # csv_parse FieldStart [] (drop 1 s)
      else csv_parse (PlainField (t @ [c])) fs s)"
| "csv_parse (QuoteSeen t) fs (c # s) =
     (if c = double_mark then csv_parse (QuotedField (t @ [double_mark])) fs s
      else if c = CHR '','' then csv_parse FieldStart (fs @ [t]) s
      else if c = carriage_return then (fs @ [t]) # csv_parse FieldStart [] (drop 1 s)
      else csv_parse (PlainField (t @ [c])) fs s)"

definition csv_rows :: "string \<Rightarrow> string list list" where
  "csv_rows s = csv_parse FieldStart [] s"

section \<open>The context\<close>

text \<open>
  \<open>Context\<close>: \<open>csv_out\<close> and \<open>csv_writer\<close> are set and deleted together.  \<open>ClassNone\<close>: the instance has
  no such attribute, the class' \<open>None\<close> shows; \<open>WasClosed\<close>: the instance's is \<open>None\<close>; \<open>OpenAs n\<close>: a
  file \<open>n\<close> with its writer.  \<open>cs_files\<close> are the files, \<open>cs_printed\<close> the lines printed.
\<close>

datatype out_attr = ClassNone | WasClosed | OpenAs string

record script =
  cs_out :: out_attr
  cs_packets :: int
  cs_events :: int
  cs_prev_packet :: "int option"
  cs_prev_full :: "int option"
  cs_files :: "(string, string) dict"
  cs_printed :: "string list"

definition new_script :: "(string, string) dict \<Rightarrow> script" where
  "new_script files =
     \<lparr>cs_out = ClassNone, cs_packets = 0, cs_events = 0, cs_prev_packet = None, cs_prev_full = None, cs_files = files,
      cs_printed = []\<rparr>"

text \<open>Cells of a row: what \<open>csv.writer\<close> makes of a value.\<close>

datatype cell = NoCell | IntCell int | StrCell string

fun cell_text :: "cell \<Rightarrow> string" where
  "cell_text NoCell = []"
| "cell_text (IntCell n) = show_int n"
| "cell_text (StrCell t) = t"

text \<open>\<open>ctx.csv_writer.writerow(cells)\<close>\<close>

definition writerow :: "cell list \<Rightarrow> script \<Rightarrow> script outcome" where
  "writerow cells s =
     (case cs_out s of
        OpenAs n \<Rightarrow> (s\<lparr>cs_files := dict_set n (dict_get_or (cs_files s) n [] @ csv_line (map cell_text cells)) (cs_files s)\<rparr>, None)
      | _ \<Rightarrow> (s, Some (AttributeError (repr_str ''NoneType'' @ '' object has no attribute '' @ repr_str ''writerow''))))"

definition print_line :: "string \<Rightarrow> script \<Rightarrow> script" where
  "print_line t s = s\<lparr>cs_printed := cs_printed s @ [t]\<rparr>"

section \<open>The script\<close>

definition csv_output_name :: "string \<Rightarrow> string" where
  "csv_output_name listfile =
     (if 0 < length listfile
      then (case last_split (CHR ''.'') listfile of Some (a, b) \<Rightarrow> a | None \<Rightarrow> listfile) @ ''.csv''
      else ''mdll_readout.csv'')"

definition csv_header :: "cell list" where
  "csv_header =
     map StrCell
       [''type'', ''packet#'', ''event#'', ''rel_event#'', ''packet_header_timestamp'', ''dt_packet_header_timestamp'',
        ''event_timestamp'', ''dt_event_timestamp'', ''full_timestamp'', ''dt_full_timestamp'', ''raw_packet_words'']"

definition repr_args :: "string list \<Rightarrow> string" where
  "repr_args xs = py_repr (PList (map PStr xs))"

text \<open>\<open>denied\<close>: the error of opening a file for writing.\<close>

definition script_start :: "(string \<Rightarrow> exc option) \<Rightarrow> string \<Rightarrow> string list \<Rightarrow> script \<Rightarrow> script outcome" where
  "script_start denied listfile xs s =
     (let n = csv_output_name listfile;
          s1 = print_line (''python start! csv_output_name='' @ repr_str n @ '', args='' @ repr_args xs) s in
      case denied n of
        Some e \<Rightarrow> (s1, Some e)
      | None \<Rightarrow> writerow csv_header (s1\<lparr>cs_out := OpenAs n, cs_files := dict_set n [] (cs_files s1)\<rparr>))"

definition counts_text :: "script \<Rightarrow> string" where
  "counts_text s = ''python stop! ctx.n_packets='' @ show_int (cs_packets s) @ '', ctx.n_events='' @ show_int (cs_events s)"

definition script_stop :: "script \<Rightarrow> script outcome" where
  "script_stop s =
     (let s1 = print_line (counts_text s) s in
      if cs_out s1 = ClassNone then (s1, Some (AttributeError (repr_str ''Context'' @ '' object has no attribute '' @ repr_str ''csv_writer'')))
      else (s1\<lparr>cs_out := WasClosed\<rparr>, None))"

text \<open>\<open>get_raw_words\<close> of the bindings: the first \<open>bufferLength\<close> words of the packet.\<close>

definition get_raw_words :: "data_packet \<Rightarrow> u16 list res" where
  "get_raw_words p =
     (let n = unat (dp_buffer_length p); ws = words_of (packet_bytes p) in
      if n \<le> length ws then Inr (take n ws) else Inl IndexError)"

definition raw_words_text :: "u16 list \<Rightarrow> string" where
  "raw_words_text ws = join '' '' (map (\<lambda>w. fmt_alt_hex 6 (uint w)) ws)"

definition opt_cell :: "int option \<Rightarrow> cell" where
  "opt_cell x = (case x of None \<Rightarrow> NoCell | Some n \<Rightarrow> IntCell n)"

text \<open>\<open>x - prev\<close>, if there is a previous value\<close>

definition since :: "int option \<Rightarrow> int \<Rightarrow> int option" where
  "since prv x = map_option (\<lambda>p. x - p) prv"

text \<open>\<open>str(event.type)\<close>\<close>

definition type_text :: "event_data \<Rightarrow> string" where
  "type_text d =
     (case d of Neutron a b c e \<Rightarrow> ''EventType.NeutronEvent'' | Trigger a b c \<Rightarrow> ''EventType.TriggerEvent''
      | MdllNeutron a b c \<Rightarrow> ''EventType.MdllNeutronEvent'')"

text \<open>The loop over the events from index \<open>i\<close>.\<close>

fun process_events :: "int \<Rightarrow> int option \<Rightarrow> decoded_event list \<Rightarrow> script \<Rightarrow> script outcome" where
  "process_events i prv [] s = (s, None)"
| "process_events i prv (ev # evs) s =
     (let stamp = uint (ev_event_timestamp ev); full = uint (ev_timestamp ev); dt_full = since (cs_prev_full s) full in
      and_then
        (writerow [StrCell (type_text (ev_data ev)), IntCell (cs_packets s), IntCell (cs_events s), IntCell i, NoCell, NoCell,
                   IntCell stamp, opt_cell (since prv stamp), IntCell full, opt_cell dt_full, NoCell]
           (s\<lparr>cs_prev_full := Some full\<rparr>))
        (\<lambda>s1. process_events (i + 1) (Some stamp) evs (s1\<lparr>cs_events := cs_events s1 + 1\<rparr>)))"

definition process_packet :: "data_packet \<Rightarrow> script \<Rightarrow> script outcome" where
  "process_packet p s =
     with_res (get_header_timestamp p) s (\<lambda>t.
       let dt = since (cs_prev_packet s) (uint t); s1 = s\<lparr>cs_prev_packet := Some (uint t)\<rparr> in
       with_res (get_raw_words p) s1 (\<lambda>ws.
       and_then
         (writerow [StrCell ''packet'', IntCell (cs_packets s1), NoCell, NoCell, IntCell (uint t), opt_cell dt, NoCell, NoCell,
                    NoCell, NoCell, StrCell (raw_words_text ws)] s1)
         (\<lambda>s2. with_res (get_decoded_events p) s2 (\<lambda>evs.
            and_then (process_events 0 None evs s2) (\<lambda>s3. (s3\<lparr>cs_packets := cs_packets s3 + 1\<rparr>, None))))))"

section \<open>The example script\<close>

text \<open>\<open>shown\<close> is \<open>str\<close> of a packet, which the bindings make.\<close>

definition example_packet :: "(data_packet \<Rightarrow> string) \<Rightarrow> data_packet \<Rightarrow> script \<Rightarrow> script" where
  "example_packet shown p s =
     (print_line (''hello from process_packet: '' @ shown p) s)\<lparr>cs_packets := cs_packets s + 1\<rparr>"

definition example_event :: "decoded_event \<Rightarrow> script \<Rightarrow> script" where
  "example_event ev s =
     (print_line (''hello from process_event: '' @ type_text (ev_data ev)) s)\<lparr>cs_events := cs_events s + 1\<rparr>"

definition example_start :: "string \<Rightarrow> string list \<Rightarrow> script \<Rightarrow> script" where
  "example_start listfile xs s =
     print_line (''python start! listfile_path='' @ repr_str listfile @ '', args='' @ repr_args xs) s"

definition example_stop :: "script \<Rightarrow> script" where
  "example_stop s = print_line (counts_text s) s"

section \<open>Reading back what was written\<close>

lemma csv_marks [simp]:
  "double_mark \<noteq> CHR '',''" "CHR '','' \<noteq> double_mark" "double_mark \<noteq> carriage_return" "carriage_return \<noteq> double_mark"
  "carriage_return \<noteq> CHR '',''" "CHR '','' \<noteq> carriage_return"
  by (simp_all add: double_mark_def carriage_return_def)

lemma csv_quoted:
  "csv_parse (QuotedField t) fs (replace_char double_mark [double_mark, double_mark] u @ [double_mark] @ s) = csv_parse (QuoteSeen (t @ u)) fs s"
proof (induction u arbitrary: t)
  case (Cons c u)
  then show ?case by (auto simp: replace_char_def)
qed (simp add: replace_char_def)

lemma csv_plain:
  "\<not> list_ex csv_special u \<Longrightarrow> csv_parse (PlainField t) fs (u @ s) = csv_parse (PlainField (t @ u)) fs s"
  by (induction u arbitrary: t) (auto simp: csv_special_def)

definition after_field :: "csv_mode \<Rightarrow> string \<Rightarrow> bool" where
  "after_field m t \<longleftrightarrow> m = QuoteSeen t \<or> m = PlainField t \<or> (m = FieldStart \<and> t = [])"

lemma csv_field_read: "\<exists>m. after_field m t \<and> (\<forall>fs s. csv_parse FieldStart fs (csv_field t @ s) = csv_parse m fs s)"
proof (cases "list_ex csv_special t")
  case True
  then show ?thesis using csv_quoted [of "[]" _ t]
    by (intro exI [of _ "QuoteSeen t"]) (simp add: csv_field_def after_field_def)
next
  case False
  show ?thesis
  proof (cases t)
    case Nil
    then show ?thesis by (intro exI [of _ FieldStart]) (simp add: csv_field_def after_field_def)
  next
    case (Cons c u)
    then have c: "\<not> csv_special c" "\<not> list_ex csv_special u" using False by simp_all
    then have "csv_parse FieldStart fs (csv_field t @ s) = csv_parse (PlainField t) fs s" for fs s
      using csv_plain [OF c(2), of "[c]" fs s] Cons by (simp add: csv_field_def csv_special_def)
    then show ?thesis by (intro exI [of _ "PlainField t"]) (simp add: after_field_def)
  qed
qed

lemma after_field_next:
  "after_field m t \<Longrightarrow> csv_parse m fs (CHR '','' # s) = csv_parse FieldStart (fs @ [t]) s"
  "after_field m t \<Longrightarrow> csv_parse m fs (carriage_return # s) = (fs @ [t]) # csv_parse FieldStart [] (drop 1 s)"
  by (auto simp: after_field_def)

lemma csv_fields_read:
  "fs \<noteq> [] \<Longrightarrow> csv_parse FieldStart gs (join '','' (map csv_field fs) @ carriage_return # line_feed # s)
     = (gs @ fs) # csv_parse FieldStart [] s"
proof (induction fs arbitrary: gs)
  case (Cons f fs)
  obtain m where m: "after_field m f" "\<And>hs r. csv_parse FieldStart hs (csv_field f @ r) = csv_parse m hs r"
    using csv_field_read [of f] by blast
  show ?case
  proof (cases fs)
    case Nil
    then show ?thesis using after_field_next(2) [OF m(1)] by (simp add: m(2))
  next
    case (Cons g hs)
    then show ?thesis using after_field_next(1) [OF m(1)] Cons.IH [of "gs @ [f]"] m(2) by simp
  qed
qed simp

lemma csv_line_read: "fs \<noteq> [] \<Longrightarrow> csv_rows (csv_line fs @ s) = fs # csv_rows s"
proof (cases "fs = [[]]")
  case True
  then show ?thesis by (simp add: csv_line_def csv_rows_def)
next
  case False
  assume "fs \<noteq> []"
  from csv_fields_read [OF this, of "[]" s] False show ?thesis by (simp add: csv_line_def csv_rows_def)
qed

lemma csv_read_back: "list_all (\<lambda>fs. fs \<noteq> []) rows \<Longrightarrow> csv_rows (concat (map csv_line rows)) = rows"
proof (induction rows)
  case Nil
  then show ?case by (simp add: csv_rows_def)
qed (simp add: csv_line_read)

end
