(* ===== verification/Packet_Csv_Facts.thy ===== *)
theory Packet_Csv_Facts
  imports Packet_Csv Collectors_Facts
begin

text \<open>
  The CSV file of \<open>mcpd-cli-check-mdll-stuffz.py\<close> holds exactly the packets and events that were
  processed, numbered and with the differences of their time stamps.
\<close>

text \<open>A dot in the name of a directory is taken for the start of an extension.\<close>

lemma dot_in_directory: "csv_output_name ''runs.d/data'' = ''runs.csv''" "csv_output_name ''data'' = ''data.csv''"
  by code_simp+

section \<open>The table\<close>

definition stamp_of :: "decoded_event \<Rightarrow> int" where
  "stamp_of ev = uint (ev_event_timestamp ev)"

definition full_of :: "decoded_event \<Rightarrow> int" where
  "full_of ev = uint (ev_timestamp ev)"

text \<open>The difference to the value before, empty for the first.\<close>

definition gap_at :: "int list \<Rightarrow> nat \<Rightarrow> cell" where
  "gap_at xs n = (if n = 0 then NoCell else IntCell (xs ! n - xs ! (n - 1)))"

text \<open>Row \<open>j\<close> of packet \<open>k\<close>: \<open>off\<close> events came before it, \<open>fulls\<close> are the full time stamps of all events.\<close>

definition event_row :: "int list \<Rightarrow> nat \<Rightarrow> nat \<Rightarrow> decoded_event list \<Rightarrow> nat \<Rightarrow> cell list" where
  "event_row fulls k off evs j =
     [StrCell (type_text (ev_data (evs ! j))), IntCell (int k), IntCell (int (off + j)), IntCell (int j), NoCell, NoCell,
      IntCell (stamp_of (evs ! j)), gap_at (map stamp_of evs) j, IntCell (full_of (evs ! j)), gap_at fulls (off + j), NoCell]"

definition packet_row :: "int list \<Rightarrow> u16 list \<Rightarrow> nat \<Rightarrow> cell list" where
  "packet_row stamps ws k =
     [StrCell ''packet'', IntCell (int k), NoCell, NoCell, IntCell (stamps ! k), gap_at stamps k, NoCell, NoCell, NoCell, NoCell,
      StrCell (raw_words_text ws)]"

text \<open>A packet with its time stamp, its words and its events.\<close>

type_synonym packet_info = "u64 \<times> u16 list \<times> decoded_event list"

definition packet_info :: "data_packet \<Rightarrow> packet_info res" where
  "packet_info p =
     bind_res (get_header_timestamp p) (\<lambda>t. bind_res (get_raw_words p) (\<lambda>ws. bind_res (get_decoded_events p) (\<lambda>evs. Inr (t, ws, evs))))"

definition all_events :: "packet_info list \<Rightarrow> decoded_event list" where
  "all_events ins = concat (map (\<lambda>(t, ws, evs). evs) ins)"

definition rows_of_packet :: "packet_info list \<Rightarrow> nat \<Rightarrow> cell list list" where
  "rows_of_packet ins k =
     (case ins ! k of (t, ws, evs) \<Rightarrow>
        packet_row (map (\<lambda>(t, ws, evs). uint t) ins) ws k
        # map (event_row (map full_of (all_events ins)) k (length (all_events (take k ins))) evs) [0..<length evs])"

definition csv_table :: "packet_info list \<Rightarrow> cell list list" where
  "csv_table ins = csv_header # concat (map (rows_of_packet ins) [0..<length ins])"

section \<open>Writing it\<close>

definition out_text :: "string \<Rightarrow> script \<Rightarrow> string" where
  "out_text n s = dict_get_or (cs_files s) n []"

definition row_text :: "cell list list \<Rightarrow> string" where
  "row_text rows = concat (map (\<lambda>r. csv_line (map cell_text r)) rows)"

lemma row_text_simps [simp]: "row_text [] = []" "row_text (r # rs) = csv_line (map cell_text r) @ row_text rs"
  "row_text (rs @ qs) = row_text rs @ row_text qs"
  by (simp_all add: row_text_def)

lemma writerow_ok:
  "cs_out s = OpenAs n \<Longrightarrow> \<exists>files. writerow cells s = (s\<lparr>cs_files := files\<rparr>, None)
     \<and> dict_get_or files n [] = out_text n s @ csv_line (map cell_text cells)"
  by (auto simp: writerow_def out_text_def dict_get_or_def)

definition value_before :: "int list \<Rightarrow> nat \<Rightarrow> int option" where
  "value_before xs n = (if n = 0 then None else Some (xs ! (n - 1)))"

lemma gap_cell: "opt_cell (since (value_before xs n) (xs ! n)) = gap_at xs n"
  by (simp add: value_before_def since_def gap_at_def opt_cell_def)

lemma value_before_Suc: "value_before xs (Suc n) = Some (xs ! n)"
  by (simp add: value_before_def)

definition at_row :: "string \<Rightarrow> nat \<Rightarrow> int list \<Rightarrow> nat \<Rightarrow> script \<Rightarrow> bool" where
  "at_row n k fulls m s \<longleftrightarrow>
     cs_out s = OpenAs n \<and> cs_packets s = int k \<and> cs_events s = int m \<and> cs_prev_full s = value_before fulls m"

lemma events_written:
  assumes "at_row n k fulls (off + j) s" and "j \<le> length evs" and "\<And>i. i < length evs \<Longrightarrow> fulls ! (off + i) = full_of (evs ! i)"
  shows "\<exists>s'. process_events (int j) (value_before (map stamp_of evs) j) (drop j evs) s = (s', None)
      \<and> at_row n k fulls (off + length evs) s' \<and> cs_prev_packet s' = cs_prev_packet s
      \<and> out_text n s' = out_text n s @ row_text (map (event_row fulls k off evs) [j..<length evs])"
  using assms(1,2)
proof (induction "length evs - j" arbitrary: j s)
  case 0
  then show ?case by simp
next
  case (Suc d)
  then have j: "j < length evs" by simp
  have dropped: "drop j evs = evs ! j # drop (Suc j) evs" using j by (simp add: Cons_nth_drop_Suc)
  define s0 where "s0 = s\<lparr>cs_prev_full := Some (full_of (evs ! j))\<rparr>"
  have open_s: "cs_out s0 = OpenAs n" "out_text n s0 = out_text n s" using Suc.prems(1) by (simp_all add: s0_def at_row_def out_text_def)
  have cells: "[StrCell (type_text (ev_data (evs ! j))), IntCell (cs_packets s), IntCell (cs_events s), IntCell (int j), NoCell, NoCell,
      IntCell (stamp_of (evs ! j)), opt_cell (since (value_before (map stamp_of evs) j) (stamp_of (evs ! j))), IntCell (full_of (evs ! j)),
      opt_cell (since (cs_prev_full s) (full_of (evs ! j))), NoCell] = event_row fulls k off evs j"
    using Suc.prems(1) assms(3) [OF j] gap_cell [of "map stamp_of evs" j] gap_cell [of fulls "off + j"] j
    by (simp add: at_row_def event_row_def)
  obtain files where w: "writerow (event_row fulls k off evs j) s0 = (s0\<lparr>cs_files := files\<rparr>, None)"
      "dict_get_or files n [] = out_text n s @ csv_line (map cell_text (event_row fulls k off evs j))"
    using writerow_ok [OF open_s(1), of "event_row fulls k off evs j"] open_s(2) by auto
  define s1 where "s1 = s0\<lparr>cs_files := files, cs_events := cs_events s0 + 1\<rparr>"
  have step: "process_events (int j) (value_before (map stamp_of evs) j) (drop j evs) s
      = process_events (int (Suc j)) (value_before (map stamp_of evs) (Suc j)) (drop (Suc j) evs) s1"
    using w(1) j unfolding dropped
    by (simp add: Let_def stamp_of_def [symmetric] full_of_def [symmetric] cells s0_def [symmetric] value_before_Suc s1_def add.commute)
  have at: "at_row n k fulls (off + Suc j) s1"
    using Suc.prems(1) assms(3) [OF j] by (simp add: at_row_def s1_def s0_def value_before_Suc)
  have "d = length evs - Suc j" "Suc j \<le> length evs" using Suc.hyps(2) j by simp_all
  from Suc.hyps(1) [OF this(1) at this(2)] obtain s' where s': "process_events (int (Suc j)) (value_before (map stamp_of evs) (Suc j)) (drop (Suc j) evs) s1 = (s', None)"
      "at_row n k fulls (off + length evs) s'" "cs_prev_packet s' = cs_prev_packet s1"
      "out_text n s' = out_text n s1 @ row_text (map (event_row fulls k off evs) [Suc j..<length evs])" by blast
  have "out_text n s1 = out_text n s @ csv_line (map cell_text (event_row fulls k off evs j))"
    using w(2) by (simp add: out_text_def s1_def)
  with s' step show ?case by (auto simp: s1_def s0_def upt_rec [of j] j)
qed

definition at_packet :: "string \<Rightarrow> packet_info list \<Rightarrow> nat \<Rightarrow> script \<Rightarrow> bool" where
  "at_packet n ins k s \<longleftrightarrow>
     at_row n k (map full_of (all_events ins)) (length (all_events (take k ins))) s
     \<and> cs_prev_packet s = value_before (map (\<lambda>(t, ws, evs). uint t) ins) k"

lemma packet_info_parts:
  "packet_info p = Inr (t, ws, evs) \<longleftrightarrow> get_header_timestamp p = Inr t \<and> get_raw_words p = Inr ws \<and> get_decoded_events p = Inr evs"
  by (cases "get_header_timestamp p"; cases "get_raw_words p"; cases "get_decoded_events p") (auto simp: packet_info_def)

lemma nth_all_events:
  assumes "k < length ins" and "ins ! k = (t, ws, evs)" and "i < length evs"
  shows "length (all_events (take k ins)) + i < length (all_events ins)"
    and "all_events ins ! (length (all_events (take k ins)) + i) = evs ! i"
proof -
  have "all_events ins = all_events (take k ins) @ evs @ all_events (drop (Suc k) ins)"
  proof -
    have "all_events (take k ins @ (t, ws, evs) # drop (Suc k) ins) = all_events (take k ins) @ evs @ all_events (drop (Suc k) ins)"
      by (simp add: all_events_def)
    then show ?thesis using id_take_nth_drop [OF assms(1)] assms(2) by simp
  qed
  with assms(3) show "length (all_events (take k ins)) + i < length (all_events ins)"
    "all_events ins ! (length (all_events (take k ins)) + i) = evs ! i"
    by (simp_all add: nth_append)
qed

lemma all_events_Suc: "k < length ins \<Longrightarrow> ins ! k = (t, ws, evs) \<Longrightarrow> all_events (take (Suc k) ins) = all_events (take k ins) @ evs"
  by (simp add: all_events_def take_Suc_conv_app_nth)

lemma packet_written:
  assumes k: "k < length ins" and p: "packet_info p = Inr (ins ! k)" and s: "at_packet n ins k s"
  shows "\<exists>s'. process_packet p s = (s', None) \<and> at_packet n ins (Suc k) s' \<and> out_text n s' = out_text n s @ row_text (rows_of_packet ins k)"
proof -
  obtain t ws evs where ins: "ins ! k = (t, ws, evs)" by (cases "ins ! k")
  note parts = p [unfolded ins packet_info_parts]
  let ?fulls = "map full_of (all_events ins)" and ?off = "length (all_events (take k ins))"
    and ?stamps = "map (\<lambda>(t, ws, evs). uint t) ins"
  have now: "?stamps ! k = uint t" using k ins by simp
  define s1 where "s1 = s\<lparr>cs_prev_packet := Some (uint t)\<rparr>"
  have s1: "at_row n k ?fulls ?off s1" "cs_out s1 = OpenAs n" "out_text n s1 = out_text n s" "cs_packets s1 = int k"
    using s by (simp_all add: at_packet_def at_row_def s1_def out_text_def)
  have cells: "[StrCell ''packet'', IntCell (cs_packets s), NoCell, NoCell, IntCell (uint t),
      opt_cell (since (cs_prev_packet s) (uint t)), NoCell, NoCell, NoCell, NoCell, StrCell (raw_words_text ws)] = packet_row ?stamps ws k"
    using s s1(4) gap_cell [of ?stamps k] now by (simp add: packet_row_def at_packet_def at_row_def)
  obtain files where w: "writerow (packet_row ?stamps ws k) s1 = (s1\<lparr>cs_files := files\<rparr>, None)"
      "dict_get_or files n [] = out_text n s @ csv_line (map cell_text (packet_row ?stamps ws k))"
    using writerow_ok [OF s1(2), of "packet_row ?stamps ws k"] s1(3) by auto
  define s2 where "s2 = s1\<lparr>cs_files := files\<rparr>"
  have s2: "at_row n k ?fulls (?off + 0) s2" "cs_prev_packet s2 = Some (uint t)"
    "out_text n s2 = out_text n s @ csv_line (map cell_text (packet_row ?stamps ws k))"
    using s1(1) w(2) by (simp_all add: s2_def at_row_def out_text_def s1_def)
  have "?fulls ! (?off + i) = full_of (evs ! i)" if "i < length evs" for i
    using nth_all_events [OF k ins that] by simp
  from events_written [OF s2(1) _ this] obtain s3 where s3: "process_events 0 None evs s2 = (s3, None)"
      "at_row n k ?fulls (?off + length evs) s3" "cs_prev_packet s3 = Some (uint t)"
      "out_text n s3 = out_text n s2 @ row_text (map (event_row ?fulls k ?off evs) [0..<length evs])"
    using s2(2) by (auto simp: value_before_def)
  let ?s' = "s3\<lparr>cs_packets := cs_packets s3 + 1\<rparr>"
  have "process_packet p s = (?s', None)"
    using parts by (simp add: process_packet_def Let_def s1_def [symmetric] cells w(1) s2_def [symmetric] s3(1))
  moreover have "at_packet n ins (Suc k) ?s'"
    using s3(2,3) all_events_Suc [OF k ins] now by (simp add: at_packet_def at_row_def value_before_Suc)
  moreover have "out_text n ?s' = out_text n s @ row_text (rows_of_packet ins k)"
    using s3(4) s2(3) by (simp add: out_text_def rows_of_packet_def ins)
  ultimately show ?thesis by blast
qed

lemma packets_written:
  assumes "traverse packet_info ps = Inr ins"
  shows "k \<le> length ins \<Longrightarrow> at_packet n ins k s \<Longrightarrow>
    \<exists>s'. for_each process_packet (drop k ps) s = (s', None) \<and> at_packet n ins (length ins) s'
      \<and> out_text n s' = out_text n s @ row_text (concat (map (rows_of_packet ins) [k..<length ins]))"
proof (induction "length ins - k" arbitrary: k s)
  case 0
  have "length ps = length ins" using assms by (auto simp: traverse_Inr_iff list_all2_conv_all_nth)
  with 0 show ?case by simp
next
  case (Suc d)
  then have k: "k < length ins" by simp
  have len: "length ps = length ins" "\<And>i. i < length ps \<Longrightarrow> packet_info (ps ! i) = Inr (ins ! i)"
    using assms by (auto simp: traverse_Inr_iff list_all2_conv_all_nth)
  with k have p: "packet_info (ps ! k) = Inr (ins ! k)" by simp
  from packet_written [OF k p Suc.prems(2)] obtain s1 where s1: "process_packet (ps ! k) s = (s1, None)"
      "at_packet n ins (Suc k) s1" "out_text n s1 = out_text n s @ row_text (rows_of_packet ins k)" by blast
  have "d = length ins - Suc k" "Suc k \<le> length ins" using Suc.hyps(2) k by simp_all
  from Suc.hyps(1) [OF this s1(2)] obtain s' where "for_each process_packet (drop (Suc k) ps) s1 = (s', None)"
      "at_packet n ins (length ins) s'"
      "out_text n s' = out_text n s1 @ row_text (concat (map (rows_of_packet ins) [Suc k..<length ins]))" by blast
  with s1 k len(1) show ?case by (simp add: Cons_nth_drop_Suc [symmetric] upt_rec [of k])
qed

lemma length_words_of: "length (words_of bs) = length bs div 2"
  by (induction bs rule: words_of.induct) auto

lemma packet_info_ok:
  assumes "valid_received rp" and "rp_bytes rp \<le> PacketBytes"
  shows "\<exists>i. packet_info (rp_packet rp) = Inr i"
proof -
  have valid: "is_valid_data_packet rp" and ok: "packet_ok (rp_packet rp)" using assms(1) by (simp_all add: valid_received_def)
  have "unat (dp_buffer_length (rp_packet rp)) * 2 \<le> PacketBytes"
    using valid assms(2) by (simp add: is_valid_data_packet_def Let_def)
  then obtain ws where "get_raw_words (rp_packet rp) = Inr ws"
    by (simp add: get_raw_words_def Let_def length_words_of length_packet_bytes [OF ok] less_eq_div_iff_mult_less_eq)
  moreover obtain evs where "get_decoded_events (rp_packet rp) = Inr evs"
  proof -
    have "decode_event (rp_packet rp) i = Inr (decode_word (event_word (rp_packet rp) i) (dp_device_id (rp_packet rp))
        (dp_buffer_type (rp_packet rp)) (to_48bit_value (dp_time (rp_packet rp) ! 0) (dp_time (rp_packet rp) ! 1) (dp_time (rp_packet rp) ! 2)))"
      if "i < get_event_count (rp_packet rp)" for i
      using raw_event_ok(2) [OF valid ok that] header_values_ok(1) [OF ok] by (simp add: decode_event_def)
    then have "get_decoded_events (rp_packet rp) = Inr (map (\<lambda>i. decode_word (event_word (rp_packet rp) i) (dp_device_id (rp_packet rp))
        (dp_buffer_type (rp_packet rp)) (to_48bit_value (dp_time (rp_packet rp) ! 0) (dp_time (rp_packet rp) ! 1) (dp_time (rp_packet rp) ! 2)))
        [0..<get_event_count (rp_packet rp)])"
      unfolding get_decoded_events_def by (intro traverse_all_ok) simp
    then show thesis by (rule that)
  qed
  ultimately show ?thesis by (auto simp: packet_info_def header_values_ok(1) [OF ok])
qed

lemma csv_file_written:
  assumes "traverse packet_info ps = Inr ins" and "script_start denied listfile xs (new_script files) = (s0, None)"
  shows "\<exists>s. for_each process_packet ps s0 = (s, None) \<and> cs_packets s = int (length ps) \<and> cs_events s = int (length (all_events ins))
      \<and> csv_rows (out_text (csv_output_name listfile) s) = map (map cell_text) (csv_table ins)"
proof -
  let ?n = "csv_output_name listfile"
  have s0: "cs_out s0 = OpenAs ?n" "cs_packets s0 = 0" "cs_events s0 = 0" "cs_prev_full s0 = None" "cs_prev_packet s0 = None"
    "out_text ?n s0 = csv_line (map cell_text csv_header)"
    using assms(2) by (auto simp: script_start_def Let_def writerow_def new_script_def print_line_def out_text_def dict_get_or_def
        split: option.splits)
  then have "at_packet ?n ins 0 s0" by (simp add: at_packet_def at_row_def value_before_def all_events_def)
  from packets_written [OF assms(1) _ this] obtain s where s: "for_each process_packet ps s0 = (s, None)" "at_packet ?n ins (length ins) s"
      "out_text ?n s = out_text ?n s0 @ row_text (concat (map (rows_of_packet ins) [0..<length ins]))" by auto
  have len: "length ps = length ins" using assms(1) by (auto simp: traverse_Inr_iff list_all2_conv_all_nth)
  have nonempty: "list_all (\<lambda>r. r \<noteq> []) (map (map cell_text) (csv_table ins))"
    by (auto simp: csv_table_def csv_header_def rows_of_packet_def packet_row_def event_row_def list_all_iff split: prod.splits)
  have "out_text ?n s = concat (map csv_line (map (map cell_text) (csv_table ins)))"
    using s(3) s0(6) by (simp add: csv_table_def row_text_def comp_def)
  then have "csv_rows (out_text ?n s) = map (map cell_text) (csv_table ins)" by (simp only: csv_read_back [OF nonempty])
  with s(1,2) len show ?thesis by (auto simp: at_packet_def at_row_def)
qed

text \<open>
  C35. The CSV file is complete: after the script has started and processed any valid packets, reading its
  file back gives the header and, for every packet in order, its row and one row per event, with
  running numbers of packets and events, the numbers within the packet, the time stamps, and their
  differences to the packet, the event of the packet and the event before; and it counted them all.
\<close>

theorem csv_file_complete:
  assumes "list_all (\<lambda>rp. valid_received rp \<and> rp_bytes rp \<le> PacketBytes) rps"
    and "script_start denied listfile xs (new_script files) = (s0, None)"
  shows "\<exists>ins s. traverse packet_info (map rp_packet rps) = Inr ins \<and> for_each process_packet (map rp_packet rps) s0 = (s, None)
      \<and> csv_rows (out_text (csv_output_name listfile) s) = map (map cell_text) (csv_table ins)
      \<and> cs_packets s = int (length rps) \<and> cs_events s = int (length (all_events ins))"
proof -
  have "\<exists>i. packet_info p = Inr i" if "p \<in> set (map rp_packet rps)" for p
    using that assms(1) packet_info_ok by (auto simp: list_all_iff)
  then have "traverse packet_info (map rp_packet rps) = Inr (map (\<lambda>p. projr (packet_info p)) (map rp_packet rps))"
    by (intro traverse_all_ok) force
  with csv_file_written [OF this assms(2)] show ?thesis by auto
qed

lemma csv_file_complete_witness:
  "\<exists>ins s. traverse packet_info (map rp_packet [sample_mdll]) = Inr ins
      \<and> for_each process_packet (map rp_packet [sample_mdll]) (fst (script_start (\<lambda>_. None) ''run.mdat'' [] (new_script []))) = (s, None)
      \<and> csv_rows (out_text ''run.csv'' s) = map (map cell_text) (csv_table ins)
      \<and> cs_packets s = int (length [sample_mdll]) \<and> cs_events s = int (length (all_events ins))"
proof -
  have "valid_received sample_mdll" by (simp add: sample_mdll_def sample_valid)
  moreover have "rp_bytes sample_mdll \<le> PacketBytes" by (simp add: sample_mdll_def sample_received_def PacketBytes_def
        DataPacketHeaderWords_def DataPacketMaxDataWords_def)
  moreover have "snd (script_start (\<lambda>_. None) ''run.mdat'' [] (new_script [])) = None"
    by (simp add: script_start_def Let_def writerow_def)
  moreover have "csv_output_name ''run.mdat'' = ''run.csv''" by code_simp
  ultimately show ?thesis
    using csv_file_complete [of "[sample_mdll]" "\<lambda>_. None" "''run.mdat''" "[]" "[]"] by (cases "script_start (\<lambda>_. None) ''run.mdat'' [] (new_script [])") auto
qed

end
