(* ===== verification/Gui_Start.thy ===== *)
theory Gui_Start
  imports Main_Window_Facts Py_Os
begin

text \<open>
  The rest of \<open>src/gui/main_window.py\<close>: the log handler and the log view, what \<open>_setup_ui\<close> sets up
  besides menus, docks and connections, the embedded font, and \<open>main\<close>; and \<open>src/gui/__init__.py\<close>.

  \<open>argparse\<close>, \<open>platformdirs\<close> and Qt's font database are arguments: what they answer is in
  \<open>start_env\<close>.
\<close>

section \<open>Logging\<close>

text \<open>Level numbers and names of \<open>logging\<close>; several names have one number.\<close>

definition level_numbers :: "(string \<times> int) list" where
  "level_numbers =
     [(''CRITICAL'', 50), (''FATAL'', 50), (''ERROR'', 40), (''WARN'', 30), (''WARNING'', 30), (''INFO'', 20), (''DEBUG'', 10),
      (''NOTSET'', 0)]"

text \<open>\<open>logging.getLevelName(levelno)\<close>\<close>

definition level_name :: "int \<Rightarrow> string" where
  "level_name n =
     (if n = 50 then ''CRITICAL'' else if n = 40 then ''ERROR'' else if n = 30 then ''WARNING'' else if n = 20 then ''INFO''
      else if n = 10 then ''DEBUG'' else if n = 0 then ''NOTSET'' else ''Level '' @ show_int n)"

text \<open>A record: its level, its message and the local time it was made at.\<close>

record log_record =
  lr_level :: int
  lr_message :: string
  lr_hour :: nat
  lr_minute :: nat
  lr_second :: nat

definition two_digits :: "nat \<Rightarrow> string" where
  "two_digits n = zero_pad 2 (show_nat n)"

text \<open>The formatter of \<open>QtLogHandler.__init__\<close>\<close>

definition format_record :: "log_record \<Rightarrow> string" where
  "format_record r =
     two_digits (lr_hour r) @ '':'' @ two_digits (lr_minute r) @ '':'' @ two_digits (lr_second r) @ '' ''
       @ level_name (lr_level r) @ '' '' @ lr_message r"

text \<open>\<open>QtLogHandler.emit\<close>: the level and the text of the signal \<open>message\<close>.\<close>

definition handler_emit :: "log_record \<Rightarrow> int \<times> string" where
  "handler_emit r = (lr_level r, format_record r)"

text \<open>\<open>_append_log\<close> for the numbers of levels: the thresholds are \<open>WARNING\<close> and \<open>ERROR\<close>.\<close>

definition level_of_number :: "int \<Rightarrow> level" where
  "level_of_number n = (if 40 \<le> n then Error else if 30 \<le> n then Warning else if 20 \<le> n then Info else Debug)"

text \<open>
  The view: read only, its blocks in order, of which \<open>setMaximumBlockCount\<close> keeps the last ones.
  Plain text makes one block per line, HTML one.
\<close>

definition MaxLogBlocks :: nat where
  "MaxLogBlocks = 10000"

definition keep_last :: "nat \<Rightarrow> 'a list \<Rightarrow> 'a list" where
  "keep_last n xs = drop (length xs - n) xs"

definition line_blocks :: "log_line \<Rightarrow> log_line list" where
  "line_blocks l =
     (case l of LogHtml t \<Rightarrow> [LogHtml t] | LogPlain t \<Rightarrow> map LogPlain (split_on (CHR 0x0A) t))"

definition view_append :: "log_line \<Rightarrow> log_line list \<Rightarrow> log_line list" where
  "view_append l bs = keep_last MaxLogBlocks (bs @ line_blocks l)"

definition log_to_view :: "log_record \<Rightarrow> log_line list \<Rightarrow> log_line list" where
  "log_to_view r bs = (case handler_emit r of (n, t) \<Rightarrow> view_append (append_log (level_of_number n) t) bs)"

text \<open>A logger with the handlers of the root logger: records below its level are dropped.\<close>

definition root_log :: "int \<Rightarrow> log_record \<Rightarrow> log_line list \<Rightarrow> log_line list" where
  "root_log lvl r bs = (if lvl \<le> lr_level r then log_to_view r bs else bs)"

text \<open>\<open>_log_context_menu\<close>: the standard entries, a separator and \<open>Clear\<close>, which clears the view.\<close>

definition log_context_menu :: "string list \<Rightarrow> string option list" where
  "log_context_menu standard = map Some standard @ [None, Some ''Clear'']"

definition log_menu_chosen :: "string \<Rightarrow> log_line list \<Rightarrow> log_line list" where
  "log_menu_chosen entry bs = (if entry = ''Clear'' then [] else bs)"

section \<open>The rest of the window\<close>

text \<open>\<open>StatsTable.__init__\<close>\<close>

record table_setup =
  ts_rows :: nat
  ts_labels :: "string list"
  ts_editable :: bool
  ts_row_header :: bool
  ts_stretch_last :: bool

definition new_stats_table :: table_setup where
  "new_stats_table =
     \<lparr>ts_rows = 0, ts_labels = stats_columns, ts_editable = False, ts_row_header = False, ts_stretch_last = True\<rparr>"

text \<open>Title, size, central widget and status bar of the window.\<close>

definition window_frame :: "string \<times> (nat \<times> nat) \<times> string \<times> string" where
  "window_frame = (window_title None, (1600, 1000), ''dock_area'', ''QStatusBar'')"

text \<open>The parts that \<open>_setup_ui\<close> makes: attribute, class and what its constructor gets.\<close>

definition window_parts :: "(string \<times> string \<times> string list) list" where
  "window_parts =
     [(''dock_area'', ''DockArea'', []), (''daq_panel'', ''DaqPanel'', []),
      (''device_panel'', ''DevicePanel'', [''setup'', ''workers'']),
      (''pulser_test'', ''PulserTest'', [''workers'', ''setup.devices'', ''self'']),
      (''pulser_test_panel'', ''PulserTestPanel'', [''pulser_test'']), (''stats_table'', ''StatsTable'', []),
      (''log_view'', ''QPlainTextEdit'', []), (''log_handler'', ''QtLogHandler'', []),
      (''console'', ''ConsoleWidget'', [''mcpd'', ''daq'', ''mainwin'', ''setup''])]"

text \<open>The log view's settings and connections, and its handler.\<close>

record log_setup =
  ls_read_only :: bool
  ls_max_blocks :: nat
  ls_font :: string
  ls_menu_policy :: string
  ls_connections :: connection_list
  ls_root_handlers :: "string list"

definition log_view_setup :: "string list \<Rightarrow> log_setup" where
  "log_view_setup root_handlers =
     \<lparr>ls_read_only = True, ls_max_blocks = MaxLogBlocks, ls_font = ''FixedFont'', ls_menu_policy = ''CustomContextMenu'',
      ls_connections = [(''log_view'', ''customContextMenuRequested'', ''_log_context_menu''),
        (''log_handler'', ''message'', ''_append_log'')],
      ls_root_handlers = root_handlers @ [''log_handler'']\<rparr>"

section \<open>Fonts\<close>

text \<open>
  Qt's answers: the data of a file, \<open>None\<close> when it cannot be opened, the id of a font added from
  data and the families of an id.
\<close>

record font_db =
  fd_read :: "string \<Rightarrow> int list option"
  fd_add :: "int list \<Rightarrow> int"
  fd_families :: "int \<Rightarrow> string list"

definition add_qt_font :: "font_db \<Rightarrow> string \<Rightarrow> string option res" where
  "add_qt_font db path =
     (case fd_read db path of
        None \<Rightarrow> Inr None
      | Some blob \<Rightarrow>
          let font_id = fd_add db blob in
          if 0 \<le> font_id then
            (case fd_families db font_id of [] \<Rightarrow> Inl IndexError | f # _ \<Rightarrow> Inr (Some f))
          else Inr None)"

section \<open>The start\<close>

definition SigintPollInterval_ms :: int where
  "SigintPollInterval_ms = 200"

definition default_setup_path :: "(string \<Rightarrow> string) \<Rightarrow> string" where
  "default_setup_path user_config_path =
     show_path (path_join (parse_path (user_config_path ''mesytec-mcpd'')) (parse_path ''mcpd_gui_setup.json''))"

record gui_args =
  ga_setup :: "string option"
  ga_log_level :: string

text \<open>The arguments that \<open>main\<close> declares: name, number, default, help.\<close>

definition gui_arguments :: "string \<Rightarrow> (string \<times> string \<times> string option \<times> string) list" where
  "gui_arguments default_path =
     [(''setup'', ''?'', None, ''setup file (default: last used setup or '' @ default_path @ '')''),
      (''--log-level'', [], Some ''info'', [])]"

text \<open>
  The outside of \<open>main\<close>: \<open>parser.parse_args()\<close> for the declared arguments (it may end the
  program), the configuration directory, the font database and the point size of a font.
\<close>

record start_env =
  st_parse :: "(string \<times> string \<times> string option \<times> string) list \<Rightarrow> gui_args res"
  st_config_path :: "string \<Rightarrow> string"
  st_fonts :: font_db
  st_point_size :: "string \<Rightarrow> rat"

definition upper_char :: "char \<Rightarrow> char" where
  "upper_char c = (if 97 \<le> (of_char c :: nat) \<and> (of_char c :: nat) \<le> 122 then char_of ((of_char c :: nat) - 32) else c)"

text \<open>\<open>logging.basicConfig(level=name)\<close>\<close>

definition basic_config :: "string \<Rightarrow> int res" where
  "basic_config name =
     (case dict_get level_numbers name of
        None \<Rightarrow> Inl (ValueError (''Unknown level: '' @ repr_str name))
      | Some n \<Rightarrow> Inr n)"

definition font_file :: string where
  "font_file = '':/fonts/Roboto-VariableFont_wdth,wght.ttf''"

text \<open>
  The running program: its window, font, log levels (of Python and of the library), the names and
  options set, what \<open>main\<close> logged before the window existed, and the interval of the signal timer.
\<close>

record ('w, 'c) gui_program =
  gp_window :: "('w, 'c) window"
  gp_font :: "(string \<times> rat) option"
  gp_root_level :: int
  gp_library_level :: string
  gp_names :: "string \<times> string"
  gp_plot_options :: "(string \<times> pyval) list"
  gp_logged :: "string option"
  gp_poll_ms :: int

definition gui_main ::
  "start_env \<Rightarrow> ('w, 'c) win_env \<Rightarrow> 'w \<Rightarrow> (string, pyval) dict \<Rightarrow> (string, pyval) dict \<Rightarrow> ('w, 'c) gui_program res" where
  "gui_main senv env n0 files stored =
     (let default_path = default_setup_path (st_config_path senv) in
      bind_res (st_parse senv (gui_arguments default_path)) (\<lambda>args.
      bind_res (basic_config (map upper_char (ga_log_level args))) (\<lambda>lvl.
      bind_res (add_qt_font (st_fonts senv) font_file) (\<lambda>roboto.
      let font = map_option (\<lambda>f. (f, st_point_size senv f * (8 / 10))) roboto;
          p = choose_setup_path (ga_setup args) default_path (\<lambda>q. dict_get files q \<noteq> None) stored;
          (s, msg) = initial_setup env files p
      in bind_res (new_window env n0 s (Some p) files stored) (\<lambda>w.
         Inr \<lparr>gp_window = w, gp_font = font, gp_root_level = lvl, gp_library_level = ga_log_level args,
              gp_names = (''mesytec-mcpd-gui'', ''mesytec''),
              gp_plot_options = [(''antialias'', PBool True), (''imageAxisOrder'', PStr ''row-major'')],
              gp_logged = (if lvl \<le> 40 then msg else None), gp_poll_ms = SigintPollInterval_ms\<rparr>)))))"

text \<open>The handler of \<open>SIGINT\<close> closes the window.\<close>

definition on_sigint :: "('w, 'c) win_env \<Rightarrow> ('w, 'c) gui_program \<Rightarrow> ('w, 'c) gui_program" where
  "on_sigint env g = g\<lparr>gp_window := close_event env (gp_window g)\<rparr>"

text \<open>\<open>main\<close> of \<open>__init__.py\<close>: \<open>e\<close> is the \<open>ImportError\<close> of the window's module, if any; the message of \<open>sys.exit\<close>.\<close>

definition gui_entry :: "string option \<Rightarrow> 'a res \<Rightarrow> 'a res" where
  "gui_entry e run =
     (case e of
        Some t \<Rightarrow> Inl (OtherExc (''SystemExit: '' @ t @ [CHR 0x0A]
            @ ''The GUI requires additional dependencies: pip install '' @ [CHR 0x27] @ ''mesytec-mcpd[gui]'' @ [CHR 0x27]))
      | None \<Rightarrow> run)"

section \<open>Facts\<close>

lemma length_keep_last: "length (keep_last n xs) = min n (length xs)"
  by (simp add: keep_last_def)

lemma view_bounded: "length (view_append l bs) \<le> MaxLogBlocks"
  by (simp add: view_append_def length_keep_last)

lemma keep_last_append: "keep_last n (keep_last n xs @ ys) = keep_last n (xs @ ys)"
  by (cases "length xs \<le> n") (auto simp: keep_last_def intro!: arg_cong [where f = "\<lambda>k. drop k xs"])

text \<open>The view shows the end of everything that was logged.\<close>

lemma view_of_log: "fold view_append ls (keep_last MaxLogBlocks bs) = keep_last MaxLogBlocks (bs @ concat (map line_blocks ls))"
proof (induction ls arbitrary: bs)
  case (Cons l ls)
  show ?case using Cons.IH [of "bs @ line_blocks l"] by (simp add: view_append_def keep_last_append)
qed simp

lemma initial_setup_ok:
  assumes "\<And>s. dict_get files p \<noteq> None \<Longrightarrow> read_setup env files p = Inr s \<Longrightarrow>
      (\<forall>c \<in> set (devices s). cfg_ok c) \<and> 0 \<le> data_port s \<and> data_port s < 2 ^ 16"
  shows "(\<forall>c \<in> set (devices (fst (initial_setup env files p))). cfg_ok c) \<and> 0 \<le> data_port (fst (initial_setup env files p))
      \<and> data_port (fst (initial_setup env files p)) < 2 ^ 16"
  using assms by (auto simp: initial_setup_def new_setup_def DefaultPort_def split: sum.splits)

definition fonts_ok :: "font_db \<Rightarrow> bool" where
  "fonts_ok db \<longleftrightarrow> (\<forall>blob. 0 \<le> fd_add db blob \<longrightarrow> fd_families db (fd_add db blob) \<noteq> [])"

lemma add_qt_font_ok: "fonts_ok db \<Longrightarrow> \<exists>f. add_qt_font db path = Inr f"
  by (auto simp: add_qt_font_def fonts_ok_def Let_def split: option.split list.split)


definition sample_start :: start_env where
  "sample_start =
     \<lparr>st_parse = (\<lambda>_. Inr \<lparr>ga_setup = None, ga_log_level = ''info''\<rparr>), st_config_path = (\<lambda>a. ''/home/user/.config/'' @ a),
      st_fonts = \<lparr>fd_read = (\<lambda>_. None), fd_add = (\<lambda>_. -1), fd_families = (\<lambda>_. [])\<rparr>, st_point_size = (\<lambda>_. 10)\<rparr>"


end
