(* ===== verification/Resources.thy ===== *)
theory Resources
  imports Gui_Start "HOL-Library.Word"
begin

text \<open>
  The tables of the embedded fonts (\<open>src/gui/resources.py\<close>, which Qt's resource compiler wrote): the
  names and the tree, byte by byte.  The contents of the files (\<open>qt_resource_data\<close>, \<open>87000\<close> lines) are
  not modelled; nothing here depends on them.

  How Qt reads the tables (format version 3) is written down for the theorems: big endian numbers;
  a tree entry is the offset of its name (4 bytes), flags (2), for a directory the number and the
  index of its children (4 and 4), for a file its language and the offset of its data (4 and 4), and
  a time (8); a name is its length (2), a hash (4) and its UTF-16 characters.
\<close>

section \<open>The tables\<close>

definition qt_resource_name :: "int list" where
  "qt_resource_name =
     [0, 5, 0, 109, 101, 179, 0, 102, 0, 111, 0, 110, 0, 116, 0, 115, 0, 32, 15, 24, 139, 38, 0, 82, 0, 111, 0, 98,
      0, 111, 0, 116, 0, 111, 0, 77, 0, 111, 0, 110, 0, 111, 0, 45, 0, 86, 0, 97, 0, 114, 0, 105, 0, 97, 0, 98, 0,
      108, 0, 101, 0, 70, 0, 111, 0, 110, 0, 116, 0, 95, 0, 119, 0, 103, 0, 104, 0, 116, 0, 46, 0, 116, 0, 116, 0,
      102, 0, 33, 3, 29, 139, 70, 0, 82, 0, 111, 0, 98, 0, 111, 0, 116, 0, 111, 0, 45, 0, 86, 0, 97, 0, 114, 0,
      105, 0, 97, 0, 98, 0, 108, 0, 101, 0, 70, 0, 111, 0, 110, 0, 116, 0, 95, 0, 119, 0, 100, 0, 116, 0, 104, 0,
      44, 0, 119, 0, 103, 0, 104, 0, 116, 0, 46, 0, 116, 0, 116, 0, 102, 0, 40, 0, 255, 193, 198, 0, 82, 0, 111, 0,
      98, 0, 111, 0, 116, 0, 111, 0, 45, 0, 73, 0, 116, 0, 97, 0, 108, 0, 105, 0, 99, 0, 45, 0, 86, 0, 97, 0, 114,
      0, 105, 0, 97, 0, 98, 0, 108, 0, 101, 0, 70, 0, 111, 0, 110, 0, 116, 0, 95, 0, 119, 0, 100, 0, 116, 0, 104,
      0, 44, 0, 119, 0, 103, 0, 104, 0, 116, 0, 46, 0, 116, 0, 116, 0, 102, 0, 39, 12, 164, 126, 230, 0, 82, 0,
      111, 0, 98, 0, 111, 0, 116, 0, 111, 0, 77, 0, 111, 0, 110, 0, 111, 0, 45, 0, 73, 0, 116, 0, 97, 0, 108, 0,
      105, 0, 99, 0, 45, 0, 86, 0, 97, 0, 114, 0, 105, 0, 97, 0, 98, 0, 108, 0, 101, 0, 70, 0, 111, 0, 110, 0, 116,
      0, 95, 0, 119, 0, 103, 0, 104, 0, 116, 0, 46, 0, 116, 0, 116, 0, 102]"

definition qt_resource_struct :: "int list" where
  "qt_resource_struct =
     [0, 0, 0, 0, 0, 2, 0, 0, 0, 1, 0, 0, 0, 1, 0, 0, 0, 0, 0, 0, 0, 0, 0, 0, 0, 0, 0, 2, 0, 0, 0, 4, 0, 0, 0, 2,
      0, 0, 0, 0, 0, 0, 0, 0, 0, 0, 0, 158, 0, 0, 0, 0, 0, 1, 0, 10, 53, 236, 0, 0, 1, 156, 247, 16, 65, 68, 0, 0,
      0, 86, 0, 0, 0, 0, 0, 1, 0, 2, 196, 144, 0, 0, 1, 156, 247, 16, 65, 95, 0, 0, 0, 244, 0, 0, 0, 0, 0, 1, 0,
      18, 76, 116, 0, 0, 1, 156, 247, 16, 98, 76, 0, 0, 0, 16, 0, 0, 0, 0, 0, 1, 0, 0, 0, 0, 0, 0, 1, 156, 247, 16,
      98, 100]"

text \<open>Qt's registered resources: version, tree, names.\<close>

type_synonym resource_root = "int \<times> int list \<times> int list"

definition gui_root :: resource_root where
  "gui_root = (3, qt_resource_struct, qt_resource_name)"

definition qInitResources :: "resource_root list \<Rightarrow> resource_root list" where
  "qInitResources roots = roots @ [gui_root]"

definition qCleanupResources :: "resource_root list \<Rightarrow> resource_root list" where
  "qCleanupResources roots = remove1 gui_root roots"

section \<open>Reading the tables\<close>

definition big_endian :: "int list \<Rightarrow> int" where
  "big_endian bs = fold (\<lambda>b n. n * 256 + b) bs 0"

definition field :: "int list \<Rightarrow> nat \<Rightarrow> nat \<Rightarrow> int" where
  "field bs i n = big_endian (take n (drop i bs))"

record tree_entry =
  te_name :: nat
  te_directory :: bool
  te_first :: int
  te_second :: int

definition entry_at :: "int list \<Rightarrow> nat \<Rightarrow> tree_entry" where
  "entry_at tree i =
     (let bs = take 22 (drop (22 * i) tree) in
      \<lparr>te_name = nat (field bs 0 4), te_directory = (field bs 4 2 = 2), te_first = field bs 6 4, te_second = field bs 10 4\<rparr>)"

fun utf16_chars :: "int list \<Rightarrow> string" where
  "utf16_chars (hi # lo # bs) = char_of (hi * 256 + lo) # utf16_chars bs"
| "utf16_chars bs = []"

definition name_at :: "int list \<Rightarrow> nat \<Rightarrow> string" where
  "name_at names off = (let bs = drop off names in utf16_chars (take (2 * nat (field bs 0 2)) (drop 6 bs)))"

definition hash_at :: "int list \<Rightarrow> nat \<Rightarrow> int" where
  "hash_at names off = field (drop off names) 2 4"

definition children_of :: "int list \<Rightarrow> nat \<Rightarrow> nat list" where
  "children_of tree i = (let e = entry_at tree i in if te_directory e then [nat (te_second e)..<nat (te_second e + te_first e)] else [])"

text \<open>The files below an entry, to a depth.\<close>

fun files_below :: "nat \<Rightarrow> int list \<Rightarrow> int list \<Rightarrow> string \<Rightarrow> nat \<Rightarrow> string list" where
  "files_below 0 tree names path i = []"
| "files_below (Suc depth) tree names path i =
     (if te_directory (entry_at tree i) then
        concat (map (\<lambda>j. files_below depth tree names (path @ ''/'' @ name_at names (te_name (entry_at tree j))) j) (children_of tree i))
      else [path])"

definition resource_files :: "resource_root \<Rightarrow> string list" where
  "resource_files tab = (case tab of (v, tree, names) \<Rightarrow> files_below 8 tree names '':'' 0)"

text \<open>The hash by which the children of a directory are searched.\<close>

definition hash_step :: "char \<Rightarrow> int \<Rightarrow> int" where
  "hash_step c h =
     (let h1 = h * 16 + of_char c; g = h1 div 2 ^ 28 mod 16 in xor h1 (g * 2 ^ 5) mod 2 ^ 28)"

definition qt_hash :: "string \<Rightarrow> int" where
  "qt_hash s = fold hash_step s 0"

section \<open>What is in the tables\<close>

lemma embedded_files:
  "resource_files gui_root =
     ['':/fonts/Roboto-Italic-VariableFont_wdth,wght.ttf'', '':/fonts/Roboto-VariableFont_wdth,wght.ttf'',
      '':/fonts/RobotoMono-Italic-VariableFont_wght.ttf'', '':/fonts/RobotoMono-VariableFont_wght.ttf'']"
  by code_simp

lemma children_sorted:
  "list_all (\<lambda>i. sorted_wrt (<) (map (\<lambda>j. hash_at qt_resource_name (te_name (entry_at qt_resource_struct j))) (children_of qt_resource_struct i))) [0, 1]"
  by code_simp

lemma hashes_match:
  "list_all (\<lambda>j. hash_at qt_resource_name (te_name (entry_at qt_resource_struct j))
       = qt_hash (name_at qt_resource_name (te_name (entry_at qt_resource_struct j)))) [1..<6]"
  by code_simp

text \<open>The font that the program asks for at its start is embedded.\<close>

lemma font_is_embedded: "list_ex (\<lambda>tab. font_file \<in> set (resource_files tab)) (qInitResources roots)"
  by (simp add: qInitResources_def embedded_files font_file_def)

end
