(* ===== verification/Protocol.thy ===== *)
theory Protocol
  imports Packets Bindings
begin

text \<open>
  The command protocol of MCPD and MDLL (\<open>src/mesytec-mcpd/mcpd_core.h\<close>, \<open>mcpd_functions.cc\<close>,
  \<open>mdll_functions.cc\<close>) and the UDP sockets below it (\<open>util/udp_sockets.cc\<close>): command packets and their
  checksum, a transaction with its repetitions, and one function per command.

  The operating system is an argument, the record \<open>sockets\<close> over a state \<open>'n\<close> of the network.  The
  POSIX branch of the sources is modelled, and a build without assertions.
\<close>

section \<open>Errors and results\<close>

text \<open>
  \<open>std::error_code\<close> by category: an \<open>errno\<close>, an error of \<open>lookup\<close>, the error value of a response, a
  \<open>std::errc\<close>.
\<close>

datatype socket_error = EmptyHostname | HostLookupError

datatype error_code = System int | Socket socket_error | Device u8 | Errc int

definition EAGAIN :: int where "EAGAIN = 11"
definition EBADF :: int where "EBADF = 9"
definition EPROTO :: int where "EPROTO = 71"
definition ETIMEDOUT :: int where "ETIMEDOUT = 110"

definition protocol_error :: error_code where
  "protocol_error = Errc EPROTO"

definition timed_out :: error_code where
  "timed_out = Errc ETIMEDOUT"

text \<open>\<open>ec == SocketErrorType::Timeout\<close> and \<open>ec == std::errc::timed_out\<close>\<close>

definition is_timeout :: "error_code \<Rightarrow> bool" where
  "is_timeout e = (e = System EAGAIN)"

definition is_timed_out :: "error_code \<Rightarrow> bool" where
  "is_timed_out e = (e = Errc ETIMEDOUT \<or> e = System ETIMEDOUT)"

text \<open>
  The result of a function that sends and receives: a value, an error, or \<open>Wild\<close>, a read outside of
  a packet, whose behaviour C++ does not define.
\<close>

datatype 'a wire = Value 'a | Failed error_code | Wild

type_synonym ('n, 'a) tx = "'n \<Rightarrow> 'n \<times> 'a wire"

definition ok_tx :: "'a \<Rightarrow> ('n, 'a) tx" where
  "ok_tx a n = (n, Value a)"

definition fail_tx :: "error_code \<Rightarrow> ('n, 'a) tx" where
  "fail_tx e n = (n, Failed e)"

definition bind_tx :: "('n, 'a) tx \<Rightarrow> ('a \<Rightarrow> ('n, 'b) tx) \<Rightarrow> ('n, 'b) tx" where
  "bind_tx m f n =
     (case m n of (n', Value a) \<Rightarrow> f a n' | (n', Failed e) \<Rightarrow> (n', Failed e) | (n', Wild) \<Rightarrow> (n', Wild))"

section \<open>Sockets\<close>

text \<open>
  What the operating system does: an \<open>int\<close> in an answer is an \<open>errno\<close>.  \<open>so_lookup\<close>: the first IPv4
  address that \<open>getaddrinfo\<close> finds; \<open>so_timeout n s r ms\<close>: \<open>setsockopt\<close> for reads (\<open>r\<close>) or writes;
  \<open>so_recv\<close>: a datagram; \<open>so_strerror\<close>: the text of an \<open>errno\<close>.
\<close>

record 'n sockets =
  so_lookup :: "'n \<Rightarrow> string \<Rightarrow> 'n \<times> u32 option"
  so_socket :: "'n \<Rightarrow> 'n \<times> (int + nat)"
  so_bind :: "'n \<Rightarrow> nat \<Rightarrow> u16 \<Rightarrow> 'n \<times> int option"
  so_connect :: "'n \<Rightarrow> nat \<Rightarrow> u32 \<Rightarrow> u16 \<Rightarrow> 'n \<times> int option"
  so_timeout :: "'n \<Rightarrow> nat \<Rightarrow> bool \<Rightarrow> nat \<Rightarrow> 'n \<times> int option"
  so_close :: "'n \<Rightarrow> nat \<Rightarrow> 'n"
  so_send :: "'n \<Rightarrow> nat \<Rightarrow> u8 list \<Rightarrow> 'n \<times> int option"
  so_recv :: "'n \<Rightarrow> nat \<Rightarrow> 'n \<times> (int + u8 list)"
  so_strerror :: "int \<Rightarrow> string"

definition DefaultReadTimeout_ms :: nat where "DefaultReadTimeout_ms = 500"
definition DefaultWriteTimeout_ms :: nat where "DefaultWriteTimeout_ms = 500"
definition MaxPayloadSize :: nat where "MaxPayloadSize = 1500 - 20 - 8"

definition errno_tx :: "'n \<times> int option \<Rightarrow> 'n \<times> unit wire" where
  "errno_tx r = (case r of (n, None) \<Rightarrow> (n, Value ()) | (n, Some e) \<Rightarrow> (n, Failed (System e)))"

definition lookup_host :: "'n sockets \<Rightarrow> string \<Rightarrow> ('n, u32) tx" where
  "lookup_host os host n =
     (if host = [] then (n, Failed (Socket EmptyHostname))
      else
        (case so_lookup os n host of
           (n', None) \<Rightarrow> (n', Failed (Socket HostLookupError))
         | (n', Some a) \<Rightarrow> (n', Value a)))"

text \<open>A step of \<open>connect_udp_socket\<close> after which the socket is closed if it failed.\<close>

definition or_close :: "'n sockets \<Rightarrow> nat \<Rightarrow> ('n, unit) tx \<Rightarrow> ('n, unit) tx" where
  "or_close os s m n = (case m n of (n', Failed e) \<Rightarrow> (so_close os n' s, Failed e) | r \<Rightarrow> r)"

definition connect_udp_socket :: "'n sockets \<Rightarrow> string \<Rightarrow> u16 \<Rightarrow> ('n, nat) tx" where
  "connect_udp_socket os host port =
     bind_tx (lookup_host os host) (\<lambda>addr.
     bind_tx (\<lambda>n. case so_socket os n of (n', Inl e) \<Rightarrow> (n', Failed (System e)) | (n', Inr s) \<Rightarrow> (n', Value s)) (\<lambda>s.
     bind_tx (or_close os s (\<lambda>n. errno_tx (so_bind os n s 0))) (\<lambda>_.
     bind_tx (or_close os s (\<lambda>n. errno_tx (so_connect os n s addr port))) (\<lambda>_.
     bind_tx (or_close os s (\<lambda>n. errno_tx (so_timeout os n s True DefaultReadTimeout_ms))) (\<lambda>_.
     bind_tx (or_close os s (\<lambda>n. errno_tx (so_timeout os n s False DefaultWriteTimeout_ms))) (\<lambda>_.
     ok_tx s))))))"

text \<open>A closed connection has the socket \<open>-1\<close>, here \<open>None\<close>: the system answers \<open>EBADF\<close>.\<close>

definition write_to_socket :: "'n sockets \<Rightarrow> nat option \<Rightarrow> u8 list \<Rightarrow> ('n, unit) tx" where
  "write_to_socket os sock buffer n =
     (case sock of None \<Rightarrow> (n, Failed (System EBADF)) | Some s \<Rightarrow> errno_tx (so_send os n s buffer))"

text \<open>\<open>dest\<close> is overwritten as far as the datagram reaches; what does not fit is dropped.\<close>

definition overlay :: "u8 list \<Rightarrow> u8 list \<Rightarrow> u8 list" where
  "overlay datagram dest = (let d = take (length dest) datagram in d @ drop (length d) dest)"

definition receive_one_packet :: "'n sockets \<Rightarrow> nat option \<Rightarrow> u8 list \<Rightarrow> ('n, u8 list) tx" where
  "receive_one_packet os sock dest n =
     (case sock of
        None \<Rightarrow> (n, Failed (System EBADF))
      | Some s \<Rightarrow>
          (case so_recv os n s of
             (n', Inl e) \<Rightarrow> (n', Failed (System e))
           | (n', Inr d) \<Rightarrow> (n', Value (overlay d dest))))"

section \<open>Command packets\<close>

definition CommandNumberMask :: u16 where "CommandNumberMask = 0x00FF"
definition CommandErrorMask :: u16 where "CommandErrorMask = 0xFF00"
definition CommandErrorShift :: nat where "CommandErrorShift = 8"
definition CommandPacketMaxDataWords :: nat where "CommandPacketMaxDataWords = 726"
definition CommandPacketBufferType :: u16 where "CommandPacketBufferType = 0x8000"
definition CommandPacketHeaderWords :: nat where "CommandPacketHeaderWords = 10"
definition BufferTerminator :: u16 where "BufferTerminator = 0xFFFF"

datatype command_type =
    Reset | StartDAQ | StopDAQ | ContinueDAQ | SetId | SetProtoParams | SetTiming | SetClock | SetRunId | SetCell
  | SetAuxTimer | SetParam | GetParams | SetGain | SetThreshold | SetPulser | SetMpsdMode | SetDAC | SendSerial | ReadSerial
  | SetTTLOutputs | GetBusCapabilities | SetBusCapabilities | GetMpsdParams | SetMpsdTxFormat | SetMstdGain | ReadIds
  | GetVersion | ReadPeripheralRegister | WritePeripheralRegister | MdllSetTresholds | MdllSetSpectrum | MdllSetPulser
  | MdllSetTxDataSet | MdllSetTimingWindow | MdllSetEnergyWindow | WriteRegister | ReadRegister

fun command_number :: "command_type \<Rightarrow> u16" where
  "command_number Reset = 0"
| "command_number StartDAQ = 1"
| "command_number StopDAQ = 2"
| "command_number ContinueDAQ = 3"
| "command_number SetId = 4"
| "command_number SetProtoParams = 5"
| "command_number SetTiming = 6"
| "command_number SetClock = 7"
| "command_number SetRunId = 8"
| "command_number SetCell = 9"
| "command_number SetAuxTimer = 10"
| "command_number SetParam = 11"
| "command_number GetParams = 12"
| "command_number SetGain = 13"
| "command_number SetThreshold = 14"
| "command_number SetPulser = 15"
| "command_number SetMpsdMode = 16"
| "command_number SetDAC = 17"
| "command_number SendSerial = 18"
| "command_number ReadSerial = 19"
| "command_number SetTTLOutputs = 21"
| "command_number GetBusCapabilities = 22"
| "command_number SetBusCapabilities = 23"
| "command_number GetMpsdParams = 24"
| "command_number SetMpsdTxFormat = 25"
| "command_number SetMstdGain = 26"
| "command_number ReadIds = 36"
| "command_number GetVersion = 51"
| "command_number ReadPeripheralRegister = 52"
| "command_number WritePeripheralRegister = 53"
| "command_number MdllSetTresholds = 60"
| "command_number MdllSetSpectrum = 61"
| "command_number MdllSetPulser = 65"
| "command_number MdllSetTxDataSet = 66"
| "command_number MdllSetTimingWindow = 67"
| "command_number MdllSetEnergyWindow = 68"
| "command_number WriteRegister = 80"
| "command_number ReadRegister = 81"

record command_packet =
  cp_buffer_length :: u16
  cp_buffer_type :: u16
  cp_header_length :: u16
  cp_buffer_number :: u16
  cp_cmd :: u16
  cp_device_status :: u8
  cp_device_id :: u8
  cp_time :: "u16 list"
  cp_checksum :: u16
  cp_data :: "u16 list"

definition zero_command :: command_packet where
  "zero_command =
     \<lparr>cp_buffer_length = 0, cp_buffer_type = 0, cp_header_length = 0, cp_buffer_number = 0, cp_cmd = 0, cp_device_status = 0,
      cp_device_id = 0, cp_time = [0, 0, 0], cp_checksum = 0, cp_data = replicate CommandPacketMaxDataWords 0\<rparr>"

text \<open>The lengths of the arrays.\<close>

definition command_ok :: "command_packet \<Rightarrow> bool" where
  "command_ok p \<longleftrightarrow> length (cp_time p) = 3 \<and> length (cp_data p) = CommandPacketMaxDataWords"

text \<open>The packet as words and as bytes in memory, and the packet whose memory the bytes are.\<close>

definition command_words :: "command_packet \<Rightarrow> u16 list" where
  "command_words p =
     [cp_buffer_length p, cp_buffer_type p, cp_header_length p, cp_buffer_number p, cp_cmd p,
      word_of_bytes (cp_device_status p) (cp_device_id p)] @ cp_time p @ [cp_checksum p] @ cp_data p"

definition command_bytes :: "command_packet \<Rightarrow> u8 list" where
  "command_bytes p =
     concat (map word_bytes [cp_buffer_length p, cp_buffer_type p, cp_header_length p, cp_buffer_number p, cp_cmd p])
     @ [cp_device_status p, cp_device_id p] @ concat (map word_bytes (cp_time p @ [cp_checksum p] @ cp_data p))"

definition command_of_bytes :: "u8 list \<Rightarrow> command_packet" where
  "command_of_bytes bs =
     (let ws = words_of bs; rest = drop 6 ws in
      \<lparr>cp_buffer_length = ws ! 0, cp_buffer_type = ws ! 1, cp_header_length = ws ! 2, cp_buffer_number = ws ! 3, cp_cmd = ws ! 4,
       cp_device_status = bs ! 10, cp_device_id = bs ! 11, cp_time = take 3 rest, cp_checksum = rest ! 3, cp_data = drop 4 rest\<rparr>)"

definition calculate_checksum :: "command_packet \<Rightarrow> u16" where
  "calculate_checksum p = foldl (XOR) 0 (take (unat (cp_buffer_length p)) (command_words p))"

definition command_data_length :: "command_packet \<Rightarrow> int" where
  "command_data_length p = uint (cp_buffer_length p) - uint (cp_header_length p)"

definition get_error_value :: "command_packet \<Rightarrow> u8" where
  "get_error_value p = ucast (drop_bit CommandErrorShift (cp_cmd p AND CommandErrorMask))"

definition has_error :: "command_packet \<Rightarrow> bool" where
  "has_error p = (get_error_value p \<noteq> 0)"

text \<open>\<open>None\<close> is \<open>no_buffer_space\<close>; the size is passed as 16 bit number.\<close>

definition prepare_command_packet :: "command_type \<Rightarrow> u8 \<Rightarrow> u16 list \<Rightarrow> command_packet option" where
  "prepare_command_packet cmd mcpd_id data =
     (let size = unat (word_of_nat (length data) :: u16) in
      if size + 1 > CommandPacketMaxDataWords then None
      else
        (let p = zero_command
               \<lparr>cp_buffer_type := CommandPacketBufferType, cp_header_length := word_of_nat CommandPacketHeaderWords,
                cp_cmd := ucast (ucast (command_number cmd) :: u8), cp_device_id := mcpd_id,
                cp_data := take size data @ BufferTerminator # replicate (CommandPacketMaxDataWords - size - 1) 0,
                cp_buffer_length := word_of_nat (CommandPacketHeaderWords + size + 1)\<rparr> in
         Some (p\<lparr>cp_checksum := calculate_checksum p\<rparr>)))"

definition make_command_packet :: "command_type \<Rightarrow> u8 \<Rightarrow> u16 list \<Rightarrow> command_packet" where
  "make_command_packet cmd mcpd_id data =
     (case prepare_command_packet cmd mcpd_id data of None \<Rightarrow> zero_command | Some p \<Rightarrow> p)"

section \<open>Transactions\<close>

text \<open>The bytes of a packet that are sent.\<close>

definition request_bytes :: "command_packet \<Rightarrow> u8 list" where
  "request_bytes p = take (unat (cp_buffer_length p) * 2) (command_bytes p)"

definition send_command :: "'n sockets \<Rightarrow> nat option \<Rightarrow> command_packet \<Rightarrow> ('n, unit) tx" where
  "send_command os sock request = write_to_socket os sock (request_bytes request)"

definition receive_response :: "'n sockets \<Rightarrow> nat option \<Rightarrow> u8 list \<Rightarrow> ('n, u8 list) tx" where
  "receive_response os sock response = receive_one_packet os sock response"

text \<open>
  \<open>to_string\<close> and \<open>raw_data_to_string\<close> read the data and the header of a packet by the lengths it
  gives for itself; they are evaluated whatever the log level is.  \<open>loggable\<close>: what they read lies
  within the packet.
\<close>

definition logged_data :: "command_packet \<Rightarrow> nat" where
  "logged_data p = unat (word_of_int (command_data_length p) :: u16)"

definition loggable :: "command_packet \<Rightarrow> bool" where
  "loggable p \<longleftrightarrow>
     logged_data p \<le> CommandPacketMaxDataWords
     \<and> unat (cp_header_length p) + logged_data p \<le> CommandPacketHeaderWords + CommandPacketMaxDataWords"

definition MaxAttempts :: nat where
  "MaxAttempts = 5"

text \<open>
  The loop of \<open>command_transaction_\<close> with \<open>k\<close> attempts left; \<open>response\<close> is the memory of the caller's
  packet, which keeps what earlier datagrams left there.
\<close>

fun attempts :: "'n sockets \<Rightarrow> nat option \<Rightarrow> command_packet \<Rightarrow> bool \<Rightarrow> nat \<Rightarrow> u8 list \<Rightarrow> ('n, command_packet) tx" where
  "attempts os sock request ignore_error 0 response n = (n, Failed timed_out)"
| "attempts os sock request ignore_error (Suc k) response n =
     (case send_command os sock request n of
        (n1, Wild) \<Rightarrow> (n1, Wild)
      | (n1, Failed e) \<Rightarrow> if is_timeout e then attempts os sock request ignore_error k response n1 else (n1, Failed e)
      | (n1, Value _) \<Rightarrow>
          (case receive_response os sock response n1 of
             (n2, Wild) \<Rightarrow> (n2, Wild)
           | (n2, Failed e) \<Rightarrow> if is_timeout e then attempts os sock request ignore_error k response n2 else (n2, Failed e)
           | (n2, Value bs) \<Rightarrow>
               (let r = command_of_bytes bs in
                if \<not> loggable r then (n2, Wild)
                else if cp_buffer_type r \<noteq> CommandPacketBufferType then attempts os sock request ignore_error k bs n2
                else if cp_cmd r AND CommandNumberMask \<noteq> cp_cmd request then attempts os sock request ignore_error k bs n2
                else if \<not> ignore_error \<and> has_error r then (n2, Failed (Device (get_error_value r)))
                else (n2, Value r))))"

definition transaction :: "'n sockets \<Rightarrow> nat option \<Rightarrow> bool \<Rightarrow> command_packet \<Rightarrow> ('n, command_packet) tx" where
  "transaction os sock ignore_error request =
     attempts os sock request ignore_error MaxAttempts (replicate MaxPayloadSize 0)"

definition command_transaction :: "'n sockets \<Rightarrow> nat option \<Rightarrow> command_packet \<Rightarrow> ('n, command_packet) tx" where
  "command_transaction os sock request = transaction os sock False request"

section \<open>Commands of the MCPD\<close>

text \<open>A command whose response is not looked at; a command and what is read from its response.\<close>

definition send_only :: "'n sockets \<Rightarrow> nat option \<Rightarrow> command_type \<Rightarrow> u8 \<Rightarrow> u16 list \<Rightarrow> ('n, unit) tx" where
  "send_only os sock cmd i data = bind_tx (command_transaction os sock (make_command_packet cmd i data)) (\<lambda>_. ok_tx ())"

definition ask_for :: "'n sockets \<Rightarrow> nat option \<Rightarrow> command_type \<Rightarrow> u8 \<Rightarrow> u16 list \<Rightarrow> (command_packet \<Rightarrow> 'a) \<Rightarrow> ('n, 'a) tx" where
  "ask_for os sock cmd i data f =
     bind_tx (command_transaction os sock (make_command_packet cmd i data)) (\<lambda>r. ok_tx (f r))"

text \<open>\<open>McpdVersionInfo\<close>: the words of the cpu and the bytes of the fpga; zero where not sent.\<close>

definition mcpd_get_version :: "'n sockets \<Rightarrow> nat option \<Rightarrow> u8 \<Rightarrow> ('n, u16 \<times> u16 \<times> u8 \<times> u8) tx" where
  "mcpd_get_version os sock i =
     bind_tx (command_transaction os sock (make_command_packet GetVersion i [])) (\<lambda>r.
     if command_data_length r < 2 then fail_tx protocol_error
     else
       (let d = cp_data r in
        ok_tx (d ! 0, d ! 1,
          if command_data_length r \<ge> 3 then (ucast (drop_bit 8 (d ! 2)), ucast (d ! 2)) else (0, 0))))"

definition mcpd_set_id :: "'n sockets \<Rightarrow> nat option \<Rightarrow> u8 \<Rightarrow> u8 \<Rightarrow> ('n, unit) tx" where
  "mcpd_set_id os sock i new_id = send_only os sock SetId i [ucast new_id]"

text \<open>The octets of an address as words.\<close>

definition to_array :: "u32 \<Rightarrow> u16 list" where
  "to_array a = map (\<lambda>k. ucast (ucast (drop_bit k a) :: u8)) [24, 16, 8, 0]"

definition set_network_words :: "'n sockets \<Rightarrow> nat option \<Rightarrow> u8 \<Rightarrow> u16 list \<Rightarrow> u16 list \<Rightarrow> u16 \<Rightarrow> u16 list \<Rightarrow> u16 \<Rightarrow> ('n, unit) tx" where
  "set_network_words os sock i mcpd_ip cmd_dest cmd_port data_dest data_port =
     send_only os sock SetProtoParams i (mcpd_ip @ data_dest @ [cmd_port, data_port] @ cmd_dest)"

definition mcpd_set_network_parameters ::
    "'n sockets \<Rightarrow> nat option \<Rightarrow> u8 \<Rightarrow> string \<Rightarrow> string \<Rightarrow> u16 \<Rightarrow> string \<Rightarrow> u16 \<Rightarrow> ('n, unit) tx" where
  "mcpd_set_network_parameters os sock i mcpd_address cmd_dest cmd_port data_dest data_port =
     bind_tx (lookup_host os mcpd_address) (\<lambda>a.
     bind_tx (lookup_host os cmd_dest) (\<lambda>c.
     bind_tx (lookup_host os data_dest) (\<lambda>d.
     set_network_words os sock i (to_array a) (to_array c) cmd_port (to_array d) data_port)))"

definition no_address :: string where
  "no_address = ''0.0.0.0''"

definition mcpd_set_ip_address :: "'n sockets \<Rightarrow> nat option \<Rightarrow> u8 \<Rightarrow> string \<Rightarrow> ('n, unit) tx" where
  "mcpd_set_ip_address os sock i address = mcpd_set_network_parameters os sock i address no_address 0 no_address 0"

definition mcpd_set_data_dest_port :: "'n sockets \<Rightarrow> nat option \<Rightarrow> u8 \<Rightarrow> u16 \<Rightarrow> ('n, unit) tx" where
  "mcpd_set_data_dest_port os sock i port = mcpd_set_network_parameters os sock i no_address no_address 0 no_address port"

definition mcpd_set_ip_address_and_data_dest :: "'n sockets \<Rightarrow> nat option \<Rightarrow> u8 \<Rightarrow> string \<Rightarrow> string \<Rightarrow> u16 \<Rightarrow> ('n, unit) tx" where
  "mcpd_set_ip_address_and_data_dest os sock i address data_dest port =
     mcpd_set_network_parameters os sock i address no_address 0 data_dest port"

definition mcpd_set_run_id :: "'n sockets \<Rightarrow> nat option \<Rightarrow> u8 \<Rightarrow> u16 \<Rightarrow> ('n, unit) tx" where
  "mcpd_set_run_id os sock i run = send_only os sock SetRunId i [run]"

definition mcpd_reset_daq :: "'n sockets \<Rightarrow> nat option \<Rightarrow> u8 \<Rightarrow> ('n, unit) tx" where
  "mcpd_reset_daq os sock i = send_only os sock Reset i []"

definition mcpd_start_daq :: "'n sockets \<Rightarrow> nat option \<Rightarrow> u8 \<Rightarrow> ('n, unit) tx" where
  "mcpd_start_daq os sock i = send_only os sock StartDAQ i []"

definition mcpd_stop_daq :: "'n sockets \<Rightarrow> nat option \<Rightarrow> u8 \<Rightarrow> ('n, unit) tx" where
  "mcpd_stop_daq os sock i = send_only os sock StopDAQ i []"

definition mcpd_continue_daq :: "'n sockets \<Rightarrow> nat option \<Rightarrow> u8 \<Rightarrow> ('n, unit) tx" where
  "mcpd_continue_daq os sock i = send_only os sock ContinueDAQ i []"

text \<open>\<open>McpdParams\<close>: adc, dac, ttl out and in, event counters, and the words of the four parameters.\<close>

record mcpd_params =
  mp_adc :: "u16 \<times> u16"
  mp_dac :: "u16 \<times> u16"
  mp_ttl_out :: u16
  mp_ttl_in :: u16
  mp_counters :: "u16 list"
  mp_params :: "(u16 \<times> u16 \<times> u16) list"

definition mcpd_get_all_parameters :: "'n sockets \<Rightarrow> nat option \<Rightarrow> u8 \<Rightarrow> ('n, mcpd_params) tx" where
  "mcpd_get_all_parameters os sock i =
     ask_for os sock GetParams i [] (\<lambda>r.
       let d = cp_data r in
       \<lparr>mp_adc = (d ! 0, d ! 1), mp_dac = (d ! 2, d ! 3), mp_ttl_out = d ! 4, mp_ttl_in = d ! 5,
        mp_counters = [d ! 6, d ! 7, d ! 8],
        mp_params = map (\<lambda>k. (d ! (9 + 0 + 3 * k), d ! (9 + 1 + 3 * k), d ! (9 + 2 + 3 * k))) [0..<McpdParamCount]\<rparr>)"

text \<open>\<open>BusCapabilities\<close>: bytes\<close>

definition mcpd_get_bus_capabilities :: "'n sockets \<Rightarrow> nat option \<Rightarrow> u8 \<Rightarrow> ('n, u8 \<times> u8) tx" where
  "mcpd_get_bus_capabilities os sock i =
     ask_for os sock GetBusCapabilities i [] (\<lambda>r. (ucast (cp_data r ! 0), ucast (cp_data r ! 1)))"

definition mcpd_set_bus_capabilities :: "'n sockets \<Rightarrow> nat option \<Rightarrow> u8 \<Rightarrow> u8 \<Rightarrow> ('n, u8) tx" where
  "mcpd_set_bus_capabilities os sock i bits =
     ask_for os sock SetBusCapabilities i [ucast bits] (\<lambda>r. ucast (cp_data r ! 0))"

definition mcpd_set_timing_options :: "'n sockets \<Rightarrow> nat option \<Rightarrow> u8 \<Rightarrow> u16 \<Rightarrow> u16 \<Rightarrow> bool \<Rightarrow> ('n, unit) tx" where
  "mcpd_set_timing_options os sock i role term ext_sync =
     send_only os sock SetTiming i [role OR push_bit 1 (of_bool ext_sync), term]"

definition mcpd_set_master_clock_value :: "'n sockets \<Rightarrow> nat option \<Rightarrow> u8 \<Rightarrow> u64 \<Rightarrow> ('n, unit) tx" where
  "mcpd_set_master_clock_value os sock i clock =
     send_only os sock SetClock i (map (\<lambda>k. ucast (drop_bit k clock AND 0xFFFF)) [0, 16, 32])"

definition mcpd_setup_cell :: "'n sockets \<Rightarrow> nat option \<Rightarrow> u8 \<Rightarrow> u16 \<Rightarrow> u16 \<Rightarrow> u16 \<Rightarrow> ('n, unit) tx" where
  "mcpd_setup_cell os sock i cell trigger compare = send_only os sock SetCell i [cell, trigger, compare]"

definition mcpd_setup_auxtimer :: "'n sockets \<Rightarrow> nat option \<Rightarrow> u8 \<Rightarrow> u16 \<Rightarrow> u16 \<Rightarrow> ('n, unit) tx" where
  "mcpd_setup_auxtimer os sock i timer compare = send_only os sock SetAuxTimer i [timer, compare]"

definition mcpd_set_param_source :: "'n sockets \<Rightarrow> nat option \<Rightarrow> u8 \<Rightarrow> u16 \<Rightarrow> u16 \<Rightarrow> ('n, unit) tx" where
  "mcpd_set_param_source os sock i param source = send_only os sock SetParam i [param, source]"

definition mcpd_set_dac_output_values :: "'n sockets \<Rightarrow> nat option \<Rightarrow> u8 \<Rightarrow> u16 \<Rightarrow> u16 \<Rightarrow> ('n, unit) tx" where
  "mcpd_set_dac_output_values os sock i dac0 dac1 = send_only os sock SetDAC i [dac0, dac1]"

definition mcpd_scan_busses :: "'n sockets \<Rightarrow> nat option \<Rightarrow> u8 \<Rightarrow> ('n, u16 list) tx" where
  "mcpd_scan_busses os sock i = ask_for os sock ReadIds i [] (\<lambda>r. map (\<lambda>bus. cp_data r ! bus) [0..<8])"

text \<open>The comparison of the response with the request only writes to the log.\<close>

definition mcpd_write_register :: "'n sockets \<Rightarrow> nat option \<Rightarrow> u8 \<Rightarrow> u16 \<Rightarrow> u32 \<Rightarrow> ('n, unit) tx" where
  "mcpd_write_register os sock i address v =
     send_only os sock WriteRegister i [address, ucast (v AND 0xFFFF), ucast (drop_bit 16 v)]"

definition mcpd_read_register :: "'n sockets \<Rightarrow> nat option \<Rightarrow> u8 \<Rightarrow> u16 \<Rightarrow> ('n, u32) tx" where
  "mcpd_read_register os sock i address =
     bind_tx (command_transaction os sock (make_command_packet ReadRegister i [address])) (\<lambda>r.
     if command_data_length r < 3 then fail_tx protocol_error
     else ok_tx (ucast (cp_data r ! 1) OR push_bit 16 (ucast (cp_data r ! 2))))"

definition read_peripheral_register :: "'n sockets \<Rightarrow> nat option \<Rightarrow> u8 \<Rightarrow> u8 \<Rightarrow> u16 \<Rightarrow> ('n, u16) tx" where
  "read_peripheral_register os sock i mpsd reg =
     ask_for os sock ReadPeripheralRegister i [ucast mpsd, reg] (\<lambda>r. cp_data r ! 2)"

definition write_peripheral_register :: "'n sockets \<Rightarrow> nat option \<Rightarrow> u8 \<Rightarrow> u8 \<Rightarrow> u16 \<Rightarrow> u16 \<Rightarrow> ('n, unit) tx" where
  "write_peripheral_register os sock i mpsd reg v = send_only os sock WritePeripheralRegister i [ucast mpsd, reg, v]"

section \<open>Commands of MPSD, MSTD and MDLL\<close>

text \<open>The error value of the response is ignored here.\<close>

definition mpsd_set_gain :: "'n sockets \<Rightarrow> nat option \<Rightarrow> u8 \<Rightarrow> u8 \<Rightarrow> u8 \<Rightarrow> u8 \<Rightarrow> ('n, unit) tx" where
  "mpsd_set_gain os sock i mpsd channel gain =
     bind_tx (transaction os sock True (make_command_packet SetGain i [ucast mpsd, ucast channel, ucast gain])) (\<lambda>_. ok_tx ())"

definition mpsd_set_threshold :: "'n sockets \<Rightarrow> nat option \<Rightarrow> u8 \<Rightarrow> u8 \<Rightarrow> u8 \<Rightarrow> ('n, unit) tx" where
  "mpsd_set_threshold os sock i mpsd threshold = send_only os sock SetThreshold i [ucast mpsd, ucast threshold]"

definition mpsd_set_pulser :: "'n sockets \<Rightarrow> nat option \<Rightarrow> u8 \<Rightarrow> u8 \<Rightarrow> u8 \<Rightarrow> u16 \<Rightarrow> u8 \<Rightarrow> u16 \<Rightarrow> ('n, unit) tx" where
  "mpsd_set_pulser os sock i mpsd channel pos amplitude state =
     send_only os sock SetPulser i [ucast mpsd, ucast channel, pos, ucast amplitude, state]"

definition mpsd_set_mode :: "'n sockets \<Rightarrow> nat option \<Rightarrow> u8 \<Rightarrow> u8 \<Rightarrow> u16 \<Rightarrow> ('n, unit) tx" where
  "mpsd_set_mode os sock i mpsd mode = send_only os sock SetMpsdMode i [ucast mpsd, mode]"

definition mpsd_set_tx_format :: "'n sockets \<Rightarrow> nat option \<Rightarrow> u8 \<Rightarrow> u8 \<Rightarrow> u16 \<Rightarrow> ('n, unit) tx" where
  "mpsd_set_tx_format os sock i mpsd format = send_only os sock SetMpsdTxFormat i [ucast mpsd, format]"

text \<open>\<open>MpsdParameters\<close>: the id is a byte.\<close>

definition mpsd_get_params :: "'n sockets \<Rightarrow> nat option \<Rightarrow> u8 \<Rightarrow> u8 \<Rightarrow> ('n, u8 \<times> u16 \<times> u16 \<times> u16) tx" where
  "mpsd_get_params os sock i mpsd =
     ask_for os sock GetMpsdParams i [ucast mpsd]
       (\<lambda>r. (ucast (cp_data r ! 0), cp_data r ! 1, cp_data r ! 2, cp_data r ! 3))"

definition mstd_set_gain :: "'n sockets \<Rightarrow> nat option \<Rightarrow> u8 \<Rightarrow> u8 \<Rightarrow> u8 \<Rightarrow> u8 \<Rightarrow> ('n, unit) tx" where
  "mstd_set_gain os sock i mstd channel gain = send_only os sock SetMstdGain i [ucast mstd, ucast channel, ucast gain]"

definition mdll_set_thresholds :: "'n sockets \<Rightarrow> nat option \<Rightarrow> u8 \<Rightarrow> u8 \<Rightarrow> u8 \<Rightarrow> u8 \<Rightarrow> ('n, unit) tx" where
  "mdll_set_thresholds os sock i x y anode = send_only os sock MdllSetTresholds i [ucast x, ucast y, ucast anode]"

definition mdll_set_spectrum :: "'n sockets \<Rightarrow> nat option \<Rightarrow> u8 \<Rightarrow> u16 \<Rightarrow> u16 \<Rightarrow> u16 \<Rightarrow> u16 \<Rightarrow> ('n, unit) tx" where
  "mdll_set_spectrum os sock i shift_x shift_y scale_x scale_y =
     send_only os sock MdllSetSpectrum i [shift_x, shift_y, scale_x, scale_y]"

definition mdll_set_pulser :: "'n sockets \<Rightarrow> nat option \<Rightarrow> u8 \<Rightarrow> bool \<Rightarrow> u16 \<Rightarrow> u16 \<Rightarrow> ('n, unit) tx" where
  "mdll_set_pulser os sock i enable amplitude pos = send_only os sock MdllSetPulser i [of_bool enable, amplitude, pos]"

definition mdll_set_tx_data_set :: "'n sockets \<Rightarrow> nat option \<Rightarrow> u8 \<Rightarrow> u16 \<Rightarrow> ('n, unit) tx" where
  "mdll_set_tx_data_set os sock i ds = send_only os sock MdllSetTxDataSet i [ds]"

text \<open>The limits are 32 bit numbers, of which 16 bits are sent.\<close>

definition mdll_set_timing_window :: "'n sockets \<Rightarrow> nat option \<Rightarrow> u8 \<Rightarrow> u32 \<Rightarrow> u32 \<Rightarrow> u32 \<Rightarrow> u32 \<Rightarrow> ('n, unit) tx" where
  "mdll_set_timing_window os sock i x_low x_high y_low y_high =
     send_only os sock MdllSetTimingWindow i [0, 0, ucast x_low, ucast x_high, ucast y_low, ucast y_high]"

definition mdll_set_energy_window :: "'n sockets \<Rightarrow> nat option \<Rightarrow> u8 \<Rightarrow> u8 \<Rightarrow> u8 \<Rightarrow> ('n, unit) tx" where
  "mdll_set_energy_window os sock i low high = send_only os sock MdllSetEnergyWindow i [ucast low, ucast high, 0, 0]"

end
