(* ===== verification/Connection.thy ===== *)
theory Connection
  imports Protocol
begin

text \<open>
  \<open>McpdConnection\<close> (\<open>src/mesytec-mcpd/mcpd_py_commands.cc\<close>): the object that the Python programs hold.  It
  turns the error codes of the commands into \<open>McpdError\<close>, and the bindings turn Python arguments
  into C++ ones (\<open>mesytec_mcpd_py.cc\<close>).  \<open>wire_api\<close> is the instance of the interface \<open>api\<close> of the
  programs that consists of this code over sockets.
\<close>

section \<open>Errors\<close>

definition error_value :: "error_code \<Rightarrow> int" where
  "error_value e =
     (case e of System n \<Rightarrow> n | Socket EmptyHostname \<Rightarrow> 1 | Socket HostLookupError \<Rightarrow> 2 | Device v \<Rightarrow> uint v | Errc n \<Rightarrow> n)"

definition error_category :: "error_code \<Rightarrow> string" where
  "error_category e =
     (case e of System n \<Rightarrow> ''system'' | Socket s \<Rightarrow> ''socket_error'' | Device v \<Rightarrow> ''mcpd_error'' | Errc n \<Rightarrow> ''generic'')"

definition error_message :: "'n sockets \<Rightarrow> error_code \<Rightarrow> string" where
  "error_message os e =
     (case e of
        System n \<Rightarrow> so_strerror os n
      | Socket EmptyHostname \<Rightarrow> ''EmptyHostname''
      | Socket HostLookupError \<Rightarrow> ''HostLookupError''
      | Device v \<Rightarrow> if v = 0 then ''No Error'' else if v = 128 then ''ID mismatch'' else ''Unknown error code '' @ show_int (uint v)
      | Errc n \<Rightarrow> so_strerror os n)"

text \<open>\<open>McpdError(what, ec)\<close>\<close>

definition mcpd_error :: "'n sockets \<Rightarrow> string \<Rightarrow> error_code \<Rightarrow> exc" where
  "mcpd_error os what e =
     McpdErr (what @ '': '' @ error_message os e @ '' (code='' @ show_int (error_value e) @ '', category='' @ error_category e @ '')'')"

text \<open>Undefined behaviour is no exception of the program: the process may end or go on.\<close>

definition undefined_behaviour :: exc where
  "undefined_behaviour = OtherExc ''undefined behaviour: read outside of a packet''"

definition check_wire :: "'n sockets \<Rightarrow> string \<Rightarrow> 'a wire \<Rightarrow> 'a res" where
  "check_wire os what r =
     (case r of Value a \<Rightarrow> Inr a | Failed e \<Rightarrow> Inl (mcpd_error os what e) | Wild \<Rightarrow> Inl undefined_behaviour)"

section \<open>Arguments\<close>

text \<open>
  What the conversions of pybind11 take for a parameter: a \<open>bool\<close> is an \<open>int\<close>, too.
\<close>

definition takes :: "ctype \<Rightarrow> pyval \<Rightarrow> bool" where
  "takes t v = (ctype_accepts t v \<or> (t \<in> {CU8, CU16, CU32, CU64} \<and> (\<exists>b \<in> {True, False}. v = PBool b)))"

definition bad_call :: exc where
  "bad_call = TypeError ''incompatible function arguments''"

text \<open>The arguments of a call in the order of the parameters; the only default is \<open>False\<close>.\<close>

fun bind_rest :: "param list \<Rightarrow> (string \<times> pyval) list \<Rightarrow> pyval list res" where
  "bind_rest [] kw = (if kw = [] then Inr [] else Inl bad_call)"
| "bind_rest ((n, t, d) # ps) kw =
     (case dict_get kw n of
        Some v \<Rightarrow> if takes t v then bind_res (bind_rest ps (dict_remove n kw)) (\<lambda>vs. Inr (v # vs)) else Inl bad_call
      | None \<Rightarrow> if d then bind_res (bind_rest ps kw) (\<lambda>vs. Inr (PBool False # vs)) else Inl bad_call)"

fun bind_call :: "param list \<Rightarrow> pyval list \<Rightarrow> (string \<times> pyval) list \<Rightarrow> pyval list res" where
  "bind_call ps [] kw = bind_rest ps kw"
| "bind_call [] (a # as) kw = Inl bad_call"
| "bind_call ((n, t, d) # ps) (a # as) kw =
     (if takes t a then bind_res (bind_call ps as kw) (\<lambda>vs. Inr (a # vs)) else Inl bad_call)"

fun int_of_arg :: "pyval \<Rightarrow> int" where
  "int_of_arg (PInt n) = n"
| "int_of_arg (PBool b) = of_bool b"
| "int_of_arg (PEnum t m) = (case dict_get (members t) m of Some n \<Rightarrow> n | None \<Rightarrow> 0)"
| "int_of_arg _ = 0"

definition num :: "pyval list \<Rightarrow> nat \<Rightarrow> 'w::len word" where
  "num as k = word_of_int (int_of_arg (as ! k))"

definition str_at :: "pyval list \<Rightarrow> nat \<Rightarrow> string" where
  "str_at as k = (case as ! k of PStr s \<Rightarrow> s | _ \<Rightarrow> [])"

definition flag_at :: "pyval list \<Rightarrow> nat \<Rightarrow> bool" where
  "flag_at as k = (as ! k = PBool True)"

section \<open>Replies\<close>

definition no_reply :: "unit \<Rightarrow> reply" where
  "no_reply _ = RNone"

definition word_reply :: "'w::len word \<Rightarrow> reply" where
  "word_reply w = RInt (uint w)"

definition version_reply :: "u16 \<times> u16 \<times> u8 \<times> u8 \<Rightarrow> reply" where
  "version_reply v = (case v of (a, b, c, d) \<Rightarrow> RVersion (uint a, uint b) (uint c, uint d))"

definition params_reply :: "mcpd_params \<Rightarrow> reply" where
  "params_reply p =
     RParams (uint (fst (mp_adc p)), uint (snd (mp_adc p))) (uint (fst (mp_dac p)), uint (snd (mp_dac p)))
       (uint (mp_ttl_out p)) (uint (mp_ttl_in p)) (map uint (mp_counters p))
       (map (\<lambda>(a, b, c). uint (to_48bit_value a b c)) (mp_params p))"

definition caps_reply :: "u8 \<times> u8 \<Rightarrow> reply" where
  "caps_reply c = RCaps (uint (fst c)) (uint (snd c))"

definition mpsd_reply :: "u8 \<times> u16 \<times> u16 \<times> u16 \<Rightarrow> reply" where
  "mpsd_reply p = (case p of (a, b, c, d) \<Rightarrow> RMpsd (uint a) (uint b) (uint c) (uint d))"

definition words_reply :: "u16 list \<Rightarrow> reply" where
  "words_reply ws = RInts (map uint ws)"

definition answer_with :: "('a \<Rightarrow> reply) \<Rightarrow> ('n, 'a) tx \<Rightarrow> ('n, reply) tx" where
  "answer_with f m = bind_tx m (\<lambda>a. ok_tx (f a))"

section \<open>Methods\<close>

text \<open>The object: its socket, \<open>None\<close> once closed, and \<open>mcpdId_\<close>, of which commands use the low byte.\<close>

record connection_object =
  co_sock :: "nat option"
  co_id :: u32

type_synonym 'n command_method = "'n sockets \<Rightarrow> nat option \<Rightarrow> u8 \<Rightarrow> pyval list \<Rightarrow> ('n, reply) tx"

definition connection_methods :: "(string \<times> 'n command_method) list" where
  "connection_methods =
     [(''get_version'', \<lambda>os s i as. answer_with version_reply (mcpd_get_version os s i)),
      (''set_id'', \<lambda>os s i as. answer_with no_reply (mcpd_set_id os s i (num as 0))),
      (''set_ip_address'', \<lambda>os s i as. answer_with no_reply (mcpd_set_ip_address os s i (str_at as 0))),
      (''set_data_dest_port'', \<lambda>os s i as. answer_with no_reply (mcpd_set_data_dest_port os s i (num as 0))),
      (''set_ip_address_and_data_dest'', \<lambda>os s i as.
         answer_with no_reply (mcpd_set_ip_address_and_data_dest os s i (str_at as 0) (str_at as 1) (num as 2))),
      (''set_run_id'', \<lambda>os s i as. answer_with no_reply (mcpd_set_run_id os s i (num as 0))),
      (''reset_daq'', \<lambda>os s i as. answer_with no_reply (mcpd_reset_daq os s i)),
      (''start_daq'', \<lambda>os s i as. answer_with no_reply (mcpd_start_daq os s i)),
      (''stop_daq'', \<lambda>os s i as. answer_with no_reply (mcpd_stop_daq os s i)),
      (''continue_daq'', \<lambda>os s i as. answer_with no_reply (mcpd_continue_daq os s i)),
      (''get_all_parameters'', \<lambda>os s i as. answer_with params_reply (mcpd_get_all_parameters os s i)),
      (''get_bus_capabilities'', \<lambda>os s i as. answer_with caps_reply (mcpd_get_bus_capabilities os s i)),
      (''set_bus_capabilities'', \<lambda>os s i as. answer_with word_reply (mcpd_set_bus_capabilities os s i (num as 0))),
      (''set_timing_options'', \<lambda>os s i as. answer_with no_reply (mcpd_set_timing_options os s i (num as 0) (num as 1) (flag_at as 2))),
      (''set_master_clock_value'', \<lambda>os s i as. answer_with no_reply (mcpd_set_master_clock_value os s i (num as 0))),
      (''setup_cell'', \<lambda>os s i as. answer_with no_reply (mcpd_setup_cell os s i (num as 0) (num as 1) (num as 2))),
      (''setup_auxtimer'', \<lambda>os s i as. answer_with no_reply (mcpd_setup_auxtimer os s i (num as 0) (num as 1))),
      (''set_param_source'', \<lambda>os s i as. answer_with no_reply (mcpd_set_param_source os s i (num as 0) (num as 1))),
      (''set_dac_output_values'', \<lambda>os s i as. answer_with no_reply (mcpd_set_dac_output_values os s i (num as 0) (num as 1))),
      (''scan_busses'', \<lambda>os s i as. answer_with words_reply (mcpd_scan_busses os s i)),
      (''write_register'', \<lambda>os s i as. answer_with no_reply (mcpd_write_register os s i (num as 0) (num as 1))),
      (''read_register'', \<lambda>os s i as. answer_with word_reply (mcpd_read_register os s i (num as 0))),
      (''read_peripheral_register'', \<lambda>os s i as. answer_with word_reply (read_peripheral_register os s i (num as 0) (num as 1))),
      (''write_peripheral_register'', \<lambda>os s i as.
         answer_with no_reply (write_peripheral_register os s i (num as 0) (num as 1) (num as 2))),
      (''mpsd_set_gain'', \<lambda>os s i as. answer_with no_reply (mpsd_set_gain os s i (num as 0) (num as 1) (num as 2))),
      (''mpsd_set_threshold'', \<lambda>os s i as. answer_with no_reply (mpsd_set_threshold os s i (num as 0) (num as 1))),
      (''mpsd_set_pulser'', \<lambda>os s i as.
         answer_with no_reply (mpsd_set_pulser os s i (num as 0) (num as 1) (num as 2) (num as 3) (num as 4))),
      (''mpsd_set_mode'', \<lambda>os s i as. answer_with no_reply (mpsd_set_mode os s i (num as 0) (num as 1))),
      (''mpsd_set_tx_format'', \<lambda>os s i as. answer_with no_reply (mpsd_set_tx_format os s i (num as 0) (num as 1))),
      (''mpsd_get_params'', \<lambda>os s i as. answer_with mpsd_reply (mpsd_get_params os s i (num as 0))),
      (''mstd_set_gain'', \<lambda>os s i as. answer_with no_reply (mstd_set_gain os s i (num as 0) (num as 1) (num as 2))),
      (''mdll_set_thresholds'', \<lambda>os s i as. answer_with no_reply (mdll_set_thresholds os s i (num as 0) (num as 1) (num as 2))),
      (''mdll_set_spectrum'', \<lambda>os s i as.
         answer_with no_reply (mdll_set_spectrum os s i (num as 0) (num as 1) (num as 2) (num as 3))),
      (''mdll_set_pulser'', \<lambda>os s i as. answer_with no_reply (mdll_set_pulser os s i (flag_at as 0) (num as 1) (num as 2))),
      (''mdll_set_tx_data_set'', \<lambda>os s i as. answer_with no_reply (mdll_set_tx_data_set os s i (num as 0))),
      (''mdll_set_timing_window'', \<lambda>os s i as.
         answer_with no_reply (mdll_set_timing_window os s i (num as 0) (num as 1) (num as 2) (num as 3))),
      (''mdll_set_energy_window'', \<lambda>os s i as. answer_with no_reply (mdll_set_energy_window os s i (num as 0) (num as 1)))]"

text \<open>
  A method of the object on arguments that were converted.  \<open>set_id\<close> remembers the new id once
  the device has taken it; a timeout of \<open>set_ip_address_and_data_dest\<close> is expected.
\<close>

definition run_method :: "'n sockets \<Rightarrow> string \<Rightarrow> 'n command_method \<Rightarrow> pyval list \<Rightarrow> connection_object \<Rightarrow> 'n \<Rightarrow>
    'n \<times> connection_object \<times> reply res" where
  "run_method os name m as c n =
     (case m os (co_sock c) (ucast (co_id c)) as n of
        (n', r) \<Rightarrow>
          if name = ''set_id'' \<and> r = Value RNone then (n', c\<lparr>co_id := ucast (num as 0 :: u8)\<rparr>, Inr RNone)
          else if name = ''set_ip_address_and_data_dest'' \<and> (case r of Failed e \<Rightarrow> is_timed_out e | _ \<Rightarrow> False) then (n', c, Inr RNone)
          else (n', c, check_wire os name r))"

text \<open>The constructor: \<open>address\<close>, \<open>mcpd_id\<close> and \<open>port\<close> as Python values.\<close>

definition open_connection :: "'n sockets \<Rightarrow> target \<Rightarrow> 'n \<Rightarrow> 'n \<times> connection_object res" where
  "open_connection os t n =
     (case t of (address, i, port) \<Rightarrow>
        if \<not> (0 \<le> i \<and> i < 2 ^ 32 \<and> 0 \<le> port \<and> port < 2 ^ 16) then (n, Inl bad_call)
        else
          (case connect_udp_socket os address (word_of_int port) n of
             (n', Value s) \<Rightarrow> (n', Inr \<lparr>co_sock = Some s, co_id = word_of_int i\<rparr>)
           | (n', Failed e) \<Rightarrow> (n', Inl (mcpd_error os (''connecting to mcpd@'' @ address @ '':'' @ show_int port) e))
           | (n', Wild) \<Rightarrow> (n', Inl undefined_behaviour)))"

text \<open>\<open>close\<close>\<close>

definition close_connection :: "'n sockets \<Rightarrow> connection_object \<Rightarrow> 'n \<Rightarrow> 'n \<times> connection_object" where
  "close_connection os c n =
     (case co_sock c of None \<Rightarrow> (n, c) | Some s \<Rightarrow> (so_close os n s, c\<lparr>co_sock := None\<rparr>))"

section \<open>The interface of the programs\<close>

text \<open>The network and the objects made so far; a connection is the number of its object.\<close>

record 'n wire_world =
  wi_net :: 'n
  wi_objects :: "connection_object list"

definition wire_open :: "'n sockets \<Rightarrow> 'n wire_world \<Rightarrow> target \<Rightarrow> 'n wire_world \<times> nat res" where
  "wire_open os w t =
     (case open_connection os t (wi_net w) of
        (n, Inl e) \<Rightarrow> (w\<lparr>wi_net := n\<rparr>, Inl e)
      | (n, Inr c) \<Rightarrow> (w\<lparr>wi_net := n, wi_objects := wi_objects w @ [c]\<rparr>, Inr (length (wi_objects w))))"

definition wire_close :: "'n sockets \<Rightarrow> 'n wire_world \<Rightarrow> nat \<Rightarrow> 'n wire_world" where
  "wire_close os w k =
     (case close_connection os (wi_objects w ! k) (wi_net w) of
        (n, c) \<Rightarrow> w\<lparr>wi_net := n, wi_objects := (wi_objects w)[k := c]\<rparr>)"

definition wire_call :: "'n sockets \<Rightarrow> 'n wire_world \<Rightarrow> nat \<Rightarrow> call \<Rightarrow> 'n wire_world \<times> reply res" where
  "wire_call os w k c =
     (let name = call_method c; obj = wi_objects w ! k in
      if name = ''mcpd_id='' then
        (case bind_call [req ''mcpd_id'' CU32] (call_args c) (call_kwargs c) of
           Inl e \<Rightarrow> (w, Inl e)
         | Inr as \<Rightarrow> (w\<lparr>wi_objects := (wi_objects w)[k := obj\<lparr>co_id := num as 0\<rparr>]\<rparr>, Inr RNone))
      else
        (case (dict_get binding_signatures name, dict_get connection_methods name) of
           (Some ps, Some m) \<Rightarrow>
             (case bind_call ps (call_args c) (call_kwargs c) of
                Inl e \<Rightarrow> (w, Inl e)
              | Inr as \<Rightarrow>
                  (case run_method os name m as obj (wi_net w) of
                     (n, obj', r) \<Rightarrow> (w\<lparr>wi_net := n, wi_objects := (wi_objects w)[k := obj']\<rparr>, r)))
         | _ \<Rightarrow> (w, Inl (AttributeError name))))"

definition wire_api :: "'n sockets \<Rightarrow> ('n wire_world, nat) api" where
  "wire_api os = \<lparr>api_open = wire_open os, api_close = wire_close os, api_call = wire_call os\<rparr>"

section \<open>find_mcpd_id\<close>

definition id_mismatch :: error_code where
  "id_mismatch = Device 128"

fun probe_ids :: "'n sockets \<Rightarrow> nat \<Rightarrow> u8 list \<Rightarrow> 'n \<Rightarrow> 'n \<times> u8 option res" where
  "probe_ids os s [] n = (n, Inr None)"
| "probe_ids os s (i # is) n =
     (case mcpd_get_version os (Some s) i n of
        (n', Value _) \<Rightarrow> (n', Inr (Some i))
      | (n', Failed e) \<Rightarrow>
          if e \<noteq> id_mismatch then (n', Inl (mcpd_error os ''find_mcpd_id'' e)) else probe_ids os s is n'
      | (n', Wild) \<Rightarrow> (n', Inl undefined_behaviour))"

definition find_mcpd_id :: "'n sockets \<Rightarrow> 'n \<Rightarrow> string \<Rightarrow> int \<Rightarrow> 'n \<times> int res" where
  "find_mcpd_id os n address port =
     (if \<not> (0 \<le> port \<and> port < 2 ^ 16) then (n, Inl bad_call)
      else
        (case connect_udp_socket os address (word_of_int port) n of
           (n', Failed e) \<Rightarrow> (n', Inl (mcpd_error os (''connecting to mcpd@'' @ address @ '':'' @ show_int port) e))
         | (n', Wild) \<Rightarrow> (n', Inl undefined_behaviour)
         | (n', Value s) \<Rightarrow>
             (case probe_ids os s (map word_of_nat [0..<256]) n' of
                (n2, r) \<Rightarrow>
                  (so_close os n2 s,
                   bind_res r (\<lambda>i. case i of
                      Some i \<Rightarrow> Inr (uint i)
                    | None \<Rightarrow> Inl (RuntimeErr (''find_mcpd_id: no responding mcpd_id found on '' @ address @ '':'' @ show_int port)))))))"

end
