(* ===== verification/Protocol_Facts.thy ===== *)
theory Protocol_Facts
  imports Protocol Packets_Facts
begin

text \<open>
  Command packets survive the wire; a transaction ends after five attempts, sends one and the same
  request and succeeds with a matching response only; what a response may do to the caller.
\<close>

section \<open>Packets and bytes\<close>

lemmas command_consts =
  CommandPacketMaxDataWords_def CommandPacketHeaderWords_def MaxPayloadSize_def CommandPacketBufferType_def

lemma make_command_packet_eq:
  assumes "length data \<le> 725"
  shows "make_command_packet cmd i data =
    (let p = zero_command
           \<lparr>cp_buffer_type := 0x8000, cp_header_length := 10, cp_cmd := ucast (ucast (command_number cmd) :: u8), cp_device_id := i,
            cp_data := data @ 0xFFFF # replicate (725 - length data) 0, cp_buffer_length := word_of_nat (11 + length data)\<rparr> in
     p\<lparr>cp_checksum := calculate_checksum p\<rparr>)"
proof -
  have "unat (word_of_nat (length data) :: u16) = length data"
    using assms by (simp add: unat_of_nat)
  with assms show ?thesis
    by (simp add: make_command_packet_def prepare_command_packet_def Let_def command_consts BufferTerminator_def)
qed

lemma command_number_byte [simp]: "ucast (ucast (command_number cmd) :: u8) = command_number cmd"
  by (cases cmd) simp_all

lemma command_number_inject: "command_number a = command_number b \<longleftrightarrow> a = b"
  by (cases a; cases b) simp_all

lemma length_command_bytes: "command_ok p \<Longrightarrow> length (command_bytes p) = MaxPayloadSize"
  unfolding command_bytes_def length_append length_word_bytes by (simp add: command_ok_def command_consts)

lemma words_of_command_bytes: "words_of (command_bytes p) = command_words p"
  unfolding command_bytes_def words_of_word_bytes
  using words_of_word_bytes [of "cp_time p @ [cp_checksum p] @ cp_data p" "[]"]
  by (simp add: command_words_def)

lemma command_of_command_bytes:
  assumes "command_ok p"
  shows "command_of_bytes (command_bytes p) = p"
proof -
  have b: "command_bytes p ! 10 = cp_device_status p" "command_bytes p ! 11 = cp_device_id p"
    by (simp_all add: command_bytes_def word_bytes_def nth_append)
  show ?thesis using assms unfolding command_of_bytes_def words_of_command_bytes Let_def b
    by (simp add: command_ok_def command_words_def nth_append)
qed

lemma word_bytes_of_bytes [simp]: "word_bytes (word_of_bytes lo hi) = [lo, hi]"
  unfolding word_bytes_def word_of_bytes_def by (simp add: bit_eq_iff) (auto simp: bit_simps dest: bit_imp_le_length)

lemma command_bytes_words: "command_bytes p = concat (map word_bytes (command_words p))"
  by (simp add: command_bytes_def command_words_def)

lemma take_word_bytes: "take (n * 2) (concat (map word_bytes ws)) = concat (map word_bytes (take n ws))"
  by (induction ws arbitrary: n) (auto simp: word_bytes_def take_Cons' dest: gr0_implies_Suc split: nat.split)

lemma drop_word_bytes: "drop (n * 2) (concat (map word_bytes ws)) = concat (map word_bytes (drop n ws))"
  by (induction ws arbitrary: n) (auto simp: word_bytes_def drop_Cons' dest: gr0_implies_Suc split: nat.split)

lemma request_bytes_words: "request_bytes p = concat (map word_bytes (take (unat (cp_buffer_length p)) (command_words p)))"
  by (simp add: request_bytes_def command_bytes_words take_word_bytes)

lemma foldl_xor: "foldl (XOR) a ws = a XOR foldl (XOR) 0 (ws :: u16 list)"
  by (induction ws arbitrary: a) (simp, metis (no_types, lifting) foldl_Cons xor.assoc xor.left_neutral)

text \<open>What a device reads from a datagram, its memory zero before.\<close>

definition received_command :: "u8 list \<Rightarrow> command_packet" where
  "received_command bs = command_of_bytes (overlay bs (replicate MaxPayloadSize 0))"

definition checked :: "command_packet \<Rightarrow> command_packet" where
  "checked p = p\<lparr>cp_checksum := calculate_checksum p\<rparr>"

lemma checked_words:
  assumes "command_ok p" "cp_checksum p = 0" "10 \<le> unat (cp_buffer_length p)"
  shows "foldl (XOR) 0 (take (unat (cp_buffer_length p)) (command_words (checked p))) = 0"
proof -
  define h where "h = [cp_buffer_length p, cp_buffer_type p, cp_header_length p, cp_buffer_number p, cp_cmd p,
      word_of_bytes (cp_device_status p) (cp_device_id p)] @ cp_time p"
  have h: "length h = 9" using assms(1) by (simp add: h_def command_ok_def)
  define rest where "rest = take (unat (cp_buffer_length p) - 10) (cp_data p)"
  have words: "take (unat (cp_buffer_length p)) (command_words q) = h @ cp_checksum q # rest"
    if "q = p \<or> q = checked p" for q
  proof -
    have "command_words q = h @ cp_checksum q # cp_data p"
      using that by (auto simp: command_words_def h_def checked_def)
    moreover obtain m where "unat (cp_buffer_length p) = 10 + m" using assms(3) nat_le_iff_add by blast
    ultimately show ?thesis using h by (simp add: rest_def)
  qed
  have "calculate_checksum p = foldl (XOR) 0 (h @ 0 # rest)"
    using words [of p] assms(2) by (simp add: calculate_checksum_def)
  then have c: "calculate_checksum p = foldl (XOR) 0 h XOR foldl (XOR) 0 rest"
    by (simp add: foldl_xor [of "foldl (XOR) 0 h" rest])
  have "foldl (XOR) 0 (h @ cp_checksum (checked p) # rest) = foldl (XOR) 0 h XOR calculate_checksum p XOR foldl (XOR) 0 rest"
    by (simp add: checked_def foldl_xor [of "foldl (XOR) 0 h XOR calculate_checksum p" rest] xor.assoc)
  also have "\<dots> = 0" by (simp add: c xor.assoc xor.commute xor.left_commute)
  finally show ?thesis using words [of "checked p"] by simp
qed

text \<open>The request for a command.\<close>

definition plain_request :: "command_type \<Rightarrow> u8 \<Rightarrow> u16 list \<Rightarrow> command_packet" where
  "plain_request cmd i data =
     zero_command
       \<lparr>cp_buffer_type := 0x8000, cp_header_length := 10, cp_cmd := command_number cmd, cp_device_id := i,
        cp_data := data @ 0xFFFF # replicate (725 - length data) 0, cp_buffer_length := word_of_nat (11 + length data)\<rparr>"

lemma make_command_checked: "length data \<le> 725 \<Longrightarrow> make_command_packet cmd i data = checked (plain_request cmd i data)"
  by (simp add: make_command_packet_eq checked_def plain_request_def Let_def)

lemma request_length: "length data \<le> 725 \<Longrightarrow> unat (word_of_nat (11 + length data) :: u16) = 11 + length data"
  by (subst unat_of_nat) simp

lemma plain_request_ok: "length data \<le> 725 \<Longrightarrow> command_ok (plain_request cmd i data)"
  by (simp add: command_ok_def plain_request_def zero_command_def command_consts)

lemma checked_ok: "command_ok (checked p) = command_ok p"
  by (simp add: command_ok_def checked_def)

lemma request_rest:
  assumes "length data \<le> 725"
  shows "drop (11 + length data) (command_words (checked (plain_request cmd i data))) = replicate (725 - length data) 0"
proof -
  have "drop (11 + length data) xs = drop (Suc (length data)) (drop 10 xs)" for xs :: "u16 list"
    by simp
  then show ?thesis by (simp only:) (simp add: command_words_def checked_def plain_request_def zero_command_def)
qed

lemma zero_word_bytes: "concat (map word_bytes (replicate n 0)) = replicate (n * 2) 0"
  by (induction n) (simp_all add: word_bytes_def)

lemma received_request:
  assumes "length data \<le> 725"
  shows "received_command (request_bytes (make_command_packet cmd i data)) = make_command_packet cmd i data"
proof -
  let ?p = "checked (plain_request cmd i data)"
  let ?n = "11 + length data"
  have ok: "command_ok ?p" using assms by (simp add: checked_ok plain_request_ok)
  have n: "unat (cp_buffer_length ?p) = ?n"
    using request_length [OF assms] by (simp add: checked_def plain_request_def)
  have split: "command_bytes ?p = request_bytes ?p @ replicate ((725 - length data) * 2) 0"
  proof -
    have "drop (?n * 2) (command_bytes ?p) = replicate ((725 - length data) * 2) 0"
      unfolding command_bytes_words drop_word_bytes request_rest [OF assms] by (rule zero_word_bytes)
    then show ?thesis using append_take_drop_id [of "?n * 2" "command_bytes ?p"] by (simp add: request_bytes_def n)
  qed
  have "length (request_bytes ?p) = ?n * 2"
    using assms length_command_bytes [OF ok] by (simp add: request_bytes_def n command_consts)
  then have "overlay (request_bytes ?p) (replicate MaxPayloadSize 0) = command_bytes ?p"
    using assms unfolding split by (simp add: overlay_def command_consts)
  then show ?thesis
    using command_of_command_bytes [OF ok] by (simp add: received_command_def make_command_checked assms)
qed

section \<open>Requests\<close>

text \<open>
  C36. Whatever the command, id and data, the datagram fits a frame, has checksum zero and gives the
  device the command number, the id, the data and the terminator back.
\<close>

theorem requests_read_back:
  assumes "length data \<le> 725"
  shows "let bs = request_bytes (make_command_packet cmd i data); p = received_command bs in
     length bs = 2 * (length data + 11) \<and> length bs \<le> MaxPayloadSize \<and> foldl (XOR) 0 (words_of bs) = 0
     \<and> cp_buffer_type p = CommandPacketBufferType \<and> cp_cmd p = command_number cmd \<and> cp_device_id p = i
     \<and> command_data_length p = int (length data) + 1
     \<and> take (length data + 1) (cp_data p) = data @ [BufferTerminator]"
proof -
  let ?p = "checked (plain_request cmd i data)"
  have n: "unat (cp_buffer_length ?p) = 11 + length data" and n': "unat (cp_buffer_length (plain_request cmd i data)) = 11 + length data"
    using request_length [OF assms] by (simp_all add: checked_def plain_request_def)
  have ok: "command_ok (plain_request cmd i data)" "cp_checksum (plain_request cmd i data) = 0"
    using assms by (simp_all add: plain_request_ok) (simp add: plain_request_def zero_command_def)
  have "words_of (request_bytes ?p) = take (11 + length data) (command_words ?p)"
    using words_of_word_bytes [of "take (11 + length data) (command_words ?p)" "[]"] by (simp add: request_bytes_words n)
  then have x: "foldl (XOR) 0 (words_of (request_bytes ?p)) = 0"
    using checked_words [OF ok] n' by simp
  have l: "length (request_bytes ?p) = 2 * (length data + 11)"
    using length_command_bytes [of ?p] ok assms by (simp add: request_bytes_def n checked_ok command_consts)
  have "uint (cp_buffer_length ?p) = int (11 + length data)" using n by (simp add: uint_nat)
  then have "command_data_length ?p = int (length data) + 1"
    by (simp add: command_data_length_def) (simp add: checked_def plain_request_def)
  moreover have "cp_buffer_type ?p = CommandPacketBufferType" "cp_cmd ?p = command_number cmd" "cp_device_id ?p = i"
    "take (length data + 1) (cp_data ?p) = data @ [BufferTerminator]"
    by (simp_all add: checked_def plain_request_def command_consts BufferTerminator_def)
  moreover have "received_command (request_bytes ?p) = ?p"
    using received_request [OF assms, of cmd i] by (simp add: make_command_checked assms)
  ultimately show ?thesis unfolding make_command_checked [OF assms] Let_def using l x assms by (simp add: command_consts)
qed

theorem requests_read_back_witness:
  "let bs = request_bytes (make_command_packet WriteRegister 5 [7, 0x5678, 0x1234]); p = received_command bs in
     length bs = 28 \<and> foldl (XOR) 0 (words_of bs) = 0 \<and> cp_cmd p = 80 \<and> cp_device_id p = 5
     \<and> take 4 (cp_data p) = [7, 0x5678, 0x1234, 0xFFFF]"
proof -
  have len: "length [7, 0x5678, 0x1234 :: u16] \<le> 725" by simp
  have four: "(4 :: nat) = Suc (Suc (Suc (Suc 0)))" by simp
  show ?thesis unfolding four
    using requests_read_back [OF len, of WriteRegister 5] by (simp add: Let_def BufferTerminator_def)
qed

section \<open>Transactions\<close>

text \<open>
  A system that answers the sends and the reads of one socket as two sequences say; what any system
  answers in a run is such a pair of sequences.  It records what was sent and counts the reads.
\<close>

record tape =
  tp_sent :: "u8 list list"
  tp_reads :: nat

definition tape_os :: "(nat \<Rightarrow> int option) \<Rightarrow> (nat \<Rightarrow> int + u8 list) \<Rightarrow> tape sockets" where
  "tape_os sends reads =
     \<lparr>so_lookup = (\<lambda>t h. (t, Some 0)), so_socket = (\<lambda>t. (t, Inr 0)), so_bind = (\<lambda>t s p. (t, None)),
      so_connect = (\<lambda>t s a p. (t, None)), so_timeout = (\<lambda>t s r ms. (t, None)), so_close = (\<lambda>t s. t),
      so_send = (\<lambda>t s bs. (t\<lparr>tp_sent := tp_sent t @ [bs]\<rparr>, sends (length (tp_sent t)))),
      so_recv = (\<lambda>t s. (t\<lparr>tp_reads := tp_reads t + 1\<rparr>, reads (tp_reads t))),
      so_strerror = (\<lambda>e. ''error '' @ show_int e)\<rparr>"

text \<open>A response that a transaction accepts.\<close>

definition matching :: "bool \<Rightarrow> command_packet \<Rightarrow> command_packet \<Rightarrow> bool" where
  "matching ignore_error request r \<longleftrightarrow>
     cp_buffer_type r = CommandPacketBufferType \<and> cp_cmd r AND CommandNumberMask = cp_cmd request
     \<and> (ignore_error \<or> \<not> has_error r)"

text \<open>How it may end; \<open>all_tried\<close>: no attempt is left.\<close>

definition outcome_ok :: "(nat \<Rightarrow> int + u8 list) \<Rightarrow> bool \<Rightarrow> command_packet \<Rightarrow> bool \<Rightarrow> tape \<Rightarrow> command_packet wire \<Rightarrow> bool" where
  "outcome_ok reads ignore_error request all_tried t r =
     (case r of
        Value p \<Rightarrow> matching ignore_error request p
          \<and> (\<exists>k < tp_reads t. \<exists>d buf. reads k = Inr d \<and> p = command_of_bytes (overlay d buf))
      | Failed (System e) \<Rightarrow> e \<noteq> EAGAIN
      | Failed (Device v) \<Rightarrow> v \<noteq> 0 \<and> \<not> ignore_error
      | Failed e \<Rightarrow> e = timed_out \<and> all_tried
      | Wild \<Rightarrow> \<exists>k < tp_reads t. \<exists>d buf. reads k = Inr d \<and> \<not> loggable (command_of_bytes (overlay d buf)))"

lemma tape_send:
  "send_command (tape_os sends reads) (Some s) request t =
     (t\<lparr>tp_sent := tp_sent t @ [request_bytes request]\<rparr>,
      case sends (length (tp_sent t)) of None \<Rightarrow> Value () | Some e \<Rightarrow> Failed (System e))"
  by (simp add: send_command_def write_to_socket_def tape_os_def errno_tx_def split: option.split)

lemma tape_receive:
  "receive_response (tape_os sends reads) (Some s) buf t =
     (t\<lparr>tp_reads := tp_reads t + 1\<rparr>,
      case reads (tp_reads t) of Inl e \<Rightarrow> Failed (System e) | Inr d \<Rightarrow> Value (overlay d buf))"
  by (simp add: receive_response_def receive_one_packet_def tape_os_def split: sum.split)

text \<open>One attempt: it ends the transaction, or the next one is made.\<close>

lemma tape_attempt:
  assumes "attempts (tape_os sends reads) (Some s) request ign (Suc k) buf t = (t', r)"
  shows "\<exists>u. u \<in> {t\<lparr>tp_sent := tp_sent t @ [request_bytes request]\<rparr>,
        t\<lparr>tp_sent := tp_sent t @ [request_bytes request], tp_reads := tp_reads t + 1\<rparr>}
     \<and> ((\<exists>b. attempts (tape_os sends reads) (Some s) request ign k b u = (t', r))
         \<or> t' = u \<and> outcome_ok reads ign request (1 = Suc k) u r)"
proof -
  let ?t1 = "t\<lparr>tp_sent := tp_sent t @ [request_bytes request]\<rparr>"
  let ?t2 = "?t1\<lparr>tp_reads := tp_reads t + 1\<rparr>"
  show ?thesis
  proof (cases "sends (length (tp_sent t))")
    case (Some e)
    then show ?thesis using assms
      by (auto simp: tape_send is_timeout_def outcome_ok_def timed_out_def split: if_splits)
  next
    case sent: None
    show ?thesis
    proof (cases "reads (tp_reads t)")
      case (Inl e)
      then show ?thesis using sent assms
        by (auto simp: tape_send tape_receive is_timeout_def outcome_ok_def timed_out_def split: if_splits)
    next
      case (Inr d)
      let ?r = "command_of_bytes (overlay d buf)"
      have ex: "\<exists>k < tp_reads ?t2. \<exists>d' b. reads k = Inr d' \<and> ?r = command_of_bytes (overlay d' b)"
        using Inr by (intro exI [of _ "tp_reads t"]) auto
      have wild: "outcome_ok reads ign request a ?t2 Wild" if "\<not> loggable ?r" for a
        using ex that unfolding outcome_ok_def by simp metis
      have failed: "outcome_ok reads ign request a ?t2 (Failed (Device (get_error_value ?r)))" if "\<not> ign" "has_error ?r" for a
        using that by (simp add: outcome_ok_def has_error_def)
      have accepted: "outcome_ok reads ign request a ?t2 (Value ?r)" if "matching ign request ?r" for a
        using ex that by (simp add: outcome_ok_def)
      from assms consider
          "\<not> loggable ?r" "t' = ?t2" "r = Wild"
        | "attempts (tape_os sends reads) (Some s) request ign k (overlay d buf) ?t2 = (t', r)"
        | "t' = ?t2" "r = Failed (Device (get_error_value ?r))" "\<not> ign" "has_error ?r"
        | "t' = ?t2" "r = Value ?r" "matching ign request ?r"
        using sent Inr by (auto simp: tape_send tape_receive Let_def matching_def split: if_splits)
      then have "(\<exists>b. attempts (tape_os sends reads) (Some s) request ign k b ?t2 = (t', r))
          \<or> t' = ?t2 \<and> outcome_ok reads ign request (1 = Suc k) ?t2 r"
        by cases (use wild failed accepted in blast)+
      then show ?thesis by auto
    qed
  qed
qed

lemma tape_attempts:
  assumes "attempts (tape_os sends reads) (Some s) request ign k buf t = (t', r)"
  shows "\<exists>n \<le> k. tp_sent t' = tp_sent t @ replicate n (request_bytes request) \<and> tp_reads t' \<le> tp_reads t + n
     \<and> tp_reads t \<le> tp_reads t'
     \<and> (0 < k \<longrightarrow> 0 < n) \<and> outcome_ok reads ign request (n = k) t' r"
  using assms
proof (induction k arbitrary: buf t)
  case 0
  then show ?case by (auto simp: outcome_ok_def timed_out_def)
next
  case (Suc k)
  obtain u where u: "u \<in> {t\<lparr>tp_sent := tp_sent t @ [request_bytes request]\<rparr>,
        t\<lparr>tp_sent := tp_sent t @ [request_bytes request], tp_reads := tp_reads t + 1\<rparr>}"
    "(\<exists>b. attempts (tape_os sends reads) (Some s) request ign k b u = (t', r)) \<or> t' = u \<and> outcome_ok reads ign request (1 = Suc k) u r"
    using tape_attempt [OF Suc.prems] by blast
  from u(2) show ?case
  proof
    assume "\<exists>b. attempts (tape_os sends reads) (Some s) request ign k b u = (t', r)"
    then obtain n where "n \<le> k" "tp_sent t' = tp_sent u @ replicate n (request_bytes request)" "tp_reads t' \<le> tp_reads u + n"
      "tp_reads u \<le> tp_reads t'" "outcome_ok reads ign request (n = k) t' r"
      using Suc.IH by blast
    with u(1) show ?thesis by (intro exI [of _ "Suc n"]) auto
  next
    assume "t' = u \<and> outcome_ok reads ign request (1 = Suc k) u r"
    with u(1) show ?thesis by (intro exI [of _ 1]) auto
  qed
qed


end
