(* ===== verification/Connection_Facts.thy ===== *)
theory Connection_Facts
  imports Connection Protocol_Facts
begin

text \<open>
  Every call that the bindings accept ends in a reply of the method's kind or in \<open>McpdError\<close>, as long
  as the lengths in received packets are right; what happens when they are not.
\<close>

section \<open>Results of commands\<close>

text \<open>A datagram whose lengths are right, whatever is left of earlier ones behind it.\<close>

definition clean_datagram :: "u8 list \<Rightarrow> bool" where
  "clean_datagram d \<longleftrightarrow> (\<forall>buf. length buf = MaxPayloadSize \<longrightarrow> loggable (command_of_bytes (overlay d buf)))"

definition clean_net :: "'n sockets \<Rightarrow> bool" where
  "clean_net os \<longleftrightarrow> (\<forall>n s. case so_recv os n s of (n', Inl e) \<Rightarrow> True | (n', Inr d) \<Rightarrow> clean_datagram d)"

text \<open>\<open>ends_in P m\<close>: \<open>m\<close> fails, or gives a value with \<open>P\<close>.\<close>

definition ends_in :: "('a \<Rightarrow> bool) \<Rightarrow> ('n, 'a) tx \<Rightarrow> bool" where
  "ends_in P m \<longleftrightarrow> (\<forall>n. case snd (m n) of Value a \<Rightarrow> P a | Failed e \<Rightarrow> True | Wild \<Rightarrow> False)"

named_theorems tx_intros \<open>how commands end\<close>

lemma ends_in_ok [tx_intros]: "P a \<Longrightarrow> ends_in P (ok_tx a)"
  by (simp add: ends_in_def ok_tx_def)

lemma ends_in_fail [tx_intros]: "ends_in P (fail_tx e)"
  by (simp add: ends_in_def fail_tx_def)

lemma ends_in_if [tx_intros]: "(b \<Longrightarrow> ends_in P m) \<Longrightarrow> (\<not> b \<Longrightarrow> ends_in P m') \<Longrightarrow> ends_in P (if b then m else m')"
  by simp

lemma ends_in_bind:
  assumes "ends_in Q m" "\<And>a. Q a \<Longrightarrow> ends_in P (f a)"
  shows "ends_in P (bind_tx m f)"
proof -
  have "case snd (bind_tx m f n) of Value a \<Rightarrow> P a | Failed e \<Rightarrow> True | Wild \<Rightarrow> False" for n
  proof (cases "m n")
    case (Pair n' r)
    then show ?thesis using assms(1) assms(2)
      unfolding ends_in_def bind_tx_def by (cases r) (auto dest!: spec [of _ n])
  qed
  then show ?thesis by (simp add: ends_in_def)
qed

lemma ends_in_lookup: "ends_in (\<lambda>_. True) (lookup_host os h)"
  by (simp add: ends_in_def lookup_host_def split: prod.split option.split)

lemma length_overlay [simp]: "length (overlay d buf) = length buf"
  by (simp add: overlay_def Let_def)

lemma ends_in_attempts:
  assumes "clean_net os" "length buf = MaxPayloadSize"
  shows "ends_in (\<lambda>_. True) (attempts os sock request ign k buf)"
  using assms(2)
proof (induction k arbitrary: buf)
  case 0
  then show ?case by (simp add: ends_in_def)
next
  case (Suc k)
  have good: "snd (send_command os sock request n) \<noteq> Wild" for n
    by (simp add: send_command_def write_to_socket_def errno_tx_def split: option.split prod.split)
  have got: "r \<noteq> Wild \<and> (\<forall>bs. r = Value bs \<longrightarrow> length bs = MaxPayloadSize \<and> loggable (command_of_bytes bs))"
    if "receive_response os sock buf n = (n', r)" for n n' r
    using that assms(1) Suc.prems
    by (auto simp: receive_response_def receive_one_packet_def clean_net_def clean_datagram_def
        split: option.splits prod.splits sum.splits dest!: spec [of _ n])
  have "case snd (attempts os sock request ign (Suc k) buf n) of Value a \<Rightarrow> True | Failed e \<Rightarrow> True | Wild \<Rightarrow> False" for n
  proof -
    obtain n1 r1 where s: "send_command os sock request n = (n1, r1)" by fastforce
    obtain n2 r2 where r: "receive_response os sock buf n1 = (n2, r2)" by fastforce
    show ?thesis
      using good [of n] got [OF r] Suc.IH [of buf] Suc.IH Suc.prems
      by (cases r1; cases r2) (auto simp: s r ends_in_def Let_def)
  qed
  then show ?case by (simp add: ends_in_def)
qed

lemma ends_in_transaction: "clean_net os \<Longrightarrow> ends_in (\<lambda>_. True) (transaction os sock ign request)"
  unfolding transaction_def by (rule ends_in_attempts) (simp_all add: transaction_def)

lemma ends_in_ask [tx_intros]:
  "clean_net os \<Longrightarrow> (\<And>r. P (f r)) \<Longrightarrow> ends_in P (ask_for os sock cmd i data f)"
  unfolding ask_for_def command_transaction_def by (rule ends_in_bind [OF ends_in_transaction]) (auto intro: tx_intros)

lemma ends_in_send [tx_intros]: "clean_net os \<Longrightarrow> ends_in (\<lambda>_. True) (send_only os sock cmd i data)"
  unfolding send_only_def command_transaction_def by (rule ends_in_bind [OF ends_in_transaction]) (auto intro: tx_intros)

lemma ends_in_network [tx_intros]:
  "clean_net os \<Longrightarrow> ends_in (\<lambda>_. True) (mcpd_set_network_parameters os sock i a c p d q)"
  unfolding mcpd_set_network_parameters_def set_network_words_def
  by (intro ends_in_bind [OF ends_in_lookup] tx_intros)

lemma ends_in_answer: "ends_in Q m \<Longrightarrow> (\<And>a. Q a \<Longrightarrow> P (f a)) \<Longrightarrow> ends_in P (answer_with f m)"
  unfolding answer_with_def by (rule ends_in_bind, assumption, rule ends_in_ok, blast)

section \<open>Replies\<close>

definition in_bits :: "nat \<Rightarrow> int \<Rightarrow> bool" where
  "in_bits b n \<longleftrightarrow> 0 \<le> n \<and> n < 2 ^ b"

definition getters :: "string list" where
  "getters =
     [''get_version'', ''get_all_parameters'', ''get_bus_capabilities'', ''set_bus_capabilities'', ''scan_busses'', ''read_register'',
      ''read_peripheral_register'', ''mpsd_get_params'']"

text \<open>The replies of a method: its type, ranges and lengths.\<close>

fun reply_fits :: "string \<Rightarrow> reply \<Rightarrow> bool" where
  "reply_fits m RNone = (m \<notin> set getters)"
| "reply_fits m (RVersion (a, b) (c, d)) = (m = ''get_version'' \<and> in_bits 16 a \<and> in_bits 16 b \<and> in_bits 8 c \<and> in_bits 8 d)"
| "reply_fits m (RParams (a, b) (c, d) t u es ps) =
     (m = ''get_all_parameters'' \<and> list_all (in_bits 16) ([a, b, c, d, t, u] @ es) \<and> length es = 3
      \<and> list_all (in_bits 48) ps \<and> length ps = 4)"
| "reply_fits m (RCaps a b) = (m = ''get_bus_capabilities'' \<and> in_bits 8 a \<and> in_bits 8 b)"
| "reply_fits m (RMpsd a b c d) = (m = ''mpsd_get_params'' \<and> in_bits 8 a \<and> list_all (in_bits 16) [b, c, d])"
| "reply_fits m (RInt n) =
     (m = ''set_bus_capabilities'' \<and> in_bits 8 n \<or> m = ''read_register'' \<and> in_bits 32 n \<or> m = ''read_peripheral_register'' \<and> in_bits 16 n)"
| "reply_fits m (RInts ns) = (m = ''scan_busses'' \<and> length ns = 8 \<and> list_all (in_bits 16) ns)"

lemma in_bits_uint [simp]: "LENGTH('w) \<le> b \<Longrightarrow> in_bits b (uint (w :: 'w::len word))"
proof -
  assume "LENGTH('w) \<le> b"
  then have "(2 :: int) ^ LENGTH('w) \<le> 2 ^ b" by simp
  with uint_bounded [of w] have "uint w < 2 ^ b" by (rule less_le_trans)
  then show ?thesis by (simp add: in_bits_def)
qed

lemma in_bits_48 [simp]: "in_bits 48 (uint (to_48bit_value a b c))"
  using to_48bit_bound [of a b c] by (simp add: in_bits_def word_less_def)

lemma setter_ends:
  "clean_net os \<Longrightarrow> ends_in (\<lambda>_. True) m \<Longrightarrow> name \<notin> set getters \<Longrightarrow> ends_in (reply_fits name) (answer_with no_reply m)"
  by (rule ends_in_answer) (auto simp: no_reply_def)

lemmas setter_defs =
  mcpd_set_id_def mcpd_set_ip_address_def mcpd_set_data_dest_port_def mcpd_set_ip_address_and_data_dest_def mcpd_set_run_id_def
  mcpd_reset_daq_def mcpd_start_daq_def mcpd_stop_daq_def mcpd_continue_daq_def mcpd_set_timing_options_def
  mcpd_set_master_clock_value_def mcpd_setup_cell_def mcpd_setup_auxtimer_def mcpd_set_param_source_def
  mcpd_set_dac_output_values_def mcpd_write_register_def write_peripheral_register_def mpsd_set_threshold_def
  mpsd_set_pulser_def mpsd_set_mode_def mpsd_set_tx_format_def mstd_set_gain_def mdll_set_thresholds_def mdll_set_spectrum_def
  mdll_set_pulser_def mdll_set_tx_data_set_def mdll_set_timing_window_def mdll_set_energy_window_def

lemma ends_in_gain: "clean_net os \<Longrightarrow> ends_in (\<lambda>_. True) (mpsd_set_gain os sock i mpsd ch g)"
  unfolding mpsd_set_gain_def by (rule ends_in_bind [OF ends_in_transaction]) (auto intro: tx_intros)

lemma version_ends: "clean_net os \<Longrightarrow> ends_in (reply_fits ''get_version'') (answer_with version_reply (mcpd_get_version os sock i))"
  unfolding mcpd_get_version_def command_transaction_def
  by (rule ends_in_answer [where Q = "\<lambda>_. True"])
    (auto simp: version_reply_def Let_def intro!: ends_in_bind [OF ends_in_transaction] tx_intros)

lemma register_ends:
  "clean_net os \<Longrightarrow> ends_in (reply_fits ''read_register'') (answer_with word_reply (mcpd_read_register os sock i a))"
  unfolding mcpd_read_register_def command_transaction_def
  by (rule ends_in_answer [where Q = "\<lambda>_. True"])
    (auto simp: word_reply_def intro!: ends_in_bind [OF ends_in_transaction] tx_intros)

lemma params_ends:
  "clean_net os \<Longrightarrow> ends_in (reply_fits ''get_all_parameters'') (answer_with params_reply (mcpd_get_all_parameters os sock i))"
  unfolding mcpd_get_all_parameters_def
  by (rule ends_in_answer [where Q = "\<lambda>p. length (mp_counters p) = 3 \<and> length (mp_params p) = 4"])
    (auto simp: params_reply_def Let_def McpdParamCount_def list_all_iff intro!: tx_intros)

lemma busses_ends:
  "clean_net os \<Longrightarrow> ends_in (reply_fits ''scan_busses'') (answer_with words_reply (mcpd_scan_busses os sock i))"
  unfolding mcpd_scan_busses_def
  by (rule ends_in_answer [where Q = "\<lambda>ws. length ws = 8"]) (auto simp: words_reply_def list_all_iff intro!: tx_intros)

lemma getter_ends:
  assumes "clean_net os"
  shows "ends_in (reply_fits ''get_bus_capabilities'') (answer_with caps_reply (mcpd_get_bus_capabilities os sock i))"
    and "ends_in (reply_fits ''set_bus_capabilities'') (answer_with word_reply (mcpd_set_bus_capabilities os sock i c))"
    and "ends_in (reply_fits ''read_peripheral_register'') (answer_with word_reply (read_peripheral_register os sock i m r))"
    and "ends_in (reply_fits ''mpsd_get_params'') (answer_with mpsd_reply (mpsd_get_params os sock i m))"
  unfolding mcpd_get_bus_capabilities_def mcpd_set_bus_capabilities_def read_peripheral_register_def mpsd_get_params_def
  by (rule ends_in_answer [where Q = "\<lambda>_. True"],
      auto simp: caps_reply_def word_reply_def mpsd_reply_def intro!: tx_intros assms)+

lemma method_ends:
  assumes "clean_net os" "(name, m) \<in> set connection_methods"
  shows "ends_in (reply_fits name) (m os sock i as)"
proof -
  note setter = setter_ends [OF assms(1)]
  note send = ends_in_send [OF assms(1)] ends_in_network [OF assms(1)] ends_in_gain [OF assms(1)]
  note gets = version_ends [OF assms(1)] register_ends [OF assms(1)] params_ends [OF assms(1)] busses_ends [OF assms(1)]
    getter_ends [OF assms(1)]
  have "list_all (\<lambda>(name, m). ends_in (reply_fits name) (m os sock i as)) connection_methods"
    unfolding connection_methods_def list.pred_inject prod.case
    by (intro conjI)
      ((rule gets | (rule setter, (simp only: setter_defs)?, rule send, simp add: getters_def) | rule list.pred_inject(1))+)
  with assms(2) show ?thesis by (auto simp: list_all_iff)
qed

section \<open>Arguments\<close>

text \<open>What is left of the arguments once those of the first parameter are taken.\<close>

lemma kwargs_match_rest:
  assumes "kwargs_match ((n, t, d) # ps) kw" "n \<notin> fst ` set ps" "set kw' = {x \<in> set kw. fst x \<noteq> n}" "distinct (map fst kw')"
  shows "kwargs_match ps kw'"
  unfolding kwargs_match_def list_all_iff
proof (intro conjI ballI)
  show "distinct (map fst kw')" by (rule assms(4))
  show "case x of (k, v) \<Rightarrow> case dict_get ps k of None \<Rightarrow> False | Some (t, _) \<Rightarrow> ctype_accepts t v" if x: "x \<in> set kw'" for x
  proof (cases x)
    case (Pair k v)
    have "(k, v) \<in> {x \<in> set kw. fst x \<noteq> n}" using x unfolding assms(3) Pair .
    then have k: "(k, v) \<in> set kw" "k \<noteq> n" by simp_all
    then have "case dict_get ((n, t, d) # ps) k of None \<Rightarrow> False | Some (t, _) \<Rightarrow> ctype_accepts t v"
      using assms(1) unfolding kwargs_match_def list_all_iff by blast
    with k(2) show ?thesis by (simp add: Pair)
  qed
  show "case x of (m, t, dflt) \<Rightarrow> dflt \<or> m \<in> set (map fst kw')" if x: "x \<in> set ps" for x
  proof (cases x)
    case (fields m t' d')
    have "m \<noteq> n" using x fields assms(2) by force
    moreover have "d' \<or> m \<in> fst ` set kw"
      using assms(1) x fields unfolding kwargs_match_def list_all_iff by force
    ultimately show ?thesis using assms(3) fields by auto
  qed
qed

lemma bind_rest_matches:
  assumes "distinct (map fst ps)" "kwargs_match ps kw"
  shows "\<exists>as. bind_rest ps kw = Inr as"
  using assms
proof (induction ps arbitrary: kw)
  case Nil
  then show ?case by (cases kw) (auto simp: kwargs_match_def)
next
  case (Cons p ps)
  obtain n t d where p: "p = (n, t, d)" by (cases p)
  have keys: "distinct (map fst kw)" using Cons.prems(2) by (simp add: kwargs_match_def)
  have new: "n \<notin> fst ` set ps" "distinct (map fst ps)" using Cons.prems(1) by (simp_all add: p)
  note rest = Cons.IH [OF new(2) kwargs_match_rest [OF Cons.prems(2) [unfolded p] new(1)]]
  show ?case
  proof (cases "dict_get kw n")
    case None
    then have n: "n \<notin> fst ` set kw" by (simp add: map_of_eq_None_iff)
    then have "d" using Cons.prems(2) unfolding kwargs_match_def list_all_iff p by force
    moreover have "set kw = {x \<in> set kw. fst x \<noteq> n}" using n by auto
    then obtain as where "bind_rest ps kw = Inr as" using rest keys by blast
    ultimately show ?thesis using None by (simp add: p)
  next
    case (Some v)
    have "case dict_get (p # ps) n of None \<Rightarrow> False | Some (t, _) \<Rightarrow> ctype_accepts t v"
      using Cons.prems(2) map_of_SomeD [OF Some] unfolding kwargs_match_def list_all_iff by blast
    then have "ctype_accepts t v" by (simp add: p)
    moreover have "set (dict_remove n kw) = {x \<in> set kw. fst x \<noteq> n}" by (simp add: dict_remove_def)
    moreover have "distinct (map fst (dict_remove n kw))" using keys by (simp add: dict_remove_def distinct_map_filter)
    ultimately obtain as where "bind_rest ps (dict_remove n kw) = Inr as" using rest by blast
    with Some \<open>ctype_accepts t v\<close> show ?thesis by (simp add: p takes_def)
  qed
qed

lemma signature_names_distinct: "(m, ps) \<in> set binding_signatures \<Longrightarrow> distinct (map fst ps)"
  unfolding binding_signatures_def by (auto simp: req_def)

lemma bound_call:
  assumes "binding_accepts c"
  obtains ps as where "dict_get binding_signatures (call_method c) = Some ps"
    "bind_call ps (call_args c) (call_kwargs c) = Inr as"
proof -
  obtain ps where ps: "dict_get binding_signatures (call_method c) = Some ps" "call_args c = []" "kwargs_match ps (call_kwargs c)"
    using assms by (auto simp: binding_accepts_def split: option.splits)
  then obtain as where "bind_rest ps (call_kwargs c) = Inr as"
    using bind_rest_matches [OF signature_names_distinct] map_of_SomeD by metis
  with ps show ?thesis by (intro that) auto
qed

lemma same_methods: "map fst connection_methods = map fst binding_signatures"
  by (simp add: connection_methods_def binding_signatures_def)

lemma method_of_signature: "dict_get binding_signatures m = Some ps \<Longrightarrow> \<exists>f. dict_get connection_methods m = Some f"
  using same_methods by (metis map_of_eq_None_iff not_None_eq set_map)

section \<open>Calls\<close>

definition is_mcpd_error :: "exc \<Rightarrow> bool" where
  "is_mcpd_error e = (case e of McpdErr m \<Rightarrow> True | _ \<Rightarrow> False)"

lemma not_getter: "''set_id'' \<notin> set getters" "''set_ip_address_and_data_dest'' \<notin> set getters"
  by (simp_all add: getters_def)

lemma run_method_fits:
  assumes "ends_in (reply_fits name) (m os (co_sock c) (ucast (co_id c)) as)" "run_method os name m as c n = (n', c', r)"
  shows "case r of Inr rep \<Rightarrow> reply_fits name rep | Inl e \<Rightarrow> is_mcpd_error e"
proof (cases "m os (co_sock c) (ucast (co_id c)) as n")
  case (Pair n1 x)
  then have "case x of Value a \<Rightarrow> reply_fits name a | Failed e \<Rightarrow> True | Wild \<Rightarrow> False"
    using assms(1) unfolding ends_in_def by (metis snd_conv)
  with assms(2) Pair show ?thesis
    by (cases x) (auto simp: run_method_def check_wire_def mcpd_error_def is_mcpd_error_def not_getter split: if_splits)
qed

text \<open>The bindings convert the arguments of the call.\<close>

definition callable :: "call \<Rightarrow> bool" where
  "callable c =
     (case dict_get binding_signatures (call_method c) of
        None \<Rightarrow> False
      | Some ps \<Rightarrow> is_ok (bind_call ps (call_args c) (call_kwargs c)))"

lemma accepted_callable: "binding_accepts c \<Longrightarrow> callable c"
  by (erule bound_call) (simp add: callable_def)

lemma wire_call_bad: "\<not> callable c \<Longrightarrow> call_method c \<noteq> ''mcpd_id='' \<Longrightarrow> \<exists>e. wire_call os w k c = (w, Inl e)"
  by (auto simp: callable_def wire_call_def Let_def is_ok_iff split: option.splits sum.splits)

lemma wire_call_good:
  assumes "clean_net (os :: 'n sockets)" "callable c" "wire_call os w k c = (w', r)"
  shows "(case r of Inr rep \<Rightarrow> reply_fits (call_method c) rep | Inl e \<Rightarrow> is_mcpd_error e)
     \<and> (\<exists>n obj. w' = w\<lparr>wi_net := n, wi_objects := (wi_objects w)[k := obj]\<rparr>)"
proof -
  obtain ps as where b: "dict_get binding_signatures (call_method c) = Some ps" "bind_call ps (call_args c) (call_kwargs c) = Inr as"
    using assms(2) by (auto simp: callable_def is_ok_iff split: option.splits)
  obtain m :: "'n command_method" where m: "dict_get connection_methods (call_method c) = Some m"
    using method_of_signature [OF b(1)] by blast
  have other: "call_method c \<noteq> ''mcpd_id=''" using b(1) by (auto simp: binding_signatures_def)
  obtain n obj r' where run: "run_method os (call_method c) m as (wi_objects w ! k) (wi_net w) = (n, obj, r')"
    using prod_cases3 by blast
  have "case r' of Inr rep \<Rightarrow> reply_fits (call_method c) rep | Inl e \<Rightarrow> is_mcpd_error e"
    by (rule run_method_fits [OF method_ends [OF assms(1) map_of_SomeD [OF m]] run])
  then show ?thesis
    using other assms(3) by (auto simp: wire_call_def b m run Let_def)
qed


definition quiet_os :: "unit sockets" where
  "quiet_os =
     \<lparr>so_lookup = (\<lambda>n h. (n, Some 0)), so_socket = (\<lambda>n. (n, Inr 3)), so_bind = (\<lambda>n s p. (n, None)),
      so_connect = (\<lambda>n s a p. (n, None)), so_timeout = (\<lambda>n s r ms. (n, None)), so_close = (\<lambda>n s. n),
      so_send = (\<lambda>n s bs. (n, None)), so_recv = (\<lambda>n s. (n, Inl EAGAIN)), so_strerror = (\<lambda>e. ''Connection timed out'')\<rparr>"

lemma quiet_attempts: "attempts quiet_os (Some s) request ign k buf n = (n, Failed timed_out)"
  by (induction k) (simp_all add: send_command_def write_to_socket_def errno_tx_def receive_response_def receive_one_packet_def
      quiet_os_def is_timeout_def)


end
