(* ===== verification/Device_Link.thy ===== *)
theory Device_Link
  imports Connection_Facts
begin

text \<open>
  The other end of the wire: a device that answers requests, the simulated one of the tests
  (\<open>src/test/fake_mcpd_device.py\<close>), and a link that loses datagrams or delivers answers late.
\<close>

section \<open>The simulated device\<close>

datatype daq_mode = Idle | Running

text \<open>
  \<open>FakeMcpdDevice\<close>; \<open>fd_alive\<close>: its thread has not ended with an exception.
\<close>

record fake_device =
  fd_id :: u16
  fd_enforce :: bool
  fd_cpu :: "u16 \<times> u16"
  fd_fpga :: "u8 \<times> u8"
  fd_caps :: "u16 \<times> u16"
  fd_registers :: "(u16, u32) dict"
  fd_mode :: daq_mode
  fd_bus_ids :: "u16 list"
  fd_last :: "(u16, u16 list) dict"
  fd_requests :: "(u16 \<times> u16 list) list"
  fd_alive :: bool

text \<open>\<open>__init__(mcpd_id, enforce_id)\<close>\<close>

definition new_fake_device :: "u16 \<Rightarrow> bool \<Rightarrow> fake_device" where
  "new_fake_device i enforce =
     \<lparr>fd_id = i, fd_enforce = enforce, fd_cpu = (1, 0), fd_fpga = (2, 3), fd_caps = (7, 1), fd_registers = [], fd_mode = Idle,
      fd_bus_ids = replicate 8 0, fd_last = [], fd_requests = [], fd_alive = True\<rparr>"

text \<open>\<open>_encode(cmd, device_id, data_words, error)\<close>\<close>

definition fake_encode :: "u16 \<Rightarrow> u8 \<Rightarrow> u16 list \<Rightarrow> u16 \<Rightarrow> u8 list" where
  "fake_encode cmd device_id data_words error =
     (let data = take CommandPacketMaxDataWords (data_words @ [BufferTerminator] @ replicate CommandPacketMaxDataWords 0);
          len = CommandPacketHeaderWords + length data_words + 1;
          p = zero_command
            \<lparr>cp_buffer_length := word_of_nat len, cp_buffer_type := CommandPacketBufferType,
             cp_header_length := word_of_nat CommandPacketHeaderWords, cp_cmd := cmd OR push_bit CommandErrorShift error,
             cp_device_id := device_id, cp_data := data\<rparr> in
      take (len * 2)
        (command_bytes (p\<lparr>cp_checksum := foldl (XOR) 0 [cp_buffer_length p, cp_buffer_type p, cp_header_length p, 0, cp_cmd p]\<rparr>)))"

text \<open>\<open>xs[:n]\<close>\<close>

definition slice_to :: "int \<Rightarrow> 'a list \<Rightarrow> 'a list" where
  "slice_to n xs = (if 0 \<le> n then take (nat n) xs else take (length xs - nat (- n)) xs)"

text \<open>\<open>_request_data\<close>\<close>

definition request_data :: "u16 list \<Rightarrow> u16 list" where
  "request_data data = takeWhile (\<lambda>w. w \<noteq> BufferTerminator) data"

definition log_request :: "u16 \<Rightarrow> u16 list \<Rightarrow> fake_device \<Rightarrow> fake_device" where
  "log_request cmd ws d = d\<lparr>fd_last := dict_set cmd ws (fd_last d), fd_requests := fd_requests d @ [(cmd, ws)]\<rparr>"

text \<open>\<open>_handle\<close>: the answer, none once the thread has ended.  An id that is no byte ends it when it is packed.\<close>

definition fake_handle :: "fake_device \<Rightarrow> command_packet \<Rightarrow> fake_device \<times> u8 list option" where
  "fake_handle d0 p =
     (if \<not> fd_alive d0 then (d0, None)
      else
        (let cmd = cp_cmd p AND CommandNumberMask; i = cp_device_id p; data = cp_data p;
             d = log_request cmd (slice_to (command_data_length p - 1) data) d0;
             reply = (\<lambda>ws. Some (fake_encode cmd i ws 0)) in
         if fd_enforce d \<and> ucast i \<noteq> fd_id d then
           (if unat (fd_id d) < 256 then (d, Some (fake_encode cmd (ucast (fd_id d)) [] 128)) else (d\<lparr>fd_alive := False\<rparr>, None))
         else if cmd = 51 then
           (d, reply [fst (fd_cpu d), snd (fd_cpu d), push_bit 8 (ucast (fst (fd_fpga d))) OR ucast (snd (fd_fpga d))])
         else if cmd = 4 then (d\<lparr>fd_id := data ! 0\<rparr>, reply [])
         else if cmd = 80 then
           (d\<lparr>fd_registers := dict_set (data ! 0) (ucast (data ! 1) OR push_bit 16 (ucast (data ! 2))) (fd_registers d)\<rparr>,
            reply [data ! 0, data ! 1, data ! 2])
         else if cmd = 81 then
           (let v = dict_get_or (fd_registers d) (data ! 0) 0 in
            (d, reply [data ! 0, ucast (v AND 0xFFFF), ucast (drop_bit 16 v AND 0xFFFF)]))
         else if cmd = 22 then (d, reply [fst (fd_caps d), snd (fd_caps d)])
         else if cmd = 23 then (d\<lparr>fd_caps := (fst (fd_caps d), data ! 0)\<rparr>, reply [data ! 0])
         else if cmd = 1 then (d\<lparr>fd_mode := Running\<rparr>, reply [])
         else if cmd = 2 \<or> cmd = 0 then (d\<lparr>fd_mode := Idle\<rparr>, reply [])
         else if cmd = 3 then (d\<lparr>fd_mode := Running\<rparr>, reply [])
         else if cmd = 12 then (d, reply [])
         else if cmd = 36 then (d, reply (fd_bus_ids d))
         else if cmd = 24 then (d, reply [data ! 0, 0, 0, 0])
         else (d, reply (request_data data))))"

section \<open>A link that loses datagrams\<close>

text \<open>What happens to a request and its answer; a late answer arrives with the next one.\<close>

datatype fate = Through | Request_Lost | Answer_Lost | Answer_Late

record 'd link =
  lk_device :: 'd
  lk_queue :: "u8 list list"
  lk_late :: "u8 list list"
  lk_sent :: nat

definition of_option :: "'a option \<Rightarrow> 'a list" where
  "of_option a = (case a of None \<Rightarrow> [] | Some x \<Rightarrow> [x])"

definition link_send :: "('d \<Rightarrow> command_packet \<Rightarrow> 'd \<times> u8 list option) \<Rightarrow> (nat \<Rightarrow> fate) \<Rightarrow> u8 list \<Rightarrow> 'd link \<Rightarrow> 'd link" where
  "link_send device plan bs l =
     (let (d, answer) = device (lk_device l) (received_command bs);
          l' = l\<lparr>lk_queue := lk_queue l @ lk_late l, lk_late := [], lk_sent := lk_sent l + 1\<rparr> in
      case plan (lk_sent l) of
        Through \<Rightarrow> l'\<lparr>lk_device := d, lk_queue := lk_queue l' @ of_option answer\<rparr>
      | Request_Lost \<Rightarrow> l'
      | Answer_Lost \<Rightarrow> l'\<lparr>lk_device := d\<rparr>
      | Answer_Late \<Rightarrow> l'\<lparr>lk_device := d, lk_late := of_option answer\<rparr>)"

definition link_os :: "('d \<Rightarrow> command_packet \<Rightarrow> 'd \<times> u8 list option) \<Rightarrow> (nat \<Rightarrow> fate) \<Rightarrow> 'd link sockets" where
  "link_os device plan =
     \<lparr>so_lookup = (\<lambda>l h. (l, Some 0)), so_socket = (\<lambda>l. (l, Inr 0)), so_bind = (\<lambda>l s p. (l, None)),
      so_connect = (\<lambda>l s a p. (l, None)), so_timeout = (\<lambda>l s r ms. (l, None)), so_close = (\<lambda>l s. l),
      so_send = (\<lambda>l s bs. (link_send device plan bs l, None)),
      so_recv = (\<lambda>l s. case lk_queue l of [] \<Rightarrow> (l, Inl EAGAIN) | a # q \<Rightarrow> (l\<lparr>lk_queue := q\<rparr>, Inr a)),
      so_strerror = (\<lambda>e. ''error '' @ show_int e)\<rparr>"

text \<open>Nothing is on its way.\<close>

definition link_idle :: "'d link \<Rightarrow> bool" where
  "link_idle l \<longleftrightarrow> lk_queue l = [] \<and> lk_late l = []"

text \<open>No answer is late, and of five requests in a row one gets through.\<close>

definition fair_plan :: "(nat \<Rightarrow> fate) \<Rightarrow> bool" where
  "fair_plan plan \<longleftrightarrow> (\<forall>i. plan i \<noteq> Answer_Late) \<and> (\<forall>i. \<exists>j < MaxAttempts. plan (i + j) = Through)"

text \<open>An answer that a device gives to a request: a packet whose lengths are right.\<close>

definition answers :: "command_packet \<Rightarrow> u8 list \<Rightarrow> bool" where
  "answers request a \<longleftrightarrow>
     (let r = received_command a in
      loggable r \<and> cp_buffer_type r = CommandPacketBufferType \<and> cp_cmd r AND CommandNumberMask = cp_cmd request)"

text \<open>
  A device that answers every well-formed request: what a transaction over a lossy link relies on.
\<close>

locale answering_device =
  fixes device :: "'d \<Rightarrow> command_packet \<Rightarrow> 'd \<times> u8 list option"
    and well :: "'d \<Rightarrow> bool"
    and request_ok :: "command_packet \<Rightarrow> bool"
  assumes device_answers: "well d \<Longrightarrow> request_ok p \<Longrightarrow> \<exists>a. snd (device d p) = Some a \<and> answers p a"
    and device_stays: "well d \<Longrightarrow> request_ok p \<Longrightarrow> well (fst (device d p))"
begin

text \<open>The device after \<open>n\<close> copies of a request.\<close>

definition repeated :: "command_packet \<Rightarrow> nat \<Rightarrow> 'd \<Rightarrow> 'd" where
  "repeated p n = ((\<lambda>d. fst (device d p)) ^^ n)"

lemma repeated_well: "request_ok p \<Longrightarrow> well d \<Longrightarrow> well (repeated p n d)"
  by (induction n) (simp_all add: repeated_def device_stays)

lemma repeated_Suc: "repeated p n (fst (device d p)) = repeated p (Suc n) d"
  by (simp add: repeated_def funpow_Suc_right del: funpow.simps)

definition result_of :: "bool \<Rightarrow> u8 list \<Rightarrow> command_packet wire" where
  "result_of ign a =
     (let r = received_command a in if \<not> ign \<and> has_error r then Failed (Device (get_error_value r)) else Value r)"

text \<open>How a transaction ends that gets through after \<open>n\<close> answers were lost.\<close>

definition reached :: "bool \<Rightarrow> command_packet \<Rightarrow> 'd link \<Rightarrow> 'd link \<Rightarrow> command_packet wire \<Rightarrow> bool" where
  "reached ign p l l' r \<longleftrightarrow>
     link_idle l' \<and> lk_sent l < lk_sent l'
     \<and> (\<exists>n a. lk_device l' = repeated p (Suc n) (lk_device l) \<and> snd (device (repeated p n (lk_device l)) p) = Some a
          \<and> r = result_of ign a)"

lemma link_through:
  assumes "received_command (request_bytes p) = p" "plan (lk_sent l) = Through" "link_idle l"
    and "snd (device (lk_device l) p) = Some a" "answers p a"
  shows "attempts (link_os device plan) (Some s) p ign (Suc k) (replicate MaxPayloadSize 0) l =
      (l\<lparr>lk_sent := lk_sent l + 1, lk_device := fst (device (lk_device l) p)\<rparr>, result_of ign a)"
  using assms by (cases l)
    (simp add: send_command_def write_to_socket_def errno_tx_def receive_response_def receive_one_packet_def link_os_def
      link_send_def link_idle_def of_option_def answers_def received_command_def [symmetric] Let_def split_beta result_of_def)

lemma link_lost:
  assumes "received_command (request_bytes p) = p" "plan (lk_sent l) = Request_Lost \<or> plan (lk_sent l) = Answer_Lost" "link_idle l"
  shows "attempts (link_os device plan) (Some s) p ign (Suc k) buf l =
      attempts (link_os device plan) (Some s) p ign k buf
        (l\<lparr>lk_sent := lk_sent l + 1,
           lk_device := (if plan (lk_sent l) = Request_Lost then lk_device l else fst (device (lk_device l) p))\<rparr>)"
  using assms by (cases l)
    (auto simp: send_command_def write_to_socket_def errno_tx_def receive_response_def receive_one_packet_def link_os_def
      link_send_def link_idle_def is_timeout_def Let_def split_beta)

lemma link_attempts:
  assumes req: "received_command (request_bytes p) = p" "request_ok p" and late: "\<And>i. plan i \<noteq> Answer_Late"
  shows "\<lbrakk>\<exists>j < k. plan (lk_sent l + j) = Through; link_idle l; well (lk_device l)\<rbrakk> \<Longrightarrow>
     \<exists>l' r. attempts (link_os device plan) (Some s) p ign k (replicate MaxPayloadSize 0) l = (l', r) \<and> reached ign p l l' r"
proof (induction k arbitrary: l)
  case 0
  then show ?case by simp
next
  case (Suc k)
  note idle = Suc.prems(2) and wl = Suc.prems(3)
  show ?case
  proof (cases "plan (lk_sent l) = Through")
    case True
    obtain a where a: "snd (device (lk_device l) p) = Some a" "answers p a" using device_answers wl req(2) by blast
    have "reached ign p l (l\<lparr>lk_sent := lk_sent l + 1, lk_device := fst (device (lk_device l) p)\<rparr>) (result_of ign a)"
      unfolding reached_def using idle a
      by (intro conjI exI [of _ 0] exI [of _ a]) (simp_all add: link_idle_def repeated_def)
    with link_through [where plan = plan and l = l and p = p and k = k and s = s and ign = ign, OF req(1) True idle a]
    show ?thesis by blast
  next
    case False
    then have lost: "plan (lk_sent l) = Request_Lost \<or> plan (lk_sent l) = Answer_Lost"
      using late [of "lk_sent l"] by (cases "plan (lk_sent l)") auto
    let ?d = "if plan (lk_sent l) = Request_Lost then lk_device l else fst (device (lk_device l) p)"
    let ?l = "l\<lparr>lk_sent := lk_sent l + 1, lk_device := ?d\<rparr>"
    obtain j where j: "j < Suc k" "plan (lk_sent l + j) = Through" using Suc.prems(1) by blast
    with False obtain i where i: "j = Suc i" by (cases j) auto
    have "\<exists>i < k. plan (lk_sent ?l + i) = Through" using i j by (intro exI [of _ i]) simp
    moreover have "link_idle ?l" using idle by (simp add: link_idle_def)
    moreover have "well (lk_device ?l)" using wl device_stays req(2) by simp
    ultimately obtain l' r where r: "attempts (link_os device plan) (Some s) p ign k (replicate MaxPayloadSize 0) ?l = (l', r)"
      "reached ign p ?l l' r" using Suc.IH [of ?l] by blast
    from r(2) obtain n a where n: "link_idle l'" "lk_sent ?l < lk_sent l'" "lk_device l' = repeated p (Suc n) ?d"
      "snd (device (repeated p n ?d) p) = Some a" "r = result_of ign a" by (auto simp: reached_def)
    have "\<exists>n. lk_device l' = repeated p (Suc n) (lk_device l) \<and> snd (device (repeated p n (lk_device l)) p) = Some a"
    proof (cases "plan (lk_sent l) = Request_Lost")
      case True
      with n show ?thesis by auto
    next
      case False
      with n have "lk_device l' = repeated p (Suc (Suc n)) (lk_device l)" "snd (device (repeated p (Suc n) (lk_device l)) p) = Some a"
        by (simp_all add: repeated_Suc)
      then show ?thesis by blast
    qed
    with n have "reached ign p l l' r" by (auto simp: reached_def)
    with r(1) show ?thesis
      unfolding link_lost [where plan = plan and l = l and p = p and k = k and s = s and ign = ign, OF req(1) lost idle] by blast
  qed
qed

lemma link_transaction:
  assumes "received_command (request_bytes p) = p" "request_ok p" "fair_plan plan" "link_idle l" "well (lk_device l)"
  shows "\<exists>l' r. transaction (link_os device plan) (Some s) ign p l = (l', r) \<and> reached ign p l l' r"
  unfolding transaction_def using assms by (intro link_attempts) (auto simp: fair_plan_def)

lemma reached_well: "reached ign p l l' r \<Longrightarrow> request_ok p \<Longrightarrow> well (lk_device l) \<Longrightarrow> well (lk_device l')"
  by (auto simp: reached_def repeated_well)

end

section \<open>The simulated device answers\<close>

lemma words_prefix_back:
  assumes "command_ok p" "n \<le> 736" "drop n (command_words p) = replicate (736 - n) 0"
  shows "received_command (take (n * 2) (command_bytes p)) = p"
proof -
  have len: "length (command_bytes p) = MaxPayloadSize" using assms(1) by (rule length_command_bytes)
  have "drop (n * 2) (command_bytes p) = replicate ((736 - n) * 2) 0"
    unfolding command_bytes_words drop_word_bytes assms(3) by (rule zero_word_bytes)
  then have "overlay (take (n * 2) (command_bytes p)) (replicate MaxPayloadSize 0) = command_bytes p"
    using len assms(2) append_take_drop_id [of "n * 2" "command_bytes p"]
    by (simp add: overlay_def command_consts min_absorb2 diff_mult_distrib)
  then show ?thesis using command_of_command_bytes [OF assms(1)] by (simp add: received_command_def)
qed

text \<open>The answer as the program reads it.\<close>

definition fake_answer :: "u16 \<Rightarrow> u8 \<Rightarrow> u16 list \<Rightarrow> u16 \<Rightarrow> command_packet" where
  "fake_answer cmd i ws err =
     (let p = zero_command
            \<lparr>cp_buffer_length := word_of_nat (11 + length ws), cp_buffer_type := 0x8000, cp_header_length := 10,
             cp_cmd := cmd OR push_bit 8 err, cp_device_id := i, cp_data := ws @ 0xFFFF # replicate (725 - length ws) 0\<rparr> in
      p\<lparr>cp_checksum := foldl (XOR) 0 [cp_buffer_length p, cp_buffer_type p, cp_header_length p, 0, cp_cmd p]\<rparr>)"

lemma fake_encode_back:
  assumes "length ws \<le> 725"
  shows "received_command (fake_encode cmd i ws err) = fake_answer cmd i ws err"
proof -
  let ?a = "fake_answer cmd i ws err"
  have "take (726 - length ws) (0xFFFF # replicate 726 0) = 0xFFFF # replicate (725 - length ws) (0 :: u16)"
    using assms by (simp add: take_Cons' min_def)
  then have e: "fake_encode cmd i ws err = take ((11 + length ws) * 2) (command_bytes ?a)"
    using assms by (simp add: fake_encode_def fake_answer_def Let_def command_consts CommandErrorShift_def BufferTerminator_def)
  have ok: "command_ok ?a"
    using assms by (simp add: command_ok_def fake_answer_def Let_def zero_command_def command_consts)
  have "drop (11 + length ws) xs = drop (Suc (length ws)) (drop 10 xs)" for xs :: "u16 list"
    by simp
  then have "drop (11 + length ws) (command_words ?a) = replicate (725 - length ws) 0"
    by (simp only:) (simp add: command_words_def fake_answer_def Let_def zero_command_def)
  with assms ok show ?thesis unfolding e by (intro words_prefix_back) simp_all
qed

lemma fake_answer_fields:
  assumes "length ws \<le> 725"
  shows "command_data_length (fake_answer cmd i ws err) = int (length ws) + 1"
    and "loggable (fake_answer cmd i ws err)"
    and "cp_buffer_type (fake_answer cmd i ws err) = CommandPacketBufferType"
    and "cp_cmd (fake_answer cmd i ws err) = cmd OR push_bit 8 err"
    and "k < length ws \<Longrightarrow> cp_data (fake_answer cmd i ws err) ! k = ws ! k"
proof -
  have "uint (word_of_nat (11 + length ws) :: u16) = int (11 + length ws)"
    using request_length [OF assms] by (simp add: uint_nat)
  then show l: "command_data_length (fake_answer cmd i ws err) = int (length ws) + 1"
    by (simp add: command_data_length_def fake_answer_def Let_def)
  have "(word_of_int (int (length ws) + 1) :: u16) = word_of_nat (length ws + 1)" by simp
  then have "unat (word_of_int (int (length ws) + 1) :: u16) = (length ws + 1) mod 2 ^ LENGTH(16)"
    by (simp only: unat_of_nat)
  then have "unat (word_of_int (int (length ws) + 1) :: u16) = length ws + 1"
    using assms by simp
  then show "loggable (fake_answer cmd i ws err)"
    using assms by (simp add: loggable_def logged_data_def l command_consts) (simp add: fake_answer_def Let_def)
qed (simp_all add: fake_answer_def Let_def command_consts nth_append)

text \<open>A request of the library, with an id that is a byte when it sets one.\<close>

definition library_request :: "command_packet \<Rightarrow> bool" where
  "library_request p \<longleftrightarrow>
     (\<exists>cmd i data. p = make_command_packet cmd i data \<and> length data \<le> 725
        \<and> (cmd = SetId \<longrightarrow> (\<exists>b :: u8. data = [ucast b])))"

text \<open>The thread of the device runs and will.\<close>

definition fake_well :: "fake_device \<Rightarrow> bool" where
  "fake_well d \<longleftrightarrow> fd_alive d \<and> unat (fd_id d) < 256 \<and> length (fd_bus_ids d) \<le> 725"

lemma command_mask: "command_number cmd AND CommandNumberMask = command_number cmd"
  by (cases cmd) (simp_all add: CommandNumberMask_def)

lemma answer_mask: "err \<in> {0, 128} \<Longrightarrow> (command_number cmd OR push_bit 8 err) AND CommandNumberMask = command_number cmd"
  by (cases cmd) (auto simp: CommandNumberMask_def)

lemma request_fields:
  assumes "length data \<le> 725"
  shows "cp_cmd (make_command_packet cmd i data) = command_number cmd"
    and "cp_device_id (make_command_packet cmd i data) = i"
    and "cp_data (make_command_packet cmd i data) = data @ 0xFFFF # replicate (725 - length data) 0"
    and "slice_to (command_data_length (make_command_packet cmd i data) - 1) (cp_data (make_command_packet cmd i data)) = data"
proof -
  have "uint (word_of_nat (11 + length data) :: u16) = int (11 + length data)"
    using request_length [OF assms] by (simp add: uint_nat)
  then have "command_data_length (make_command_packet cmd i data) = int (length data) + 1"
    using assms by (simp add: make_command_checked command_data_length_def checked_def plain_request_def)
  then show "slice_to (command_data_length (make_command_packet cmd i data) - 1) (cp_data (make_command_packet cmd i data)) = data"
    using assms by (simp add: make_command_checked checked_def plain_request_def slice_to_def)
qed (simp_all add: assms make_command_checked checked_def plain_request_def)

lemma request_data_of: "length (request_data (data @ 0xFFFF # zs)) \<le> length data"
  by (induction data) (simp_all add: request_data_def BufferTerminator_def)

definition replies :: "u16 \<Rightarrow> u8 list option \<Rightarrow> bool" where
  "replies c r \<longleftrightarrow> (\<exists>i ws err. r = Some (fake_encode c i ws err) \<and> length ws \<le> 725 \<and> err \<in> {0, 128})"

lemma replies_encode: "length ws \<le> 725 \<Longrightarrow> err \<in> {0, 128} \<Longrightarrow> replies c (Some (fake_encode c i ws err))"
  unfolding replies_def by blast

lemma replies_if: "(b \<Longrightarrow> replies c (snd x)) \<Longrightarrow> (\<not> b \<Longrightarrow> replies c (snd y)) \<Longrightarrow> replies c (snd (if b then x else y))"
  by simp

lemma fake_handle_library:
  assumes "fake_well d" "library_request p"
  shows "replies (cp_cmd p) (snd (fake_handle d p))"
    and "fake_well (fst (fake_handle d p))"
proof -
  obtain cmd i data where p: "p = make_command_packet cmd i data" "length data \<le> 725"
    and sets: "cmd = SetId \<longrightarrow> (\<exists>b :: u8. data = [ucast b])"
    using assms(2) unfolding library_request_def by blast
  note fields = request_fields [OF p(2), of cmd i, folded p(1)]
  have id: "command_number cmd = 4 \<longleftrightarrow> cmd = SetId" using command_number_inject [of cmd SetId] by simp
  have byte: "unat (ucast (b :: u8) :: u16) < 256" for b
  proof -
    have "unat b < 2 ^ LENGTH(8)" by (rule unsigned_less)
    then show ?thesis by (simp add: unsigned_ucast_eq take_bit_nat_def)
  qed
  show "fake_well (fst (fake_handle d p))"
    using assms(1) sets byte unfolding fake_handle_def Let_def fields command_mask id fake_well_def log_request_def
    by (auto split: if_splits)
  have le: "length (request_data (data @ 0xFFFF # replicate (725 - length data) 0)) \<le> 725"
    using p(2) request_data_of order_trans by blast
  show "replies (cp_cmd p) (snd (fake_handle d p))"
    using assms(1) le unfolding fake_handle_def Let_def fields command_mask fake_well_def log_request_def
    by (intro replies_if) (simp_all add: replies_encode del: replicate.simps)
qed

text \<open>The device of the tests is such a device.\<close>

interpretation fake: answering_device fake_handle fake_well library_request
proof unfold_locales
  fix d p
  assume well: "fake_well d" and req: "library_request p"
  obtain i ws err where a: "snd (fake_handle d p) = Some (fake_encode (cp_cmd p) i ws err)" "length ws \<le> 725" "err \<in> {0, 128}"
    using fake_handle_library(1) [OF well req] unfolding replies_def by blast
  obtain cmd where cmd: "cp_cmd p = command_number cmd" using req request_fields(1) by (auto simp: library_request_def)
  have "answers p (fake_encode (cp_cmd p) i ws err)"
    using a(2) answer_mask [OF a(3), of cmd]
    by (simp add: answers_def fake_encode_back fake_answer_fields cmd)
  with a(1) show "\<exists>a. snd (fake_handle d p) = Some a \<and> answers p a" by blast
  show "fake_well (fst (fake_handle d p))" using well req by (rule fake_handle_library)
qed

end
