(* ===== verification/Link_Facts.thy ===== *)
theory Link_Facts
  imports Device_Link Commands_Facts
begin

text \<open>
  The programs, the library and the device of the tests together: what a program asks for arrives,
  though requests and answers are lost and requests are repeated.
\<close>

section \<open>Commands over a lossy link\<close>

text \<open>The device takes requests for this id.\<close>

definition takes_id :: "fake_device \<Rightarrow> u8 \<Rightarrow> bool" where
  "takes_id d i \<longleftrightarrow> (fd_enforce d \<longrightarrow> ucast i = fd_id d)"

text \<open>
  A step of the device: it keeps \<open>I\<close>, reaches \<open>Q\<close> and answers with words that satisfy \<open>R\<close>.
\<close>

definition serves :: "command_type \<Rightarrow> u8 \<Rightarrow> u16 list \<Rightarrow> (fake_device \<Rightarrow> bool) \<Rightarrow> (fake_device \<Rightarrow> bool) \<Rightarrow> (u16 list \<Rightarrow> bool) \<Rightarrow> bool" where
  "serves cmd i data I Q R \<longleftrightarrow>
     (\<forall>d. fake_well d \<longrightarrow> I d \<longrightarrow>
        (\<exists>d' ws. fake_handle d (make_command_packet cmd i data) = (d', Some (fake_encode (command_number cmd) i ws 0))
           \<and> length ws \<le> 725 \<and> R ws \<and> I d' \<and> Q d'))"

lemma servesI:
  "(\<And>d. fake_well d \<Longrightarrow> I d \<Longrightarrow>
     \<exists>d' ws. fake_handle d (make_command_packet cmd i data) = (d', Some (fake_encode (command_number cmd) i ws 0))
       \<and> length ws \<le> 725 \<and> R ws \<and> I d' \<and> Q d') \<Longrightarrow> serves cmd i data I Q R"
  unfolding serves_def by blast

lemma no_error_bits: "\<not> has_error (fake_answer (command_number cmd) i ws 0)"
  by (cases cmd) (simp_all add: has_error_def get_error_value_def fake_answer_def Let_def CommandErrorMask_def CommandErrorShift_def)

lemma link_answer:
  assumes "fair_plan plan" "link_idle l" "fake_well (lk_device l)" "length data \<le> 725" "cmd \<noteq> SetId" "I (lk_device l)"
    and step: "\<And>d. fake_well d \<Longrightarrow> I d \<Longrightarrow> \<exists>d' a. fake_handle d (make_command_packet cmd i data) = (d', Some a) \<and> A a \<and> I d' \<and> Q d'"
  shows "\<exists>l' a. transaction (link_os fake_handle plan) (Some s) ign (make_command_packet cmd i data) l = (l', fake.result_of ign a)
     \<and> A a \<and> link_idle l' \<and> fake_well (lk_device l') \<and> I (lk_device l') \<and> Q (lk_device l')"
proof -
  let ?p = "make_command_packet cmd i data"
  let ?d = "\<lambda>n. fake.repeated ?p n (lk_device l)"
  have req: "library_request ?p" using assms(4,5) unfolding library_request_def by blast
  have well: "fake_well (?d n)" for n using req assms(3) by (rule fake.repeated_well)
  have I: "I (?d n)" for n
  proof (induction n)
    case 0
    then show ?case using assms(6) by (simp add: fake.repeated_def)
  next
    case (Suc n)
    then show ?case using step [OF well [of n]] by (auto simp: fake.repeated_def)
  qed
  obtain l' r where t: "transaction (link_os fake_handle plan) (Some s) ign ?p l = (l', r)" "fake.reached ign ?p l l' r"
    using fake.link_transaction [OF received_request [OF assms(4)] req assms(1,2,3)] by blast
  then obtain n a where n: "link_idle l'" "lk_device l' = ?d (Suc n)" "snd (fake_handle (?d n) ?p) = Some a"
    "r = fake.result_of ign a" unfolding fake.reached_def by blast
  obtain d' a' where "fake_handle (?d n) ?p = (d', Some a')" "A a'" "Q d'" using step [OF well I] by blast
  moreover have "lk_device l' = fst (fake_handle (?d n) ?p)" using n(2) by (simp add: fake.repeated_def)
  ultimately have "A a" "Q (lk_device l')" using n(3) by simp_all
  moreover have "fake_well (lk_device l')" "I (lk_device l')" unfolding n(2) by (rule well, rule I)
  ultimately show ?thesis using t(1) [unfolded n(4)] n(1) by blast
qed

lemma link_command:
  assumes "fair_plan plan" "link_idle l" "fake_well (lk_device l)" "length data \<le> 725" "cmd \<noteq> SetId"
    and "serves cmd i data I Q R" "I (lk_device l)"
  shows "\<exists>l' ws. transaction (link_os fake_handle plan) (Some s) ign (make_command_packet cmd i data) l =
       (l', Value (fake_answer (command_number cmd) i ws 0))
     \<and> length ws \<le> 725 \<and> R ws \<and> link_idle l' \<and> fake_well (lk_device l') \<and> I (lk_device l') \<and> Q (lk_device l')"
proof -
  let ?A = "\<lambda>a. \<exists>ws. a = fake_encode (command_number cmd) i ws 0 \<and> length ws \<le> 725 \<and> R ws"
  have "\<exists>d' a. fake_handle d (make_command_packet cmd i data) = (d', Some a) \<and> ?A a \<and> I d' \<and> Q d'" if d: "fake_well d" "I d" for d
  proof -
    obtain d' ws where "fake_handle d (make_command_packet cmd i data) = (d', Some (fake_encode (command_number cmd) i ws 0))"
      "length ws \<le> 725" "R ws" "I d'" "Q d'" using assms(6) d unfolding serves_def by blast
    then show ?thesis by blast
  qed
  from link_answer [where A = ?A, OF assms(1-5,7) this]
  obtain l' a where l': "transaction (link_os fake_handle plan) (Some s) ign (make_command_packet cmd i data) l = (l', fake.result_of ign a)"
    "?A a" "link_idle l'" "fake_well (lk_device l')" "I (lk_device l')" "Q (lk_device l')" by blast
  then obtain ws where ws: "a = fake_encode (command_number cmd) i ws 0" "length ws \<le> 725" "R ws" by blast
  then have "fake.result_of ign a = Value (fake_answer (command_number cmd) i ws 0)"
    by (simp add: fake.result_of_def fake_encode_back no_error_bits)
  with l' ws show ?thesis by auto
qed

lemma link_send_only:
  assumes "fair_plan plan" "link_idle l" "fake_well (lk_device l)" "length data \<le> 725" "cmd \<noteq> SetId"
    and "serves cmd i data I Q R" "I (lk_device l)"
  shows "\<exists>l'. send_only (link_os fake_handle plan) (Some s) cmd i data l = (l', Value ())
     \<and> link_idle l' \<and> fake_well (lk_device l') \<and> I (lk_device l') \<and> Q (lk_device l')"
  using link_command [OF assms, of s False]
  by (auto simp: send_only_def command_transaction_def bind_tx_def ok_tx_def)

section \<open>Registers\<close>

text \<open>What the device holds in a register.\<close>

definition register_of :: "fake_device \<Rightarrow> u16 \<Rightarrow> u32" where
  "register_of d a = dict_get_or (fd_registers d) a 0"

lemma takes_id_simps [simp]: "takes_id (log_request c ws d) i = takes_id d i" "takes_id (d\<lparr>fd_registers := rs\<rparr>) i = takes_id d i"
  "register_of (log_request c ws d) a = register_of d a"
  by (simp_all add: takes_id_def log_request_def register_of_def)

definition low_word :: "u32 \<Rightarrow> u16" where
  "low_word v = ucast (v AND 0xFFFF)"

definition high_word :: "u32 \<Rightarrow> u16" where
  "high_word v = ucast (drop_bit 16 v)"

lemma words_join: "ucast (low_word v) OR push_bit 16 (ucast (high_word v)) = v"
proof -
  have m: "(0xFFFF :: u32) = mask 16" by (simp add: mask_eq_exp_minus_1)
  show ?thesis unfolding low_word_def high_word_def m
    by (rule bit_word_eqI) (auto simp: bit_simps)
qed

text \<open>A register is written, another one keeps its content.\<close>

lemma serves_write:
  "serves WriteRegister i [a, low_word v, high_word v] (\<lambda>d. takes_id d i \<and> (\<forall>b. b \<noteq> a \<longrightarrow> register_of d b = g b))
     (\<lambda>d. register_of d a = v) (\<lambda>_. True)"
proof (rule servesI)
  fix d
  assume d: "fake_well d" "takes_id d i \<and> (\<forall>b. b \<noteq> a \<longrightarrow> register_of d b = g b)"
  let ?ws = "[a, low_word v, high_word v]"
  have len: "length ?ws \<le> 725" by simp
  note fields = request_fields(1-3) [OF len, of WriteRegister i] and log = request_fields(4) [OF len, of WriteRegister i]
  let ?d = "log_request 80 ?ws d\<lparr>fd_registers := dict_set a v (fd_registers d)\<rparr>"
  have "fake_handle d (make_command_packet WriteRegister i ?ws) = (?d, Some (fake_encode 80 i ?ws 0))"
    using d words_join [of v] unfolding fake_handle_def Let_def log unfolding fields
    by (auto simp: CommandNumberMask_def takes_id_def fake_well_def log_request_def)
  moreover have "register_of ?d b = (if b = a then v else register_of d b)" for b
    by (simp add: register_of_def dict_get_or_def log_request_def)
  ultimately show "\<exists>d' ws. fake_handle d (make_command_packet WriteRegister i ?ws) =
        (d', Some (fake_encode (command_number WriteRegister) i ws 0)) \<and> length ws \<le> 725 \<and> True
      \<and> (takes_id d' i \<and> (\<forall>b. b \<noteq> a \<longrightarrow> register_of d' b = g b)) \<and> register_of d' a = v"
    using d by (intro exI [of _ ?d] exI [of _ ?ws]) simp
qed

lemma serves_read:
  "serves ReadRegister i [a] (\<lambda>d. takes_id d i \<and> (\<forall>b. register_of d b = g b)) (\<lambda>_. True)
     (\<lambda>ws. ws = [a, low_word (g a), high_word (g a)])"
proof (rule servesI)
  fix d
  assume d: "fake_well d" "takes_id d i \<and> (\<forall>b. register_of d b = g b)"
  have len: "length [a] \<le> 725" by simp
  note fields = request_fields(1-3) [OF len, of ReadRegister i] and log = request_fields(4) [OF len, of ReadRegister i]
  have high: "high_word v = ucast (drop_bit 16 v AND 0xFFFF)" for v
  proof -
    have m: "(0xFFFF :: u32) = mask 16" by (simp add: mask_eq_exp_minus_1)
    show ?thesis unfolding high_word_def m by (rule bit_word_eqI) (auto simp: bit_simps)
  qed
  have "fake_handle d (make_command_packet ReadRegister i [a]) =
      (log_request 81 [a] d, Some (fake_encode 81 i [a, low_word (g a), high_word (g a)] 0))"
    using d unfolding fake_handle_def Let_def log unfolding fields
    by (auto simp: CommandNumberMask_def takes_id_def fake_well_def log_request_def register_of_def low_word_def high)
  with d show "\<exists>d' ws. fake_handle d (make_command_packet ReadRegister i [a]) =
        (d', Some (fake_encode (command_number ReadRegister) i ws 0)) \<and> length ws \<le> 725 \<and> ws = [a, low_word (g a), high_word (g a)]
      \<and> (takes_id d' i \<and> (\<forall>b. register_of d' b = g b)) \<and> True"
    by simp
qed

lemma link_write:
  assumes "fair_plan plan" "link_idle l" "fake_well (lk_device l)" "takes_id (lk_device l) i"
  shows "\<exists>l'. mcpd_write_register (link_os fake_handle plan) (Some s) i a v l = (l', Value ())
     \<and> link_idle l' \<and> fake_well (lk_device l') \<and> takes_id (lk_device l') i
     \<and> register_of (lk_device l') = (register_of (lk_device l))(a := v)"
  using link_send_only [OF assms(1-3) _ _ serves_write [of i a v "register_of (lk_device l)"], of s] assms(4)
  by (auto simp: mcpd_write_register_def low_word_def high_word_def fun_eq_iff)

lemma link_read:
  assumes "fair_plan plan" "link_idle l" "fake_well (lk_device l)" "takes_id (lk_device l) i"
  shows "\<exists>l'. mcpd_read_register (link_os fake_handle plan) (Some s) i a l = (l', Value (register_of (lk_device l) a))
     \<and> link_idle l' \<and> fake_well (lk_device l') \<and> takes_id (lk_device l') i
     \<and> register_of (lk_device l') = register_of (lk_device l)"
proof -
  let ?g = "register_of (lk_device l)"
  obtain l' where "transaction (link_os fake_handle plan) (Some s) False (make_command_packet ReadRegister i [a]) l =
      (l', Value (fake_answer (command_number ReadRegister) i [a, low_word (?g a), high_word (?g a)] 0))"
    and l': "link_idle l'" "fake_well (lk_device l')" "takes_id (lk_device l') i" "\<forall>b. register_of (lk_device l') b = ?g b"
    using link_command [OF assms(1-3) _ _ serves_read [of i a ?g], of s False] assms(4) by auto
  then have "mcpd_read_register (link_os fake_handle plan) (Some s) i a l = (l', Value (?g a))"
    using words_join [of "?g a"]
    by (simp add: mcpd_read_register_def command_transaction_def bind_tx_def ok_tx_def fake_answer_fields)
  with l' show ?thesis by auto
qed

section \<open>Calls of the programs\<close>

text \<open>An open connection to a device that runs and takes its requests, nothing on its way.\<close>

definition attached :: "fake_device link wire_world \<Rightarrow> nat \<Rightarrow> bool" where
  "attached w k \<longleftrightarrow>
     k < length (wi_objects w) \<and> co_sock (wi_objects w ! k) \<noteq> None \<and> link_idle (wi_net w) \<and> fake_well (lk_device (wi_net w))
     \<and> takes_id (lk_device (wi_net w)) (ucast (co_id (wi_objects w ! k)))"

abbreviation device_of :: "fake_device link wire_world \<Rightarrow> fake_device" where
  "device_of w \<equiv> lk_device (wi_net w)"

lemma attached_again:
  assumes "attached w k" "link_idle l" "fake_well (lk_device l)" "takes_id (lk_device l) (ucast (co_id (wi_objects w ! k)))"
  shows "attached (w\<lparr>wi_net := l, wi_objects := (wi_objects w)[k := wi_objects w ! k]\<rparr>) k"
  using assms by (simp add: attached_def)

lemma int_word_inject: "0 \<le> a \<Longrightarrow> a < 2 ^ LENGTH('w) \<Longrightarrow> 0 \<le> b \<Longrightarrow> b < 2 ^ LENGTH('w) \<Longrightarrow>
    (word_of_int a :: 'w::len word) = word_of_int b \<longleftrightarrow> a = b"
  by (metis uint_word_of_int_eq take_bit_int_eq_self)

lemma wire_write:
  assumes "fair_plan plan" "attached w k" "0 \<le> a" "a < 2 ^ 16" "0 \<le> v" "v < 2 ^ 32"
  shows "\<exists>w'. wire_call (link_os fake_handle plan) w k (Call ''write_register'' [PInt a, PInt v] []) = (w', Inr RNone)
     \<and> attached w' k \<and> register_of (device_of w') = (register_of (device_of w))(word_of_int a := word_of_int v)"
proof -
  let ?i = "ucast (co_id (wi_objects w ! k)) :: u8"
  obtain s where s: "co_sock (wi_objects w ! k) = Some s" using assms(2) by (auto simp: attached_def)
  obtain l' where l': "mcpd_write_register (link_os fake_handle plan) (Some s) ?i (word_of_int a) (word_of_int v) (wi_net w) = (l', Value ())"
    "link_idle l'" "fake_well (lk_device l')" "takes_id (lk_device l') ?i"
    "register_of (lk_device l') = (register_of (device_of w))(word_of_int a := word_of_int v)"
    using link_write [OF assms(1), of "wi_net w" ?i s "word_of_int a" "word_of_int v"] assms(2) by (auto simp: attached_def)
  have "wire_call (link_os fake_handle plan) w k (Call ''write_register'' [PInt a, PInt v] []) =
      (w\<lparr>wi_net := l', wi_objects := (wi_objects w)[k := wi_objects w ! k]\<rparr>, Inr RNone)"
    using assms(3-6) by (simp add: wire_call_def binding_signatures_def connection_methods_def req_def takes_def bind_res_def
        run_method_def s num_def l'(1) answer_with_def bind_tx_def ok_tx_def no_reply_def check_wire_def)
  with attached_again [OF assms(2) l'(2-4)] l'(5) show ?thesis by simp
qed

lemma wire_read:
  assumes "fair_plan plan" "attached w k" "0 \<le> a" "a < 2 ^ 16"
  shows "snd (wire_call (link_os fake_handle plan) w k (Call ''read_register'' [PInt a] [])) =
     Inr (RInt (uint (register_of (device_of w) (word_of_int a))))"
proof -
  let ?i = "ucast (co_id (wi_objects w ! k)) :: u8"
  obtain s where s: "co_sock (wi_objects w ! k) = Some s" using assms(2) by (auto simp: attached_def)
  obtain l' where l': "mcpd_read_register (link_os fake_handle plan) (Some s) ?i (word_of_int a) (wi_net w) =
      (l', Value (register_of (device_of w) (word_of_int a)))"
    using link_read [OF assms(1), of "wi_net w" ?i s "word_of_int a"] assms(2) by (auto simp: attached_def)
  show ?thesis
    using assms(3,4) by (simp add: wire_call_def binding_signatures_def connection_methods_def req_def takes_def bind_res_def
        run_method_def s num_def l' answer_with_def bind_tx_def ok_tx_def word_reply_def check_wire_def)
qed

lemma wire_read_range:
  "\<not> (0 \<le> a \<and> a < 2 ^ 16) \<Longrightarrow> snd (wire_call os w k (Call ''read_register'' [PInt a] [])) = Inl bad_call"
  by (auto simp: wire_call_def binding_signatures_def connection_methods_def req_def takes_def)

text \<open>
  C39. Over a link that loses requests and answers, but lets one of any five requests in a row
  through, \<open>write_register\<close> returns, and then \<open>read_register\<close> gives the 32 bit value that was written for
  this address and for any other address what it would have given before.
\<close>

theorem register_roundtrip:
  assumes "fair_plan plan" "attached w k" "0 \<le> a" "a < 2 ^ 16" "0 \<le> v" "v < 2 ^ 32"
  shows "case wire_call (link_os fake_handle plan) w k (Call ''write_register'' [PInt a, PInt v] []) of (w', r) \<Rightarrow>
     r = Inr RNone \<and> attached w' k
     \<and> (\<forall>b. snd (wire_call (link_os fake_handle plan) w' k (Call ''read_register'' [PInt b] [])) =
          (if b = a then Inr (RInt v) else snd (wire_call (link_os fake_handle plan) w k (Call ''read_register'' [PInt b] []))))"
proof -
  obtain w' where w': "wire_call (link_os fake_handle plan) w k (Call ''write_register'' [PInt a, PInt v] []) = (w', Inr RNone)"
    "attached w' k" "register_of (device_of w') = (register_of (device_of w))(word_of_int a := word_of_int v)"
    using wire_write [OF assms] by blast
  have "snd (wire_call (link_os fake_handle plan) w' k (Call ''read_register'' [PInt b] [])) =
      (if b = a then Inr (RInt v) else snd (wire_call (link_os fake_handle plan) w k (Call ''read_register'' [PInt b] [])))" for b
  proof (cases "0 \<le> b \<and> b < 2 ^ 16")
    case True
    have "uint (word_of_int v :: u32) = v" using assms(5,6) by (simp add: uint_word_of_int_eq take_bit_int_eq_self)
    with True show ?thesis
      using wire_read [OF assms(1) w'(2), of b] wire_read [OF assms(1,2), of b] int_word_inject [where 'w = 16, of b a] assms(3,4)
      by (simp add: w'(3))
  next
    case False
    with assms(3,4) show ?thesis by (auto simp: wire_read_range)
  qed
  with w' show ?thesis by simp
qed

text \<open>Every second request is lost, of the others every second answer.\<close>

definition bad_link :: "nat \<Rightarrow> fate" where
  "bad_link n = (if n mod 4 = 3 then Through else if n mod 4 = 1 then Answer_Lost else Request_Lost)"

lemma bad_link_fair: "fair_plan bad_link"
proof -
  have "\<exists>j < MaxAttempts. bad_link (i + j) = Through" for i
  proof (intro exI [of _ "3 - i mod 4"] conjI)
    have "i mod 4 < 4" by simp
    then have "i + (3 - i mod 4) = 3 + 4 * (i div 4)" using div_mult_mod_eq [of i 4] by linarith
    then have "(i + (3 - i mod 4)) mod 4 = 3" by simp
    then show "bad_link (i + (3 - i mod 4)) = Through" unfolding bad_link_def by (rule if_P)
  qed (simp add: MaxAttempts_def)
  moreover have "bad_link i \<noteq> Answer_Late" for i unfolding bad_link_def by (cases "i mod 4 = 3"; cases "i mod 4 = 1") simp_all
  ultimately show ?thesis unfolding fair_plan_def by blast
qed

definition test_world :: "fake_device link wire_world" where
  "test_world =
     \<lparr>wi_net = \<lparr>lk_device = new_fake_device 5 True, lk_queue = [], lk_late = [], lk_sent = 0\<rparr>,
      wi_objects = [\<lparr>co_sock = Some 3, co_id = 5\<rparr>]\<rparr>"

lemma test_world_attached: "attached test_world 0"
  by (simp add: attached_def test_world_def new_fake_device_def link_idle_def fake_well_def takes_id_def)

theorem register_roundtrip_witness:
  "case wire_call (link_os fake_handle bad_link) test_world 0 (Call ''write_register'' [PInt 7, PInt 305419896] []) of (w', r) \<Rightarrow>
     r = Inr RNone
     \<and> snd (wire_call (link_os fake_handle bad_link) w' 0 (Call ''read_register'' [PInt 7] [])) = Inr (RInt 305419896)"
proof (cases "wire_call (link_os fake_handle bad_link) test_world 0 (Call ''write_register'' [PInt 7, PInt 305419896] [])")
  case (Pair w' r)
  have v: "(0 :: int) \<le> 7" "(7 :: int) < 2 ^ 16" "(0 :: int) \<le> 305419896" "(305419896 :: int) < 2 ^ 32" by simp_all
  from register_roundtrip [OF bad_link_fair test_world_attached v] show ?thesis
    unfolding Pair prod.case by (metis (full_types))
qed

section \<open>Gains\<close>

text \<open>
  What the requests mean for the gains of the MPSD on a bus: \<open>SetGain\<close> with bus, channel and gain,
  channel 8 for all channels.
\<close>

definition gain_of_request :: "int \<Rightarrow> int list \<Rightarrow> u16 \<times> u16 list \<Rightarrow> int list" where
  "gain_of_request b gs r =
     (case r of
        (c, [m, ch, g]) \<Rightarrow>
          if c \<noteq> command_number SetGain \<or> uint m \<noteq> b then gs
          else if unat ch = MpsdChannelCount then replicate (length gs) (uint g)
          else if unat ch < length gs then gs[unat ch := uint g]
          else gs
      | _ \<Rightarrow> gs)"

definition device_gains :: "fake_device \<Rightarrow> int \<Rightarrow> int list" where
  "device_gains d b = foldl (gain_of_request b) (replicate MpsdChannelCount 0) (fd_requests d)"

lemma fake_handle_echo:
  assumes "length data \<le> 725" "fd_alive d" "fd_enforce d \<longrightarrow> ucast i = fd_id d"
    and "command_number cmd \<notin> {0, 1, 2, 3, 4, 12, 22, 23, 24, 36, 51, 80, 81}"
  shows "fake_handle d (make_command_packet cmd i data) =
    (log_request (command_number cmd) data d,
     Some (fake_encode (command_number cmd) i (request_data (data @ 0xFFFF # replicate (725 - length data) 0)) 0))"
proof -
  note fields = request_fields(1-3) [OF assms(1), of cmd i] and log = request_fields(4) [OF assms(1), of cmd i]
  have "fd_id (log_request c data d) = fd_id d" "fd_enforce (log_request c data d) = fd_enforce d" for c
    by (simp_all add: log_request_def)
  then show ?thesis
    using assms(2-4) unfolding fake_handle_def Let_def log unfolding fields command_mask by auto
qed

lemma serves_gain:
  assumes "cmd = SetGain"
  shows "serves cmd i [m, ch, g]
     (\<lambda>d. takes_id d i \<and> (fd_requests d = rs \<or> (\<exists>n. fd_requests d = rs @ replicate (Suc n) (command_number cmd, [m, ch, g]))))
     (\<lambda>d. \<exists>n. fd_requests d = rs @ replicate (Suc n) (command_number cmd, [m, ch, g])) (\<lambda>_. True)"
proof (rule servesI)
  fix d
  let ?ws = "[m, ch, g]" and ?c = "command_number cmd"
  assume d: "fake_well d" "takes_id d i \<and> (fd_requests d = rs \<or> (\<exists>n. fd_requests d = rs @ replicate (Suc n) (?c, ?ws)))"
  have len: "length ?ws \<le> 725" by simp
  have alive: "fd_alive d" "fd_enforce d \<longrightarrow> ucast i = fd_id d" using d by (simp_all add: fake_well_def takes_id_def)
  have reply: "fake_handle d (make_command_packet cmd i ?ws) =
      (log_request ?c ?ws d, Some (fake_encode ?c i (request_data (?ws @ 0xFFFF # replicate (725 - length ?ws) 0)) 0))"
    by (rule fake_handle_echo [OF len alive]) (simp add: assms)
  have "length (request_data (?ws @ 0xFFFF # replicate (725 - length ?ws) 0)) \<le> 725"
    using request_data_of [of ?ws] len by (rule order_trans)
  moreover obtain n where "fd_requests (log_request ?c ?ws d) = rs @ replicate (Suc n) (?c, ?ws)"
  proof (cases "fd_requests d = rs")
    case True
    then show ?thesis by (intro that [of 0]) (simp add: log_request_def)
  next
    case False
    then obtain n where "fd_requests d = rs @ replicate (Suc n) (?c, ?ws)" using d by blast
    then show ?thesis by (intro that [of "Suc n"]) (simp add: log_request_def replicate_append_same)
  qed
  ultimately show "\<exists>d' ws. fake_handle d (make_command_packet cmd i ?ws) = (d', Some (fake_encode ?c i ws 0)) \<and> length ws \<le> 725 \<and> True
      \<and> (takes_id d' i \<and> (fd_requests d' = rs \<or> (\<exists>n. fd_requests d' = rs @ replicate (Suc n) (?c, ?ws))))
      \<and> (\<exists>n. fd_requests d' = rs @ replicate (Suc n) (?c, ?ws))"
    using d reply by (intro exI [of _ "log_request ?c ?ws d"] exI conjI) auto
qed

lemma gain_request_twice:
  "gain_of_request b (gain_of_request b gs (c, [m, ch, g])) (c, [m, ch, g]) = gain_of_request b gs (c, [m, ch, g])"
  by (auto simp: gain_of_request_def)

lemma gain_request_repeated: "foldl (gain_of_request b) gs (replicate (Suc n) (c, [m, ch, g])) = gain_of_request b gs (c, [m, ch, g])"
  by (induction n arbitrary: gs) (simp_all add: gain_request_twice)

lemma link_gain:
  assumes "fair_plan plan" "link_idle l" "fake_well (lk_device l)" "takes_id (lk_device l) i"
  shows "\<exists>l'. mpsd_set_gain (link_os fake_handle plan) (Some s) i m ch g l = (l', Value ())
     \<and> link_idle l' \<and> fake_well (lk_device l') \<and> takes_id (lk_device l') i
     \<and> (\<forall>b. device_gains (lk_device l') b = gain_of_request b (device_gains (lk_device l) b) (command_number SetGain, [ucast m, ucast ch, ucast g]))"
proof -
  let ?ws = "[ucast m, ucast ch, ucast g] :: u16 list" and ?c = "command_number SetGain"
  obtain l' ws n where "transaction (link_os fake_handle plan) (Some s) True (make_command_packet SetGain i ?ws) l =
      (l', Value (fake_answer ?c i ws 0))"
    and l': "link_idle l'" "fake_well (lk_device l')" "takes_id (lk_device l') i"
      "fd_requests (lk_device l') = fd_requests (lk_device l) @ replicate (Suc n) (?c, ?ws)"
    using link_command [OF assms(1-3) _ _ serves_gain [OF refl, of i "ucast m" "ucast ch" "ucast g" "fd_requests (lk_device l)"],
        of s True] assms(4) by auto
  then have "mpsd_set_gain (link_os fake_handle plan) (Some s) i m ch g l = (l', Value ())"
    by (simp add: mpsd_set_gain_def bind_tx_def ok_tx_def)
  moreover have "device_gains (lk_device l') b = gain_of_request b (device_gains (lk_device l) b) (?c, ?ws)" for b
    unfolding device_gains_def l'(4) foldl_append gain_request_repeated ..
  ultimately show ?thesis using l' by blast
qed

lemma byte_word: "0 \<le> x \<Longrightarrow> x < 256 \<Longrightarrow> uint (ucast (word_of_int x :: u8) :: u16) = x"
  by (simp add: unsigned_ucast_eq uint_word_of_int_eq take_bit_int_eq_self)

text \<open>A gain call of the GUI has the effect that the GUI's own model gives it.\<close>

lemma wire_gain:
  assumes "fair_plan plan" "attached w k" "0 \<le> b" "b < 256" "ch < 256" "0 \<le> g" "g < 256"
  shows "\<exists>w'. wire_call (link_os fake_handle plan) w k (gain_call (PInt b) ch (PInt g)) = (w', Inr RNone) \<and> attached w' k
     \<and> device_gains (device_of w') b = gain_effect (device_gains (device_of w) b) (gain_call (PInt b) ch (PInt g))
     \<and> (\<forall>b'. b' \<noteq> b \<longrightarrow> device_gains (device_of w') b' = device_gains (device_of w) b')"
proof -
  let ?i = "ucast (co_id (wi_objects w ! k)) :: u8"
  let ?m = "word_of_int b :: u8" and ?ch = "word_of_int (int ch) :: u8" and ?g = "word_of_int g :: u8"
  obtain s where s: "co_sock (wi_objects w ! k) = Some s" using assms(2) by (auto simp: attached_def)
  obtain l' where l': "mpsd_set_gain (link_os fake_handle plan) (Some s) ?i ?m ?ch ?g (wi_net w) = (l', Value ())"
    "link_idle l'" "fake_well (lk_device l')" "takes_id (lk_device l') ?i"
    and gains: "device_gains (lk_device l') b' =
        gain_of_request b' (device_gains (device_of w) b') (command_number SetGain, [ucast ?m, ucast ?ch, ucast ?g])" for b'
    using link_gain [OF assms(1), of "wi_net w" ?i s ?m ?ch ?g] assms(2) by (auto simp: attached_def)
  have call: "wire_call (link_os fake_handle plan) w k (gain_call (PInt b) ch (PInt g)) =
      (w\<lparr>wi_net := l', wi_objects := (wi_objects w)[k := wi_objects w ! k]\<rparr>, Inr RNone)"
    using assms(3-7) l'(1) by (simp add: gain_call_def wire_call_def binding_signatures_def connection_methods_def req_def takes_def
        bind_res_def dict_remove_def run_method_def s num_def answer_with_def bind_tx_def ok_tx_def no_reply_def check_wire_def)
  have words: "uint (ucast ?m :: u16) = b" "uint (ucast ?g :: u16) = g" using assms by (simp_all only: byte_word)
  have "uint (ucast ?ch :: u16) = int ch" using assms(5) by (intro byte_word) simp_all
  then have ch: "unat (ucast ?ch :: u16) = ch" by (simp only: unat_eq_nat_uint nat_int)
  have "device_gains (lk_device l') b = gain_effect (device_gains (device_of w) b) (gain_call (PInt b) ch (PInt g))"
    unfolding gains gain_of_request_def prod.case list.case words ch by (simp add: MpsdChannelCount_def)
  moreover have "device_gains (lk_device l') b' = device_gains (device_of w) b'" if "b' \<noteq> b" for b'
    unfolding gains gain_of_request_def prod.case list.case words using that by simp
  ultimately show ?thesis using call attached_again [OF assms(2) l'(2-4)] by simp
qed

text \<open>A call that sets gains within range.\<close>

definition gain_in_range :: "int \<Rightarrow> call \<Rightarrow> bool" where
  "gain_in_range b c \<longleftrightarrow> (\<exists>ch g. c = gain_call (PInt b) ch (PInt g) \<and> ch < 256 \<and> 0 \<le> g \<and> g < 256)"

lemma wire_gains:
  assumes "fair_plan plan" "0 \<le> b" "b < 256"
  shows "attached w k \<Longrightarrow> list_all (gain_in_range b) ms \<Longrightarrow>
     \<exists>w'. call_seq (wire_api (link_os fake_handle plan)) w k ms = (w', Inr RNone) \<and> attached w' k
     \<and> device_gains (device_of w') b = foldl gain_effect (device_gains (device_of w) b) ms
     \<and> (\<forall>b'. b' \<noteq> b \<longrightarrow> device_gains (device_of w') b' = device_gains (device_of w) b')"
proof (induction ms arbitrary: w)
  case Nil
  then show ?case by simp
next
  case (Cons c ms)
  then obtain ch g where c: "c = gain_call (PInt b) ch (PInt g)" "ch < 256" "0 \<le> g" "g < 256"
    by (auto simp: gain_in_range_def)
  obtain w1 where w1: "wire_call (link_os fake_handle plan) w k c = (w1, Inr RNone)" "attached w1 k"
    "device_gains (device_of w1) b = gain_effect (device_gains (device_of w) b) c"
    "\<forall>b'. b' \<noteq> b \<longrightarrow> device_gains (device_of w1) b' = device_gains (device_of w) b'"
    using wire_gain [OF assms(1) Cons.prems(1) assms(2,3) c(2-4)] unfolding c(1) by blast
  obtain w' where w': "call_seq (wire_api (link_os fake_handle plan)) w1 k ms = (w', Inr RNone)" "attached w' k"
    "device_gains (device_of w') b = foldl gain_effect (device_gains (device_of w1) b) ms"
    "\<forall>b'. b' \<noteq> b \<longrightarrow> device_gains (device_of w') b' = device_gains (device_of w1) b'"
    using Cons.IH [OF w1(2)] Cons.prems(2) by auto
  have "call_seq (wire_api (link_os fake_handle plan)) w k (c # ms) = (w', Inr RNone)"
    using w1(1) w'(1) by (simp add: wire_api_def)
  with w1 w' show ?case by simp
qed

lemma length_device_gains: "length (device_gains d b) = MpsdChannelCount"
proof -
  have step: "length (gain_of_request b gs r) = length gs" for gs r
    by (auto simp: gain_of_request_def split: prod.split list.split)
  have "length (foldl (gain_of_request b) gs rs) = length gs" for gs rs
    by (induction rs arbitrary: gs) (simp_all add: step)
  then show ?thesis by (simp add: device_gains_def)
qed

text \<open>
  C40. Setting the gains of an MPSD in the GUI, over such a link, returns, and then the gains that the
  device was told for this bus are exactly the eight wanted ones, those of the other buses
  unchanged, though requests may have arrived several times.
\<close>

theorem gains_reach_device:
  assumes "fair_plan plan" "attached w k" "0 \<le> b" "b < 256"
    and "\<forall>a \<in> set (cmd_args GainSetting). arg_value_ok a (arg_value vals a)"
  shows "case command_call (wire_api (link_os fake_handle plan)) w k GainSetting vals [(''mpsd_id'', PInt b)] of (w', r) \<Rightarrow>
     r = Inr RNone \<and> attached w' k
     \<and> device_gains (device_of w') b = map (gain_value vals) [0..<MpsdChannelCount]
     \<and> (\<forall>b'. b' \<noteq> b \<longrightarrow> device_gains (device_of w') b' = device_gains (device_of w) b')"
proof -
  let ?api = "wire_api (link_os fake_handle plan)" and ?g = "gain_value vals"
  obtain ms where ms: "command_calls GainSetting vals [(''mpsd_id'', PInt b)] = Inr ms"
    "foldl gain_effect (device_gains (device_of w) b) ms = map ?g [0..<MpsdChannelCount]"
    using gains_refinement [OF assms(5), of "PInt b"] length_device_gains by blast
  have "0 \<le> ?g ch \<and> ?g ch < 256" if "ch < 8" for ch
    using gain_calls_eq(2) [OF assms(5) that] by simp
  then have range: "list_all (gain_in_range b) ms"
    using ms(1) gain_calls_eq(1) [OF assms(5), of "PInt b"]
    by (auto simp: list_all_iff gain_in_range_def simp del: upt.simps split: if_splits) fastforce+
  obtain w' where w': "call_seq ?api w k ms = (w', Inr RNone)" "attached w' k"
    "device_gains (device_of w') b = map ?g [0..<MpsdChannelCount]"
    "\<forall>b'. b' \<noteq> b \<longrightarrow> device_gains (device_of w') b' = device_gains (device_of w) b'"
    using wire_gains [OF assms(1,3,4,2) range] unfolding ms(2) by blast
  obtain kw where kw: "call_kwargs_of GainSetting vals [(''mpsd_id'', PInt b)] = Inr kw" "caller_calls SetGains kw = Inr ms"
    using ms(1) by (auto simp: command_calls_def bind_res_def gain_caller split: sum.splits)
  have "command_call ?api w k GainSetting vals [(''mpsd_id'', PInt b)] = (w', Inr RNone)"
    by (simp add: command_call_def kw(1) gain_caller run_caller_def kw(2) [simplified] w'(1))
  with w' show ?thesis by simp
qed

theorem gains_reach_device_witness:
  "case command_call (wire_api (link_os fake_handle bad_link)) test_world 0 GainSetting [(''gain3'', PInt 7)] [(''mpsd_id'', PInt 5)] of (w', r) \<Rightarrow>
     r = Inr RNone \<and> device_gains (device_of w') 5 = [0, 0, 0, 7, 0, 0, 0, 0]"
proof -
  have ok: "\<forall>a \<in> set (cmd_args GainSetting). arg_value_ok a (arg_value [(''gain3'', PInt 7)] a)" by code_simp
  have bus: "(0 :: int) \<le> 5" "(5 :: int) < 256" by simp_all
  have "map (gain_value [(''gain3'', PInt 7)]) [0..<MpsdChannelCount] = [0, 0, 0, 7, 0, 0, 0, 0]" by code_simp
  with gains_reach_device [OF bad_link_fair test_world_attached bus ok] show ?thesis by (auto split: prod.splits)
qed

end
