(* ===== verification/Answers.thy ===== *)
theory Answers
  imports Link_Facts
begin

text \<open>
  What the code makes of answers it does not check: late ones, short ones, ones with wrong lengths; and
  the search for the id of a device, which rests on the error in an answer.
\<close>

section \<open>What answers can do\<close>

text \<open>The answer to a read request that is lost and asked for again: late answers answer the next request.\<close>

lemma stale_answer_taken:
  assumes "lk_queue l = [fake_encode 81 j [b, low_word v, high_word v] 0]"
  shows "\<exists>l'. mcpd_read_register (link_os device plan) (Some s) i a l = (l', Value v)"
proof -
  let ?p = "make_command_packet ReadRegister i [a]" and ?ws = "[b, low_word v, high_word v]"
  have cmd: "cp_cmd ?p = 81" using request_fields(1) [of "[a]" ReadRegister i] by simp
  obtain l1 q where l1: "link_send device plan (request_bytes ?p) l = l1" "lk_queue l1 = fake_encode 81 j ?ws 0 # q"
    using assms by (cases "plan (lk_sent l)") (simp_all add: link_send_def split_beta Let_def)
  have "loggable (fake_answer 81 j ?ws 0)" "cp_buffer_type (fake_answer 81 j ?ws 0) = CommandPacketBufferType"
    "cp_cmd (fake_answer 81 j ?ws 0) = 81" "\<not> has_error (fake_answer 81 j ?ws 0)"
    using no_error_bits [of ReadRegister j ?ws] by (simp_all add: fake_answer_fields)
  then have "transaction (link_os device plan) (Some s) False ?p l = (l1\<lparr>lk_queue := q\<rparr>, Value (fake_answer 81 j ?ws 0))"
    by (simp add: transaction_def MaxAttempts_def eval_nat_numeral send_command_def write_to_socket_def errno_tx_def receive_response_def
        receive_one_packet_def link_os_def l1 received_command_def [symmetric] fake_encode_back cmd CommandNumberMask_def)
  then show ?thesis
    using words_join [of v]
    by (simp add: mcpd_read_register_def command_transaction_def bind_tx_def ok_tx_def fake_answer_fields)
qed

text \<open>
  The lengths that are checked count the terminator: an answer that is one word too short is
  accepted, the terminator taken for the missing word.
\<close>

lemma read_register_lengths:
  assumes "transaction os sock False (make_command_packet ReadRegister i [a]) n = (n', Value (fake_answer 81 j ws 0))" "length ws \<le> 725"
  shows "mcpd_read_register os sock i a n =
     (n', if length ws < 2 then Failed protocol_error else Value (ucast (ws ! 1) OR push_bit 16 (ucast ((ws @ [0xFFFF]) ! 2))))"
proof (cases "length ws < 3")
  case True
  have "cp_data (fake_answer 81 j ws 0) ! k = (ws @ [0xFFFF]) ! k" if "k \<le> length ws" for k
    using that by (auto simp: fake_answer_def Let_def nth_append)
  with True assms show ?thesis
    by (auto simp: mcpd_read_register_def command_transaction_def bind_tx_def ok_tx_def fail_tx_def fake_answer_fields nth_append)
next
  case False
  with assms show ?thesis
    by (simp add: mcpd_read_register_def command_transaction_def bind_tx_def ok_tx_def fake_answer_fields nth_append)
qed

lemma version_lengths:
  assumes "transaction os sock False (make_command_packet GetVersion i []) n = (n', Value (fake_answer 51 j [a, b] 0))"
  shows "mcpd_get_version os sock i n = (n', Value (a, b, 255, 255))"
  using assms
  by (simp add: mcpd_get_version_def command_transaction_def bind_tx_def ok_tx_def fake_answer_fields Let_def)
    (simp add: fake_answer_def Let_def)

text \<open>The parameters are read from an answer without data.\<close>

lemma params_unchecked:
  assumes "transaction os sock False (make_command_packet GetParams i []) n = (n', Value (fake_answer 12 j [] 0))"
  shows "mcpd_get_all_parameters os sock i n =
     (n', Value \<lparr>mp_adc = (0xFFFF, 0), mp_dac = (0, 0), mp_ttl_out = 0, mp_ttl_in = 0, mp_counters = [0, 0, 0],
        mp_params = replicate 4 (0, 0, 0)\<rparr>)"
proof -
  have d: "cp_data (fake_answer 12 j [] 0) ! k = (if k = 0 then 0xFFFF else 0)" if "k < 726" for k
    using that by (cases k) (simp_all add: fake_answer_def Let_def)
  show ?thesis using assms
    by (simp add: mcpd_get_all_parameters_def ask_for_def command_transaction_def bind_tx_def ok_tx_def Let_def d McpdParamCount_def
        upt_rec eval_nat_numeral(2-3))
qed

text \<open>A datagram whose lengths are wrong is read beyond its end, as the text for the log is made from them.\<close>

lemma long_answer_wild:
  assumes "sends 0 = None" "reads 0 = Inr d" "\<not> loggable (received_command d)"
  shows "snd (transaction (tape_os sends reads) (Some s) ign request \<lparr>tp_sent = [], tp_reads = 0\<rparr>) = Wild"
  using assms by (simp add: transaction_def MaxAttempts_def eval_nat_numeral tape_send tape_receive received_command_def Let_def)

lemma long_answer_example: "\<not> loggable (received_command (word_bytes 1500 @ word_bytes 0x8000 @ word_bytes 10))"
proof -
  let ?d = "word_bytes 1500 @ word_bytes 0x8000 @ word_bytes 10"
  have "overlay ?d (replicate MaxPayloadSize 0) = ?d @ replicate 1466 0"
    unfolding command_consts overlay_def Let_def by (simp add: word_bytes_def)
  then have "words_of (overlay ?d (replicate MaxPayloadSize 0)) = 1500 # 0x8000 # 10 # words_of (replicate 1466 0)"
    using words_of_word_bytes [of "[1500, 0x8000, 10]"] by (simp del: replicate_Suc)
  then have "cp_buffer_length (received_command ?d) = 1500" "cp_header_length (received_command ?d) = 10"
    unfolding received_command_def command_of_bytes_def Let_def by simp_all
  then show ?thesis by (simp add: loggable_def logged_data_def command_data_length_def command_consts)
qed

text \<open>Of the limits of a timing window only the low halves are sent.\<close>

lemma timing_window_halves:
  "mdll_set_timing_window os sock i (a + 0x10000 * x) (b + 0x10000 * y) c d = mdll_set_timing_window os sock i a b c d"
proof -
  have "(ucast (a + 0x10000 * x) :: u16) = ucast a" for a x :: u32
    by transfer (simp add: take_bit_eq_mod mod_mod_cancel)
  then show ?thesis by (simp add: mdll_set_timing_window_def)
qed

section \<open>The search for the id\<close>

lemma link_version:
  assumes "fair_plan plan" "link_idle l" "fake_well (lk_device l)" "fd_enforce (lk_device l)"
  shows "\<exists>l' x. mcpd_get_version (link_os fake_handle plan) (Some s) i l =
       (l', if ucast i = fd_id (lk_device l) then Value x else Failed id_mismatch)
     \<and> link_idle l' \<and> fake_well (lk_device l') \<and> fd_enforce (lk_device l') \<and> fd_id (lk_device l') = fd_id (lk_device l)"
proof -
  let ?p = "make_command_packet GetVersion i []" and ?j = "fd_id (lk_device l)"
  let ?I = "\<lambda>d. fd_enforce d \<and> fd_id d = ?j"
  let ?A = "\<lambda>a. if ucast i = ?j then \<exists>ws. length ws = 3 \<and> a = fake_encode 51 i ws 0 else \<exists>j. a = fake_encode 51 j [] 128"
  have len: "length ([] :: u16 list) \<le> 725" by simp
  note fields = request_fields(1-3) [OF len, of GetVersion i] and log = request_fields(4) [OF len, of GetVersion i]
  have "\<exists>d' a. fake_handle d ?p = (d', Some a) \<and> ?A a \<and> ?I d' \<and> True" if "fake_well d" "?I d" for d
    using that unfolding fake_handle_def Let_def log unfolding fields
    by (auto simp: CommandNumberMask_def fake_well_def log_request_def) (rule exI, rule conjI [rotated], rule refl, simp)
  from link_answer [where A = ?A and I = ?I and Q = "\<lambda>_. True", OF assms(1-3) len _ _ this] assms(4)
  obtain l' a where l': "transaction (link_os fake_handle plan) (Some s) False ?p l = (l', fake.result_of False a)" "?A a"
    "link_idle l'" "fake_well (lk_device l')" "?I (lk_device l')" by blast
  show ?thesis
  proof (cases "ucast i = ?j")
    case True
    then obtain ws where ws: "length ws = 3" "a = fake_encode 51 i ws 0" using l'(2) by auto
    then have "fake.result_of False a = Value (fake_answer 51 i ws 0)"
      using no_error_bits [of GetVersion i ws] by (simp add: fake.result_of_def fake_encode_back)
    with True ws l' show ?thesis
      by (auto simp: mcpd_get_version_def command_transaction_def bind_tx_def ok_tx_def fake_answer_fields Let_def)
  next
    case False
    then obtain j where "a = fake_encode 51 j [] 128" using l'(2) by auto
    then have "fake.result_of False a = Failed id_mismatch"
      by (simp add: fake.result_of_def fake_encode_back has_error_def id_mismatch_def)
        (simp add: get_error_value_def fake_answer_def Let_def CommandErrorMask_def CommandErrorShift_def)
    with False l' show ?thesis by (auto simp: mcpd_get_version_def command_transaction_def bind_tx_def)
  qed
qed

lemma link_probe:
  assumes "fair_plan plan"
  shows "\<lbrakk>link_idle l; fake_well (lk_device l); fd_enforce (lk_device l); fd_id (lk_device l) = ucast j\<rbrakk> \<Longrightarrow>
     \<exists>l'. probe_ids (link_os fake_handle plan) s js l = (l', Inr (if j \<in> set js then Some j else None))
       \<and> fd_id (lk_device l') = ucast j"
proof (induction js arbitrary: l)
  case Nil
  then show ?case by simp
next
  case (Cons i js)
  obtain l1 x where l1: "mcpd_get_version (link_os fake_handle plan) (Some s) i l =
       (l1, if ucast i = fd_id (lk_device l) then Value x else Failed id_mismatch)"
    "link_idle l1" "fake_well (lk_device l1)" "fd_enforce (lk_device l1)" "fd_id (lk_device l1) = fd_id (lk_device l)"
    using link_version [OF assms Cons.prems(1-3)] by blast
  have there: "(ucast (ucast x :: u16) :: u8) = x" for x by (rule bit_word_eqI) (simp add: bit_simps)
  have inj: "(ucast i :: u16) = ucast j \<longleftrightarrow> i = j" using there [of i] there [of j] by metis
  show ?case
  proof (cases "i = j")
    case True
    with l1(1,5) Cons.prems(4) show ?thesis by simp
  next
    case False
    then show ?thesis using Cons.IH [OF l1(2-4)] l1(1,5) Cons.prems(4) inj by simp
  qed
qed

text \<open>A device that answers to its own id only is found, whatever its id.\<close>

theorem find_mcpd_id_finds:
  assumes "fair_plan plan" "link_idle l" "fake_well (lk_device l)" "fd_enforce (lk_device l)"
    and "address \<noteq> []" "0 \<le> port" "port < 2 ^ 16"
  shows "snd (find_mcpd_id (link_os fake_handle plan) l address port) = Inr (uint (fd_id (lk_device l)))"
proof -
  define j where "j = (ucast (fd_id (lk_device l)) :: u8)"
  have "unat (fd_id (lk_device l)) < 256" using assms(3) unfolding fake_well_def by blast
  then have small: "uint (fd_id (lk_device l)) < 256" unfolding uint_nat by linarith
  then have "uint (fd_id (lk_device l)) = uint (ucast j :: u16)"
    by (simp add: j_def unsigned_ucast_eq unsigned_take_bit_eq take_bit_int_eq_self)
  then have "(word_of_int (uint (fd_id (lk_device l))) :: u16) = word_of_int (uint (ucast j :: u16))" by (rule arg_cong)
  then have j: "fd_id (lk_device l) = ucast j" by (simp only: word_of_int_uint)
  have "connect_udp_socket (link_os fake_handle plan) address (word_of_int port) l = (l, Value 0)"
    using assms(5) by (simp add: connect_udp_socket_def lookup_host_def bind_tx_def or_close_def errno_tx_def ok_tx_def link_os_def)
  moreover have "j \<in> set (map word_of_nat [0..<256])"
  proof -
    have "unat j < 2 ^ LENGTH(8)" by (rule unsigned_less)
    then show ?thesis unfolding set_map set_upt by (intro image_eqI [of _ _ "unat j"]) simp_all
  qed
  then obtain l' where "probe_ids (link_os fake_handle plan) 0 (map word_of_nat [0..<256]) l = (l', Inr (Some j))"
    using link_probe [OF assms(1-4) j, of 0 "map word_of_nat [0..<256]"] by (simp only: if_True) blast
  moreover have "uint (fd_id (lk_device l)) = uint j"
    using small by (simp add: j_def unsigned_ucast_eq take_bit_int_eq_self)
  ultimately show ?thesis using assms(6,7) by (simp add: find_mcpd_id_def bind_res_def del: upt_rec_numeral)
qed

end
