(* ===== verification/Doc_Images.thy ===== *)
theory Doc_Images
  imports Py_Os
begin

text \<open>
  The Sphinx directives \<open>autoimage\<close> and \<open>autofigure\<close> of the documentation
  (\<open>doc/sphinx/ext/autoimage.py\<close>).  The base classes' \<open>run\<close> is docutils' and an argument, as is
  \<open>os.path.exists\<close>; the argument of a directive may become \<open>False\<close> when no picture is found.
\<close>

section \<open>Looking for a picture\<close>

text \<open>\<open>None\<close> is Python's \<open>False\<close>.\<close>

definition find_image :: "(string \<Rightarrow> bool) \<Rightarrow> string \<Rightarrow> string \<Rightarrow> string option" where
  "find_image ex path filename =
     (let fname = os_join path filename in
      if ex (fname @ ''.pdf'') then Some (fname @ ''.pdf'')
      else if ex (fname @ ''.png'') then Some (fname @ ''.png'')
      else None)"

section \<open>The directives\<close>

text \<open>The options of both directives; each value is a percentage.\<close>

definition image_options :: "string list" where
  "image_options = [''scale-html'', ''scale-latex'', ''scale-epub2'', ''scale-mobi'', ''scale'']"

definition figure_options :: "string list" where
  "figure_options = [''scale-html'', ''scale-latex'', ''scale-epub2'', ''scale-mobi'', ''scale'']"

text \<open>The builder's name and the configuration values that \<open>setup\<close> declares.\<close>

record doc_config =
  dc_builder :: string
  dc_image_dir :: string
  dc_black_and_white :: bool
  dc_image_dir_bw :: string

datatype option_value = Percent int | Align string

record directive =
  dr_argument :: "string option"
  dr_options :: "(string, option_value) dict"

definition autoimage_picture :: "(string \<Rightarrow> bool) \<Rightarrow> doc_config \<Rightarrow> string \<Rightarrow> string option" where
  "autoimage_picture ex dc old_filename =
     (if dc_builder dc = ''latex'' then
        (let plain = find_image ex (dc_image_dir dc) old_filename in
         if dc_black_and_white dc then
           (case find_image ex (dc_image_dir_bw dc) old_filename of Some bw \<Rightarrow> Some bw | None \<Rightarrow> plain)
         else plain)
      else Some (os_join (dc_image_dir dc) (old_filename @ ''.png'')))"

text \<open>\<open>self.options['scale'] = self.options.get('scale-' + builder_name, 100)\<close>\<close>

definition with_scale :: "doc_config \<Rightarrow> directive \<Rightarrow> directive" where
  "with_scale dc d =
     d\<lparr>dr_options := dict_set ''scale'' (dict_get_or (dr_options d) (''scale-'' @ dc_builder dc) (Percent 100)) (dr_options d)\<rparr>"

definition autoimage_run :: "(string \<Rightarrow> bool) \<Rightarrow> (directive \<Rightarrow> 'a) \<Rightarrow> doc_config \<Rightarrow> string \<Rightarrow> directive \<Rightarrow> 'a" where
  "autoimage_run ex super dc old_filename d =
     (let d1 = with_scale dc (d\<lparr>dr_argument := autoimage_picture ex dc old_filename\<rparr>) in
      super (d1\<lparr>dr_options := dict_set ''align'' (Align ''center'') (dr_options d1)\<rparr>))"

definition autofigure_run :: "(directive \<Rightarrow> 'a) \<Rightarrow> doc_config \<Rightarrow> directive \<Rightarrow> 'a" where
  "autofigure_run super dc d = super (with_scale dc d)"

text \<open>\<open>setup(app)\<close>: the directives, and the configuration values with their defaults and \<open>rebuild\<close>.\<close>

definition sphinx_directives :: "(string \<times> string) list" where
  "sphinx_directives = [(''autoimage'', ''Autoimage''), (''autofigure'', ''AutoFigure'')]"

definition sphinx_config_values :: "(string \<times> pyval \<times> bool) list" where
  "sphinx_config_values =
     [(''image_dir'', PStr ''figs'', False), (''black_and_white'', PBool False, True),
      (''image_dir_black_white'', PStr ''figs-bw'', False)]"

section \<open>Facts\<close>

lemma find_image_exists: "find_image ex path f = Some p \<Longrightarrow> ex p \<and> p \<in> {os_join path f @ ''.pdf'', os_join path f @ ''.png''}"
  by (auto simp: find_image_def Let_def split: if_splits)

text \<open>For LaTeX a picture that is named exists; it is the black and white one whenever there is one and it is wanted.\<close>

lemma latex_picture:
  assumes "dc_builder dc = ''latex''"
  shows "autoimage_picture ex dc f = Some p \<Longrightarrow> ex p"
    and "autoimage_picture ex dc f = None \<longleftrightarrow> find_image ex (dc_image_dir dc) f = None
      \<and> (dc_black_and_white dc \<longrightarrow> find_image ex (dc_image_dir_bw dc) f = None)"
  using assms find_image_exists by (auto simp: autoimage_picture_def Let_def split: if_splits option.splits)

text \<open>The scale is the builder's option or 100; an option \<open>scale\<close> of the source has no effect.\<close>

lemma scale_of_builder:
  "dict_get (dr_options (with_scale dc d)) ''scale'' =
     Some (case dict_get (dr_options d) (''scale-'' @ dc_builder dc) of Some v \<Rightarrow> v | None \<Rightarrow> Percent 100)"
  by (simp add: with_scale_def dict_get_or_def)

end
