(* ===== verification/Pybind_Commands.thy ===== *)
theory Pybind_Commands
  imports Py_Os Py_Path
begin

text \<open>
  The command line of the vendored pybind11 (\<open>external/pybind11-3.1.0/pybind11/commands.py\<close>,
  \<open>__main__.py\<close>, \<open>_version.py\<close>), which the build asks for directories and compiler flags.

  The interpreter's configuration, the file system and the platform are the record \<open>py_env\<close>;
  \<open>argparse\<close> is an argument of \<open>pybind_main\<close>.
\<close>

section \<open>The environment\<close>

text \<open>
  \<open>py_builtin\<close>: \<open>sys.builtin_module_names\<close>; \<open>py_config_var\<close> and \<open>py_config_path\<close>: \<open>sysconfig\<close>;
  \<open>py_dir\<close>: \<open>DIR\<close>, the directory of the package.
\<close>

record py_env =
  py_builtin :: "string list"
  py_platform :: string
  py_os_name :: string
  py_abiflags :: "string option"
  py_config_var :: "string \<Rightarrow> pyval"
  py_config_path :: "string \<Rightarrow> string option"
  py_exists :: "string \<Rightarrow> bool"
  py_dir :: string

section \<open>commands.py\<close>

definition win_unsafe :: "char \<Rightarrow> bool" where
  "win_unsafe c \<longleftrightarrow> (of_char c :: nat) \<in> {32, 9, 10, 13}"

definition win_quote :: "string \<Rightarrow> string" where
  "win_quote s =
     (if s \<noteq> [] \<and> \<not> list_ex win_unsafe s then s
      else if ends_with [back_slash] s then [double_mark] @ s @ [back_slash, double_mark]
      else [double_mark] @ s @ [double_mark])"

definition pybind_quote :: "py_env \<Rightarrow> string \<Rightarrow> string" where
  "pybind_quote env s =
     (if ''posix'' \<in> set (py_builtin env) then shell_quote s
      else if ''nt'' \<in> set (py_builtin env) then win_quote s
      else s)"

definition config_text :: "py_env \<Rightarrow> string \<Rightarrow> string" where
  "config_text env name = (let v = py_config_var env name in strip (if truthy v then py_str v else []))"

definition get_include :: "py_env \<Rightarrow> string" where
  "get_include env =
     (let installed = os_join (py_dir env) ''include''; source = os_join (os_dirname (py_dir env)) ''include''
      in if py_exists env installed then installed else source)"

definition get_cmake_dir :: "py_env \<Rightarrow> string res" where
  "get_cmake_dir env =
     (let p = os_join (os_join (os_join (py_dir env) ''share'') ''cmake'') ''pybind11'' in
      if py_exists env p then Inr p
      else Inl (OtherExc ''pybind11 not installed, installation required to access the CMake files''))"

definition get_pkgconfig_dir :: "py_env \<Rightarrow> string res" where
  "get_pkgconfig_dir env =
     (let p = os_join (os_join (py_dir env) ''share'') ''pkgconfig'' in
      if py_exists env p then Inr p
      else Inl (OtherExc ''pybind11 not installed, installation required to access the pkgconfig files''))"

text \<open>The loop that keeps the first occurrences, without empty entries.\<close>

fun unique_dirs :: "string list \<Rightarrow> string option list \<Rightarrow> string list" where
  "unique_dirs acc [] = acc"
| "unique_dirs acc (d # ds) =
     (case d of
        None \<Rightarrow> unique_dirs acc ds
      | Some t \<Rightarrow> unique_dirs (if t \<noteq> [] \<and> t \<notin> set acc then acc @ [t] else acc) ds)"

definition get_include_dirs :: "py_env \<Rightarrow> string list" where
  "get_include_dirs env =
     unique_dirs [] [py_config_path env ''include'', py_config_path env ''platinclude'', Some (get_include env)]"

definition include_flags :: "py_env \<Rightarrow> string list" where
  "include_flags env = map (\<lambda>d. pybind_quote env (''-I'' @ d)) (get_include_dirs env)"

definition get_cflags :: "py_env \<Rightarrow> string" where
  "get_cflags env =
     (let cflags = config_text env ''CFLAGS'' in
      join '' '' (include_flags env @ (if cflags \<noteq> [] then [cflags] else []) @ [''-std=c++17'']))"

text \<open>\<open>if t := _config(...): flags.append(f(t))\<close>\<close>

definition when_set :: "string \<Rightarrow> (string \<Rightarrow> string) \<Rightarrow> string list" where
  "when_set t f = (if t \<noteq> [] then [f t] else [])"

definition get_ldflags :: "py_env \<Rightarrow> bool \<Rightarrow> string" where
  "get_ldflags env emb =
     join '' ''
       (when_set (config_text env ''LDFLAGS'') (\<lambda>t. t) @
        (if emb then
           when_set (config_text env ''LIBDIR'') (\<lambda>t. pybind_quote env (''-L'' @ t)) @
           (if config_text env ''Py_ENABLE_SHARED'' = []
            then when_set (config_text env ''LIBPL'') (\<lambda>t. pybind_quote env (''-L'' @ t)) else []) @
           [''-lpython'' @ config_text env ''VERSION'' @ (case py_abiflags env of Some t \<Rightarrow> t | None \<Rightarrow> [])] @
           when_set (config_text env ''LIBS'') (\<lambda>t. t) @ when_set (config_text env ''SYSLIBS'') (\<lambda>t. t)
         else if starts_with ''darwin'' (py_platform env) then [''-undefined'', ''dynamic_lookup'', ''-shared'']
         else if py_os_name env = ''posix'' then [''-fPIC'', ''-shared'']
         else []))"

section \<open>__main__.py\<close>

definition print_includes :: "py_env \<Rightarrow> string" where
  "print_includes env = join '' '' (include_flags env)"

text \<open>The options: name, whether it takes a value, help.\<close>

definition pybind_options :: "(string \<times> string \<times> string) list" where
  "pybind_options =
     [(''--version'', ''version'', ''Print the version and exit.''),
      (''--includes'', ''store_true'', ''Include flags for both pybind11 and Python headers.''),
      (''--cmakedir'', ''store_true'',
       ''Print the CMake module directory, ideal for setting -Dpybind11_ROOT in CMake.''),
      (''--pkgconfigdir'', ''store_true'', ''Print the pkgconfig directory, ideal for setting $PKG_CONFIG_PATH.''),
      (''--extension-suffix'', ''store_true'', ''Print the extension for a Python module''),
      (''--cflags'', ''store_true'', ''Print the compile flags for a simple extension (Unix-style compilers).''),
      (''--ldflags'', ''store_true'', ''Print the link flags for a simple extension (Unix-style compilers).''),
      (''--embed'', ''store_true'', ''Build for embedding instead of an extension; affects --ldflags and --file.''),
      (''--file'', ''Path'', ''Print a full command-line suffix for compiling the given file;''
         @ '' the output goes next to the source file (Unix-style compilers).'')]"

record pybind_args =
  pa_includes :: bool
  pa_cmakedir :: bool
  pa_pkgconfigdir :: bool
  pa_extension_suffix :: bool
  pa_cflags :: bool
  pa_ldflags :: bool
  pa_embed :: bool
  pa_file :: "string option"

text \<open>\<open>PurePath.with_suffix\<close>\<close>

definition valid_suffix :: "string \<Rightarrow> bool" where
  "valid_suffix t \<longleftrightarrow> t = [] \<or> (hd t = CHR ''.'' \<and> t \<noteq> ''.'' \<and> CHR ''/'' \<notin> set t)"

definition stem_of :: "string \<Rightarrow> string" where
  "stem_of name =
     (case last_split (CHR ''.'') name of Some (a, b) \<Rightarrow> if a \<noteq> [] \<and> b \<noteq> [] then a else name | None \<Rightarrow> name)"

definition with_suffix :: "string \<Rightarrow> string \<Rightarrow> string res" where
  "with_suffix p suffix =
     (let (r, parts) = parse_path p in
      if \<not> valid_suffix suffix then Inl (ValueError (''Invalid suffix '' @ repr_str suffix))
      else if parts = [] then Inl (ValueError (repr_str p @ '' has an empty name''))
      else Inr (show_path (r, butlast parts @ [stem_of (last parts) @ suffix])))"

text \<open>The statements after parsing; \<open>no_args\<close>: the command line is empty.  The lines printed.\<close>

definition ext_suffix :: "py_env \<Rightarrow> string" where
  "ext_suffix env = (let v = py_config_var env ''EXT_SUFFIX'' in if truthy v then py_str v else [])"

definition file_line :: "py_env \<Rightarrow> bool \<Rightarrow> string \<Rightarrow> string res" where
  "file_line env emb f =
     bind_res (with_suffix f (if emb then [] else ext_suffix env)) (\<lambda>out.
     Inr (join '' '' [get_cflags env, pybind_quote env (path_str f), get_ldflags env emb, ''-o'', pybind_quote env out]))"

text \<open>\<open>if b: print(r)\<close>\<close>

definition print_if :: "bool \<times> string res \<Rightarrow> string list \<Rightarrow> string list outcome" where
  "print_if br ls = (if fst br then with_res (snd br) ls (\<lambda>t. (ls @ [t], None)) else (ls, None))"

definition pybind_prints :: "py_env \<Rightarrow> string \<Rightarrow> bool \<Rightarrow> pybind_args \<Rightarrow> (bool \<times> string res) list" where
  "pybind_prints env help no_args a =
     [(no_args, Inr help)] @
     (case pa_file a of
        Some f \<Rightarrow> [(True, file_line env (pa_embed a) f)]
      | None \<Rightarrow> [(pa_cflags a, Inr (get_cflags env)), (pa_ldflags a, Inr (get_ldflags env (pa_embed a)))]) @
     [(pa_includes a \<and> \<not> (pa_cflags a \<or> pa_file a \<noteq> None), Inr (print_includes env)),
      (pa_cmakedir a, bind_res (get_cmake_dir env) (\<lambda>p. Inr (pybind_quote env p))),
      (pa_pkgconfigdir a, bind_res (get_pkgconfig_dir env) (\<lambda>p. Inr (pybind_quote env p))),
      (pa_extension_suffix a, Inr (ext_suffix env))]"

definition pybind_lines :: "py_env \<Rightarrow> string \<Rightarrow> bool \<Rightarrow> pybind_args \<Rightarrow> string list outcome" where
  "pybind_lines env help no_args a = for_each print_if (pybind_prints env help no_args a) []"

definition pybind_main ::
  "((string \<times> string \<times> string) list \<Rightarrow> string list \<Rightarrow> pybind_args res) \<Rightarrow> py_env \<Rightarrow> string \<Rightarrow> string list \<Rightarrow> string list outcome" where
  "pybind_main parse env help argv = with_res (parse pybind_options argv) [] (pybind_lines env help (argv = []))"

section \<open>_version.py\<close>

text \<open>\<open>found\<close> is the match of the version's macros in \<open>common.h\<close>: major, minor, patch.\<close>

definition version_string :: "(string \<times> string \<times> string) option \<Rightarrow> string res" where
  "version_string found =
     (case found of
        None \<Rightarrow> Inl (OtherExc ''Unable to find version in pybind11/detail/common.h'')
      | Some (a, b, c) \<Rightarrow> Inr (a @ ''.'' @ b @ ''.'' @ c))"

definition to_int :: "string \<Rightarrow> pyval" where
  "to_int s = (case py_int10 s of Some n \<Rightarrow> PInt n | None \<Rightarrow> PStr s)"

definition version_info :: "string \<Rightarrow> pyval list" where
  "version_info v = map to_int (split_on (CHR ''.'') v)"

section \<open>Facts\<close>

lemma unique_dirs_distinct: "distinct acc \<Longrightarrow> distinct (unique_dirs acc ds)"
  by (induction ds arbitrary: acc) (auto split: option.split)

lemma unique_dirs_set: "set (unique_dirs acc ds) = set acc \<union> {t. Some t \<in> set ds \<and> t \<noteq> []}"
  by (induction ds arbitrary: acc) (auto split: option.split)

lemma include_dirs_distinct: "distinct (get_include_dirs env)"
  unfolding get_include_dirs_def by (rule unique_dirs_distinct) simp

text \<open>On POSIX, a shell splits the printed include flags into one word per directory, whatever the directories' names.\<close>

lemma printed_includes_split:
  "''posix'' \<in> set (py_builtin env) \<Longrightarrow> shell_split (print_includes env) = Inr (map (\<lambda>d. ''-I'' @ d) (get_include_dirs env))"
  using shell_split_quote [of "map (\<lambda>d. ''-I'' @ d) (get_include_dirs env)"]
  by (simp add: print_includes_def include_flags_def pybind_quote_def comp_def)

text \<open>A missing directory ends the program with an error, after the lines of the options before it.\<close>

lemma prints_stop:
  "list_all (\<lambda>br. fst br \<longrightarrow> is_ok (snd br)) bs \<Longrightarrow> fst b \<Longrightarrow> snd b = Inl e \<Longrightarrow>
   for_each print_if (bs @ b # cs) ls = (ls @ map (\<lambda>br. projr (snd br)) (filter fst bs), Some e)"
proof (induction bs arbitrary: ls)
  case (Cons br bs)
  then show ?case by (cases "snd br") (auto simp: print_if_def)
qed (simp add: print_if_def)

lemma cmake_dir_missing:
  assumes "\<not> py_exists env (os_join (os_join (os_join (py_dir env) ''share'') ''cmake'') ''pybind11'')"
    and "pa_cmakedir a" and "pa_file a = None" and "\<not> no_args"
  shows "pybind_lines env help no_args a =
    ((if pa_cflags a then [get_cflags env] else []) @ (if pa_ldflags a then [get_ldflags env (pa_embed a)] else []) @
     (if pa_includes a \<and> \<not> pa_cflags a then [print_includes env] else []),
     Some (OtherExc ''pybind11 not installed, installation required to access the CMake files''))"
  using assms by (simp add: pybind_lines_def pybind_prints_def print_if_def get_cmake_dir_def)

lemma version_info_numbers: "version_info (show_nat a @ ''.'' @ show_nat b @ ''.'' @ show_nat c) = [PInt (int a), PInt (int b), PInt (int c)]"
proof -
  have dot: "CHR ''.'' \<notin> set (show_nat n)" for n
  proof
    assume "CHR ''.'' \<in> set (show_nat n)"
    then obtain d where d: "d \<in> set (nat_digits 10 n)" "CHR ''.'' = digit_char False d"
      by (auto simp: show_nat_def show_nat_base_def)
    have "d < 36" using nat_digits_bound [OF _ d(1)] by simp
    from digit_val_digit_char [OF this, of False] have "digit_val (CHR ''.'') = Some d" by (simp add: d(2))
    moreover have "digit_val (CHR ''.'') = None" by code_simp
    ultimately show False by simp
  qed
  have int: "py_int10 (show_nat n) = Some (int n)" for n
    using py_int10_show_int [of "int n"] by (simp add: show_int_def)
  have "split_on (CHR ''.'') (show_nat a @ CHR ''.'' # show_nat b @ CHR ''.'' # show_nat c) = [show_nat a, show_nat b, show_nat c]"
    by (simp only: split_on_append [OF dot] split_on_plain [OF dot])
  then show ?thesis by (simp add: version_info_def to_int_def int)
qed

end
