(* ===== verification/Pybind_Setup.thy ===== *)
theory Pybind_Setup
  imports Pybind_Commands "HOL-Library.Multiset"
begin

text \<open>
  The helpers for building extensions of the vendored pybind11
  (\<open>external/pybind11-3.1.0/pybind11/setup_helpers.py\<close>): flags and language level of an extension,
  the probing of the compiler in a temporary directory, extensions named after their place in a
  source tree, and parallel compilation.

  setuptools, the compiler, the file system and the machine are arguments.
\<close>

section \<open>Pybind11Extension\<close>

text \<open>\<open>Level n\<close> with \<open>0\<close> for an automatic search, \<open>None\<close>, or \<open>"latest"\<close>.\<close>

datatype cxx_level = Level int | NoLevel | Latest

record build_env =
  be_win :: bool
  be_macos :: bool
  be_vars :: "(string, string) dict"
  be_mac_version :: string
  be_pybind11 :: "string option"

record extension =
  ex_name :: string
  ex_sources :: "string list"
  ex_language :: string
  ex_include_dirs :: "string list"
  ex_compile_args :: "string list"
  ex_link_args :: "string list"
  ex_level :: cxx_level
  ex_warnings :: nat

text \<open>The keyword arguments of the constructor; the lists default to empty ones.\<close>

record ext_kwargs =
  kw_cxx_std :: cxx_level
  kw_language :: "string option"
  kw_include_pybind11 :: bool
  kw_include_dirs :: "string list"
  kw_compile_args :: "string list"
  kw_link_args :: "string list"

definition no_kwargs :: ext_kwargs where
  "no_kwargs =
     \<lparr>kw_cxx_std = Level 0, kw_language = None, kw_include_pybind11 = True, kw_include_dirs = [], kw_compile_args = [],
      kw_link_args = []\<rparr>"

definition add_cflags :: "string list \<Rightarrow> extension \<Rightarrow> extension" where
  "add_cflags fs e = e\<lparr>ex_compile_args := fs @ ex_compile_args e\<rparr>"

definition add_ldflags :: "string list \<Rightarrow> extension \<Rightarrow> extension" where
  "add_ldflags fs e = e\<lparr>ex_link_args := fs @ ex_link_args e\<rparr>"

definition level_set :: "cxx_level \<Rightarrow> bool" where
  "level_set l = (case l of Level n \<Rightarrow> n \<noteq> 0 | NoLevel \<Rightarrow> False | Latest \<Rightarrow> True)"

definition level_text :: "cxx_level \<Rightarrow> string" where
  "level_text l = (case l of Level n \<Rightarrow> show_int n | NoLevel \<Rightarrow> ''None'' | Latest \<Rightarrow> ''latest'')"

text \<open>\<open>STD_TMPL.format(level)\<close>\<close>

definition std_flag :: "build_env \<Rightarrow> cxx_level \<Rightarrow> string" where
  "std_flag env l = (if be_win env then ''/std:c++'' else ''-std=c++'') @ level_text l"

text \<open>The order of tuples of integers.\<close>

fun tuple_le :: "int list \<Rightarrow> int list \<Rightarrow> bool" where
  "tuple_le [] ys = True"
| "tuple_le (x # xs) [] = False"
| "tuple_le (x # xs) (y # ys) = (x < y \<or> (x = y \<and> tuple_le xs ys))"

text \<open>\<open>level < 17\<close>\<close>

definition below_17 :: "cxx_level \<Rightarrow> bool res" where
  "below_17 l = (case l of Level n \<Rightarrow> Inr (n < 17) | _ \<Rightarrow> Inl (TypeError ''not supported between instances''))"

definition macos_min_flag :: "build_env \<Rightarrow> cxx_level \<Rightarrow> string res" where
  "macos_min_flag env l =
     bind_res (traverse (\<lambda>x. opt_res (ValueError (''invalid literal for int() with base 10: '' @ repr_str x)) (py_int10 x))
       (take 2 (split_on (CHR ''.'') (be_mac_version env)))) (\<lambda>current.
     bind_res (below_17 l) (\<lambda>b.
     let desired = (if b then [10, 9] else [10, 14]);
         least = (if tuple_le current desired then current else desired) in
     Inr (''-mmacosx-version-min='' @ join ''.'' (map show_int least))))"

text \<open>The setter of \<open>cxx_std\<close>\<close>

definition set_cxx_std :: "build_env \<Rightarrow> cxx_level \<Rightarrow> extension \<Rightarrow> extension outcome" where
  "set_cxx_std env l e =
     (let e1 = (if level_set (ex_level e) then e\<lparr>ex_warnings := ex_warnings e + 1\<rparr> else e);
          lv = (if be_win env \<and> l = Level 11 then Level 14 else l);
          e2 = e1\<lparr>ex_level := lv\<rparr> in
      if \<not> level_set lv then (e2, None)
      else if be_macos env \<and> dict_get (be_vars env) ''MACOSX_DEPLOYMENT_TARGET'' = None then
        with_res (macos_min_flag env lv) e2 (\<lambda>f. (add_ldflags [f] (add_cflags [std_flag env lv, f] e2), None))
      else (add_ldflags [] (add_cflags [std_flag env lv] e2), None))"

definition env_flags :: "build_env \<Rightarrow> string \<Rightarrow> string list res" where
  "env_flags env name = shell_split (dict_get_or (be_vars env) name [])"

definition default_cflags :: "build_env \<Rightarrow> string list res" where
  "default_cflags env =
     (if be_win env then Inr [''/EHsc'', ''/bigobj'']
      else
        bind_res (env_flags env ''CFLAGS'') (\<lambda>a.
        bind_res (env_flags env ''CPPFLAGS'') (\<lambda>b.
        Inr (''-fvisibility=hidden'' # (if list_ex (starts_with ''-g'') (a @ b) then [] else [''-g0''])))))"

definition base_extension :: "string \<Rightarrow> string list \<Rightarrow> ext_kwargs \<Rightarrow> extension" where
  "base_extension name sources kw =
     \<lparr>ex_name = name, ex_sources = sources, ex_language = (case kw_language kw of Some l \<Rightarrow> l | None \<Rightarrow> ''c++''),
      ex_include_dirs = kw_include_dirs kw, ex_compile_args = kw_compile_args kw, ex_link_args = kw_link_args kw,
      ex_level = Level 0, ex_warnings = 0\<rparr>"

definition include_pybind11 :: "build_env \<Rightarrow> extension \<Rightarrow> extension" where
  "include_pybind11 env e =
     (case be_pybind11 env of
        None \<Rightarrow> e
      | Some inc \<Rightarrow> if inc \<notin> set (ex_include_dirs e) then e\<lparr>ex_include_dirs := ex_include_dirs e @ [inc]\<rparr> else e)"

definition new_extension :: "build_env \<Rightarrow> string \<Rightarrow> string list \<Rightarrow> ext_kwargs \<Rightarrow> extension res" where
  "new_extension env name sources kw =
     (let e1 = base_extension name sources kw;
          e2 = (if kw_include_pybind11 kw then include_pybind11 env e1 else e1) in
      case set_cxx_std env (kw_cxx_std kw) e2 of
        (e3, Some x) \<Rightarrow> Inl x
      | (e3, None) \<Rightarrow> bind_res (default_cflags env) (\<lambda>fs. Inr (add_cflags fs e3)))"

section \<open>Probing the compiler\<close>

text \<open>
  \<open>dw_cwd\<close>: the current directory; \<open>dw_temp\<close>: the temporary directories there are; \<open>dw_files\<close>: the
  files written.  \<open>mk\<close> is the answer of \<open>mkdtemp\<close>.
\<close>

record dir_world =
  dw_cwd :: string
  dw_temp :: "string list"
  dw_files :: "(string, string) dict"

text \<open>
  \<open>tmp_chdir\<close> around a body: the \<open>finally\<close> block goes back and removes the directory.  When
  \<open>mkdtemp\<close> fails, it has no directory to remove and raises itself.
\<close>

definition tmp_chdir :: "string res \<Rightarrow> (string \<Rightarrow> dir_world \<Rightarrow> dir_world \<times> 'a res) \<Rightarrow> dir_world \<Rightarrow> dir_world \<times> 'a res" where
  "tmp_chdir mk body w =
     (let olddir = dw_cwd w in
      case mk of
        Inl e \<Rightarrow> (w\<lparr>dw_cwd := olddir\<rparr>, Inl (OtherExc ''UnboundLocalError: tmpdir''))
      | Inr tmp \<Rightarrow>
          (case body tmp (w\<lparr>dw_temp := tmp # dw_temp w, dw_cwd := tmp\<rparr>) of
             (w1, r) \<Rightarrow>
               (w1\<lparr>dw_cwd := olddir, dw_temp := remove1 tmp (dw_temp w1),
                   dw_files := filter (\<lambda>(n, c). os_dirname n \<noteq> tmp) (dw_files w1)\<rparr>, r)))"

text \<open>What a compiler does with a file and a flag; \<open>CompileError\<close> is caught, other errors are not.\<close>

datatype compiled = Compiles | CompileFails | CompilerRaises exc

definition has_flag :: "string res \<Rightarrow> (string \<Rightarrow> string \<Rightarrow> compiled) \<Rightarrow> string \<Rightarrow> dir_world \<Rightarrow> dir_world \<times> bool res" where
  "has_flag mk compile flag =
     tmp_chdir mk (\<lambda>tmp w.
       let w1 = w\<lparr>dw_files := dict_set (os_join tmp ''flagcheck.cpp'') ''int main (int, char **) { return 0; }'' (dw_files w)\<rparr> in
       (w1, (case compile ''flagcheck.cpp'' flag of Compiles \<Rightarrow> Inr True | CompileFails \<Rightarrow> Inr False | CompilerRaises e \<Rightarrow> Inl e)))"

fun search_level ::
  "build_env \<Rightarrow> string res \<Rightarrow> (string \<Rightarrow> string \<Rightarrow> compiled) \<Rightarrow> int list \<Rightarrow> dir_world \<Rightarrow> dir_world \<times> cxx_level res" where
  "search_level env mk compile [] w = (w, Inl (RuntimeErr ''Unsupported compiler -- at least C++11 support is needed!''))"
| "search_level env mk compile (l # ls) w =
     (case has_flag mk compile (std_flag env (Level l)) w of
        (w1, Inl e) \<Rightarrow> (w1, Inl e)
      | (w1, Inr b) \<Rightarrow> if b then (w1, Inr (Level l)) else search_level env mk compile ls w1)"

text \<open>The result is kept per compiler, which answers the same again.\<close>

definition auto_cpp_level ::
  "build_env \<Rightarrow> string res \<Rightarrow> (string \<Rightarrow> string \<Rightarrow> compiled) \<Rightarrow> dir_world \<Rightarrow> dir_world \<times> cxx_level res" where
  "auto_cpp_level env mk compile w =
     (if be_win env then (w, Inr Latest) else search_level env mk compile [17, 14, 11] w)"

text \<open>\<open>build_extensions\<close>: extensions of other classes have no level.  The base class' method comes after it.\<close>

datatype any_extension = Foreign string | Ours extension

fun set_levels ::
  "build_env \<Rightarrow> (dir_world \<Rightarrow> dir_world \<times> cxx_level res) \<Rightarrow> any_extension list \<Rightarrow> dir_world
   \<Rightarrow> dir_world \<times> any_extension list res" where
  "set_levels env auto [] w = (w, Inr [])"
| "set_levels env auto (Foreign n # es) w =
     (case set_levels env auto es w of (w1, r) \<Rightarrow> (w1, bind_res r (\<lambda>fs. Inr (Foreign n # fs))))"
| "set_levels env auto (Ours e # es) w =
     (if ex_level e \<noteq> Level 0 then
        (case set_levels env auto es w of (w1, r) \<Rightarrow> (w1, bind_res r (\<lambda>fs. Inr (Ours e # fs))))
      else
        (case auto w of
           (w1, Inl x) \<Rightarrow> (w1, Inl x)
         | (w1, Inr l) \<Rightarrow>
             (case set_cxx_std env l e of
                (e1, Some x) \<Rightarrow> (w1, Inl x)
              | (e1, None) \<Rightarrow>
                  (case set_levels env auto es w1 of (w2, r) \<Rightarrow> (w2, bind_res r (\<lambda>fs. Inr (Ours e1 # fs)))))))"

section \<open>Extensions in a source tree\<close>

text \<open>
  The loop that climbs to the first directory that is no package; \<open>None\<close> when it never ends, as
  the parent of the root is the root and that of the empty path is empty.
\<close>

partial_function (option) package_root :: "(string \<Rightarrow> bool) \<Rightarrow> string \<Rightarrow> string option" where
  "package_root ex parent =
     (if ex (os_join parent ''__init__.py'') then package_root ex (fst (os_split parent)) else Some parent)"

definition qualified_name :: "string \<Rightarrow> string \<Rightarrow> string \<Rightarrow> string res" where
  "qualified_name cwd path parent =
     bind_res (os_relpath cwd path parent) (\<lambda>rel. Inr (replace_char (CHR ''/'') ''.'' (fst (os_splitext rel))))"

text \<open>One path of \<open>intree_extensions\<close> without \<open>package_dir\<close>; the outer \<open>None\<close> is the endless loop.\<close>

definition intree_auto :: "build_env \<Rightarrow> string \<Rightarrow> (string \<Rightarrow> bool) \<Rightarrow> string \<Rightarrow> extension res option" where
  "intree_auto env cwd ex path =
     map_option (\<lambda>parent. bind_res (qualified_name cwd path parent) (\<lambda>q. new_extension env q [path] no_kwargs))
       (package_root ex (fst (os_split path)))"

definition no_package_dir :: "string \<Rightarrow> (string, string) dict \<Rightarrow> exc" where
  "no_package_dir path dirs =
     ValueError (''path '' @ path @ '' is not a child of any of the directories listed in ''
       @ [CHR 0x27] @ ''package_dir'' @ [CHR 0x27] @ '' ('' @ py_repr (PDict (map (\<lambda>(k, v). (k, PStr v)) dirs)) @ '')'')"

definition intree_in ::
  "build_env \<Rightarrow> string \<Rightarrow> (string, string) dict \<Rightarrow> string \<Rightarrow> extension res" where
  "intree_in env cwd dirs path =
     (case find (\<lambda>(prefix, parent). starts_with parent path) dirs of
        None \<Rightarrow> Inl (no_package_dir path dirs)
      | Some (prefix, parent) \<Rightarrow>
          bind_res (qualified_name cwd path parent) (\<lambda>q.
          new_extension env (if prefix \<noteq> [] then prefix @ ''.'' @ q else q) [path] no_kwargs))"

definition intree_extensions ::
  "build_env \<Rightarrow> string \<Rightarrow> (string \<Rightarrow> bool) \<Rightarrow> string list \<Rightarrow> (string, string) dict option \<Rightarrow> extension list res option" where
  "intree_extensions env cwd ex paths package_dir =
     (case package_dir of
        Some dirs \<Rightarrow> Some (traverse (intree_in env cwd dirs) paths)
      | None \<Rightarrow>
          fold (\<lambda>path acc. case acc of
                  None \<Rightarrow> None
                | Some (Inl e) \<Rightarrow> Some (Inl e)
                | Some (Inr es) \<Rightarrow> map_option (\<lambda>r. bind_res r (\<lambda>e. Inr (es @ [e]))) (intree_auto env cwd ex path))
            paths (Some (Inr [])))"

section \<open>Parallel compilation\<close>

text \<open>\<open>st_mtime\<close> of a file; \<open>None\<close> when it does not exist.\<close>

definition naive_recompile :: "(string \<Rightarrow> rat option) \<Rightarrow> string \<Rightarrow> string \<Rightarrow> bool res" where
  "naive_recompile mtime obj src =
     bind_res (opt_res (OSErr obj) (mtime obj)) (\<lambda>a. bind_res (opt_res (OSErr src) (mtime src)) (\<lambda>b. Inr (a < b)))"

definition no_recompile :: "string \<Rightarrow> string \<Rightarrow> bool res" where
  "no_recompile obj src = Inr True"

record parallel =
  pc_envvar :: "string option"
  pc_default :: int
  pc_max :: int
  pc_needs :: "string \<Rightarrow> string \<Rightarrow> bool res"

definition new_parallel :: parallel where
  "new_parallel = \<lparr>pc_envvar = None, pc_default = 0, pc_max = 0, pc_needs = no_recompile\<rparr>"

text \<open>
  The number of threads: \<open>pools\<close> says whether the machine has thread pools, \<open>cpus\<close> the number of
  processors if it is known.
\<close>

definition thread_count :: "parallel \<Rightarrow> (string, string) dict \<Rightarrow> bool \<Rightarrow> int option \<Rightarrow> int res" where
  "thread_count pc vars pools cpus =
     bind_res
       (case pc_envvar pc of
          None \<Rightarrow> Inr (pc_default pc)
        | Some v \<Rightarrow>
            (case dict_get vars v of
               None \<Rightarrow> Inr (pc_default pc)
             | Some t \<Rightarrow> opt_res (ValueError (''invalid literal for int() with base 10: '' @ repr_str t)) (py_int10 t)))
       (\<lambda>n.
         let n = (if pools then n else 1) in
         Inr (if n = 0 then (case cpus of None \<Rightarrow> 1 | Some c \<Rightarrow> if pc_max pc \<noteq> 0 \<and> pc_max pc < c then pc_max pc else c) else n))"

text \<open>\<open>_single_compile\<close>: the objects compiled so far; \<open>cc\<close> compiles an object.\<close>

definition single_compile ::
  "parallel \<Rightarrow> (string, string \<times> string) dict \<Rightarrow> (string \<Rightarrow> bool) \<Rightarrow> (string \<Rightarrow> string \<Rightarrow> string \<Rightarrow> exc option) \<Rightarrow> string
   \<Rightarrow> string list \<Rightarrow> string list outcome" where
  "single_compile pc build ex cc obj objs =
     (case dict_get build obj of
        None \<Rightarrow> (objs, None)
      | Some (src, ext) \<Rightarrow>
          with_res (if \<not> ex obj then Inr True else pc_needs pc obj src) objs (\<lambda>b.
          if b then (case cc obj src ext of Some e \<Rightarrow> (objs, Some e) | None \<Rightarrow> (objs @ [obj], None)) else (objs, None)))"

text \<open>
  The loops: with more than one thread, in the order \<open>sched\<close> in which the threads of the pool get
  to the objects; otherwise in the order of the objects.
\<close>

definition compile_all ::
  "parallel \<Rightarrow> (string, string \<times> string) dict \<Rightarrow> (string \<Rightarrow> bool) \<Rightarrow> (string \<Rightarrow> string \<Rightarrow> string \<Rightarrow> exc option) \<Rightarrow> int
   \<Rightarrow> string list \<Rightarrow> string list \<Rightarrow> string list outcome" where
  "compile_all pc build ex cc threads sched objects =
     for_each (single_compile pc build ex cc) (if 1 < threads then sched else objects) []"

text \<open>\<open>CCompiler.compile\<close>, which \<open>install\<close> replaces, and the stack \<open>_old\<close> of an instance.\<close>

datatype compile_method = OwnMethod | ParallelMethod nat

record install_state =
  is_method :: compile_method
  is_old :: "nat \<Rightarrow> compile_method list"

definition install :: "nat \<Rightarrow> install_state \<Rightarrow> install_state" where
  "install i s = s\<lparr>is_method := ParallelMethod i\<rparr>"

definition enter :: "nat \<Rightarrow> install_state \<Rightarrow> install_state" where
  "enter i s = install i (s\<lparr>is_old := (is_old s)(i := is_method s # is_old s i)\<rparr>)"

definition leave :: "nat \<Rightarrow> install_state \<Rightarrow> install_state outcome" where
  "leave i s =
     (case is_old s i of
        [] \<Rightarrow> (s, Some IndexError)
      | m # ms \<Rightarrow> (s\<lparr>is_method := m, is_old := (is_old s)(i := ms)\<rparr>, None))"

section \<open>Facts\<close>

text \<open>The flags of the constructor come before the caller's, which may override them.\<close>

lemma set_cxx_std_args: "\<exists>fs. ex_compile_args (fst (set_cxx_std env l e)) = fs @ ex_compile_args e"
proof -
  define lv where "lv = (if be_win env \<and> l = Level 11 then Level 14 else l)"
  have fs: "\<exists>fs. xs = fs @ xs" "\<exists>fs. x # xs = fs @ xs" "\<exists>fs. x # y # xs = fs @ xs" for x y :: string and xs
    by (rule exI [of _ "[]"], simp) (rule exI [of _ "[x]"], simp, rule exI [of _ "[x, y]"], simp)
  show ?thesis
    by (cases "macos_min_flag env lv")
      (simp_all add: set_cxx_std_def Let_def lv_def [symmetric] add_cflags_def add_ldflags_def fs)
qed

lemma caller_flags_last:
  assumes "new_extension env name sources kw = Inr e"
  shows "\<exists>fs. ex_compile_args e = fs @ kw_compile_args kw"
proof -
  let ?e = "if kw_include_pybind11 kw then include_pybind11 env (base_extension name sources kw) else base_extension name sources kw"
  have "ex_compile_args ?e = kw_compile_args kw" by (simp add: include_pybind11_def base_extension_def split: option.split)
  with set_cxx_std_args [of env "kw_cxx_std kw" ?e] obtain fs where fs: "ex_compile_args (fst (set_cxx_std env (kw_cxx_std kw) ?e)) = fs @ kw_compile_args kw"
    by auto
  obtain e3 x where set: "set_cxx_std env (kw_cxx_std kw) ?e = (e3, x)" by (cases "set_cxx_std env (kw_cxx_std kw) ?e")
  show ?thesis using assms fs
    by (cases x; cases "default_cflags env") (auto simp: new_extension_def Let_def set add_cflags_def)
qed

text \<open>Probing leaves the directories and files as they were, whether the compiler works, fails or raises.\<close>

lemma dirname_join:
  assumes "tmp \<noteq> []" and "last tmp \<noteq> CHR ''/''" and "CHR ''/'' \<notin> set f"
  shows "os_join tmp f = tmp @ CHR ''/'' # f" "os_dirname (tmp @ CHR ''/'' # f) = tmp"
proof -
  have "\<not> ends_with ''/'' tmp" using assms(1,2) by (cases tmp rule: rev_cases) (auto simp: ends_with_def starts_with_def)
  moreover have "\<not> starts_with ''/'' f" using assms(3) by (cases f) (auto simp: starts_with_def)
  ultimately show "os_join tmp f = tmp @ CHR ''/'' # f" using assms(1) by (simp add: os_join_def)
  have "\<not> list_all (\<lambda>x. x = CHR ''/'') tmp" using last_in_set [OF assms(1)] assms(2) unfolding list_all_iff by blast
  moreover have "strip_slashes (tmp @ ''/'') = tmp"
    using assms(1,2) by (cases tmp rule: rev_cases) (simp_all add: strip_slashes_def)
  ultimately show "os_dirname (tmp @ CHR ''/'' # f) = tmp"
    using last_split_Some [OF assms(3), of tmp] by (simp add: os_dirname_def os_split_def Let_def)
qed

lemma has_flag_restores:
  assumes "\<And>tmp. mk = Inr tmp \<Longrightarrow> tmp \<noteq> [] \<and> last tmp \<noteq> CHR ''/'' \<and> (\<forall>(n, c) \<in> set (dw_files w). os_dirname n \<noteq> tmp)"
  shows "fst (has_flag mk compile flag w) = w"
proof (cases mk)
  case (Inr tmp)
  have tmp: "tmp \<noteq> []" "last tmp \<noteq> CHR ''/''" "\<And>n c. (n, c) \<in> set (dw_files w) \<Longrightarrow> os_dirname n \<noteq> tmp"
    using assms [OF Inr] by auto
  note join = dirname_join [OF tmp(1,2), of "''flagcheck.cpp''"]
  have absent: "(os_join tmp ''flagcheck.cpp'', c) \<notin> set (dw_files w)" for c
    using tmp(3) [of "os_join tmp ''flagcheck.cpp''" c] join by auto
  have "filter (\<lambda>(n, c). os_dirname n \<noteq> tmp) (dict_set (os_join tmp ''flagcheck.cpp'') v fs) = fs"
    if "set fs \<subseteq> set (dw_files w)" for fs v
    using that tmp(3) join absent by (induction fs) (auto simp: filter_id_conv)
  then have "filter (\<lambda>(n, c). os_dirname n \<noteq> tmp) (dict_set (os_join tmp ''flagcheck.cpp'') v (dw_files w)) = dw_files w" for v
    by simp
  then show ?thesis by (simp add: has_flag_def tmp_chdir_def Inr Let_def)
qed (simp add: has_flag_def tmp_chdir_def)

text \<open>When no temporary directory can be made, its error is lost: the clean-up raises another one.\<close>

lemma mkdtemp_error_masked: "snd (has_flag (Inl e) compile flag w) = Inl (OtherExc ''UnboundLocalError: tmpdir'')"
  by (simp add: has_flag_def tmp_chdir_def)

text \<open>The level found is the highest that compiles.\<close>

lemma search_level_first:
  assumes "mk = Inr tmp"
  shows "search_level env mk compile ls w = (w1, Inr l) \<Longrightarrow>
    \<exists>as n bs. ls = as @ n # bs \<and> l = Level n \<and> compile ''flagcheck.cpp'' (std_flag env (Level n)) = Compiles
      \<and> list_all (\<lambda>m. compile ''flagcheck.cpp'' (std_flag env (Level m)) = CompileFails) as"
proof (induction ls arbitrary: w)
  case (Cons n ls)
  have flag: "snd (has_flag mk compile f v) = (case compile ''flagcheck.cpp'' f of Compiles \<Rightarrow> Inr True | CompileFails \<Rightarrow> Inr False
      | CompilerRaises e \<Rightarrow> Inl e)" for f v
    by (simp add: has_flag_def tmp_chdir_def assms Let_def)
  obtain w2 r where r: "has_flag mk compile (std_flag env (Level n)) w = (w2, r)" by (cases "has_flag mk compile (std_flag env (Level n)) w")
  show ?case
  proof (cases "compile ''flagcheck.cpp'' (std_flag env (Level n))")
    case Compiles
    then have "l = Level n" using Cons.prems r flag [of "std_flag env (Level n)" w] by simp
    then show ?thesis using Compiles by (intro exI [of _ "[]"] exI [of _ n] exI [of _ ls]) simp
  next
    case CompileFails
    then have "search_level env mk compile ls w2 = (w1, Inr l)" using Cons.prems r flag [of "std_flag env (Level n)" w] by simp
    from Cons.IH [OF this] obtain as k bs where "ls = as @ k # bs" "l = Level k" "compile ''flagcheck.cpp'' (std_flag env (Level k)) = Compiles"
        "list_all (\<lambda>m. compile ''flagcheck.cpp'' (std_flag env (Level m)) = CompileFails) as" by blast
    then show ?thesis using CompileFails by (intro exI [of _ "n # as"] exI [of _ k] exI [of _ bs]) simp
  next
    case (CompilerRaises e)
    then show ?thesis using Cons.prems r flag [of "std_flag env (Level n)" w] by simp
  qed
qed simp

text \<open>The climb ends in a directory that is no package; at the root of a relative path it may never end.\<close>

lemma package_root_no_package:
  assumes "package_root ex p = Some q"
  shows "\<not> ex (os_join q ''__init__.py'')"
  by (rule package_root.raw_induct [where P = "\<lambda>ex p q. \<not> ex (os_join q ''__init__.py'')", OF _ assms]) (auto split: if_splits)

lemma package_root_endless:
  assumes "ex ''__init__.py''"
  shows "package_root ex [] = None"
proof -
  have top: "os_join [] ''__init__.py'' = ''__init__.py''" "fst (os_split []) = []"
    by (simp_all add: os_join_def starts_with_def os_split_def last_split_def)
  have "ex ''__init__.py'' \<longrightarrow> p \<noteq> []" if "package_root ex p = Some q" for ex p q
    by (rule package_root.raw_induct [where P = "\<lambda>ex p q. ex ''__init__.py'' \<longrightarrow> p \<noteq> []", OF _ that])
      (auto simp: top split: if_splits, blast)
  then show ?thesis using assms by (cases "package_root ex []") auto
qed

text \<open>In any order of the threads, the same objects are compiled, each once.\<close>

definition needs_compile :: "parallel \<Rightarrow> (string, string \<times> string) dict \<Rightarrow> (string \<Rightarrow> bool) \<Rightarrow> string \<Rightarrow> bool" where
  "needs_compile pc build ex obj =
     (case dict_get build obj of None \<Rightarrow> False | Some (src, ext) \<Rightarrow> \<not> ex obj \<or> pc_needs pc obj src = Inr True)"

lemma compile_all_runs:
  assumes "\<And>obj src. is_ok (pc_needs pc obj src)" and "\<And>obj src ext. cc obj src ext = None"
  shows "for_each (single_compile pc build ex cc) objects rs = (rs @ filter (needs_compile pc build ex) objects, None)"
proof (induction objects arbitrary: rs)
  case (Cons obj objects)
  have "single_compile pc build ex cc obj rs = (if needs_compile pc build ex obj then rs @ [obj] else rs, None)"
  proof (cases "dict_get build obj")
    case (Some se)
    obtain src ext where se: "se = (src, ext)" by (cases se)
    from assms(1) [of obj src] obtain b where "pc_needs pc obj src = Inr b" by (auto simp: is_ok_iff)
    then show ?thesis using assms(2) by (simp add: single_compile_def needs_compile_def Some se)
  qed (simp add: single_compile_def needs_compile_def)
  with Cons.IH show ?case by simp
qed simp

lemma parallel_compiles_all:
  assumes "\<And>obj src. is_ok (pc_needs pc obj src)" and "\<And>obj src ext. cc obj src ext = None" and "mset sched = mset objects"
  shows "snd (compile_all pc build ex cc threads sched objects) = None"
    and "mset (fst (compile_all pc build ex cc threads sched objects)) = filter_mset (needs_compile pc build ex) (mset objects)"
  using assms(3) by (simp_all add: compile_all_def compile_all_runs [OF assms(1,2)])

lemma leave_enter: "leave i (enter i s) = (s, None)"
  by (simp add: leave_def enter_def install_def)

end
