(* ===== verification/Py_Re.thy ===== *)
theory Py_Re
  imports Py_Os
begin

text \<open>
  The part of Python's \<open>re\<close> that the scripts use, as a backtracking matcher.  A pattern is a
  \<open>rx\<close>, written as the source's pattern string reads; a match state is the groups captured
  so far, what has been consumed (reversed) and what remains.  \<open>rx_run\<close> lists the states that
  a pattern can end in, in the order in which the engine would try them, so its head is the
  match that \<open>re\<close> reports.  Repetition is of a single character class, which is the only
  repetition in the patterns.
\<close>

datatype rx =
    Nothing
  | One "char \<Rightarrow> bool"
  | Many "char \<Rightarrow> bool"
  | Many_Lazy "char \<Rightarrow> bool"
  | Then rx rx
  | Or rx rx
  | Group string rx
  | Line_Start
  | Line_End
  | Text_End
  | Look_Ahead rx

type_synonym rx_state = "(string, string) dict \<times> string \<times> string"

text \<open>What a class can consume from a state, the shortest first.\<close>

fun consume :: "(char \<Rightarrow> bool) \<Rightarrow> string \<Rightarrow> string \<Rightarrow> (string \<times> string) list" where
  "consume P l [] = [(l, [])]"
| "consume P l (x # r) = (l, x # r) # (if P x then consume P (x # l) r else [])"

definition new_line :: char where
  "new_line = CHR 0x0A"

definition at_line_start :: "string \<Rightarrow> bool" where
  "at_line_start l = (case l of [] \<Rightarrow> True | x # _ \<Rightarrow> x = new_line)"

fun rx_run :: "rx \<Rightarrow> rx_state \<Rightarrow> rx_state list" where
  "rx_run Nothing s = [s]"
| "rx_run (One P) (c, l, r) = (case r of [] \<Rightarrow> [] | x # r' \<Rightarrow> if P x then [(c, x # l, r')] else [])"
| "rx_run (Many P) (c, l, r) = map (\<lambda>p. (c, p)) (rev (consume P l r))"
| "rx_run (Many_Lazy P) (c, l, r) = map (\<lambda>p. (c, p)) (consume P l r)"
| "rx_run (Then a b) s = concat (map (rx_run b) (rx_run a s))"
| "rx_run (Or a b) s = rx_run a s @ rx_run b s"
| "rx_run (Group n a) (c, l, r) =
     map (\<lambda>(c', l', r'). (dict_set n (rev (take (length l' - length l) l')) c', l', r')) (rx_run a (c, l, r))"
| "rx_run Line_Start (c, l, r) = (if at_line_start l then [(c, l, r)] else [])"
| "rx_run Line_End (c, l, r) = (if at_line_start r then [(c, l, r)] else [])"
| "rx_run Text_End (c, l, r) = (if r = [] then [(c, l, r)] else [])"
| "rx_run (Look_Ahead a) s = (if rx_run a s = [] then [] else [s])"

text \<open>The shapes the patterns are written with: a literal, \<open>C+\<close>, an optional part.\<close>

definition literal :: "string \<Rightarrow> rx" where
  "literal s = foldr (\<lambda>c. Then (One (\<lambda>x. x = c))) s Nothing"

definition some_of :: "(char \<Rightarrow> bool) \<Rightarrow> rx" where
  "some_of P = Then (One P) (Many P)"

definition maybe :: "rx \<Rightarrow> rx" where
  "maybe a = Or a Nothing"

fun sequence :: "rx list \<Rightarrow> rx" where
  "sequence [] = Nothing"
| "sequence [a] = a"
| "sequence (a # b # as) = Then a (sequence (b # as))"

text \<open>\<open>\w\<close>, in ASCII text\<close>

definition word_char :: "char \<Rightarrow> bool" where
  "word_char c =
     (let n = of_char c :: nat in
      (48 \<le> n \<and> n \<le> 57) \<or> (65 \<le> n \<and> n \<le> 90) \<or> (97 \<le> n \<and> n \<le> 122) \<or> c = CHR ''_'')"

text \<open>\<open>p.match(s)\<close>, \<open>p.fullmatch(s)\<close> and \<open>p.search(s)\<close>: the groups, if there is a match.\<close>

definition first_groups :: "rx_state list \<Rightarrow> (string, string) dict option" where
  "first_groups ms = (case ms of [] \<Rightarrow> None | (c, _) # _ \<Rightarrow> Some c)"

definition re_match :: "rx \<Rightarrow> string \<Rightarrow> (string, string) dict option" where
  "re_match a s = first_groups (rx_run a ([], [], s))"

definition re_fullmatch :: "rx \<Rightarrow> string \<Rightarrow> (string, string) dict option" where
  "re_fullmatch a s = first_groups (filter (\<lambda>(c, l, r). r = []) (rx_run a ([], [], s)))"

fun search_from :: "rx \<Rightarrow> string \<Rightarrow> string \<Rightarrow> (string, string) dict option" where
  "search_from a l r =
     (case first_groups (rx_run a ([], l, r)) of
        Some c \<Rightarrow> Some c
      | None \<Rightarrow> (case r of [] \<Rightarrow> None | x # r' \<Rightarrow> search_from a (x # l) r'))"

definition re_search :: "rx \<Rightarrow> string \<Rightarrow> (string, string) dict option" where
  "re_search a s = search_from a [] s"

text \<open>\<open>sorted(xs)\<close> of strings: by code points, a prefix first; stable.\<close>

fun str_le :: "string \<Rightarrow> string \<Rightarrow> bool" where
  "str_le [] t = True"
| "str_le (x # s) [] = False"
| "str_le (x # s) (y # t) = ((of_char x :: nat) < of_char y \<or> (x = y \<and> str_le s t))"

fun str_insert :: "string \<Rightarrow> string list \<Rightarrow> string list" where
  "str_insert s [] = [s]"
| "str_insert s (t # ts) = (if str_le s t then s # t # ts else t # str_insert s ts)"

definition str_sort :: "string list \<Rightarrow> string list" where
  "str_sort ss = foldr str_insert ss []"

section \<open>Facts\<close>

lemma consume_text: "(l', r') \<in> set (consume P l r) \<Longrightarrow> rev l' @ r' = rev l @ r"
  by (induction P l r rule: consume.induct) (auto split: if_splits)

lemma consume_self [simp]: "(l, r) \<in> set (consume P l r)"
  by (cases r) simp_all

lemma consume_class:
  "(l', r') \<in> set (consume P l r) \<longleftrightarrow> (\<exists>w. l' = rev w @ l \<and> r = w @ r' \<and> list_all P w)"
proof (induction P l r rule: consume.induct)
  case (1 P l)
  then show ?case by auto
next
  case (2 P l x r)
  show ?case
  proof
    assume "(l', r') \<in> set (consume P l (x # r))"
    then consider "l' = l" "r' = x # r" | "P x" "(l', r') \<in> set (consume P (x # l) r)"
      by (auto split: if_splits)
    then show "\<exists>w. l' = rev w @ l \<and> x # r = w @ r' \<and> list_all P w"
    proof cases
      case 1
      then show ?thesis by (intro exI [of _ "[]"]) simp
    next
      case 2
      then obtain w where "l' = rev w @ x # l" "r = w @ r'" "list_all P w" using "2.IH" by auto
      with 2 show ?thesis by (intro exI [of _ "x # w"]) simp
    qed
  next
    assume "\<exists>w. l' = rev w @ l \<and> x # r = w @ r' \<and> list_all P w"
    then obtain w where w: "l' = rev w @ l" "x # r = w @ r'" "list_all P w" by blast
    show "(l', r') \<in> set (consume P l (x # r))"
    proof (cases w)
      case Nil
      with w have "l' = l" "r' = x # r" by simp_all
      then show ?thesis by (simp only: consume_self)
    next
      case (Cons y w')
      with w have "P x" "l' = rev w' @ x # l" "r = w' @ r'" "list_all P w'" by auto
      with "2.IH" show ?thesis by simp
    qed
  qed
qed

text \<open>A match only moves the position: the text stays what it was.\<close>

lemma rx_run_text: "(c', l', r') \<in> set (rx_run a (c, l, r)) \<Longrightarrow> rev l' @ r' = rev l @ r"
proof (induction a arbitrary: c l r c' l' r')
  case (One P)
  then show ?case by (auto split: list.splits if_splits)
next
  case (Then a b)
  then obtain c1 l1 r1 where "(c1, l1, r1) \<in> set (rx_run a (c, l, r))" "(c', l', r') \<in> set (rx_run b (c1, l1, r1))"
    by auto
  with Then.IH show ?case by metis
qed (auto dest: consume_text split: if_splits)

lemma rx_run_literal:
  "rx_run (literal w) (c, l, r) = (if starts_with w r then [(c, rev w @ l, drop (length w) r)] else [])"
proof (induction w arbitrary: l r)
  case Nil
  then show ?case by (simp add: literal_def starts_with_def)
next
  case (Cons x w)
  then show ?case
    by (cases r) (auto simp: literal_def starts_with_def)
qed

lemma str_le_refl [simp]: "str_le s s"
  by (induction s) auto

lemma str_le_linear: "str_le s t \<or> str_le t s"
proof (induction s t rule: str_le.induct)
  case (3 x s y t)
  have "(of_char x :: nat) = of_char y \<longleftrightarrow> x = y" by (simp add: of_char_eq_iff)
  with 3 show ?case by auto
qed simp_all

lemma str_le_trans: "str_le s t \<Longrightarrow> str_le t u \<Longrightarrow> str_le s u"
proof (induction s t arbitrary: u rule: str_le.induct)
  case (3 x s y t)
  then show ?case by (cases u) auto
qed (auto elim: str_le.elims)

lemma set_str_insert [simp]: "set (str_insert s ts) = insert s (set ts)"
  by (induction ts) auto

lemma set_str_sort [simp]: "set (str_sort ss) = set ss"
  by (induction ss) (auto simp: str_sort_def)

lemma str_insert_sorted: "sorted_wrt str_le ts \<Longrightarrow> sorted_wrt str_le (str_insert s ts)"
proof (induction ts)
  case (Cons t ts)
  then show ?case using str_le_linear [of s t] by (auto intro: str_le_trans)
qed simp

lemma str_sort_sorted: "sorted_wrt str_le (str_sort ss)"
  by (induction ss) (simp_all add: str_sort_def str_insert_sorted)

end
