(* ===== verification/Build_Scripts.thy ===== *)
theory Build_Scripts
  imports Py_Re
begin

text \<open>
  Three scripts of the vendored libraries that read sources and print text: the version of spdlog
  (\<open>external/spdlog-1.14.0/scripts/extract_version.py\<close>), the single header of lyra
  (\<open>external/lyra-1.7.0/tools/gen_single_include.py\<close>) and the ignore list of codespell
  (\<open>external/pybind11-3.1.0/tools/codespell_ignore_lines_from_errors.py\<close>).  The files are
  arguments.
\<close>

section \<open>The version of spdlog\<close>

definition is_digit10 :: "char \<Rightarrow> bool" where
  "is_digit10 c = (let n = of_char c :: nat in 48 \<le> n \<and> n \<le> 57)"

definition is_upper :: "char \<Rightarrow> bool" where
  "is_upper c = (let n = of_char c :: nat in 65 \<le> n \<and> n \<le> 90)"

text \<open>\<open>^\s*#define\s+SPDLOG_VER_([A-Z]+)\s+([0-9]+).*$\<close>, without flags: \<open>$\<close> also matches before a last newline.\<close>

definition version_re :: rx where
  "version_re =
     sequence [Many is_space, literal ''#define'', some_of is_space, literal ''SPDLOG_VER_'', Group ''1'' (some_of is_upper),
       some_of is_space, Group ''2'' (some_of is_digit10), Many (\<lambda>c. c \<noteq> new_line), maybe (One (\<lambda>c. c = new_line)), Text_End]"

definition version_data :: "(string, int) dict" where
  "version_data = [(''MAJOR'', 0), (''MINOR'', 0), (''PATCH'', 0)]"

definition read_version :: "string \<Rightarrow> (string, int) dict \<Rightarrow> (string, int) dict" where
  "read_version l data =
     (case re_match version_re l of
        None \<Rightarrow> data
      | Some m \<Rightarrow> dict_set (the (dict_get m ''1'')) (the (py_int10 (the (dict_get m ''2'')))) data)"

definition extract_version :: "string list \<Rightarrow> string" where
  "extract_version ls =
     (let data = fold read_version ls version_data in
      join ''.'' (map (\<lambda>k. show_int (dict_get_or data k 0)) [''MAJOR'', ''MINOR'', ''PATCH'']))"

section \<open>The single header of lyra\<close>

text \<open>
  \<open>gs_cwd\<close>: the current directory, an absolute path; \<open>gs_exists\<close> and \<open>gs_open\<close>: what is there, and
  the lines of a file with their line ends; \<open>gs_dir\<close>: \<open>self.args.src_include_dir\<close>.
\<close>

record gen_world =
  gs_cwd :: string
  gs_exists :: "string \<Rightarrow> bool"
  gs_open :: "string \<Rightarrow> string list res"
  gs_dir :: string

record gen_state =
  gn_parsed :: "string list"
  gn_dst :: "string list"

definition is_abs :: "string \<Rightarrow> bool" where
  "is_abs p = starts_with ''/'' p"

text \<open>\<open>os.path.abspath\<close>; exactly two leading slashes are kept.\<close>

definition os_abspath :: "string \<Rightarrow> string \<Rightarrow> string" where
  "os_abspath cwd p =
     (let q = os_join cwd p in
      (if starts_with ''//'' q \<and> \<not> starts_with ''///'' q then ''//'' else ''/'') @ join ''/'' (abs_parts cwd p))"

text \<open>The attributes set by the constructor, from the options given; an option left out is \<open>None\<close>.\<close>

definition gen_setup :: "gen_world \<Rightarrow> string option \<Rightarrow> gen_world res" where
  "gen_setup w src_include_dir =
     (case src_include_dir of
        None \<Rightarrow> Inl (TypeError ''expected str, bytes or os.PathLike object, not NoneType'')
      | Some d \<Rightarrow> Inr (w\<lparr>gs_dir := if \<not> is_abs d then os_abspath (gs_cwd w) (os_join ''.'' d) else d\<rparr>))"

text \<open>\<open>self.pp_re\<close>: \<open>#\s*include\s+["<]([^">]+)[">]\s*\<close>\<close>

definition pp_re :: rx where
  "pp_re =
     sequence [literal ''#'', Many is_space, literal ''include'', some_of is_space, One (\<lambda>c. c = double_mark \<or> c = CHR ''<''),
       Group ''1'' (some_of (\<lambda>c. c \<noteq> double_mark \<and> c \<noteq> CHR ''>'')), One (\<lambda>c. c = double_mark \<or> c = CHR ''>''), Many is_space]"

definition resolve_include :: "gen_world \<Rightarrow> string option \<Rightarrow> string \<Rightarrow> string option" where
  "resolve_include w cur_dir name =
     (if is_abs name then Some name
      else
        (case cur_dir of
           Some d \<Rightarrow>
             if d \<noteq> [] \<and> gs_exists w (os_join d name) then Some (os_abspath (gs_cwd w) (os_join d name))
             else if gs_exists w (os_join (gs_dir w) name) then Some (os_abspath (gs_cwd w) (os_join (gs_dir w) name))
             else None
         | None \<Rightarrow>
             if gs_exists w (os_join (gs_dir w) name) then Some (os_abspath (gs_cwd w) (os_join (gs_dir w) name)) else None))"

definition write_line :: "string \<Rightarrow> gen_state \<Rightarrow> gen_state" where
  "write_line l s = s\<lparr>gn_dst := gn_dst s @ [l]\<rparr>"

text \<open>
  The body of the loop over a file's lines; \<open>rec d i\<close> is \<open>self.cpp(dst_file, d, i)\<close>, whose value,
  tested by \<open>if not src_n\<close>, is what \<open>resolve_include\<close> says.
\<close>

definition cpp_line ::
    "gen_world \<Rightarrow> (string option \<Rightarrow> string \<Rightarrow> gen_state \<Rightarrow> gen_state outcome) \<Rightarrow> string \<Rightarrow> string \<Rightarrow> gen_state \<Rightarrow> gen_state outcome" where
  "cpp_line w rec dir l s =
     (if starts_with ''//'' (strip l) then (s, None)
      else
        (case re_fullmatch pp_re l of
           None \<Rightarrow> (write_line l s, None)
         | Some m \<Rightarrow>
             let name = the (dict_get m ''1'') in
             and_then (rec (Some dir) name s)
               (\<lambda>s. (if resolve_include w (Some dir) name = None then write_line l s else s, None))))"

definition too_deep :: exc where
  "too_deep = RuntimeErr ''maximum recursion depth exceeded''"

text \<open>\<open>depth\<close>: how many calls the interpreter's recursion limit still allows.\<close>

primrec cpp :: "nat \<Rightarrow> gen_world \<Rightarrow> string option \<Rightarrow> string \<Rightarrow> gen_state \<Rightarrow> gen_state outcome" where
  "cpp 0 w cur_dir name s = (s, Some too_deep)"
| "cpp (Suc depth) w cur_dir name s =
     (case resolve_include w cur_dir name of
        None \<Rightarrow> (s, None)
      | Some p \<Rightarrow>
          if p \<in> set (gn_parsed s) then (s, None)
          else
            (let s = s\<lparr>gn_parsed := gn_parsed s @ [p]\<rparr> in
             with_res (gs_open w p) s
               (\<lambda>ls. for_each (cpp_line w (cpp depth w) (os_dirname p)) ls s)))"

definition gen_licence :: string where
  "gen_licence = join [new_line]
     [''// Copyright Ren'' @ [CHR 0xE9] @ '' Ferdinand Rivera Morell'', ''// Copyright 2021 Max Ferger'',
      ''// Copyright 2017 Two Blue Cubes Ltd. All rights reserved.'', ''//'',
      ''// Distributed under the Boost Software License, Version 1.0. (See accompanying'',
      ''// file LICENSE.txt or copy at http://www.boost.org/LICENSE_1_0.txt)'', '''']"

definition gen_run :: "nat \<Rightarrow> gen_world \<Rightarrow> string \<Rightarrow> gen_state outcome" where
  "gen_run depth w src_include = cpp depth w None src_include \<lparr>gn_parsed = [], gn_dst = [gen_licence]\<rparr>"

section \<open>The ignore list of codespell\<close>

text \<open>\<open>lst[i]\<close>, with Python's negative indices\<close>

definition list_item :: "'a list \<Rightarrow> int \<Rightarrow> 'a res" where
  "list_item xs i =
     (if 0 \<le> i \<and> i < int (length xs) then Inr (xs ! nat i)
      else if - int (length xs) \<le> i \<and> i < 0 then Inr (xs ! nat (int (length xs) + i))
      else Inl IndexError)"

text \<open>\<open>s.find(t)\<close>: the first place, if there is one\<close>

fun find_text :: "string \<Rightarrow> string \<Rightarrow> nat option" where
  "find_text t [] = (if t = [] then Some 0 else None)"
| "find_text t (c # s) = (if starts_with t (c # s) then Some 0 else map_option Suc (find_text t s))"

record spell_state =
  sp_cache :: "(string, string list) dict"
  sp_printed :: "string list"

definition cached_file :: "(string \<Rightarrow> string list res) \<Rightarrow> string \<Rightarrow> spell_state \<Rightarrow> (spell_state \<times> string list) res" where
  "cached_file read name s =
     (case dict_get (sp_cache s) name of
        Some ls \<Rightarrow> Inr (s, ls)
      | None \<Rightarrow> bind_res (read name) (\<lambda>ls. Inr (s\<lparr>sp_cache := dict_set name ls (sp_cache s)\<rparr>, ls)))"

definition spell_line :: "(string \<Rightarrow> string list res) \<Rightarrow> string \<Rightarrow> spell_state \<Rightarrow> spell_state outcome" where
  "spell_line read line s =
     (case find_text '' ==> '' line of
        None \<Rightarrow> (s, None)
      | Some i \<Rightarrow>
          (case split_on (CHR '':'') (take i line) of
             name # number # _ \<Rightarrow>
               if i = 0 then (s, None)
               else
                 with_res (cached_file read name s) s (\<lambda>(s, ls).
                 with_res (opt_res (ValueError (''invalid literal for int() with base 10: '' @ repr_str number)) (py_int10 number)) s (\<lambda>n.
                 with_res (list_item ls (n - 1)) s (\<lambda>supp.
                 (if supp \<notin> set (sp_printed s) then s\<lparr>sp_printed := sp_printed s @ [supp]\<rparr> else s, None))))
           | _ \<Rightarrow> (s, None)))"

text \<open>\<open>run(args)\<close>: \<open>done\<close> holds exactly what has been printed, in order.\<close>

definition spell_run :: "(string \<Rightarrow> string list res) \<Rightarrow> string list \<Rightarrow> spell_state outcome" where
  "spell_run read args =
     (let s = \<lparr>sp_cache = [], sp_printed = []\<rparr> in
      case args of
        [a] \<Rightarrow> with_res (read a) s (\<lambda>ls. for_each (spell_line read) (str_sort ls) s)
      | _ \<Rightarrow> (s, Some (OtherExc ''AssertionError: codespell_errors.txt'')))"

section \<open>Facts\<close>

text \<open>A path is expanded once: it is recorded before its lines are read.\<close>

lemma cpp_line_keeps:
  assumes "\<And>d i s. P s \<Longrightarrow> P (fst (rec d i s))" "\<And>l s. P s \<Longrightarrow> P (write_line l s)" "P s"
  shows "P (fst (cpp_line w rec dir l s))"
proof -
  have "P (fst (and_then (rec (Some dir) name s) (\<lambda>s. (if b then write_line l s else s, None))))" for name b
    by (rule and_then_keeps) (use assms in auto)
  with assms show ?thesis by (simp add: cpp_line_def Let_def split: option.split)
qed

lemma cpp_keeps:
  assumes "\<And>l s. P s \<Longrightarrow> P (write_line l s)"
    and "\<And>p s. P s \<Longrightarrow> p \<notin> set (gn_parsed s) \<Longrightarrow> P (s\<lparr>gn_parsed := gn_parsed s @ [p]\<rparr>)"
  shows "P s \<Longrightarrow> P (fst (cpp depth w cur_dir name s))"
proof (induction depth arbitrary: cur_dir name s)
  case 0
  then show ?case by simp
next
  case (Suc depth)
  have lines: "P (fst (for_each (cpp_line w (cpp depth w) d) ls s'))" if "P s'" for d ls s'
    using that by (rule for_each_keeps) (rule cpp_line_keeps [where P = P], rule Suc.IH, assumption, rule assms(1), assumption+)
  show ?case
  proof (cases "resolve_include w cur_dir name")
    case None
    with Suc.prems show ?thesis by simp
  next
    case (Some p)
    with Suc.prems show ?thesis
      by (cases "p \<in> set (gn_parsed s)"; cases "gs_open w p") (auto simp: Let_def intro: lines assms(2))
  qed
qed

lemma cpp_parsed_once: "distinct (gn_parsed s) \<Longrightarrow> distinct (gn_parsed (fst (cpp depth w cur_dir name s)))"
  by (rule cpp_keeps [where P = "\<lambda>s. distinct (gn_parsed s)"]) (auto simp: write_line_def)

lemma cpp_parsed_grows: "A \<subseteq> set (gn_parsed s) \<Longrightarrow> A \<subseteq> set (gn_parsed (fst (cpp depth w cur_dir name s)))"
  by (rule cpp_keeps [where P = "\<lambda>s. A \<subseteq> set (gn_parsed s)"]) (auto simp: write_line_def)

lemma for_each_avoids:
  "\<lbrakk>P s; \<And>x s. P s \<Longrightarrow> P (fst (f x s)) \<and> snd (f x s) \<noteq> Some e\<rbrakk> \<Longrightarrow> snd (for_each f xs s) \<noteq> Some e"
proof (induction xs arbitrary: s)
  case (Cons x xs)
  have step: "P (fst (f x s))" "snd (f x s) \<noteq> Some e" using Cons.prems by blast+
  show ?case
  proof (cases "f x s")
    case (Pair s' r)
    then show ?thesis using step Cons.IH [of s'] Cons.prems(2) by (cases r) auto
  qed
qed simp

lemma cpp_line_avoids:
  assumes "\<And>d i. snd (rec d i s) \<noteq> Some e"
  shows "snd (cpp_line w rec dir l s) \<noteq> Some e"
proof -
  have "snd (and_then (rec (Some dir) name s) (\<lambda>s. (f s, None))) \<noteq> Some e" for name f
    using assms [of "Some dir" name] by (cases "rec (Some dir) name s"; cases "snd (rec (Some dir) name s)") auto
  then show ?thesis by (simp add: cpp_line_def Let_def split: option.split)
qed

text \<open>
  Includes may form cycles; the recursion still ends, because every call that goes deeper has
  recorded a further file: with more depth left than there are files to record, the limit is not
  reached.
\<close>

lemma cpp_ends:
  assumes "finite F" "\<And>p ls. gs_open w p = Inr ls \<Longrightarrow> p \<in> F" "\<And>p. gs_open w p \<noteq> Inl too_deep"
    and "card (F - set (gn_parsed s)) < depth"
  shows "snd (cpp depth w cur_dir name s) \<noteq> Some too_deep"
  using assms(4)
proof (induction depth arbitrary: cur_dir name s)
  case 0
  then show ?case by simp
next
  case (Suc depth)
  have lines: "snd (for_each (cpp_line w (cpp depth w) d) ls (s\<lparr>gn_parsed := gn_parsed s @ [p]\<rparr>)) \<noteq> Some too_deep"
    if p: "p \<in> F" "p \<notin> set (gn_parsed s)" for d ls p
  proof (rule for_each_avoids [where P = "\<lambda>s'. insert p (set (gn_parsed s)) \<subseteq> set (gn_parsed s')"])
    show "insert p (set (gn_parsed s)) \<subseteq> set (gn_parsed (s\<lparr>gn_parsed := gn_parsed s @ [p]\<rparr>))" by simp
  next
    fix l and s' :: gen_state
    assume sub: "insert p (set (gn_parsed s)) \<subseteq> set (gn_parsed s')"
    have "F - set (gn_parsed s') \<subset> F - set (gn_parsed s)" using sub p by auto
    then have "card (F - set (gn_parsed s')) < card (F - set (gn_parsed s))"
      using assms(1) by (meson finite_Diff psubset_card_mono)
    then have small: "card (F - set (gn_parsed s')) < depth" using Suc.prems by simp
    have "insert p (set (gn_parsed s)) \<subseteq> set (gn_parsed (fst (cpp_line w (cpp depth w) d l s')))"
      by (rule cpp_line_keeps [where P = "\<lambda>s'. insert p (set (gn_parsed s)) \<subseteq> set (gn_parsed s')"])
        (rule cpp_parsed_grows, assumption, simp add: write_line_def, rule sub)
    moreover have "snd (cpp_line w (cpp depth w) d l s') \<noteq> Some too_deep"
      by (rule cpp_line_avoids) (rule Suc.IH [OF small])
    ultimately show "insert p (set (gn_parsed s)) \<subseteq> set (gn_parsed (fst (cpp_line w (cpp depth w) d l s')))
      \<and> snd (cpp_line w (cpp depth w) d l s') \<noteq> Some too_deep" by blast
  qed
  show ?case
  proof (cases "resolve_include w cur_dir name")
    case None
    then show ?thesis by simp
  next
    case (Some p)
    with assms(2,3) show ?thesis
      by (cases "p \<in> set (gn_parsed s)"; cases "gs_open w p") (auto simp: Let_def dest: lines)
  qed
qed

text \<open>Two headers that include each other, a comment and a system header.\<close>

definition sample_headers :: gen_world where
  "sample_headers =
     \<lparr>gs_cwd = ''/w'', gs_exists = (\<lambda>p. p = ''/w/inc/a.hpp'' \<or> p = ''/w/inc/b.hpp''),
      gs_open = (\<lambda>p. if p = ''/w/inc/a.hpp'' then Inr [''#include <b.hpp>'', ''// note'', ''int a;'']
                     else if p = ''/w/inc/b.hpp'' then Inr [join [double_mark] [''#include '', ''a.hpp'', ''''], ''#include <map>'', ''int b;'']
                     else Inl (OSErr p)),
      gs_dir = ''/w/inc''\<rparr>"

lemma gen_run_sample:
  "gen_run 3 sample_headers ''a.hpp''
   = (\<lparr>gn_parsed = [''/w/inc/a.hpp'', ''/w/inc/b.hpp''], gn_dst = [gen_licence, ''#include <map>'', ''int b;'', ''int a;'']\<rparr>, None)"
  by code_simp

lemma extract_version_sample:
  "extract_version [''#pragma once'', ''#define SPDLOG_VER_MAJOR 1'', ''#define SPDLOG_VER_MINOR 14'', ''#define SPDLOG_VER_PATCH 1'']
   = ''1.14.1''"
  by code_simp

text \<open>No line is printed twice.\<close>

lemma spell_line_once: "distinct (sp_printed s) \<Longrightarrow> distinct (sp_printed (fst (spell_line read line s)))"
  by (auto simp: spell_line_def cached_file_def with_res_def bind_res_def opt_res_def
      split: option.splits list.splits sum.splits prod.splits if_splits)

lemma spell_run_once: "distinct (sp_printed (fst (spell_run read args)))"
proof -
  have each: "distinct (sp_printed (fst (for_each (spell_line read) ls \<lparr>sp_cache = [], sp_printed = []\<rparr>)))" for ls
    by (rule for_each_keeps) (auto intro: spell_line_once)
  have "distinct (sp_printed (fst (with_res (read a) \<lparr>sp_cache = [], sp_printed = []\<rparr>
          (\<lambda>ls. for_each (spell_line read) (str_sort ls) \<lparr>sp_cache = [], sp_printed = []\<rparr>))))" for a
    by (cases "read a") (simp_all add: each)
  then show ?thesis by (simp add: spell_run_def Let_def split: list.split)
qed

text \<open>A line number of zero in the report silently selects the last line of the file.\<close>

lemma list_item_before_first: "xs \<noteq> [] \<Longrightarrow> list_item xs (0 - 1) = Inr (last xs)"
  by (cases xs) (auto simp: list_item_def last_conv_nth nat_diff_distrib')

end
