(* ===== verification/Pybind_Tools.thy ===== *)
theory Pybind_Tools
  imports Py_Re
begin

text \<open>
  The maintenance scripts of the vendored pybind11 (\<open>external/pybind11-3.1.0/\<close>): the changelog
  collected from closed issues (\<open>tools/make_changelog.py\<close>), the project file of the global package
  (\<open>tools/make_global.py\<close>), the sessions of \<open>noxfile.py\<close> and the benchmark sources
  (\<open>docs/benchmark.py\<close>).  GitHub, tomlkit, nox, the compiler and the random numbers are arguments.
\<close>

section \<open>The changelog\<close>

definition any_char :: "char \<Rightarrow> bool" where
  "any_char c = True"

text \<open>\<open>MD_ENTRY\<close>, in verbose, multi-line, dot-all mode\<close>

definition MD_ENTRY :: rx where
  "MD_ENTRY =
     sequence [Line_Start, some_of (\<lambda>c. c = CHR ''#''), literal '' Suggested changelog entry'', maybe (literal '':''),
       Many is_space, Line_End,
       maybe (sequence [Many is_space, literal ''<!--'', Many_Lazy any_char, literal ''-->'']),
       Group ''content'' (Many_Lazy any_char),
       Look_Ahead
         (Or (sequence [Line_Start, literal ''---'', Many (\<lambda>c. c = CHR ''-''), Many is_space, Line_End])
         (Or (sequence [Line_Start, literal ''<!--'', Many is_space, literal ''readthedocs''])
         (Or (sequence [Line_Start, literal ''##'']) Text_End)))]"

text \<open>\<open>(?P<cat>\w+)(?:\((?P<sub>[^)]+)\))?!?:\<close>\<close>

definition TITLE_CAT :: rx where
  "TITLE_CAT =
     sequence [Group ''cat'' (some_of word_char),
       maybe (sequence [literal ''('', Group ''sub'' (some_of (\<lambda>c. c \<noteq> CHR '')'')), literal '')'']),
       maybe (literal ''!''), literal '':'']"

text \<open>What rich prints: a line of console markup, or Markdown with syntax colours (\<open>word_wrap\<close>).\<close>

datatype rich = Markup string | Markdown string bool

text \<open>\<open>get_token()\<close>: the environment, then \<open>gh auth token\<close>; the token and what it printed.\<close>

definition called_process_error :: exc where
  "called_process_error = OtherExc ''CalledProcessError''"

definition token_error :: "exc \<Rightarrow> bool" where
  "token_error e = (case e of OSErr _ \<Rightarrow> True | _ \<Rightarrow> e = called_process_error)"

definition get_token :: "(string, string) dict \<Rightarrow> string res \<Rightarrow> (string option \<times> rich list) res" where
  "get_token environ gh =
     (let token = (case dict_get environ ''GITHUB_TOKEN'' of
                     Some t \<Rightarrow> if t \<noteq> [] then Some t else dict_get environ ''GH_TOKEN''
                   | None \<Rightarrow> dict_get environ ''GH_TOKEN'') in
      case token of
        Some (c # t) \<Rightarrow> Inr (Some (c # t), [])
      | _ \<Rightarrow>
          (case gh of
             Inr out \<Rightarrow> Inr (Some (strip out), [])
           | Inl e \<Rightarrow>
               if token_error e then Inr (None, [Markup ''[yellow]No GitHub token found; results may be stale (cached).''])
               else Inl e))"

record issue =
  iu_title :: string
  iu_body :: "string option"
  iu_number :: int
  iu_url :: string
  iu_labels :: "string list"

record changelog =
  cl_missing :: "issue list"
  cl_old :: "issue list"
  cl_cats :: "(string, (string, string list) dict) dict"

definition LABEL :: string where
  "LABEL = ''needs changelog''"

text \<open>\<open>issues\<close>: every issue of every page that still has the label\<close>

definition labelled :: "issue list list \<Rightarrow> issue list" where
  "labelled pages = filter (\<lambda>i. LABEL \<in> set (iu_labels i)) (concat pages)"

definition cats_descr :: "(string, string) dict" where
  "cats_descr =
     [(''feat'', ''New Features''), (''fix'', ''Bug fixes''), (''docs'', ''Documentation''), (''tests'', ''Tests''), (''ci'', ''CI''),
      (''chore'', ''Other''), (''unknown'', ''Uncategorised'')]"

definition no_changelog :: changelog where
  "no_changelog = \<lparr>cl_missing = [], cl_old = [], cl_cats = map (\<lambda>(c, _). (c, [])) cats_descr\<rparr>"

text \<open>The entry in an issue's text: a list item that ends in a full stop.\<close>

definition list_item_of :: "string \<Rightarrow> string" where
  "list_item_of msg =
     (let m = (if starts_with ''* '' msg then drop 2 msg else msg);
          m = (if \<not> starts_with ''- '' m then ''- '' @ m else m) in
      if \<not> ends_with ''.'' m then m @ ''.'' else m)"

definition entry_of :: "string \<Rightarrow> string option" where
  "entry_of body =
     (case re_search MD_ENTRY body of
        None \<Rightarrow> None
      | Some m \<Rightarrow>
          let msg = strip (the (dict_get m ''content'')) in
          if msg = [] then None
          else if list_item_of msg = ''- Placeholder.'' then None
          else Some (list_item_of msg))"

text \<open>The category and subcategory of a title; both fall back when the category is not a known one.\<close>

definition category_of :: "string \<Rightarrow> (string, 'a) dict \<Rightarrow> string \<times> string" where
  "category_of title cats =
     (let (cat, sub) =
        (case re_match TITLE_CAT title of
           None \<Rightarrow> (''unknown'', [])
         | Some m \<Rightarrow> (lower (the (dict_get m ''cat'')), lower (dict_get_or m ''sub'' []))) in
      if cat \<notin> set (dict_keys cats) then (''unknown'', []) else (cat, sub))"

text \<open>\<open>cats[cat].setdefault(sub, []).append(msg)\<close>\<close>

definition file_entry :: "string \<times> string \<Rightarrow> string \<Rightarrow> (string, (string, string list) dict) dict \<Rightarrow> (string, (string, string list) dict) dict" where
  "file_entry cs msg cats =
     (let subs = dict_get_or cats (fst cs) [] in
      dict_set (fst cs) (dict_set (snd cs) (dict_get_or subs (snd cs) [] @ [msg]) subs) cats)"

definition add_issue :: "issue \<Rightarrow> changelog \<Rightarrow> changelog outcome" where
  "add_issue i c =
     (case iu_body i of
        None \<Rightarrow> (c, Some (TypeError ''argument of type 'NoneType' is not iterable''))
      | Some body \<Rightarrow>
          if contains ''```rst'' body then (c\<lparr>cl_old := cl_old c @ [i]\<rparr>, None)
          else
            (case entry_of body of
               None \<Rightarrow> (c\<lparr>cl_missing := cl_missing c @ [i]\<rparr>, None)
             | Some msg \<Rightarrow>
                 (c\<lparr>cl_cats := file_entry (category_of (iu_title i) (cl_cats c))
                      (msg @ [new_line] @ ''  [#'' @ show_int (iu_number i) @ '']('' @ iu_url i @ '')'') (cl_cats c)\<rparr>, None)))"

definition print_sub :: "string \<Rightarrow> (string, string list) dict \<Rightarrow> string \<Rightarrow> rich list" where
  "print_sub cat subs sub =
     (if sub \<noteq> [] then [Markup (''<!-- '' @ cat @ ''('' @ sub @ '') -->''), Markup []] else [])
     @ concat (map (\<lambda>msg. [Markdown msg True, Markup []]) (dict_get_or subs sub [])) @ [Markup []]"

definition print_cat :: "string \<times> (string, string list) dict \<Rightarrow> rich list" where
  "print_cat c =
     (case c of (cat, subs) \<Rightarrow>
        if subs = [] then []
        else Markup (''[bold]'' @ dict_get_or cats_descr cat [] @ '':'') # Markup []
          # concat (map (print_sub cat subs) (str_sort (dict_keys subs))))"

definition print_issue :: "string \<Rightarrow> issue \<Rightarrow> rich list" where
  "print_issue tag i = [Markup (tag @ iu_title i), Markup (''[red]  '' @ iu_url i @ [new_line])]"

definition print_missing :: "issue list \<Rightarrow> rich list" where
  "print_missing is =
     (if is = [] then []
      else [Markup [], Markup (''[blue]'' @ replicate 30 (CHR ''-'')), Markup []]
        @ concat (map (print_issue ''[red bold]Missing:[/red bold][red] '') is)
        @ [Markup (''[bold]Template:'' @ [new_line]), Markdown ''## Suggested changelog entry:'' False])"

definition print_old :: "issue list \<Rightarrow> rich list" where
  "print_old is =
     (if is = [] then []
      else [Markup [], Markup (''[red]'' @ replicate 30 (CHR ''-'')), Markup []]
        @ concat (map (print_issue ''[red bold]Old:[/red bold][red] '') is))"

definition print_changelog :: "changelog \<Rightarrow> rich list" where
  "print_changelog c = concat (map print_cat (cl_cats c)) @ print_missing (cl_missing c) @ print_old (cl_old c) @ [Markup []]"

text \<open>The script; \<open>pages t\<close> is what GitHub lists with the token \<open>t\<close>.\<close>

definition make_changelog :: "(string, string) dict \<Rightarrow> string res \<Rightarrow> (string option \<Rightarrow> issue list list res) \<Rightarrow> rich list outcome" where
  "make_changelog environ gh pages =
     with_res (get_token environ gh) [Markup []] (\<lambda>(token, printed).
     with_res (pages token) (Markup [] # printed) (\<lambda>ps.
     case for_each add_issue (labelled ps) no_changelog of
       (c, Some e) \<Rightarrow> (Markup [] # printed, Some e)
     | (c, None) \<Rightarrow> (Markup [] # printed @ print_changelog c, None)))"

section \<open>The project file of the global package\<close>

text \<open>A parsed TOML document; tomlkit reads and writes it.\<close>

datatype toml = Toml_Text string | Toml_Bool bool | Toml_List "toml list" | Toml_Table "(string, toml) dict"

text \<open>A statement on \<open>doc[k1]...[kn]\<close>: every step must be in a table.\<close>

fun in_table :: "string list \<Rightarrow> ((string, toml) dict \<Rightarrow> (string, toml) dict res) \<Rightarrow> toml \<Rightarrow> toml res" where
  "in_table [] f (Toml_Table d) = bind_res (f d) (\<lambda>d'. Inr (Toml_Table d'))"
| "in_table (k # ks) f (Toml_Table d) =
     (case dict_get d k of
        None \<Rightarrow> Inl (KeyError k)
      | Some t \<Rightarrow> bind_res (in_table ks f t) (\<lambda>t'. Inr (Toml_Table (dict_set k t' d))))"
| "in_table ks f t = Inl (TypeError ''not a table'')"

definition toml_del :: "string list \<Rightarrow> string \<Rightarrow> toml \<Rightarrow> toml res" where
  "toml_del ks k = in_table ks (\<lambda>d. if dict_get d k = None then Inl (KeyError k) else Inr (dict_remove k d))"

definition toml_set :: "string list \<Rightarrow> string \<Rightarrow> toml \<Rightarrow> toml \<Rightarrow> toml res" where
  "toml_set ks k v = in_table ks (\<lambda>d. Inr (dict_set k v d))"

definition global_edits :: "(toml \<Rightarrow> toml res) list" where
  "global_edits =
     [toml_del [''tool'', ''scikit-build''] ''generate'', toml_del [''project''] ''entry-points'', toml_del [''project''] ''scripts'',
      toml_del [''tool'', ''scikit-build'', ''metadata''] ''optional-dependencies'',
      toml_set [''project''] ''name'' (Toml_Text ''pybind11-global''),
      toml_set [''tool'', ''scikit-build''] ''experimental'' (Toml_Bool True),
      toml_set [''tool'', ''scikit-build'', ''wheel''] ''install-dir'' (Toml_Text ''/data''),
      toml_set [''tool'', ''scikit-build'', ''wheel''] ''packages'' (Toml_List [])]"

definition get_global :: "(string \<Rightarrow> toml res) \<Rightarrow> (toml \<Rightarrow> string) \<Rightarrow> string \<Rightarrow> string res" where
  "get_global parse dumps content =
     bind_res (fold (\<lambda>f r. bind_res r f) global_edits (parse content)) (\<lambda>doc. Inr (dumps doc))"

section \<open>The sessions of noxfile.py\<close>

text \<open>
  What a session asks of nox, in order; \<open>perform\<close> carries a request out, and may fail.  The world
  has the file \<open>pyproject.toml\<close> with its content and its two time stamps.
\<close>

datatype nox_step =
    Install "string list"
  | Run "string list"
  | Run_Silent "string list"
  | Log_Text string
  | Install_And_Run_Script string

record nox_session =
  ns_posargs :: "string list"
  ns_venv_backend :: string
  ns_tmp :: string

record nox_world =
  nw_project :: "(string \<times> nat \<times> nat) option"
  nw_asked :: "nox_step list"

definition lint_steps :: "nox_session \<Rightarrow> nox_step list" where
  "lint_steps s = [Install [''pre-commit''], Run ([''pre-commit'', ''run'', ''-a''] @ ns_posargs s)]"

definition tests_steps :: "nox_session \<Rightarrow> nox_step list" where
  "tests_steps s =
     [Install [''cmake''], Install [''-r'', ''tests/requirements.txt''],
      Run ([''cmake'', ''-S.'', ''-B'' @ ns_tmp s, ''-DPYBIND11_WERROR=ON'', ''-DDOWNLOAD_CATCH=ON'', ''-DDOWNLOAD_EIGEN=ON''] @ ns_posargs s),
      Run [''cmake'', ''--build'', ns_tmp s],
      Run [''cmake'', ''--build'', ns_tmp s, ''--config=Release'', ''--target'', ''check'']]"

definition tests_packaging_steps :: "nox_session \<Rightarrow> nox_step list" where
  "tests_packaging_steps s =
     [Install [''-r'', ''tests/requirements.txt'', ''pip''], Run ([''pytest'', ''tests/extra_python_package''] @ ns_posargs s)]"

definition make_changelog_steps :: "nox_session \<Rightarrow> nox_step list" where
  "make_changelog_steps s = [Install_And_Run_Script ''tools/make_changelog.py'']"

definition build_steps :: "nox_session \<Rightarrow> nox_step list" where
  "build_steps s = [Install [''build''], Log_Text ''Building normal files'', Run ([''python'', ''-m'', ''build''] @ ns_posargs s)]"

type_synonym performer = "nox_step \<Rightarrow> nox_world \<Rightarrow> nox_world outcome"

definition ask :: "performer \<Rightarrow> nox_step \<Rightarrow> nox_world \<Rightarrow> nox_world outcome" where
  "ask perform st w = perform st (w\<lparr>nw_asked := nw_asked w @ [st]\<rparr>)"

definition nox_run :: "performer \<Rightarrow> nox_step list \<Rightarrow> nox_world \<Rightarrow> nox_world outcome" where
  "nox_run perform = for_each (ask perform)"

text \<open>\<open>with preserve_file(filename): body\<close>: content and times are put back however the body ends.\<close>

definition preserve_file :: "(nox_world \<Rightarrow> nox_world outcome) \<Rightarrow> nox_world \<Rightarrow> nox_world outcome" where
  "preserve_file body w =
     (case nw_project w of
        None \<Rightarrow> (w, Some (OSErr ''pyproject.toml''))
      | Some old \<Rightarrow> (case body w of (w', r) \<Rightarrow> (w'\<lparr>nw_project := Some old\<rparr>, r)))"

text \<open>\<open>pyproject.write_text\<close> at the time \<open>t\<close>\<close>

definition write_project :: "nat \<Rightarrow> string \<Rightarrow> nox_world \<Rightarrow> nox_world" where
  "write_project t content w =
     w\<lparr>nw_project := Some (content, (case nw_project w of Some (_, a, _) \<Rightarrow> a | None \<Rightarrow> t), t)\<rparr>"

text \<open>\<open>silent\<close> is what the silent run returns: its output, if it is a string.\<close>

definition build_global :: "performer \<Rightarrow> string option \<Rightarrow> nat \<Rightarrow> nox_session \<Rightarrow> nox_world \<Rightarrow> nox_world outcome" where
  "build_global perform silent t s w =
     (let installer = (if ns_venv_backend s = ''uv'' then [''--installer=uv''] else []) in
      and_then (nox_run perform [Install [''build'', ''tomlkit''], Log_Text ''Building pybind11-global files''] w)
        (preserve_file (\<lambda>w.
           and_then (ask perform (Run_Silent [''python'', ''tools/make_global.py'']) w) (\<lambda>w.
           case silent of
             None \<Rightarrow> (w, Some (OtherExc ''AssertionError''))
           | Some content \<Rightarrow>
               ask perform (Run ([''python'', ''-m'', ''build''] @ installer @ ns_posargs s)) (write_project t content w)))))"

section \<open>The benchmark\<close>

definition nfns :: nat where "nfns = 4"
definition nargs :: nat where "nargs = 4"

text \<open>\<open>f"{n:03}"\<close>\<close>

definition fmt03 :: "nat \<Rightarrow> string" where
  "fmt03 n = zero_pad 3 (show_nat n)"

definition ln :: "string \<Rightarrow> string" where
  "ln s = s @ [new_line]"

definition quoted :: "string \<Rightarrow> string" where
  "quoted s = double_mark # s @ [double_mark]"

text \<open>
  The random numbers: \<open>rnd cl fn 0\<close> is the one drawn for the result of a function and
  \<open>rnd cl fn (i + 1)\<close> the one for its argument \<open>i\<close>, in the order in which they are drawn.
\<close>

definition forward_decls :: "nat \<Rightarrow> string" where
  "forward_decls nclasses = concat (map (\<lambda>cl. ln (''class cl'' @ fmt03 cl @ '';'')) [0..<nclasses]) @ [new_line]"

definition fn_decl :: "(nat \<Rightarrow> nat) \<Rightarrow> nat \<Rightarrow> string" where
  "fn_decl draw fn =
     ''    cl'' @ fmt03 (draw 0) @ '' *fn_'' @ fmt03 fn @ ''(''
     @ join '', '' (map (\<lambda>i. ''cl'' @ fmt03 (draw (Suc i)) @ '' *'') [0..<nargs]) @ ln '');''"

definition class_decl :: "string \<Rightarrow> (nat \<Rightarrow> nat \<Rightarrow> nat \<Rightarrow> nat) \<Rightarrow> nat \<Rightarrow> string" where
  "class_decl prefix rnd cl =
     ln (''class '' @ prefix @ fmt03 cl @ '' {'') @ ln ''public:'' @ concat (map (\<lambda>fn. fn_decl (rnd cl fn) fn) [0..<nfns])
     @ ln ''};'' @ [new_line]"

definition fn_binding :: "string \<Rightarrow> nat \<Rightarrow> nat \<Rightarrow> string" where
  "fn_binding policy cl fn =
     ''        .def('' @ quoted (''fn_'' @ fmt03 fn) @ '', &cl'' @ fmt03 cl @ ''::fn_'' @ fmt03 fn @ policy @ ln '')''"

definition class_binding :: "string \<Rightarrow> string \<Rightarrow> nat \<Rightarrow> string" where
  "class_binding first policy cl =
     ''    py::class_<cl'' @ fmt03 cl @ ''>('' @ first @ quoted (''cl'' @ fmt03 cl) @ ln '')''
     @ concat (map (fn_binding policy cl) [0..<nfns]) @ ln ''        ;''"

definition generate_dummy_code_pybind11 :: "(nat \<Rightarrow> nat \<Rightarrow> nat \<Rightarrow> nat) \<Rightarrow> nat \<Rightarrow> string" where
  "generate_dummy_code_pybind11 rnd nclasses =
     ln (ln ''#include <pybind11/pybind11.h>'') @ ln (ln ''namespace py = pybind11;'')
     @ forward_decls nclasses @ concat (map (class_decl [] rnd) [0..<nclasses]) @ [new_line]
     @ ln ''PYBIND11_MODULE(example, m, py::mod_gil_not_used()) {''
     @ concat (map (class_binding ''m, '' []) [0..<nclasses]) @ ''}''"

definition generate_dummy_code_boost :: "(nat \<Rightarrow> nat \<Rightarrow> nat \<Rightarrow> nat) \<Rightarrow> nat \<Rightarrow> string" where
  "generate_dummy_code_boost rnd nclasses =
     ln (ln ''#include <boost/python.hpp>'') @ ln (ln ''namespace py = boost::python;'')
     @ forward_decls nclasses @ concat (map (class_decl ''cl'' rnd) [0..<nclasses]) @ [new_line]
     @ ln ''BOOST_PYTHON_MODULE(example) {''
     @ concat (map (class_binding [] '', py::return_value_policy<py::manage_new_object>()'') [0..<nclasses]) @ ''}''"

text \<open>
  The loop over the two generators; \<open>compile code\<close> is the time that the compiler took, in
  microseconds, and the size of its output.
\<close>

definition seconds6 :: "nat \<Rightarrow> string" where
  "seconds6 us = show_nat (us div 1000000) @ ''.'' @ zero_pad 6 (show_nat (us mod 1000000))"

definition benchmark :: "(nat \<Rightarrow> string) list \<Rightarrow> (string \<Rightarrow> nat \<times> nat) \<Rightarrow> string list" where
  "benchmark codegens compile =
     concat (map (\<lambda>codegen.
       ''{'' # map (\<lambda>i. let nclasses = 2 ^ i; (elapsed, size) = compile (codegen nclasses) in
                 ''   {'' @ show_nat (nclasses * nfns) @ '', '' @ seconds6 elapsed @ '', '' @ show_nat size @ ''},'') [0..<10]
       @ [''}'']) codegens)"

section \<open>Facts\<close>

text \<open>Every issue is reported once: as an entry of a category, as missing or as old.\<close>

definition weight :: "('a \<Rightarrow> nat) \<Rightarrow> ('k, 'a) dict \<Rightarrow> nat" where
  "weight f d = sum_list (map (\<lambda>(k, v). f v) d)"

lemma weight_set_old: "dict_get d k = Some v \<Longrightarrow> weight f (dict_set k x d) + f v = weight f d + f x"
  by (induction d) (auto simp: weight_def split: if_splits)

lemma weight_set_new: "dict_get d k = None \<Longrightarrow> weight f (dict_set k x d) = weight f d + f x"
  by (induction d) (auto simp: weight_def split: if_splits)

abbreviation cats_count :: "(string, (string, string list) dict) dict \<Rightarrow> nat" where
  "cats_count \<equiv> weight (weight length)"

definition reported :: "changelog \<Rightarrow> nat" where
  "reported c = length (cl_missing c) + length (cl_old c) + cats_count (cl_cats c)"

lemma file_entry_count:
  assumes "fst cs \<in> set (dict_keys cats)"
  shows "cats_count (file_entry cs msg cats) = cats_count cats + 1"
proof -
  obtain subs where subs: "dict_get cats (fst cs) = Some subs"
    using assms by (metis map_of_eq_None_iff not_None_eq set_map)
  have "weight length (dict_set (snd cs) (dict_get_or subs (snd cs) [] @ [msg]) subs) = weight length subs + 1"
  proof (cases "dict_get subs (snd cs)")
    case None
    then show ?thesis using weight_set_new [OF None, of length "[msg]"] by (simp add: dict_get_or_def)
  next
    case (Some ms)
    then show ?thesis using weight_set_old [OF Some, of length "ms @ [msg]"] by (simp add: dict_get_or_def)
  qed
  with weight_set_old [OF subs, of "weight length" "dict_set (snd cs) (dict_get_or subs (snd cs) [] @ [msg]) subs"] show ?thesis
    by (simp add: file_entry_def dict_get_or_def subs)
qed

lemma file_entry_keys: "fst cs \<in> set (dict_keys cats) \<Longrightarrow> dict_keys (file_entry cs msg cats) = dict_keys cats"
  by (simp add: file_entry_def Let_def dict_keys_set_present)

lemma category_known: "''unknown'' \<in> set (dict_keys cats) \<Longrightarrow> fst (category_of title cats) \<in> set (dict_keys cats)"
  by (auto simp: category_of_def Let_def split: prod.split option.split)

lemma add_issue_reported:
  assumes "add_issue i c = (c', None)" "''unknown'' \<in> set (dict_keys (cl_cats c))"
  shows "reported c' = reported c + 1 \<and> dict_keys (cl_cats c') = dict_keys (cl_cats c)"
proof -
  note known = category_known [OF assms(2), of "iu_title i"]
  obtain body where body: "iu_body i = Some body"
    using assms(1) by (cases "iu_body i") (simp_all add: add_issue_def)
  show ?thesis
  proof (cases "contains ''```rst'' body \<or> entry_of body = None")
    case True
    with assms(1) body show ?thesis by (auto simp: add_issue_def reported_def split: if_splits)
  next
    case False
    then obtain msg where "entry_of body = Some msg" by auto
    with False assms(1) body file_entry_count [OF known] file_entry_keys [OF known] show ?thesis
      by (auto simp: add_issue_def reported_def simp del: set_map)
  qed
qed

lemma all_issues_reported:
  "for_each add_issue iss c = (c', None) \<Longrightarrow> ''unknown'' \<in> set (dict_keys (cl_cats c)) \<Longrightarrow> reported c' = reported c + length iss"
proof (induction iss arbitrary: c)
  case (Cons i iss)
  then obtain c1 where c1: "add_issue i c = (c1, None)" "for_each add_issue iss c1 = (c', None)"
    by (auto simp: and_then_ok_iff)
  with add_issue_reported [OF c1(1) Cons.prems(2)] Cons.IH [OF c1(2)] Cons.prems(2) show ?case by simp
qed simp

lemma changelog_complete:
  assumes "for_each add_issue (labelled pages) no_changelog = (c, None)"
  shows "reported c = length (labelled pages)"
proof -
  have "reported no_changelog = 0" "''unknown'' \<in> set (dict_keys (cl_cats no_changelog))"
    by (simp_all add: reported_def no_changelog_def weight_def cats_descr_def)
  with all_issues_reported [OF assms] show ?thesis by simp
qed

text \<open>
  An issue without a text ends the whole script, although \<open>issue.body or ""\<close> four lines below
  provides for it.
\<close>

lemma bodyless_issue_stops:
  assumes "iu_body i = None" "LABEL \<in> set (iu_labels i)" "get_token environ gh = Inr (token, printed)" "pages token = Inr [[i]]"
  shows "make_changelog environ gh pages = (Markup [] # printed, Some (TypeError ''argument of type 'NoneType' is not iterable''))"
  using assms by (simp add: make_changelog_def labelled_def add_issue_def)

text \<open>An entry as the template asks for it, and one that was left as it was.\<close>

lemma entry_sample:
  "entry_of (join [new_line] [''Text'', ''## Suggested changelog entry:'', ''<!-- fill in -->'', ''* Fixed it'', ''---'', ''More''])
   = Some ''- Fixed it.''"
  by code_simp

lemma placeholder_sample:
  "entry_of (join [new_line] [''## Suggested changelog entry:'', [], ''* Placeholder.'']) = None"
  by code_simp

lemma category_sample: "category_of ''fix(cmake)!: paths'' cats_descr = (''fix'', ''cmake'')"
  by code_simp

text \<open>The project file and its times are the same after the session, however it ended.\<close>

lemma preserve_file_restores: "nw_project (fst (preserve_file body w)) = nw_project w"
  by (simp add: preserve_file_def split: prod.split option.split)

lemma build_global_keeps_project:
  assumes keeps: "\<And>st w. nw_project (fst (perform st w)) = nw_project w"
  shows "nw_project (fst (build_global perform silent t s w)) = nw_project w"
proof -
  have "nw_project (fst (nox_run perform sts w)) = nw_project w" for sts
    unfolding nox_run_def by (rule for_each_keeps) (simp_all add: ask_def keeps)
  then show ?thesis unfolding build_global_def Let_def
    by (intro and_then_keeps [where P = "\<lambda>w'. nw_project w' = nw_project w"]) (simp_all add: preserve_file_restores)
qed

text \<open>What the edits leave of a project file.\<close>

definition sample_toml :: toml where
  "sample_toml =
     Toml_Table
       [(''project'', Toml_Table [(''name'', Toml_Text ''pybind11''), (''scripts'', Toml_Table []), (''entry-points'', Toml_Table [])]),
        (''tool'', Toml_Table [(''scikit-build'', Toml_Table [(''generate'', Toml_List []),
           (''metadata'', Toml_Table [(''optional-dependencies'', Toml_Text ''x'')]), (''wheel'', Toml_Table [])])])]"

lemma global_edits_sample:
  "fold (\<lambda>f r. bind_res r f) global_edits (Inr sample_toml)
   = Inr (Toml_Table
       [(''project'', Toml_Table [(''name'', Toml_Text ''pybind11-global'')]),
        (''tool'', Toml_Table [(''scikit-build'', Toml_Table
           [(''metadata'', Toml_Table []), (''wheel'', Toml_Table [(''install-dir'', Toml_Text ''/data''), (''packages'', Toml_List [])]),
            (''experimental'', Toml_Bool True)])])])"
  by code_simp

lemma edits_keep_error: "fold (\<lambda>f r. bind_res r f) fs (Inl e) = Inl e"
  by (induction fs) simp_all

lemma get_global_needs_tables: "get_global (\<lambda>c. Inr (Toml_Table [])) dumps content = Inl (KeyError ''tool'')"
  by (simp add: get_global_def global_edits_def toml_del_def edits_keep_error)

text \<open>
  The classes that the benchmarks declare and bind are \<open>cl000\<close>, \<open>cl001\<close> and so on.  The Boost
  benchmark defines them; the definitions that the pybind11 one writes are of \<open>000\<close>, \<open>001\<close>.
\<close>

lemma fmt03_zero: "fmt03 0 = ''000''"
  by code_simp

lemma benchmark_class_names:
  "starts_with ''class 000 {'' (class_decl [] rnd 0)"
  "starts_with ''class cl000 {'' (class_decl ''cl'' rnd 0)"
  "starts_with ''class cl000;'' (forward_decls 1)"
  by (simp_all add: class_decl_def ln_def forward_decls_def starts_with_def fmt03_zero)

end
