(* ===== verification/Spec2Isabelle.thy ===== *)
theory Spec2Isabelle
  imports Stats_Facts Cli_Readout_Facts Main_Window_Runs Readout_Loop Packet_Csv_Facts Gui_Start Resources Answers Doc_Images Pybind_Setup Build_Scripts Pybind_Tools
begin

text \<open>
  mesytec-mcpd: readout and control of MCPD-8 and MDLL neutron detector electronics.  The
  development covers its Python programs (the graphical program in \<open>src/gui\<close>, the command line
  tool in \<open>src/cli\<close>, two scripts) and the part of the C++ library (\<open>src/mesytec-mcpd\<close>) below them: the
  command protocol of the devices, data packets, listfiles, the readout thread, its histograms and
  its statistics.

  How the parts interact.  The graphical program keeps a setup (a list of device configurations),
  shows it in a table and a parameter tree and sends commands to the devices through one worker
  thread per device, each over a connection of the bindings.  A run starts the readout of the
  library and sends the run id to all devices and \<open>start_daq\<close> to the timing master.  The readout
  thread receives packets, writes them to a listfile and gives the valid ones to the collectors;
  timers of the window read statistics and histograms from there.  The command line tool issues
  the same commands one at a time.

  Theories, in the order of their imports.

  \<^item> \<open>Mcpd_Prelude\<close>: exceptions as values (\<open>res\<close>, \<open>outcome\<close>), insertion ordered dictionaries with
    the locale \<open>mapping_store\<close>, and the shared lemmas.  \<open>Py_Text\<close>, \<open>Py_Path\<close>, \<open>Py_Os\<close>: what the sources
    use of Python's number formats, of \<open>pathlib\<close>, \<open>os.path\<close> and \<open>shlex\<close>; \<open>Py_Re\<close>: its regular expressions,
    as a backtracking matcher.
  \<^item> \<open>Bindings\<close>: Python values and the signatures of the bound methods of \<open>mesytec_mcpd_py.cc\<close>.
    What the bound methods do is an argument of the programs (record \<open>api\<close>); \<open>recording_api\<close> is an
    instance that records connections and calls, \<open>wire_api\<close> of \<open>Connection\<close> is the library itself.
  \<^item> \<open>Commands\<close>, \<open>Commands_Facts\<close>: \<open>gui/commands.py\<close>, the tables of settings and commands.  The tables
    fit the bindings (C1), the gain setting sets the gains (C2).
  \<^item> \<open>Config\<close>, \<open>Config_Facts\<close>: \<open>gui/config.py\<close>, the device configurations, their defaults and their JSON
    form as Python values.  Loaded setups are well-formed (C3), saving and loading is the identity (C4).
  \<^item> \<open>Device_Worker\<close>, \<open>Device_Worker_Facts\<close>: \<open>gui/device_worker.py\<close>, the worker threads.  A schedule is a
    list of device numbers, one entry per turn of a thread's event loop, so a statement for all
    schedules holds for every interleaving.  Jobs are executed in order (C5), a draining shutdown
    executes them all (C6), every job reports once (C7), calls go to open connections and every
    connection is closed (C8).  The locale \<open>fifo_workers\<close> states what the clients rely on.
  \<^item> \<open>Device_Panel\<close>, \<open>Device_Panel_Facts\<close>, \<open>Device_Panel_Invariant\<close>: \<open>gui/device_panel.py\<close>.  Applying
    settings sends exactly the applicable settings (C9) and configures the gains (C10); the handlers
    keep table, tree, selection and setup consistent and never raise (C11, over the step relation
    \<open>panel_step\<close>); the filter (\<open>filter_shows_matches\<close>).
  \<^item> \<open>Pulser_Test\<close>, \<open>Pulser_Test_Facts\<close>: \<open>gui/pulser_test.py\<close> with the workers it drives, as a step
    relation \<open>tstep\<close>: lockstep (C12), pulsers off (C13), a full cycle (C14).
  \<^item> \<open>Stats\<close>, \<open>Stats_Facts\<close>: \<open>gui/stats.py\<close>: matching of sources to devices (C15), rates
    (\<open>rates_between_updates\<close>).
  \<^item> \<open>Daq\<close>: the readout control as its Python class shows it (\<open>daq.cc\<close>, \<open>daq.h\<close>, \<open>readout_worker.h\<close>), with
    the thread given by the events it causes; the locale \<open>readout_control\<close> has the laws that the
    programs rely on.  \<open>Packets\<close>, \<open>Packets_Facts\<close>: data packets as they lie in memory, 48 bit values, the
    decoding of events, the validity check (\<open>mcpd_core.h\<close>, \<open>packet_io.cc\<close>), UDP and listfile sources and
    the listfile writer.  Events survive packets (C28), packets survive listfiles (C29).
    \<open>Collectors\<close>, \<open>Collectors_Facts\<close>: \<open>histogrammers.cc\<close> and \<open>source_stats.cc\<close> over 64 bit counts, with the
    locale \<open>source_table\<close> for their maps.  The histograms are exact (C30, C31), lost packets are
    counted across the wrap around of the buffer numbers (C32).  \<open>Readout_Loop\<close>: \<open>ReadoutWorker::loop\<close>
    over everything its source and its listfile may answer, and the arrays the bindings make of its
    counts.  Each round is an event of the abstract control (C33), and nothing is lost in the
    loop (C34).
  \<^item> \<open>Cli\<close>, \<open>Cli_Commands\<close>, \<open>Cli_Facts\<close>: \<open>src/cli\<close>, the command line tool; \<open>click\<close> is an argument.  Calls fit the
    bindings (C16), one connection (C17), device errors become messages (C18), decoding of inputs
    (\<open>decode_inputs_words\<close>).
    \<open>Cli_Readout\<close>, \<open>Cli_Readout_Facts\<close>: \<open>readout_cmd.py\<close>, \<open>replay_cmd.py\<close>: the readout always stops (C19) and, with
    a duration, ends (C20).
  \<^item> \<open>Qt\<close>, \<open>Window_Ui\<close>: widgets, layouts and connections as data, the controls and the statistics table of
    the window.  \<open>Histo_View\<close>, \<open>Histo_View_Facts\<close>: \<open>gui/histo_view.py\<close>: selection of the device
    (\<open>device_list_selection\<close>), the cursor (C21), saved state (\<open>view_state_roundtrip\<close>), no operation raises (C22).
  \<^item> \<open>Main_Window\<close>, \<open>Main_Window_Setup\<close>, \<open>Main_Window_Facts\<close>, \<open>Main_Window_Runs\<close>: \<open>gui/main_window.py\<close>, one
    definition per method over the record \<open>window\<close>, and the events \<open>win_event\<close> that may happen in any
    order.  The controls follow the readout (C24), the protocol of a run (C25), a stop is never
    lost (C26), closing shuts everything down (C27).  \<open>Gui_Start\<close>: the log handler and view, fonts and
    \<open>main\<close>, which always reaches a window (C23).  \<open>Resources\<close>: the tables of \<open>gui/resources.py\<close>; the font that
    \<open>main\<close> asks for is one of the embedded files.
  \<^item> \<open>Packet_Csv\<close>, \<open>Packet_Csv_Facts\<close>: \<open>mcpd-cli-check-mdll-stuffz.py\<close> and the example script for
    \<open>mcpd-cli\<close>.  The CSV file is complete and correct (C35).
  \<^item> \<open>Protocol\<close>, \<open>Protocol_Facts\<close>: \<open>mcpd_functions.cc\<close>, \<open>mdll_functions.cc\<close> and the UDP sockets: command packets,
    transactions, one function per command, over the record \<open>sockets\<close> of what the operating system
    answers.  A result is \<open>Value\<close>, \<open>Failed\<close> or \<open>Wild\<close>, a read outside of a packet.  Requests read back (C36), a
    transaction ends after one to five requests (C37).  \<open>Connection\<close>, \<open>Connection_Facts\<close>: \<open>McpdConnection\<close> and
    its bindings (\<open>mcpd_py_commands.cc\<close>, \<open>mesytec_mcpd_py.cc\<close>): calls end with a reply of their type or
    with \<open>McpdError\<close> (C38).
  \<^item> \<open>Device_Link\<close>: the simulated device of the tests and a link that loses requests and answers, with the
    locale \<open>answering_device\<close> for what a transaction needs of a device.  \<open>Link_Facts\<close>: programs, library, link and
    device together: registers read back (C39), the gains set in the program arrive (C40).  \<open>Answers\<close>: the
    search for the id of a device, and what late, short and damaged answers lead to.
  \<^item> \<open>Doc_Images\<close>: the directives of \<open>doc/sphinx/ext/autoimage.py\<close>.  \<open>Pybind_Commands\<close>, \<open>Pybind_Setup\<close>: the
    Python part of the vendored pybind11 that the build uses; the flags it prints survive the
    shell, probing the compiler leaves no trace, in any order of the threads the same objects are
    compiled.  \<open>Build_Scripts\<close>, \<open>Pybind_Tools\<close>: the scripts of spdlog, lyra and pybind11; the merging of
    headers ends whatever cycles their includes have, the changelog reports every issue once, a
    session leaves the project file as it was.

  Conventions.  A raise is a value: \<open>'a res\<close> for expressions, \<open>'s outcome\<close> for statements, whose state is
  the one at the raise.  Numbers of the library are words of their width; Python's are integers;
  floating point rates are rationals.  A dictionary is a list of pairs without repeated keys.  Fuel
  occurs in \<open>Resources\<close>, where the depth 8 exceeds that of the tree (2), and in \<open>Build_Scripts\<close>, where it
  is the recursion limit of the interpreter and is not reached (\<open>cpp_ends\<close>); loops that may run
  forever are \<open>partial_function\<close>s.

  Not modelled.  Qt, pyqtgraph, click, argparse, docutils, setuptools and the operating system are
  outside: their answers are arguments, with what is assumed of them stated in the theorems that
  need it.  Colours, pens and painting have no model.  Of the device protocol the Windows branch,
  the serial commands (disabled in the source) and the texts for the log are left out, and assertions
  are off.  Mutexes of the library are left out: an operation of another thread happens between two
  rounds of the loop.  The contents of the embedded fonts, tests, C++ tools, the C++ headers of
  pybind11 with the configuration of its documentation, and the Wireshark dissector are left out.
\<close>

end
